(* ===== verification/Prelude.thy ===== *)
theory Prelude
  imports Complex_Main
    "HOL-Library.Multiset"
    "HOL-Library.AList"
    "HOL-Library.Char_ord"
    "HOL-Library.List_Lexorder"
    "HOL-Library.Product_Lexorder"
begin

text \<open>
  Shared vocabulary of the development: Python exceptions as values of a result type,
  the list, dictionary and text operations of the language that the modelled code uses
  (\<open>dict.fromkeys\<close>, dictionary comprehensions, \<open>str.strip\<close>, \<open>str.rstrip\<close>, stable
  sorting), and the generic facts on them that the component theories share.
\<close>

section \<open>Collections of facts\<close>

named_theorems res_simps \<open>computation rules for results that may be exceptions\<close>
named_theorems text_simps \<open>computation rules for text operations\<close>

section \<open>Exceptions as values\<close>

text \<open>The exceptions that the modelled code raises. The text is the message, the error code
  or the offending key, whichever the code makes visible. \<open>IntegrityError\<close> is the violation of
  a constraint of the database; \<open>AppError\<close> names an exception class of a single module.\<close>

datatype py_error =
    ValueError string
  | KeyError string
  | TypeError string
  | LookupError string
  | RuntimeError string
  | ValidationError string
  | DomainConflictError string
  | CommandIdempotencyConflictError string
  | DetectionPersistenceConflictError string
  | OperatorRunNotFoundError string
  | UnauthorizedError string
  | NotFoundError string
  | ForbiddenError string
  | IntegrityError string
  | NotImplementedError string
  | AppError string string

type_synonym 'a res = "py_error + 'a"

definition res_bind :: "'a res \<Rightarrow> ('a \<Rightarrow> 'b res) \<Rightarrow> 'b res" where
  "res_bind m f = (case m of Inl e \<Rightarrow> Inl e | Inr x \<Rightarrow> f x)"

definition is_ok :: "'a res \<Rightarrow> bool" where
  "is_ok m = (case m of Inl _ \<Rightarrow> False | Inr _ \<Rightarrow> True)"

fun res_map :: "('a \<Rightarrow> 'b res) \<Rightarrow> 'a list \<Rightarrow> 'b list res" where
  "res_map f [] = Inr []"
| "res_map f (x # xs) = res_bind (f x) (\<lambda>y. res_bind (res_map f xs) (\<lambda>ys. Inr (y # ys)))"

lemma res_bind_simps [simp, res_simps]:
  "res_bind (Inl e) f = Inl e"
  "res_bind (Inr x) f = f x"
  by (simp_all add: res_bind_def)

lemma is_ok_simps [simp, res_simps]:
  "is_ok (Inr x)"
  "\<not> is_ok (Inl e)"
  by (simp_all add: is_ok_def)

lemma is_ok_iff: "is_ok m \<longleftrightarrow> (\<exists>x. m = Inr x)"
  by (cases m) auto

lemma res_bind_cong [fundef_cong]:
  "m = m' \<Longrightarrow> (\<And>x. m' = Inr x \<Longrightarrow> f x = g x) \<Longrightarrow> res_bind m f = res_bind m' g"
  by (cases m') auto

lemma res_bind_eq_Inr: "res_bind m f = Inr y \<longleftrightarrow> (\<exists>x. m = Inr x \<and> f x = Inr y)"
  by (cases m) auto

lemma res_bind_eq_Inl:
  "res_bind m f = Inl e \<longleftrightarrow> m = Inl e \<or> (\<exists>x. m = Inr x \<and> f x = Inl e)"
  by (cases m) auto

lemma is_ok_bind: "is_ok (res_bind m f) \<longleftrightarrow> (\<exists>x. m = Inr x \<and> is_ok (f x))"
  by (cases m) auto

lemma is_ok_bind_Inr [simp]: "is_ok (res_bind m (\<lambda>x. Inr (f x))) = is_ok m"
  by (cases m) auto

lemma is_ok_bind_post:
  "is_ok (res_bind m (\<lambda>x. res_bind (f x) (\<lambda>y. Inr (g x y)))) = is_ok (res_bind m f)"
  by (cases m) auto

lemma res_map_eq_Inr:
  "res_map f xs = Inr ys \<longleftrightarrow> list_all2 (\<lambda>x y. f x = Inr y) xs ys"
proof (induction xs arbitrary: ys)
  case Nil
  then show ?case by auto
next
  case (Cons x xs)
  then show ?case by (auto simp: res_bind_eq_Inr list_all2_Cons1)
qed

lemma res_map_set:
  "res_map f xs = Inr ys \<Longrightarrow> y \<in> set ys \<Longrightarrow> \<exists>x \<in> set xs. f x = Inr y"
  by (auto simp: res_map_eq_Inr list_all2_conv_all_nth in_set_conv_nth) (metis nth_mem)

lemma res_map_length: "res_map f xs = Inr ys \<Longrightarrow> length ys = length xs"
  by (auto simp: res_map_eq_Inr dest: list_all2_lengthD)

lemma is_ok_res_map: "is_ok (res_map f xs) \<longleftrightarrow> (\<forall>x \<in> set xs. is_ok (f x))"
proof (induction xs)
  case Nil
  then show ?case by simp
next
  case (Cons x xs)
  then show ?case by (cases "f x"; cases "res_map f xs") auto
qed

section \<open>Lists and dictionaries\<close>

text \<open>\<open>dict.fromkeys\<close> keeps the first occurrence of every key, in order.\<close>

definition fromkeys :: "'a list \<Rightarrow> 'a list" where
  "fromkeys xs = foldl (\<lambda>acc x. if x \<in> set acc then acc else acc @ [x]) [] xs"

lemma fromkeys_snoc:
  "fromkeys (xs @ [x]) = (if x \<in> set (fromkeys xs) then fromkeys xs else fromkeys xs @ [x])"
  by (simp add: fromkeys_def)

lemma set_fromkeys [simp]: "set (fromkeys xs) = set xs"
  by (induction xs rule: rev_induct) (auto simp: fromkeys_snoc, simp add: fromkeys_def)

lemma distinct_fromkeys [simp]: "distinct (fromkeys xs)"
  by (induction xs rule: rev_induct) (auto simp: fromkeys_snoc, simp add: fromkeys_def)

lemma fromkeys_distinct_id: "distinct xs \<Longrightarrow> fromkeys xs = xs"
proof (induction xs rule: rev_induct)
  case Nil
  then show ?case by (simp add: fromkeys_def)
next
  case (snoc x xs)
  then show ?case by (simp add: fromkeys_snoc)
qed

lemma fromkeys_Nil_iff [simp]: "fromkeys xs = [] \<longleftrightarrow> xs = []"
  using set_fromkeys[of xs] by (metis set_empty)

text \<open>A dictionary comprehension: a later pair replaces an earlier one with the same key.\<close>

definition dict_of :: "('k \<times> 'v) list \<Rightarrow> ('k \<rightharpoonup> 'v)" where
  "dict_of kvs = map_of (rev kvs)"

lemma dict_of_SomeD: "dict_of kvs k = Some v \<Longrightarrow> (k, v) \<in> set kvs"
  by (auto simp: dict_of_def dest: map_of_SomeD)

lemma distinct_iff_count: "distinct xs \<longleftrightarrow> (\<forall>a. count (mset xs) a \<le> 1)"
proof (induction xs)
  case Nil
  then show ?case by simp
next
  case (Cons x xs)
  have "(\<forall>a. count (mset (x # xs)) a \<le> 1) \<longleftrightarrow> count (mset xs) x = 0 \<and> (\<forall>a. count (mset xs) a \<le> 1)"
    by (auto simp: le_Suc_eq)
  with Cons show ?case by (simp add: count_eq_zero_iff)
qed

lemma distinct_sub_mset:
  assumes "mset ys \<subseteq># mset xs" "distinct xs"
  shows "distinct ys"
  using assms mset_subset_eq_count [OF assms(1)] unfolding distinct_iff_count
  by (meson order_trans)

lemma list_all2_right: "list_all2 R xs ys \<Longrightarrow> y \<in> set ys \<Longrightarrow> \<exists>x \<in> set xs. R x y"
  by (induction rule: list_all2_induct) auto

lemma list_all2_left: "list_all2 R xs ys \<Longrightarrow> x \<in> set xs \<Longrightarrow> \<exists>y \<in> set ys. R x y"
  by (induction rule: list_all2_induct) auto

text \<open>\<open>min(xs, key=f)\<close>: the first element with the least key.\<close>

definition min_by :: "('a \<Rightarrow> 'k :: linorder) \<Rightarrow> 'a \<Rightarrow> 'a list \<Rightarrow> 'a" where
  "min_by f x xs = foldl (\<lambda>b y. if f y < f b then y else b) x xs"

lemma min_by_in: "min_by f x xs \<in> set (x # xs)"
  unfolding min_by_def by (induction xs arbitrary: x) (auto split: if_splits)

lemma min_by_le: "y \<in> set (x # xs) \<Longrightarrow> f (min_by f x xs) \<le> f y"
  unfolding min_by_def
proof (induction xs arbitrary: x y)
  case Nil
  then show ?case by simp
next
  case (Cons z zs)
  let ?m = "if f z < f x then z else x"
  have "f (foldl (\<lambda>b y. if f y < f b then y else b) ?m zs) \<le> f w" if "w \<in> set (?m # zs)" for w
    using that by (rule Cons.IH)
  moreover have "f ?m \<le> f x" "f ?m \<le> f z" by auto
  ultimately show ?case using Cons.prems by (auto intro: order_trans split: if_splits)
qed

text \<open>The \<open>list.index\<close> method: the first position that holds an equal element.\<close>

fun list_index :: "'a \<Rightarrow> 'a list \<Rightarrow> nat option" where
  "list_index x [] = None"
| "list_index x (y # ys) = (if x = y then Some 0 else map_option Suc (list_index x ys))"

lemma list_index_SomeD: "list_index x xs = Some i \<Longrightarrow> i < length xs \<and> xs ! i = x"
  by (induction xs arbitrary: i) (auto split: if_splits)

lemma list_index_eq_None: "list_index x xs = None \<longleftrightarrow> x \<notin> set xs"
  by (induction xs) auto

text \<open>Python's \<open>a or b\<close> on an optional text: a missing or empty text falls through.\<close>

definition text_or :: "string option \<Rightarrow> string \<Rightarrow> string" where
  "text_or t d = (case t of None \<Rightarrow> d | Some s \<Rightarrow> if s = [] then d else s)"

definition text_truthy :: "string option \<Rightarrow> bool" where
  "text_truthy t = (case t of None \<Rightarrow> False | Some s \<Rightarrow> s \<noteq> [])"

lemma text_or_simps [simp, text_simps]:
  "text_or None d = d"
  "text_or (Some []) d = d"
  "text_or (Some (c # cs)) d = c # cs"
  by (simp_all add: text_or_def)

lemma text_truthy_simps [simp, text_simps]:
  "\<not> text_truthy None"
  "text_truthy (Some s) \<longleftrightarrow> s \<noteq> []"
  by (simp_all add: text_truthy_def)

section \<open>Text\<close>

text \<open>Texts are lists of characters with code points 0 to 255. White space is what
  \<open>str.isspace\<close> accepts in that range.\<close>

definition py_isspace :: "char \<Rightarrow> bool" where
  "py_isspace c =
     (let n = (of_char c :: int)
      in (9 \<le> n \<and> n \<le> 13) \<or> (28 \<le> n \<and> n \<le> 32) \<or> n = 133 \<or> n = 160)"

definition lstrip_by :: "('a \<Rightarrow> bool) \<Rightarrow> 'a list \<Rightarrow> 'a list" where
  "lstrip_by p s = dropWhile p s"

definition rstrip_by :: "('a \<Rightarrow> bool) \<Rightarrow> 'a list \<Rightarrow> 'a list" where
  "rstrip_by p s = rev (dropWhile p (rev s))"

definition py_strip :: "string \<Rightarrow> string" where
  "py_strip s = rstrip_by py_isspace (lstrip_by py_isspace s)"

definition rstrip_slash :: "string \<Rightarrow> string" where
  "rstrip_slash s = rstrip_by (\<lambda>c. c = CHR ''/'') s"

lemma rstrip_by_last: "rstrip_by p s \<noteq> [] \<Longrightarrow> \<not> p (last (rstrip_by p s))"
  by (simp add: rstrip_by_def last_rev hd_dropWhile)

lemma py_strip_Nil_iff: "py_strip s = [] \<longleftrightarrow> list_all py_isspace s"
proof -
  have "py_strip s = [] \<longleftrightarrow> (\<forall>c \<in> set (dropWhile py_isspace s). py_isspace c)"
    by (simp add: py_strip_def lstrip_by_def rstrip_by_def)
  also have "\<dots> \<longleftrightarrow> (\<forall>c \<in> set s. py_isspace c)"
    by (metis dropWhile_eq_Nil_conv hd_dropWhile hd_in_set set_dropWhileD)
  finally show ?thesis by (simp add: list_all_iff)
qed

text \<open>\<open>str.lower\<close> on code points up to 255.\<close>

definition py_lower_char :: "char \<Rightarrow> char" where
  "py_lower_char c =
     (let n = (of_char c :: int) in
      if (65 \<le> n \<and> n \<le> 90) \<or> (192 \<le> n \<and> n \<le> 222 \<and> n \<noteq> 215) then char_of (n + 32) else c)"

definition py_lower :: "string \<Rightarrow> string" where
  "py_lower s = map py_lower_char s"

text \<open>\<open>part in s\<close> on texts.\<close>

primrec text_contains :: "string \<Rightarrow> string \<Rightarrow> bool" where
  "text_contains p [] \<longleftrightarrow> p = []"
| "text_contains p (c # cs) \<longleftrightarrow> take (length p) (c # cs) = p \<or> text_contains p cs"

text \<open>The decimal text of a non-negative integer, as \<open>str\<close> prints it.\<close>

definition digit_char :: "int \<Rightarrow> char" where
  "digit_char d = char_of (48 + d)"

function nat_text :: "int \<Rightarrow> string" where
  "nat_text n = (if n < 10 then [digit_char n] else nat_text (n div 10) @ [digit_char (n mod 10)])"
  by pat_completeness auto
termination
  by (relation "measure nat") auto

declare nat_text.simps [simp del]

section \<open>Searching a table\<close>

lemma find_map_keeps:
  assumes "find P xs = Some x" "\<And>y. y \<in> set xs \<Longrightarrow> P (f y) = P y"
  shows "find P (map f xs) = Some (f x)"
  using assms by (induction xs) (auto split: if_splits)

lemma find_SomeD: "find P xs = Some x \<Longrightarrow> x \<in> set xs \<and> P x"
  by (auto simp: find_Some_iff)

lemma find_snoc: "find P xs = None \<Longrightarrow> P x \<Longrightarrow> find P (xs @ [x]) = Some x"
  by (induction xs) (auto split: if_splits)

section \<open>Stable sorting\<close>

text \<open>Python's \<open>sorted(xs, key=f)\<close> is \<open>sort_key f xs\<close>: a sorted permutation that keeps the
  order of elements with equal keys.\<close>

lemma set_sort_key_iff: "x \<in> set (sort_key f xs) \<longleftrightarrow> x \<in> set xs"
  by simp

lemma sort_key_Nil_iff: "sort_key f xs = [] \<longleftrightarrow> xs = []"
  by (metis length_0_conv length_sort)

lemma pred_option_code [code]: "pred_option P x = (case x of None \<Rightarrow> True | Some y \<Rightarrow> P y)"
  by (cases x) auto

end
