(* ===== verification/Decimals.thy ===== *)
theory Decimals
  imports Prelude
begin

text \<open>
  Decimal numbers as the code uses them: a \<open>Decimal\<close> is a rational, construction from an
  integer or a literal and comparison are exact, and \<open>+\<close>, \<open>*\<close> and \<open>/\<close> round their exact
  result to the 28 significant digits of the default context, ties to the even digit.
  The laws that the scoring code relies on (rounding is monotone on non-negative numbers and
  keeps every number of at most 28 digits) are the locale \<open>rounding_context\<close>, interpreted
  on the default context.
\<close>

section \<open>Rounding to 28 significant digits\<close>

function ndigits :: "int \<Rightarrow> nat" where
  "ndigits n = (if n < 10 then 1 else Suc (ndigits (n div 10)))"
  by pat_completeness auto
termination
  by (relation "measure nat") auto

declare ndigits.simps [simp del]

text \<open>The adjusted exponent: \<open>10 ^ adjusted x \<le> \<bar>x\<bar> < 10 ^ (adjusted x + 1)\<close>.\<close>

definition adjusted :: "rat \<Rightarrow> int" where
  "adjusted x =
     (let a = \<bar>x\<bar> in
      if 1 \<le> a then int (ndigits \<lfloor>a\<rfloor>) - 1
      else - int (ndigits (\<lceil>1 / a\<rceil> - 1)))"

definition ulp :: "rat \<Rightarrow> rat" where
  "ulp x = 10 powi (adjusted x - 27)"

definition round_half_even :: "rat \<Rightarrow> int" where
  "round_half_even q =
     (let f = \<lfloor>q\<rfloor>; r = q - of_int f in
      if r < 1 / 2 then f else if 1 / 2 < r then f + 1 else if even f then f else f + 1)"

definition dec_round :: "rat \<Rightarrow> rat" where
  "dec_round x = (if x = 0 then 0 else of_int (round_half_even (x / ulp x)) * ulp x)"

definition dec_add :: "rat \<Rightarrow> rat \<Rightarrow> rat" where
  "dec_add x y = dec_round (x + y)"

definition dec_mul :: "rat \<Rightarrow> rat \<Rightarrow> rat" where
  "dec_mul x y = dec_round (x * y)"

definition dec_sub :: "rat \<Rightarrow> rat \<Rightarrow> rat" where
  "dec_sub x y = dec_round (x - y)"

text \<open>Division by zero raises in Python; every divisor of the modelled code is a positive
  number, and the definitions that use \<open>dec_div\<close> keep it so.\<close>

definition dec_div :: "rat \<Rightarrow> rat \<Rightarrow> rat" where
  "dec_div x y = dec_round (x / y)"

text \<open>\<open>int(d)\<close> truncates, \<open>quantize(Decimal("1"), ROUND_HALF_UP)\<close> rounds to the nearest
  integer, ties away from zero.\<close>

definition dec_trunc :: "rat \<Rightarrow> int" where
  "dec_trunc x = (if 0 \<le> x then \<lfloor>x\<rfloor> else \<lceil>x\<rceil>)"

definition quantize_half_up :: "rat \<Rightarrow> int" where
  "quantize_half_up x = (if 0 \<le> x then \<lfloor>x + 1 / 2\<rfloor> else - \<lfloor>1 / 2 - x\<rfloor>)"

section \<open>Laws of rounding\<close>

lemma ndigits_pos: "0 < ndigits n"
  by (subst ndigits.simps) simp

lemma ndigits_bounds: "0 < n \<Longrightarrow> 10 ^ (ndigits n - 1) \<le> n \<and> n < 10 ^ ndigits n"
proof (induction n rule: ndigits.induct)
  case (1 n)
  show ?case
  proof (cases "n < 10")
    case True
    with 1 show ?thesis by (simp add: ndigits.simps [of n])
  next
    case False
    then have "0 < n div 10" by auto
    with 1 False have b: "10 ^ (ndigits (n div 10) - 1) \<le> n div 10"
      "n div 10 < 10 ^ ndigits (n div 10)" by auto
    obtain k where k: "ndigits (n div 10) = Suc k"
      using ndigits_pos gr0_implies_Suc by blast
    from b k have "10 * 10 ^ k \<le> n" "n < 10 * 10 ^ Suc k" by auto
    with False k show ?thesis by (simp add: ndigits.simps [of n])
  qed
qed

lemma adjusted_bounds_ge1:
  fixes a :: rat
  assumes "1 \<le> a"
  shows "10 powi (int (ndigits \<lfloor>a\<rfloor>) - 1) \<le> a \<and> a < 10 powi int (ndigits \<lfloor>a\<rfloor>)"
proof -
  let ?n = "\<lfloor>a\<rfloor>"
  have "0 < ?n" using assms by (simp add: le_floor_iff less_le_trans)
  from ndigits_bounds [OF this] have b: "10 ^ (ndigits ?n - 1) \<le> ?n" "?n < 10 ^ ndigits ?n" by auto
  have lo: "10 ^ (ndigits ?n - 1) \<le> a" using b(1) by (simp add: le_floor_iff)
  have hi: "a < 10 ^ ndigits ?n" using b(2) by (simp add: floor_less_iff)
  have e: "int (ndigits ?n) - 1 = int (ndigits ?n - 1)"
    using ndigits_pos by (simp add: of_nat_diff Suc_leI)
  show ?thesis using lo hi unfolding e by simp
qed

lemma adjusted_bounds_lt1:
  fixes a :: rat
  assumes "0 < a" "a < 1"
  shows "10 powi (- int (ndigits (\<lceil>1 / a\<rceil> - 1))) \<le> a
    \<and> a < 10 powi (1 - int (ndigits (\<lceil>1 / a\<rceil> - 1)))"
proof -
  let ?m = "\<lceil>1 / a\<rceil> - 1" let ?k = "ndigits ?m"
  have "1 < 1 / a" using assms by simp
  then have "0 < ?m" by (simp add: less_ceiling_iff)
  from ndigits_bounds [OF this] have b: "10 ^ (?k - 1) \<le> ?m" "?m < 10 ^ ?k" by auto
  obtain j where j: "?k = Suc j" using ndigits_pos gr0_implies_Suc by blast
  from b(2) have "\<lceil>1 / a\<rceil> \<le> 10 ^ ?k" by simp
  then have "1 / a \<le> 10 ^ ?k" by (simp add: ceiling_le_iff)
  then have lo: "10 powi (- int ?k) \<le> a" using assms
    by (simp add: power_int_minus field_simps)
  from b(1) j have "10 ^ j < \<lceil>1 / a\<rceil>" by simp
  then have "10 ^ j < 1 / a" by (simp add: less_ceiling_iff)
  then have "a < inverse (10 ^ j)" using assms by (simp add: field_simps)
  moreover have "1 - int ?k = - int j" using j by simp
  ultimately have hi: "a < 10 powi (1 - int ?k)" by (simp only: power_int_minus power_int_of_nat)
  show ?thesis using lo hi by simp
qed

lemma adjusted_bounds:
  assumes "x \<noteq> 0"
  shows "10 powi adjusted x \<le> \<bar>x\<bar> \<and> \<bar>x\<bar> < 10 powi (adjusted x + 1)"
proof (cases "1 \<le> \<bar>x\<bar>")
  case True
  from adjusted_bounds_ge1 [OF this] True show ?thesis by (simp add: adjusted_def Let_def)
next
  case False
  with assms have "0 < \<bar>x\<bar>" "\<bar>x\<bar> < 1" by auto
  from adjusted_bounds_lt1 [OF this] False show ?thesis
    by (simp add: adjusted_def Let_def add.commute)
qed

lemma powi_less_iff: "(10::rat) powi m < 10 powi n \<longleftrightarrow> m < n"
  by (metis linorder_not_le one_less_numeral_iff power_int_increasing power_int_strict_increasing
      semiring_norm(76) order_less_imp_le)

lemma ulp_pos: "0 < ulp x"
  by (simp add: ulp_def)

lemma adjusted_mono:
  assumes "0 < x" "x \<le> y"
  shows "adjusted x \<le> adjusted y"
proof -
  have "10 powi adjusted x \<le> x" "y < 10 powi (adjusted y + 1)"
    using adjusted_bounds [of x] adjusted_bounds [of y] assms by auto
  with assms have "(10::rat) powi adjusted x < 10 powi (adjusted y + 1)" by linarith
  then show ?thesis by (simp add: powi_less_iff)
qed

lemma round_half_even_int [simp]: "round_half_even (of_int n) = n"
  by (simp add: round_half_even_def)

lemma round_half_even_between: "\<lfloor>q\<rfloor> \<le> round_half_even q \<and> round_half_even q \<le> \<lfloor>q\<rfloor> + 1"
  by (auto simp: round_half_even_def Let_def)

lemma round_half_even_mono:
  assumes "p \<le> q"
  shows "round_half_even p \<le> round_half_even q"
proof (cases "\<lfloor>p\<rfloor> = \<lfloor>q\<rfloor>")
  case True
  with assms show ?thesis by (auto simp: round_half_even_def Let_def)
next
  case False
  with assms floor_mono have "\<lfloor>p\<rfloor> + 1 \<le> \<lfloor>q\<rfloor>" by fastforce
  with round_half_even_between [of p] round_half_even_between [of q] show ?thesis by linarith
qed

lemma scaled_bounds:
  assumes "0 < x"
  shows "10 ^ 27 \<le> x / ulp x \<and> x / ulp x < 10 ^ 28"
proof -
  have b: "10 powi adjusted x \<le> x" "x < 10 powi (adjusted x + 1)"
    using adjusted_bounds [of x] assms by auto
  have u: "10 powi adjusted x = 10 ^ 27 * ulp x"
    by (simp add: ulp_def power_int_diff)
  have u1: "10 powi (adjusted x + 1) = 10 ^ 28 * ulp x"
    by (simp add: ulp_def power_int_diff power_int_add)
  show ?thesis using b ulp_pos [of x] unfolding u u1
    by (simp add: le_divide_eq divide_less_eq)
qed

lemma dec_round_lower:
  assumes "0 < x"
  shows "10 powi adjusted x \<le> dec_round x"
proof -
  have "of_int (10 ^ 27) \<le> x / ulp x" using scaled_bounds [OF assms] by simp
  then have "(10 ^ 27) \<le> round_half_even (x / ulp x)"
    using round_half_even_mono round_half_even_int by metis
  then have "(10::rat) ^ 27 \<le> of_int (round_half_even (x / ulp x))"
    by (metis of_int_le_iff of_int_numeral of_int_power)
  then have "10 ^ 27 * ulp x \<le> of_int (round_half_even (x / ulp x)) * ulp x"
    using ulp_pos by simp
  then show ?thesis using assms by (simp add: dec_round_def ulp_def power_int_diff)
qed

lemma dec_round_upper:
  assumes "0 < x"
  shows "dec_round x \<le> 10 powi (adjusted x + 1)"
proof -
  have "x / ulp x \<le> of_int (10 ^ 28)" using scaled_bounds [OF assms] by simp
  then have "round_half_even (x / ulp x) \<le> 10 ^ 28"
    using round_half_even_mono round_half_even_int by metis
  then have "of_int (round_half_even (x / ulp x)) \<le> (10::rat) ^ 28"
    by (metis of_int_le_iff of_int_numeral of_int_power)
  then have "of_int (round_half_even (x / ulp x)) * ulp x \<le> 10 ^ 28 * ulp x"
    using ulp_pos by simp
  then show ?thesis using assms by (simp add: dec_round_def ulp_def power_int_diff power_int_add)
qed

lemma dec_round_mono:
  assumes "0 \<le> x" "x \<le> y"
  shows "dec_round x \<le> dec_round y"
proof (cases "x = 0")
  case True
  have "0 \<le> dec_round y"
  proof (cases "y = 0")
    case False
    with assms have "10 powi adjusted y \<le> dec_round y" by (intro dec_round_lower) simp
    moreover have "0 \<le> (10::rat) powi adjusted y" by simp
    ultimately show ?thesis by linarith
  qed (simp add: dec_round_def)
  with True show ?thesis by (simp add: dec_round_def)
next
  case False
  with assms have pos: "0 < x" "0 < y" by auto
  show ?thesis
  proof (cases "adjusted x = adjusted y")
    case True
    then have u: "ulp x = ulp y" by (simp add: ulp_def)
    have "x / ulp y \<le> y / ulp y" using assms ulp_pos [of y] by (simp add: divide_right_mono)
    then have "round_half_even (x / ulp y) \<le> round_half_even (y / ulp y)"
      by (rule round_half_even_mono)
    then show ?thesis using pos u ulp_pos [of y] by (simp add: dec_round_def)
  next
    case False
    with adjusted_mono [OF pos(1) assms(2)] have "adjusted x + 1 \<le> adjusted y" by simp
    then have "(10::rat) powi (adjusted x + 1) \<le> 10 powi adjusted y"
      by (simp add: power_int_increasing)
    with dec_round_upper [OF pos(1)] dec_round_lower [OF pos(2)] show ?thesis by linarith
  qed
qed

lemma dec_round_exact:
  assumes "\<bar>m\<bar> < 10 ^ 28"
  shows "dec_round (of_int m * 10 powi e) = of_int m * 10 powi e"
proof (cases "m = 0")
  case True
  then show ?thesis by (simp add: dec_round_def)
next
  case False
  let ?x = "of_int m * 10 powi e :: rat"
  have x: "?x \<noteq> 0" using False by simp
  have "\<bar>of_int m :: rat\<bar> < 10 ^ 28"
    using assms by (metis of_int_abs of_int_less_iff of_int_numeral of_int_power)
  then have "\<bar>?x\<bar> < 10 ^ 28 * 10 powi e" by (simp add: abs_mult)
  also have "\<dots> = 10 powi (28 + e)" by (simp add: power_int_add)
  finally have "(10::rat) powi adjusted ?x < 10 powi (28 + e)"
    using adjusted_bounds [OF x] by linarith
  then have le: "adjusted ?x - 27 \<le> e" by (simp add: powi_less_iff)
  define a where "a = adjusted ?x - 27"
  from le obtain k where k: "e = a + int k" unfolding a_def using zle_iff_zadd by blast
  have u: "ulp ?x = 10 powi a" by (simp add: ulp_def a_def)
  have eq: "?x = of_int (m * 10 ^ k) * ulp ?x"
    unfolding u by (simp add: k power_int_add)
  have "ulp ?x \<noteq> 0" using ulp_pos [of ?x] by simp
  then have "?x / ulp ?x = of_int (m * 10 ^ k)" using eq by (rule nonzero_divide_eq_eq [THEN iffD2])
  then have "dec_round ?x = of_int (m * 10 ^ k) * ulp ?x"
    using x by (simp only: dec_round_def if_False round_half_even_int)
  then show ?thesis by (simp only: eq [symmetric])
qed

section \<open>The contract of a decimal context\<close>

locale rounding_context =
  fixes rnd :: "rat \<Rightarrow> rat"
  assumes rnd_mono: "0 \<le> x \<Longrightarrow> x \<le> y \<Longrightarrow> rnd x \<le> rnd y"
    and rnd_exact: "\<bar>m\<bar> < 10 ^ 28 \<Longrightarrow> rnd (of_int m * 10 powi e) = of_int m * 10 powi e"
begin

lemma rnd_int: "\<bar>m\<bar> < 10 ^ 28 \<Longrightarrow> rnd (of_int m) = of_int m"
  using rnd_exact [of m 0] by simp

lemma rnd_zero: "rnd 0 = 0"
  using rnd_int [of 0] by simp

lemma rnd_nonneg: "0 \<le> x \<Longrightarrow> 0 \<le> rnd x"
  using rnd_mono [of 0 x] rnd_zero by simp

lemma rnd_le_int: "0 \<le> x \<Longrightarrow> x \<le> of_int m \<Longrightarrow> \<bar>m\<bar> < 10 ^ 28 \<Longrightarrow> rnd x \<le> of_int m"
  using rnd_mono [of x "of_int m"] rnd_int [of m] by simp

lemma rnd_ge_int: "0 \<le> m \<Longrightarrow> of_int m \<le> x \<Longrightarrow> \<bar>m\<bar> < 10 ^ 28 \<Longrightarrow> of_int m \<le> rnd x"
  using rnd_mono [of "of_int m" x] rnd_int [of m] by simp

lemma rnd_add_mono:
  "0 \<le> x \<Longrightarrow> 0 \<le> y \<Longrightarrow> x \<le> x' \<Longrightarrow> y \<le> y' \<Longrightarrow> rnd (x + y) \<le> rnd (x' + y')"
  by (rule rnd_mono) auto

lemma rnd_mul_mono:
  "0 \<le> x \<Longrightarrow> 0 \<le> y \<Longrightarrow> x \<le> x' \<Longrightarrow> y \<le> y' \<Longrightarrow> rnd (x * y) \<le> rnd (x' * y')"
  by (rule rnd_mono) (auto intro: mult_mono)

lemma rnd_div_mono:
  "0 \<le> x \<Longrightarrow> x \<le> x' \<Longrightarrow> 0 < y' \<Longrightarrow> y' \<le> y \<Longrightarrow> rnd (x / y) \<le> rnd (x' / y')"
  by (rule rnd_mono) (auto intro: frac_le)

end

interpretation dec: rounding_context dec_round
  by unfold_locales (simp_all only: dec_round_mono dec_round_exact)

lemmas dec_ops = dec_add_def dec_mul_def dec_sub_def dec_div_def

lemma quantize_half_up_mono: "0 \<le> x \<Longrightarrow> x \<le> y \<Longrightarrow> quantize_half_up x \<le> quantize_half_up y"
  by (simp add: quantize_half_up_def floor_mono)

lemma quantize_half_up_nonneg: "0 \<le> x \<Longrightarrow> 0 \<le> quantize_half_up x"
  by (simp add: quantize_half_up_def)

end
