(* ===== verification/Times.thy ===== *)
theory Times
  imports Prelude
begin

text \<open>
  Dates, datetimes and time differences of the standard library, as far as the code uses
  them. A date is its day number (0 is 1970-01-01), a time difference a number of
  microseconds. A datetime is either naive (no time zone) or aware; an aware datetime is
  its instant in microseconds since the epoch. Comparing or subtracting a naive and an
  aware datetime raises \<open>TypeError\<close>.
\<close>

type_synonym date = int
type_synonym timedelta = int

datatype datetime = Naive int | Aware int

definition day_us :: int where
  "day_us = 86400000000"

definition days :: "int \<Rightarrow> timedelta" where
  "days n = n * day_us"

fun is_aware :: "datetime \<Rightarrow> bool" where
  "is_aware (Aware _) = True"
| "is_aware (Naive _) = False"

fun dt_diff :: "datetime \<Rightarrow> datetime \<Rightarrow> timedelta res" where
  "dt_diff (Aware a) (Aware b) = Inr (a - b)"
| "dt_diff (Naive a) (Naive b) = Inr (a - b)"
| "dt_diff _ _ = Inl (TypeError ''can't subtract offset-naive and offset-aware datetimes'')"

fun dt_less :: "datetime \<Rightarrow> datetime \<Rightarrow> bool res" where
  "dt_less (Aware a) (Aware b) = Inr (a < b)"
| "dt_less (Naive a) (Naive b) = Inr (a < b)"
| "dt_less _ _ = Inl (TypeError ''can't compare offset-naive and offset-aware datetimes'')"

fun dt_le :: "datetime \<Rightarrow> datetime \<Rightarrow> bool res" where
  "dt_le (Aware a) (Aware b) = Inr (a \<le> b)"
| "dt_le (Naive a) (Naive b) = Inr (a \<le> b)"
| "dt_le _ _ = Inl (TypeError ''can't compare offset-naive and offset-aware datetimes'')"

fun dt_plus :: "datetime \<Rightarrow> timedelta \<Rightarrow> datetime" where
  "dt_plus (Aware a) d = Aware (a + d)"
| "dt_plus (Naive a) d = Naive (a + d)"

text \<open>\<open>timedelta.days\<close> rounds down.\<close>

definition td_days :: "timedelta \<Rightarrow> int" where
  "td_days d = d div day_us"

text \<open>\<open>datetime.combine(d, time.min, tzinfo=UTC)\<close>.\<close>

definition midnight_utc :: "date \<Rightarrow> datetime" where
  "midnight_utc d = Aware (d * day_us)"

text \<open>The proleptic Gregorian calendar date of a day number, and \<open>date.isoformat\<close>.\<close>

definition civil_of_date :: "date \<Rightarrow> int \<times> int \<times> int" where
  "civil_of_date z0 =
     (let z = z0 + 719468;
          era = z div 146097;
          doe = z mod 146097;
          yoe = (doe - doe div 1460 + doe div 36524 - doe div 146096) div 365;
          doy = doe - (365 * yoe + yoe div 4 - yoe div 100);
          mp = (5 * doy + 2) div 153;
          d = doy - (153 * mp + 2) div 5 + 1;
          m = (if mp < 10 then mp + 3 else mp - 9)
      in (yoe + era * 400 + (if m \<le> 2 then 1 else 0), m, d))"

definition pad_text :: "nat \<Rightarrow> string \<Rightarrow> string" where
  "pad_text w s = replicate (w - length s) (CHR ''0'') @ s"

definition date_isoformat :: "date \<Rightarrow> string" where
  "date_isoformat z =
     (case civil_of_date z of (y, m, d) \<Rightarrow>
        pad_text 4 (nat_text y) @ ''-'' @ pad_text 2 (nat_text m) @ ''-''
          @ pad_text 2 (nat_text d))"

lemma is_awareE: "is_aware t \<Longrightarrow> (\<And>a. t = Aware a \<Longrightarrow> P) \<Longrightarrow> P"
  by (cases t) auto

lemma is_aware_iff: "is_aware t \<longleftrightarrow> (\<exists>a. t = Aware a)"
  by (cases t) auto

lemma aware_ok [simp, intro]:
  assumes "is_aware s" "is_aware t"
  shows "is_ok (dt_diff s t)" "is_ok (dt_less s t)" "is_ok (dt_le s t)"
  using assms by (auto simp: is_aware_iff)

lemma is_aware_plus [simp]: "is_aware (dt_plus t d) = is_aware t"
  by (cases t) auto

lemma date_isoformat_epoch: "date_isoformat 0 = ''1970-01-01''"
  by code_simp

lemma date_isoformat_leap: "date_isoformat 19782 = ''2024-02-29''"
  by code_simp

end
