(* ===== verification/Opportunity_Types.thy ===== *)
theory Opportunity_Types
  imports Decimals Times
begin

text \<open>
  The data of the opportunity engine: the string enumerations of
  \<open>app/modules/operator/enums/operator_enum.py\<close> and the immutable contracts of
  \<open>app/modules/operator/schemas/opportunity_detection_schema.py\<close>. A contract is a record
  with the fields of the source; the bounds that pydantic checks when a value of the contract
  is built are the predicates \<open>valid_*\<close>. A \<open>UUID\<close> is its canonical text.
\<close>

section \<open>Enumerations\<close>

datatype confidence =
    CF_low
  | CF_medium
  | CF_high

fun confidence_value :: "confidence \<Rightarrow> string" where
  "confidence_value CF_low = ''low''"
| "confidence_value CF_medium = ''medium''"
| "confidence_value CF_high = ''high''"

datatype opportunity_type =
    OT_high_impressions_low_ctr
  | OT_ranking_within_reach
  | OT_search_decline
  | OT_shipped_but_not_marketed
  | OT_search_demand_without_dedicated_content
  | OT_existing_page_needs_improvement

fun opportunity_type_value :: "opportunity_type \<Rightarrow> string" where
  "opportunity_type_value OT_high_impressions_low_ctr = ''high_impressions_low_ctr''"
| "opportunity_type_value OT_ranking_within_reach = ''ranking_within_reach''"
| "opportunity_type_value OT_search_decline = ''search_decline''"
| "opportunity_type_value OT_shipped_but_not_marketed = ''shipped_but_not_marketed''"
| "opportunity_type_value OT_search_demand_without_dedicated_content = ''search_demand_without_dedicated_content''"
| "opportunity_type_value OT_existing_page_needs_improvement = ''existing_page_needs_improvement''"

datatype action_family =
    AF_seo_snippet_update
  | AF_existing_page_optimization
  | AF_content_refresh_investigation
  | AF_seo_page_update
  | AF_blog_brief
  | AF_product_update
  | AF_dedicated_content_creation
  | AF_page_quality_fix
  | AF_x_draft

fun action_family_value :: "action_family \<Rightarrow> string" where
  "action_family_value AF_seo_snippet_update = ''seo_snippet_update''"
| "action_family_value AF_existing_page_optimization = ''existing_page_optimization''"
| "action_family_value AF_content_refresh_investigation = ''content_refresh_investigation''"
| "action_family_value AF_seo_page_update = ''seo_page_update''"
| "action_family_value AF_blog_brief = ''blog_brief''"
| "action_family_value AF_product_update = ''product_update''"
| "action_family_value AF_dedicated_content_creation = ''dedicated_content_creation''"
| "action_family_value AF_page_quality_fix = ''page_quality_fix''"
| "action_family_value AF_x_draft = ''x_draft''"

datatype opportunity_status =
    OS_open
  | OS_planned
  | OS_completed
  | OS_dismissed
  | OS_superseded

fun opportunity_status_value :: "opportunity_status \<Rightarrow> string" where
  "opportunity_status_value OS_open = ''open''"
| "opportunity_status_value OS_planned = ''planned''"
| "opportunity_status_value OS_completed = ''completed''"
| "opportunity_status_value OS_dismissed = ''dismissed''"
| "opportunity_status_value OS_superseded = ''superseded''"

datatype evaluation_outcome =
    EO_accepted
  | EO_no_recommendation
  | EO_stopped
  | EO_suppressed_duplicate
  | EO_suppressed_cooldown
  | EO_superseded_in_run

fun evaluation_outcome_value :: "evaluation_outcome \<Rightarrow> string" where
  "evaluation_outcome_value EO_accepted = ''accepted''"
| "evaluation_outcome_value EO_no_recommendation = ''no_recommendation''"
| "evaluation_outcome_value EO_stopped = ''stopped''"
| "evaluation_outcome_value EO_suppressed_duplicate = ''suppressed_duplicate''"
| "evaluation_outcome_value EO_suppressed_cooldown = ''suppressed_cooldown''"
| "evaluation_outcome_value EO_superseded_in_run = ''superseded_in_run''"

datatype evaluation_reason =
    ER_profile_missing
  | ER_profile_not_approved
  | ER_profile_incomplete
  | ER_search_missing
  | ER_search_unhealthy
  | ER_search_baseline_not_ready
  | ER_search_dates_incomplete
  | ER_search_truncated
  | ER_website_missing
  | ER_website_crawl_failed
  | ER_website_stale
  | ER_website_profile_mismatch
  | ER_shipping_signal_ineligible
  | ER_sample_too_small
  | ER_threshold_not_met
  | ER_target_page_ambiguous
  | ER_target_page_missing
  | ER_target_page_nonindexable
  | ER_navigation_or_branded_query
  | ER_capability_mapping_current
  | ER_capability_match_insufficient
  | ER_event_outside_window
  | ER_event_not_public_worthy
  | ER_no_page_quality_defect
  | ER_score_below_threshold
  | ER_confidence_below_threshold
  | ER_strategic_fit_below_threshold
  | ER_overlapping_detector_owner
  | ER_insufficient_evidence
  | ER_stale_data
  | ER_incomplete_data
  | ER_contradictory_evidence
  | ER_duplicate
  | ER_cooldown_active
  | ER_lower_priority
  | ER_unsafe_claim

fun evaluation_reason_value :: "evaluation_reason \<Rightarrow> string" where
  "evaluation_reason_value ER_profile_missing = ''profile_missing''"
| "evaluation_reason_value ER_profile_not_approved = ''profile_not_approved''"
| "evaluation_reason_value ER_profile_incomplete = ''profile_incomplete''"
| "evaluation_reason_value ER_search_missing = ''search_missing''"
| "evaluation_reason_value ER_search_unhealthy = ''search_unhealthy''"
| "evaluation_reason_value ER_search_baseline_not_ready = ''search_baseline_not_ready''"
| "evaluation_reason_value ER_search_dates_incomplete = ''search_dates_incomplete''"
| "evaluation_reason_value ER_search_truncated = ''search_truncated''"
| "evaluation_reason_value ER_website_missing = ''website_missing''"
| "evaluation_reason_value ER_website_crawl_failed = ''website_crawl_failed''"
| "evaluation_reason_value ER_website_stale = ''website_stale''"
| "evaluation_reason_value ER_website_profile_mismatch = ''website_profile_mismatch''"
| "evaluation_reason_value ER_shipping_signal_ineligible = ''shipping_signal_ineligible''"
| "evaluation_reason_value ER_sample_too_small = ''sample_too_small''"
| "evaluation_reason_value ER_threshold_not_met = ''threshold_not_met''"
| "evaluation_reason_value ER_target_page_ambiguous = ''target_page_ambiguous''"
| "evaluation_reason_value ER_target_page_missing = ''target_page_missing''"
| "evaluation_reason_value ER_target_page_nonindexable = ''target_page_nonindexable''"
| "evaluation_reason_value ER_navigation_or_branded_query = ''navigation_or_branded_query''"
| "evaluation_reason_value ER_capability_mapping_current = ''capability_mapping_current''"
| "evaluation_reason_value ER_capability_match_insufficient = ''capability_match_insufficient''"
| "evaluation_reason_value ER_event_outside_window = ''event_outside_window''"
| "evaluation_reason_value ER_event_not_public_worthy = ''event_not_public_worthy''"
| "evaluation_reason_value ER_no_page_quality_defect = ''no_page_quality_defect''"
| "evaluation_reason_value ER_score_below_threshold = ''score_below_threshold''"
| "evaluation_reason_value ER_confidence_below_threshold = ''confidence_below_threshold''"
| "evaluation_reason_value ER_strategic_fit_below_threshold = ''strategic_fit_below_threshold''"
| "evaluation_reason_value ER_overlapping_detector_owner = ''overlapping_detector_owner''"
| "evaluation_reason_value ER_insufficient_evidence = ''insufficient_evidence''"
| "evaluation_reason_value ER_stale_data = ''stale_data''"
| "evaluation_reason_value ER_incomplete_data = ''incomplete_data''"
| "evaluation_reason_value ER_contradictory_evidence = ''contradictory_evidence''"
| "evaluation_reason_value ER_duplicate = ''duplicate''"
| "evaluation_reason_value ER_cooldown_active = ''cooldown_active''"
| "evaluation_reason_value ER_lower_priority = ''lower_priority''"
| "evaluation_reason_value ER_unsafe_claim = ''unsafe_claim''"

datatype evidence_source_kind =
    ES_search
  | ES_website
  | ES_shipping
  | ES_product_profile
  | ES_opportunity_history

fun evidence_source_kind_value :: "evidence_source_kind \<Rightarrow> string" where
  "evidence_source_kind_value ES_search = ''search''"
| "evidence_source_kind_value ES_website = ''website''"
| "evidence_source_kind_value ES_shipping = ''shipping''"
| "evidence_source_kind_value ES_product_profile = ''product_profile''"
| "evidence_source_kind_value ES_opportunity_history = ''opportunity_history''"

datatype freshness_status =
    FS_fresh
  | FS_stale
  | FS_unknown

fun freshness_status_value :: "freshness_status \<Rightarrow> string" where
  "freshness_status_value FS_fresh = ''fresh''"
| "freshness_status_value FS_stale = ''stale''"
| "freshness_status_value FS_unknown = ''unknown''"

datatype effort_band =
    EB_small
  | EB_medium
  | EB_large

fun effort_band_value :: "effort_band \<Rightarrow> string" where
  "effort_band_value EB_small = ''small''"
| "effort_band_value EB_medium = ''medium''"
| "effort_band_value EB_large = ''large''"

text \<open>A string enumeration compares as its texts do; for the enumeration whose texts
  are a sort key this is the order of the type.\<close>

lemma opportunity_type_value_inj: "opportunity_type_value a = opportunity_type_value b \<longleftrightarrow> a = b"
  by (cases a; cases b) simp_all

instantiation opportunity_type :: linorder
begin
definition less_eq_opportunity_type :: "opportunity_type \<Rightarrow> opportunity_type \<Rightarrow> bool" where
  "less_eq_opportunity_type a b = (opportunity_type_value a \<le> opportunity_type_value b)"
definition less_opportunity_type :: "opportunity_type \<Rightarrow> opportunity_type \<Rightarrow> bool" where
  "less_opportunity_type a b = (opportunity_type_value a < opportunity_type_value b)"
instance
  by standard (auto simp: less_eq_opportunity_type_def less_opportunity_type_def
      opportunity_type_value_inj order.strict_iff_order)
end

section \<open>Contracts\<close>

type_synonym uuid = string

datatype metric_value =
    MV_decimal rat
  | MV_int int
  | MV_str string
  | MV_bool bool
  | MV_none

datatype profile_status = PS_draft | PS_approved | PS_archived
datatype match_status = MS_matched | MS_unmatched | MS_ambiguous
datatype search_health = SH_healthy | SH_degraded | SH_failed | SH_revoked
datatype baseline_status = BS_ready | BS_building | BS_failed
datatype page_crawl_status = PC_succeeded | PC_failed | PC_blocked
datatype page_type = PT_homepage | PT_product | PT_pricing | PT_conversion | PT_other
datatype mapping_status = MP_missing | MP_partial | MP_complete
datatype crawl_status = WS_pending | WS_running | WS_succeeded | WS_failed
datatype website_health = WH_healthy | WH_degraded | WH_failed
datatype shipping_outcome = SO_generate | SO_ignore | SO_review

record profile_capability_snapshot =
  pc_capability_key :: string
  pc_name :: string
  pc_description :: "string option"
  pc_active :: bool

record product_profile_snapshot =
  pf_product_name :: "string option"
  pf_profile_id :: "uuid option"
  pf_profile_version :: int
  pf_schema_version :: string
  pf_status :: profile_status
  pf_completeness :: rat
  pf_objective :: "string option"
  pf_audience :: "string option"
  pf_conversion_action :: "string option"
  pf_conversion_url :: "string option"
  pf_positioning :: "string option"
  pf_capabilities :: "profile_capability_snapshot list"

record metric_snapshot =
  mt_clicks :: int
  mt_impressions :: int
  mt_ctr :: rat
  mt_average_position :: rat

record query_performance_snapshot =
  qp_query_fingerprint :: string
  qp_query_text :: string
  qp_current :: metric_snapshot
  qp_prior :: metric_snapshot
  qp_page_fingerprints :: "string list"
  qp_matched_page_fingerprint :: "string option"
  qp_page_match_status :: match_status
  qp_profile_relevance :: rat
  qp_branded :: bool
  qp_navigational :: bool

record search_page_performance_snapshot =
  sp_url_fingerprint :: string
  sp_url :: string
  sp_website_page_fingerprint :: "string option"
  sp_match_status :: match_status
  sp_current :: metric_snapshot
  sp_prior :: metric_snapshot

record search_snapshot =
  ss_source_id :: "uuid option"
  ss_sync_id :: "uuid option"
  ss_health_status :: search_health
  ss_baseline_status :: baseline_status
  ss_current_start :: "date option"
  ss_current_end :: "date option"
  ss_prior_start :: "date option"
  ss_prior_end :: "date option"
  ss_period_start :: "date option"
  ss_period_end :: "date option"
  ss_comparison_start :: "date option"
  ss_comparison_end :: "date option"
  ss_missing_dates :: "date list"
  ss_complete :: bool
  ss_truncated :: bool
  ss_warnings :: "string list"
  ss_current :: "metric_snapshot option"
  ss_prior :: "metric_snapshot option"
  ss_queries :: "query_performance_snapshot list"
  ss_pages :: "search_page_performance_snapshot list"

record query_snapshot =
  qs_query_key :: string
  qs_query :: string
  qs_metrics :: "(string \<times> rat) list"

record page_snapshot =
  ps_page_key :: string
  ps_url :: string
  ps_metrics :: "(string \<times> rat) list"

record website_page_snapshot =
  wp_page_fingerprint :: string
  wp_url :: string
  wp_title :: "string option"
  wp_meta_description :: "string option"
  wp_headings :: "string list"
  wp_h1s :: "string list"
  wp_indexable :: "bool option"
  wp_crawl_status :: page_crawl_status
  wp_canonical_url :: "string option"
  wp_canonical_fingerprint :: "string option"
  wp_page_type :: page_type
  wp_internal_links :: "string list option"

text \<open>The tuple \<open>WebsiteSnapshot.pages\<close> holds values of two contracts.\<close>

datatype any_page = Website_page website_page_snapshot | Plain_page page_snapshot

record capability_mapping_snapshot =
  cm_capability_key :: string
  cm_page_fingerprint :: string
  cm_profile_version :: int
  cm_coverage_score :: rat
  cm_relevance_score :: rat
  cm_status :: mapping_status

record website_snapshot =
  ws_source_id :: "uuid option"
  ws_crawl_id :: "uuid option"
  ws_profile_version :: int
  ws_status :: crawl_status
  ws_health_status :: website_health
  ws_completed_at :: "datetime option"
  ws_complete :: bool
  ws_warnings :: "string list"
  ws_pages :: "any_page list"
  ws_capability_mappings :: "capability_mapping_snapshot list"

record shipping_event_snapshot =
  se_event_id :: "uuid option"
  se_event_key :: string
  se_repository_id :: "uuid option"
  se_mapping_id :: "uuid option"
  se_event_type :: string
  se_occurred_at :: datetime
  se_safe_summary :: "string option"
  se_summary :: "string option"
  se_user_benefit :: "string option"
  se_evaluation_outcome :: shipping_outcome
  se_public_worthiness_score :: rat
  se_capability_key :: "string option"
  se_capability_coverage_score :: rat
  se_capability_relevance_score :: rat

record shipping_snapshot =
  sh_window_start :: "datetime option"
  sh_window_end :: "datetime option"
  sh_events :: "shipping_event_snapshot list"

record opportunity_history_item =
  hi_identity_fingerprint :: string
  hi_action_family :: "action_family option"
  hi_opportunity_type :: "opportunity_type option"
  hi_status :: opportunity_status
  hi_occurred_at :: datetime
  hi_dismissal_reason :: "string option"
  hi_cooldown_until :: "datetime option"
  hi_confidence_score :: "rat option"
  hi_strategic_fit_score :: "rat option"
  hi_priority_score :: "rat option"

text \<open>\<open>OpportunityHistorySnapshot\<close> has the single field \<open>opportunities\<close>; the list itself
  stands for it.\<close>

record detection_input =
  di_schema_version :: string
  di_workspace_id :: uuid
  di_product_id :: uuid
  di_as_of :: datetime
  di_profile :: product_profile_snapshot
  di_search :: "search_snapshot option"
  di_queries :: "query_snapshot list"
  di_pages :: "page_snapshot list"
  di_website :: "website_snapshot option"
  di_shipping :: shipping_snapshot
  di_history :: "opportunity_history_item list"

record evidence_snapshot =
  ev_evidence_key :: string
  ev_source_type :: evidence_source_kind
  ev_source_record_type :: string
  ev_source_id :: "uuid option"
  ev_source_run_id :: "uuid option"
  ev_observed_at :: datetime
  ev_period :: "(string \<times> metric_value) list"
  ev_metrics :: "(string \<times> rat) list"
  ev_public_safe_summary :: string
  ev_confidence_score :: rat
  ev_freshness_status :: freshness_status
  ev_quality_warnings :: "string list"

record score_features =
  sf_impact :: rat
  sf_confidence :: rat
  sf_effort :: rat
  sf_urgency :: rat
  sf_strategic_fit :: rat
  sf_novelty :: rat
  sf_priority :: rat

record detector_candidate =
  dc_opportunity_type :: opportunity_type
  dc_action_family :: action_family
  dc_subject_kind :: string
  dc_subject_keys :: "(string \<times> string) list"
  dc_identity_fingerprint :: string
  dc_observation_fingerprint :: string
  dc_title :: string
  dc_interpretation :: string
  dc_recommended_action :: string
  dc_expected_metric :: "(string \<times> metric_value) list"
  dc_effort_band :: effort_band
  dc_evidence :: "evidence_snapshot list"
  dc_scores :: score_features

record detector_evaluation =
  de_detector_id :: string
  de_detector_version :: string
  de_outcome :: evaluation_outcome
  de_reason_codes :: "evaluation_reason list"
  de_candidate :: "detector_candidate option"
  de_diagnostics :: "(string \<times> metric_value) list"

section \<open>Validation of contracts\<close>

definition valid_score :: "rat \<Rightarrow> bool" where
  "valid_score x \<longleftrightarrow> 0 \<le> x \<and> x \<le> 100"

definition valid_unit :: "rat \<Rightarrow> bool" where
  "valid_unit x \<longleftrightarrow> 0 \<le> x \<and> x \<le> 1"

definition length_between :: "int \<Rightarrow> int \<Rightarrow> string \<Rightarrow> bool" where
  "length_between lo hi s \<longleftrightarrow> lo \<le> int (length s) \<and> int (length s) \<le> hi"

definition valid_profile :: "product_profile_snapshot \<Rightarrow> bool" where
  "valid_profile p \<longleftrightarrow> valid_score (pf_completeness p)
     \<and> (case pf_objective p of None \<Rightarrow> True | Some s \<Rightarrow> length_between 1 1000 s)"

definition valid_metrics :: "metric_snapshot \<Rightarrow> bool" where
  "valid_metrics m \<longleftrightarrow> 0 \<le> mt_clicks m \<and> 0 \<le> mt_impressions m \<and> valid_unit (mt_ctr m)
     \<and> 0 \<le> mt_average_position m"

definition valid_query :: "query_performance_snapshot \<Rightarrow> bool" where
  "valid_query q \<longleftrightarrow> valid_metrics (qp_current q) \<and> valid_metrics (qp_prior q)
     \<and> valid_unit (qp_profile_relevance q)"

definition valid_search_page :: "search_page_performance_snapshot \<Rightarrow> bool" where
  "valid_search_page p \<longleftrightarrow> valid_metrics (sp_current p) \<and> valid_metrics (sp_prior p)"

definition valid_search :: "search_snapshot \<Rightarrow> bool" where
  "valid_search s \<longleftrightarrow> list_all valid_query (ss_queries s) \<and> list_all valid_search_page (ss_pages s)"

definition valid_mapping :: "capability_mapping_snapshot \<Rightarrow> bool" where
  "valid_mapping m \<longleftrightarrow> valid_unit (cm_coverage_score m) \<and> valid_unit (cm_relevance_score m)"

definition valid_event :: "shipping_event_snapshot \<Rightarrow> bool" where
  "valid_event e \<longleftrightarrow> valid_score (se_public_worthiness_score e)
     \<and> valid_unit (se_capability_coverage_score e) \<and> valid_unit (se_capability_relevance_score e)"

definition valid_input :: "detection_input \<Rightarrow> bool" where
  "valid_input d \<longleftrightarrow> valid_profile (di_profile d)
     \<and> (case di_search d of None \<Rightarrow> True | Some s \<Rightarrow> valid_search s)
     \<and> (case di_website d of None \<Rightarrow> True
         | Some w \<Rightarrow> list_all valid_mapping (ws_capability_mappings w))
     \<and> list_all valid_event (sh_events (di_shipping d))"

definition valid_evidence :: "evidence_snapshot \<Rightarrow> bool" where
  "valid_evidence e \<longleftrightarrow> length_between 1 255 (ev_evidence_key e)
     \<and> length_between 1 64 (ev_source_record_type e)
     \<and> length_between 1 1000 (ev_public_safe_summary e)
     \<and> valid_score (ev_confidence_score e)"

definition valid_scores :: "score_features \<Rightarrow> bool" where
  "valid_scores s \<longleftrightarrow> valid_score (sf_impact s) \<and> valid_score (sf_confidence s)
     \<and> valid_score (sf_effort s) \<and> valid_score (sf_urgency s) \<and> valid_score (sf_strategic_fit s)
     \<and> valid_score (sf_novelty s) \<and> valid_score (sf_priority s)"

definition valid_candidate :: "detector_candidate \<Rightarrow> bool" where
  "valid_candidate c \<longleftrightarrow> length_between 1 300 (dc_title c)
     \<and> length_between 1 4000 (dc_interpretation c)
     \<and> length_between 1 4000 (dc_recommended_action c)"

definition accepted_requires_candidate :: "detector_evaluation \<Rightarrow> bool" where
  "accepted_requires_candidate e \<longleftrightarrow> (de_outcome e = EO_accepted \<longrightarrow> de_candidate e \<noteq> None)"

text \<open>Building a value of a contract: the value itself, or pydantic's validation error.\<close>

definition checked :: "('a \<Rightarrow> bool) \<Rightarrow> string \<Rightarrow> 'a \<Rightarrow> 'a res" where
  "checked ok name x = (if ok x then Inr x else Inl (ValidationError name))"

lemma checked_simps [simp]:
  "checked ok name x = Inr y \<longleftrightarrow> ok x \<and> y = x"
  "checked ok name x = Inl e \<longleftrightarrow> \<not> ok x \<and> e = ValidationError name"
  "is_ok (checked ok name x) \<longleftrightarrow> ok x"
  by (auto simp: checked_def)

end
