(* ===== verification/Scoring.thy ===== *)
theory Scoring
  imports Opportunity_Types
begin

text \<open>
  Scores of opportunities: \<open>policies/scoring_policy.py\<close> (the weighted priority, the
  confidence label and the score gate) and \<open>policies/detector_score_policy.py\<close> (the
  features that search and shipping detectors derive from their signals).
\<close>

section \<open>Definitions\<close>

definition confidence_label :: "rat \<Rightarrow> confidence" where
  "confidence_label score =
     (if 80 \<le> score then CF_high else if 60 \<le> score then CF_medium else CF_low)"

definition bound_score :: "rat \<Rightarrow> rat" where
  "bound_score v = max 0 (min 100 v)"

text \<open>The priority before the final bounds, from the six bounded features.\<close>

definition raw_priority :: "rat \<Rightarrow> rat \<Rightarrow> rat \<Rightarrow> rat \<Rightarrow> rat \<Rightarrow> rat \<Rightarrow> int" where
  "raw_priority impact confidence effort urgency strategic_fit novelty =
     (let impact_n = dec_div impact 100;
          confidence_n = dec_div confidence 100;
          effort_n = dec_div effort 100;
          urgency_n = dec_div urgency 100;
          fit_n = dec_div strategic_fit 100;
          novelty_n = dec_div novelty 100;
          urgency_factor = dec_add (1 / 2) (dec_mul (1 / 2) urgency_n);
          effort_factor = dec_add (1 / 2) (dec_mul (1 / 2) effort_n);
          product = dec_mul (dec_mul (dec_mul (dec_mul impact_n confidence_n) fit_n) novelty_n)
                      urgency_factor
      in quantize_half_up (dec_mul (dec_div product effort_factor) 100))"

definition score_opportunity ::
  "rat \<Rightarrow> rat \<Rightarrow> rat \<Rightarrow> rat \<Rightarrow> rat \<Rightarrow> rat \<Rightarrow> score_features" where
  "score_opportunity impact confidence effort urgency strategic_fit novelty =
     (let i = bound_score impact; c = bound_score confidence; e = bound_score effort;
          u = bound_score urgency; f = bound_score strategic_fit; n = bound_score novelty
      in \<lparr>sf_impact = i, sf_confidence = c, sf_effort = e, sf_urgency = u,
          sf_strategic_fit = f, sf_novelty = n,
          sf_priority = max 0 (min 100 (of_int (raw_priority i c e u f n)))\<rparr>)"

definition score_gate :: "score_features \<Rightarrow> evaluation_reason list" where
  "score_gate s =
     (if sf_confidence s < 60 then [ER_confidence_below_threshold] else [])
     @ (if sf_strategic_fit s < 50 then [ER_strategic_fit_below_threshold] else [])"

text \<open>The table \<open>EFFORT\<close> has no entry for three of the action families.\<close>

fun effort_table :: "action_family \<Rightarrow> rat option" where
  "effort_table AF_seo_snippet_update = Some 20"
| "effort_table AF_existing_page_optimization = Some 50"
| "effort_table AF_content_refresh_investigation = Some 50"
| "effort_table AF_product_update = Some 35"
| "effort_table AF_dedicated_content_creation = Some 75"
| "effort_table AF_page_quality_fix = Some 45"
| "effort_table _ = None"

record detector_scores =
  ds_impact :: rat
  ds_confidence :: rat
  ds_fit :: rat
  ds_urgency :: rat
  ds_effort :: rat

definition effort_of :: "action_family \<Rightarrow> rat res" where
  "effort_of a = (case effort_table a of None \<Rightarrow> Inl (KeyError (action_family_value a))
     | Some e \<Rightarrow> Inr e)"

definition search_scores ::
  "metric_snapshot \<Rightarrow> action_family \<Rightarrow> rat \<Rightarrow> rat \<Rightarrow> detector_scores res" where
  "search_scores metrics action relevance signal =
     (let impressions = of_int (mt_impressions metrics);
          sample = min 100 (dec_add 60 (dec_div impressions 10));
          impact = min 100 (dec_add (dec_add 45 (dec_div impressions 20)) signal);
          urgency = min 100 (dec_add 40 signal)
      in res_bind (effort_of action) (\<lambda>effort. Inr
           \<lparr>ds_impact = impact, ds_confidence = sample,
            ds_fit = min 100 (dec_add 55 (dec_mul relevance 45)),
            ds_urgency = urgency, ds_effort = effort\<rparr>))"

text \<open>The default of the keyword argument \<open>relevance\<close>.\<close>

definition default_relevance :: rat where
  "default_relevance = 1 / 2"

definition shipping_scores :: "rat \<Rightarrow> rat \<Rightarrow> action_family \<Rightarrow> detector_scores res" where
  "shipping_scores worthiness capability_importance action =
     res_bind (effort_of action) (\<lambda>effort. Inr
       \<lparr>ds_impact = min 100 (dec_add (dec_mul worthiness (7 / 10))
                                    (dec_mul capability_importance 30)),
        ds_confidence = min 100 (dec_add 65 (dec_mul capability_importance 30)),
        ds_fit = min 100 (dec_add 60 (dec_mul capability_importance 40)),
        ds_urgency = 75, ds_effort = effort\<rparr>)"

section \<open>Bounds\<close>

lemma bound_score_valid [simp]: "valid_score (bound_score v)"
  by (simp add: valid_score_def bound_score_def)

lemma bound_score_id: "valid_score v \<Longrightarrow> bound_score v = v"
  by (simp add: valid_score_def bound_score_def)

lemma bound_score_mono: "v \<le> w \<Longrightarrow> bound_score v \<le> bound_score w"
  by (auto simp: bound_score_def)

lemma valid_scores_score_opportunity: "valid_scores (score_opportunity i c e u f n)"
  by (auto simp: valid_scores_def score_opportunity_def Let_def)
    (auto simp: valid_score_def)

lemma score_opportunity_fields [simp]:
  "sf_impact (score_opportunity i c e u f n) = bound_score i"
  "sf_confidence (score_opportunity i c e u f n) = bound_score c"
  "sf_effort (score_opportunity i c e u f n) = bound_score e"
  "sf_urgency (score_opportunity i c e u f n) = bound_score u"
  "sf_strategic_fit (score_opportunity i c e u f n) = bound_score f"
  "sf_novelty (score_opportunity i c e u f n) = bound_score n"
  by (simp_all add: score_opportunity_def Let_def)

section \<open>Monotonicity of the priority\<close>

lemma dec_half_bounds:
  assumes "0 \<le> x"
  shows "1 / 2 \<le> dec_add (1 / 2) (dec_mul (1 / 2) x)"
proof -
  have half: "dec_round (1 / 2) = 1 / 2"
    using dec.rnd_exact [of 5 "-1"] by (simp add: power_int_minus)
  have "dec_round (1 / 2) \<le> dec_add (1 / 2) (dec_mul (1 / 2) x)"
    unfolding dec_ops by (rule dec.rnd_mono) (use assms in \<open>auto intro: dec.rnd_nonneg\<close>)
  then show ?thesis using half by simp
qed

lemma dec_op_nonneg:
  "0 \<le> x \<Longrightarrow> 0 \<le> y \<Longrightarrow> 0 \<le> dec_add x y"
  "0 \<le> x \<Longrightarrow> 0 \<le> y \<Longrightarrow> 0 \<le> dec_mul x y"
  "0 \<le> x \<Longrightarrow> 0 \<le> y \<Longrightarrow> 0 \<le> dec_div x y"
  by (auto simp: dec_ops intro: dec.rnd_nonneg)

lemma dec_op_mono:
  "0 \<le> x \<Longrightarrow> 0 \<le> y \<Longrightarrow> x \<le> x' \<Longrightarrow> y \<le> y' \<Longrightarrow> dec_add x y \<le> dec_add x' y'"
  "0 \<le> x \<Longrightarrow> 0 \<le> y \<Longrightarrow> x \<le> x' \<Longrightarrow> y \<le> y' \<Longrightarrow> dec_mul x y \<le> dec_mul x' y'"
  "0 \<le> x \<Longrightarrow> x \<le> x' \<Longrightarrow> 0 < y' \<Longrightarrow> y' \<le> y \<Longrightarrow> dec_div x y \<le> dec_div x' y'"
  unfolding dec_ops by (fact dec.rnd_add_mono dec.rnd_mul_mono dec.rnd_div_mono)+

lemma raw_priority_mono:
  assumes nn: "0 \<le> i" "0 \<le> c" "0 \<le> u" "0 \<le> f" "0 \<le> n" "0 \<le> e'"
    and le: "i \<le> i'" "c \<le> c'" "u \<le> u'" "f \<le> f'" "n \<le> n'" "e' \<le> e"
  shows "raw_priority i c e u f n \<le> raw_priority i' c' e' u' f' n'"
proof -
  have d: "dec_div x 100 \<le> dec_div y 100" "0 \<le> dec_div x 100" if "0 \<le> x" "x \<le> y" for x y
    using that by (auto intro: dec_op_mono dec_op_nonneg)
  have h: "dec_add (1 / 2) (dec_mul (1 / 2) x) \<le> dec_add (1 / 2) (dec_mul (1 / 2) y)"
    "0 \<le> dec_add (1 / 2) (dec_mul (1 / 2) x)" if "0 \<le> x" "x \<le> y" for x y
    using that by (auto intro!: dec_op_mono dec_op_nonneg)
  have pos: "0 < dec_add (1 / 2) (dec_mul (1 / 2) (dec_div e' 100))"
    using dec_half_bounds [of "dec_div e' 100"] d(2) [OF nn(6) order_refl] by linarith
  show ?thesis
    unfolding raw_priority_def Let_def
    by (intro quantize_half_up_mono dec_op_mono dec_op_nonneg d h pos nn le)
      (use nn le in \<open>auto intro!: d h dec_op_nonneg\<close>)
qed

lemma sf_priority_mono:
  assumes "i \<le> i'" "c \<le> c'" "u \<le> u'" "f \<le> f'" "n \<le> n'" "e' \<le> e"
  shows "sf_priority (score_opportunity i c e u f n)
    \<le> sf_priority (score_opportunity i' c' e' u' f' n')"
proof -
  have "raw_priority (bound_score i) (bound_score c) (bound_score e) (bound_score u)
      (bound_score f) (bound_score n)
    \<le> raw_priority (bound_score i') (bound_score c') (bound_score e') (bound_score u')
      (bound_score f') (bound_score n')"
    by (rule raw_priority_mono) (use assms in \<open>auto simp: bound_score_mono\<close>, auto simp: bound_score_def)
  then show ?thesis by (auto simp: score_opportunity_def Let_def intro: min.mono max.mono)
qed

lemma dec_zero [simp]: "dec_mul 0 x = 0" "dec_mul x 0 = 0" "dec_div 0 x = 0"
  by (simp_all add: dec_ops dec.rnd_zero)

lemma sf_priority_novelty_zero: "sf_priority (score_opportunity i c e u f 0) = 0"
  by (simp add: score_opportunity_def raw_priority_def Let_def bound_score_def quantize_half_up_def)

section \<open>The score gate on derived features\<close>

lemma dec_add_ge_int:
  assumes "0 \<le> m" "\<bar>m\<bar> < 10 ^ 28" "0 \<le> y"
  shows "of_int m \<le> dec_add (of_int m) y"
  unfolding dec_ops by (rule dec.rnd_ge_int) (use assms in auto)

lemma dec_add_ge [simp]:
  "0 \<le> y \<Longrightarrow> 40 \<le> dec_add 40 y"
  "0 \<le> y \<Longrightarrow> 45 \<le> dec_add 45 y"
  "0 \<le> y \<Longrightarrow> 55 \<le> dec_add 55 y"
  "0 \<le> y \<Longrightarrow> 60 \<le> dec_add 60 y"
  "0 \<le> y \<Longrightarrow> 65 \<le> dec_add 65 y"
  using dec_add_ge_int [of 40 y] dec_add_ge_int [of 45 y] dec_add_ge_int [of 55 y]
    dec_add_ge_int [of 60 y] dec_add_ge_int [of 65 y] by simp_all

lemma search_scores_bounds:
  assumes "valid_metrics m" "0 \<le> r" "0 \<le> s" "search_scores m a r s = Inr d"
  shows "60 \<le> ds_confidence d" "ds_confidence d \<le> 100" "55 \<le> ds_fit d" "ds_fit d \<le> 100"
    "45 \<le> ds_impact d" "ds_impact d \<le> 100" "40 \<le> ds_urgency d" "ds_urgency d \<le> 100"
proof -
  have i: "0 \<le> dec_div (of_int (mt_impressions m)) k" if "0 \<le> k" for k
    using assms(1) that by (intro dec_op_nonneg) (auto simp: valid_metrics_def)
  have "45 \<le> dec_add (dec_add 45 (dec_div (of_int (mt_impressions m)) 20)) s"
  proof -
    have "dec_add 45 0 \<le> dec_add (dec_add 45 (dec_div (of_int (mt_impressions m)) 20)) s"
      using i [of 20] assms(3) by (intro dec_op_mono) auto
    moreover have "dec_add 45 0 = 45" using dec.rnd_int [of 45] by (simp add: dec_ops)
    ultimately show ?thesis by simp
  qed
  then show "60 \<le> ds_confidence d" "ds_confidence d \<le> 100" "55 \<le> ds_fit d" "ds_fit d \<le> 100"
    "45 \<le> ds_impact d" "ds_impact d \<le> 100" "40 \<le> ds_urgency d" "ds_urgency d \<le> 100"
    using assms i [of 10] dec_op_nonneg(2) [of r 45]
    by (auto simp: search_scores_def Let_def res_bind_eq_Inr)
qed

lemma shipping_scores_bounds:
  assumes "0 \<le> w" "3 / 5 \<le> k" "shipping_scores w k a = Inr d"
  shows "60 \<le> ds_confidence d" "ds_confidence d \<le> 100" "50 \<le> ds_fit d" "ds_fit d \<le> 100"
proof -
  have "0 \<le> k" using assms(2) by linarith
  then have "65 \<le> dec_add 65 (dec_mul k 30)" "60 \<le> dec_add 60 (dec_mul k 40)"
    by (simp_all add: dec_op_nonneg)
  then show "60 \<le> ds_confidence d" "ds_confidence d \<le> 100" "50 \<le> ds_fit d" "ds_fit d \<le> 100"
    using assms by (auto simp: shipping_scores_def res_bind_eq_Inr)
qed

lemma score_gate_Nil_iff:
  "score_gate s = [] \<longleftrightarrow> 60 \<le> sf_confidence s \<and> 50 \<le> sf_strategic_fit s"
  by (auto simp: score_gate_def)

lemma score_gate_passes:
  assumes "60 \<le> c" "50 \<le> f"
  shows "score_gate (score_opportunity i c e u f n) = []"
  using assms by (simp add: score_gate_Nil_iff bound_score_def)

lemma effort_of_simps [simp]:
  "effort_of AF_seo_snippet_update = Inr 20"
  "effort_of AF_existing_page_optimization = Inr 50"
  "effort_of AF_content_refresh_investigation = Inr 50"
  "effort_of AF_product_update = Inr 35"
  "effort_of AF_dedicated_content_creation = Inr 75"
  "effort_of AF_page_quality_fix = Inr 45"
  by (simp_all add: effort_of_def)

end
