(* ===== verification/Eligibility.thy ===== *)
theory Eligibility
  imports Scoring
begin

text \<open>
  What makes a snapshot usable and an opportunity novel:
  \<open>policies/data_quality_policy.py\<close> and \<open>policies/cooldown_policy.py\<close>.
\<close>

section \<open>Data quality\<close>

definition period_days :: "search_snapshot \<Rightarrow> int" where
  "period_days s =
     (case (ss_current_start s, ss_prior_start s, ss_current_end s, ss_prior_end s) of
        (Some cs, Some ps, Some ce, Some pe) \<Rightarrow> (ce - cs + 1) + (pe - ps + 1)
      | _ \<Rightarrow> 0)"

definition periods_are_adjacent :: "search_snapshot \<Rightarrow> bool" where
  "periods_are_adjacent s =
     (case (ss_current_start s, ss_prior_end s) of
        (Some cs, Some pe) \<Rightarrow> pe + 1 = cs
      | _ \<Rightarrow> False)"

definition search_reasons :: "search_snapshot option \<Rightarrow> evaluation_reason list" where
  "search_reasons search =
     (case search of
        None \<Rightarrow> [ER_search_missing]
      | Some s \<Rightarrow>
          (if ss_health_status s \<noteq> SH_healthy then [ER_search_unhealthy] else [])
          @ (if ss_baseline_status s \<noteq> BS_ready then [ER_search_baseline_not_ready] else [])
          @ (if \<not> ss_complete s \<or> ss_missing_dates s \<noteq> [] \<or> period_days s \<noteq> 56
                \<or> \<not> periods_are_adjacent s
             then [ER_search_dates_incomplete] else [])
          @ (if ss_truncated s then [ER_search_truncated] else []))"

text \<open>The staleness test evaluates its disjuncts in order: the datetimes are compared only
  when both are aware.\<close>

definition website_is_stale :: "datetime option \<Rightarrow> datetime \<Rightarrow> bool" where
  "website_is_stale completed_at as_of =
     (case (completed_at, as_of) of
        (Some (Aware c), Aware a) \<Rightarrow> c > a \<or> a - c > days 7
      | _ \<Rightarrow> True)"

definition website_reasons ::
  "website_snapshot option \<Rightarrow> datetime \<Rightarrow> product_profile_snapshot \<Rightarrow> evaluation_reason list" where
  "website_reasons website as_of profile =
     (case website of
        None \<Rightarrow> [ER_website_missing]
      | Some w \<Rightarrow>
          (if ws_status w \<noteq> WS_succeeded \<or> \<not> ws_complete w then [ER_website_crawl_failed] else [])
          @ (if website_is_stale (ws_completed_at w) as_of then [ER_website_stale] else [])
          @ (if ws_profile_version w \<noteq> pf_profile_version profile
             then [ER_website_profile_mismatch] else []))"

definition quality_reasons :: "detection_input \<Rightarrow> bool \<Rightarrow> bool \<Rightarrow> evaluation_reason list" where
  "quality_reasons data requires_search requires_website =
     fromkeys
       ((if pf_status (di_profile data) \<noteq> PS_approved then [ER_profile_not_approved] else [])
        @ (if pf_completeness (di_profile data) < 100 then [ER_profile_incomplete] else [])
        @ (if requires_search then search_reasons (di_search data) else [])
        @ (if requires_website
           then website_reasons (di_website data) (di_as_of data) (di_profile data) else []))"

definition shipping_signal_reasons ::
  "shipping_event_snapshot \<Rightarrow> datetime \<Rightarrow> evaluation_reason list res" where
  "shipping_signal_reasons event as_of =
     res_bind (dt_less as_of (se_occurred_at event)) (\<lambda>future.
     res_bind (if future then Inr True
               else res_bind (dt_diff as_of (se_occurred_at event)) (\<lambda>d. Inr (d > days 28)))
       (\<lambda>outside. Inr
         ((if outside then [ER_event_outside_window] else [])
          @ (if se_evaluation_outcome event \<noteq> SO_generate then [ER_shipping_signal_ineligible] else [])
          @ (if se_public_worthiness_score event < 66 then [ER_event_not_public_worthy] else [])
          @ (if se_capability_coverage_score event < 3 / 5
                \<or> se_capability_relevance_score event < 1 / 5
             then [ER_capability_match_insufficient] else []))))"

section \<open>Cooldown and novelty\<close>

fun completed_days :: "opportunity_type \<Rightarrow> int" where
  "completed_days OT_high_impressions_low_ctr = 56"
| "completed_days OT_ranking_within_reach = 56"
| "completed_days OT_search_decline = 28"
| "completed_days OT_shipped_but_not_marketed = 84"
| "completed_days OT_search_demand_without_dedicated_content = 90"
| "completed_days OT_existing_page_needs_improvement = 56"

definition dismissal_table :: "(string \<times> int) list" where
  "dismissal_table =
     [(''not_relevant'', 90), (''already_done'', 180), (''not_now'', 28),
      (''insufficient_evidence'', 56), (''incorrect_interpretation'', 56),
      (''too_much_effort'', 56), (''duplicate'', 90), (''wrong_target_page'', 56),
      (''other'', 56)]"

definition dismissal_days :: "string option \<Rightarrow> int" where
  "dismissal_days reason =
     (case map_of dismissal_table (text_or reason '''') of None \<Rightarrow> 56 | Some d \<Rightarrow> d)"

text \<open>The end of the cooldown of a history item that is neither active nor superseded.\<close>

definition cooldown_end :: "opportunity_history_item \<Rightarrow> opportunity_type \<Rightarrow> datetime option" where
  "cooldown_end item opportunity_type =
     (let until = hi_cooldown_until item;
          until1 = (if until = None \<and> hi_status item = OS_completed
            then Some (dt_plus (hi_occurred_at item) (days (completed_days opportunity_type)))
            else until)
      in if until1 = None \<and> hi_status item = OS_dismissed
         then Some (dt_plus (hi_occurred_at item) (days (dismissal_days (hi_dismissal_reason item))))
         else until1)"

definition cooldown_decision ::
  "opportunity_history_item \<Rightarrow> opportunity_type \<Rightarrow> datetime
     \<Rightarrow> (rat \<times> evaluation_reason option) res" where
  "cooldown_decision item opportunity_type as_of =
     (if hi_status item \<in> {OS_open, OS_planned} then Inr (0, Some ER_duplicate)
      else if hi_status item = OS_superseded then Inr (100, None)
      else
        res_bind (case cooldown_end item opportunity_type of
                    None \<Rightarrow> Inr False | Some until \<Rightarrow> dt_less as_of until)
          (\<lambda>active.
             if active then Inr (0, Some ER_cooldown_active)
             else res_bind (dt_diff as_of (hi_occurred_at item))
                    (\<lambda>d. Inr (if td_days d < 90 then 70 else 50, None))))"

definition novelty_for_history ::
  "opportunity_history_item list \<Rightarrow> opportunity_type \<Rightarrow> datetime
     \<Rightarrow> (rat \<times> evaluation_reason option) res" where
  "novelty_for_history items opportunity_type as_of =
     (if items = [] then Inr (100, None)
      else
        res_bind (res_map (\<lambda>item. cooldown_decision item opportunity_type as_of) items)
          (\<lambda>decisions.
             (case filter (\<lambda>r. r \<noteq> None) (map snd decisions) of
                Some blocked # _ \<Rightarrow> Inr (0, Some blocked)
              | _ \<Rightarrow> Inr (Min (set (map fst decisions)), None))))"

section \<open>When the quality gate is open\<close>

text \<open>The specification of a usable search window: two adjacent periods of 56 days in all,
  complete, untruncated, from a healthy source with a ready baseline.\<close>

definition search_ready :: "search_snapshot \<Rightarrow> bool" where
  "search_ready s \<longleftrightarrow> ss_health_status s = SH_healthy \<and> ss_baseline_status s = BS_ready
     \<and> ss_complete s \<and> ss_missing_dates s = [] \<and> \<not> ss_truncated s
     \<and> (\<exists>cs ce ps pe. ss_current_start s = Some cs \<and> ss_current_end s = Some ce
         \<and> ss_prior_start s = Some ps \<and> ss_prior_end s = Some pe
         \<and> pe + 1 = cs \<and> ce - ps = 55)"

definition website_ready :: "detection_input \<Rightarrow> website_snapshot \<Rightarrow> bool" where
  "website_ready d w \<longleftrightarrow> ws_status w = WS_succeeded \<and> ws_complete w
     \<and> ws_profile_version w = pf_profile_version (di_profile d)
     \<and> (\<exists>c a. ws_completed_at w = Some (Aware c) \<and> di_as_of d = Aware a \<and> c \<le> a \<and> a - c \<le> days 7)"

lemma search_reasons_Nil_iff:
  "search_reasons s = [] \<longleftrightarrow> (\<exists>x. s = Some x \<and> search_ready x)"
  by (cases s)
    (auto simp: search_reasons_def search_ready_def period_days_def periods_are_adjacent_def
      split: option.splits)

lemma website_reasons_Nil_iff:
  "website_reasons (di_website d) (di_as_of d) (di_profile d) = []
     \<longleftrightarrow> (\<exists>w. di_website d = Some w \<and> website_ready d w)"
  by (cases "di_website d")
    (auto simp: website_reasons_def website_ready_def website_is_stale_def
      split: option.splits datetime.splits)

lemma quality_reasons_Nil_iff:
  "quality_reasons d rs rw = [] \<longleftrightarrow>
     pf_status (di_profile d) = PS_approved \<and> 100 \<le> pf_completeness (di_profile d)
     \<and> (rs \<longrightarrow> (\<exists>s. di_search d = Some s \<and> search_ready s))
     \<and> (rw \<longrightarrow> (\<exists>w. di_website d = Some w \<and> website_ready d w))"
  by (auto simp: quality_reasons_def search_reasons_Nil_iff website_reasons_Nil_iff)

lemma quality_reasons_distinct: "distinct (quality_reasons d rs rw)"
  by (simp add: quality_reasons_def)

section \<open>Facts on cooldown\<close>

definition aware_history :: "opportunity_history_item \<Rightarrow> bool" where
  "aware_history h \<longleftrightarrow> is_aware (hi_occurred_at h)
     \<and> (case hi_cooldown_until h of None \<Rightarrow> True | Some t \<Rightarrow> is_aware t)"

lemma cooldown_end_aware:
  "aware_history h \<Longrightarrow> cooldown_end h t = Some u \<Longrightarrow> is_aware u"
  by (auto simp: cooldown_end_def aware_history_def Let_def split: if_splits option.splits)

lemma cooldown_decision_ok:
  assumes "aware_history h" "is_aware now"
  shows "is_ok (cooldown_decision h t now)"
proof -
  have "is_ok (dt_diff now (hi_occurred_at h))" using assms by (auto simp: aware_history_def)
  moreover have "is_ok (dt_less now u)" if "cooldown_end h t = Some u" for u
    using cooldown_end_aware [OF assms(1) that] assms(2) by auto
  ultimately show ?thesis
    by (auto simp: cooldown_decision_def is_ok_bind is_ok_iff split: option.splits)
qed

text \<open>A decision blocks exactly when its score is 0.\<close>

lemma cooldown_decision_score:
  "cooldown_decision h t now = Inr (s, r) \<Longrightarrow> (r = None \<longleftrightarrow> s \<in> {50, 70, 100}) \<and> (r \<noteq> None \<longleftrightarrow> s = 0)"
  by (auto simp: cooldown_decision_def res_bind_eq_Inr split: if_splits)

text \<open>An item blocks: it is active, or it is completed, dismissed or has an explicit end and the
  cooldown is not over.\<close>

definition blocks :: "opportunity_type \<Rightarrow> datetime \<Rightarrow> opportunity_history_item \<Rightarrow> bool" where
  "blocks t now h \<longleftrightarrow> hi_status h \<in> {OS_open, OS_planned}
     \<or> (hi_status h \<noteq> OS_superseded
        \<and> (\<exists>u. cooldown_end h t = Some u \<and> dt_less now u = Inr True))"

lemma cooldown_decision_blocks:
  "cooldown_decision h t now = Inr (s, r) \<Longrightarrow> r \<noteq> None \<longleftrightarrow> blocks t now h"
  by (auto simp: cooldown_decision_def blocks_def res_bind_eq_Inr split: if_splits option.splits)

lemma filter_Cons_Some: "filter (\<lambda>r. r \<noteq> None) rs = x # xs \<Longrightarrow> x \<noteq> None"
  by (induction rs) (auto split: if_splits)

lemma novelty_for_history_cases:
  assumes "novelty_for_history hs t now = Inr (s, r)"
  shows "(r \<noteq> None \<longleftrightarrow> (\<exists>h \<in> set hs. blocks t now h)) \<and> (r \<noteq> None \<longleftrightarrow> s = 0)
     \<and> (r = None \<longrightarrow> s \<in> {50, 70, 100})"
proof (cases "hs = []")
  case True
  with assms show ?thesis by (auto simp: novelty_for_history_def)
next
  case False
  with assms obtain ds where
    ds: "res_map (\<lambda>h. cooldown_decision h t now) hs = Inr ds" and
    res: "(case filter (\<lambda>r. r \<noteq> None) (map snd ds) of
             Some b # _ \<Rightarrow> Inr (0, Some b)
           | _ \<Rightarrow> Inr (Min (set (map fst ds)), None)) = (Inr (s, r) :: (rat \<times> evaluation_reason option) res)"
    by (auto simp: novelty_for_history_def res_bind_eq_Inr)
  have all2: "list_all2 (\<lambda>h d. cooldown_decision h t now = Inr d) hs ds"
    using ds by (simp add: res_map_eq_Inr)
  then have ne: "ds \<noteq> []" using False by auto
  have ex: "(\<exists>h \<in> set hs. blocks t now h) \<longleftrightarrow> (\<exists>d \<in> set ds. snd d \<noteq> None)"
    using all2 by (induction rule: list_all2_induct)
      (auto dest: cooldown_decision_blocks)
  have mem: "fst d \<in> {50, 70, 100}" if "d \<in> set ds" "snd d = None" for d
    using res_map_set [OF ds that(1)] that(2) cooldown_decision_score by (metis prod.collapse)
  show ?thesis
  proof (cases "filter (\<lambda>r. r \<noteq> None) (map snd ds)")
    case Nil
    then have none: "\<forall>d \<in> set ds. snd d = None" by (auto simp: filter_empty_conv)
    from Nil res have "r = None" "s = Min (set (map fst ds))" by auto
    moreover have "Min (set (map fst ds)) \<in> set (map fst ds)" using ne by (intro Min_in) auto
    then obtain d where "d \<in> set ds" "Min (set (map fst ds)) = fst d" by auto
    ultimately have "s \<in> {50, 70, 100}" using none mem [of d] by simp
    moreover have "\<not> (\<exists>h \<in> set hs. blocks t now h)" using ex none by simp
    ultimately show ?thesis using \<open>r = None\<close> by auto
  next
    case (Cons x xs)
    then obtain b where "x = Some b" using filter_Cons_Some [OF Cons] by auto
    with Cons res have "r = Some b" "s = 0" by auto
    moreover have "\<exists>d \<in> set ds. snd d \<noteq> None"
      using Cons by (metis (mono_tags, lifting) filter_empty_conv imageE list.discI list.set_map)
    ultimately show ?thesis using ex by auto
  qed
qed

lemma novelty_for_history_ok:
  assumes "\<forall>h \<in> set hs. aware_history h" "is_aware now"
  shows "is_ok (novelty_for_history hs t now)"
proof -
  have "is_ok (res_map (\<lambda>h. cooldown_decision h t now) hs)"
    using assms by (simp add: is_ok_res_map cooldown_decision_ok)
  then show ?thesis
    by (auto simp: novelty_for_history_def is_ok_bind is_ok_iff split: list.splits option.splits)
qed

lemma shipping_signal_reasons_ok:
  assumes "is_aware (se_occurred_at e)" "is_aware now"
  shows "is_ok (shipping_signal_reasons e now)"
proof -
  have "is_ok (dt_less now (se_occurred_at e))" "is_ok (dt_diff now (se_occurred_at e))"
    using assms by auto
  then show ?thesis by (auto simp: shipping_signal_reasons_def is_ok_bind is_ok_iff)
qed

lemma shipping_signal_reasons_NilD:
  "shipping_signal_reasons e now = Inr [] \<Longrightarrow>
     se_evaluation_outcome e = SO_generate \<and> 66 \<le> se_public_worthiness_score e
     \<and> 3 / 5 \<le> se_capability_coverage_score e \<and> 1 / 5 \<le> se_capability_relevance_score e"
  by (auto simp: shipping_signal_reasons_def res_bind_eq_Inr split: if_splits)

end
