(* ===== verification/Identity.thy ===== *)
theory Identity
  imports Eligibility
begin

text \<open>
  Fingerprints of opportunities (\<open>policies/identity_policy.py\<close>). A Python value that is
  fingerprinted is a \<open>pyval\<close>; \<open>PText\<close> is a datetime, date, decimal, UUID or enumeration
  member, given by the text that its branch of \<open>_canonical\<close> returns. Lists, tuples and sets are
  all \<open>PSeq\<close>: \<open>_canonical\<close> sorts every one of them.

  Three functions that live outside the repository are the fields of \<open>engine_env\<close>:
  SHA-256 with hexadecimal output, the digest of an observation (pydantic's dump of the
  payload, canonical JSON and SHA-256) and Unicode case folding.
\<close>

section \<open>Canonical JSON\<close>

datatype pyval =
    PStr string
  | PInt int
  | PBool bool
  | PNone
  | PText string
  | PSeq "pyval list"
  | PDict "(string \<times> pyval) list"

definition hex_digit :: "int \<Rightarrow> char" where
  "hex_digit d = (if d < 10 then char_of (48 + d) else char_of (87 + d))"

text \<open>\<open>json.dumps\<close> with \<open>ensure_ascii=True\<close> escapes the quote, the backslash and every
  character outside the range from space to tilde.\<close>

definition json_char :: "char \<Rightarrow> string" where
  "json_char c =
     (let n = (of_char c :: int) in
      if n = 34 then [CHR 0x5C, CHR 0x22]
      else if n = 92 then [CHR 0x5C, CHR 0x5C]
      else if n = 10 then [CHR 0x5C, CHR ''n'']
      else if n = 13 then [CHR 0x5C, CHR ''r'']
      else if n = 9 then [CHR 0x5C, CHR ''t'']
      else if n = 12 then [CHR 0x5C, CHR ''f'']
      else if n = 8 then [CHR 0x5C, CHR ''b'']
      else if 32 \<le> n \<and> n \<le> 126 then [c]
      else [CHR 0x5C, CHR ''u'', CHR ''0'', CHR ''0'', hex_digit (n div 16), hex_digit (n mod 16)])"

definition json_string :: "string \<Rightarrow> string" where
  "json_string s = [CHR 0x22] @ concat (map json_char s) @ [CHR 0x22]"

definition int_text :: "int \<Rightarrow> string" where
  "int_text n = (if n < 0 then CHR ''-'' # nat_text (- n) else nat_text n)"

fun join_text :: "string \<Rightarrow> string list \<Rightarrow> string" where
  "join_text sep [] = []"
| "join_text sep [x] = x"
| "join_text sep (x # y # ys) = x @ sep @ join_text sep (y # ys)"

text \<open>\<open>json.dumps(v, sort_keys=True, separators=(",", ":"))\<close>.\<close>

fun json_dumps :: "pyval \<Rightarrow> string" where
  "json_dumps (PStr s) = json_string s"
| "json_dumps (PInt n) = int_text n"
| "json_dumps (PBool b) = (if b then ''true'' else ''false'')"
| "json_dumps PNone = ''null''"
| "json_dumps (PText s) = json_string s"
| "json_dumps (PSeq xs) = ''['' @ join_text '','' (map json_dumps xs) @ '']''"
| "json_dumps (PDict kvs) =
     ''{'' @ join_text '',''
       (map (\<lambda>(k, d). json_string k @ '':'' @ d)
         (sort_key fst (map (map_prod id json_dumps) kvs))) @ ''}''"

fun canonical :: "pyval \<Rightarrow> pyval" where
  "canonical (PDict kvs) = PDict (sort_key fst (map (map_prod id canonical) kvs))"
| "canonical (PSeq xs) = PSeq (sort_key json_dumps (map canonical xs))"
| "canonical (PText s) = PStr s"
| "canonical v = v"

definition canonical_json :: "pyval \<Rightarrow> string" where
  "canonical_json v = json_dumps (canonical v)"

section \<open>Fingerprints\<close>

text \<open>The payload of an observation fingerprint; the detector version is always \<open>"1"\<close> and the
  policy versions are constants.\<close>

record observation_payload =
  op_detector_id :: string
  op_detector_version :: string
  op_policy_versions :: "(string \<times> string) list"
  op_periods :: "search_snapshot option"
  op_evidence :: "evidence_snapshot list"
  op_metrics :: metric_snapshot
  op_profile_id :: "uuid option"
  op_source_ids :: "uuid option \<times> uuid option"

record engine_env =
  sha256 :: "string \<Rightarrow> string"
  observation_digest :: "observation_payload \<Rightarrow> string"
  casefold :: "string \<Rightarrow> string"

definition digest :: "engine_env \<Rightarrow> pyval \<Rightarrow> string" where
  "digest env v = sha256 env (canonical_json v)"

definition identity_payload ::
  "uuid \<Rightarrow> opportunity_type \<Rightarrow> string \<Rightarrow> (string \<times> string) list \<Rightarrow> action_family \<Rightarrow> pyval" where
  "identity_payload product_id opportunity_type subject_kind subject_keys action_family =
     PSeq [PStr product_id, PText (opportunity_type_value opportunity_type), PStr subject_kind,
       PSeq (map (\<lambda>(k, v). PSeq [PStr k, PStr v]) (sort subject_keys)),
       PText (action_family_value action_family)]"

definition identity_fingerprint ::
  "engine_env \<Rightarrow> uuid \<Rightarrow> opportunity_type \<Rightarrow> string \<Rightarrow> (string \<times> string) list \<Rightarrow> action_family
     \<Rightarrow> string" where
  "identity_fingerprint env product_id opportunity_type subject_kind subject_keys action_family =
     ''opp:v1:'' @ digest env
       (identity_payload product_id opportunity_type subject_kind subject_keys action_family)"

definition observation_fingerprint :: "engine_env \<Rightarrow> observation_payload \<Rightarrow> string" where
  "observation_fingerprint env p = observation_digest env p"

section \<open>Canonical JSON does not depend on the order of a sequence\<close>

lemma map_sort_key: "map f (sort_key f xs) = sort (map f xs)"
  by (rule properties_for_sort [symmetric]) simp_all

lemma canonical_json_PSeq:
  "canonical_json (PSeq xs) = ''['' @ join_text '','' (sort (map canonical_json xs)) @ '']''"
proof -
  have "map json_dumps (sort_key json_dumps (map canonical xs)) = sort (map canonical_json xs)"
    by (simp add: map_sort_key canonical_json_def [abs_def] comp_def)
  then show ?thesis by (simp add: canonical_json_def)
qed

lemma canonical_json_perm:
  assumes "mset xs = mset ys"
  shows "canonical_json (PSeq xs) = canonical_json (PSeq ys)"
proof -
  have "mset (map canonical_json xs) = mset (map canonical_json ys)" using assms by simp
  then have "sort (map canonical_json xs) = sort (map canonical_json ys)"
    by (intro properties_for_sort) simp_all
  then show ?thesis by (simp add: canonical_json_PSeq)
qed

lemma canonical_json_leaf [simp]:
  "canonical_json (PStr s) = json_string s"
  "canonical_json (PText s) = json_string s"
  by (simp_all add: canonical_json_def)

end
