(* ===== verification/Detectors.thy ===== *)
theory Detectors
  imports Identity
begin

text \<open>
  The six detectors of \<open>app/modules/operator/detectors\<close>, the constructors they share
  (\<open>opportunity_support_detector.py\<close>) and the registry that lists them. A detector maps an
  immutable snapshot to a non-empty list of evaluations, or to the exception it raises: a
  value that violates its contract, a missing table entry, or a comparison of a naive with an
  aware datetime.
\<close>

section \<open>Building evaluations\<close>

definition stopped :: "string \<Rightarrow> evaluation_reason list \<Rightarrow> detector_evaluation" where
  "stopped detector_id reasons =
     \<lparr>de_detector_id = detector_id, de_detector_version = ''1'', de_outcome = EO_stopped,
      de_reason_codes = reasons, de_candidate = None, de_diagnostics = []\<rparr>"

definition rejected :: "string \<Rightarrow> evaluation_reason \<Rightarrow> string \<Rightarrow> detector_evaluation" where
  "rejected detector_id reason key =
     \<lparr>de_detector_id = detector_id, de_detector_version = ''1'',
      de_outcome = EO_no_recommendation, de_reason_codes = [reason], de_candidate = None,
      de_diagnostics = [(''subject'', MV_str key)]\<rparr>"

definition period_entry :: "date option \<Rightarrow> metric_value" where
  "period_entry d = (case d of None \<Rightarrow> MV_none | Some x \<Rightarrow> MV_str (date_isoformat x))"

definition search_period :: "search_snapshot option \<Rightarrow> (string \<times> metric_value) list" where
  "search_period search =
     (case search of None \<Rightarrow> []
      | Some s \<Rightarrow> [(''current_start'', period_entry (ss_current_start s)),
                  (''current_end'', period_entry (ss_current_end s)),
                  (''prior_start'', period_entry (ss_prior_start s)),
                  (''prior_end'', period_entry (ss_prior_end s))])"

definition search_observed_at :: "search_snapshot option \<Rightarrow> datetime \<Rightarrow> datetime" where
  "search_observed_at search observed_at =
     (case search of None \<Rightarrow> observed_at
      | Some s \<Rightarrow> (case ss_current_end s of None \<Rightarrow> observed_at | Some d \<Rightarrow> midnight_utc d))"

text \<open>Python's \<open>a or b\<close> on optional UUIDs: a UUID is always true.\<close>

definition uuid_or :: "uuid option \<Rightarrow> uuid option \<Rightarrow> uuid option" where
  "uuid_or a b = (case a of None \<Rightarrow> b | Some x \<Rightarrow> Some x)"

text \<open>No caller passes \<open>source_type\<close>, so it is \<open>"search"\<close> throughout.\<close>

definition default_evidence ::
  "detection_input \<Rightarrow> string \<Rightarrow> string \<Rightarrow> string \<Rightarrow> string \<Rightarrow> metric_snapshot \<Rightarrow> datetime \<Rightarrow> rat
     \<Rightarrow> uuid option \<Rightarrow> uuid option \<Rightarrow> evidence_snapshot" where
  "default_evidence data detector_id subject_kind key title metrics observed_at confidence
      source_id source_run_id =
     (let search = di_search data in
      \<lparr>ev_evidence_key = detector_id @ '':'' @ key,
       ev_source_type = ES_search,
       ev_source_record_type = subject_kind,
       ev_source_id = uuid_or source_id (Option.bind search ss_source_id),
       ev_source_run_id = uuid_or source_run_id (Option.bind search ss_sync_id),
       ev_observed_at = search_observed_at search observed_at,
       ev_period = search_period search,
       ev_metrics = [(''clicks'', of_int (mt_clicks metrics)),
                     (''impressions'', of_int (mt_impressions metrics)),
                     (''ctr'', mt_ctr metrics),
                     (''average_position'', mt_average_position metrics)],
       ev_public_safe_summary = title,
       ev_confidence_score = confidence,
       ev_freshness_status = FS_fresh,
       ev_quality_warnings = []\<rparr>)"

definition website_evidence ::
  "website_snapshot \<Rightarrow> datetime \<Rightarrow> string \<Rightarrow> string \<Rightarrow> rat \<Rightarrow> evidence_snapshot" where
  "website_evidence website completed_at detector_id key confidence =
     \<lparr>ev_evidence_key = detector_id @ '':website:'' @ key,
      ev_source_type = ES_website,
      ev_source_record_type = ''website_page'',
      ev_source_id = ws_source_id website,
      ev_source_run_id = ws_crawl_id website,
      ev_observed_at = completed_at,
      ev_period = [],
      ev_metrics = [],
      ev_public_safe_summary = ''The latest successful crawl verified the target page.'',
      ev_confidence_score = confidence,
      ev_freshness_status = FS_fresh,
      ev_quality_warnings = []\<rparr>"

text \<open>The evidence of a candidate: the given items, or the default item, followed by an item
  for the crawled page when two of the detectors use the default.\<close>

definition candidate_evidence ::
  "detection_input \<Rightarrow> string \<Rightarrow> string \<Rightarrow> rat \<Rightarrow> evidence_snapshot list option \<Rightarrow> evidence_snapshot
     \<Rightarrow> evidence_snapshot list res" where
  "candidate_evidence data detector_id key confidence evidence base =
     (case evidence of
        Some (e # es) \<Rightarrow> Inr (e # es)
      | Some [] \<Rightarrow> Inr [base]
      | None \<Rightarrow>
          (case di_website data of
             None \<Rightarrow> Inr [base]
           | Some w \<Rightarrow>
               (case ws_completed_at w of
                  None \<Rightarrow> Inr [base]
                | Some t \<Rightarrow>
                    if detector_id \<in> {''ranking_within_reach'', ''existing_page_needs_improvement''}
                    then res_bind (checked valid_evidence ''EvidenceSnapshot''
                                    (website_evidence w t detector_id key confidence))
                           (\<lambda>extra. Inr [base, extra])
                    else Inr [base])))"

definition candidate ::
  "engine_env \<Rightarrow> detection_input \<Rightarrow> string \<Rightarrow> opportunity_type \<Rightarrow> action_family \<Rightarrow> string \<Rightarrow> string
     \<Rightarrow> string \<Rightarrow> string \<Rightarrow> metric_snapshot \<Rightarrow> datetime \<Rightarrow> detector_scores
     \<Rightarrow> evidence_snapshot list option \<Rightarrow> uuid option \<Rightarrow> uuid option \<Rightarrow> effort_band
     \<Rightarrow> detector_evaluation res" where
  "candidate env data detector_id opportunity_type action_family subject_kind key title action
      metrics observed_at sc evidence source_id source_run_id effort_band =
     (let keys = [(subject_kind, key)];
          identity = identity_fingerprint env (di_product_id data) opportunity_type subject_kind
                       keys action_family;
          scores = score_opportunity (ds_impact sc) (ds_confidence sc) (ds_effort sc)
                     (ds_urgency sc) (ds_fit sc) 100;
          gates = score_gate scores
      in res_bind (checked valid_evidence ''EvidenceSnapshot''
           (default_evidence data detector_id subject_kind key title metrics observed_at
              (ds_confidence sc) source_id source_run_id)) (\<lambda>base.
         res_bind (candidate_evidence data detector_id key (ds_confidence sc) evidence base)
           (\<lambda>items.
         let observation = observation_fingerprint env
               \<lparr>op_detector_id = detector_id, op_detector_version = ''1'',
                op_policy_versions = [(''scoring'', ''v1''), (''quality'', ''v1'')],
                op_periods = di_search data, op_evidence = items, op_metrics = metrics,
                op_profile_id = pf_profile_id (di_profile data),
                op_source_ids = (Option.bind (di_search data) ss_source_id,
                                 Option.bind (di_website data) ws_source_id)\<rparr>
         in res_bind (checked valid_candidate ''DetectorCandidate''
              \<lparr>dc_opportunity_type = opportunity_type, dc_action_family = action_family,
               dc_subject_kind = subject_kind, dc_subject_keys = keys,
               dc_identity_fingerprint = identity, dc_observation_fingerprint = observation,
               dc_title = title, dc_interpretation = title, dc_recommended_action = action,
               dc_expected_metric = [(''name'', MV_str ''clicks''), (''direction'', MV_str ''increase'')],
               dc_effort_band = effort_band, dc_evidence = items, dc_scores = scores\<rparr>) (\<lambda>item.
            checked accepted_requires_candidate ''DetectorEvaluation''
              \<lparr>de_detector_id = detector_id, de_detector_version = ''1'',
               de_outcome = (if gates \<noteq> [] then EO_no_recommendation else EO_accepted),
               de_reason_codes = gates,
               de_candidate = (if gates \<noteq> [] then None else Some item),
               de_diagnostics = []\<rparr>))))"

text \<open>The last line of every detector: an empty result becomes one rejection.\<close>

definition or_insufficient :: "string \<Rightarrow> detector_evaluation list \<Rightarrow> detector_evaluation list" where
  "or_insufficient detector_id out =
     (if out = [] then [rejected detector_id ER_insufficient_evidence ''none''] else out)"

definition pages_dict :: "any_page list \<Rightarrow> (string \<times> website_page_snapshot) list" where
  "pages_dict pages =
     foldl (\<lambda>d p. case p of Website_page w \<Rightarrow> AList.update (wp_page_fingerprint w) w d
                   | Plain_page _ \<Rightarrow> d) [] pages"

section \<open>High impressions, low click-through rate\<close>

definition ctr_shortfall :: "metric_snapshot \<Rightarrow> int" where
  "ctr_shortfall m = \<lfloor>dec_mul (of_int (mt_impressions m)) (2 / 100)\<rfloor> - mt_clicks m"

definition high_impressions_query ::
  "engine_env \<Rightarrow> detection_input \<Rightarrow> search_snapshot \<Rightarrow> query_performance_snapshot
     \<Rightarrow> detector_evaluation res" where
  "high_impressions_query env data search q =
     (let m = qp_current q; shortfall = ctr_shortfall m in
      if mt_impressions m < 100 \<or> \<not> (1 \<le> mt_average_position m \<and> mt_average_position m \<le> 10)
         \<or> 2 / 100 \<le> mt_ctr m \<or> shortfall < 2
      then Inr (rejected ''high_impressions_low_ctr'' ER_threshold_not_met (qp_query_fingerprint q))
      else if qp_page_match_status q \<noteq> MS_matched \<or> \<not> text_truthy (qp_matched_page_fingerprint q)
      then Inr (rejected ''high_impressions_low_ctr'' ER_target_page_ambiguous (qp_query_fingerprint q))
      else res_bind (search_scores m AF_seo_snippet_update (qp_profile_relevance q)
             (min 30 (of_int (shortfall * 4)))) (\<lambda>scores.
           candidate env data ''high_impressions_low_ctr'' OT_high_impressions_low_ctr
             AF_seo_snippet_update ''query'' (qp_query_fingerprint q)
             (''Improve the search snippet for '' @ qp_query_text q)
             ''Update the title and meta description.'' m (di_as_of data) scores None
             (ss_source_id search) (ss_sync_id search) EB_small))"

definition detect_high_impressions_low_ctr ::
  "engine_env \<Rightarrow> detection_input \<Rightarrow> detector_evaluation list res" where
  "detect_high_impressions_low_ctr env data =
     (let reasons = quality_reasons data True False in
      if reasons \<noteq> [] then Inr [stopped ''high_impressions_low_ctr'' reasons]
      else case di_search data of
          None \<Rightarrow> Inl (RuntimeError ''AssertionError'')
        | Some search \<Rightarrow>
            res_bind (res_map (high_impressions_query env data search)
                       (sort_key qp_query_fingerprint (ss_queries search)))
              (\<lambda>out. Inr (or_insufficient ''high_impressions_low_ctr'' out)))"

section \<open>Ranking within reach\<close>

definition ranking_query ::
  "engine_env \<Rightarrow> detection_input \<Rightarrow> search_snapshot \<Rightarrow> (string \<times> website_page_snapshot) list
     \<Rightarrow> query_performance_snapshot \<Rightarrow> detector_evaluation res" where
  "ranking_query env data search pages q =
     (let m = qp_current q;
          page = map_of pages (text_or (qp_matched_page_fingerprint q) '''');
          reject = (\<lambda>reason. Inr (rejected ''ranking_within_reach'' reason (qp_query_fingerprint q)))
      in
      if mt_impressions m < 100 \<or> \<not> (4 \<le> mt_average_position m \<and> mt_average_position m \<le> 20)
      then reject ER_threshold_not_met
      else if mt_average_position m \<le> 10 \<and> mt_ctr m < 2 / 100
         \<and> dec_trunc (dec_mul (of_int (mt_impressions m)) (2 / 100)) - mt_clicks m \<ge> 2
      then reject ER_overlapping_detector_owner
      else case page of
          None \<Rightarrow> reject ER_target_page_missing
        | Some p \<Rightarrow>
            if wp_indexable p \<noteq> Some True then reject ER_target_page_nonindexable
            else res_bind (search_scores m AF_existing_page_optimization (qp_profile_relevance q)
                   (max 0 (dec_sub 25 (mt_average_position m)))) (\<lambda>scores.
                 candidate env data ''ranking_within_reach'' OT_ranking_within_reach
                   AF_existing_page_optimization ''query'' (qp_query_fingerprint q)
                   (''Improve ranking for '' @ qp_query_text q) ''Optimize the matched page.'' m
                   (di_as_of data) scores None (ss_source_id search) (ss_sync_id search) EB_small))"

definition detect_ranking_within_reach ::
  "engine_env \<Rightarrow> detection_input \<Rightarrow> detector_evaluation list res" where
  "detect_ranking_within_reach env data =
     (let reasons = quality_reasons data True True in
      if reasons \<noteq> [] then Inr [stopped ''ranking_within_reach'' reasons]
      else case (di_search data, di_website data) of
          (Some search, Some website) \<Rightarrow>
            res_bind (res_map (ranking_query env data search (pages_dict (ws_pages website)))
                       (sort_key qp_query_fingerprint (ss_queries search)))
              (\<lambda>out. Inr (or_insufficient ''ranking_within_reach'' out))
        | _ \<Rightarrow> Inl (RuntimeError ''AssertionError''))"

section \<open>Search decline\<close>

type_synonym loss = "int \<times> int \<times> string"

definition query_loss :: "query_performance_snapshot \<Rightarrow> loss" where
  "query_loss q =
     (mt_clicks (qp_prior q) - mt_clicks (qp_current q),
      mt_impressions (qp_prior q) - mt_impressions (qp_current q), qp_query_fingerprint q)"

definition has_declined :: "query_performance_snapshot \<Rightarrow> bool" where
  "has_declined q =
     (let c = qp_current q; p = qp_prior q in
      (10 \<le> mt_clicks p \<and> 3 \<le> mt_clicks p - mt_clicks c
         \<and> of_int (mt_clicks c) \<le> dec_mul (of_int (mt_clicks p)) (7 / 10)
         \<and> 100 \<le> mt_impressions c + mt_impressions p)
      \<or> (200 \<le> mt_impressions p
         \<and> mt_impressions c \<le> dec_trunc (dec_mul (of_int (mt_impressions p)) (6 / 10))
         \<and> 100 \<le> mt_impressions p - mt_impressions c))"

definition decline_group :: "query_performance_snapshot \<Rightarrow> string" where
  "decline_group q = text_or (qp_matched_page_fingerprint q) (''query:'' @ qp_query_fingerprint q)"

text \<open>One iteration of the first loop: the best loss of every group, the qualifying queries and
  the rejections so far.\<close>

type_synonym decline_state =
  "(string \<times> (loss \<times> query_performance_snapshot)) list
     \<times> (loss \<times> query_performance_snapshot) list \<times> detector_evaluation list"

fun decline_step :: "decline_state \<Rightarrow> query_performance_snapshot \<Rightarrow> decline_state" where
  "decline_step (accepted, qualifying, rejects) q =
     (if \<not> has_declined q
      then (accepted, qualifying,
            rejects @ [rejected ''search_decline'' ER_threshold_not_met (qp_query_fingerprint q)])
      else
        (case map_of accepted (decline_group q) of
           None \<Rightarrow> AList.update (decline_group q) (query_loss q, q) accepted
         | Some best \<Rightarrow>
             if fst best < query_loss q
             then AList.update (decline_group q) (query_loss q, q) accepted
             else accepted,
         qualifying @ [(query_loss q, q)], rejects))"

definition decline_scan :: "query_performance_snapshot list \<Rightarrow> decline_state" where
  "decline_scan qs = foldl decline_step ([], [], []) qs"

definition decline_winners ::
  "(string \<times> (loss \<times> query_performance_snapshot)) list \<Rightarrow> string list" where
  "decline_winners accepted = map (\<lambda>(_, _, q). qp_query_fingerprint q) accepted"

definition decline_signal :: "loss \<Rightarrow> rat" where
  "decline_signal l =
     (case l of (a, b, _) \<Rightarrow> min 35 (dec_div (of_int (max a 0 * 3 + max b 0)) 10))"

definition decline_query ::
  "engine_env \<Rightarrow> detection_input \<Rightarrow> search_snapshot \<Rightarrow> string list
     \<Rightarrow> loss \<times> query_performance_snapshot \<Rightarrow> detector_evaluation res" where
  "decline_query env data search winners lq =
     (case lq of (loss, q) \<Rightarrow>
      res_bind (search_scores (qp_current q) AF_content_refresh_investigation
                  (qp_profile_relevance q) (decline_signal loss)) (\<lambda>scores.
      res_bind (candidate env data ''search_decline'' OT_search_decline
                  AF_content_refresh_investigation ''query'' (qp_query_fingerprint q)
                  (''Investigate search decline for '' @ qp_query_text q)
                  ''Review the matched page and search intent.'' (qp_current q) (di_as_of data)
                  scores None (ss_source_id search) (ss_sync_id search) EB_small) (\<lambda>e. Inr
        (if qp_query_fingerprint q \<notin> set winners
         then e\<lparr>de_outcome := EO_superseded_in_run, de_reason_codes := [ER_lower_priority]\<rparr>
         else e))))"

definition detect_search_decline ::
  "engine_env \<Rightarrow> detection_input \<Rightarrow> detector_evaluation list res" where
  "detect_search_decline env data =
     (let reasons = quality_reasons data True False in
      if reasons \<noteq> [] then Inr [stopped ''search_decline'' reasons]
      else case di_search data of
          None \<Rightarrow> Inl (RuntimeError ''AssertionError'')
        | Some search \<Rightarrow>
            (case decline_scan (sort_key qp_query_fingerprint (ss_queries search)) of
               (accepted, qualifying, rejects) \<Rightarrow>
                 res_bind (res_map (decline_query env data search (decline_winners accepted))
                            qualifying)
                   (\<lambda>out. Inr (or_insufficient ''search_decline'' (out @ rejects)))))"

section \<open>Shipped but not marketed\<close>

definition zero_metrics :: metric_snapshot where
  "zero_metrics = \<lparr>mt_clicks = 0, mt_impressions = 0, mt_ctr = 0, mt_average_position = 0\<rparr>"

fun mapping_rank :: "mapping_status \<Rightarrow> int" where
  "mapping_rank MP_missing = 0"
| "mapping_rank MP_partial = 1"
| "mapping_rank MP_complete = 2"

fun mapping_status_value :: "mapping_status \<Rightarrow> string" where
  "mapping_status_value MP_missing = ''missing''"
| "mapping_status_value MP_partial = ''partial''"
| "mapping_status_value MP_complete = ''complete''"

definition qualifying_mappings ::
  "detection_input \<Rightarrow> website_snapshot \<Rightarrow> shipping_event_snapshot \<Rightarrow> capability_mapping_snapshot list" where
  "qualifying_mappings data website event =
     filter (\<lambda>m. 3 / 5 \<le> cm_coverage_score m \<and> 1 / 5 \<le> cm_relevance_score m)
       (filter (\<lambda>m. Some (cm_capability_key m) = se_capability_key event
                  \<and> cm_profile_version m = pf_profile_version (di_profile data))
         (ws_capability_mappings website))"

definition coverage_status :: "capability_mapping_snapshot list \<Rightarrow> mapping_status" where
  "coverage_status qualifying =
     (case qualifying of
        [] \<Rightarrow> MP_missing
      | m # ms \<Rightarrow> cm_status (min_by (\<lambda>x. (mapping_rank (cm_status x), cm_page_fingerprint x)) m ms))"

definition event_summary :: "shipping_event_snapshot \<Rightarrow> string \<Rightarrow> string" where
  "event_summary event fallback =
     text_or (se_safe_summary event) (text_or (se_summary event) fallback)"

definition shipping_evidence ::
  "website_snapshot \<Rightarrow> shipping_event_snapshot \<Rightarrow> datetime \<Rightarrow> mapping_status \<Rightarrow> nat
     \<Rightarrow> evidence_snapshot list res" where
  "shipping_evidence website event completed_at status mapping_count =
     res_bind (checked valid_evidence ''EvidenceSnapshot''
       \<lparr>ev_evidence_key = ''shipping:'' @ se_event_key event,
        ev_source_type = ES_shipping,
        ev_source_record_type = ''shipping_event'',
        ev_source_id = se_repository_id event,
        ev_source_run_id = se_mapping_id event,
        ev_observed_at = se_occurred_at event,
        ev_period = [],
        ev_metrics = [(''public_worthiness_score'', se_public_worthiness_score event)],
        ev_public_safe_summary = event_summary event ''A capability shipped.'',
        ev_confidence_score = 80,
        ev_freshness_status = FS_fresh,
        ev_quality_warnings = []\<rparr>) (\<lambda>shipped.
     res_bind (checked valid_evidence ''EvidenceSnapshot''
       \<lparr>ev_evidence_key = ''website:'' @ se_event_key event,
        ev_source_type = ES_website,
        ev_source_record_type = ''capability_mapping'',
        ev_source_id = ws_source_id website,
        ev_source_run_id = ws_crawl_id website,
        ev_observed_at = completed_at,
        ev_period = [],
        ev_metrics = [(''mapping_count'', of_nat mapping_count)],
        ev_public_safe_summary = ''Website capability coverage is '' @ mapping_status_value status @ ''.'',
        ev_confidence_score = 80,
        ev_freshness_status = FS_fresh,
        ev_quality_warnings = []\<rparr>) (\<lambda>mapped. Inr [shipped, mapped]))"

text \<open>The part of the loop body after an event has passed every guard on its own signals.\<close>

definition shipped_candidate ::
  "engine_env \<Rightarrow> detection_input \<Rightarrow> website_snapshot \<Rightarrow> shipping_event_snapshot \<Rightarrow> datetime
     \<Rightarrow> detector_evaluation res" where
  "shipped_candidate env data website event completed_at =
     (let qualifying = qualifying_mappings data website event;
          status = coverage_status qualifying
      in
      if status = MP_complete
      then Inr (rejected ''shipped_but_not_marketed'' ER_capability_mapping_current
                 (se_event_key event))
      else
        let family = (if status = MP_missing then AF_product_update
                      else AF_existing_page_optimization)
        in
        res_bind (shipping_evidence website event completed_at status (length qualifying))
          (\<lambda>evidence.
        res_bind (shipping_scores (se_public_worthiness_score event)
                    (se_capability_coverage_score event) family) (\<lambda>scores.
        candidate env data ''shipped_but_not_marketed'' OT_shipped_but_not_marketed family
          ''shipping_event'' (se_event_key event)
          (''Market '' @ event_summary event ''a shipped capability'')
          (if status = MP_missing then ''Prepare a safe product update.''
           else ''Update the mapped product page.'')
          zero_metrics (se_occurred_at event) scores (Some evidence) None None EB_small)))"

definition shipped_event ::
  "engine_env \<Rightarrow> detection_input \<Rightarrow> website_snapshot \<Rightarrow> shipping_event_snapshot
     \<Rightarrow> detector_evaluation res" where
  "shipped_event env data website event =
     res_bind (shipping_signal_reasons event (di_as_of data)) (\<lambda>event_reasons.
     case event_reasons of
       r # _ \<Rightarrow> Inr (rejected ''shipped_but_not_marketed'' r (se_event_key event))
     | [] \<Rightarrow>
       (case ws_completed_at website of
          None \<Rightarrow> Inr (rejected ''shipped_but_not_marketed'' ER_website_stale (se_event_key event))
        | Some completed_at \<Rightarrow>
          res_bind (dt_le completed_at (se_occurred_at event)) (\<lambda>not_after.
          if not_after
          then Inr (rejected ''shipped_but_not_marketed'' ER_website_stale (se_event_key event))
          else shipped_candidate env data website event completed_at)))"

definition detect_shipped_but_not_marketed ::
  "engine_env \<Rightarrow> detection_input \<Rightarrow> detector_evaluation list res" where
  "detect_shipped_but_not_marketed env data =
     (let reasons = quality_reasons data False True in
      if reasons \<noteq> [] then Inr [stopped ''shipped_but_not_marketed'' reasons]
      else case di_website data of
          None \<Rightarrow> Inl (RuntimeError ''AssertionError'')
        | Some website \<Rightarrow>
            res_bind (res_map (shipped_event env data website)
                       (sort_key se_event_key (sh_events (di_shipping data))))
              (\<lambda>out. Inr (or_insufficient ''shipped_but_not_marketed'' out)))"

section \<open>Search demand without dedicated content\<close>

definition demand_query ::
  "engine_env \<Rightarrow> detection_input \<Rightarrow> search_snapshot \<Rightarrow> query_performance_snapshot
     \<Rightarrow> detector_evaluation res" where
  "demand_query env data search q =
     (let m = qp_current q;
          reject = (\<lambda>reason. Inr (rejected ''search_demand_without_dedicated_content'' reason
                                   (qp_query_fingerprint q)))
      in
      if mt_impressions m < 50 \<or> qp_profile_relevance q < 1 / 5 then reject ER_threshold_not_met
      else if qp_branded q \<or> qp_navigational q then reject ER_navigation_or_branded_query
      else if qp_page_match_status q = MS_ambiguous then reject ER_target_page_ambiguous
      else if qp_page_match_status q \<noteq> MS_unmatched then reject ER_threshold_not_met
      else res_bind (search_scores m AF_dedicated_content_creation (qp_profile_relevance q)
             (min 30 (dec_div (of_int (mt_impressions m)) 20))) (\<lambda>scores.
           candidate env data ''search_demand_without_dedicated_content''
             OT_search_demand_without_dedicated_content AF_dedicated_content_creation ''query''
             (qp_query_fingerprint q) (''Create dedicated content for '' @ qp_query_text q)
             ''Prepare a dedicated evidence-backed content brief.'' m (di_as_of data) scores None
             (ss_source_id search) (ss_sync_id search) EB_large))"

definition detect_search_demand ::
  "engine_env \<Rightarrow> detection_input \<Rightarrow> detector_evaluation list res" where
  "detect_search_demand env data =
     (let reasons = quality_reasons data True True in
      if reasons \<noteq> [] then Inr [stopped ''search_demand_without_dedicated_content'' reasons]
      else case (di_search data, di_website data) of
          (Some search, Some website) \<Rightarrow>
            res_bind (res_map (demand_query env data search)
                       (sort_key qp_query_fingerprint (ss_queries search)))
              (\<lambda>out. Inr (or_insufficient ''search_demand_without_dedicated_content'' out))
        | _ \<Rightarrow> Inl (RuntimeError ''AssertionError''))"

section \<open>Existing page needs improvement\<close>

definition conversion_destinations ::
  "product_profile_snapshot \<Rightarrow> (string \<times> website_page_snapshot) list \<Rightarrow> string list" where
  "conversion_destinations profile pages =
     (if text_truthy (pf_conversion_url profile)
      then [rstrip_slash (text_or (pf_conversion_url profile) '''')]
      else map (\<lambda>(_, p). rstrip_slash (wp_url p))
             (filter (\<lambda>(_, p). wp_page_type p = PT_conversion \<and> wp_crawl_status p = PC_succeeded)
               pages))"

definition conversion_path_defect :: "string list \<Rightarrow> website_page_snapshot \<Rightarrow> bool" where
  "conversion_path_defect destinations page =
     (case wp_internal_links page of
        None \<Rightarrow> False
      | Some links \<Rightarrow> destinations \<noteq> []
          \<and> rstrip_slash (wp_url page) \<notin> set destinations
          \<and> list_all (\<lambda>l. rstrip_slash l \<notin> set destinations) links)"

definition canonical_defect :: "website_page_snapshot \<Rightarrow> bool" where
  "canonical_defect page =
     (wp_canonical_fingerprint page \<noteq> None
      \<and> wp_canonical_fingerprint page \<noteq> Some (wp_page_fingerprint page))"

definition page_defects :: "string list \<Rightarrow> website_page_snapshot \<Rightarrow> bool list" where
  "page_defects destinations page =
     [\<not> text_truthy (wp_title page), \<not> text_truthy (wp_meta_description page),
      length (wp_h1s page) \<noteq> 1, wp_indexable page = Some False, canonical_defect page,
      conversion_path_defect destinations page]"

definition defect_count :: "string list \<Rightarrow> website_page_snapshot \<Rightarrow> nat" where
  "defect_count destinations page = length (filter (\<lambda>b. b) (page_defects destinations page))"

definition metadata_only :: "string list \<Rightarrow> website_page_snapshot \<Rightarrow> bool" where
  "metadata_only destinations page =
     ((\<not> text_truthy (wp_title page) \<or> \<not> text_truthy (wp_meta_description page))
      \<and> length (wp_h1s page) = 1 \<and> wp_indexable page \<noteq> Some False
      \<and> (wp_canonical_fingerprint page = None
         \<or> wp_canonical_fingerprint page = Some (wp_page_fingerprint page))
      \<and> \<not> conversion_path_defect destinations page)"

definition existing_page ::
  "engine_env \<Rightarrow> detection_input \<Rightarrow> search_snapshot \<Rightarrow> (string \<times> website_page_snapshot) list
     \<Rightarrow> search_page_performance_snapshot \<Rightarrow> detector_evaluation res" where
  "existing_page env data search pages sp =
     (let m = sp_current sp;
          destinations = conversion_destinations (di_profile data) pages;
          reject = (\<lambda>reason. Inr (rejected ''existing_page_needs_improvement'' reason
                                   (sp_url_fingerprint sp)))
      in
      if mt_impressions m < 50 then reject ER_threshold_not_met
      else case map_of pages (text_or (sp_website_page_fingerprint sp) '''') of
          None \<Rightarrow> reject ER_target_page_missing
        | Some page \<Rightarrow>
            if sp_match_status sp \<noteq> MS_matched then reject ER_target_page_missing
            else if wp_crawl_status page \<noteq> PC_succeeded then reject ER_website_crawl_failed
            else if defect_count destinations page = 0 then reject ER_no_page_quality_defect
            else res_bind (search_scores m AF_page_quality_fix default_relevance
                   (of_nat (defect_count destinations page * 8))) (\<lambda>scores.
                 candidate env data ''existing_page_needs_improvement''
                   OT_existing_page_needs_improvement AF_page_quality_fix ''page''
                   (wp_page_fingerprint page) (''Fix page quality issues on '' @ wp_url page)
                   (''Correct deterministic metadata, heading, indexing, canonical, ''
                     @ ''or conversion-path defects.'')
                   m (di_as_of data)
                   (if metadata_only destinations page then scores\<lparr>ds_effort := 20\<rparr> else scores)
                   None (ss_source_id search) (ss_sync_id search) EB_small))"

definition detect_existing_page ::
  "engine_env \<Rightarrow> detection_input \<Rightarrow> detector_evaluation list res" where
  "detect_existing_page env data =
     (let reasons = quality_reasons data True True in
      if reasons \<noteq> [] then Inr [stopped ''existing_page_needs_improvement'' reasons]
      else case (di_search data, di_website data) of
          (Some search, Some website) \<Rightarrow>
            res_bind (res_map (existing_page env data search (pages_dict (ws_pages website)))
                       (sort_key sp_url_fingerprint (ss_pages search)))
              (\<lambda>out. Inr (or_insufficient ''existing_page_needs_improvement'' out))
        | _ \<Rightarrow> Inl (RuntimeError ''AssertionError''))"

section \<open>The registry\<close>

type_synonym detector = "engine_env \<Rightarrow> detection_input \<Rightarrow> detector_evaluation list res"

definition detector_registry :: "(string \<times> string \<times> detector) list" where
  "detector_registry =
     [(''high_impressions_low_ctr'', ''1'', detect_high_impressions_low_ctr),
      (''ranking_within_reach'', ''1'', detect_ranking_within_reach),
      (''search_decline'', ''1'', detect_search_decline),
      (''shipped_but_not_marketed'', ''1'', detect_shipped_but_not_marketed),
      (''search_demand_without_dedicated_content'', ''1'', detect_search_demand),
      (''existing_page_needs_improvement'', ''2'', detect_existing_page)]"

definition validate_registry :: "(string \<times> string \<times> detector) list \<Rightarrow> unit res" where
  "validate_registry registry =
     (if length registry \<noteq> 6
      then Inl (ValueError ''The detector registry must contain exactly six detectors.'')
      else let identities = map (\<lambda>(i, v, _). (i, v)) registry in
        if length identities \<noteq> card (set identities)
        then Inl (ValueError ''Detector IDs and versions must be unique.'')
        else Inr ())"

end
