(* ===== verification/Detector_Facts.thy ===== *)
theory Detector_Facts
  imports Detectors
begin

text \<open>
  The contract of a detector, as the locale \<open>opportunity_detector\<close>, and its interpretation on
  the six detectors of the registry: a closed quality gate yields exactly one stopped
  evaluation, an open one yields a non-empty list of well-formed evaluations, and no exception
  is raised on a valid snapshot with aware datetimes and texts that fit the contracts.
\<close>

section \<open>Well-formed evaluations\<close>

definition good_evidence :: "evidence_snapshot list \<Rightarrow> bool" where
  "good_evidence es \<longleftrightarrow> list_all valid_evidence es \<and> distinct (map ev_evidence_key es)"

definition wf_candidate :: "engine_env \<Rightarrow> detection_input \<Rightarrow> detector_candidate \<Rightarrow> bool" where
  "wf_candidate env d c \<longleftrightarrow> valid_candidate c \<and> valid_scores (dc_scores c)
     \<and> score_gate (dc_scores c) = [] \<and> sf_novelty (dc_scores c) = 100
     \<and> dc_evidence c \<noteq> [] \<and> good_evidence (dc_evidence c)
     \<and> (\<exists>key. dc_subject_keys c = [(dc_subject_kind c, key)])
     \<and> dc_identity_fingerprint c = identity_fingerprint env (di_product_id d)
          (dc_opportunity_type c) (dc_subject_kind c) (dc_subject_keys c) (dc_action_family c)"

definition wf_evaluation :: "engine_env \<Rightarrow> detection_input \<Rightarrow> detector_evaluation \<Rightarrow> bool" where
  "wf_evaluation env d e \<longleftrightarrow> de_detector_version e = ''1''
     \<and> de_outcome e \<in> {EO_accepted, EO_no_recommendation, EO_stopped, EO_superseded_in_run}
     \<and> accepted_requires_candidate e
     \<and> (de_outcome e = EO_accepted \<longrightarrow> de_reason_codes e = [])
     \<and> (de_outcome e \<noteq> EO_accepted \<longrightarrow> de_reason_codes e \<noteq> [])
     \<and> (case de_candidate e of None \<Rightarrow> True | Some c \<Rightarrow> wf_candidate env d c)"

lemma wf_rejected [simp]:
  "wf_evaluation env d (rejected did r k)" "de_detector_id (rejected did r k) = did"
  "de_outcome (rejected did r k) = EO_no_recommendation"
  by (simp_all add: wf_evaluation_def rejected_def accepted_requires_candidate_def)

lemma wf_stopped [simp]:
  "rs \<noteq> [] \<Longrightarrow> wf_evaluation env d (stopped did rs)" "de_detector_id (stopped did rs) = did"
  "de_outcome (stopped did rs) = EO_stopped"
  by (simp_all add: wf_evaluation_def stopped_def accepted_requires_candidate_def)

section \<open>The constructor of candidates\<close>

lemma candidate_evidence_valid:
  assumes "candidate_evidence data did key conf ev base = Inr items"
    and "valid_evidence base" "ev_evidence_key base = did @ '':'' @ key"
    and "\<And>es. ev = Some es \<Longrightarrow> good_evidence es"
  shows "items \<noteq> [] \<and> good_evidence items"
proof -
  have "did @ '':'' @ key \<noteq> did @ '':website:'' @ key"
  proof
    assume "did @ '':'' @ key = did @ '':website:'' @ key"
    then have "length (did @ '':'' @ key) = length (did @ '':website:'' @ key)" by (rule arg_cong)
    then show False by simp
  qed
  then show ?thesis
    using assms unfolding good_evidence_def
    by (auto simp: candidate_evidence_def res_bind_eq_Inr website_evidence_def
        split: option.splits list.splits if_splits)
qed

lemma candidate_wf:
  assumes "candidate env data did ot af kind key title action m obs sc ev sid srid eb = Inr e"
    and "\<And>es. ev = Some es \<Longrightarrow> good_evidence es"
  shows "wf_evaluation env data e \<and> de_detector_id e = did"
proof -
  let ?base = "default_evidence data did kind key title m obs (ds_confidence sc) sid srid"
  from assms(1) obtain items item where
    base: "valid_evidence ?base" and
    items: "candidate_evidence data did key (ds_confidence sc) ev ?base = Inr items" and
    item: "valid_candidate item" "dc_opportunity_type item = ot" "dc_action_family item = af"
      "dc_subject_kind item = kind" "dc_subject_keys item = [(kind, key)]"
      "dc_identity_fingerprint item =
         identity_fingerprint env (di_product_id data) ot kind [(kind, key)] af"
      "dc_evidence item = items"
      "dc_scores item = score_opportunity (ds_impact sc) (ds_confidence sc) (ds_effort sc)
         (ds_urgency sc) (ds_fit sc) 100" and
    e: "e = \<lparr>de_detector_id = did, de_detector_version = ''1'',
        de_outcome = (if score_gate (dc_scores item) \<noteq> [] then EO_no_recommendation else EO_accepted),
        de_reason_codes = score_gate (dc_scores item),
        de_candidate = (if score_gate (dc_scores item) \<noteq> [] then None else Some item),
        de_diagnostics = []\<rparr>"
    unfolding candidate_def Let_def res_bind_eq_Inr checked_simps by force
  have "ev_evidence_key ?base = did @ '':'' @ key" by (simp add: default_evidence_def Let_def)
  then have "items \<noteq> [] \<and> good_evidence items"
    using candidate_evidence_valid [OF items base] assms(2) by blast
  with item have "score_gate (dc_scores item) = [] \<Longrightarrow> wf_candidate env data item"
    by (simp add: wf_candidate_def valid_scores_score_opportunity bound_score_def)
  then show ?thesis
    unfolding e by (simp add: wf_evaluation_def accepted_requires_candidate_def)
qed

lemma candidate_ok:
  assumes "length did + length key \<le> 245" "0 < length did"
    and "0 < length kind" "length kind \<le> 64" "0 < length title" "length title \<le> 300"
    and "0 < length action" "length action \<le> 4000" "valid_score (ds_confidence sc)"
  shows "is_ok (candidate env data did ot af kind key title action m obs sc ev sid srid eb)"
proof -
  let ?base = "default_evidence data did kind key title m obs (ds_confidence sc) sid srid"
  have base: "valid_evidence ?base"
    using assms
    by (simp add: valid_evidence_def default_evidence_def length_between_def Let_def Suc_le_eq)
  have "valid_evidence (website_evidence w t did key (ds_confidence sc))" for w t
    using assms by (simp add: valid_evidence_def website_evidence_def length_between_def)
  then have items: "is_ok (candidate_evidence data did key (ds_confidence sc) ev ?base)"
    by (auto simp: candidate_evidence_def is_ok_bind split: option.splits list.splits)
  show ?thesis
    using base items assms
    unfolding candidate_def Let_def is_ok_bind checked_simps
    by (auto simp: is_ok_iff valid_candidate_def length_between_def Suc_le_eq
        accepted_requires_candidate_def)
qed

text \<open>A title of more than 300 characters makes the constructor raise, whatever the scores.\<close>

lemma candidate_long_title:
  assumes "300 < length title"
  shows "\<exists>n. candidate env data did ot af kind key title action m obs sc ev sid srid eb
    = Inl (ValidationError n)"
proof -
  let ?base = "default_evidence data did kind key title m obs (ds_confidence sc) sid srid"
  have ce: "candidate_evidence data did key (ds_confidence sc) ev ?base = Inl x
      \<Longrightarrow> \<exists>n. x = ValidationError n" for x
    by (auto simp: candidate_evidence_def res_bind_eq_Inl split: option.splits list.splits if_splits)
  have "\<not> is_ok (candidate env data did ot af kind key title action m obs sc ev sid srid eb)"
    using assms unfolding candidate_def Let_def is_ok_bind checked_simps
    by (auto simp: is_ok_iff valid_candidate_def length_between_def)
  then obtain x where
    x: "candidate env data did ot af kind key title action m obs sc ev sid srid eb = Inl x"
    by (metis is_ok_iff sum.exhaust)
  then have "\<exists>n. x = ValidationError n"
    unfolding candidate_def Let_def res_bind_eq_Inl res_bind_eq_Inr checked_simps
    using ce by auto
  with x show ?thesis by auto
qed

section \<open>The contract of a detector\<close>

definition fits_query :: "query_performance_snapshot \<Rightarrow> bool" where
  "fits_query q \<longleftrightarrow> length (qp_query_fingerprint q) \<le> 205 \<and> length (qp_query_text q) \<le> 269"

definition fits_page :: "any_page \<Rightarrow> bool" where
  "fits_page p = (case p of Plain_page _ \<Rightarrow> True
     | Website_page w \<Rightarrow> length (wp_page_fingerprint w) \<le> 205 \<and> length (wp_url w) \<le> 273)"

definition fits_event :: "shipping_event_snapshot \<Rightarrow> bool" where
  "fits_event e \<longleftrightarrow> length (se_event_key e) \<le> 205 \<and> length (text_or (se_safe_summary e) '''') \<le> 293
     \<and> length (text_or (se_summary e) '''') \<le> 293"

definition texts_fit :: "detection_input \<Rightarrow> bool" where
  "texts_fit d \<longleftrightarrow>
     (case di_search d of None \<Rightarrow> True | Some s \<Rightarrow> list_all fits_query (ss_queries s))
     \<and> (case di_website d of None \<Rightarrow> True | Some w \<Rightarrow> list_all fits_page (ws_pages w))
     \<and> list_all fits_event (sh_events (di_shipping d))"

definition aware_input :: "detection_input \<Rightarrow> bool" where
  "aware_input d \<longleftrightarrow> is_aware (di_as_of d)
     \<and> list_all (\<lambda>e. is_aware (se_occurred_at e)) (sh_events (di_shipping d))
     \<and> list_all aware_history (di_history d)"

locale opportunity_detector =
  fixes detect :: detector and did :: string and needs_search needs_website :: bool
  assumes gate_closed: "quality_reasons d needs_search needs_website \<noteq> [] \<Longrightarrow>
      detect env d = Inr [stopped did (quality_reasons d needs_search needs_website)]"
    and gate_open: "quality_reasons d needs_search needs_website = [] \<Longrightarrow> detect env d = Inr es \<Longrightarrow>
      es \<noteq> [] \<and> list_all (\<lambda>e. wf_evaluation env d e \<and> de_detector_id e = did) es"
    and total: "valid_input d \<Longrightarrow> aware_input d \<Longrightarrow> texts_fit d \<Longrightarrow> is_ok (detect env d)"
begin

lemma nonempty: "detect env d = Inr es \<Longrightarrow> es \<noteq> []"
  using gate_closed gate_open by (metis list.discI sum.inject(2))

lemma well_formed:
  "detect env d = Inr es \<Longrightarrow> e \<in> set es \<Longrightarrow> wf_evaluation env d e \<and> de_detector_id e = did"
  using gate_closed [of d env] gate_open [of d env es]
  by (cases "quality_reasons d needs_search needs_website = []") (auto simp: list_all_iff)

lemma accepted_gate_open:
  "detect env d = Inr es \<Longrightarrow> e \<in> set es \<Longrightarrow> de_outcome e = EO_accepted
     \<Longrightarrow> quality_reasons d needs_search needs_website = []"
  using gate_closed [of d env] by (cases "quality_reasons d needs_search needs_website = []") auto

end

text \<open>What the loop of a detector needs of its body.\<close>

lemma loop_wf:
  assumes "res_bind (res_map f xs) (\<lambda>out. Inr (or_insufficient did (out @ rest))) = Inr es"
    and "\<And>x e. x \<in> set xs \<Longrightarrow> f x = Inr e \<Longrightarrow> wf_evaluation env d e \<and> de_detector_id e = did"
    and "list_all (\<lambda>e. wf_evaluation env d e \<and> de_detector_id e = did) rest"
  shows "es \<noteq> [] \<and> list_all (\<lambda>e. wf_evaluation env d e \<and> de_detector_id e = did) es"
proof -
  from assms(1) obtain out where out: "res_map f xs = Inr out"
    and es: "es = or_insufficient did (out @ rest)" by (auto simp: res_bind_eq_Inr)
  have "list_all (\<lambda>e. wf_evaluation env d e \<and> de_detector_id e = did) out"
    using res_map_set [OF out] assms(2) by (auto simp: list_all_iff)
  with assms(3) show ?thesis unfolding es by (auto simp: or_insufficient_def)
qed

lemmas loop_wf0 = loop_wf [where rest = "[]", simplified]

lemma pages_dict_in:
  assumes "map_of (pages_dict ps) k = Some w"
  shows "Website_page w \<in> set ps"
proof -
  have "(\<exists>k. map_of (foldl (\<lambda>d p. case p of Website_page w \<Rightarrow> AList.update (wp_page_fingerprint w) w d
          | Plain_page _ \<Rightarrow> d) acc ps) k = Some w)
      \<Longrightarrow> (\<exists>k. map_of acc k = Some w) \<or> Website_page w \<in> set ps" for acc
  proof (induction ps arbitrary: acc)
    case Nil
    then show ?case by simp
  next
    case (Cons p ps)
    show ?case
    proof (cases p)
      case (Website_page v)
      with Cons.prems have "(\<exists>k. map_of (AList.update (wp_page_fingerprint v) v acc) k = Some w)
          \<or> Website_page w \<in> set ps" using Cons.IH by simp
      with Website_page show ?thesis by (auto simp: update_conv' split: if_splits)
    next
      case (Plain_page x)
      with Cons show ?thesis by simp
    qed
  qed
  from this [of "[]"] assms show ?thesis by (auto simp: pages_dict_def)
qed

section \<open>The detectors satisfy the contract\<close>

lemmas candidate_wf_None = candidate_wf [where ev = None, simplified]

lemma search_candidate_ok:
  assumes "valid_metrics m" "0 \<le> r" "0 \<le> s" "effort_of af = Inr ef"
    and "length did + length key \<le> 245" "0 < length did"
    and "0 < length kind" "length kind \<le> 64" "0 < length title" "length title \<le> 300"
    and "0 < length action" "length action \<le> 4000"
    and "\<And>x. ds_confidence (g x) = ds_confidence x"
  shows "is_ok (res_bind (search_scores m af r s) (\<lambda>sc.
    candidate env data did ot af kind key title action m obs (g sc) None sid srid eb))"
proof -
  obtain d where d: "search_scores m af r s = Inr d"
    using assms(4) by (simp add: search_scores_def Let_def)
  from search_scores_bounds [OF assms(1-3) d] have "valid_score (ds_confidence d)"
    by (simp add: valid_score_def)
  then show ?thesis using assms by (simp add: d candidate_ok)
qed

lemma high_impressions_query_wf:
  "high_impressions_query env d s q = Inr e
     \<Longrightarrow> wf_evaluation env d e \<and> de_detector_id e = ''high_impressions_low_ctr''"
  by (auto simp: high_impressions_query_def Let_def res_bind_eq_Inr split: if_splits
      dest: candidate_wf_None)

lemma high_impressions_query_ok:
  assumes "valid_query q" "fits_query q"
  shows "is_ok (high_impressions_query env d s q)"
  using assms
  by (auto simp: high_impressions_query_def Let_def valid_query_def fits_query_def valid_unit_def
      intro!: search_candidate_ok [where g = "\<lambda>x. x"])

lemma ranking_query_wf:
  "ranking_query env d s ps q = Inr e
     \<Longrightarrow> wf_evaluation env d e \<and> de_detector_id e = ''ranking_within_reach''"
  by (auto simp: ranking_query_def Let_def res_bind_eq_Inr split: if_splits option.splits
      dest: candidate_wf_None)

lemma ranking_query_ok:
  assumes "valid_query q" "fits_query q"
  shows "is_ok (ranking_query env d s ps q)"
  using assms
  by (auto simp: ranking_query_def Let_def valid_query_def fits_query_def valid_unit_def
      split: option.splits intro!: search_candidate_ok [where g = "\<lambda>x. x"])

lemma demand_query_wf:
  "demand_query env d s q = Inr e
     \<Longrightarrow> wf_evaluation env d e \<and> de_detector_id e = ''search_demand_without_dedicated_content''"
  by (auto simp: demand_query_def Let_def res_bind_eq_Inr split: if_splits
      dest: candidate_wf_None)

lemma demand_query_ok:
  assumes "valid_query q" "fits_query q"
  shows "is_ok (demand_query env d s q)"
  using assms
  by (auto simp: demand_query_def Let_def valid_query_def fits_query_def valid_unit_def
      valid_metrics_def intro!: search_candidate_ok [where g = "\<lambda>x. x"] dec_op_nonneg)

lemma existing_page_wf:
  "existing_page env d s ps sp = Inr e
     \<Longrightarrow> wf_evaluation env d e \<and> de_detector_id e = ''existing_page_needs_improvement''"
  by (auto simp: existing_page_def Let_def res_bind_eq_Inr split: if_splits option.splits
      dest: candidate_wf_None)

lemma existing_page_ok:
  assumes "valid_search_page sp" "list_all fits_page ps"
  shows "is_ok (existing_page env d s (pages_dict ps) sp)"
proof -
  have fit: "length (wp_page_fingerprint w) \<le> 205 \<and> length (wp_url w) \<le> 273"
    if "map_of (pages_dict ps) k = Some w" for k w
    using pages_dict_in [OF that] assms(2) by (auto simp: list_all_iff fits_page_def)
  show ?thesis
    using assms(1)
    by (auto simp: existing_page_def Let_def valid_search_page_def default_relevance_def
        split: option.splits dest!: fit
        intro!: search_candidate_ok [where g = "\<lambda>x. if c then x\<lparr>ds_effort := 20\<rparr> else x" for c])
qed

lemma decline_query_wf:
  "decline_query env d s ws lq = Inr e
     \<Longrightarrow> wf_evaluation env d e \<and> de_detector_id e = ''search_decline''"
proof -
  assume "decline_query env d s ws lq = Inr e"
  then obtain l q sc e0 where lq: "lq = (l, q)"
    and e0: "candidate env d ''search_decline'' OT_search_decline
        AF_content_refresh_investigation ''query'' (qp_query_fingerprint q)
        (''Investigate search decline for '' @ qp_query_text q)
        ''Review the matched page and search intent.'' (qp_current q) (di_as_of d)
        sc None (ss_source_id s) (ss_sync_id s) EB_small = Inr e0"
    and e: "e = e0 \<or> e = e0\<lparr>de_outcome := EO_superseded_in_run, de_reason_codes := [ER_lower_priority]\<rparr>"
    by (cases lq) (auto simp: decline_query_def res_bind_eq_Inr split: if_splits)
  from candidate_wf_None [OF e0] e show ?thesis
    by (auto simp: wf_evaluation_def accepted_requires_candidate_def)
qed

lemma decline_signal_nonneg: "0 \<le> decline_signal l"
  by (cases l) (auto simp: decline_signal_def intro!: dec_op_nonneg)

lemma decline_query_ok:
  assumes "valid_query (snd lq)" "fits_query (snd lq)"
  shows "is_ok (decline_query env d s ws lq)"
proof (cases lq)
  case (Pair l q)
  have "is_ok (res_bind (search_scores (qp_current q) AF_content_refresh_investigation
      (qp_profile_relevance q) (decline_signal l)) (\<lambda>sc.
      candidate env d ''search_decline'' OT_search_decline
        AF_content_refresh_investigation ''query'' (qp_query_fingerprint q)
        (''Investigate search decline for '' @ qp_query_text q)
        ''Review the matched page and search intent.'' (qp_current q) (di_as_of d)
        sc None (ss_source_id s) (ss_sync_id s) EB_small))"
    using assms Pair decline_signal_nonneg
    by (intro search_candidate_ok [where g = "\<lambda>x. x"])
      (auto simp: valid_query_def fits_query_def valid_unit_def)
  then show ?thesis by (simp only: Pair decline_query_def prod.case is_ok_bind_post)
qed

lemma decline_scan_inv:
  assumes "decline_scan qs = (accepted, qualifying, rejects)"
  shows "(\<forall>lq \<in> set qualifying. snd lq \<in> set qs)
    \<and> list_all (\<lambda>e. wf_evaluation env d e \<and> de_detector_id e = ''search_decline'') rejects"
  using assms
proof (induction qs arbitrary: accepted qualifying rejects rule: rev_induct)
  case Nil
  then show ?case by (simp add: decline_scan_def)
next
  case (snoc q qs)
  obtain a b r where abr: "decline_scan qs = (a, b, r)" by (cases "decline_scan qs") auto
  with snoc.prems have "decline_step (a, b, r) q = (accepted, qualifying, rejects)"
    by (simp add: decline_scan_def)
  with snoc.IH [OF abr] show ?case by (auto split: if_splits)
qed

lemma decline_scan_queries:
  "decline_scan qs = (accepted, qualifying, rejects) \<Longrightarrow> (l, q) \<in> set qualifying \<Longrightarrow> q \<in> set qs"
  using decline_scan_inv by fastforce

lemma shipping_evidence_valid:
  "shipping_evidence w e t st n = Inr es \<Longrightarrow> good_evidence es"
  by (auto simp: shipping_evidence_def res_bind_eq_Inr good_evidence_def)

lemma shipped_candidate_wf:
  "shipped_candidate env d w ev t = Inr e
     \<Longrightarrow> wf_evaluation env d e \<and> de_detector_id e = ''shipped_but_not_marketed''"
  by (auto simp: shipped_candidate_def Let_def res_bind_eq_Inr split: if_splits
      dest!: candidate_wf [where ev = "Some es" for es] dest: shipping_evidence_valid)

lemma shipped_event_wf:
  assumes "shipped_event env d w ev = Inr e"
  shows "wf_evaluation env d e \<and> de_detector_id e = ''shipped_but_not_marketed''"
proof -
  from assms have "(\<exists>r k. e = rejected ''shipped_but_not_marketed'' r k)
      \<or> (\<exists>t. shipped_candidate env d w ev t = Inr e)"
    unfolding shipped_event_def
    by (cases "shipping_signal_reasons ev (di_as_of d)")
      (auto simp: res_bind_eq_Inr split: list.splits option.splits if_splits)
  then show ?thesis using shipped_candidate_wf by auto
qed

lemma event_summary_length:
  assumes "fits_event e" "fb \<noteq> []" "length fb \<le> 293"
  shows "0 < length (event_summary e fb) \<and> length (event_summary e fb) \<le> 293"
  using assms by (auto simp: event_summary_def fits_event_def text_or_def split: option.splits)

lemma shipping_evidence_ok:
  assumes "fits_event e"
  shows "is_ok (shipping_evidence w e t st n)"
proof -
  have "0 < length (event_summary e ''A capability shipped.'')
      \<and> length (event_summary e ''A capability shipped.'') \<le> 293"
    using event_summary_length [OF assms] by simp
  then show ?thesis
    using assms by (cases st) (auto simp: shipping_evidence_def is_ok_bind valid_evidence_def
        length_between_def fits_event_def valid_score_def Suc_le_eq)
qed

lemma shipped_candidate_ok:
  assumes "fits_event ev" "0 \<le> se_public_worthiness_score ev" "3 / 5 \<le> se_capability_coverage_score ev"
  shows "is_ok (shipped_candidate env d w ev t)"
proof -
  have sum: "0 < length (event_summary ev ''a shipped capability'')
      \<and> length (event_summary ev ''a shipped capability'') \<le> 293"
    using event_summary_length [OF assms(1)] by simp
  have sc: "\<exists>sc. shipping_scores (se_public_worthiness_score ev) (se_capability_coverage_score ev) fam
      = Inr sc \<and> valid_score (ds_confidence sc)"
    if ef: "effort_of fam = Inr ef" for fam ef
  proof -
    obtain sc where sc: "shipping_scores (se_public_worthiness_score ev)
        (se_capability_coverage_score ev) fam = Inr sc"
      using ef by (simp add: shipping_scores_def)
    from shipping_scores_bounds [OF assms(2,3) sc] have "valid_score (ds_confidence sc)"
      by (simp add: valid_score_def)
    with sc show ?thesis by blast
  qed
  have ev: "\<exists>x. shipping_evidence w ev t st n = Inr x" for st n
    using shipping_evidence_ok [OF assms(1)] is_ok_iff by blast
  show ?thesis
    using assms(1) sum ev [of "coverage_status (qualifying_mappings d w ev)"
        "length (qualifying_mappings d w ev)"] sc [of AF_product_update]
      sc [of AF_existing_page_optimization]
    by (auto simp: shipped_candidate_def Let_def fits_event_def intro!: candidate_ok)
qed

lemma shipped_event_ok:
  assumes "fits_event ev" "is_aware (se_occurred_at ev)" "is_aware (di_as_of d)"
    and "\<And>t. ws_completed_at w = Some t \<Longrightarrow> is_aware t"
  shows "is_ok (shipped_event env d w ev)"
proof -
  obtain rs where rs: "shipping_signal_reasons ev (di_as_of d) = Inr rs"
    using shipping_signal_reasons_ok [OF assms(2,3)] unfolding is_ok_iff by blast
  show ?thesis
  proof (cases rs)
    case Nil
    then have "66 \<le> se_public_worthiness_score ev" "3 / 5 \<le> se_capability_coverage_score ev"
      using shipping_signal_reasons_NilD [of ev "di_as_of d"] rs by auto
    then have "is_ok (shipped_candidate env d w ev t)" for t
      using assms(1) by (intro shipped_candidate_ok) linarith+
    moreover have "is_ok (dt_le t (se_occurred_at ev))" if "ws_completed_at w = Some t" for t
      using assms that by auto
    ultimately show ?thesis using rs Nil
      by (auto simp: shipped_event_def is_ok_bind is_ok_iff split: option.splits)
  next
    case (Cons r rs')
    then show ?thesis using rs by (simp add: shipped_event_def)
  qed
qed

lemma website_ready_aware:
  "website_ready d w \<Longrightarrow> ws_completed_at w = Some t \<Longrightarrow> is_aware t"
  by (auto simp: website_ready_def)

interpretation high_impressions:
  opportunity_detector detect_high_impressions_low_ctr "''high_impressions_low_ctr''" True False
proof unfold_locales
  fix d env es
  show "quality_reasons d True False \<noteq> [] \<Longrightarrow> detect_high_impressions_low_ctr env d
      = Inr [stopped ''high_impressions_low_ctr'' (quality_reasons d True False)]"
    by (simp add: detect_high_impressions_low_ctr_def)
  show "quality_reasons d True False = [] \<Longrightarrow> detect_high_impressions_low_ctr env d = Inr es \<Longrightarrow>
      es \<noteq> [] \<and> list_all (\<lambda>e. wf_evaluation env d e
        \<and> de_detector_id e = ''high_impressions_low_ctr'') es"
    by (auto simp: detect_high_impressions_low_ctr_def split: option.splits
        elim!: loop_wf0 dest: high_impressions_query_wf)
  show "valid_input d \<Longrightarrow> aware_input d \<Longrightarrow> texts_fit d
      \<Longrightarrow> is_ok (detect_high_impressions_low_ctr env d)"
    by (auto simp: detect_high_impressions_low_ctr_def quality_reasons_Nil_iff Let_def valid_input_def
        valid_search_def texts_fit_def list_all_iff simp: is_ok_res_map intro!: high_impressions_query_ok)
qed

interpretation ranking:
  opportunity_detector detect_ranking_within_reach "''ranking_within_reach''" True True
proof unfold_locales
  fix d env es
  show "quality_reasons d True True \<noteq> [] \<Longrightarrow> detect_ranking_within_reach env d
      = Inr [stopped ''ranking_within_reach'' (quality_reasons d True True)]"
    by (simp add: detect_ranking_within_reach_def)
  show "quality_reasons d True True = [] \<Longrightarrow> detect_ranking_within_reach env d = Inr es \<Longrightarrow>
      es \<noteq> [] \<and> list_all (\<lambda>e. wf_evaluation env d e
        \<and> de_detector_id e = ''ranking_within_reach'') es"
    by (auto simp: detect_ranking_within_reach_def split: option.splits
        elim!: loop_wf0 dest: ranking_query_wf)
  show "valid_input d \<Longrightarrow> aware_input d \<Longrightarrow> texts_fit d
      \<Longrightarrow> is_ok (detect_ranking_within_reach env d)"
    by (auto simp: detect_ranking_within_reach_def quality_reasons_Nil_iff Let_def valid_input_def
        valid_search_def texts_fit_def list_all_iff simp: is_ok_res_map intro!: ranking_query_ok)
qed

interpretation demand:
  opportunity_detector detect_search_demand "''search_demand_without_dedicated_content''" True True
proof unfold_locales
  fix d env es
  show "quality_reasons d True True \<noteq> [] \<Longrightarrow> detect_search_demand env d
      = Inr [stopped ''search_demand_without_dedicated_content'' (quality_reasons d True True)]"
    by (simp add: detect_search_demand_def)
  show "quality_reasons d True True = [] \<Longrightarrow> detect_search_demand env d = Inr es \<Longrightarrow>
      es \<noteq> [] \<and> list_all (\<lambda>e. wf_evaluation env d e
        \<and> de_detector_id e = ''search_demand_without_dedicated_content'') es"
    by (auto simp: detect_search_demand_def split: option.splits
        elim!: loop_wf0 dest: demand_query_wf)
  show "valid_input d \<Longrightarrow> aware_input d \<Longrightarrow> texts_fit d \<Longrightarrow> is_ok (detect_search_demand env d)"
    by (auto simp: detect_search_demand_def quality_reasons_Nil_iff Let_def valid_input_def
        valid_search_def texts_fit_def list_all_iff simp: is_ok_res_map intro!: demand_query_ok)
qed

interpretation existing:
  opportunity_detector detect_existing_page "''existing_page_needs_improvement''" True True
proof unfold_locales
  fix d env es
  show "quality_reasons d True True \<noteq> [] \<Longrightarrow> detect_existing_page env d
      = Inr [stopped ''existing_page_needs_improvement'' (quality_reasons d True True)]"
    by (simp add: detect_existing_page_def)
  show "quality_reasons d True True = [] \<Longrightarrow> detect_existing_page env d = Inr es \<Longrightarrow>
      es \<noteq> [] \<and> list_all (\<lambda>e. wf_evaluation env d e
        \<and> de_detector_id e = ''existing_page_needs_improvement'') es"
    by (auto simp: detect_existing_page_def split: option.splits
        elim!: loop_wf0 dest: existing_page_wf)
  show "valid_input d \<Longrightarrow> aware_input d \<Longrightarrow> texts_fit d \<Longrightarrow> is_ok (detect_existing_page env d)"
    by (auto simp: detect_existing_page_def quality_reasons_Nil_iff Let_def valid_input_def
        valid_search_def texts_fit_def simp: is_ok_res_map intro!: existing_page_ok)
      (auto simp: list_all_iff)
qed

interpretation decline:
  opportunity_detector detect_search_decline "''search_decline''" True False
proof unfold_locales
  fix d env es
  show "quality_reasons d True False \<noteq> [] \<Longrightarrow> detect_search_decline env d
      = Inr [stopped ''search_decline'' (quality_reasons d True False)]"
    by (simp add: detect_search_decline_def)
  show "quality_reasons d True False = [] \<Longrightarrow> detect_search_decline env d = Inr es \<Longrightarrow>
      es \<noteq> [] \<and> list_all (\<lambda>e. wf_evaluation env d e \<and> de_detector_id e = ''search_decline'') es"
    by (auto simp: detect_search_decline_def split: option.splits prod.splits
        elim!: loop_wf dest: decline_query_wf decline_scan_inv)
  show "valid_input d \<Longrightarrow> aware_input d \<Longrightarrow> texts_fit d \<Longrightarrow> is_ok (detect_search_decline env d)"
    by (auto simp: detect_search_decline_def quality_reasons_Nil_iff Let_def valid_input_def
        valid_search_def texts_fit_def list_all_iff split: prod.splits
        simp: is_ok_res_map intro!: decline_query_ok dest!: decline_scan_queries)
qed

interpretation shipped:
  opportunity_detector detect_shipped_but_not_marketed "''shipped_but_not_marketed''" False True
proof unfold_locales
  fix d env es
  show "quality_reasons d False True \<noteq> [] \<Longrightarrow> detect_shipped_but_not_marketed env d
      = Inr [stopped ''shipped_but_not_marketed'' (quality_reasons d False True)]"
    by (simp add: detect_shipped_but_not_marketed_def)
  show "quality_reasons d False True = [] \<Longrightarrow> detect_shipped_but_not_marketed env d = Inr es \<Longrightarrow>
      es \<noteq> [] \<and> list_all (\<lambda>e. wf_evaluation env d e
        \<and> de_detector_id e = ''shipped_but_not_marketed'') es"
    by (auto simp: detect_shipped_but_not_marketed_def split: option.splits
        elim!: loop_wf0 dest: shipped_event_wf)
  show "valid_input d \<Longrightarrow> aware_input d \<Longrightarrow> texts_fit d
      \<Longrightarrow> is_ok (detect_shipped_but_not_marketed env d)"
    by (auto simp: detect_shipped_but_not_marketed_def quality_reasons_Nil_iff Let_def
        valid_input_def texts_fit_def list_all_iff aware_input_def
        simp: is_ok_res_map intro!: shipped_event_ok intro: website_ready_aware)
qed

end
