(* ===== verification/Ranking.thy ===== *)
theory Ranking
  imports Detector_Facts
begin

text \<open>
  Collapsing the evaluations of one run: one owner for every subject
  (\<open>policies/ranking_policy.py\<close>), one evaluation for every identity
  (\<open>_collapse_same_identity\<close> of \<open>services/opportunity_detection_service.py\<close>) and one for every
  cluster of similar titles (\<open>policies/near_duplicate_policy.py\<close>). What the three stages have
  in common is the locale \<open>collapse_stage\<close>.
\<close>

section \<open>One owner for every subject\<close>

definition acc :: "detector_evaluation \<Rightarrow> bool" where
  "acc e \<longleftrightarrow> de_outcome e = EO_accepted \<and> de_candidate e \<noteq> None"

fun precedence_table :: "opportunity_type \<Rightarrow> int" where
  "precedence_table OT_high_impressions_low_ctr = 0"
| "precedence_table OT_existing_page_needs_improvement = 1"
| "precedence_table OT_ranking_within_reach = 2"
| "precedence_table OT_search_decline = 3"
| "precedence_table OT_shipped_but_not_marketed = 4"
| "precedence_table OT_search_demand_without_dedicated_content = 5"

definition precedence :: "detector_evaluation \<Rightarrow> int" where
  "precedence e = (case de_candidate e of None \<Rightarrow> 999
     | Some c \<Rightarrow> precedence_table (dc_opportunity_type c))"

definition rank_key :: "detector_evaluation \<Rightarrow> rat \<times> string \<times> string \<times> string" where
  "rank_key e = (case de_candidate e of
       None \<Rightarrow> (1, ''~'', '''', '''')
     | Some c \<Rightarrow> (- sf_priority (dc_scores c), opportunity_type_value (dc_opportunity_type c),
                 dc_identity_fingerprint c, dc_observation_fingerprint c))"

type_synonym subject_group = "string \<times> (string \<times> string) list"

definition group_of :: "detector_evaluation \<Rightarrow> subject_group" where
  "group_of e = (case de_candidate e of
       None \<Rightarrow> ('''', [])
     | Some c \<Rightarrow> (dc_subject_kind c, sort (dc_subject_keys c)))"

definition supersede :: "detector_evaluation \<Rightarrow> detector_evaluation" where
  "supersede e = e\<lparr>de_outcome := EO_superseded_in_run, de_reason_codes := [ER_lower_priority]\<rparr>"

type_synonym rank_state = "(subject_group \<times> detector_evaluation) list \<times> detector_evaluation list"

fun rank_step :: "rank_state \<Rightarrow> detector_evaluation \<Rightarrow> rank_state res" where
  "rank_step (owners, result) item =
     (if \<not> acc item then Inr (owners, result @ [item])
      else case map_of owners (group_of item) of
          None \<Rightarrow> Inr (AList.update (group_of item) item owners, result @ [item])
        | Some current \<Rightarrow>
            if precedence item < precedence current
            then (case list_index current result of
                    None \<Rightarrow> Inl (ValueError ''x not in list'')
                  | Some i \<Rightarrow> Inr (AList.update (group_of item) item owners,
                                  result[i := supersede current] @ [item]))
            else Inr (owners, result @ [supersede item]))"

fun rank_loop :: "rank_state \<Rightarrow> detector_evaluation list \<Rightarrow> rank_state res" where
  "rank_loop st [] = Inr st"
| "rank_loop st (item # items) = res_bind (rank_step st item) (\<lambda>st'. rank_loop st' items)"

definition rank_and_collapse :: "detector_evaluation list \<Rightarrow> detector_evaluation list res" where
  "rank_and_collapse evaluations =
     res_bind (rank_loop ([], []) (sort_key rank_key evaluations))
       (\<lambda>st. Inr (sort_key rank_key (snd st)))"

section \<open>One evaluation for every identity\<close>

definition identity_of :: "detector_evaluation \<Rightarrow> string" where
  "identity_of e = (case de_candidate e of None \<Rightarrow> '''' | Some c \<Rightarrow> dc_identity_fingerprint c)"

fun identity_step ::
  "string list \<times> detector_evaluation list \<Rightarrow> detector_evaluation
     \<Rightarrow> string list \<times> detector_evaluation list" where
  "identity_step (seen, result) e =
     (if \<not> acc e then (seen, result @ [e])
      else if identity_of e \<in> set seen
      then (seen, result @ [e\<lparr>de_outcome := EO_superseded_in_run,
                              de_reason_codes := de_reason_codes e @ [ER_lower_priority]\<rparr>])
      else (identity_of e # seen, result @ [e]))"

definition collapse_same_identity :: "detector_evaluation list \<Rightarrow> detector_evaluation list" where
  "collapse_same_identity evaluations = snd (foldl identity_step ([], []) evaluations)"

section \<open>One evaluation for every cluster of similar titles\<close>

definition token_char :: "char \<Rightarrow> bool" where
  "token_char c = (let n = (of_char c :: int) in (48 \<le> n \<and> n \<le> 57) \<or> (97 \<le> n \<and> n \<le> 122))"

text \<open>\<open>re.compile(r"[a-z0-9]+").findall\<close>: the maximal runs of token characters.\<close>

function find_tokens :: "string \<Rightarrow> string list" where
  "find_tokens [] = []"
| "find_tokens (c # cs) =
     (if token_char c then (c # takeWhile token_char cs) # find_tokens (dropWhile token_char cs)
      else find_tokens cs)"
  by pat_completeness auto
termination
  by (relation "measure length") (auto simp: length_dropWhile_le le_imp_less_Suc)

definition normalized_tokens :: "engine_env \<Rightarrow> string \<Rightarrow> string set" where
  "normalized_tokens env value = set (find_tokens (casefold env value))"

definition token_jaccard :: "engine_env \<Rightarrow> string \<Rightarrow> string \<Rightarrow> rat" where
  "token_jaccard env left right =
     (let l = normalized_tokens env left; r = normalized_tokens env right; u = l \<union> r in
      if u = {} then 1 else dec_div (of_nat (card (l \<inter> r))) (of_nat (card u)))"

definition near_key :: "detector_evaluation \<Rightarrow> rat \<times> string \<times> string \<times> string" where
  "near_key e = (case de_candidate e of
       None \<Rightarrow> (1, '''', '''', de_detector_id e)
     | Some c \<Rightarrow> (- sf_priority (dc_scores c), dc_identity_fingerprint c,
                 dc_observation_fingerprint c, de_detector_id e))"

definition near_duplicate ::
  "engine_env \<Rightarrow> detector_evaluation \<Rightarrow> detector_evaluation \<Rightarrow> bool" where
  "near_duplicate env winner item =
     (case (de_candidate winner, de_candidate item) of
        (Some w, Some c) \<Rightarrow> dc_opportunity_type w = dc_opportunity_type c
          \<and> dc_action_family w = dc_action_family c
          \<and> 3 / 5 \<le> token_jaccard env (dc_title w) (dc_title c)
      | _ \<Rightarrow> False)"

fun near_step ::
  "engine_env \<Rightarrow> detector_evaluation list \<times> detector_evaluation list \<Rightarrow> detector_evaluation
     \<Rightarrow> detector_evaluation list \<times> detector_evaluation list" where
  "near_step env (winners, result) item =
     (if \<not> acc item then (winners, result @ [item])
      else if list_ex (\<lambda>w. near_duplicate env w item) winners
      then (winners, result @ [item\<lparr>de_outcome := EO_superseded_in_run,
              de_reason_codes := fromkeys (de_reason_codes item @ [ER_lower_priority])\<rparr>])
      else (winners @ [item], result @ [item]))"

definition collapse_near_duplicates ::
  "engine_env \<Rightarrow> detector_evaluation list \<Rightarrow> detector_evaluation list" where
  "collapse_near_duplicates env evaluations =
     snd (foldl (near_step env) ([], []) (sort_key near_key evaluations))"

section \<open>The contract of a collapsing stage\<close>

text \<open>What a stage never changes: the detector, its version, the candidate and the
  diagnostics. Only the outcome and the reasons of an evaluation may change.\<close>

definition content ::
  "detector_evaluation \<Rightarrow> string \<times> string \<times> detector_candidate option \<times> (string \<times> metric_value) list" where
  "content e = (de_detector_id e, de_detector_version e, de_candidate e, de_diagnostics e)"

locale collapse_stage =
  fixes stage :: "detector_evaluation list \<Rightarrow> detector_evaluation list res"
  assumes stage_total: "is_ok (stage es)"
    and stage_content: "stage es = Inr out \<Longrightarrow> mset (map content out) = mset (map content es)"
    and stage_accepted: "stage es = Inr out \<Longrightarrow> mset (filter acc out) \<subseteq># mset (filter acc es)"
    and stage_rest: "stage es = Inr out \<Longrightarrow> e \<in> set out \<Longrightarrow> \<not> acc e \<Longrightarrow>
      e \<in> set es \<or> (\<exists>x \<in> set es. acc x \<and> content e = content x \<and> de_outcome e = EO_superseded_in_run
        \<and> ER_lower_priority \<in> set (de_reason_codes e))"
begin

lemma stage_length: "stage es = Inr out \<Longrightarrow> length out = length es"
  using stage_content by (metis length_map mset_eq_length)

lemma stage_accepted_in: "stage es = Inr out \<Longrightarrow> e \<in> set out \<Longrightarrow> acc e \<Longrightarrow> e \<in> set es"
  using mset_subset_eqD [OF stage_accepted [of es out], of e] by auto

lemma stage_distinct:
  assumes "stage es = Inr out" "distinct (map f (filter acc es))"
  shows "distinct (map f (filter acc out))"
proof -
  have "image_mset f (mset (filter acc out)) \<subseteq># image_mset f (mset (filter acc es))"
    by (rule image_mset_subseteq_mono [OF stage_accepted [OF assms(1)]])
  then have "mset (map f (filter acc out)) \<subseteq># mset (map f (filter acc es))"
    by simp
  then show ?thesis using assms(2) by (rule distinct_sub_mset)
qed

lemma stage_in:
  "stage es = Inr out \<Longrightarrow> e \<in> set out \<Longrightarrow> e \<in> set es \<or>
     (\<exists>x \<in> set es. acc x \<and> content e = content x \<and> de_outcome e = EO_superseded_in_run
        \<and> ER_lower_priority \<in> set (de_reason_codes e))"
  using stage_accepted_in stage_rest by blast

end

end
