(* ===== verification/Ranking_Facts.thy ===== *)
theory Ranking_Facts
  imports Ranking
begin

text \<open>
  The three collapsing stages implement the contract \<open>collapse_stage\<close>, and what each of them
  adds: one accepted evaluation of least precedence for every subject, one for every identity,
  and no two accepted evaluations with similar titles.
\<close>

section \<open>Updating one position of a list\<close>

lemma filter_update_drop:
  assumes "i < length xs" "P (xs ! i)" "\<not> P y" "filter P xs = [x]"
  shows "filter P (xs[i := y]) = []"
  using assms
proof (induction xs arbitrary: i)
  case Nil
  then show ?case by simp
next
  case (Cons z zs)
  then show ?case
    by (cases i) (auto split: if_splits simp: filter_empty_conv)
qed

lemma filter_update_neutral:
  assumes "i < length xs" "\<not> P (xs ! i)" "\<not> P y"
  shows "filter P (xs[i := y]) = filter P xs"
  using assms by (induction xs arbitrary: i) (auto simp: nth_Cons split: nat.splits if_splits)

lemma filter_update_sub:
  assumes "i < length xs" "\<not> P y"
  shows "mset (filter P (xs[i := y])) \<subseteq># mset (filter P xs)"
  using assms
  by (induction xs arbitrary: i)
     (auto simp: nth_Cons split: nat.splits if_splits intro: subset_mset.order_trans [OF _ mset_subset_eq_add_right] add_mset_remove_trivial
        simp del: mset_filter)

lemma map_update_same:
  "i < length xs \<Longrightarrow> f y = f (xs ! i) \<Longrightarrow> map f (xs[i := y]) = map f xs"
  by (simp add: map_update list_update_same_conv)

section \<open>One owner for every subject\<close>

lemma supersede_facts [simp]:
  "\<not> acc (supersede e)" "content (supersede e) = content e"
  "de_outcome (supersede e) = EO_superseded_in_run"
  "de_reason_codes (supersede e) = [ER_lower_priority]"
  by (simp_all add: supersede_def acc_def content_def)

definition owned :: "subject_group \<Rightarrow> detector_evaluation \<Rightarrow> bool" where
  "owned g e \<longleftrightarrow> acc e \<and> group_of e = g"

lemma owned_supersede [simp]: "\<not> owned g (supersede e)"
  by (simp add: owned_def)

definition rank_inv ::
  "detector_evaluation list \<Rightarrow> (subject_group \<times> detector_evaluation) list
     \<Rightarrow> detector_evaluation list \<Rightarrow> bool" where
  "rank_inv seen owners result \<longleftrightarrow>
     mset (map content result) = mset (map content seen)
   \<and> (\<forall>g. filter (owned g) result = (case map_of owners g of None \<Rightarrow> [] | Some w \<Rightarrow> [w]))
   \<and> (\<forall>e \<in> set seen. acc e \<longrightarrow>
        (\<exists>w. map_of owners (group_of e) = Some w \<and> precedence w \<le> precedence e))
   \<and> mset (filter acc result) \<subseteq># mset (filter acc seen)
   \<and> (\<forall>e \<in> set result. \<not> acc e \<longrightarrow> e \<in> set seen \<or> (\<exists>x \<in> set seen. acc x \<and> e = supersede x))"

lemma rank_invD:
  assumes "rank_inv seen owners result"
  shows "mset (map content result) = mset (map content seen)"
    and "filter (owned g) result = (case map_of owners g of None \<Rightarrow> [] | Some w \<Rightarrow> [w])"
    and "e \<in> set seen \<Longrightarrow> acc e \<Longrightarrow>
      \<exists>w. map_of owners (group_of e) = Some w \<and> precedence w \<le> precedence e"
    and "mset (filter acc result) \<subseteq># mset (filter acc seen)"
    and "e \<in> set result \<Longrightarrow> \<not> acc e \<Longrightarrow> e \<in> set seen \<or> (\<exists>x \<in> set seen. acc x \<and> e = supersede x)"
  using assms unfolding rank_inv_def by blast+

lemma rank_inv_owner:
  assumes "rank_inv seen owners result" "map_of owners g = Some w"
  shows "w \<in> set result" "acc w" "group_of w = g" "w \<in> set seen"
proof -
  have "filter (owned g) result = [w]" using rank_invD(2) [OF assms(1), of g] assms(2) by simp
  then have "w \<in> set (filter (owned g) result)" by simp
  then show *: "w \<in> set result" "acc w" "group_of w = g" by (auto simp: owned_def)
  then have "w \<in># mset (filter acc result)" by simp
  from mset_subset_eqD [OF rank_invD(4) [OF assms(1)] this] show "w \<in> set seen" by simp
qed

lemma rank_inv_rest:
  assumes "rank_inv seen owners result" "\<not> acc item"
  shows "rank_inv (seen @ [item]) owners (result @ [item])"
proof -
  have "\<not> owned g item" for g using assms(2) by (simp add: owned_def)
  with assms show ?thesis by (auto simp: rank_inv_def)
qed

lemma rank_inv_new:
  assumes "rank_inv seen owners result" "acc item" "map_of owners (group_of item) = None"
  shows "rank_inv (seen @ [item]) (AList.update (group_of item) item owners) (result @ [item])"
proof -
  have "filter (owned g) (result @ [item])
      = (case map_of (AList.update (group_of item) item owners) g of None \<Rightarrow> [] | Some w \<Rightarrow> [w])" for g
    using rank_invD(2) [OF assms(1), of g] assms(2,3)
    by (auto simp: owned_def update_conv' split: option.splits)
  moreover have "\<exists>w. map_of (AList.update (group_of item) item owners) (group_of e) = Some w
      \<and> precedence w \<le> precedence e" if "e \<in> set (seen @ [item])" "acc e" for e
    using that rank_invD(3) [OF assms(1), of e] assms(3) by (auto simp: update_conv')
  ultimately show ?thesis
    using rank_invD(1,4,5) [OF assms(1)] assms(2) unfolding rank_inv_def
    by (auto simp del: mset_map mset_filter)
qed

lemma rank_inv_loses:
  assumes inv: "rank_inv seen owners result" and "acc item"
    and "map_of owners (group_of item) = Some w" "precedence w \<le> precedence item"
  shows "rank_inv (seen @ [item]) owners (result @ [supersede item])"
proof -
  have "mset (filter acc (result @ [supersede item])) \<subseteq># mset (filter acc (seen @ [item]))"
    using rank_invD(4) [OF inv] assms(2) by (auto intro: subset_mset.order_trans)
  then show ?thesis
    using rank_invD [OF inv] assms(2-) unfolding rank_inv_def
    by (auto simp del: mset_map mset_filter)
qed

lemma rank_inv_wins:
  assumes inv: "rank_inv seen owners result" and "acc item"
    and w: "map_of owners (group_of item) = Some w" and less: "precedence item < precedence w"
    and i: "list_index w result = Some i"
  shows "rank_inv (seen @ [item]) (AList.update (group_of item) item owners)
           (result[i := supersede w] @ [item])"
proof -
  note ow = rank_inv_owner [OF inv w]
  have i': "i < length result" "result ! i = w" using list_index_SomeD [OF i] by auto
  let ?res = "result[i := supersede w]"
  let ?own = "AList.update (group_of item) item owners"
  have "filter (owned g) (?res @ [item]) = (case map_of ?own g of None \<Rightarrow> [] | Some w \<Rightarrow> [w])" for g
  proof (cases "g = group_of item")
    case True
    have "filter (owned g) result = [w]" using rank_invD(2) [OF inv, of g] w True by simp
    then have "filter (owned g) ?res = []"
      using i' ow True by (intro filter_update_drop) (auto simp: owned_def)
    with True assms(2) show ?thesis by (simp add: owned_def update_conv')
  next
    case False
    then have "filter (owned g) ?res = filter (owned g) result"
      using i' ow by (intro filter_update_neutral) (auto simp: owned_def)
    with False rank_invD(2) [OF inv, of g] show ?thesis by (simp add: owned_def update_conv')
  qed
  moreover have "\<exists>v. map_of ?own (group_of e) = Some v \<and> precedence v \<le> precedence e"
    if "e \<in> set (seen @ [item])" "acc e" for e
    using that rank_invD(3) [OF inv, of e] w less by (auto simp: update_conv')
  moreover have "mset (map content ?res) = mset (map content result)"
    using i' by (simp add: map_update_same del: mset_map)
  moreover have "mset (filter acc ?res) \<subseteq># mset (filter acc seen)"
    using filter_update_sub [of i result acc "supersede w"] i' rank_invD(4) [OF inv]
    by (auto intro: subset_mset.order_trans)
  moreover have "e \<in> set seen \<or> (\<exists>x \<in> set seen. acc x \<and> e = supersede x)"
    if "e \<in> set ?res" "\<not> acc e" for e
    using that rank_invD(5) [OF inv] ow set_update_subset_insert [of result i "supersede w"] by blast
  ultimately show ?thesis
    using rank_invD(1) [OF inv] assms(2) unfolding rank_inv_def
    by (auto simp del: mset_map mset_filter)
qed

lemma rank_step_inv:
  assumes "rank_inv seen owners result"
  shows "\<exists>owners' result'. rank_step (owners, result) item = Inr (owners', result')
    \<and> rank_inv (seen @ [item]) owners' result'"
proof (cases "acc item \<and> map_of owners (group_of item) \<noteq> None")
  case False
  with rank_inv_rest [OF assms] rank_inv_new [OF assms] show ?thesis by auto
next
  case True
  then obtain w where w: "acc item" "map_of owners (group_of item) = Some w" by auto
  show ?thesis
  proof (cases "precedence item < precedence w")
    case less: True
    obtain i where "list_index w result = Some i"
      using rank_inv_owner(1) [OF assms w(2)] list_index_eq_None [of w result] by fastforce
    with rank_inv_wins [OF assms w less] w less show ?thesis by auto
  next
    case False
    with rank_inv_loses [OF assms w] w show ?thesis by auto
  qed
qed

lemma rank_loop_inv:
  assumes "rank_inv seen owners result"
  shows "\<exists>owners' result'. rank_loop (owners, result) items = Inr (owners', result')
    \<and> rank_inv (seen @ items) owners' result'"
  using assms
proof (induction items arbitrary: seen owners result)
  case Nil
  then show ?case by simp
next
  case (Cons item items)
  then obtain o1 r1 where "rank_step (owners, result) item = Inr (o1, r1)"
    "rank_inv (seen @ [item]) o1 r1" using rank_step_inv by blast
  with Cons.IH [of "seen @ [item]" o1 r1] show ?case by auto
qed

lemma rank_inv_init: "rank_inv [] [] []"
  by (simp add: rank_inv_def)

lemma rank_and_collapse_inv:
  "\<exists>owners result. rank_and_collapse es = Inr (sort_key rank_key result)
     \<and> rank_inv (sort_key rank_key es) owners result"
  using rank_loop_inv [OF rank_inv_init, of "sort_key rank_key es"]
  unfolding rank_and_collapse_def by fastforce

interpretation owner_stage: collapse_stage rank_and_collapse
proof
  fix es out e
  obtain owners result where r: "rank_and_collapse es = Inr (sort_key rank_key result)"
    and inv: "rank_inv (sort_key rank_key es) owners result"
    using rank_and_collapse_inv by blast
  show "is_ok (rank_and_collapse es)" using r by simp
  { assume "rank_and_collapse es = Inr out"
    then have out: "out = sort_key rank_key result" using r by simp
    show "mset (map content out) = mset (map content es)"
      using rank_invD(1) [OF inv] out by simp
    show "mset (filter acc out) \<subseteq># mset (filter acc es)"
      using rank_invD(4) [OF inv] out by simp
    assume "e \<in> set out" "\<not> acc e"
    then show "e \<in> set es \<or> (\<exists>x \<in> set es. acc x \<and> content e = content x
        \<and> de_outcome e = EO_superseded_in_run \<and> ER_lower_priority \<in> set (de_reason_codes e))"
      using rank_invD(5) [OF inv, of e] out by auto }
qed

lemma count_map: "count (mset (map f xs)) y = length (filter (\<lambda>x. f x = y) xs)"
  by (induction xs) auto

lemma rank_distinct_groups:
  assumes "rank_and_collapse es = Inr out"
  shows "distinct (map group_of (filter acc out))"
  unfolding distinct_iff_count
proof
  fix g
  obtain owners result where out: "out = sort_key rank_key result"
    and inv: "rank_inv (sort_key rank_key es) owners result"
    using rank_and_collapse_inv [of es] assms by auto
  have "count (mset (map group_of (filter acc out))) g = length (filter (owned g) out)"
    unfolding count_map filter_filter
    by (rule arg_cong [where f = length], rule filter_cong) (auto simp: owned_def)
  also have "\<dots> = length (filter (owned g) result)"
    by (metis out mset_filter mset_sort size_mset)
  also have "\<dots> \<le> 1" using rank_invD(2) [OF inv, of g] by (simp split: option.splits)
  finally show "count (mset (map group_of (filter acc out))) g \<le> 1" .
qed

lemma rank_least_precedence:
  assumes "rank_and_collapse es = Inr out" "e \<in> set es" "acc e"
  shows "\<exists>w \<in> set out. acc w \<and> group_of w = group_of e \<and> precedence w \<le> precedence e"
proof -
  obtain owners result where out: "out = sort_key rank_key result"
    and inv: "rank_inv (sort_key rank_key es) owners result"
    using rank_and_collapse_inv [of es] assms by auto
  obtain w where "map_of owners (group_of e) = Some w" "precedence w \<le> precedence e"
    using rank_invD(3) [OF inv, of e] assms(2,3) by auto
  with rank_inv_owner [OF inv this(1)] out show ?thesis by auto
qed

section \<open>Stages that decide evaluation by evaluation\<close>

definition kept_or_superseded :: "detector_evaluation \<Rightarrow> detector_evaluation \<Rightarrow> bool" where
  "kept_or_superseded x y \<longleftrightarrow> y = x \<or> acc x \<and> \<not> acc y \<and> content y = content x
     \<and> de_outcome y = EO_superseded_in_run \<and> ER_lower_priority \<in> set (de_reason_codes y)"

lemma kept_refl [simp]: "kept_or_superseded e e"
  by (simp add: kept_or_superseded_def)

lemma superseded_facts [simp]:
  "\<not> acc (e\<lparr>de_outcome := EO_superseded_in_run, de_reason_codes := rs\<rparr>)"
  "acc e \<Longrightarrow> ER_lower_priority \<in> set rs \<Longrightarrow>
     kept_or_superseded e (e\<lparr>de_outcome := EO_superseded_in_run, de_reason_codes := rs\<rparr>)"
  by (simp_all add: kept_or_superseded_def acc_def content_def)

lemma pointwise_content:
  "list_all2 kept_or_superseded xs ys \<Longrightarrow> map content ys = map content xs"
  by (induction rule: list_all2_induct) (auto simp: kept_or_superseded_def)

lemma pointwise_accepted:
  "list_all2 kept_or_superseded xs ys \<Longrightarrow> mset (filter acc ys) \<subseteq># mset (filter acc xs)"
  by (induction rule: list_all2_induct)
     (auto simp: kept_or_superseded_def intro: subset_mset.order_trans)

lemma pointwise_rest:
  assumes "list_all2 kept_or_superseded xs ys" "y \<in> set ys"
  shows "y \<in> set xs \<or> (\<exists>x \<in> set xs. acc x \<and> content y = content x
    \<and> de_outcome y = EO_superseded_in_run \<and> ER_lower_priority \<in> set (de_reason_codes y))"
proof -
  obtain x where "x \<in> set xs" "kept_or_superseded x y"
    using assms by (metis in_set_conv_nth list_all2_conv_all_nth)
  then show ?thesis by (auto simp: kept_or_superseded_def)
qed

lemma pointwise_stage:
  assumes stage: "\<And>es. list_all2 kept_or_superseded (order es) (stage es)"
    and order: "\<And>es. mset (order es) = mset es"
  shows "collapse_stage (\<lambda>es. Inr (stage es))"
proof
  fix es out e
  { assume "(Inr (stage es) :: detector_evaluation list res) = Inr out"
    then have p: "list_all2 kept_or_superseded (order es) out" using stage [of es] by simp
    note o = order [of es] mset_eq_setD [OF order [of es]]
    show "mset (map content out) = mset (map content es)"
      using pointwise_content [OF p] o by (metis mset_map)
    show "mset (filter acc out) \<subseteq># mset (filter acc es)"
      using pointwise_accepted [OF p] o by (metis mset_filter)
    assume "e \<in> set out"
    with pointwise_rest [OF p this] o
    show "e \<in> set es \<or> (\<exists>x \<in> set es. acc x \<and> content e = content x
        \<and> de_outcome e = EO_superseded_in_run \<and> ER_lower_priority \<in> set (de_reason_codes e))"
      by simp }
qed simp

section \<open>One evaluation for every identity\<close>

lemma identity_fold_snoc:
  "foldl identity_step ([], []) (es @ [e]) = identity_step (foldl identity_step ([], []) es) e"
  by simp

lemma identity_fold_inv:
  "foldl identity_step ([], []) es = (seen, out) \<Longrightarrow>
     list_all2 kept_or_superseded es out
   \<and> distinct (map identity_of (filter acc out))
   \<and> set seen = identity_of ` set (filter acc out)
   \<and> (\<forall>e \<in> set es. acc e \<longrightarrow> identity_of e \<in> set seen)"
proof (induction es arbitrary: seen out rule: rev_induct)
  case Nil
  then show ?case by simp
next
  case (snoc e es)
  obtain s r where f: "foldl identity_step ([], []) es = (s, r)" by fastforce
  note IH = snoc.IH [OF f]
  have "list_all2 kept_or_superseded (es @ [e]) (r @ [y])" if "kept_or_superseded e y" for y
    using IH that by (simp add: list_all2_appendI)
  with IH snoc.prems f show ?case
    by (auto split: if_splits)
qed

lemma collapse_same_identity_inv:
  "list_all2 kept_or_superseded es (collapse_same_identity es)"
  "distinct (map identity_of (filter acc (collapse_same_identity es)))"
  "e \<in> set es \<Longrightarrow> acc e \<Longrightarrow>
     \<exists>w \<in> set (collapse_same_identity es). acc w \<and> identity_of w = identity_of e"
proof -
  obtain seen out where f: "foldl identity_step ([], []) es = (seen, out)" by fastforce
  then have o: "collapse_same_identity es = out" by (simp add: collapse_same_identity_def)
  note inv = identity_fold_inv [OF f]
  show "list_all2 kept_or_superseded es (collapse_same_identity es)"
    "distinct (map identity_of (filter acc (collapse_same_identity es)))"
    using inv o by blast+
  show "\<exists>w \<in> set (collapse_same_identity es). acc w \<and> identity_of w = identity_of e"
    if "e \<in> set es" "acc e"
  proof -
    have "identity_of e \<in> identity_of ` set (filter acc out)" using inv that by blast
    then show ?thesis using o by auto
  qed
qed

interpretation identity_stage: collapse_stage "\<lambda>es. Inr (collapse_same_identity es)"
  by (rule pointwise_stage [where order = "\<lambda>es. es"]) (simp_all add: collapse_same_identity_inv)

section \<open>One evaluation for every cluster of similar titles\<close>

definition spread :: "engine_env \<Rightarrow> detector_evaluation list \<Rightarrow> bool" where
  "spread env es \<longleftrightarrow> sorted_wrt (\<lambda>w e. \<not> near_duplicate env w e) (filter acc es)"

lemma near_fold_inv:
  "foldl (near_step env) ([], []) es = (winners, out) \<Longrightarrow>
     list_all2 kept_or_superseded es out \<and> winners = filter acc out \<and> spread env out
   \<and> (\<forall>e \<in> set es. acc e \<longrightarrow> e \<in> set winners \<or> (\<exists>w \<in> set winners. near_duplicate env w e))"
proof (induction es arbitrary: winners out rule: rev_induct)
  case Nil
  then show ?case by (simp add: spread_def)
next
  case (snoc e es)
  obtain s r where f: "foldl (near_step env) ([], []) es = (s, r)" by fastforce
  note IH = snoc.IH [OF f]
  have "list_all2 kept_or_superseded (es @ [e]) (r @ [y])" if "kept_or_superseded e y" for y
    using IH that by (simp add: list_all2_appendI)
  with IH snoc.prems f show ?case
    by (auto simp: list_ex_iff spread_def sorted_wrt_append split: if_splits)
qed

lemma collapse_near_duplicates_inv:
  "list_all2 kept_or_superseded (sort_key near_key es) (collapse_near_duplicates env es)"
  "spread env (collapse_near_duplicates env es)"
  "e \<in> set es \<Longrightarrow> acc e \<Longrightarrow> e \<in> set (collapse_near_duplicates env es)
     \<or> (\<exists>w \<in> set (collapse_near_duplicates env es). acc w \<and> near_duplicate env w e)"
proof -
  obtain winners out where f: "foldl (near_step env) ([], []) (sort_key near_key es) = (winners, out)"
    by fastforce
  then have o: "collapse_near_duplicates env es = out" by (simp add: collapse_near_duplicates_def)
  note inv = near_fold_inv [OF f]
  show "list_all2 kept_or_superseded (sort_key near_key es) (collapse_near_duplicates env es)"
    "spread env (collapse_near_duplicates env es)"
    using inv o by blast+
  show "e \<in> set (collapse_near_duplicates env es)
     \<or> (\<exists>w \<in> set (collapse_near_duplicates env es). acc w \<and> near_duplicate env w e)"
    if "e \<in> set es" "acc e"
    using inv o that by auto
qed

interpretation near_stage: collapse_stage "\<lambda>es. Inr (collapse_near_duplicates env es)" for env
  by (rule pointwise_stage [where order = "sort_key near_key"])
     (simp_all add: collapse_near_duplicates_inv)

section \<open>Tokens of titles\<close>

lemma find_tokens_word: "w \<noteq> [] \<Longrightarrow> list_all token_char w \<Longrightarrow> find_tokens w = [w]"
proof (cases w)
  case (Cons c cs)
  moreover assume "list_all token_char w"
  ultimately have "token_char c" "takeWhile token_char cs = cs" "dropWhile token_char cs = []"
    by (auto simp: list_all_iff)
  then have "find_tokens (c # cs) = [c # cs]"
    by (simp only: find_tokens.simps if_True)
  with Cons show ?thesis by simp
qed simp

lemma find_tokens_space:
  assumes "w \<noteq> []" "list_all token_char w"
  shows "find_tokens (w @ CHR '' '' # s) = w # find_tokens s"
proof (cases w)
  case (Cons c cs)
  have sp: "\<not> token_char (CHR '' '')" by code_simp
  have "takeWhile token_char (cs @ CHR '' '' # s) = cs" "dropWhile token_char (cs @ CHR '' '' # s) = CHR '' '' # s"
    using assms(2) Cons sp by (auto simp: list_all_iff takeWhile_append dropWhile_append)
  then show ?thesis using Cons assms(2) sp by simp
qed (use assms in simp)

definition snippet_prefix :: string where
  "snippet_prefix = ''improve the search snippet for ''"

lemma find_tokens_snippet:
  assumes "w \<noteq> []" "list_all token_char w"
  shows "find_tokens (snippet_prefix @ w)
    = [''improve'', ''the'', ''search'', ''snippet'', ''for'', w]"
proof -
  have split: "snippet_prefix @ w = ''improve'' @ CHR '' '' # (''the'' @ CHR '' '' #
      (''search'' @ CHR '' '' # (''snippet'' @ CHR '' '' # (''for'' @ CHR '' '' # w))))"
    by (simp add: snippet_prefix_def)
  have tok: "list_all token_char ''improve''" "list_all token_char ''the''" "list_all token_char ''search''"
    "list_all token_char ''snippet''" "list_all token_char ''for''" by code_simp+
  show ?thesis
    unfolding split
    by (subst find_tokens_space, simp, rule tok)+ (simp add: find_tokens_word [OF assms])
qed

section \<open>Properties\<close>

text \<open>C5. Ranking never raises. It leaves at most one accepted evaluation for a
  subject, every accepted evaluation of the input has in its subject an accepted owner whose
  type takes precedence or is the same, and evaluations are neither lost nor invented.\<close>

theorem one_owner_per_subject:
  "\<exists>out. rank_and_collapse es = Inr out
     \<and> distinct (map group_of (filter acc out))
     \<and> list_all (\<lambda>e. list_ex (\<lambda>w. acc w \<and> group_of w = group_of e \<and> precedence w \<le> precedence e) out)
         (filter acc es)
     \<and> mset (map content out) = mset (map content es)"
proof -
  obtain out where out: "rank_and_collapse es = Inr out"
    using owner_stage.stage_total unfolding is_ok_iff by blast
  then show ?thesis
    using rank_distinct_groups [OF out] rank_least_precedence [OF out] owner_stage.stage_content [OF out]
    by (auto simp: list_all_iff list_ex_iff)
qed

text \<open>The five words that every snippet title shares outweigh the
  query: two different queries of one word each have similar titles, so of two such findings
  only one is accepted.\<close>

theorem short_queries_are_near_duplicates:
  assumes "a \<noteq> []" "list_all token_char a" "b \<noteq> []" "list_all token_char b" "a \<noteq> b"
    and "set [a, b] \<inter> set [''improve'', ''the'', ''search'', ''snippet'', ''for''] = {}"
    and "casefold env (''Improve the search snippet for '' @ a) = snippet_prefix @ a"
    and "casefold env (''Improve the search snippet for '' @ b) = snippet_prefix @ b"
  shows "3 / 5 \<le> token_jaccard env (''Improve the search snippet for '' @ a)
    (''Improve the search snippet for '' @ b)"
proof -
  let ?w = "set [''improve'', ''the'', ''search'', ''snippet'', ''for'']"
  have t: "normalized_tokens env (''Improve the search snippet for '' @ a) = insert a ?w"
    "normalized_tokens env (''Improve the search snippet for '' @ b) = insert b ?w"
    using assms(7,8) find_tokens_snippet [OF assms(1,2)] find_tokens_snippet [OF assms(3,4)]
    by (auto simp: normalized_tokens_def simp del: append.simps)
  have w: "card ?w = 5" by code_simp
  have "insert a ?w \<inter> insert b ?w = ?w" "insert a ?w \<union> insert b ?w = insert a (insert b ?w)"
    using assms(5,6) by auto
  moreover have "card (insert a (insert b ?w)) = 7"
    using assms(5,6) w by (subst card_insert_disjoint, simp, force)+ simp
  moreover have "3 / 5 \<le> dec_div 5 7" by code_simp
  ultimately show ?thesis using w unfolding token_jaccard_def t Let_def by simp
qed

definition lower_env :: engine_env where
  "lower_env = \<lparr>sha256 = (\<lambda>s. s), observation_digest = (\<lambda>_. ''o''), casefold = py_lower\<rparr>"

theorem short_queries_are_near_duplicates_witness:
  "3 / 5 \<le> token_jaccard lower_env (''Improve the search snippet for '' @ ''pricing'')
    (''Improve the search snippet for '' @ ''refunds'')"
  by (rule short_queries_are_near_duplicates; code_simp)

end
