(* ===== verification/Detection.thy ===== *)
theory Detection
  imports Ranking_Facts
begin

text \<open>
  The evaluation of one snapshot by the whole engine
  (\<open>evaluate_detection_input\<close> of \<open>services/opportunity_detection_service.py\<close>): every detector
  of the registry runs, the three collapsing stages follow, and the history of each surviving
  opportunity decides whether it is accepted, with which novelty, or suppressed. The lemmas
  lift the contracts of detectors and stages to the result of the engine.
\<close>

section \<open>Definitions\<close>

definition rescore :: "detector_candidate \<Rightarrow> rat \<Rightarrow> detector_candidate" where
  "rescore c novelty =
     (let s = dc_scores c in
      c\<lparr>dc_scores := score_opportunity (sf_impact s) (sf_confidence s) (sf_effort s)
          (sf_urgency s) (sf_strategic_fit s) novelty\<rparr>)"

definition identity_history :: "detection_input \<Rightarrow> detector_candidate \<Rightarrow> opportunity_history_item list" where
  "identity_history data c =
     filter (\<lambda>h. hi_identity_fingerprint h = dc_identity_fingerprint c) (di_history data)"

text \<open>The body of the loop over the collapsed evaluations.\<close>

definition apply_history :: "detection_input \<Rightarrow> detector_evaluation \<Rightarrow> detector_evaluation res" where
  "apply_history data e =
     (case de_candidate e of
        None \<Rightarrow> Inr e
      | Some c \<Rightarrow>
          if de_outcome e \<noteq> EO_accepted then Inr e
          else res_bind (novelty_for_history (identity_history data c) (dc_opportunity_type c)
                           (di_as_of data)) (\<lambda>(novelty, blocked).
            let c' = rescore c novelty in
            case blocked of
              None \<Rightarrow> Inr (e\<lparr>de_candidate := Some c'\<rparr>)
            | Some reason \<Rightarrow> Inr (e\<lparr>de_candidate := Some c',
                de_outcome := (if reason = ER_duplicate then EO_suppressed_duplicate
                               else EO_suppressed_cooldown),
                de_reason_codes := fromkeys (de_reason_codes e @ [reason])\<rparr>)))"

definition gather :: "engine_env \<Rightarrow> detection_input \<Rightarrow> detector_evaluation list res" where
  "gather env data =
     res_bind (res_map (\<lambda>(_, _, detect). detect env data) detector_registry)
       (\<lambda>results. Inr (concat results))"

definition collapse :: "engine_env \<Rightarrow> detector_evaluation list \<Rightarrow> detector_evaluation list res" where
  "collapse env gathered =
     res_bind (rank_and_collapse gathered)
       (\<lambda>ranked. Inr (collapse_near_duplicates env (collapse_same_identity ranked)))"

definition evaluate_detection_input ::
  "engine_env \<Rightarrow> detection_input \<Rightarrow> detector_evaluation list res" where
  "evaluate_detection_input env data =
     res_bind (gather env data) (\<lambda>gathered.
     res_bind (collapse env gathered) (\<lambda>collapsed.
     res_map (apply_history data) collapsed))"

section \<open>Composition of stages\<close>

lemma collapse_stage_comp:
  assumes "collapse_stage f" "collapse_stage g"
  shows "collapse_stage (\<lambda>es. res_bind (f es) g)"
proof
  fix es out e
  obtain m where m: "f es = Inr m"
    using collapse_stage.stage_total [OF assms(1), of es] unfolding is_ok_iff by blast
  show "is_ok (res_bind (f es) g)"
    using m collapse_stage.stage_total [OF assms(2)] by simp
  { assume "res_bind (f es) g = Inr out"
    then have out: "g m = Inr out" using m by simp
    show "mset (map content out) = mset (map content es)"
      using collapse_stage.stage_content [OF assms(1) m]
        collapse_stage.stage_content [OF assms(2) out] by (simp del: mset_map)
    show "mset (filter acc out) \<subseteq># mset (filter acc es)"
      using collapse_stage.stage_accepted [OF assms(1) m]
        collapse_stage.stage_accepted [OF assms(2) out] by (blast intro: subset_mset.order_trans)
    assume "e \<in> set out" "\<not> acc e"
    from collapse_stage.stage_rest [OF assms(2) out this]
    show "e \<in> set es \<or> (\<exists>x \<in> set es. acc x \<and> content e = content x
        \<and> de_outcome e = EO_superseded_in_run \<and> ER_lower_priority \<in> set (de_reason_codes e))"
    proof
      assume "e \<in> set m"
      with collapse_stage.stage_rest [OF assms(1) m _ \<open>\<not> acc e\<close>] show ?thesis by blast
    next
      assume "\<exists>x \<in> set m. acc x \<and> content e = content x \<and> de_outcome e = EO_superseded_in_run
        \<and> ER_lower_priority \<in> set (de_reason_codes e)"
      with collapse_stage.stage_accepted_in [OF assms(1) m] show ?thesis by blast
    qed }
qed

interpretation engine_stage: collapse_stage "collapse env" for env
proof -
  have "collapse env = (\<lambda>es. res_bind (res_bind (rank_and_collapse es)
      (\<lambda>es. Inr (collapse_same_identity es))) (\<lambda>es. Inr (collapse_near_duplicates env es)))"
  proof
    fix es
    show "collapse env es = res_bind (res_bind (rank_and_collapse es)
        (\<lambda>es. Inr (collapse_same_identity es))) (\<lambda>es. Inr (collapse_near_duplicates env es))"
      by (cases "rank_and_collapse es") (simp_all add: collapse_def)
  qed
  then show "collapse_stage (collapse env)"
    using collapse_stage_comp [OF collapse_stage_comp
        [OF owner_stage.collapse_stage_axioms identity_stage.collapse_stage_axioms]
        near_stage.collapse_stage_axioms] by simp
qed

section \<open>Uniqueness of accepted evaluations\<close>

definition same_subject :: "detector_evaluation \<Rightarrow> detector_evaluation \<Rightarrow> bool" where
  "same_subject x y \<longleftrightarrow> identity_of y = identity_of x \<and> group_of y = group_of x
     \<and> (\<forall>env z. near_duplicate env z y = near_duplicate env z x
          \<and> near_duplicate env y z = near_duplicate env x z)"

lemma rescore_fields [simp]:
  "dc_opportunity_type (rescore c n) = dc_opportunity_type c"
  "dc_action_family (rescore c n) = dc_action_family c"
  "dc_subject_kind (rescore c n) = dc_subject_kind c"
  "dc_subject_keys (rescore c n) = dc_subject_keys c"
  "dc_identity_fingerprint (rescore c n) = dc_identity_fingerprint c"
  "dc_observation_fingerprint (rescore c n) = dc_observation_fingerprint c"
  "dc_title (rescore c n) = dc_title c"
  "dc_evidence (rescore c n) = dc_evidence c"
  "valid_candidate (rescore c n) = valid_candidate c"
  by (simp_all add: rescore_def Let_def valid_candidate_def)

lemma rescore_same_subject:
  "de_candidate x = Some c \<Longrightarrow> same_subject x (x\<lparr>de_candidate := Some (rescore c n)\<rparr>)"
  by (simp add: same_subject_def identity_of_def group_of_def near_duplicate_def split: option.splits)

definition unblocked :: "detection_input \<Rightarrow> detector_candidate \<Rightarrow> bool" where
  "unblocked d c \<longleftrightarrow>
     list_all (\<lambda>h. \<not> blocks (dc_opportunity_type c) (di_as_of d) h) (identity_history d c)"

lemma apply_history_accepted:
  assumes "apply_history d e = Inr e'" "acc e'"
  shows "\<exists>c n. acc e \<and> de_candidate e = Some c \<and> n \<in> {50, 70, 100} \<and> unblocked d c
    \<and> e' = e\<lparr>de_candidate := Some (rescore c n)\<rparr>"
proof -
  have "acc e" using assms
    by (auto simp: apply_history_def acc_def res_bind_eq_Inr Let_def split: option.splits if_splits)
  then obtain c where c: "de_candidate e = Some c" "de_outcome e = EO_accepted"
    by (auto simp: acc_def)
  with assms(1) obtain n b where nb:
    "novelty_for_history (identity_history d c) (dc_opportunity_type c) (di_as_of d) = Inr (n, b)"
    by (auto simp: apply_history_def res_bind_eq_Inr)
  then have "b = None" "e' = e\<lparr>de_candidate := Some (rescore c n)\<rparr>" using assms c
    by (auto simp: apply_history_def acc_def Let_def split: option.splits if_splits)
  with novelty_for_history_cases [OF nb] c \<open>acc e\<close> show ?thesis
    by (auto simp: unblocked_def list_all_iff)
qed

lemma sorted_wrt_filter_all2:
  assumes "list_all2 R xs ys" "sorted_wrt P (filter p xs)"
    and "\<And>x y. R x y \<Longrightarrow> p y \<Longrightarrow> p x"
    and "\<And>x y x' y'. R x y \<Longrightarrow> R x' y' \<Longrightarrow> p y \<Longrightarrow> p y' \<Longrightarrow> P x x' \<Longrightarrow> P y y'"
  shows "sorted_wrt P (filter p ys)"
  using assms(1,2)
proof (induction rule: list_all2_induct)
  case Nil
  then show ?case by simp
next
  case (Cons x xs y ys)
  have "P y y'" if "p y" "y' \<in> set ys" "p y'" for y'
  proof -
    obtain x' where x': "x' \<in> set xs" "R x' y'"
      using Cons.hyps(2) \<open>y' \<in> set ys\<close> by (metis in_set_conv_nth list_all2_conv_all_nth)
    then have "p x" "p x'" using assms(3) Cons.hyps(1) that by blast+
    then have "P x x'" using Cons.prems x' by simp
    then show ?thesis using assms(4) Cons.hyps(1) x' that by blast
  qed
  moreover have "sorted_wrt P (filter p xs)" using Cons.prems by (auto split: if_splits)
  ultimately show ?case using Cons.IH by simp
qed

lemma distinct_map_sorted_wrt: "distinct (map f xs) \<longleftrightarrow> sorted_wrt (\<lambda>x y. f x \<noteq> f y) xs"
  by (induction xs) auto

lemma evaluate_parts:
  assumes "evaluate_detection_input env d = Inr out"
  obtains gathered collapsed where "gather env d = Inr gathered"
    "collapse env gathered = Inr collapsed"
    "list_all2 (\<lambda>e e'. apply_history d e = Inr e') collapsed out"
  using assms by (auto simp: evaluate_detection_input_def res_bind_eq_Inr res_map_eq_Inr)

lemma evaluate_sorted_wrt:
  assumes "evaluate_detection_input env d = Inr out"
    and "\<And>gathered collapsed. collapse env gathered = Inr collapsed \<Longrightarrow> sorted_wrt P (filter acc collapsed)"
    and "\<And>x y x' y'. same_subject x y \<Longrightarrow> same_subject x' y' \<Longrightarrow> P x x' \<Longrightarrow> P y y'"
  shows "sorted_wrt P (filter acc out)"
proof -
  from assms(1) obtain gathered collapsed where c: "collapse env gathered = Inr collapsed"
    and all2: "list_all2 (\<lambda>e e'. apply_history d e = Inr e') collapsed out"
    by (rule evaluate_parts)
  have same: "acc x \<and> same_subject x y" if "apply_history d x = Inr y" "acc y" for x y
    using apply_history_accepted [OF that] rescore_same_subject by auto
  show ?thesis
    by (rule sorted_wrt_filter_all2 [OF all2 assms(2) [OF c]]) (use same assms(3) in blast)+
qed

lemma collapse_parts:
  assumes "collapse env gathered = Inr collapsed"
  obtains ranked where "rank_and_collapse gathered = Inr ranked"
    "collapsed = collapse_near_duplicates env (collapse_same_identity ranked)"
  using assms by (auto simp: collapse_def res_bind_eq_Inr)

lemma collapse_distinct:
  assumes "collapse env gathered = Inr collapsed"
  shows "distinct (map identity_of (filter acc collapsed))"
    "distinct (map group_of (filter acc collapsed))" "spread env collapsed"
proof -
  obtain ranked where r: "rank_and_collapse gathered = Inr ranked"
    and c: "collapsed = collapse_near_duplicates env (collapse_same_identity ranked)"
    using assms by (rule collapse_parts)
  show "distinct (map identity_of (filter acc collapsed))"
    using near_stage.stage_distinct [OF refl collapse_same_identity_inv(2)] c by simp
  have "distinct (map group_of (filter acc (collapse_same_identity ranked)))"
    by (rule identity_stage.stage_distinct [OF refl rank_distinct_groups [OF r]])
  then show "distinct (map group_of (filter acc collapsed))"
    using near_stage.stage_distinct [OF refl] c by blast
  show "spread env collapsed" using c collapse_near_duplicates_inv(2) by simp
qed

lemma evaluate_distinct:
  assumes "evaluate_detection_input env d = Inr out"
  shows "distinct (map identity_of (filter acc out))" "distinct (map group_of (filter acc out))"
    "spread env out"
proof -
  show "distinct (map identity_of (filter acc out))"
    unfolding distinct_map_sorted_wrt
    by (rule evaluate_sorted_wrt [OF assms])
       (auto simp: distinct_map_sorted_wrt [symmetric] collapse_distinct same_subject_def)
  show "distinct (map group_of (filter acc out))"
    unfolding distinct_map_sorted_wrt
    by (rule evaluate_sorted_wrt [OF assms])
       (auto simp: distinct_map_sorted_wrt [symmetric] collapse_distinct same_subject_def)
  show "spread env out"
    unfolding spread_def
    by (rule evaluate_sorted_wrt [OF assms])
       (auto simp: spread_def [symmetric] collapse_distinct same_subject_def)
qed

section \<open>Well-formedness and totality\<close>

text \<open>Every entry of the registry implements the contract of a detector.\<close>

lemma registry_detectors:
  assumes "(i, v, detect) \<in> set detector_registry"
  shows "\<exists>rs rw. opportunity_detector detect i rs rw"
  using assms high_impressions.opportunity_detector_axioms ranking.opportunity_detector_axioms
    decline.opportunity_detector_axioms shipped.opportunity_detector_axioms
    demand.opportunity_detector_axioms existing.opportunity_detector_axioms
  unfolding detector_registry_def by auto

lemma gather_wf:
  assumes "gather env d = Inr es" "e \<in> set es"
  shows "wf_evaluation env d e"
proof -
  obtain rss where rss: "res_map (\<lambda>(_, _, detect). detect env d) detector_registry = Inr rss"
    and es: "es = concat rss" using assms(1) by (auto simp: gather_def res_bind_eq_Inr)
  obtain rs where rs: "rs \<in> set rss" "e \<in> set rs" using assms(2) es by auto
  obtain i v detect where det: "(i, v, detect) \<in> set detector_registry" "detect env d = Inr rs"
    using res_map_set [OF rss rs(1)] by auto
  then show ?thesis
    using registry_detectors [OF det(1)] opportunity_detector.well_formed rs(2) by metis
qed

lemma content_wf:
  assumes "content e = content x" "wf_evaluation env d x" "de_outcome e = EO_superseded_in_run"
    "ER_lower_priority \<in> set (de_reason_codes e)"
  shows "wf_evaluation env d e"
  using assms by (auto simp: content_def wf_evaluation_def accepted_requires_candidate_def)

lemma collapsed_wf:
  assumes "gather env d = Inr es" "collapse env es = Inr out" "e \<in> set out"
  shows "wf_evaluation env d e"
  using engine_stage.stage_in [OF assms(2,3)] gather_wf [OF assms(1)] content_wf by metis

lemma gather_ok:
  assumes "valid_input d" "aware_input d" "texts_fit d"
  shows "is_ok (gather env d)"
proof -
  have "is_ok (detect env d)" if "(i, v, detect) \<in> set detector_registry" for i v detect
    using registry_detectors [OF that] opportunity_detector.total assms by metis
  then show ?thesis by (auto simp: gather_def is_ok_res_map)
qed

lemma apply_history_ok:
  assumes "list_all aware_history (di_history d)" "is_aware (di_as_of d)"
  shows "is_ok (apply_history d e)"
proof -
  have ok: "is_ok (novelty_for_history (identity_history d c) t (di_as_of d))" for c t
    by (rule novelty_for_history_ok) (use assms in \<open>auto simp: identity_history_def list_all_iff\<close>)
  show ?thesis
  proof (cases "de_candidate e")
    case (Some c)
    obtain n b where
      "novelty_for_history (identity_history d c) (dc_opportunity_type c) (di_as_of d) = Inr (n, b)"
      using ok [of c "dc_opportunity_type c"] unfolding is_ok_iff by auto
    with Some show ?thesis by (cases b) (simp_all add: apply_history_def Let_def)
  qed (simp add: apply_history_def)
qed

lemma evaluate_ok:
  assumes "valid_input d" "aware_input d" "texts_fit d"
  shows "is_ok (evaluate_detection_input env d)"
proof -
  obtain es where es: "gather env d = Inr es" using gather_ok [OF assms] unfolding is_ok_iff by blast
  obtain cs where cs: "collapse env es = Inr cs"
    using engine_stage.stage_total unfolding is_ok_iff by blast
  have "is_ok (res_map (apply_history d) cs)"
    using assms(2) by (simp add: is_ok_res_map apply_history_ok aware_input_def)
  with es cs show ?thesis by (simp add: evaluate_detection_input_def)
qed

text \<open>What the engine guarantees of an evaluation that it accepts.\<close>

text \<open>What the quality gate of a detector asks for: a search snapshot, a website snapshot. The gate of a
  detector is open when the input gives no reason against it.\<close>

definition detector_gates :: "(string \<times> bool \<times> bool) list" where
  "detector_gates =
     [(''high_impressions_low_ctr'', True, False), (''ranking_within_reach'', True, True),
      (''search_decline'', True, False), (''shipped_but_not_marketed'', False, True),
      (''search_demand_without_dedicated_content'', True, True),
      (''existing_page_needs_improvement'', True, True)]"

definition gate_is_open :: "detection_input \<Rightarrow> string \<Rightarrow> bool" where
  "gate_is_open d i \<longleftrightarrow>
     (case map_of detector_gates i of None \<Rightarrow> False | Some (rs, rw) \<Rightarrow> quality_reasons d rs rw = [])"

lemma gates_of_detectors:
  "map_of detector_gates ''high_impressions_low_ctr'' = Some (True, False)"
  "map_of detector_gates ''ranking_within_reach'' = Some (True, True)"
  "map_of detector_gates ''search_decline'' = Some (True, False)"
  "map_of detector_gates ''shipped_but_not_marketed'' = Some (False, True)"
  "map_of detector_gates ''search_demand_without_dedicated_content'' = Some (True, True)"
  "map_of detector_gates ''existing_page_needs_improvement'' = Some (True, True)"
  by (simp_all add: detector_gates_def)

lemma registry_gates:
  assumes "(i, v, detect) \<in> set detector_registry"
  shows "opportunity_detector detect i (fst (the (map_of detector_gates i))) (snd (the (map_of detector_gates i)))
    \<and> map_of detector_gates i \<noteq> None"
  using assms high_impressions.opportunity_detector_axioms ranking.opportunity_detector_axioms
    decline.opportunity_detector_axioms shipped.opportunity_detector_axioms
    demand.opportunity_detector_axioms existing.opportunity_detector_axioms
  unfolding detector_registry_def by (auto simp: gates_of_detectors)

lemma gathered_gate_open:
  assumes "gather env d = Inr es" "e \<in> set es" "acc e"
  shows "gate_is_open d (de_detector_id e)"
proof -
  obtain rss where rss: "res_map (\<lambda>(_, _, detect). detect env d) detector_registry = Inr rss"
    and es: "es = concat rss" using assms(1) by (auto simp: gather_def res_bind_eq_Inr)
  obtain rs where rs: "rs \<in> set rss" "e \<in> set rs" using assms(2) es by auto
  obtain i v detect where det: "(i, v, detect) \<in> set detector_registry" "detect env d = Inr rs"
    using res_map_set [OF rss rs(1)] by auto
  obtain s w where gate: "opportunity_detector detect i s w" "map_of detector_gates i = Some (s, w)"
    using registry_gates [OF det(1)] by (metis option.collapse prod.collapse)
  have "de_outcome e = EO_accepted" using assms(3) by (simp add: acc_def)
  then have "quality_reasons d s w = []" "de_detector_id e = i"
    using opportunity_detector.accepted_gate_open [OF gate(1) det(2) rs(2)]
      opportunity_detector.well_formed [OF gate(1) det(2) rs(2)] by simp_all
  then show ?thesis using gate(2) by (simp add: gate_is_open_def)
qed

definition sound_acceptance :: "engine_env \<Rightarrow> detection_input \<Rightarrow> detector_evaluation \<Rightarrow> bool" where
  "sound_acceptance env d e \<longleftrightarrow> de_reason_codes e = [] \<and> gate_is_open d (de_detector_id e)
     \<and> (\<exists>c. de_candidate e = Some c \<and> valid_candidate c \<and> valid_scores (dc_scores c)
         \<and> score_gate (dc_scores c) = [] \<and> sf_novelty (dc_scores c) \<in> {50, 70, 100}
         \<and> dc_evidence c \<noteq> [] \<and> good_evidence (dc_evidence c)
         \<and> dc_identity_fingerprint c = identity_fingerprint env (di_product_id d)
              (dc_opportunity_type c) (dc_subject_kind c) (dc_subject_keys c) (dc_action_family c)
         \<and> unblocked d c)"

lemma rescore_scores:
  assumes "valid_scores (dc_scores c)" "score_gate (dc_scores c) = []" "n \<in> {50, 70, 100}"
  shows "valid_scores (dc_scores (rescore c n))" "score_gate (dc_scores (rescore c n)) = []"
    "sf_novelty (dc_scores (rescore c n)) = n"
proof -
  show "valid_scores (dc_scores (rescore c n))"
    by (simp add: rescore_def Let_def valid_scores_score_opportunity)
  show "score_gate (dc_scores (rescore c n)) = []"
    using assms(1,2) by (simp add: rescore_def Let_def score_gate_Nil_iff valid_scores_def bound_score_id)
  show "sf_novelty (dc_scores (rescore c n)) = n"
    using assms(3) by (auto simp: rescore_def Let_def bound_score_def)
qed

lemma evaluate_sound:
  assumes "evaluate_detection_input env d = Inr out" "e \<in> set out" "acc e"
  shows "sound_acceptance env d e"
proof -
  obtain gathered collapsed where g: "gather env d = Inr gathered"
    and c: "collapse env gathered = Inr collapsed"
    and all2: "list_all2 (\<lambda>e e'. apply_history d e = Inr e') collapsed out"
    using assms(1) by (rule evaluate_parts)
  obtain x where x: "x \<in> set collapsed" "apply_history d x = Inr e"
    using list_all2_right [OF all2 assms(2)] by blast
  obtain k n where k: "acc x" "de_candidate x = Some k" "n \<in> {50, 70, 100}" "unblocked d k"
    "e = x\<lparr>de_candidate := Some (rescore k n)\<rparr>"
    using apply_history_accepted [OF x(2) assms(3)] by (elim exE conjE)
  have wf: "wf_evaluation env d x" by (rule collapsed_wf [OF g c x(1)])
  then have wfc: "wf_candidate env d k" "de_reason_codes x = []"
    using k(1,2) by (auto simp: wf_evaluation_def acc_def)
  have "unblocked d (rescore k n)" using k(4) by (simp add: unblocked_def identity_history_def)
  moreover obtain y where "y \<in> set gathered" "acc y" "de_detector_id y = de_detector_id x"
    using engine_stage.stage_in [OF c x(1)] k(1) by (auto simp: acc_def content_def)
  then have "gate_is_open d (de_detector_id e)" using gathered_gate_open [OF g] k(5) by force
  ultimately show ?thesis
    unfolding sound_acceptance_def
    using wfc k(3,5) rescore_scores [of k n]
    by (intro conjI exI [of _ "rescore k n"]) (simp_all add: wf_candidate_def)
qed

section \<open>Counting and the closed gate\<close>

lemma apply_history_detector: "apply_history d e = Inr e' \<Longrightarrow> de_detector_id e' = de_detector_id e"
  by (auto simp: apply_history_def res_bind_eq_Inr Let_def split: option.splits if_splits)

lemma apply_history_rest: "\<not> acc e \<Longrightarrow> apply_history d e = Inr e"
  by (auto simp: apply_history_def acc_def split: option.splits)

lemma evaluate_detectors:
  assumes "evaluate_detection_input env d = Inr out" "gather env d = Inr gathered"
  shows "mset (map de_detector_id out) = mset (map de_detector_id gathered)"
proof -
  obtain collapsed where c: "collapse env gathered = Inr collapsed"
    and all2: "list_all2 (\<lambda>e e'. apply_history d e = Inr e') collapsed out"
    using assms by (auto elim: evaluate_parts)
  have "map de_detector_id out = map de_detector_id collapsed"
    using all2 by (induction rule: list_all2_induct) (auto dest: apply_history_detector)
  moreover have "mset (map fst (map content collapsed)) = mset (map fst (map content gathered))"
    using engine_stage.stage_content [OF c] by (metis mset_map)
  moreover have "map fst (map content es) = map de_detector_id es" for es
    by (simp add: content_def)
  ultimately show ?thesis by (simp only:)
qed

lemma gather_all_detectors:
  assumes "gather env d = Inr es" "(i, v, detect) \<in> set detector_registry"
  shows "\<exists>e \<in> set es. de_detector_id e = i"
proof -
  obtain rss where rss: "res_map (\<lambda>(_, _, detect). detect env d) detector_registry = Inr rss"
    and es: "es = concat rss" using assms(1) by (auto simp: gather_def res_bind_eq_Inr)
  have "list_all2 (\<lambda>x y. (case x of (_, _, det) \<Rightarrow> det env d) = Inr y) detector_registry rss"
    using rss by (simp add: res_map_eq_Inr)
  then obtain rs where rs: "rs \<in> set rss" "detect env d = Inr rs"
    using assms(2) by (metis (mono_tags, lifting) case_prod_conv in_set_conv_nth list_all2_conv_all_nth)
  obtain a b where det: "opportunity_detector detect i a b" using registry_detectors [OF assms(2)] by blast
  from opportunity_detector.nonempty [OF det rs(2)] obtain e where e: "e \<in> set rs"
    by (meson list.set_sel(1))
  from opportunity_detector.well_formed [OF det rs(2) e] e rs es show ?thesis by auto
qed

lemma gather_gate_closed:
  assumes "\<And>rs rw. rs \<or> rw \<Longrightarrow> quality_reasons d rs rw \<noteq> []"
  shows "gather env d = Inr
    [stopped ''high_impressions_low_ctr'' (quality_reasons d True False),
     stopped ''ranking_within_reach'' (quality_reasons d True True),
     stopped ''search_decline'' (quality_reasons d True False),
     stopped ''shipped_but_not_marketed'' (quality_reasons d False True),
     stopped ''search_demand_without_dedicated_content'' (quality_reasons d True True),
     stopped ''existing_page_needs_improvement'' (quality_reasons d True True)]"
  using assms high_impressions.gate_closed [of d env] ranking.gate_closed [of d env]
    decline.gate_closed [of d env] shipped.gate_closed [of d env] demand.gate_closed [of d env]
    existing.gate_closed [of d env]
  by (simp add: gather_def detector_registry_def)

lemma evaluate_none_accepted:
  assumes "gather env d = Inr es" "filter acc es = []"
  shows "\<exists>out. evaluate_detection_input env d = Inr out \<and> set out \<subseteq> set es
    \<and> length out = length es \<and> filter acc out = []"
proof -
  obtain cs where cs: "collapse env es = Inr cs"
    using engine_stage.stage_total unfolding is_ok_iff by blast
  have none: "\<not> acc e" if "e \<in> set cs" for e
    using engine_stage.stage_accepted_in [OF cs that] assms(2) by (auto simp: filter_empty_conv)
  then have "res_map (apply_history d) cs = Inr cs"
    by (simp add: res_map_eq_Inr list_all2_same apply_history_rest)
  moreover have "e \<in> set es" if "e \<in> set cs" for e
    using engine_stage.stage_in [OF cs that] assms(2) by (auto simp: filter_empty_conv)
  moreover have "length cs = length es" by (rule engine_stage.stage_length [OF cs])
  moreover have "filter acc cs = []" using none by (simp add: filter_empty_conv)
  ultimately show ?thesis using assms(1) cs by (auto simp: evaluate_detection_input_def)
qed

section \<open>No finding is lost\<close>

lemma collapse_keeps_some:
  assumes "collapse env es = Inr out" "e \<in> set es" "acc e"
  shows "\<exists>w \<in> set out. acc w"
proof -
  obtain ranked where r: "rank_and_collapse es = Inr ranked"
    and out: "out = collapse_near_duplicates env (collapse_same_identity ranked)"
    using assms(1) by (rule collapse_parts)
  obtain a where a: "a \<in> set ranked" "acc a" using rank_least_precedence [OF r assms(2,3)] by blast
  obtain b where b: "b \<in> set (collapse_same_identity ranked)" "acc b"
    using collapse_same_identity_inv(3) [OF a] by blast
  show ?thesis using collapse_near_duplicates_inv(3) [OF b, of env] b out by blast
qed

lemma apply_history_unblocked:
  assumes "acc e" "\<forall>h \<in> set (di_history d). hi_identity_fingerprint h \<noteq> identity_of e"
  shows "\<exists>e'. apply_history d e = Inr e' \<and> acc e' \<and> identity_of e' = identity_of e"
proof -
  obtain c where c: "de_candidate e = Some c" "de_outcome e = EO_accepted"
    using assms(1) by (auto simp: acc_def)
  then have "identity_history d c = []"
    using assms(2) by (auto simp: identity_history_def filter_empty_conv identity_of_def)
  then show ?thesis using c
    by (simp add: apply_history_def novelty_for_history_def acc_def identity_of_def Let_def)
qed

section \<open>A concrete snapshot\<close>

definition sample_engine :: engine_env where
  "sample_engine = \<lparr>sha256 = (\<lambda>s. s), observation_digest = (\<lambda>_. ''observation''), casefold = py_lower\<rparr>"

definition sample_profile :: product_profile_snapshot where
  "sample_profile = \<lparr>pf_product_name = Some ''demo'', pf_profile_id = Some ''p1'', pf_profile_version = 1,
     pf_schema_version = ''1'', pf_status = PS_approved, pf_completeness = 100, pf_objective = None,
     pf_audience = None, pf_conversion_action = None, pf_conversion_url = None,
     pf_positioning = None, pf_capabilities = []\<rparr>"

definition sample_metrics :: metric_snapshot where
  "sample_metrics = \<lparr>mt_clicks = 1, mt_impressions = 400, mt_ctr = 1 / 400, mt_average_position = 4\<rparr>"

definition sample_query :: "string \<Rightarrow> string \<Rightarrow> query_performance_snapshot" where
  "sample_query fp txt = \<lparr>qp_query_fingerprint = fp, qp_query_text = txt, qp_current = sample_metrics,
     qp_prior = sample_metrics, qp_page_fingerprints = [''page''],
     qp_matched_page_fingerprint = Some ''page'', qp_page_match_status = MS_matched,
     qp_profile_relevance = 1 / 2, qp_branded = False, qp_navigational = False\<rparr>"

definition sample_search :: "query_performance_snapshot list \<Rightarrow> search_snapshot" where
  "sample_search qs = \<lparr>ss_source_id = Some ''src'', ss_sync_id = Some ''sync'',
     ss_health_status = SH_healthy, ss_baseline_status = BS_ready,
     ss_current_start = Some 20028, ss_current_end = Some 20055, ss_prior_start = Some 20000,
     ss_prior_end = Some 20027, ss_period_start = None, ss_period_end = None,
     ss_comparison_start = None, ss_comparison_end = None, ss_missing_dates = [],
     ss_complete = True, ss_truncated = False, ss_warnings = [], ss_current = None,
     ss_prior = None, ss_queries = qs, ss_pages = []\<rparr>"

definition sample_history :: "opportunity_status \<Rightarrow> opportunity_history_item" where
  "sample_history st = \<lparr>hi_identity_fingerprint = identity_fingerprint sample_engine ''product''
       OT_high_impressions_low_ctr ''query'' [(''query'', ''q1'')] AF_seo_snippet_update,
     hi_action_family = None, hi_opportunity_type = None, hi_status = st,
     hi_occurred_at = Aware (20050 * day_us), hi_dismissal_reason = None, hi_cooldown_until = None,
     hi_confidence_score = None, hi_strategic_fit_score = None, hi_priority_score = None\<rparr>"

definition sample_input :: "profile_status \<Rightarrow> opportunity_history_item list \<Rightarrow> detection_input" where
  "sample_input st hs = \<lparr>di_schema_version = ''1'', di_workspace_id = ''workspace'', di_product_id = ''product'',
     di_as_of = Aware (20056 * day_us), di_profile = sample_profile\<lparr>pf_status := st\<rparr>,
     di_search = Some (sample_search [sample_query ''q1'' ''pricing'']),
     di_queries = [], di_pages = [], di_website = None,
     di_shipping = \<lparr>sh_window_start = None, sh_window_end = None, sh_events = []\<rparr>,
     di_history = hs\<rparr>"


definition sample_scores :: detector_scores where
  "sample_scores = \<lparr>ds_impact = 93, ds_confidence = 100, ds_fit = 155 / 2, ds_urgency = 68,
     ds_effort = 20\<rparr>"

definition sample_candidate :: "detection_input \<Rightarrow> detector_evaluation res" where
  "sample_candidate d = candidate sample_engine d ''high_impressions_low_ctr''
     OT_high_impressions_low_ctr AF_seo_snippet_update ''query'' ''q1''
     (''Improve the search snippet for '' @ ''pricing'') ''Update the title and meta description.''
     sample_metrics (di_as_of d) sample_scores None (Some ''src'') (Some ''sync'') EB_small"

lemma sample_valid:
  "valid_input (sample_input st [])" "aware_input (sample_input st [])" "texts_fit (sample_input st [])"
  by (cases st; code_simp)+

lemma sample_gate: "quality_reasons (sample_input PS_approved hs) True False = []"
  by (simp add: quality_reasons_Nil_iff sample_input_def sample_profile_def search_ready_def
      sample_search_def)

lemma sample_detected:
  "detect_high_impressions_low_ctr sample_engine (sample_input PS_approved hs)
     = res_bind (sample_candidate (sample_input PS_approved hs)) (\<lambda>e. Inr [e])"
proof -
  let ?d = "sample_input PS_approved hs"
  have scores: "search_scores sample_metrics AF_seo_snippet_update (1 / 2) 28 = Inr sample_scores"
    by code_simp
  have short: "ctr_shortfall sample_metrics = 7" by code_simp
  have "high_impressions_query sample_engine ?d (sample_search [sample_query ''q1'' ''pricing''])
      (sample_query ''q1'' ''pricing'') = sample_candidate ?d"
    using scores short
    by (simp add: high_impressions_query_def sample_query_def sample_metrics_def [symmetric] Let_def
        sample_candidate_def sample_search_def)
       (simp add: sample_metrics_def)
  moreover have "di_search ?d = Some (sample_search [sample_query ''q1'' ''pricing''])"
    by (simp add: sample_input_def)
  ultimately show ?thesis
    using sample_gate
    by (cases "sample_candidate ?d")
       (simp_all add: detect_high_impressions_low_ctr_def or_insufficient_def sample_search_def)
qed

lemma candidate_accepted:
  assumes "candidate env data did ot af kind key title action m obs sc ev sid srid eb = Inr e"
    and "score_gate (score_opportunity (ds_impact sc) (ds_confidence sc) (ds_effort sc)
           (ds_urgency sc) (ds_fit sc) 100) = []"
  shows "acc e"
  using assms by (auto simp: candidate_def Let_def res_bind_eq_Inr acc_def)

lemma sample_no_decline:
  "detect_search_decline sample_engine (sample_input PS_approved hs)
     = Inr [rejected ''search_decline'' ER_threshold_not_met ''q1'']"
proof -
  have "\<not> has_declined (sample_query ''q1'' ''pricing'')" by code_simp
  then have "decline_scan [sample_query ''q1'' ''pricing'']
      = ([], [], [rejected ''search_decline'' ER_threshold_not_met ''q1''])"
    by (simp add: decline_scan_def) (simp add: sample_query_def)
  moreover have "di_search (sample_input PS_approved hs) = Some (sample_search [sample_query ''q1'' ''pricing''])"
    by (simp add: sample_input_def)
  ultimately show ?thesis
    using sample_gate [of hs] by (simp add: detect_search_decline_def sample_search_def or_insufficient_def)
qed

lemma sample_candidate_accepted:
  obtains e where "sample_candidate (sample_input PS_approved hs) = Inr e" "acc e"
proof -
  let ?d = "sample_input PS_approved hs"
  have "is_ok (sample_candidate ?d)"
    unfolding sample_candidate_def by (rule candidate_ok) (simp_all add: sample_scores_def valid_score_def)
  then obtain e where e: "sample_candidate ?d = Inr e" unfolding is_ok_iff by blast
  have "score_gate (score_opportunity 93 100 20 68 (155 / 2) 100) = []"
    by (simp add: score_gate_Nil_iff bound_score_def)
  then have "acc e"
    using candidate_accepted e unfolding sample_candidate_def sample_scores_def by fastforce
  with e show ?thesis by (rule that)
qed

lemma sample_gather:
  assumes "sample_candidate (sample_input PS_approved hs) = Inr e"
  shows "\<exists>rest. gather sample_engine (sample_input PS_approved hs) = Inr (e # rest) \<and> filter acc rest = []"
proof -
  let ?d = "sample_input PS_approved hs"
  have closed: "quality_reasons ?d rs True \<noteq> []" for rs
    by (simp add: quality_reasons_Nil_iff sample_input_def)
  have "detect_high_impressions_low_ctr sample_engine ?d = Inr [e]" using sample_detected [of hs] assms by simp
  then show ?thesis
    using sample_no_decline [of hs] ranking.gate_closed [OF closed] shipped.gate_closed [OF closed]
      demand.gate_closed [OF closed] existing.gate_closed [OF closed]
    by (simp add: gather_def detector_registry_def acc_def stopped_def rejected_def)
qed

lemma sample_gathered:
  "\<exists>es e. gather sample_engine (sample_input PS_approved []) = Inr es \<and> e \<in> set es \<and> acc e"
  by (metis list.set_intros(1) sample_candidate_accepted sample_gather)

section \<open>Properties\<close>

text \<open>C1. On a snapshot that satisfies its contracts, whose datetimes are aware and whose
  texts fit the titles built from them, the engine returns a result, and every detector of
  the registry has at least one evaluation in it.\<close>

theorem engine_total:
  assumes "valid_input d" "aware_input d" "texts_fit d"
  shows "\<exists>out. evaluate_detection_input env d = Inr out
    \<and> set (map de_detector_id out) \<supseteq> set (map fst detector_registry)"
proof -
  obtain out where out: "evaluate_detection_input env d = Inr out"
    using evaluate_ok [OF assms] unfolding is_ok_iff by blast
  then obtain es where es: "gather env d = Inr es" by (rule evaluate_parts)
  have ids: "set (map de_detector_id out) = set (map de_detector_id es)"
    using evaluate_detectors [OF out es] by (rule mset_eq_setD)
  have "i \<in> set (map de_detector_id es)" if "i \<in> set (map fst detector_registry)" for i
    using that gather_all_detectors [OF es] by fastforce
  then show ?thesis using out ids by blast
qed

theorem engine_total_witness:
  "\<exists>out. evaluate_detection_input sample_engine (sample_input PS_approved []) = Inr out
    \<and> set (map fst detector_registry) \<subseteq> set (map de_detector_id out)"
  using engine_total [OF sample_valid] by blast

text \<open>C2. No two accepted evaluations of a run have the same identity or the same
  subject, and no accepted evaluation is a near duplicate of an accepted one before it.\<close>

theorem engine_accepts_once:
  assumes "evaluate_detection_input env d = Inr out"
  shows "distinct (map identity_of (filter acc out)) \<and> distinct (map group_of (filter acc out))
    \<and> sorted_wrt (\<lambda>w e. \<not> near_duplicate env w e) (filter acc out)"
  using evaluate_distinct [OF assms] by (simp add: spread_def)

theorem engine_accepts_once_witness:
  "\<exists>out. evaluate_detection_input sample_engine (sample_input PS_approved []) = Inr out
    \<and> distinct (map identity_of (filter acc out))"
  using evaluate_ok [OF sample_valid (1-3) [of PS_approved], of sample_engine]
    engine_accepts_once [of sample_engine "sample_input PS_approved []"]
  unfolding is_ok_iff by blast

text \<open>C4. Collapsing never loses everything: when some detector accepts an
  opportunity and no opportunity is in the history, the result has an accepted evaluation.\<close>

theorem engine_reports_findings:
  assumes "gather env d = Inr es" "e \<in> set es" "acc e" "di_history d = []"
    and "evaluate_detection_input env d = Inr out"
  shows "\<exists>w \<in> set out. acc w"
proof -
  obtain cs where c: "collapse env es = Inr cs"
    and all2: "list_all2 (\<lambda>e e'. apply_history d e = Inr e') cs out"
    using assms(1,5) by (auto elim: evaluate_parts)
  obtain w where w: "w \<in> set cs" "acc w" using collapse_keeps_some [OF c assms(2,3)] by blast
  obtain w' where w': "w' \<in> set out" "apply_history d w = Inr w'" using list_all2_left [OF all2 w(1)] by blast
  obtain w'' where "apply_history d w = Inr w''" "acc w''"
    using apply_history_unblocked [OF w(2), of d] assms(4) by auto
  then show ?thesis using w' by auto
qed

theorem engine_reports_findings_witness:
  "\<exists>out w. evaluate_detection_input sample_engine (sample_input PS_approved []) = Inr out
    \<and> w \<in> set out \<and> acc w"
proof -
  obtain out where out: "evaluate_detection_input sample_engine (sample_input PS_approved []) = Inr out"
    using evaluate_ok [OF sample_valid] unfolding is_ok_iff by blast
  have "di_history (sample_input PS_approved []) = []" by (simp add: sample_input_def)
  then show ?thesis using sample_gathered engine_reports_findings [OF _ _ _ _ out] out by blast
qed

text \<open>C3. An accepted evaluation comes from a detector whose quality gate is open on this input, has no
  reasons against it and a candidate that
  satisfies its contract: bounded texts and scores, confidence of at least 60 and strategic fit
  of at least 50, valid evidence, the fingerprint of its subject, a novelty of 50, 70 or 100,
  and no history item of this identity that is active or still cooling down.\<close>

theorem engine_accepts_soundly:
  assumes "evaluate_detection_input env d = Inr out" "e \<in> set out" "de_outcome e = EO_accepted"
  shows "sound_acceptance env d e"
proof -
  have "acc e"
  proof -
    obtain gathered collapsed where g: "gather env d = Inr gathered"
      and c: "collapse env gathered = Inr collapsed"
      and all2: "list_all2 (\<lambda>e e'. apply_history d e = Inr e') collapsed out"
      using assms(1) by (rule evaluate_parts)
    obtain x where x: "x \<in> set collapsed" "apply_history d x = Inr e"
      using list_all2_right [OF all2 assms(2)] by blast
    have "accepted_requires_candidate x" using collapsed_wf [OF g c x(1)] by (simp add: wf_evaluation_def)
    then show ?thesis using x(2) assms(3)
      by (auto simp: apply_history_def acc_def accepted_requires_candidate_def res_bind_eq_Inr Let_def
          split: option.splits if_splits)
  qed
  then show ?thesis by (rule evaluate_sound [OF assms(1,2)])
qed

theorem engine_accepts_soundly_witness:
  "\<exists>out e. evaluate_detection_input sample_engine (sample_input PS_approved []) = Inr out
    \<and> e \<in> set out \<and> sound_acceptance sample_engine (sample_input PS_approved []) e"
proof -
  obtain out es e where out: "evaluate_detection_input sample_engine (sample_input PS_approved []) = Inr out"
    and g: "gather sample_engine (sample_input PS_approved []) = Inr es" "e \<in> set es" "acc e"
    using evaluate_ok [OF sample_valid] sample_gathered unfolding is_ok_iff by blast
  then obtain cs where c: "collapse sample_engine es = Inr cs"
    and all2: "list_all2 (\<lambda>e e'. apply_history (sample_input PS_approved []) e = Inr e') cs out"
    by (auto elim: evaluate_parts)
  obtain w where w: "w \<in> set cs" "acc w" using collapse_keeps_some [OF c g(2,3)] by blast
  obtain v where v: "v \<in> set out" "apply_history (sample_input PS_approved []) w = Inr v"
    using list_all2_left [OF all2 w(1)] by blast
  have "acc v" using apply_history_unblocked [OF w(2), of "sample_input PS_approved []"] v(2)
    by (auto simp: sample_input_def)
  then have "de_outcome v = EO_accepted" by (simp add: acc_def)
  then show ?thesis using engine_accepts_soundly [OF out v(1)] out v(1) by blast
qed

text \<open>Without an approved and complete profile every detector stops and
  nothing is recommended: the result is exactly one stopped evaluation for each of the six
  detectors, each with its reasons.\<close>

theorem closed_profile_stops_all:
  assumes "pf_status (di_profile d) \<noteq> PS_approved \<or> pf_completeness (di_profile d) < 100"
  shows "\<exists>out. evaluate_detection_input env d = Inr out \<and> length out = 6
    \<and> set (map de_detector_id out) = set (map fst detector_registry)
    \<and> list_all (\<lambda>e. de_outcome e = EO_stopped \<and> de_reason_codes e \<noteq> [] \<and> de_candidate e = None) out"
proof -
  have closed: "quality_reasons d rs rw \<noteq> []" for rs rw
    using assms by (auto simp: quality_reasons_Nil_iff)
  note g = gather_gate_closed [of d env, OF closed]
  obtain out where out: "evaluate_detection_input env d = Inr out" and sub: "set out \<subseteq> set (projr (gather env d))"
    and len: "length out = 6"
    using evaluate_none_accepted [OF g] g by (auto simp: acc_def stopped_def)
  have "set (map de_detector_id out) = set (map de_detector_id (projr (gather env d)))"
    using mset_eq_setD [OF evaluate_detectors [OF out g]] g by simp
  then have "set (map de_detector_id out) = set (map fst detector_registry)"
    by (auto simp: g detector_registry_def stopped_def)
  moreover have "list_all (\<lambda>e. de_outcome e = EO_stopped \<and> de_reason_codes e \<noteq> [] \<and> de_candidate e = None) out"
    using sub closed by (auto simp: g list_all_iff stopped_def)
  ultimately show ?thesis using out len by blast
qed

theorem closed_profile_stops_all_witness:
  "\<exists>out. evaluate_detection_input sample_engine (sample_input PS_draft []) = Inr out \<and> length out = 6"
  using closed_profile_stops_all [of "sample_input PS_draft []" sample_engine]
  by (auto simp: sample_input_def)

lemma apply_history_suppressed:
  assumes "apply_history d e = Inr e'" "acc e" "\<not> acc e'"
  shows "\<exists>c h. de_candidate e' = Some c \<and> sf_priority (dc_scores c) = 0 \<and> h \<in> set (di_history d)
    \<and> hi_identity_fingerprint h = dc_identity_fingerprint c
    \<and> blocks (dc_opportunity_type c) (di_as_of d) h"
proof -
  obtain c where c: "de_candidate e = Some c" "de_outcome e = EO_accepted" using assms(2) by (auto simp: acc_def)
  with assms(1) obtain n b where nb:
    "novelty_for_history (identity_history d c) (dc_opportunity_type c) (di_as_of d) = Inr (n, b)"
    by (auto simp: apply_history_def res_bind_eq_Inr)
  then have b: "b \<noteq> None" using assms(1,3) c by (cases b) (auto simp: apply_history_def acc_def Let_def)
  then have "n = 0" "\<exists>h \<in> set (identity_history d c). blocks (dc_opportunity_type c) (di_as_of d) h"
    using novelty_for_history_cases [OF nb] by auto
  moreover have "de_candidate e' = Some (rescore c n)"
    using assms(1) c nb b by (auto simp: apply_history_def Let_def)
  ultimately show ?thesis
    by (auto simp: identity_history_def rescore_def Let_def sf_priority_novelty_zero)
qed

text \<open>An evaluation is suppressed only when the history of its identity
  has an item that blocks it, and a suppressed candidate has priority 0.\<close>

theorem suppression_is_justified:
  assumes "evaluate_detection_input env d = Inr out" "e \<in> set out"
    and "de_outcome e \<in> {EO_suppressed_duplicate, EO_suppressed_cooldown}"
  shows "\<exists>c h. de_candidate e = Some c \<and> sf_priority (dc_scores c) = 0 \<and> h \<in> set (di_history d)
    \<and> hi_identity_fingerprint h = dc_identity_fingerprint c
    \<and> blocks (dc_opportunity_type c) (di_as_of d) h"
proof -
  obtain gathered collapsed where g: "gather env d = Inr gathered"
    and c: "collapse env gathered = Inr collapsed"
    and all2: "list_all2 (\<lambda>e e'. apply_history d e = Inr e') collapsed out"
    using assms(1) by (rule evaluate_parts)
  obtain x where x: "x \<in> set collapsed" "apply_history d x = Inr e"
    using list_all2_right [OF all2 assms(2)] by blast
  have "acc x"
  proof (rule ccontr)
    assume "\<not> acc x"
    then have "e = x" using apply_history_rest x(2) by simp
    then show False using collapsed_wf [OF g c x(1)] assms(3) by (auto simp: wf_evaluation_def)
  qed
  moreover have "\<not> acc e" using assms(3) by (auto simp: acc_def)
  ultimately show ?thesis using apply_history_suppressed x(2) by blast
qed

theorem suppression_is_justified_witness:
  "\<exists>out e c. evaluate_detection_input sample_engine (sample_input PS_approved [sample_history OS_open]) = Inr out
     \<and> e \<in> set out \<and> de_outcome e = EO_suppressed_duplicate \<and> de_candidate e = Some c
     \<and> sf_priority (dc_scores c) = 0"
proof -
  let ?d = "sample_input PS_approved [sample_history OS_open]"
  obtain e where e: "sample_candidate ?d = Inr e" "acc e" by (rule sample_candidate_accepted)
  obtain rest where g: "gather sample_engine ?d = Inr (e # rest)" "filter acc rest = []"
    using sample_gather [OF e(1)] by blast
  obtain cs where c: "collapse sample_engine (e # rest) = Inr cs"
    using engine_stage.stage_total unfolding is_ok_iff by blast
  have ein: "e \<in> set cs"
    using collapse_keeps_some [OF c _ e(2)] engine_stage.stage_accepted_in [OF c] g(2)
    by (auto simp: filter_empty_conv)
  have ok: "is_ok (apply_history ?d x)" for x
    by (rule apply_history_ok) (code_simp, code_simp)
  then have "is_ok (evaluate_detection_input sample_engine ?d)"
    using g(1) c by (simp add: evaluate_detection_input_def is_ok_res_map)
  then obtain out where out: "evaluate_detection_input sample_engine ?d = Inr out"
    unfolding is_ok_iff by blast
  obtain v where v: "v \<in> set out" "apply_history ?d e = Inr v"
    using out g(1) c ein by (auto simp: evaluate_detection_input_def res_map_eq_Inr dest: list_all2_left)
  obtain k where k: "de_candidate e = Some k" "wf_candidate sample_engine ?d k" "dc_opportunity_type k = OT_high_impressions_low_ctr"
    "dc_subject_kind k = ''query''" "dc_subject_keys k = [(''query'', ''q1'')]" "dc_action_family k = AF_seo_snippet_update"
    using gather_wf [OF g(1), of e] e
    by (auto simp: wf_evaluation_def acc_def sample_candidate_def candidate_def Let_def res_bind_eq_Inr split: if_splits)
  have "identity_history ?d k = [sample_history OS_open]"
    using k by (simp add: identity_history_def wf_candidate_def sample_input_def sample_history_def)
  then have "novelty_for_history (identity_history ?d k) (dc_opportunity_type k) (di_as_of ?d)
      = Inr (0, Some ER_duplicate)"
    by (simp add: novelty_for_history_def cooldown_decision_def sample_history_def)
  then have "de_outcome v = EO_suppressed_duplicate"
    using v(2) k(1) e(2) by (auto simp: apply_history_def acc_def Let_def)
  with suppression_is_justified [OF out v(1)] out v(1) show ?thesis by auto
qed

text \<open>Every evaluation carries detector version 1, although the registry
  lists version 2 for the page quality detector.\<close>

theorem versions_are_constant:
  "(case evaluate_detection_input env d of Inl _ \<Rightarrow> True
    | Inr out \<Rightarrow> list_all (\<lambda>e. de_detector_version e = ''1'') out)
   \<and> map_of (map (\<lambda>(i, v, _). (i, v)) detector_registry) ''existing_page_needs_improvement'' = Some ''2''"
proof -
  have "de_detector_version e = ''1''" if out: "evaluate_detection_input env d = Inr out" and e: "e \<in> set out" for out e
  proof -
    obtain gathered collapsed where g: "gather env d = Inr gathered"
      and c: "collapse env gathered = Inr collapsed"
      and all2: "list_all2 (\<lambda>e e'. apply_history d e = Inr e') collapsed out"
      using out by (rule evaluate_parts)
    obtain x where x: "x \<in> set collapsed" "apply_history d x = Inr e"
      using list_all2_right [OF all2 e] by blast
    have "de_detector_version e = de_detector_version x"
      using x(2) by (auto simp: apply_history_def res_bind_eq_Inr Let_def split: option.splits if_splits)
    then show ?thesis using collapsed_wf [OF g c x(1)] by (simp add: wf_evaluation_def)
  qed
  then show ?thesis by (auto simp: list_all_iff detector_registry_def split: sum.splits)
qed

text \<open>C35. With the search gate open, one search query of more than 269 characters that qualifies as a low-CTR
  finding (a matched page, at least 100 impressions, position 1 to 10, a CTR below 2 percent and a shortfall of at least
  two clicks) makes the whole run fail: its title exceeds the bound of the candidate contract, the
  validation error is not caught, and no detector's result is returned.\<close>

theorem long_query_aborts_run:
  assumes "quality_reasons d True False = []" "di_search d = Some s" "q \<in> set (ss_queries s)"
    and "100 \<le> mt_impressions (qp_current q)" "1 \<le> mt_average_position (qp_current q)"
    and "mt_average_position (qp_current q) \<le> 10" "mt_ctr (qp_current q) < 2 / 100"
    and "2 \<le> ctr_shortfall (qp_current q)" "qp_page_match_status q = MS_matched"
    and "text_truthy (qp_matched_page_fingerprint q)" "269 < length (qp_query_text q)"
  shows "\<not> is_ok (evaluate_detection_input env d)"
proof -
  have "300 < length (''Improve the search snippet for '' @ qp_query_text q)" using assms(11) by simp
  then have "\<not> is_ok (candidate env d ''high_impressions_low_ctr'' OT_high_impressions_low_ctr
      AF_seo_snippet_update ''query'' (qp_query_fingerprint q)
      (''Improve the search snippet for '' @ qp_query_text q)
      ''Update the title and meta description.'' (qp_current q) (di_as_of d) sc None
      (ss_source_id s) (ss_sync_id s) EB_small)" for sc
    using candidate_long_title by (metis is_ok_simps(2))
  then have "\<not> is_ok (high_impressions_query env d s q)"
    using assms(4-10)
    by (auto simp: high_impressions_query_def Let_def is_ok_bind simp del: append.simps)
  then have "\<not> is_ok (detect_high_impressions_low_ctr env d)"
    using assms(1-3) by (auto simp: detect_high_impressions_low_ctr_def is_ok_bind is_ok_res_map)
  then obtain err where "detect_high_impressions_low_ctr env d = Inl err"
    by (cases "detect_high_impressions_low_ctr env d") auto
  then show ?thesis
    by (simp add: evaluate_detection_input_def gather_def detector_registry_def)
qed

definition sample_long_input :: detection_input where
  "sample_long_input = (sample_input PS_approved [])
     \<lparr>di_search := Some (sample_search [sample_query ''q1'' (replicate 300 (CHR ''a''))])\<rparr>"

theorem long_query_aborts_run_witness:
  "\<not> is_ok (evaluate_detection_input sample_engine sample_long_input)"
proof (rule long_query_aborts_run)
  show "di_search sample_long_input = Some (sample_search [sample_query ''q1'' (replicate 300 (CHR ''a''))])"
    by (simp add: sample_long_input_def)
  show "quality_reasons sample_long_input True False = []"
    by (simp add: quality_reasons_Nil_iff sample_long_input_def sample_input_def sample_profile_def
        search_ready_def sample_search_def)
  show "2 \<le> ctr_shortfall (qp_current (sample_query ''q1'' (replicate 300 (CHR ''a''))))"
    by (simp add: sample_query_def) code_simp
qed (simp_all add: sample_search_def sample_query_def sample_metrics_def)

end
