(* ===== verification/Idempotency.thy ===== *)
theory Idempotency
  imports Times
begin

text \<open>
  Idempotent inserts (\<open>app/db/idempotency.py\<close>). A table is the list of its rows in insertion
  order. \<open>insert_or_replay\<close> either appends the row or returns the row that already owns the
  unique key. The locale \<open>idempotent_insert\<close> states what its callers rely on.
\<close>

type_synonym instant = int

text \<open>The argument \<open>col\<close> reads a column of a row, \<open>None\<close> when the row does not give the column;
  \<open>row_ok\<close> stands for the check constraints of the table and \<open>pk\<close> for its primary key. The
  unique index over the conflict columns guarantees that at most one row matches, so the
  replayed row is the first match. A check constraint is evaluated before the conflict
  clause, the primary key after it.\<close>

definition matches :: "(string \<Rightarrow> 'row \<Rightarrow> 'v option) \<Rightarrow> string list \<Rightarrow> 'row \<Rightarrow> 'row \<Rightarrow> bool" where
  "matches col conflict_columns row r \<longleftrightarrow> list_all (\<lambda>c. col c r = col c row) conflict_columns"

definition insert_or_replay ::
  "string \<Rightarrow> (string \<Rightarrow> 'row \<Rightarrow> 'v option) \<Rightarrow> string list \<Rightarrow> ('row \<Rightarrow> bool) \<Rightarrow> ('row \<Rightarrow> string)
     \<Rightarrow> 'row \<Rightarrow> 'row list \<Rightarrow> (('row \<times> bool) \<times> 'row list) res" where
  "insert_or_replay dialect col conflict_columns row_ok pk row table =
     (if conflict_columns = [] \<or> list_ex (\<lambda>c. col c row = None) conflict_columns
      then Inl (ValueError ''conflict_columns must be non-empty and present in values'')
      else if dialect \<noteq> ''postgresql'' \<and> dialect \<noteq> ''sqlite''
      then Inl (NotImplementedError (''idempotent inserts are unsupported for '' @ dialect))
      else if \<not> row_ok row then Inl (IntegrityError ''check constraint'')
      else case find (matches col conflict_columns row) table of
          Some r \<Rightarrow> Inr ((r, False), table)
        | None \<Rightarrow>
            if list_ex (\<lambda>r. pk r = pk row) table then Inl (IntegrityError ''primary key'')
            else Inr ((row, True), table @ [row]))"

section \<open>The contract of an idempotent insert\<close>

locale idempotent_insert =
  fixes key :: "'row \<Rightarrow> 'k"
    and insert_row :: "'row \<Rightarrow> 'row list \<Rightarrow> (('row \<times> bool) \<times> 'row list) res"
  assumes fresh: "insert_row row table = Inr ((r, True), table') \<Longrightarrow>
      key row \<notin> key ` set table \<and> r = row \<and> table' = table @ [row]"
    and replay: "insert_row row table = Inr ((r, False), table') \<Longrightarrow>
      r \<in> set table \<and> key r = key row \<and> table' = table"
    and owned: "key row \<in> key ` set table \<Longrightarrow> insert_row row table = Inr ((r, b), table') \<Longrightarrow> \<not> b"
begin

lemma result_in_table:
  "insert_row row table = Inr ((r, b), table') \<Longrightarrow> r \<in> set table' \<and> key r = key row"
  by (cases b) (auto dest: fresh replay)

lemma keeps_rows: "insert_row row table = Inr ((r, b), table') \<Longrightarrow> set table \<subseteq> set table'"
  by (cases b) (auto dest: fresh replay)

lemma keeps_unique:
  "insert_row row table = Inr ((r, b), table') \<Longrightarrow> distinct (map key table) \<Longrightarrow> distinct (map key table')"
  by (cases b) (auto dest: fresh replay)

lemma unique_row:
  "distinct (map key table) \<Longrightarrow> r \<in> set table \<Longrightarrow> r' \<in> set table \<Longrightarrow> key r = key r' \<Longrightarrow> r = r'"
  by (metis distinct_map inj_onD)

text \<open>A second insert with the key of the first returns the row of the first.\<close>

lemma idempotent:
  assumes "insert_row row table = Inr ((r, b), table')" "distinct (map key table)"
    and "key row' = key row" "insert_row row' table' = Inr ((r', b'), table'')"
  shows "r' = r \<and> \<not> b' \<and> table'' = table'"
proof -
  note first = result_in_table [OF assms(1)]
  then have "key row' \<in> key ` set table'" using assms(3) by (metis imageI)
  then have "\<not> b'" using owned assms(4) by blast
  then have "r' \<in> set table'" "key r' = key row'" "table'' = table'" using replay assms(4) by auto
  moreover have "r' = r"
    using unique_row [OF keeps_unique [OF assms(1,2)]] calculation first assms(3) by auto
  ultimately show ?thesis using \<open>\<not> b'\<close> by simp
qed

end

lemma insert_or_replay_contract:
  assumes "\<And>r r'. matches col cols r' r \<longleftrightarrow> key r = key r'"
  shows "idempotent_insert key (insert_or_replay dialect col cols row_ok pk)"
proof
  fix row r :: 'a and table table' :: "'a list" and b
  show "insert_or_replay dialect col cols row_ok pk row table = Inr ((r, True), table') \<Longrightarrow>
      key row \<notin> key ` set table \<and> r = row \<and> table' = table @ [row]"
    by (auto simp: insert_or_replay_def find_None_iff assms split: if_splits option.splits)
  show "insert_or_replay dialect col cols row_ok pk row table = Inr ((r, False), table') \<Longrightarrow>
      r \<in> set table \<and> key r = key row \<and> table' = table"
    by (auto simp: insert_or_replay_def find_Some_iff assms split: if_splits option.splits)
  show "key row \<in> key ` set table \<Longrightarrow>
      insert_or_replay dialect col cols row_ok pk row table = Inr ((r, b), table') \<Longrightarrow> \<not> b"
    by (auto simp: insert_or_replay_def find_None_iff assms split: if_splits option.splits)
qed

lemma insert_or_replay_ok:
  assumes "cols \<noteq> []" "list_all (\<lambda>c. col c row \<noteq> None) cols" "dialect \<in> {''postgresql'', ''sqlite''}"
    and "row_ok row" "pk row \<notin> pk ` set table"
  shows "is_ok (insert_or_replay dialect col cols row_ok pk row table)"
  using assms
  by (auto simp: insert_or_replay_def list_ex_iff list_all_iff image_iff split: option.splits)

lemma insert_or_replay_keeps_pk:
  "insert_or_replay dialect col cols row_ok pk row table = Inr ((r, b), table') \<Longrightarrow>
     distinct (map pk table) \<Longrightarrow> distinct (map pk table')"
  by (auto simp: insert_or_replay_def list_ex_iff split: if_splits option.splits) blast+

lemma insert_or_replay_rows:
  "insert_or_replay dialect col cols row_ok pk row table = Inr ((r, b), table') \<Longrightarrow>
     table' = table \<or> table' = table @ [row]"
  by (auto simp: insert_or_replay_def split: if_splits option.splits)

end
