(* ===== verification/Operator_Store.thy ===== *)
theory Operator_Store
  imports Detection Idempotency
begin

text \<open>
  The tables of the operator module that opportunity detection writes
  (\<open>models/operator_run.py\<close>, \<open>models/opportunity.py\<close>, \<open>models/opportunity_evaluation.py\<close>,
  \<open>models/opportunity_evidence.py\<close>), their repositories, and \<open>persist_detection\<close> of
  \<open>services/opportunity_detection_service.py\<close>, which evaluates a snapshot and stores the result
  in one transaction.

  A JSON column holds the value that was dumped into it. The digests of an evaluation and of
  an evidence item (pydantic's dump, canonical JSON and SHA-256) and the sequence of random
  UUIDs are fields of \<open>store_env\<close>; \<open>od_drawn\<close> counts the UUIDs drawn so far. Column lengths and
  foreign keys are not modelled.
\<close>

section \<open>Tables\<close>

datatype run_kind = RK_legacy_planning | RK_opportunity_detection | RK_weekly_growth
datatype run_status = RS_pending | RS_running | RS_completed | RS_failed | RS_stopped

record operator_run =
  run_id :: uuid
  run_workspace_id :: uuid
  run_product_id :: "uuid option"
  run_run_kind :: run_kind
  run_trigger :: string
  run_status :: run_status
  run_idempotency_key :: string
  run_request_fingerprint :: "string option"
  run_input_fingerprint :: "string option"
  run_input_schema_version :: "string option"
  run_detector_suite_version :: "string option"
  run_quality_policy_version :: "string option"
  run_scoring_policy_version :: "string option"
  run_cooldown_policy_version :: "string option"
  run_as_of :: "instant option"
  run_lease_owner :: "string option"
  run_lease_expires_at :: "instant option"
  run_failure_category :: "string option"
  run_logical_period_start :: "instant option"
  run_logical_period_end :: "instant option"
  run_workflow_version :: "string option"
  run_current_stage :: "string option"
  run_stage_summary :: "pyval option"
  run_finalized_at :: "instant option"
  run_stopped_reason :: "string option"
  run_analyzer_version :: string
  run_provenance :: pyval
  run_summary :: pyval
  run_completed_at :: "instant option"
  run_created_by_actor_id :: uuid

record opportunity_row =
  opp_id :: uuid
  opp_workspace_id :: uuid
  opp_product_id :: "uuid option"
  opp_operator_run_id :: "uuid option"
  opp_opportunity_type :: "string option"
  opp_action_family :: "string option"
  opp_subject_kind :: "string option"
  opp_subject_keys :: "(string \<times> string) list option"
  opp_identity_fingerprint :: "string option"
  opp_observation_fingerprint :: "string option"
  opp_detector_id :: "string option"
  opp_detector_version :: "string option"
  opp_title :: string
  opp_evidence_ids :: "string list"
  opp_interpretation :: string
  opp_recommendation :: string
  opp_confidence :: string
  opp_missing_information :: "string list"
  opp_approval_level :: string
  opp_measurement_window :: string
  opp_stop_conditions :: "string list"
  opp_impact_score :: int
  opp_effort_score :: int
  opp_urgency_score :: int
  opp_confidence_score :: "rat option"
  opp_strategic_fit_score :: "rat option"
  opp_novelty_score :: "rat option"
  opp_priority_score :: "rat option"
  opp_score_version :: "string option"
  opp_expected_metric :: "(string \<times> metric_value) list option"
  opp_effort_band :: "string option"
  opp_lifecycle_version :: "string option"
  opp_status :: opportunity_status
  opp_cooldown_dedup_key :: string
  opp_cooldown_until :: datetime
  opp_provenance :: pyval
  opp_created_by_actor_id :: uuid

record evaluation_row =
  evr_id :: uuid
  evr_workspace_id :: uuid
  evr_product_id :: uuid
  evr_operator_run_id :: uuid
  evr_accepted_opportunity_id :: "uuid option"
  evr_detector_id :: string
  evr_detector_version :: string
  evr_outcome :: evaluation_outcome
  evr_evaluation_key :: string
  evr_reason_codes :: "evaluation_reason list"
  evr_input_fingerprint :: string
  evr_identity_fingerprint :: "string option"
  evr_observation_fingerprint :: "string option"
  evr_candidate_snapshot :: "detector_candidate option"
  evr_diagnostics :: "(string \<times> metric_value) list"
  evr_input_schema_version :: string
  evr_detector_suite_version :: string
  evr_quality_policy_version :: string
  evr_scoring_policy_version :: string
  evr_cooldown_policy_version :: string
  evr_score_version :: string
  evr_priority_score :: "rat option"

record evidence_row =
  evd_id :: uuid
  evd_workspace_id :: uuid
  evd_product_id :: uuid
  evd_evaluation_id :: uuid
  evd_opportunity_id :: "uuid option"
  evd_evidence :: evidence_snapshot
  evd_source_fingerprint :: string
  evd_schema_version :: string

record operator_db =
  od_runs :: "operator_run list"
  od_evaluations :: "evaluation_row list"
  od_opportunities :: "opportunity_row list"
  od_evidence :: "evidence_row list"
  od_drawn :: nat

record store_env =
  sv_engine :: engine_env
  sv_evaluation_digest :: "nat \<Rightarrow> detector_evaluation \<Rightarrow> string"
  sv_source_digest :: "evidence_snapshot \<Rightarrow> string"
  sv_uuid :: "nat \<Rightarrow> uuid"

text \<open>\<open>DetectionInputAssembly\<close>, without the payload that the hash is computed from.\<close>

record detection_assembly =
  da_detection_input :: detection_input
  da_input_hash :: string

section \<open>Repositories\<close>

definition get_product_run :: "operator_db \<Rightarrow> uuid \<Rightarrow> uuid \<Rightarrow> uuid \<Rightarrow> operator_run option" where
  "get_product_run db workspace_id product_id rid =
     find (\<lambda>r. run_workspace_id r = workspace_id \<and> run_product_id r = Some product_id
             \<and> run_id r = rid) (od_runs db)"

definition of_run :: "uuid \<Rightarrow> uuid \<Rightarrow> uuid \<Rightarrow> evaluation_row \<Rightarrow> bool" where
  "of_run workspace_id product_id rid e \<longleftrightarrow> evr_workspace_id e = workspace_id
     \<and> evr_product_id e = product_id \<and> evr_operator_run_id e = rid"

definition list_for_run :: "operator_db \<Rightarrow> uuid \<Rightarrow> uuid \<Rightarrow> uuid \<Rightarrow> evaluation_row list" where
  "list_for_run db workspace_id product_id rid =
     sort_key evr_evaluation_key (filter (of_run workspace_id product_id rid) (od_evaluations db))"

definition percent :: "rat \<Rightarrow> bool" where
  "percent x \<longleftrightarrow> 0 \<le> x \<and> x \<le> 100"

text \<open>Adding rows; the constraints are those that the models declare.\<close>

definition add_opportunity :: "opportunity_row \<Rightarrow> operator_db \<Rightarrow> operator_db res" where
  "add_opportunity row db =
     (if percent (of_int (opp_impact_score row)) \<and> percent (of_int (opp_effort_score row))
         \<and> percent (of_int (opp_urgency_score row)) \<and> pred_option percent (opp_confidence_score row)
         \<and> pred_option percent (opp_strategic_fit_score row) \<and> pred_option percent (opp_novelty_score row)
         \<and> pred_option percent (opp_priority_score row) \<and> opp_cooldown_dedup_key row \<noteq> []
      then Inr (db\<lparr>od_opportunities := od_opportunities db @ [row]\<rparr>)
      else Inl (IntegrityError ''opportunities''))"

definition add_evaluation :: "evaluation_row \<Rightarrow> operator_db \<Rightarrow> operator_db res" where
  "add_evaluation e db =
     (if (case evr_priority_score e of None \<Rightarrow> True | Some p \<Rightarrow> percent p)
         \<and> (evr_outcome e = EO_accepted \<longrightarrow> evr_candidate_snapshot e \<noteq> None)
         \<and> \<not> list_ex (\<lambda>x. of_run (evr_workspace_id e) (evr_product_id e) (evr_operator_run_id e) x
                \<and> evr_evaluation_key x = evr_evaluation_key e) (od_evaluations db)
      then Inr (db\<lparr>od_evaluations := od_evaluations db @ [e]\<rparr>)
      else Inl (IntegrityError ''opportunity_evaluations''))"

definition add_evidence :: "evidence_row \<Rightarrow> operator_db \<Rightarrow> operator_db res" where
  "add_evidence v db =
     (if percent (ev_confidence_score (evd_evidence v))
         \<and> \<not> list_ex (\<lambda>x. evd_workspace_id x = evd_workspace_id v \<and> evd_product_id x = evd_product_id v
                \<and> evd_evaluation_id x = evd_evaluation_id v
                \<and> ev_evidence_key (evd_evidence x) = ev_evidence_key (evd_evidence v)) (od_evidence db)
      then Inr (db\<lparr>od_evidence := od_evidence db @ [v]\<rparr>)
      else Inl (IntegrityError ''opportunity_evidence''))"

definition update_run :: "uuid \<Rightarrow> (operator_run \<Rightarrow> operator_run) \<Rightarrow> operator_db \<Rightarrow> operator_db" where
  "update_run rid f db = db\<lparr>od_runs := map (\<lambda>r. if run_id r = rid then f r else r) (od_runs db)\<rparr>"

section \<open>Persisting a detection\<close>

definition count_outcome :: "evaluation_outcome \<Rightarrow> evaluation_row list \<Rightarrow> int" where
  "count_outcome oc rows = int (length (filter (\<lambda>e. evr_outcome e = oc) rows))"

definition reason_frequencies :: "evaluation_row list \<Rightarrow> (string \<times> pyval) list" where
  "reason_frequencies rows =
     (let reasons = map evaluation_reason_value (concat (map evr_reason_codes rows))
      in map (\<lambda>r. (r, PInt (int (length (filter (\<lambda>x. x = r) reasons))))) (sort (fromkeys reasons)))"

definition summarize_evaluations :: "evaluation_row list \<Rightarrow> pyval" where
  "summarize_evaluations rows = PDict
     [(''accepted'', PInt (count_outcome EO_accepted rows)),
      (''no_recommendation'', PInt (count_outcome EO_no_recommendation rows)),
      (''stopped'', PInt (count_outcome EO_stopped rows)),
      (''suppressed'', PInt (count_outcome EO_suppressed_duplicate rows
         + count_outcome EO_suppressed_cooldown rows + count_outcome EO_superseded_in_run rows)),
      (''reason_frequencies'', PDict (reason_frequencies rows))]"

text \<open>A column of type \<open>Numeric(5, 2)\<close> keeps two decimal places, ties are rounded away from zero.\<close>

definition two_places :: "rat \<Rightarrow> rat" where
  "two_places x = of_int (quantize_half_up (100 * x)) / 100"

definition new_opportunity ::
  "uuid \<Rightarrow> uuid \<Rightarrow> uuid \<Rightarrow> operator_run \<Rightarrow> detection_assembly \<Rightarrow> nat \<Rightarrow> detector_evaluation
     \<Rightarrow> detector_candidate \<Rightarrow> opportunity_row" where
  "new_opportunity oid workspace_id product_id run assembly index source c =
     (let s = dc_scores c in
      \<lparr>opp_id = oid, opp_workspace_id = workspace_id, opp_product_id = Some product_id,
       opp_operator_run_id = Some (run_id run),
       opp_opportunity_type = Some (opportunity_type_value (dc_opportunity_type c)),
       opp_action_family = Some (action_family_value (dc_action_family c)),
       opp_subject_kind = Some (dc_subject_kind c), opp_subject_keys = Some (dc_subject_keys c),
       opp_identity_fingerprint = Some (dc_identity_fingerprint c),
       opp_observation_fingerprint = Some (dc_observation_fingerprint c),
       opp_detector_id = Some (de_detector_id source), opp_detector_version = Some (de_detector_version source),
       opp_title = dc_title c, opp_evidence_ids = [], opp_interpretation = dc_interpretation c,
       opp_recommendation = dc_recommended_action c,
       opp_confidence = confidence_value (confidence_label (sf_confidence s)),
       opp_missing_information = [], opp_approval_level = ''review'',
       opp_measurement_window = ''28_days'', opp_stop_conditions = [],
       opp_impact_score = dec_trunc (sf_impact s), opp_effort_score = dec_trunc (sf_effort s),
       opp_urgency_score = dec_trunc (sf_urgency s), opp_confidence_score = Some (two_places (sf_confidence s)),
       opp_strategic_fit_score = Some (two_places (sf_strategic_fit s)),
       opp_novelty_score = Some (two_places (sf_novelty s)),
       opp_priority_score = Some (two_places (sf_priority s)), opp_score_version = Some ''v1'',
       opp_expected_metric = Some (dc_expected_metric c),
       opp_effort_band = Some (effort_band_value (dc_effort_band c)), opp_lifecycle_version = Some ''1'',
       opp_status = OS_open, opp_cooldown_dedup_key = dc_identity_fingerprint c,
       opp_cooldown_until = dt_plus (di_as_of (da_detection_input assembly))
         (days (completed_days (dc_opportunity_type c))),
       opp_provenance = PDict [(''inputHash'', PStr (da_input_hash assembly)),
                               (''evaluationOrdinal'', PInt (int index))],
       opp_created_by_actor_id = run_created_by_actor_id run\<rparr>)"

definition new_evaluation ::
  "store_env \<Rightarrow> uuid \<Rightarrow> uuid option \<Rightarrow> uuid \<Rightarrow> uuid \<Rightarrow> operator_run \<Rightarrow> detection_assembly \<Rightarrow> nat
     \<Rightarrow> detector_evaluation \<Rightarrow> evaluation_row" where
  "new_evaluation env eid oid workspace_id product_id run assembly index source =
     (let c = de_candidate source in
      \<lparr>evr_id = eid, evr_workspace_id = workspace_id, evr_product_id = product_id,
       evr_operator_run_id = run_id run, evr_accepted_opportunity_id = oid,
       evr_detector_id = de_detector_id source, evr_detector_version = de_detector_version source,
       evr_outcome = de_outcome source,
       evr_evaluation_key = sv_evaluation_digest env index source,
       evr_reason_codes = fromkeys (de_reason_codes source),
       evr_input_fingerprint = da_input_hash assembly,
       evr_identity_fingerprint = map_option dc_identity_fingerprint c,
       evr_observation_fingerprint = map_option dc_observation_fingerprint c,
       evr_candidate_snapshot = c, evr_diagnostics = de_diagnostics source,
       evr_input_schema_version = di_schema_version (da_detection_input assembly),
       evr_detector_suite_version = text_or (run_detector_suite_version run) ''v1'',
       evr_quality_policy_version = text_or (run_quality_policy_version run) ''v1'',
       evr_scoring_policy_version = text_or (run_scoring_policy_version run) ''v1'',
       evr_cooldown_policy_version = text_or (run_cooldown_policy_version run) ''v1'',
       evr_score_version = ''v1'',
       evr_priority_score = map_option (\<lambda>c. two_places (sf_priority (dc_scores c))) c\<rparr>)"

definition stored_evidence :: "evidence_snapshot \<Rightarrow> evidence_snapshot" where
  "stored_evidence e = e\<lparr>ev_confidence_score := two_places (ev_confidence_score e)\<rparr>"

fun persist_evidence ::
  "store_env \<Rightarrow> evaluation_row \<Rightarrow> uuid option \<Rightarrow> evidence_snapshot list \<Rightarrow> operator_db
     \<Rightarrow> operator_db res" where
  "persist_evidence env row oid [] db = Inr db"
| "persist_evidence env row oid (e # es) db =
     res_bind (add_evidence
       \<lparr>evd_id = sv_uuid env (od_drawn db), evd_workspace_id = evr_workspace_id row,
        evd_product_id = evr_product_id row, evd_evaluation_id = evr_id row,
        evd_opportunity_id = oid, evd_evidence = stored_evidence e,
        evd_source_fingerprint = sv_source_digest env e, evd_schema_version = ''1''\<rparr>
       (db\<lparr>od_drawn := od_drawn db + 1\<rparr>))
     (persist_evidence env row oid es)"

text \<open>The body of the loop: the opportunity of an accepted evaluation, the evaluation, its
  evidence. A row draws its UUID when it is added.\<close>

definition persist_one ::
  "store_env \<Rightarrow> uuid \<Rightarrow> uuid \<Rightarrow> operator_run \<Rightarrow> detection_assembly \<Rightarrow> nat \<Rightarrow> detector_evaluation
     \<Rightarrow> operator_db \<Rightarrow> (evaluation_row \<times> operator_db) res" where
  "persist_one env workspace_id product_id run assembly index source db =
     res_bind
       (case (de_outcome source, de_candidate source) of
          (EO_accepted, Some c) \<Rightarrow>
            let oid = sv_uuid env (od_drawn db) in
            res_bind (add_opportunity (new_opportunity oid workspace_id product_id run assembly index source c)
                        (db\<lparr>od_drawn := od_drawn db + 1\<rparr>))
              (\<lambda>db'. Inr (Some oid, db'))
        | _ \<Rightarrow> Inr (None, db))
       (\<lambda>(oid, db1).
          let row = new_evaluation env (sv_uuid env (od_drawn db1)) oid workspace_id product_id run
                      assembly index source
          in res_bind (add_evaluation row (db1\<lparr>od_drawn := od_drawn db1 + 1\<rparr>)) (\<lambda>db2.
             res_bind (case de_candidate source of
                         None \<Rightarrow> Inr db2
                       | Some c \<Rightarrow> persist_evidence env row oid (dc_evidence c) db2)
               (\<lambda>db3. Inr (row, db3))))"

fun persist_all ::
  "store_env \<Rightarrow> uuid \<Rightarrow> uuid \<Rightarrow> operator_run \<Rightarrow> detection_assembly \<Rightarrow> nat \<Rightarrow> detector_evaluation list
     \<Rightarrow> operator_db \<Rightarrow> (evaluation_row list \<times> operator_db) res" where
  "persist_all env w p run assembly index [] db = Inr ([], db)"
| "persist_all env w p run assembly index (e # es) db =
     res_bind (persist_one env w p run assembly index e db) (\<lambda>(row, db').
     res_bind (persist_all env w p run assembly (index + 1) es db') (\<lambda>(rows, db'').
     Inr (row # rows, db'')))"

definition complete_run :: "string \<Rightarrow> instant \<Rightarrow> pyval \<Rightarrow> operator_run \<Rightarrow> operator_run" where
  "complete_run input_hash now summary r =
     r\<lparr>run_input_fingerprint := Some input_hash, run_status := RS_completed,
       run_completed_at := Some now, run_summary := summary\<rparr>"

definition clear_lease :: "operator_run \<Rightarrow> operator_run" where
  "clear_lease r = r\<lparr>run_lease_owner := None, run_lease_expires_at := None\<rparr>"

text \<open>The transaction; an exception rolls it back.\<close>

definition detection_transaction ::
  "store_env \<Rightarrow> instant \<Rightarrow> uuid \<Rightarrow> uuid \<Rightarrow> uuid \<Rightarrow> detection_assembly \<Rightarrow> string option \<Rightarrow> operator_db
     \<Rightarrow> (evaluation_row list \<times> operator_db) res" where
  "detection_transaction env now workspace_id product_id rid assembly lease_owner db =
     (case get_product_run db workspace_id product_id rid of
        None \<Rightarrow> Inl (OperatorRunNotFoundError ''Product-scoped opportunity detection run was not found.'')
      | Some run \<Rightarrow>
          if run_run_kind run \<noteq> RK_opportunity_detection
          then Inl (OperatorRunNotFoundError ''Product-scoped opportunity detection run was not found.'')
          else if di_workspace_id (da_detection_input assembly) \<noteq> workspace_id
             \<or> di_product_id (da_detection_input assembly) \<noteq> product_id
          then Inl (DetectionPersistenceConflictError ''Detection input tenant does not match the run.'')
          else let existing = list_for_run db workspace_id product_id rid in
            if existing \<noteq> []
            then (if run_input_fingerprint run \<noteq> Some (da_input_hash assembly)
                  then Inl (DetectionPersistenceConflictError ''Run already contains another detection input.'')
                  else Inr (existing, db))
            else
              res_bind (evaluate_detection_input (sv_engine env) (da_detection_input assembly)) (\<lambda>raw.
              res_bind (persist_all env workspace_id product_id run assembly 0 raw db)
                (\<lambda>(persisted, db').
                  if lease_owner \<noteq> None \<and> run_lease_owner run \<noteq> lease_owner
                  then Inl (DetectionPersistenceConflictError ''Opportunity detection lease ownership was lost.'')
                  else Inr (sort_key evr_evaluation_key persisted,
                    update_run rid (\<lambda>r. (if lease_owner \<noteq> None then clear_lease else (\<lambda>r. r))
                      (complete_run (da_input_hash assembly) now (summarize_evaluations persisted) r)) db'))))"

definition persist_detection ::
  "store_env \<Rightarrow> instant \<Rightarrow> uuid \<Rightarrow> uuid \<Rightarrow> uuid \<Rightarrow> detection_assembly \<Rightarrow> string option \<Rightarrow> operator_db
     \<Rightarrow> evaluation_row list res \<times> operator_db" where
  "persist_detection env now workspace_id product_id rid assembly lease_owner db =
     (case detection_transaction env now workspace_id product_id rid assembly lease_owner db of
        Inl e \<Rightarrow> (Inl e, db)
      | Inr (rows, db') \<Rightarrow> (Inr rows, db'))"

end
