(* ===== verification/Operator_Store_Facts.thy ===== *)
theory Operator_Store_Facts
  imports Operator_Store
begin

text \<open>
  What \<open>persist_detection\<close> stores: one evaluation row for every evaluation of the engine, one
  open opportunity for every accepted one, linked to it, and the evidence of every candidate.
  A second call with the same input returns the stored rows and changes nothing; a call that
  raises changes nothing either; and with unique digests and UUIDs no constraint is violated.
\<close>

section \<open>Effects of the loop\<close>

definition stored_opportunity :: "detector_evaluation \<Rightarrow> opportunity_row \<Rightarrow> bool" where
  "stored_opportunity e row \<longleftrightarrow> (case de_candidate e of None \<Rightarrow> False
     | Some c \<Rightarrow> opp_identity_fingerprint row = Some (dc_identity_fingerprint c) \<and> opp_status row = OS_open
         \<and> opp_title row = dc_title c \<and> opp_priority_score row = Some (two_places (sf_priority (dc_scores c))))"

lemma percent_two_places:
  assumes "percent x"
  shows "percent (two_places x)"
proof -
  have "quantize_half_up (100 * 0) \<le> quantize_half_up (100 * x)" "quantize_half_up (100 * x) \<le> quantize_half_up (100 * 100)"
    using assms by (auto simp: percent_def intro!: quantize_half_up_mono)
  moreover have "quantize_half_up (100 * 0) = 0" "quantize_half_up (100 * 100) = 10000" by code_simp+
  ultimately have "0 \<le> quantize_half_up (100 * x)" "quantize_half_up (100 * x) \<le> 10000" by auto
  then show ?thesis by (simp add: percent_def two_places_def)
qed

definition stored_evaluation ::
  "store_env \<Rightarrow> uuid \<Rightarrow> uuid \<Rightarrow> uuid \<Rightarrow> string \<Rightarrow> nat \<Rightarrow> detector_evaluation \<Rightarrow> evaluation_row \<Rightarrow> bool" where
  "stored_evaluation env w p rid h i e row \<longleftrightarrow> of_run w p rid row \<and> evr_outcome row = de_outcome e
     \<and> evr_candidate_snapshot row = de_candidate e \<and> evr_detector_id row = de_detector_id e
     \<and> evr_evaluation_key row = sv_evaluation_digest env i e \<and> evr_input_fingerprint row = h
     \<and> (evr_accepted_opportunity_id row \<noteq> None \<longleftrightarrow> acc e)"

definition candidate_items :: "detector_evaluation \<Rightarrow> evidence_snapshot list" where
  "candidate_items e = (case de_candidate e of None \<Rightarrow> [] | Some c \<Rightarrow> dc_evidence c)"

lemma add_results:
  "add_opportunity row db = Inr db1 \<Longrightarrow> db1 = db\<lparr>od_opportunities := od_opportunities db @ [row]\<rparr>"
  "add_evaluation erow db = Inr db1 \<Longrightarrow> db1 = db\<lparr>od_evaluations := od_evaluations db @ [erow]\<rparr>"
  "add_evidence vrow db = Inr db1 \<Longrightarrow> db1 = db\<lparr>od_evidence := od_evidence db @ [vrow]\<rparr>"
  by (auto simp: add_opportunity_def add_evaluation_def add_evidence_def split: if_splits)

lemma persist_evidence_result:
  assumes "persist_evidence env row oid es db = Inr db'"
  shows "\<exists>vs. db' = db\<lparr>od_evidence := od_evidence db @ vs, od_drawn := od_drawn db + length es\<rparr>
    \<and> map evd_evidence vs = map stored_evidence es
    \<and> list_all (\<lambda>v. evd_evaluation_id v = evr_id row \<and> evd_opportunity_id v = oid
        \<and> evd_workspace_id v = evr_workspace_id row \<and> evd_product_id v = evr_product_id row) vs"
  using assms
proof (induction es arbitrary: db)
  case Nil
  then show ?case by (auto intro: exI [of _ "[]"])
next
  case (Cons e es)
  let ?v = "\<lparr>evd_id = sv_uuid env (od_drawn db), evd_workspace_id = evr_workspace_id row,
        evd_product_id = evr_product_id row, evd_evaluation_id = evr_id row,
        evd_opportunity_id = oid, evd_evidence = stored_evidence e,
        evd_source_fingerprint = sv_source_digest env e, evd_schema_version = ''1''\<rparr>"
  from Cons.prems obtain db1 where db1: "add_evidence ?v (db\<lparr>od_drawn := od_drawn db + 1\<rparr>) = Inr db1"
    "persist_evidence env row oid es db1 = Inr db'" by (auto simp: res_bind_eq_Inr)
  from Cons.IH [OF db1(2)] obtain vs where
    "db' = db1\<lparr>od_evidence := od_evidence db1 @ vs, od_drawn := od_drawn db1 + length es\<rparr>"
    "map evd_evidence vs = map stored_evidence es" "list_all (\<lambda>v. evd_evaluation_id v = evr_id row \<and> evd_opportunity_id v = oid
        \<and> evd_workspace_id v = evr_workspace_id row \<and> evd_product_id v = evr_product_id row) vs" by blast
  then show ?case using add_results(3) [OF db1(1)] by (intro exI [of _ "?v # vs"]) simp
qed

text \<open>The rows that one evaluation adds.\<close>

definition adds ::
  "operator_db \<Rightarrow> operator_db \<Rightarrow> opportunity_row list \<Rightarrow> evaluation_row list \<Rightarrow> evidence_row list \<Rightarrow> bool" where
  "adds db db' opps rows evs \<longleftrightarrow> od_runs db' = od_runs db
     \<and> od_opportunities db' = od_opportunities db @ opps
     \<and> od_evaluations db' = od_evaluations db @ rows \<and> od_evidence db' = od_evidence db @ evs"

lemma adds_trans:
  "adds db db1 o1 r1 v1 \<Longrightarrow> adds db1 db2 o2 r2 v2 \<Longrightarrow> adds db db2 (o1 @ o2) (r1 @ r2) (v1 @ v2)"
  by (simp add: adds_def)

lemma persist_one_result:
  assumes "persist_one env w p run asm i e db = Inr (row, db')"
  obtains opps evs where "adds db db' opps [row] evs"
    "stored_evaluation env w p (run_id run) (da_input_hash asm) i e row"
    "list_all2 stored_opportunity (filter acc [e]) opps"
    "map (\<lambda>x. Some (opp_id x)) opps = filter (\<lambda>x. x \<noteq> None) [evr_accepted_opportunity_id row]"
    "map evd_evidence evs = map stored_evidence (candidate_items e)"
    "list_all (\<lambda>v. evd_evaluation_id v = evr_id row
        \<and> evd_opportunity_id v = evr_accepted_opportunity_id row) evs"
proof -
  let ?first = "case (de_outcome e, de_candidate e) of
          (EO_accepted, Some c) \<Rightarrow>
            let oid = sv_uuid env (od_drawn db) in
            res_bind (add_opportunity (new_opportunity oid w p run asm i e c)
                        (db\<lparr>od_drawn := od_drawn db + 1\<rparr>))
              (\<lambda>db'. Inr (Some oid, db'))
        | _ \<Rightarrow> Inr (None, db)"
  let ?row = "\<lambda>oid db1. new_evaluation env (sv_uuid env (od_drawn db1)) oid w p run asm i e"
  from assms obtain oid db1 db2 where f: "?first = Inr (oid, db1)"
    and r: "row = ?row oid db1"
    and a: "add_evaluation (?row oid db1) (db1\<lparr>od_drawn := od_drawn db1 + 1\<rparr>) = Inr db2"
    and v: "(case de_candidate e of None \<Rightarrow> Inr db2
           | Some c \<Rightarrow> persist_evidence env row oid (dc_evidence c) db2) = Inr db'"
    unfolding persist_one_def Let_def by (auto simp: res_bind_eq_Inr)
  have fr: "\<exists>opps. adds db db1 opps [] [] \<and> list_all2 stored_opportunity (filter acc [e]) opps
      \<and> map (\<lambda>x. Some (opp_id x)) opps = filter (\<lambda>x. x \<noteq> None) [oid] \<and> (oid \<noteq> None \<longleftrightarrow> acc e)"
  proof (cases "acc e")
    case True
    then obtain c where c: "de_outcome e = EO_accepted" "de_candidate e = Some c" by (auto simp: acc_def)
    let ?o = "new_opportunity (sv_uuid env (od_drawn db)) w p run asm i e c"
    have "add_opportunity ?o (db\<lparr>od_drawn := od_drawn db + 1\<rparr>) = Inr db1" "oid = Some (opp_id ?o)"
      using f c by (auto simp: res_bind_eq_Inr Let_def new_opportunity_def)
    moreover have "stored_opportunity e ?o" using c by (simp add: stored_opportunity_def new_opportunity_def Let_def)
    ultimately show ?thesis using True
      by (intro exI [of _ "[?o]"]) (auto simp: adds_def dest!: add_results(1))
  next
    case False
    then have "oid = None" "db1 = db" using f
      by (auto simp: acc_def split: option.splits evaluation_outcome.splits)
    then show ?thesis using False by (intro exI [of _ "[]"]) (simp add: adds_def)
  qed
  then obtain opps where o: "adds db db1 opps [] []" "list_all2 stored_opportunity (filter acc [e]) opps"
    "map (\<lambda>x. Some (opp_id x)) opps = filter (\<lambda>x. x \<noteq> None) [oid]" "oid \<noteq> None \<longleftrightarrow> acc e" by blast
  have a': "adds db1 db2 [] [row] []" using add_results(2) [OF a] r by (simp add: adds_def)
  have ro: "evr_accepted_opportunity_id row = oid" using r by (simp add: new_evaluation_def Let_def)
  obtain evs where vs: "adds db2 db' [] [] evs" "map evd_evidence evs = map stored_evidence (candidate_items e)"
    "list_all (\<lambda>v. evd_evaluation_id v = evr_id row \<and> evd_opportunity_id v = oid) evs"
  proof (cases "de_candidate e")
    case None
    then show ?thesis using v that [of "[]"] by (simp add: adds_def candidate_items_def)
  next
    case (Some c)
    then have "persist_evidence env row oid (dc_evidence c) db2 = Inr db'" using v by simp
    from persist_evidence_result [OF this] Some that show ?thesis
      by (auto simp: adds_def candidate_items_def list_all_iff)
  qed
  have "stored_evaluation env w p (run_id run) (da_input_hash asm) i e row"
    using r o(4) ro by (auto simp: stored_evaluation_def new_evaluation_def Let_def of_run_def)
  moreover have "adds db db' opps [row] evs"
    using adds_trans [OF adds_trans [OF o(1) a'] vs(1)] by simp
  ultimately show ?thesis using that o(2,3) vs(2,3) ro by blast
qed

definition linked :: "opportunity_row list \<Rightarrow> evaluation_row list \<Rightarrow> bool" where
  "linked opps rows \<longleftrightarrow>
     map (\<lambda>x. Some (opp_id x)) opps = filter (\<lambda>x. x \<noteq> None) (map evr_accepted_opportunity_id rows)"

lemma persist_all_result:
  assumes "persist_all env w p run asm i es db = Inr (rows, db')"
  shows "\<exists>opps evs. adds db db' opps rows evs
    \<and> list_all2 (\<lambda>(j, e) row. stored_evaluation env w p (run_id run) (da_input_hash asm) j e row)
        (enumerate i es) rows
    \<and> list_all2 stored_opportunity (filter acc es) opps \<and> linked opps rows
    \<and> map evd_evidence evs = map stored_evidence (concat (map candidate_items es))"
  using assms
proof (induction es arbitrary: i db rows)
  case Nil
  then show ?case by (intro exI [of _ "[]"]) (simp add: adds_def linked_def)
next
  case (Cons e es)
  from Cons.prems obtain row rows' db1 where one: "persist_one env w p run asm i e db = Inr (row, db1)"
    and rest: "persist_all env w p run asm (i + 1) es db1 = Inr (rows', db')" and rows: "rows = row # rows'"
    by (auto simp: res_bind_eq_Inr)
  obtain o1 v1 where 1: "adds db db1 o1 [row] v1"
    "stored_evaluation env w p (run_id run) (da_input_hash asm) i e row"
    "list_all2 stored_opportunity (filter acc [e]) o1"
    "map (\<lambda>x. Some (opp_id x)) o1 = filter (\<lambda>x. x \<noteq> None) [evr_accepted_opportunity_id row]"
    "map evd_evidence v1 = map stored_evidence (candidate_items e)"
    "list_all (\<lambda>v. evd_evaluation_id v = evr_id row
        \<and> evd_opportunity_id v = evr_accepted_opportunity_id row) v1"
    by (rule persist_one_result [OF one])
  obtain o2 v2 where 2: "adds db1 db' o2 rows' v2"
    "list_all2 (\<lambda>(j, e) row. stored_evaluation env w p (run_id run) (da_input_hash asm) j e row)
        (enumerate (i + 1) es) rows'"
    "list_all2 stored_opportunity (filter acc es) o2" "linked o2 rows'"
    "map evd_evidence v2 = map stored_evidence (concat (map candidate_items es))"
    using Cons.IH [OF rest] by blast
  have f: "filter acc (e # es) = filter acc [e] @ filter acc es" by simp
  have "linked (o1 @ o2) (row # rows')" using 1(4) 2(4) by (simp add: linked_def)
  moreover have "list_all2 stored_opportunity (filter acc (e # es)) (o1 @ o2)"
    unfolding f using 1(3) 2(3) by (rule list_all2_appendI)
  ultimately show ?case
    using adds_trans [OF 1(1) 2(1)] 1(2,5) 2(2,5) rows
    by (intro exI [of _ "o1 @ o2"] exI [of _ "v1 @ v2"]) simp
qed

section \<open>The transaction\<close>

lemma transaction_fresh:
  assumes "detection_transaction env now w p rid asm lease db = Inr (rows, db')"
    and "list_for_run db w p rid = []"
  obtains run raw persisted db1 where "get_product_run db w p rid = Some run"
    "run_run_kind run = RK_opportunity_detection"
    "evaluate_detection_input (sv_engine env) (da_detection_input asm) = Inr raw"
    "persist_all env w p run asm 0 raw db = Inr (persisted, db1)"
    "lease = None \<or> run_lease_owner run = lease"
    "rows = sort_key evr_evaluation_key persisted"
    "db' = update_run rid (\<lambda>r. (if lease \<noteq> None then clear_lease else (\<lambda>r. r))
        (complete_run (da_input_hash asm) now (summarize_evaluations persisted) r)) db1"
  using assms
  by (auto simp: detection_transaction_def Let_def res_bind_eq_Inr split: option.splits if_splits)

lemma get_product_run_in:
  "get_product_run db w p rid = Some run \<Longrightarrow> run \<in> set (od_runs db) \<and> run_id run = rid
     \<and> run_workspace_id run = w \<and> run_product_id run = Some p"
  by (auto simp: get_product_run_def find_Some_iff)

lemma update_run_get:
  assumes "get_product_run db w p rid = Some run" "od_runs db1 = od_runs db"
    and "\<And>r. run_id (f r) = run_id r \<and> run_workspace_id (f r) = run_workspace_id r
           \<and> run_product_id (f r) = run_product_id r"
  shows "get_product_run (update_run rid f db1) w p rid = Some (f run)"
proof -
  have "find (\<lambda>r. run_workspace_id r = w \<and> run_product_id r = Some p \<and> run_id r = rid)
      (map (\<lambda>r. if run_id r = rid then f r else r) (od_runs db))
    = Some (if run_id run = rid then f run else run)"
    using assms(1,3) unfolding get_product_run_def by (intro find_map_keeps) auto
  then show ?thesis
    using assms(1,2) get_product_run_in [OF assms(1)] by (simp add: get_product_run_def update_run_def)
qed

lemma stored_of_run:
  assumes "list_all2 (\<lambda>(j, e) row. stored_evaluation env w p rid h j e row) ies rows"
  shows "filter (of_run w p rid) rows = rows" "map evr_evaluation_key rows = map (\<lambda>(j, e). sv_evaluation_digest env j e) ies"
  using assms by (induction rule: list_all2_induct) (auto simp: stored_evaluation_def)

text \<open>What a fresh run leaves behind, for a later call.\<close>

lemma transaction_after:
  assumes "detection_transaction env now w p rid asm lease db = Inr (rows, db')"
    and "list_for_run db w p rid = []"
  shows "list_for_run db' w p rid = rows"
    and "\<exists>run. get_product_run db' w p rid = Some run \<and> run_run_kind run = RK_opportunity_detection
      \<and> run_input_fingerprint run = Some (da_input_hash asm) \<and> run_status run = RS_completed"
proof -
  obtain run raw persisted db1 where r: "get_product_run db w p rid = Some run"
    "run_run_kind run = RK_opportunity_detection"
    and pa: "persist_all env w p run asm 0 raw db = Inr (persisted, db1)"
    and rows: "rows = sort_key evr_evaluation_key persisted"
    and db': "db' = update_run rid (\<lambda>r. (if lease \<noteq> None then clear_lease else (\<lambda>r. r))
        (complete_run (da_input_hash asm) now (summarize_evaluations persisted) r)) db1"
    using assms by (auto elim: transaction_fresh)
  obtain opps evs where a: "adds db db1 opps persisted evs"
    "list_all2 (\<lambda>(j, e) row. stored_evaluation env w p (run_id run) (da_input_hash asm) j e row)
        (enumerate 0 raw) persisted"
    using persist_all_result [OF pa] by blast
  have "run_id run = rid" using get_product_run_in [OF r(1)] by simp
  then have "filter (of_run w p rid) persisted = persisted" using stored_of_run(1) [OF a(2)] by simp
  moreover have "filter (of_run w p rid) (od_evaluations db) = []"
    using assms(2) unfolding list_for_run_def sort_key_Nil_iff by simp
  moreover have "od_evaluations db' = od_evaluations db @ persisted"
    using a(1) db' by (simp add: adds_def update_run_def)
  ultimately show "list_for_run db' w p rid = rows" using rows by (simp add: list_for_run_def)
  have "get_product_run db' w p rid = Some ((if lease \<noteq> None then clear_lease else (\<lambda>r. r))
        (complete_run (da_input_hash asm) now (summarize_evaluations persisted) run))"
    unfolding db' using a(1)
    by (intro update_run_get [OF r(1)]) (auto simp: adds_def clear_lease_def complete_run_def)
  then show "\<exists>run. get_product_run db' w p rid = Some run \<and> run_run_kind run = RK_opportunity_detection
      \<and> run_input_fingerprint run = Some (da_input_hash asm) \<and> run_status run = RS_completed"
    using r(2) by (auto simp: clear_lease_def complete_run_def)
qed

section \<open>No constraint is violated\<close>

definition storable :: "detector_evaluation \<Rightarrow> bool" where
  "storable e \<longleftrightarrow> (case de_candidate e of None \<Rightarrow> de_outcome e \<noteq> EO_accepted
     | Some c \<Rightarrow> valid_scores (dc_scores c) \<and> good_evidence (dc_evidence c)
         \<and> dc_identity_fingerprint c \<noteq> [])"

lemma wf_storable: "wf_evaluation env d e \<Longrightarrow> storable e"
  by (auto simp: wf_evaluation_def storable_def wf_candidate_def identity_fingerprint_def
      accepted_requires_candidate_def split: option.splits)

lemma apply_history_storable:
  assumes "storable e" "apply_history d e = Inr e'"
  shows "storable e'"
proof (cases "acc e")
  case False
  then show ?thesis using apply_history_rest assms by simp
next
  case True
  then obtain c where c: "de_candidate e = Some c" by (auto simp: acc_def)
  then obtain n where "de_candidate e' = Some (rescore c n)"
    using assms(2) True
    by (auto simp: apply_history_def acc_def res_bind_eq_Inr Let_def split: option.splits if_splits)
  then show ?thesis using assms(1) c
    by (simp add: storable_def) (simp add: rescore_def Let_def valid_scores_score_opportunity)
qed

lemma evaluate_storable:
  assumes "evaluate_detection_input env d = Inr out"
  shows "list_all storable out"
proof -
  obtain gathered collapsed where g: "gather env d = Inr gathered"
    and c: "collapse env gathered = Inr collapsed"
    and all2: "list_all2 (\<lambda>e e'. apply_history d e = Inr e') collapsed out"
    using assms by (rule evaluate_parts)
  have "storable e" if "e \<in> set out" for e
    using list_all2_right [OF all2 that] collapsed_wf [OF g c] wf_storable apply_history_storable by blast
  then show ?thesis by (simp add: list_all_iff)
qed

lemma evaluate_nonempty: "evaluate_detection_input env d = Inr out \<Longrightarrow> out \<noteq> []"
proof -
  assume out: "evaluate_detection_input env d = Inr out"
  then obtain es where es: "gather env d = Inr es" by (rule evaluate_parts)
  have "(''search_decline'', ''1'', detect_search_decline) \<in> set detector_registry"
    by (simp add: detector_registry_def)
  from gather_all_detectors [OF es this] evaluate_detectors [OF out es] show "out \<noteq> []" by auto
qed

lemma percent_trunc: "valid_score x \<Longrightarrow> percent (of_int (dec_trunc x))"
  unfolding valid_score_def percent_def dec_trunc_def by (auto simp: floor_le_iff)

lemma stored_evidence_key [simp]: "ev_evidence_key (stored_evidence e) = ev_evidence_key e"
  by (simp add: stored_evidence_def)

lemma stored_evidence_percent: "valid_evidence e \<Longrightarrow> percent (ev_confidence_score (stored_evidence e))"
  using percent_two_places [of "ev_confidence_score e"]
  by (simp add: stored_evidence_def valid_evidence_def valid_score_def percent_def)

lemma persist_evidence_ok:
  assumes "good_evidence es"
    and "\<And>v. v \<in> set (od_evidence db) \<Longrightarrow> evd_evaluation_id v = evr_id row \<Longrightarrow>
           ev_evidence_key (evd_evidence v) \<notin> ev_evidence_key ` set es"
  shows "is_ok (persist_evidence env row oid es db)"
  using assms
proof (induction es arbitrary: db)
  case Nil
  then show ?case by simp
next
  case (Cons e es)
  let ?v = "\<lparr>evd_id = sv_uuid env (od_drawn db), evd_workspace_id = evr_workspace_id row,
        evd_product_id = evr_product_id row, evd_evaluation_id = evr_id row,
        evd_opportunity_id = oid, evd_evidence = stored_evidence e,
        evd_source_fingerprint = sv_source_digest env e, evd_schema_version = ''1''\<rparr>"
  let ?db = "db\<lparr>od_drawn := od_drawn db + 1\<rparr>"
  have "add_evidence ?v ?db = Inr (?db\<lparr>od_evidence := od_evidence db @ [?v]\<rparr>)"
    using Cons.prems stored_evidence_percent [of e]
    by (auto simp: add_evidence_def list_ex_iff good_evidence_def)
  moreover have "is_ok (persist_evidence env row oid es (?db\<lparr>od_evidence := od_evidence db @ [?v]\<rparr>))"
    by (rule Cons.IH) (use Cons.prems in \<open>auto simp: good_evidence_def\<close>)
  ultimately show ?case by simp
qed

definition drawn_ids :: "store_env \<Rightarrow> operator_db \<Rightarrow> bool" where
  "drawn_ids env db \<longleftrightarrow> evd_evaluation_id ` set (od_evidence db) \<subseteq> sv_uuid env ` {..<od_drawn db}"

lemma add_evaluation_new:
  assumes "storable e"
    and "sv_evaluation_digest env i e \<notin> evr_evaluation_key ` set (filter (of_run w p (run_id run)) (od_evaluations db))"
    and row_def: "row = new_evaluation env eid oid w p run asm i e"
  shows "add_evaluation row db = Inr (db\<lparr>od_evaluations := od_evaluations db @ [row]\<rparr>)"
proof -
  have key: "evr_workspace_id row = w" "evr_product_id row = p" "evr_operator_run_id row = run_id run"
    "evr_evaluation_key row = sv_evaluation_digest env i e"
    by (simp_all add: row_def new_evaluation_def Let_def)
  have "case evr_priority_score row of None \<Rightarrow> True | Some s \<Rightarrow> percent s"
    using assms(1) percent_two_places [unfolded percent_def]
    by (simp add: row_def new_evaluation_def Let_def storable_def valid_scores_def
        valid_score_def percent_def split: option.splits)
  moreover have "evr_outcome row = EO_accepted \<longrightarrow> evr_candidate_snapshot row \<noteq> None"
    using assms(1) by (simp add: row_def new_evaluation_def Let_def storable_def split: option.splits)
  moreover have "\<not> list_ex (\<lambda>x. of_run w p (run_id run) x
      \<and> evr_evaluation_key x = sv_evaluation_digest env i e) (od_evaluations db)"
    using assms(2) by (auto simp: list_ex_iff image_iff)
  ultimately show ?thesis by (simp add: add_evaluation_def key)
qed

lemma persist_one_ok:
  assumes "storable e" "inj (sv_uuid env)" "drawn_ids env db"
    and "sv_evaluation_digest env i e \<notin> evr_evaluation_key ` set (filter (of_run w p (run_id run)) (od_evaluations db))"
  shows "\<exists>row db'. persist_one env w p run asm i e db = Inr (row, db') \<and> drawn_ids env db'"
proof -
  have opp: "is_ok (add_opportunity (new_opportunity oid w p run asm i e c) db0)"
    if "de_candidate e = Some c" for oid c db0
  proof -
    let ?s = "dc_scores c"
    have "percent (sf_confidence ?s)" "percent (sf_strategic_fit ?s)" "percent (sf_novelty ?s)" "percent (sf_priority ?s)"
      "percent (of_int (dec_trunc (sf_impact ?s)))" "percent (of_int (dec_trunc (sf_effort ?s)))"
      "percent (of_int (dec_trunc (sf_urgency ?s)))" "dc_identity_fingerprint c \<noteq> []"
      using that assms(1) percent_trunc by (simp_all add: storable_def valid_scores_def valid_score_def percent_def)
    then show ?thesis by (simp add: add_opportunity_def new_opportunity_def Let_def percent_two_places)
  qed
  obtain oid db1 where f: "(case (de_outcome e, de_candidate e) of
          (EO_accepted, Some c) \<Rightarrow>
            let oid = sv_uuid env (od_drawn db) in
            res_bind (add_opportunity (new_opportunity oid w p run asm i e c)
                        (db\<lparr>od_drawn := od_drawn db + 1\<rparr>))
              (\<lambda>db'. Inr (Some oid, db'))
        | _ \<Rightarrow> Inr (None, db)) = Inr (oid, db1)"
    and db1: "od_evaluations db1 = od_evaluations db" "od_evidence db1 = od_evidence db" "od_drawn db \<le> od_drawn db1"
  proof (cases "acc e")
    case True
    then obtain c where c: "de_outcome e = EO_accepted" "de_candidate e = Some c" by (auto simp: acc_def)
    let ?db = "db\<lparr>od_drawn := od_drawn db + 1\<rparr>"
    obtain db1 where d: "add_opportunity (new_opportunity (sv_uuid env (od_drawn db)) w p run asm i e c) ?db = Inr db1"
      using opp [OF c(2)] unfolding is_ok_iff by blast
    then show ?thesis using that [of "Some (sv_uuid env (od_drawn db))" db1] c add_results(1) [OF d]
      by (simp add: Let_def)
  next
    case False
    then show ?thesis using that [of None db]
      by (auto simp: acc_def split: option.splits evaluation_outcome.splits)
  qed
  define row where "row = new_evaluation env (sv_uuid env (od_drawn db1)) oid w p run asm i e"
  let ?db2 = "db1\<lparr>od_drawn := od_drawn db1 + 1, od_evaluations := od_evaluations db1 @ [row]\<rparr>"
  have a: "add_evaluation row (db1\<lparr>od_drawn := od_drawn db1 + 1\<rparr>) = Inr ?db2"
    using assms(4) db1(1) by (subst add_evaluation_new [OF assms(1) _ row_def]) simp_all
  have new: "evd_evaluation_id v \<noteq> sv_uuid env (od_drawn db1)" if "v \<in> set (od_evidence db1)" for v
  proof -
    obtain n where "evd_evaluation_id v = sv_uuid env n" "n < od_drawn db"
      using \<open>v \<in> set (od_evidence db1)\<close> assms(3) db1(2) unfolding drawn_ids_def by auto
    then show ?thesis using db1(3) assms(2) by (auto dest: injD)
  qed
  have grow: "drawn_ids env db'" if "od_evidence db' = od_evidence db1 @ vs"
    "\<forall>v \<in> set vs. evd_evaluation_id v = sv_uuid env (od_drawn db1)" "od_drawn db1 < od_drawn db'" for db' vs
  proof -
    have "sv_uuid env ` {..<od_drawn db} \<subseteq> sv_uuid env ` {..<od_drawn db'}"
      using that(3) db1(3) by (intro image_mono) auto
    with assms(3) have "evd_evaluation_id ` set (od_evidence db) \<subseteq> sv_uuid env ` {..<od_drawn db'}"
      unfolding drawn_ids_def by (rule order_trans)
    moreover have "evd_evaluation_id ` set vs \<subseteq> sv_uuid env ` {..<od_drawn db'}" using that(2,3) by auto
    ultimately show ?thesis using that(1) db1(2) unfolding drawn_ids_def by (simp add: image_Un)
  qed
  have "\<exists>db'. (case de_candidate e of None \<Rightarrow> Inr ?db2
        | Some c \<Rightarrow> persist_evidence env row oid (dc_evidence c) ?db2) = Inr db' \<and> drawn_ids env db'"
  proof (cases "de_candidate e")
    case None
    have "drawn_ids env ?db2" using grow [of ?db2 "[]"] by simp
    then show ?thesis using None by simp
  next
    case (Some c)
    have "is_ok (persist_evidence env row oid (dc_evidence c) ?db2)"
      by (rule persist_evidence_ok)
         (use Some assms(1) new in \<open>auto simp: storable_def row_def new_evaluation_def Let_def\<close>)
    then obtain db' where d: "persist_evidence env row oid (dc_evidence c) ?db2 = Inr db'"
      unfolding is_ok_iff by blast
    from persist_evidence_result [OF d] obtain vs where vs:
      "db' = ?db2\<lparr>od_evidence := od_evidence ?db2 @ vs, od_drawn := od_drawn ?db2 + length (dc_evidence c)\<rparr>"
      "list_all (\<lambda>v. evd_evaluation_id v = evr_id row) vs" by (auto simp: list_all_iff)
    have "evr_id row = sv_uuid env (od_drawn db1)" by (simp add: row_def new_evaluation_def Let_def)
    then have "drawn_ids env db'" by (intro grow [of db' vs]) (use vs in \<open>simp_all add: list_all_iff\<close>)
    then show ?thesis using Some d by auto
  qed
  then obtain db' where "(case de_candidate e of None \<Rightarrow> Inr ?db2
        | Some c \<Rightarrow> persist_evidence env row oid (dc_evidence c) ?db2) = Inr db'" "drawn_ids env db'" by blast
  moreover from this(1) have "persist_one env w p run asm i e db = Inr (row, db')"
    by (simp only: persist_one_def f [unfolded prod.case] res_bind_simps prod.case row_def [symmetric] a Let_def [of row])
  ultimately show ?thesis by blast
qed

text \<open>The digest of an evaluation covers its ordinal in the run, so two evaluations of a run have
  different keys.\<close>

definition ordinal_digests :: "store_env \<Rightarrow> bool" where
  "ordinal_digests env \<longleftrightarrow>
     (\<forall>i j e e'. sv_evaluation_digest env i e = sv_evaluation_digest env j e' \<longrightarrow> i = j)"

lemma persist_all_ok:
  assumes "list_all storable es" "inj (sv_uuid env)" "drawn_ids env db"
    and "ordinal_digests env"
    and "\<And>x. x \<in> set (enumerate i es) \<Longrightarrow> (case x of (j, e) \<Rightarrow> sv_evaluation_digest env j e)
       \<notin> evr_evaluation_key ` set (filter (of_run w p (run_id run)) (od_evaluations db))"
  shows "is_ok (persist_all env w p run asm i es db)"
  using assms
proof (induction es arbitrary: i db)
  case Nil
  then show ?case by simp
next
  case (Cons e es)
  have "storable e" "sv_evaluation_digest env i e
      \<notin> evr_evaluation_key ` set (filter (of_run w p (run_id run)) (od_evaluations db))"
    using Cons.prems(1) Cons.prems(5) [of "(i, e)"] by auto
  from persist_one_ok [OF this(1) Cons.prems(2,3) this(2), where asm = asm]
  obtain row db1 where one: "persist_one env w p run asm i e db = Inr (row, db1)" "drawn_ids env db1" by blast
  obtain opps evs where a: "adds db db1 opps [row] evs"
    "stored_evaluation env w p (run_id run) (da_input_hash asm) i e row"
    by (rule persist_one_result [OF one(1)]) (rule that)
  have key: "evr_evaluation_key row = sv_evaluation_digest env i e" using a(2) by (simp add: stored_evaluation_def)
  have inj: "sv_evaluation_digest env j x \<noteq> sv_evaluation_digest env i e"
    if "(j, x) \<in> set (enumerate (Suc i) es)" for j x
  proof -
    have "j \<noteq> i" using that by (auto simp: in_set_enumerate_eq)
    then show ?thesis using Cons.prems(4) unfolding ordinal_digests_def by blast
  qed
  have "is_ok (persist_all env w p run asm (Suc i) es db1)"
  proof (rule Cons.IH [OF _ Cons.prems(2) one(2) Cons.prems(4)])
    show "list_all storable es" using Cons.prems(1) by simp
    fix x assume x: "x \<in> set (enumerate (Suc i) es)"
    then have "x \<in> set (enumerate i (e # es))" by simp
    from Cons.prems(5) [OF this] show "(case x of (j, e) \<Rightarrow> sv_evaluation_digest env j e)
       \<notin> evr_evaluation_key ` set (filter (of_run w p (run_id run)) (od_evaluations db1))"
      using a(1) key inj x by (cases x) (auto simp: adds_def)
  qed
  then obtain z where "persist_all env w p run asm (Suc i) es db1 = Inr z" unfolding is_ok_iff by blast
  then show ?case using one(1) by (cases z) simp
qed

lemma persist_detection_ok:
  assumes "get_product_run db w p rid = Some run" "run_run_kind run = RK_opportunity_detection"
    and "di_workspace_id (da_detection_input asm) = w" "di_product_id (da_detection_input asm) = p"
    and "list_for_run db w p rid = []" "lease = None \<or> run_lease_owner run = lease"
    and "valid_input (da_detection_input asm)" "aware_input (da_detection_input asm)"
    and "texts_fit (da_detection_input asm)"
    and "inj (sv_uuid env)" "ordinal_digests env" "drawn_ids env db"
  shows "is_ok (fst (persist_detection env now w p rid asm lease db))"
proof -
  obtain raw where raw: "evaluate_detection_input (sv_engine env) (da_detection_input asm) = Inr raw"
    using evaluate_ok [OF assms(7-9)] unfolding is_ok_iff by blast
  have "filter (of_run w p rid) (od_evaluations db) = []"
    using assms(5) unfolding list_for_run_def sort_key_Nil_iff by simp
  moreover have "run_id run = rid" using get_product_run_in [OF assms(1)] by simp
  ultimately have "is_ok (persist_all env w p run asm 0 raw db)"
    by (intro persist_all_ok evaluate_storable [OF raw] assms(10-12)) auto
  then obtain persisted db1 where pa: "persist_all env w p run asm 0 raw db = Inr (persisted, db1)"
    unfolding is_ok_iff by auto
  show ?thesis
    using raw pa assms(1-6)
    by (auto simp: persist_detection_def detection_transaction_def Let_def)
qed

section \<open>Properties\<close>

text \<open>C6. Storing the detection of a run that has no evaluations yet stores exactly
  what the engine found: one evaluation row for every evaluation, in order; one open
  opportunity for every accepted one, linked from its row and from its evidence; the evidence
  of every candidate. The run is completed under the input's hash and the result is what a
  later listing of the run returns.\<close>

theorem detection_is_stored:
  assumes "persist_detection env now w p rid asm lease db = (Inr rows, db')"
    and "list_for_run db w p rid = []"
  shows "\<exists>raw persisted opps evs.
      evaluate_detection_input (sv_engine env) (da_detection_input asm) = Inr raw
    \<and> od_evaluations db' = od_evaluations db @ persisted
    \<and> list_all2 (\<lambda>(j, e) row. stored_evaluation env w p rid (da_input_hash asm) j e row)
        (enumerate 0 raw) persisted
    \<and> od_opportunities db' = od_opportunities db @ opps
    \<and> list_all2 stored_opportunity (filter acc raw) opps \<and> linked opps persisted
    \<and> od_evidence db' = od_evidence db @ evs \<and> map evd_evidence evs = map stored_evidence (concat (map candidate_items raw))
    \<and> rows = list_for_run db' w p rid
    \<and> (\<exists>run. get_product_run db' w p rid = Some run \<and> run_status run = RS_completed
         \<and> run_input_fingerprint run = Some (da_input_hash asm))"
proof -
  have tx: "detection_transaction env now w p rid asm lease db = Inr (rows, db')"
    using assms(1) by (auto simp: persist_detection_def split: sum.splits)
  obtain run raw persisted db1 where r: "get_product_run db w p rid = Some run"
    and raw: "evaluate_detection_input (sv_engine env) (da_detection_input asm) = Inr raw"
    and pa: "persist_all env w p run asm 0 raw db = Inr (persisted, db1)"
    and db': "db' = update_run rid (\<lambda>r. (if lease \<noteq> None then clear_lease else (\<lambda>r. r))
        (complete_run (da_input_hash asm) now (summarize_evaluations persisted) r)) db1"
    by (rule transaction_fresh [OF tx assms(2)]) (rule that)
  obtain opps evs where a: "adds db db1 opps persisted evs"
    "list_all2 (\<lambda>(j, e) row. stored_evaluation env w p (run_id run) (da_input_hash asm) j e row)
        (enumerate 0 raw) persisted"
    "list_all2 stored_opportunity (filter acc raw) opps" "linked opps persisted"
    "map evd_evidence evs = map stored_evidence (concat (map candidate_items raw))"
    using persist_all_result [OF pa] by blast
  have rid: "run_id run = rid" using get_product_run_in [OF r] by simp
  have tables: "od_evaluations db' = od_evaluations db @ persisted"
    "od_opportunities db' = od_opportunities db @ opps" "od_evidence db' = od_evidence db @ evs"
    using a(1) by (simp_all add: db' adds_def update_run_def)
  note after = transaction_after [OF tx assms(2)]
  show ?thesis
    by (rule exI [of _ raw], rule exI [of _ persisted], rule exI [of _ opps], rule exI [of _ evs])
       (use raw tables a(2-) after in \<open>auto simp only: rid\<close>)
qed

text \<open>Repeating a stored detection with the same input returns the
  rows stored first and changes nothing; repeating it with another input raises a conflict
  and changes nothing.\<close>

theorem detection_replay_is_idempotent:
  assumes "persist_detection env now w p rid asm lease db = (Inr rows, db')"
    and "list_for_run db w p rid = []"
    and "di_workspace_id (da_detection_input asm') = w" "di_product_id (da_detection_input asm') = p"
  shows "persist_detection env now' w p rid asm' lease' db'
    = (if da_input_hash asm' = da_input_hash asm then (Inr rows, db')
       else (Inl (DetectionPersistenceConflictError ''Run already contains another detection input.''), db'))"
proof -
  have tx: "detection_transaction env now w p rid asm lease db = Inr (rows, db')"
    using assms(1) by (auto simp: persist_detection_def split: sum.splits)
  note after = transaction_after [OF tx assms(2)]
  have ne: "rows \<noteq> []"
  proof -
    obtain raw persisted db1 run where
      r: "evaluate_detection_input (sv_engine env) (da_detection_input asm) = Inr raw"
      "persist_all env w p run asm 0 raw db = Inr (persisted, db1)"
      "rows = sort_key evr_evaluation_key persisted"
      by (rule transaction_fresh [OF tx assms(2)]) (rule that)
    have "length persisted = length raw"
      using persist_all_result [OF r(2)] by (auto dest: list_all2_lengthD)
    then show ?thesis using evaluate_nonempty [OF r(1)] r(3) by (auto simp: sort_key_Nil_iff)
  qed
  then show ?thesis
    using after assms(3,4) by (auto simp: persist_detection_def detection_transaction_def Let_def)
qed

text \<open>C7. Storing a detection changes the database only when it
  succeeds on a detection run of the tenant that has no evaluations yet and, when the caller names a lease owner as
  the workflow does, only while this owner holds the lease of the run. Whatever it raises, an unknown run, a tenant
  mismatch, a failing detector, a violated constraint or a lost lease, the database is left as it was.\<close>

theorem only_leased_fresh_runs_are_written:
  assumes "snd (persist_detection env now w p rid asm lease db) \<noteq> db"
  shows "is_ok (fst (persist_detection env now w p rid asm lease db))
    \<and> list_for_run db w p rid = []
    \<and> (\<exists>run. get_product_run db w p rid = Some run \<and> run_run_kind run = RK_opportunity_detection
         \<and> (lease = None \<or> run_lease_owner run = lease))"
proof -
  obtain rows db' where x: "detection_transaction env now w p rid asm lease db = Inr (rows, db')"
    and ne: "db' \<noteq> db"
    using assms by (auto simp: persist_detection_def split: sum.splits)
  have fresh: "list_for_run db w p rid = []"
    using x ne by (auto simp: detection_transaction_def Let_def split: option.splits if_splits)
  have "\<exists>run. get_product_run db w p rid = Some run \<and> run_run_kind run = RK_opportunity_detection
      \<and> (lease = None \<or> run_lease_owner run = lease)"
    by (rule transaction_fresh [OF x fresh]) auto
  then show ?thesis using x fresh by (simp add: persist_detection_def)
qed

section \<open>A concrete run\<close>

text \<open>A run of the sample product, leased to a worker.\<close>

definition sample_run :: operator_run where
  "sample_run = \<lparr>run_id = ''run'', run_workspace_id = ''workspace'', run_product_id = Some ''product'',
     run_run_kind = RK_opportunity_detection, run_trigger = ''manual'', run_status = RS_running,
     run_idempotency_key = ''key'', run_request_fingerprint = Some ''body'', run_input_fingerprint = None,
     run_input_schema_version = Some ''1'', run_detector_suite_version = Some ''v1'',
     run_quality_policy_version = Some ''v1'', run_scoring_policy_version = Some ''v1'',
     run_cooldown_policy_version = Some ''v1'', run_as_of = Some 0, run_lease_owner = Some ''worker'',
     run_lease_expires_at = Some 1800, run_failure_category = None, run_logical_period_start = None,
     run_logical_period_end = None, run_workflow_version = None, run_current_stage = None,
     run_stage_summary = None, run_finalized_at = None, run_stopped_reason = None,
     run_analyzer_version = ''opportunity-detection-v1'', run_provenance = PDict [],
     run_summary = PDict [], run_completed_at = None, run_created_by_actor_id = ''actor''\<rparr>"

definition sample_store_db :: operator_db where
  "sample_store_db = \<lparr>od_runs = [sample_run], od_evaluations = [], od_opportunities = [],
     od_evidence = [], od_drawn = 0\<rparr>"

definition sample_store :: store_env where
  "sample_store = \<lparr>sv_engine = sample_engine, sv_evaluation_digest = (\<lambda>i _. replicate i CHR ''x''),
     sv_source_digest = (\<lambda>_. ''source''), sv_uuid = (\<lambda>n. replicate n CHR ''u'')\<rparr>"

definition sample_assembly :: "string \<Rightarrow> detection_assembly" where
  "sample_assembly h = \<lparr>da_detection_input = sample_input PS_approved [], da_input_hash = h\<rparr>"

lemma sample_store_ok:
  "get_product_run sample_store_db ''workspace'' ''product'' ''run'' = Some sample_run"
  "run_run_kind sample_run = RK_opportunity_detection"
  "di_workspace_id (da_detection_input (sample_assembly h)) = ''workspace''"
  "di_product_id (da_detection_input (sample_assembly h)) = ''product''"
  "list_for_run sample_store_db ''workspace'' ''product'' ''run'' = []"
  "Some ''worker'' = None \<or> run_lease_owner sample_run = Some ''worker''"
  "valid_input (da_detection_input (sample_assembly h))"
  "aware_input (da_detection_input (sample_assembly h))"
  "texts_fit (da_detection_input (sample_assembly h))"
  "inj (sv_uuid sample_store)" "ordinal_digests sample_store" "drawn_ids sample_store sample_store_db"
  using sample_valid
  by (auto simp: get_product_run_def sample_store_db_def sample_run_def sample_assembly_def
      list_for_run_def sample_store_def ordinal_digests_def drawn_ids_def inj_def sample_input_def
      dest: arg_cong [where f = length])

lemma sample_store_result:
  obtains rows db' where "persist_detection sample_store 900 ''workspace'' ''product'' ''run''
    (sample_assembly ''hash'') (Some ''worker'') sample_store_db = (Inr rows, db')"
proof -
  let ?r = "persist_detection sample_store 900 ''workspace'' ''product'' ''run''
    (sample_assembly ''hash'') (Some ''worker'') sample_store_db"
  have "is_ok (fst ?r)" by (rule persist_detection_ok [OF sample_store_ok])
  then obtain rows where "fst ?r = Inr rows" unfolding is_ok_iff by blast
  then have "?r = (Inr rows, snd ?r)" by (cases ?r) simp
  then show thesis by (rule that)
qed

theorem detection_is_stored_witness:
  "\<exists>rows db'. persist_detection sample_store 900 ''workspace'' ''product'' ''run''
      (sample_assembly ''hash'') (Some ''worker'') sample_store_db = (Inr rows, db')
    \<and> rows = list_for_run db' ''workspace'' ''product'' ''run''"
proof -
  obtain rows db' where r: "persist_detection sample_store 900 ''workspace'' ''product'' ''run''
    (sample_assembly ''hash'') (Some ''worker'') sample_store_db = (Inr rows, db')"
    by (rule sample_store_result)
  from detection_is_stored [OF this sample_store_ok(5)] r show ?thesis by blast
qed

theorem detection_replay_is_idempotent_witness:
  "\<exists>rows db'. persist_detection sample_store 900 ''workspace'' ''product'' ''run''
      (sample_assembly ''hash'') (Some ''worker'') sample_store_db = (Inr rows, db')
    \<and> persist_detection sample_store 950 ''workspace'' ''product'' ''run''
      (sample_assembly ''hash'') None db' = (Inr rows, db')"
proof -
  obtain rows db' where r: "persist_detection sample_store 900 ''workspace'' ''product'' ''run''
    (sample_assembly ''hash'') (Some ''worker'') sample_store_db = (Inr rows, db')"
    by (rule sample_store_result)
  from detection_replay_is_idempotent [OF this sample_store_ok(5) sample_store_ok(3,4) [of "''hash''"],
      where now' = 950 and lease' = None] r
  show ?thesis by simp
qed

theorem only_leased_fresh_runs_are_written_witness:
  "is_ok (fst (persist_detection sample_store 900 ''workspace'' ''product'' ''run''
      (sample_assembly ''hash'') (Some ''worker'') sample_store_db))"
proof -
  obtain rows db' where r: "persist_detection sample_store 900 ''workspace'' ''product'' ''run''
    (sample_assembly ''hash'') (Some ''worker'') sample_store_db = (Inr rows, db')"
    by (rule sample_store_result)
  then have "detection_transaction sample_store 900 ''workspace'' ''product'' ''run''
    (sample_assembly ''hash'') (Some ''worker'') sample_store_db = (Inr (rows, db'))"
    by (auto simp: persist_detection_def split: sum.splits)
  from transaction_after(2) [OF this sample_store_ok(5)] sample_store_ok(1)
  have "db' \<noteq> sample_store_db" by (auto simp: sample_run_def)
  then show ?thesis
    using only_leased_fresh_runs_are_written [of sample_store 900 "''workspace''" "''product''" "''run''" "sample_assembly ''hash''" "Some ''worker''"
        sample_store_db] r
    by simp
qed

end
