(* ===== verification/Outbox.thy ===== *)
theory Outbox
  imports Idempotency
begin

text \<open>
  The transactional outbox (\<open>app/db/outbox.py\<close>) and its delivery loop
  (\<open>app/workflows/outbox.py\<close>). The table is a list of events; every operation maps a table to
  a table, or raises. Instants are microseconds since the epoch. The publisher is a parameter:
  it tells whether publishing a message succeeds.
\<close>

section \<open>Metadata\<close>

datatype metadata_scalar = MD_str string | MD_int int | MD_float rat | MD_bool bool | MD_none

datatype metadata_value = MD_scalar metadata_scalar | MD_list "metadata_scalar list"

type_synonym metadata = "(string \<times> metadata_value) list"

definition ends_with :: "string \<Rightarrow> string \<Rightarrow> bool" where
  "ends_with p s \<longleftrightarrow> length p \<le> length s \<and> drop (length s - length p) s = p"

definition sensitive_key_parts :: "string list" where
  "sensitive_key_parts = [''body'', ''content'', ''credential'', ''password'', ''payload'', ''prompt'',
     ''secret'', ''source'', ''token'']"

definition normalized_key :: "string \<Rightarrow> string" where
  "normalized_key key = filter (\<lambda>c. c \<noteq> CHR ''_'' \<and> c \<noteq> CHR ''-'') (py_lower key)"

definition key_allowed :: "string \<Rightarrow> bool" where
  "key_allowed key \<longleftrightarrow> ends_with ''id'' (normalized_key key)
     \<or> \<not> list_ex (\<lambda>part. text_contains part (normalized_key key)) sensitive_key_parts"

definition metadata_items :: "metadata_value \<Rightarrow> metadata_scalar list" where
  "metadata_items v = (case v of MD_list xs \<Rightarrow> xs | MD_scalar x \<Rightarrow> [x])"

definition too_long :: "metadata_scalar \<Rightarrow> bool" where
  "too_long x = (case x of MD_str s \<Rightarrow> 2048 < length s | _ \<Rightarrow> False)"

fun validate_metadata :: "metadata \<Rightarrow> metadata res" where
  "validate_metadata [] = Inr []"
| "validate_metadata ((key, item) # rest) =
     (if \<not> key_allowed key then Inl (ValueError (''metadata key is not allowed: '' @ key))
      else if list_ex too_long (metadata_items item)
      then Inl (ValueError ''metadata string values must not exceed 2048 characters'')
      else res_bind (validate_metadata rest) (\<lambda>r. Inr ((key, item) # r)))"

section \<open>Events\<close>

datatype outbox_status = PENDING | PUBLISHING | PUBLISHED | FAILED

record outbox_event =
  ob_id :: string
  ob_event_name :: string
  ob_schema_version :: int
  ob_idempotency_key :: string
  ob_aggregate_id :: "string option"
  ob_workspace_id :: "string option"
  ob_product_id :: "string option"
  ob_metadata_payload :: metadata
  ob_status :: outbox_status
  ob_attempts :: int
  ob_available_at :: instant
  ob_lease_expires_at :: "instant option"
  ob_created_at :: instant
  ob_published_at :: "instant option"
  ob_last_error_category :: "string option"

type_synonym outbox = "outbox_event list"

text \<open>The check constraints of the table.\<close>

definition event_ok :: "outbox_event \<Rightarrow> bool" where
  "event_ok e \<longleftrightarrow> 0 < ob_schema_version e \<and> 0 \<le> ob_attempts e
     \<and> (ob_status e = PUBLISHING \<longleftrightarrow> ob_lease_expires_at e \<noteq> None)"

fun outbox_column :: "string \<Rightarrow> outbox_event \<Rightarrow> string option" where
  "outbox_column c e =
     (if c = ''event_name'' then Some (ob_event_name e)
      else if c = ''idempotency_key'' then Some (ob_idempotency_key e)
      else if c = ''id'' then Some (ob_id e)
      else None)"

definition outbox_key :: "outbox_event \<Rightarrow> string \<times> string" where
  "outbox_key e = (ob_event_name e, ob_idempotency_key e)"

section \<open>Operations\<close>

text \<open>The row that \<open>enqueue_outbox_event\<close> inserts; \<open>new_id\<close> is the id it draws when the caller
  gives none and \<open>now\<close> the clock.\<close>

definition new_event ::
  "string \<Rightarrow> instant \<Rightarrow> string \<Rightarrow> int \<Rightarrow> string \<Rightarrow> metadata \<Rightarrow> string option \<Rightarrow> string option
     \<Rightarrow> string option \<Rightarrow> string option \<Rightarrow> instant option \<Rightarrow> outbox_event" where
  "new_event new_id now event_name schema_version idempotency_key metadata event_id aggregate_id
      workspace_id product_id available_at =
     \<lparr>ob_id = (case event_id of None \<Rightarrow> new_id | Some i \<Rightarrow> i),
      ob_event_name = event_name, ob_schema_version = schema_version,
      ob_idempotency_key = idempotency_key, ob_aggregate_id = aggregate_id,
      ob_workspace_id = workspace_id, ob_product_id = product_id,
      ob_metadata_payload = metadata, ob_status = PENDING, ob_attempts = 0,
      ob_available_at = (case available_at of None \<Rightarrow> now | Some t \<Rightarrow> t),
      ob_lease_expires_at = None, ob_created_at = now, ob_published_at = None,
      ob_last_error_category = None\<rparr>"

definition insert_event :: "string \<Rightarrow> outbox_event \<Rightarrow> outbox \<Rightarrow> ((outbox_event \<times> bool) \<times> outbox) res" where
  "insert_event dialect =
     insert_or_replay dialect outbox_column [''event_name'', ''idempotency_key''] event_ok ob_id"

definition get_event :: "outbox \<Rightarrow> string \<Rightarrow> outbox_event option" where
  "get_event table event_id = find (\<lambda>e. ob_id e = event_id) table"

definition enqueue_outbox_event ::
  "string \<Rightarrow> outbox_event \<Rightarrow> outbox \<Rightarrow> ((outbox_event \<times> bool) \<times> outbox) res" where
  "enqueue_outbox_event dialect row table =
     res_bind (insert_event dialect row table) (\<lambda>((value, inserted), table').
       case get_event table' (ob_id value) of
         None \<Rightarrow> Inl (RuntimeError ''outbox insert succeeded without a readable event'')
       | Some event \<Rightarrow> Inr ((event, inserted), table'))"

definition claimable :: "instant \<Rightarrow> string option \<Rightarrow> outbox_event \<Rightarrow> bool" where
  "claimable claimed_at workspace_id e \<longleftrightarrow> ob_available_at e \<le> claimed_at
     \<and> (ob_status e = PENDING
        \<or> (ob_status e = PUBLISHING
           \<and> (case ob_lease_expires_at e of None \<Rightarrow> False | Some t \<Rightarrow> t \<le> claimed_at)))
     \<and> (case workspace_id of None \<Rightarrow> True | Some w \<Rightarrow> ob_workspace_id e = Some w)"

definition claim_key :: "outbox_event \<Rightarrow> instant \<times> instant \<times> string" where
  "claim_key e = (ob_available_at e, ob_created_at e, ob_id e)"

definition claim_event :: "instant \<Rightarrow> timedelta \<Rightarrow> outbox_event \<Rightarrow> outbox_event" where
  "claim_event claimed_at lease_duration e =
     e\<lparr>ob_status := PUBLISHING, ob_lease_expires_at := Some (claimed_at + lease_duration),
       ob_attempts := ob_attempts e + 1\<rparr>"

text \<open>The rows that other transactions hold locked are skipped; \<open>locked\<close> lists their ids.\<close>

definition claim_selection ::
  "string list \<Rightarrow> int \<Rightarrow> instant \<Rightarrow> string option \<Rightarrow> outbox \<Rightarrow> outbox_event list" where
  "claim_selection locked limit claimed_at workspace_id table =
     take (nat limit) (sort_key claim_key
       (filter (\<lambda>e. claimable claimed_at workspace_id e \<and> ob_id e \<notin> set locked) table))"

definition update_rows :: "string set \<Rightarrow> (outbox_event \<Rightarrow> outbox_event) \<Rightarrow> outbox \<Rightarrow> outbox" where
  "update_rows ids f table = map (\<lambda>e. if ob_id e \<in> ids then f e else e) table"

definition claim_outbox_events ::
  "string list \<Rightarrow> int \<Rightarrow> timedelta \<Rightarrow> instant \<Rightarrow> string option \<Rightarrow> outbox
     \<Rightarrow> (outbox_event list \<times> outbox) res" where
  "claim_outbox_events locked limit lease_duration claimed_at workspace_id table =
     (if limit < 1 \<or> lease_duration \<le> 0
      then Inl (ValueError ''limit and lease_duration must be positive'')
      else let events = claim_selection locked limit claimed_at workspace_id table in
        Inr (map (claim_event claimed_at lease_duration) events,
             update_rows (set (map ob_id events)) (claim_event claimed_at lease_duration) table))"

definition publishing_event :: "outbox \<Rightarrow> string \<Rightarrow> outbox_event res" where
  "publishing_event table event_id =
     (case get_event table event_id of
        None \<Rightarrow> Inl (ValueError ''outbox event is not currently publishing'')
      | Some e \<Rightarrow> if ob_status e \<noteq> PUBLISHING
                 then Inl (ValueError ''outbox event is not currently publishing'') else Inr e)"

definition mark_outbox_event_published ::
  "string \<Rightarrow> instant \<Rightarrow> outbox \<Rightarrow> (outbox_event \<times> outbox) res" where
  "mark_outbox_event_published event_id published_at table =
     res_bind (publishing_event table event_id) (\<lambda>event.
       let event' = event\<lparr>ob_status := PUBLISHED, ob_published_at := Some published_at,
                         ob_lease_expires_at := None, ob_last_error_category := None\<rparr>
       in Inr (event', update_rows {event_id} (\<lambda>_. event') table))"

definition category_char :: "char \<Rightarrow> bool" where
  "category_char c = (let n = (of_char c :: int) in (48 \<le> n \<and> n \<le> 57) \<or> (97 \<le> n \<and> n \<le> 122))"

text \<open>\<open>re.sub(r"[^a-z0-9]+", "_", s)\<close>.\<close>

function collapse_runs :: "string \<Rightarrow> string" where
  "collapse_runs [] = []"
| "collapse_runs (c # cs) =
     (if category_char c then c # collapse_runs cs
      else CHR ''_'' # collapse_runs (dropWhile (\<lambda>d. \<not> category_char d) cs))"
  by pat_completeness auto
termination
  by (relation "measure length") (auto simp: length_dropWhile_le le_imp_less_Suc)

definition strip_underscore :: "string \<Rightarrow> string" where
  "strip_underscore s = rstrip_by (\<lambda>c. c = CHR ''_'') (lstrip_by (\<lambda>c. c = CHR ''_'') s)"

definition sanitize_error_category :: "string \<Rightarrow> string" where
  "sanitize_error_category category =
     (let category_prefix = takeWhile (\<lambda>c. c \<noteq> CHR '':'') category;
          sanitized = take 64 (strip_underscore (collapse_runs (py_lower category_prefix)))
      in if sanitized = [] then ''unknown'' else sanitized)"

definition release_outbox_event_for_retry ::
  "string \<Rightarrow> string \<Rightarrow> instant \<Rightarrow> int \<Rightarrow> outbox \<Rightarrow> (outbox_event \<times> outbox) res" where
  "release_outbox_event_for_retry event_id error_category available_at max_attempts table =
     (if max_attempts < 1 then Inl (ValueError ''max_attempts must be positive'')
      else res_bind (publishing_event table event_id) (\<lambda>event.
        let event' = event\<lparr>ob_status := (if max_attempts \<le> ob_attempts event then FAILED else PENDING),
                          ob_available_at := available_at, ob_lease_expires_at := None,
                          ob_last_error_category := Some (sanitize_error_category error_category)\<rparr>
        in Inr (event', update_rows {event_id} (\<lambda>_. event') table)))"

section \<open>Delivery\<close>

record metadata_event =
  me_name :: string
  me_event_id :: string
  me_data :: metadata

record delivery_counts =
  dl_claimed :: int
  dl_published :: int
  dl_retried :: int
  dl_failed :: int

definition seconds :: "int \<Rightarrow> timedelta" where
  "seconds n = n * 1000000"

definition delay_seconds :: "int \<Rightarrow> int" where
  "delay_seconds attempts = min 300 (2 ^ nat (min attempts 8))"

text \<open>The publisher is called once for an event and either returns or raises; \<open>sent\<close> is the log of the calls it has
  received, and \<open>publish sent\<close> says whether the call that follows them succeeds. Every event is settled in a transaction
  of its own, so an exception leaves the table as the transactions before it committed it.\<close>

fun deliver_loop ::
  "(metadata_event list \<Rightarrow> metadata_event \<Rightarrow> bool) \<Rightarrow> int \<Rightarrow> instant \<Rightarrow> outbox_event list \<Rightarrow> delivery_counts
     \<Rightarrow> metadata_event list \<Rightarrow> outbox \<Rightarrow> delivery_counts res \<times> metadata_event list \<times> outbox" where
  "deliver_loop publish max_attempts delivered_at [] counts sent table = (Inr counts, sent, table)"
| "deliver_loop publish max_attempts delivered_at (event # events) counts sent table =
     (let metadata_event = \<lparr>me_name = ob_event_name event, me_event_id = ob_id event,
                            me_data = ob_metadata_payload event\<rparr>;
          sent' = sent @ [metadata_event]
      in if publish sent metadata_event
      then (case mark_outbox_event_published (ob_id event) delivered_at table of
              Inl err \<Rightarrow> (Inl err, sent', table)
            | Inr (_, table') \<Rightarrow> deliver_loop publish max_attempts delivered_at events
                (counts\<lparr>dl_published := dl_published counts + 1\<rparr>) sent' table')
      else (case release_outbox_event_for_retry (ob_id event) ''transport''
                   (delivered_at + seconds (delay_seconds (ob_attempts event)))
                   max_attempts table of
              Inl err \<Rightarrow> (Inl err, sent', table)
            | Inr (released, table') \<Rightarrow> deliver_loop publish max_attempts delivered_at events
                (if ob_status released = FAILED then counts\<lparr>dl_failed := dl_failed counts + 1\<rparr>
                 else counts\<lparr>dl_retried := dl_retried counts + 1\<rparr>) sent' table'))"

definition deliver ::
  "(metadata_event list \<Rightarrow> metadata_event \<Rightarrow> bool) \<Rightarrow> int \<Rightarrow> int \<Rightarrow> string list \<Rightarrow> instant
     \<Rightarrow> metadata_event list \<Rightarrow> outbox \<Rightarrow> delivery_counts res \<times> metadata_event list \<times> outbox" where
  "deliver publish batch_size max_attempts locked delivered_at sent table =
     (case claim_outbox_events locked batch_size (seconds 120) delivered_at None table of
        Inl err \<Rightarrow> (Inl err, sent, table)
      | Inr (events, table') \<Rightarrow>
          deliver_loop publish max_attempts delivered_at events
            \<lparr>dl_claimed = int (length events), dl_published = 0, dl_retried = 0, dl_failed = 0\<rparr> sent table')"

end
