(* ===== verification/Outbox_Facts.thy ===== *)
theory Outbox_Facts
  imports Outbox
begin

text \<open>
  Invariants of the outbox under any interleaving of its operations, and what one delivery
  round does: identifiers and keys stay unique, a lease exists exactly while an event is being
  published, settled events never change, a leased event is not claimed again before its
  lease ends, and a round without interference settles every event it claims.
\<close>

section \<open>The invariant\<close>

definition row_ok :: "outbox_event \<Rightarrow> bool" where
  "row_ok e \<longleftrightarrow> event_ok e \<and> (ob_status e = PUBLISHED \<longrightarrow> ob_published_at e \<noteq> None)
     \<and> (ob_status e \<noteq> PENDING \<longrightarrow> 0 < ob_attempts e)"

definition outbox_inv :: "outbox \<Rightarrow> bool" where
  "outbox_inv table \<longleftrightarrow> distinct (map ob_id table) \<and> distinct (map outbox_key table)
     \<and> list_all row_ok table"

interpretation events: idempotent_insert outbox_key "insert_event dialect" for dialect
  unfolding insert_event_def
  by (rule insert_or_replay_contract) (auto simp: matches_def outbox_key_def)

lemma distinct_id_eq:
  "distinct (map ob_id table) \<Longrightarrow> a \<in> set table \<Longrightarrow> b \<in> set table \<Longrightarrow> ob_id a = ob_id b \<Longrightarrow> a = b"
  by (metis distinct_map inj_onD)

lemma get_event_in: "get_event table i = Some e \<Longrightarrow> e \<in> set table \<and> ob_id e = i"
  by (auto simp: get_event_def find_Some_iff)

lemma get_event_self:
  "distinct (map ob_id table) \<Longrightarrow> e \<in> set table \<Longrightarrow> get_event table (ob_id e) = Some e"
proof (cases "get_event table (ob_id e)")
  case None
  moreover assume "e \<in> set table"
  ultimately show ?thesis by (auto simp: get_event_def find_None_iff)
next
  case (Some x)
  moreover assume "distinct (map ob_id table)" "e \<in> set table"
  ultimately show ?thesis using get_event_in [OF Some] distinct_id_eq [of table x e] by simp
qed

text \<open>Updates that keep identifiers and keys.\<close>

lemma update_rows_maps:
  assumes "\<And>e. e \<in> set table \<Longrightarrow> ob_id e \<in> ids \<Longrightarrow> g (f e) = g e"
  shows "map g (update_rows ids f table) = map g table"
  using assms by (simp add: update_rows_def)

lemma update_rows_inv:
  assumes "outbox_inv table"
    and "\<And>e. e \<in> set table \<Longrightarrow> ob_id e \<in> ids \<Longrightarrow>
           ob_id (f e) = ob_id e \<and> outbox_key (f e) = outbox_key e \<and> row_ok (f e)"
  shows "outbox_inv (update_rows ids f table)"
proof -
  have "map ob_id (update_rows ids f table) = map ob_id table"
    "map outbox_key (update_rows ids f table) = map outbox_key table"
    using assms(2) by (auto intro: update_rows_maps)
  moreover have "list_all row_ok (update_rows ids f table)"
    using assms by (auto simp: outbox_inv_def update_rows_def list_all_iff)
  ultimately show ?thesis using assms(1) by (simp add: outbox_inv_def)
qed

lemma publishing_event_in:
  "publishing_event table i = Inr e \<Longrightarrow> e \<in> set table \<and> ob_id e = i \<and> ob_status e = PUBLISHING"
  by (auto simp: publishing_event_def split: option.splits if_splits dest: get_event_in)

lemma single_update_inv:
  assumes "outbox_inv table" "publishing_event table i = Inr e"
    and "ob_id e' = ob_id e" "outbox_key e' = outbox_key e" "row_ok e'"
  shows "outbox_inv (update_rows {i} (\<lambda>_. e') table)"
proof (rule update_rows_inv [OF assms(1)])
  fix x assume "x \<in> set table" "ob_id x \<in> {i}"
  then have "x = e"
    using publishing_event_in [OF assms(2)] assms(1) distinct_id_eq by (auto simp: outbox_inv_def)
  then show "ob_id e' = ob_id x \<and> outbox_key e' = outbox_key x \<and> row_ok e'" using assms by simp
qed

lemma enqueue_inv:
  assumes "outbox_inv table" "row_ok row" "enqueue_outbox_event dialect row table = Inr (r, table')"
  shows "outbox_inv table'"
proof -
  obtain v b where ins: "insert_event dialect row table = Inr ((v, b), table')"
    using assms(3) by (auto simp: enqueue_outbox_event_def res_bind_eq_Inr split: option.splits)
  have "distinct (map ob_id table')"
    using insert_or_replay_keeps_pk [OF ins [unfolded insert_event_def]] assms(1)
    by (simp add: outbox_inv_def)
  moreover have "distinct (map outbox_key table')"
    using events.keeps_unique [OF ins] assms(1) by (simp add: outbox_inv_def)
  moreover have "list_all row_ok table'"
    using insert_or_replay_rows [OF ins [unfolded insert_event_def]] assms(1,2)
    by (auto simp: outbox_inv_def)
  ultimately show ?thesis by (simp add: outbox_inv_def)
qed

lemma claim_inv:
  assumes "outbox_inv table" "claim_outbox_events locked n dur now ws table = Inr (es, table')"
  shows "outbox_inv table'"
proof -
  have "table' = update_rows (set (map ob_id (claim_selection locked n now ws table)))
      (claim_event now dur) table"
    using assms(2) by (auto simp: claim_outbox_events_def Let_def split: if_splits)
  moreover have "row_ok (claim_event now dur e)" if "e \<in> set table" for e
    using assms(1) that
    by (auto simp: outbox_inv_def list_all_iff row_ok_def event_ok_def claim_event_def)
  ultimately show ?thesis
    using assms(1) by (auto intro!: update_rows_inv simp: claim_event_def outbox_key_def)
qed

lemma mark_published_inv:
  assumes "outbox_inv table" "mark_outbox_event_published i t table = Inr (e, table')"
  shows "outbox_inv table'"
proof -
  obtain x where x: "publishing_event table i = Inr x" "table' = update_rows {i} (\<lambda>_. e) table"
    "e = x\<lparr>ob_status := PUBLISHED, ob_published_at := Some t, ob_lease_expires_at := None,
          ob_last_error_category := None\<rparr>"
    using assms(2) by (auto simp: mark_outbox_event_published_def res_bind_eq_Inr Let_def)
  have "row_ok x" using publishing_event_in [OF x(1)] assms(1) by (auto simp: outbox_inv_def list_all_iff)
  then have "row_ok e" using publishing_event_in [OF x(1)] x(3) by (simp add: row_ok_def event_ok_def)
  then show ?thesis using single_update_inv [OF assms(1) x(1)] x by (simp add: outbox_key_def)
qed

lemma release_inv:
  assumes "outbox_inv table" "release_outbox_event_for_retry i c t m table = Inr (e, table')"
  shows "outbox_inv table'"
proof -
  obtain x where x: "publishing_event table i = Inr x" "table' = update_rows {i} (\<lambda>_. e) table"
    "e = x\<lparr>ob_status := (if m \<le> ob_attempts x then FAILED else PENDING), ob_available_at := t,
          ob_lease_expires_at := None, ob_last_error_category := Some (sanitize_error_category c)\<rparr>"
    using assms(2)
    by (auto simp: release_outbox_event_for_retry_def res_bind_eq_Inr Let_def split: if_splits)
  have "row_ok x" using publishing_event_in [OF x(1)] assms(1) by (auto simp: outbox_inv_def list_all_iff)
  then have "row_ok e" using publishing_event_in [OF x(1)] x(3) by (simp add: row_ok_def event_ok_def)
  then show ?thesis using single_update_inv [OF assms(1) x(1)] x by (simp add: outbox_key_def)
qed

section \<open>Interleavings\<close>

text \<open>One committed transaction of any worker, at any time.\<close>

inductive outbox_step :: "outbox \<Rightarrow> outbox \<Rightarrow> bool" where
  step_enqueue: "enqueue_outbox_event dialect
      (new_event new_id now name version key meta eid agg ws pid avail) table = Inr (r, table') \<Longrightarrow>
    outbox_step table table'"
| step_claim: "claim_outbox_events locked n dur now ws table = Inr (es, table') \<Longrightarrow>
    outbox_step table table'"
| step_publish: "mark_outbox_event_published i t table = Inr (e, table') \<Longrightarrow> outbox_step table table'"
| step_release: "release_outbox_event_for_retry i c t m table = Inr (e, table') \<Longrightarrow>
    outbox_step table table'"

inductive_cases outbox_stepE: "outbox_step table table'"

lemma insert_event_checks:
  "insert_event dialect row table = Inr ((v, b), table') \<Longrightarrow> event_ok row"
  by (auto simp: insert_event_def insert_or_replay_def split: if_splits)

lemma step_inv:
  assumes "outbox_step table table'" "outbox_inv table"
  shows "outbox_inv table'"
  using assms
proof (cases rule: outbox_step.cases)
  case (step_enqueue dialect new_id now name version key meta eid agg ws pid avail r)
  let ?row = "new_event new_id now name version key meta eid agg ws pid avail"
  have "event_ok ?row" using step_enqueue insert_event_checks
    by (fastforce simp: enqueue_outbox_event_def res_bind_eq_Inr)
  then have "row_ok ?row" by (simp add: row_ok_def new_event_def)
  then show ?thesis using enqueue_inv assms(2) step_enqueue by blast
qed (use assms(2) claim_inv mark_published_inv release_inv in blast)+

lemma steps_inv: "outbox_step\<^sup>*\<^sup>* table table' \<Longrightarrow> outbox_inv table \<Longrightarrow> outbox_inv table'"
  by (induction rule: rtranclp_induct) (auto intro: step_inv)

lemma empty_inv: "outbox_inv []"
  by (simp add: outbox_inv_def)

definition settled :: "outbox_event \<Rightarrow> bool" where
  "settled e \<longleftrightarrow> ob_status e = PUBLISHED \<or> ob_status e = FAILED"

lemma update_rows_keeps:
  "e \<in> set table \<Longrightarrow> ob_id e \<notin> ids \<Longrightarrow> e \<in> set (update_rows ids f table)"
  by (force simp: update_rows_def)

lemma step_settled:
  assumes "outbox_step table table'" "outbox_inv table" "e \<in> set table" "settled e"
  shows "e \<in> set table'"
  using assms(1)
proof (cases rule: outbox_step.cases)
  case (step_enqueue dialect new_id now name version key meta eid agg ws pid avail r)
  then obtain v b where "insert_event dialect
      (new_event new_id now name version key meta eid agg ws pid avail) table = Inr ((v, b), table')"
    by (auto simp: enqueue_outbox_event_def res_bind_eq_Inr split: option.splits)
  from events.keeps_rows [OF this] assms(3) show ?thesis by blast
next
  case (step_claim locked n dur now ws es)
  let ?sel = "claim_selection locked n now ws table"
  have "\<not> settled x \<and> x \<in> set table" if "x \<in> set ?sel" for x
    using in_set_takeD [OF that [unfolded claim_selection_def]]
    by (auto simp: claimable_def settled_def)
  then have "ob_id e \<notin> set (map ob_id ?sel)"
    using assms(2-4) distinct_id_eq by (fastforce simp: outbox_inv_def)
  then show ?thesis
    using step_claim assms(3) update_rows_keeps
    by (auto simp: claim_outbox_events_def Let_def split: if_splits)
next
  case (step_publish i t x)
  then obtain y where y: "publishing_event table i = Inr y" "table' = update_rows {i} (\<lambda>_. x) table"
    by (auto simp: mark_outbox_event_published_def res_bind_eq_Inr Let_def)
  then have "ob_id e \<noteq> i"
    using publishing_event_in [OF y(1)] assms(2-4) distinct_id_eq
    by (fastforce simp: outbox_inv_def settled_def)
  then show ?thesis using y assms(3) update_rows_keeps by simp
next
  case (step_release i c t m x)
  then obtain y where y: "publishing_event table i = Inr y" "table' = update_rows {i} (\<lambda>_. x) table"
    by (auto simp: release_outbox_event_for_retry_def res_bind_eq_Inr Let_def split: if_splits)
  then have "ob_id e \<noteq> i"
    using publishing_event_in [OF y(1)] assms(2-4) distinct_id_eq
    by (fastforce simp: outbox_inv_def settled_def)
  then show ?thesis using y assms(3) update_rows_keeps by simp
qed

lemma steps_settled:
  "outbox_step\<^sup>*\<^sup>* table table' \<Longrightarrow> outbox_inv table \<Longrightarrow> e \<in> set table \<Longrightarrow> settled e \<Longrightarrow> e \<in> set table'"
proof (induction rule: rtranclp_induct)
  case (step y z)
  then show ?case using step_settled steps_inv by blast
qed simp

section \<open>Claiming\<close>

definition eligible :: "string list \<Rightarrow> instant \<Rightarrow> string option \<Rightarrow> outbox \<Rightarrow> outbox_event list" where
  "eligible locked now ws table =
     sort_key claim_key (filter (\<lambda>e. claimable now ws e \<and> ob_id e \<notin> set locked) table)"

lemma claim_selection_eligible:
  "claim_selection locked n now ws table = take (nat n) (eligible locked now ws table)"
  by (simp add: claim_selection_def eligible_def)

lemma sorted_take_drop:
  assumes "sorted (map f xs)" "a \<in> set (take n xs)" "b \<in> set (drop n xs)"
  shows "f a \<le> f b"
proof -
  have "sorted (map f (take n xs) @ map f (drop n xs))"
    using assms(1) by (metis append_take_drop_id map_append)
  then show ?thesis using assms(2,3) by (auto simp: sorted_append)
qed

lemma claim_result:
  assumes "claim_outbox_events locked n dur now ws table = Inr (es, table')"
  shows "1 \<le> n" "0 < dur" "es = map (claim_event now dur) (claim_selection locked n now ws table)"
    "table' = update_rows (set (map ob_id (claim_selection locked n now ws table)))
       (claim_event now dur) table"
  using assms by (auto simp: claim_outbox_events_def Let_def split: if_splits)

lemma claim_selection_in:
  "e \<in> set (claim_selection locked n now ws table) \<Longrightarrow> e \<in> set table \<and> claimable now ws e \<and> ob_id e \<notin> set locked"
  unfolding claim_selection_def by (auto dest: in_set_takeD)

lemma claim_selection_ids:
  assumes "distinct (map ob_id table)"
  shows "distinct (map ob_id (claim_selection locked n now ws table))"
proof -
  have "distinct (map ob_id (eligible locked now ws table))"
    using assms by (auto simp: eligible_def distinct_map intro: inj_on_subset)
  then show ?thesis by (simp add: claim_selection_eligible take_map [symmetric])
qed

text \<open>The claimed rows, after the claim.\<close>

lemma claimed_rows:
  assumes "outbox_inv table" "claim_outbox_events locked n dur now ws table = Inr (es, table')"
    and "e \<in> set es"
  shows "e \<in> set table'" "ob_status e = PUBLISHING" "ob_lease_expires_at e = Some (now + dur)"
proof -
  obtain x where x: "x \<in> set (claim_selection locked n now ws table)" "e = claim_event now dur x"
    using claim_result(3) [OF assms(2)] assms(3) by auto
  then show "ob_status e = PUBLISHING" "ob_lease_expires_at e = Some (now + dur)"
    by (simp_all add: claim_event_def)
  have "x \<in> set table" using claim_selection_in [OF x(1)] by blast
  then show "e \<in> set table'"
    using x claim_result(4) [OF assms(2)] by (force simp: update_rows_def)
qed

section \<open>Delivery\<close>

definition message :: "outbox_event \<Rightarrow> metadata_event" where
  "message e = \<lparr>me_name = ob_event_name e, me_event_id = ob_id e, me_data = ob_metadata_payload e\<rparr>"

text \<open>The specification of a delivery: what happens to one claimed event.\<close>

definition settle :: "(metadata_event \<Rightarrow> bool) \<Rightarrow> int \<Rightarrow> instant \<Rightarrow> outbox_event \<Rightarrow> outbox_event" where
  "settle publish max_attempts now e =
     (if publish (message e)
      then e\<lparr>ob_status := PUBLISHED, ob_published_at := Some now, ob_lease_expires_at := None,
             ob_last_error_category := None\<rparr>
      else e\<lparr>ob_status := (if max_attempts \<le> ob_attempts e then FAILED else PENDING),
             ob_available_at := now + seconds (delay_seconds (ob_attempts e)),
             ob_lease_expires_at := None, ob_last_error_category := Some ''transport''\<rparr>)"

lemma settle_keeps [simp]:
  "ob_id (settle p m now e) = ob_id e" "outbox_key (settle p m now e) = outbox_key e"
  by (simp_all add: settle_def outbox_key_def)

lemma sanitize_transport: "sanitize_error_category ''transport'' = ''transport''"
  by code_simp

lemma update_rows_eq:
  assumes "distinct (map ob_id table)" "e \<in> set table" "f e = e'"
  shows "update_rows {ob_id e} (\<lambda>_. e') table = update_rows {ob_id e} f table"
  unfolding update_rows_def using assms distinct_id_eq by (intro map_cong refl) auto

lemma update_rows_insert:
  assumes "\<And>e. ob_id (f e) = ob_id e" "i \<notin> S"
  shows "update_rows S f (update_rows {i} f table) = update_rows (insert i S) f table"
  using assms by (auto simp: update_rows_def)

text \<open>The answers of a publisher to a batch of messages, by message: each gets the answer to the call that
  follows the calls for the messages before it.\<close>

definition batch_answer ::
  "(metadata_event list \<Rightarrow> metadata_event \<Rightarrow> bool) \<Rightarrow> metadata_event list \<Rightarrow> metadata_event list \<Rightarrow> metadata_event \<Rightarrow> bool" where
  "batch_answer publish sent batch x = publish (sent @ takeWhile (\<lambda>y. y \<noteq> x) batch) x"

fun answered ::
  "(metadata_event list \<Rightarrow> metadata_event \<Rightarrow> bool) \<Rightarrow> (metadata_event \<Rightarrow> bool) \<Rightarrow> metadata_event list \<Rightarrow> metadata_event list \<Rightarrow> bool" where
  "answered publish answer sent [] \<longleftrightarrow> True"
| "answered publish answer sent (x # xs) \<longleftrightarrow> answer x = publish sent x \<and> answered publish answer (sent @ [x]) xs"

lemma answered_batch:
  "distinct (earlier @ batch) \<Longrightarrow> answered publish (batch_answer publish sent (earlier @ batch)) (sent @ earlier) batch"
proof (induction batch arbitrary: earlier)
  case (Cons x batch)
  from Cons.prems have "takeWhile (\<lambda>y. y \<noteq> x) (earlier @ x # batch) = earlier" by (subst takeWhile_append2) auto
  with Cons.IH [of "earlier @ [x]"] Cons.prems show ?case by (simp add: batch_answer_def)
qed simp

lemma deliver_loop_settles:
  assumes "outbox_inv table" "distinct (map ob_id events)" "1 \<le> m"
    and "\<forall>e \<in> set events. e \<in> set table \<and> ob_status e = PUBLISHING"
    and "answered publish answer sent (map message events)"
  shows "\<exists>counts'. deliver_loop publish m now events counts sent table
      = (Inr counts', sent @ map message events, update_rows (set (map ob_id events)) (settle answer m now) table)
    \<and> dl_claimed counts' = dl_claimed counts
    \<and> dl_published counts' + dl_retried counts' + dl_failed counts'
        = dl_published counts + dl_retried counts + dl_failed counts + int (length events)
    \<and> dl_published counts' = dl_published counts
        + int (length (filter (\<lambda>e. answer (message e)) events))"
  using assms
proof (induction events arbitrary: counts sent table)
  case Nil
  then show ?case by (simp add: update_rows_def)
next
  case (Cons e events)
  let ?f = "settle answer m now"
  let ?t = "update_rows {ob_id e} ?f table"
  have ids: "distinct (map ob_id table)" and e: "e \<in> set table" "ob_status e = PUBLISHING"
    using Cons.prems by (auto simp: outbox_inv_def)
  have pub: "publishing_event table (ob_id e) = Inr e"
    using get_event_self [OF ids e(1)] e(2) by (simp add: publishing_event_def)
  have t: "update_rows {ob_id e} (\<lambda>_. ?f e) table = ?t" by (rule update_rows_eq [OF ids e(1) refl])
  have "row_ok e" using Cons.prems(1) e(1) by (auto simp: outbox_inv_def list_all_iff)
  then have "row_ok (?f e)" using e(2) by (simp add: settle_def row_ok_def event_ok_def)
  then have inv: "outbox_inv ?t" using single_update_inv [OF Cons.prems(1) pub, of "?f e"] t by simp
  have rest: "\<forall>x \<in> set events. x \<in> set ?t \<and> ob_status x = PUBLISHING"
    using Cons.prems(2,4) by (auto simp: image_iff intro!: update_rows_keeps)
  have step: "update_rows (set (map ob_id events)) ?f ?t
      = update_rows (set (map ob_id (e # events))) ?f table"
    using Cons.prems(2) by (subst update_rows_insert) auto
  have call: "publish sent (message e) = answer (message e)" "answered publish answer (sent @ [message e]) (map message events)"
    using Cons.prems(5) by simp_all
  note IH = Cons.IH [OF inv _ Cons.prems(3) rest call(2)]
  show ?case
  proof (cases "answer (message e)")
    case True
    then have "mark_outbox_event_published (ob_id e) now table = Inr (?f e, ?t)"
      using pub t by (simp add: mark_outbox_event_published_def settle_def Let_def)
    with True IH [of "counts\<lparr>dl_published := dl_published counts + 1\<rparr>"] Cons.prems(2) step
    show ?thesis using call(1) by (fastforce simp: Let_def message_def)
  next
    case False
    then have "release_outbox_event_for_retry (ob_id e) ''transport''
        (now + seconds (delay_seconds (ob_attempts e))) m table = Inr (?f e, ?t)"
      using pub t Cons.prems(3)
      by (simp add: release_outbox_event_for_retry_def settle_def Let_def sanitize_transport)
    with False IH [of "if ob_status (?f e) = FAILED then counts\<lparr>dl_failed := dl_failed counts + 1\<rparr>
        else counts\<lparr>dl_retried := dl_retried counts + 1\<rparr>"] Cons.prems(2) step
    show ?thesis using call(1) by (fastforce simp: Let_def message_def)
  qed
qed

section \<open>Error categories and metadata\<close>

lemma collapse_runs_chars: "c \<in> set (collapse_runs s) \<Longrightarrow> category_char c \<or> c = CHR ''_''"
  by (induction s rule: collapse_runs.induct) (auto split: if_splits)

lemma set_strip: "set (strip_underscore s) \<subseteq> set s"
  unfolding strip_underscore_def rstrip_by_def lstrip_by_def
  by (metis set_dropWhileD set_rev subsetI)

lemma rstrip_Cons: "\<not> p x \<Longrightarrow> rstrip_by p (x # xs) = x # rstrip_by p xs"
  by (simp add: rstrip_by_def dropWhile_append)

lemma strip_underscore_head: "strip_underscore s = c # cs \<Longrightarrow> c \<noteq> CHR ''_''"
  by (cases "dropWhile (\<lambda>c. c = CHR ''_'') s")
     (auto simp: strip_underscore_def lstrip_by_def rstrip_Cons dropWhile_eq_Cons_conv rstrip_by_def [of _ "[]"])

lemma validate_metadata_eq:
  "validate_metadata m = Inr m' \<longleftrightarrow> m' = m
     \<and> list_all (\<lambda>(k, v). key_allowed k \<and> \<not> list_ex too_long (metadata_items v)) m"
  by (induction m arbitrary: m' rule: validate_metadata.induct) (auto simp: res_bind_eq_Inr)

section \<open>Properties\<close>

text \<open>C25. Whatever sequence of enqueues, claims, publications and releases
  commits, starting from an empty table: event identifiers and the pairs of event name and
  idempotency key are unique, an event has a lease exactly while it is being published, a
  published event has its time of publication, and every event that left the pending state
  was attempted.\<close>

theorem outbox_reachable_invariant:
  assumes "outbox_step\<^sup>*\<^sup>* [] table"
  shows "distinct (map ob_id table) \<and> distinct (map outbox_key table)
    \<and> list_all (\<lambda>e. (ob_status e = PUBLISHING \<longleftrightarrow> ob_lease_expires_at e \<noteq> None)
        \<and> (ob_status e = PUBLISHED \<longrightarrow> ob_published_at e \<noteq> None)
        \<and> (ob_status e \<noteq> PENDING \<longrightarrow> 0 < ob_attempts e)) table"
  using steps_inv [OF assms empty_inv]
  by (auto simp: outbox_inv_def row_ok_def event_ok_def list_all_iff)

definition sample_event :: "string \<Rightarrow> string \<Rightarrow> outbox_event" where
  "sample_event i k = new_event i 10 ''demo/event'' 1 k [(''runId'', MD_scalar (MD_str ''r''))] None None
     None None None"

definition sample_table :: outbox where
  "sample_table = [sample_event ''e1'' ''k1'', sample_event ''e2'' ''k2'']"

lemma sample_table_reachable: "outbox_step\<^sup>*\<^sup>* [] sample_table"
proof -
  have "enqueue_outbox_event ''sqlite'' (sample_event ''e1'' ''k1'') []
      = Inr ((sample_event ''e1'' ''k1'', True), [sample_event ''e1'' ''k1''])" by code_simp
  then have "outbox_step [] [sample_event ''e1'' ''k1'']"
    unfolding sample_event_def by (rule outbox_step.step_enqueue)
  moreover have "enqueue_outbox_event ''sqlite'' (sample_event ''e2'' ''k2'') [sample_event ''e1'' ''k1'']
      = Inr ((sample_event ''e2'' ''k2'', True), sample_table)" by code_simp
  then have "outbox_step [sample_event ''e1'' ''k1''] sample_table"
    unfolding sample_event_def by (rule outbox_step.step_enqueue)
  ultimately show ?thesis by (metis rtranclp.simps)
qed

lemma sample_table_inv: "outbox_inv sample_table"
  by (rule steps_inv [OF sample_table_reachable empty_inv])

definition sample_claimed :: outbox where
  "sample_claimed = snd (projr (claim_outbox_events [] 1 60 20 None sample_table))"

lemma sample_claim:
  "claim_outbox_events [] 1 60 20 None sample_table
     = Inr ([claim_event 20 60 (sample_event ''e1'' ''k1'')], sample_claimed)"
  by code_simp

theorem outbox_reachable_invariant_witness:
  "outbox_step\<^sup>*\<^sup>* [] sample_claimed
   \<and> list_all (\<lambda>e. (ob_status e = PUBLISHING \<longleftrightarrow> ob_lease_expires_at e \<noteq> None)
        \<and> (ob_status e = PUBLISHED \<longrightarrow> ob_published_at e \<noteq> None)
        \<and> (ob_status e \<noteq> PENDING \<longrightarrow> 0 < ob_attempts e)) sample_claimed"
proof -
  have r: "outbox_step\<^sup>*\<^sup>* [] sample_claimed"
    using sample_table_reachable outbox_step.step_claim [OF sample_claim] by (rule rtranclp.rtrancl_into_rtrancl)
  from outbox_reachable_invariant [OF this] r show ?thesis by blast
qed

text \<open>Enqueueing an event twice under one event name and idempotency key
  stores it once: the second call changes nothing and returns the event stored first.\<close>

theorem enqueue_idempotent:
  assumes "outbox_inv table" "outbox_key row' = outbox_key row"
    and "enqueue_outbox_event dialect row table = Inr ((e, b), table')"
    and "enqueue_outbox_event dialect' row' table' = Inr ((e', b'), table'')"
    and "row_ok row"
  shows "e' = e \<and> \<not> b' \<and> table'' = table' \<and> e \<in> set table' \<and> outbox_key e = outbox_key row"
proof -
  have inv': "outbox_inv table'" by (rule enqueue_inv [OF assms(1,5,3)])
  have get: "v = x" if "v \<in> set table'" "get_event table' (ob_id v) = Some x" for v x
    using get_event_self [of table' v] inv' that by (simp add: outbox_inv_def)
  obtain v where v: "insert_event dialect row table = Inr ((v, b), table')"
    "get_event table' (ob_id v) = Some e"
    using assms(3) by (auto simp: enqueue_outbox_event_def res_bind_eq_Inr split: option.splits)
  obtain v' where v': "insert_event dialect' row' table' = Inr ((v', b'), table'')"
    "get_event table'' (ob_id v') = Some e'"
    using assms(4) by (auto simp: enqueue_outbox_event_def res_bind_eq_Inr split: option.splits)
  have vin: "v \<in> set table'" "outbox_key v = outbox_key row" using events.result_in_table [OF v(1)] by auto
  have "outbox_key row' \<in> outbox_key ` set table'" using vin assms(2) by (metis imageI)
  then have nb: "\<not> b'" using events.owned v'(1) by blast
  then have r: "v' \<in> set table'" "outbox_key v' = outbox_key row'" "table'' = table'"
    using events.replay [of dialect' row' table' v' table''] v'(1) by auto
  have "v' = v" using events.unique_row [of table' v' v] inv' r vin assms(2) by (simp add: outbox_inv_def)
  then show ?thesis using get [OF vin(1) v(2)] v'(2) r nb get [OF r(1)] vin by auto
qed

theorem enqueue_idempotent_witness:
  "enqueue_outbox_event ''sqlite'' (sample_event ''e3'' ''k1'') sample_table
     = Inr ((sample_event ''e1'' ''k1'', False), sample_table)
   \<and> projr (enqueue_outbox_event ''sqlite'' (sample_event ''e1'' ''k1'') [])
     = ((sample_event ''e1'' ''k1'', True), [sample_event ''e1'' ''k1''])
   \<and> sample_event ''e1'' ''k1'' \<in> set [sample_event ''e1'' ''k1'']"
proof -
  have one: "enqueue_outbox_event ''sqlite'' (sample_event ''e1'' ''k1'') []
      = Inr ((sample_event ''e1'' ''k1'', True), [sample_event ''e1'' ''k1''])" by code_simp
  have two: "enqueue_outbox_event ''sqlite'' (sample_event ''e3'' ''k1'') [sample_event ''e1'' ''k1'']
      = Inr ((sample_event ''e1'' ''k1'', False), [sample_event ''e1'' ''k1''])" by code_simp
  have "outbox_key (sample_event ''e3'' ''k1'') = outbox_key (sample_event ''e1'' ''k1'')"
    "row_ok (sample_event ''e1'' ''k1'')" by code_simp+
  with enqueue_idempotent [OF empty_inv _ one two]
  have "sample_event ''e1'' ''k1'' \<in> set [sample_event ''e1'' ''k1'']" by blast
  moreover have "enqueue_outbox_event ''sqlite'' (sample_event ''e3'' ''k1'') sample_table
     = Inr ((sample_event ''e1'' ''k1'', False), sample_table)" by code_simp
  ultimately show ?thesis using one by simp
qed

text \<open>A published or failed event stays in the table exactly as it is,
  whatever operations follow: it is never claimed, published or released again.\<close>

theorem settled_events_are_final:
  assumes "outbox_step\<^sup>*\<^sup>* [] table" "outbox_step\<^sup>*\<^sup>* table table'"
    and "e \<in> set table" "ob_status e \<in> {PUBLISHED, FAILED}"
  shows "e \<in> set table' \<and> claimable now ws e = False"
proof -
  have "settled e" using assms(4) by (auto simp: settled_def)
  then have "e \<in> set table'" using steps_settled [OF assms(2) steps_inv [OF assms(1) empty_inv] assms(3)] by blast
  then show ?thesis using assms(4) by (auto simp: claimable_def)
qed

definition sample_published :: outbox where
  "sample_published = snd (projr (mark_outbox_event_published ''e1'' 25 sample_claimed))"

lemma sample_publish:
  "mark_outbox_event_published ''e1'' 25 sample_claimed = Inr (hd sample_published, sample_published)"
  by code_simp

theorem settled_events_are_final_witness:
  "ob_status (hd sample_published) = PUBLISHED
   \<and> hd sample_published \<in> set (snd (projr (claim_outbox_events [] 5 60 500 None sample_published)))"
proof
  show st: "ob_status (hd sample_published) = PUBLISHED" by code_simp
  have r: "outbox_step\<^sup>*\<^sup>* [] sample_published"
    using sample_table_reachable outbox_step.step_claim [OF sample_claim]
      outbox_step.step_publish [OF sample_publish] by (metis rtranclp.simps)
  have m: "hd sample_published \<in> set sample_published" by code_simp
  have "claim_outbox_events [] 5 60 500 None sample_published
      = Inr (projr (claim_outbox_events [] 5 60 500 None sample_published))" by code_simp
  then have "outbox_step sample_published
      (snd (projr (claim_outbox_events [] 5 60 500 None sample_published)))"
    by (intro outbox_step.step_claim [where es = "fst (projr (claim_outbox_events [] 5 60 500 None
        sample_published))" and locked = "[]" and n = 5 and dur = 60 and now = 500 and ws = None]) simp
  from settled_events_are_final [OF r r_into_rtranclp [where r = outbox_step, OF this] m] st
  show "hd sample_published \<in> set (snd (projr (claim_outbox_events [] 5 60 500 None sample_published)))"
    by simp
qed

text \<open>What can happen to the table until the instant \<open>t\<close> while the events \<open>S\<close> are neither published nor released:
  enqueueing, claims, and the settlement of other events.\<close>

inductive unsettled_step :: "instant \<Rightarrow> string set \<Rightarrow> outbox \<Rightarrow> outbox \<Rightarrow> bool" for t S where
  u_enqueue: "enqueue_outbox_event dialect row table = Inr (r, table') \<Longrightarrow> row_ok row \<Longrightarrow> unsettled_step t S table table'"
| u_claim: "claim_outbox_events locked n dur now ws table = Inr (es, table') \<Longrightarrow> now < t \<Longrightarrow> unsettled_step t S table table'"
| u_publish: "mark_outbox_event_published i u table = Inr (e, table') \<Longrightarrow> i \<notin> S \<Longrightarrow> unsettled_step t S table table'"
| u_release: "release_outbox_event_for_retry i c u m table = Inr (e, table') \<Longrightarrow> i \<notin> S \<Longrightarrow> unsettled_step t S table table'"

lemma claim_skips_leased:
  assumes "outbox_inv table" "claim_outbox_events locked n dur now ws table = Inr (es, table')" "now < t"
    and "e \<in> set table" "ob_status e = PUBLISHING" "ob_lease_expires_at e = Some t"
  shows "e \<in> set table' \<and> ob_id e \<notin> ob_id ` set es"
proof -
  have "ob_id e \<notin> ob_id ` set (claim_selection locked n now ws table)"
  proof
    assume "ob_id e \<in> ob_id ` set (claim_selection locked n now ws table)"
    then obtain x where x: "x \<in> set (claim_selection locked n now ws table)" "ob_id x = ob_id e" by auto
    then have "x = e" using distinct_id_eq [of table x e] claim_selection_in [OF x(1)] assms(1,4) by (simp add: outbox_inv_def)
    then show False using claim_selection_in [OF x(1)] assms(3,5,6) by (auto simp: claimable_def)
  qed
  moreover have "ob_id ` set es = ob_id ` set (claim_selection locked n now ws table)"
    using claim_result(3) [OF assms(2)] by (auto simp: claim_event_def image_image)
  ultimately show ?thesis using claim_result(4) [OF assms(2)] assms(4) by (auto intro: update_rows_keeps)
qed

lemma unsettled_keeps_leased:
  assumes "unsettled_step t S table table'" "outbox_inv table"
    and "e \<in> set table" "ob_id e \<in> S" "ob_status e = PUBLISHING" "ob_lease_expires_at e = Some t"
  shows "outbox_inv table' \<and> e \<in> set table'"
  using assms(1)
proof cases
  case (u_enqueue dialect row r)
  obtain v b where "insert_event dialect row table = Inr ((v, b), table')"
    using u_enqueue(1) by (auto simp: enqueue_outbox_event_def res_bind_eq_Inr split: option.splits)
  from insert_or_replay_rows [OF this [unfolded insert_event_def]]
  show ?thesis using enqueue_inv [OF assms(2) u_enqueue(2,1)] assms(3) by auto
next
  case (u_claim locked n dur now ws es)
  then show ?thesis using claim_inv claim_skips_leased assms by blast
next
  case (u_publish i u x)
  then have "table' = update_rows {i} (\<lambda>_. x) table"
    by (auto simp: mark_outbox_event_published_def res_bind_eq_Inr Let_def)
  then show ?thesis using u_publish mark_published_inv assms by (auto intro: update_rows_keeps)
next
  case (u_release i c u m x)
  then have "table' = update_rows {i} (\<lambda>_. x) table"
    by (auto simp: release_outbox_event_for_retry_def res_bind_eq_Inr Let_def split: if_splits)
  then show ?thesis using u_release release_inv assms by (auto intro: update_rows_keeps)
qed

lemma unsettled_steps_keep_leased:
  assumes "(unsettled_step t S)\<^sup>*\<^sup>* table table'" "outbox_inv table"
    and "e \<in> set table" "ob_id e \<in> S" "ob_status e = PUBLISHING" "ob_lease_expires_at e = Some t"
  shows "outbox_inv table' \<and> e \<in> set table'"
  using assms(1)
proof (induction rule: rtranclp_induct)
  case (step y z)
  then show ?case using unsettled_keeps_leased assms by blast
qed (use assms in simp)

text \<open>C26. Two workers cannot hold one event at the same time: an event claimed until \<open>now + dur\<close> is in no batch
  that is claimed before that instant, unless it was published or released for a retry in between, whatever else happens
  to the table meanwhile.\<close>

theorem lease_is_exclusive:
  assumes "outbox_inv table" "claim_outbox_events locked n dur now ws table = Inr (es, table1)"
    and "(unsettled_step (now + dur) (set (map ob_id es)))\<^sup>*\<^sup>* table1 table2"
    and "claim_outbox_events locked' n' dur' now' ws' table2 = Inr (es', table3)" "now' < now + dur"
  shows "set (map ob_id es) \<inter> set (map ob_id es') = {}"
proof -
  have "ob_id e \<notin> ob_id ` set es'" if e: "e \<in> set es" for e
  proof -
    note c = claimed_rows [OF assms(1,2) e]
    have "outbox_inv table2 \<and> e \<in> set table2"
      using unsettled_steps_keep_leased [OF assms(3) claim_inv [OF assms(1,2)] c(1) _ c(2,3)] e by simp
    with claim_skips_leased [OF _ assms(4,5) _ c(2,3)] show ?thesis by blast
  qed
  then show ?thesis by auto
qed

theorem lease_is_exclusive_witness:
  "\<exists>es. claim_outbox_events [] 5 60 79 None sample_claimed
      = Inr (es, snd (projr (claim_outbox_events [] 5 60 79 None sample_claimed)))
    \<and> ''e1'' \<notin> set (map ob_id es) \<and> set (map ob_id es) = {''e2''}"
proof -
  let ?r = "projr (claim_outbox_events [] 5 60 79 None sample_claimed)"
  have c: "claim_outbox_events [] 5 60 79 None sample_claimed = Inr (fst ?r, snd ?r)" by code_simp
  have "''e1'' \<notin> set (map ob_id (fst ?r))"
    using lease_is_exclusive [OF sample_table_inv sample_claim rtranclp.rtrancl_refl c]
    by (simp add: claim_event_def sample_event_def new_event_def)
  moreover have "map ob_id (fst ?r) = [''e2'']" by code_simp
  ultimately show ?thesis using c by (intro exI [of _ "fst ?r"]) simp
qed

text \<open>A claim takes the eligible events in the order of availability, creation and
  identifier, as many as the limit allows, and none that comes later in this order while an
  earlier one is left.\<close>

theorem claim_is_fair:
  assumes "claim_outbox_events locked n dur now ws table = Inr (es, table')"
  shows "map ob_id es = take (nat n) (map ob_id (eligible locked now ws table))
    \<and> sorted (map claim_key (eligible locked now ws table))
    \<and> set (eligible locked now ws table) = {e \<in> set table. claimable now ws e \<and> ob_id e \<notin> set locked}
    \<and> (int (length (eligible locked now ws table)) \<le> n \<longrightarrow> length es = length (eligible locked now ws table))"
proof -
  have "map ob_id es = map ob_id (claim_selection locked n now ws table)"
    using claim_result(3) [OF assms] by (simp add: claim_event_def)
  then show ?thesis
    using claim_result(3) [OF assms]
    by (auto simp: claim_selection_eligible take_map) (auto simp: eligible_def)
qed

theorem claim_is_fair_witness:
  "sorted (map claim_key (eligible [] 20 None sample_table))
   \<and> length (fst (projr (claim_outbox_events [] 5 60 20 None sample_table))) = 2"
proof -
  let ?r = "projr (claim_outbox_events [] 5 60 20 None sample_table)"
  have c: "claim_outbox_events [] 5 60 20 None sample_table = Inr (fst ?r, snd ?r)" by code_simp
  have "length (eligible [] 20 None sample_table) = 2" by code_simp
  with claim_is_fair [OF c] show ?thesis by simp
qed

text \<open>C27. A delivery round that no other worker interferes with never raises. It calls the publisher once for every
  event of its batch, in the order of the claim and with the name, identifier and metadata of the event. An event whose
  call succeeded is published, every other one is released for a retry or fails, and every other row is left alone, as
  the specification \<open>settle\<close> says; the counters account for the whole batch.\<close>

theorem delivery_settles_batch:
  assumes "outbox_inv table" "1 \<le> batch" "1 \<le> m"
    and "answer = batch_answer publish sent (map message (claim_selection locked batch now None table))"
  shows "\<exists>counts. deliver publish batch m locked now sent table
      = (Inr counts, sent @ map message (claim_selection locked batch now None table),
         update_rows (set (map ob_id (claim_selection locked batch now None table)))
           (settle answer m now \<circ> claim_event now (seconds 120)) table)
    \<and> dl_claimed counts = int (length (claim_selection locked batch now None table))
    \<and> dl_published counts = int (length (filter (answer \<circ> message) (claim_selection locked batch now None table)))
    \<and> dl_claimed counts = dl_published counts + dl_retried counts + dl_failed counts"
proof -
  let ?sel = "claim_selection locked batch now None table"
  let ?ids = "set (map ob_id ?sel)"
  let ?es = "map (claim_event now (seconds 120)) ?sel"
  let ?t = "update_rows ?ids (claim_event now (seconds 120)) table"
  have c: "claim_outbox_events locked batch (seconds 120) now None table = Inr (?es, ?t)"
    using assms(2) by (simp add: claim_outbox_events_def Let_def seconds_def)
  have ids: "map ob_id ?es = map ob_id ?sel" by (simp add: claim_event_def)
  have messages: "map message ?es = map message ?sel" by (simp add: claim_event_def message_def)
  have distinct: "distinct (map ob_id ?sel)" using claim_selection_ids assms(1) by (simp add: outbox_inv_def)
  have "map me_event_id (map message ?sel) = map ob_id ?sel" by (simp add: message_def)
  with distinct have "distinct (map message ?sel)" by (metis distinct_map)
  with answered_batch [of "[]" "map message ?sel" publish sent] assms(4)
  have answers: "answered publish answer sent (map message ?es)" unfolding messages by simp
  have publishing: "\<forall>e \<in> set ?es. e \<in> set ?t \<and> ob_status e = PUBLISHING"
    using claimed_rows [OF assms(1) c] by blast
  obtain counts where d: "deliver_loop publish m now ?es
      \<lparr>dl_claimed = int (length ?es), dl_published = 0, dl_retried = 0, dl_failed = 0\<rparr> sent ?t
      = (Inr counts, sent @ map message ?es, update_rows (set (map ob_id ?es)) (settle answer m now) ?t)"
    "dl_claimed counts = int (length ?es)"
    "dl_published counts + dl_retried counts + dl_failed counts = int (length ?es)"
    "dl_published counts = int (length (filter (\<lambda>e. answer (message e)) ?es))"
    using deliver_loop_settles [OF claim_inv [OF assms(1) c] distinct [folded ids] assms(3) publishing answers,
        of now "\<lparr>dl_claimed = int (length ?es), dl_published = 0, dl_retried = 0, dl_failed = 0\<rparr>"]
    by auto
  have "length (filter (\<lambda>e. answer (message e)) ?es) = length (filter (answer \<circ> message) ?sel)"
    by (simp add: filter_map comp_def claim_event_def message_def)
  moreover have "update_rows ?ids (settle answer m now) ?t
      = update_rows ?ids (settle answer m now \<circ> claim_event now (seconds 120)) table"
    by (auto simp: update_rows_def claim_event_def)
  ultimately show ?thesis using c d ids messages by (simp add: deliver_def)
qed

theorem delivery_settles_batch_witness:
  "\<exists>counts. deliver (\<lambda>sent _. sent = []) 5 1 [] 20 [] sample_table
       = (Inr counts, map message sample_table, snd (snd (deliver (\<lambda>sent _. sent = []) 5 1 [] 20 [] sample_table)))
     \<and> dl_claimed counts = 2 \<and> dl_published counts = 1"
proof -
  have sel: "claim_selection [] 5 20 None sample_table = sample_table" by code_simp
  have "length (filter (batch_answer (\<lambda>sent _. sent = []) [] (map message sample_table) \<circ> message) sample_table) = 1"
    "length sample_table = 2"
    by code_simp+
  with delivery_settles_batch [OF sample_table_inv, where batch = 5 and m = 1 and publish = "\<lambda>sent _. sent = []" and sent = "[]"
      and locked = "[]" and now = 20, OF _ _ refl] sel
  show ?thesis by auto
qed

text \<open>C28. A stored error category is between 1 and 64 characters long, has only
  lower case letters, digits and underscores, and does not start with an underscore.\<close>

theorem error_category_is_clean:
  "sanitize_error_category s \<noteq> [] \<and> length (sanitize_error_category s) \<le> 64
   \<and> list_all (\<lambda>c. category_char c \<or> c = CHR ''_'') (sanitize_error_category s)
   \<and> hd (sanitize_error_category s) \<noteq> CHR ''_''"
proof -
  let ?u = "strip_underscore (collapse_runs (py_lower (takeWhile (\<lambda>c. c \<noteq> CHR '':'') s)))"
  have chars: "category_char c \<or> c = CHR ''_''" if "c \<in> set (take 64 ?u)" for c
    using that set_strip collapse_runs_chars by (meson in_set_takeD subsetD)
  show ?thesis
  proof (cases ?u)
    case Nil
    have "list_all (\<lambda>c. category_char c \<or> c = CHR ''_'') ''unknown''" by code_simp
    with Nil show ?thesis by (simp add: sanitize_error_category_def)
  next
    case (Cons c cs)
    then have e: "sanitize_error_category s = take 64 ?u"
      by (simp add: sanitize_error_category_def)
    have "hd (take 64 ?u) = c" using Cons by simp
    then show ?thesis
      using chars strip_underscore_head [OF Cons] Cons unfolding e by (auto simp: list_all_iff)
  qed
qed

text \<open>Metadata is accepted exactly when every key is an identifier or has
  no sensitive part and every text is at most 2048 characters long; accepted metadata is kept
  as it is.\<close>

theorem metadata_is_pointer_style:
  "validate_metadata m = Inr m' \<longleftrightarrow> m' = m
     \<and> list_all (\<lambda>(k, v). key_allowed k \<and> \<not> list_ex too_long (metadata_items v)) m"
  by (rule validate_metadata_eq)

end
