(* ===== verification/Sessions.thy ===== *)
theory Sessions
  imports Times
begin

text \<open>
  Browser sessions: \<open>app/modules/identity/services/sessions.py\<close> with its repository
  \<open>repositories/sessions.py\<close>, the CSRF token of \<open>app/core/security.py\<close>, the bound session of
  \<open>services/browser_oauth.py\<close> and the refresh endpoint of \<open>api/browser_router.py\<close>.

  The database is a record of tables; an operation returns its result and the database after
  it. What was not committed when an exception is raised is not in that database. The clock
  is read once per operation. SHA-256 and HMAC are parameters, as are the random tokens and
  UUIDs an operation draws.
\<close>

section \<open>Data\<close>

record auth_user =
  us_id :: string
  us_is_active :: bool
  us_deleted_at :: "datetime option"

record auth_session =
  as_id :: string
  as_user_id :: string
  as_current_workspace_id :: string
  as_refresh_token_hash :: string
  as_expires_at :: datetime
  as_user_agent :: "string option"
  as_ip_address :: "string option"
  as_device_name :: "string option"
  as_revoked_at :: "datetime option"
  as_last_used_at :: "datetime option"
  as_family_id :: string
  as_generation :: int
  as_replaced_by_id :: "string option"
  as_compromised_at :: "datetime option"
  as_deleted_at :: "datetime option"

record workspace_row =
  wk_id :: string
  wk_deleted_at :: "datetime option"

record membership_row =
  ms_workspace_id :: string
  ms_user_id :: string
  ms_role :: string
  ms_is_active :: bool

record auth_db =
  ad_users :: "auth_user list"
  ad_sessions :: "auth_session list"
  ad_workspaces :: "workspace_row list"
  ad_memberships :: "membership_row list"

record auth_env =
  hash_token :: "string \<Rightarrow> string"
  hmac_hex :: "string \<Rightarrow> string \<Rightarrow> string"
  jwt_secret_key :: string
  refresh_token_expire_days :: int
  allowed_origins :: "string list"

text \<open>A naive timestamp is read as UTC.\<close>

fun as_utc :: "datetime \<Rightarrow> int" where
  "as_utc (Aware t) = t"
| "as_utc (Naive t) = t"

section \<open>Repository\<close>

definition get_session_by_refresh_hash :: "auth_db \<Rightarrow> string \<Rightarrow> auth_session option" where
  "get_session_by_refresh_hash db h = find (\<lambda>s. as_refresh_token_hash s = h) (ad_sessions db)"

definition update_sessions ::
  "(auth_session \<Rightarrow> bool) \<Rightarrow> (auth_session \<Rightarrow> auth_session) \<Rightarrow> auth_db \<Rightarrow> auth_db" where
  "update_sessions p f db = db\<lparr>ad_sessions := map (\<lambda>s. if p s then f s else s) (ad_sessions db)\<rparr>"

definition mark_session_family_compromised :: "string \<Rightarrow> datetime \<Rightarrow> auth_db \<Rightarrow> auth_db" where
  "mark_session_family_compromised family_id occurred_at =
     update_sessions (\<lambda>s. as_family_id s = family_id)
       (\<lambda>s. s\<lparr>as_revoked_at := Some occurred_at, as_compromised_at := Some occurred_at\<rparr>)"

definition revoke_session_by_refresh_hash :: "string \<Rightarrow> datetime \<Rightarrow> auth_db \<Rightarrow> auth_db" where
  "revoke_session_by_refresh_hash h revoked_at =
     update_sessions (\<lambda>s. as_refresh_token_hash s = h) (\<lambda>s. s\<lparr>as_revoked_at := Some revoked_at\<rparr>)"

definition get_user_by_id :: "auth_db \<Rightarrow> string \<Rightarrow> auth_user option" where
  "get_user_by_id db user_id =
     find (\<lambda>u. us_id u = user_id \<and> us_deleted_at u = None) (ad_users db)"

section \<open>Sessions\<close>

definition truncate_text :: "string option \<Rightarrow> nat \<Rightarrow> string option" where
  "truncate_text v max_length = map_option (take max_length) v"

text \<open>The random values an operation may draw, and the device data of the request.\<close>

record draws =
  dr_session_id :: string
  dr_token :: string
  dr_family_id :: string

record device =
  dv_user_agent :: "string option"
  dv_ip_address :: "string option"
  dv_device_name :: "string option"

definition new_session ::
  "auth_env \<Rightarrow> int \<Rightarrow> draws \<Rightarrow> auth_user \<Rightarrow> string \<Rightarrow> device \<Rightarrow> string option \<Rightarrow> int \<Rightarrow> auth_session" where
  "new_session env now dr user workspace_id dv family_id generation =
     \<lparr>as_id = dr_session_id dr, as_user_id = us_id user, as_current_workspace_id = workspace_id,
      as_refresh_token_hash = hash_token env (dr_token dr),
      as_expires_at = Aware (now + days (refresh_token_expire_days env)),
      as_user_agent = truncate_text (dv_user_agent dv) 512,
      as_ip_address = truncate_text (dv_ip_address dv) 45,
      as_device_name = truncate_text (dv_device_name dv) 120,
      as_revoked_at = None, as_last_used_at = None,
      as_family_id = (case family_id of None \<Rightarrow> dr_family_id dr | Some f \<Rightarrow> f),
      as_generation = generation, as_replaced_by_id = None, as_compromised_at = None,
      as_deleted_at = None\<rparr>"

text \<open>Adding the row; the primary key and the token hash are unique.\<close>

definition create_refresh_session_record ::
  "auth_env \<Rightarrow> int \<Rightarrow> draws \<Rightarrow> auth_user \<Rightarrow> string \<Rightarrow> device \<Rightarrow> string option \<Rightarrow> int \<Rightarrow> auth_db
     \<Rightarrow> (string \<times> auth_session) res \<times> auth_db" where
  "create_refresh_session_record env now dr user workspace_id dv family_id generation db =
     (let s = new_session env now dr user workspace_id dv family_id generation in
      if list_ex (\<lambda>x. as_id x = as_id s \<or> as_refresh_token_hash x = as_refresh_token_hash s)
           (ad_sessions db)
      then (Inl (IntegrityError ''auth_sessions''), db)
      else (Inr (dr_token dr, s), db\<lparr>ad_sessions := ad_sessions db @ [s]\<rparr>))"

definition rotate_refresh_session ::
  "auth_env \<Rightarrow> int \<Rightarrow> draws \<Rightarrow> string \<Rightarrow> device \<Rightarrow> auth_db
     \<Rightarrow> (auth_user \<times> string \<times> auth_session) res \<times> auth_db" where
  "rotate_refresh_session env now dr refresh_token dv db =
     (case get_session_by_refresh_hash db (hash_token env refresh_token) of
        None \<Rightarrow> (Inl (UnauthorizedError ''invalid_refresh_token''), db)
      | Some existing \<Rightarrow>
          if as_deleted_at existing \<noteq> None \<or> as_utc (as_expires_at existing) \<le> now
          then (Inl (UnauthorizedError ''invalid_refresh_token''), db)
          else if as_revoked_at existing \<noteq> None \<or> as_replaced_by_id existing \<noteq> None
          then (Inl (UnauthorizedError ''refresh_token_reuse''),
                mark_session_family_compromised (as_family_id existing) (Aware now) db)
          else case get_user_by_id db (as_user_id existing) of
              None \<Rightarrow> (Inl (UnauthorizedError ''invalid_refresh_token''), db)
            | Some user \<Rightarrow>
                if \<not> us_is_active user then (Inl (UnauthorizedError ''inactive_user''), db)
                else
                  (case create_refresh_session_record env now dr user
                          (as_current_workspace_id existing) dv (Some (as_family_id existing))
                          (as_generation existing + 1) db of
                     (Inl e, _) \<Rightarrow> (Inl e, db)
                   | (Inr (token, replacement), db') \<Rightarrow>
                       (Inr (user, token, replacement),
                        update_sessions (\<lambda>s. as_id s = as_id existing)
                          (\<lambda>s. s\<lparr>as_last_used_at := Some (Aware now),
                                as_revoked_at := Some (Aware now),
                                as_replaced_by_id := Some (as_id replacement)\<rparr>) db')))"

definition get_refresh_session :: "auth_env \<Rightarrow> auth_db \<Rightarrow> string \<Rightarrow> auth_session option" where
  "get_refresh_session env db refresh_token =
     get_session_by_refresh_hash db (hash_token env refresh_token)"

definition session_active :: "int \<Rightarrow> auth_session \<Rightarrow> bool" where
  "session_active now s \<longleftrightarrow> as_deleted_at s = None \<and> as_revoked_at s = None
     \<and> now < as_utc (as_expires_at s) \<and> as_replaced_by_id s = None"

definition refresh_session_is_active :: "int \<Rightarrow> auth_session option \<Rightarrow> bool" where
  "refresh_session_is_active now s = (case s of None \<Rightarrow> False | Some x \<Rightarrow> session_active now x)"

definition revoke_refresh_session :: "auth_env \<Rightarrow> int \<Rightarrow> string \<Rightarrow> auth_db \<Rightarrow> auth_db" where
  "revoke_refresh_session env now refresh_token =
     revoke_session_by_refresh_hash (hash_token env refresh_token) (Aware now)"

definition revoke_auth_session :: "int \<Rightarrow> auth_session \<Rightarrow> auth_db \<Rightarrow> auth_db" where
  "revoke_auth_session now session =
     update_sessions (\<lambda>s. as_id s = as_id session) (\<lambda>s. s\<lparr>as_revoked_at := Some (Aware now)\<rparr>)"

section \<open>CSRF tokens\<close>

text \<open>\<open>str.split(".")\<close>.\<close>

fun split_dots :: "string \<Rightarrow> string list" where
  "split_dots [] = [[]]"
| "split_dots (c # cs) =
     (if c = CHR ''.'' then [] # split_dots cs
      else case split_dots cs of [] \<Rightarrow> [[c]] | p # ps \<Rightarrow> (c # p) # ps)"

definition sign_csrf_token :: "auth_env \<Rightarrow> string \<Rightarrow> string \<Rightarrow> string option \<Rightarrow> string" where
  "sign_csrf_token env drawn session_id nonce =
     (let value = session_id @ ''.'' @ text_or nonce drawn
      in value @ ''.'' @ hmac_hex env (jwt_secret_key env) value)"

definition verify_csrf_token :: "auth_env \<Rightarrow> string \<Rightarrow> string \<Rightarrow> bool" where
  "verify_csrf_token env token session_id =
     (case split_dots token of
        [a, b, c] \<Rightarrow> a = session_id \<and> c = hmac_hex env (jwt_secret_key env) (a @ ''.'' @ b)
      | _ \<Rightarrow> False)"

record request =
  rq_origin :: "string option"
  rq_refresh_cookie :: "string option"
  rq_csrf_cookie :: "string option"
  rq_csrf_header :: "string option"
  rq_claims :: "(string \<times> string) res"
  rq_user_agent :: "string option"
  rq_client_host :: "string option"

definition require_origin_and_csrf :: "auth_env \<Rightarrow> request \<Rightarrow> string \<Rightarrow> unit res" where
  "require_origin_and_csrf env rq session_id =
     (if \<not> (case rq_origin rq of None \<Rightarrow> False | Some x \<Rightarrow> x \<in> set (allowed_origins env))
      then Inl (AppError ''BadRequestError'' ''invalid_origin'')
      else if \<not> text_truthy (rq_csrf_cookie rq) \<or> rq_csrf_cookie rq \<noteq> rq_csrf_header rq
         \<or> \<not> verify_csrf_token env (text_or (rq_csrf_cookie rq) '''') session_id
      then Inl (AppError ''BadRequestError'' ''invalid_csrf_token'')
      else Inr ())"

section \<open>Bound sessions and the endpoints\<close>

definition get_active_workspace_with_role :: "auth_db \<Rightarrow> string \<Rightarrow> string \<Rightarrow> (workspace_row \<times> string) option" where
  "get_active_workspace_with_role db workspace_id user_id =
     (case find (\<lambda>w. wk_id w = workspace_id \<and> wk_deleted_at w = None) (ad_workspaces db) of
        None \<Rightarrow> None
      | Some w \<Rightarrow>
          map_option (\<lambda>m. (w, ms_role m))
            (find (\<lambda>m. ms_workspace_id m = workspace_id \<and> ms_user_id m = user_id \<and> ms_is_active m)
              (ad_memberships db)))"

definition get_bound_session ::
  "int \<Rightarrow> auth_db \<Rightarrow> string \<Rightarrow> string \<Rightarrow> (auth_user \<times> workspace_row \<times> string) res" where
  "get_bound_session now db user_id session_id =
     (case (find (\<lambda>u. us_id u = user_id \<and> us_is_active u \<and> us_deleted_at u = None) (ad_users db),
            find (\<lambda>s. as_id s = session_id \<and> as_user_id s = user_id \<and> as_revoked_at s = None
                    \<and> as_deleted_at s = None \<and> now < as_utc (as_expires_at s)) (ad_sessions db)) of
        (Some u, Some s) \<Rightarrow>
          (case get_active_workspace_with_role db (as_current_workspace_id s) user_id of
             None \<Rightarrow> Inl (ForbiddenError ''workspace_access_denied'')
           | Some (w, role) \<Rightarrow> Inr (u, w, role))
      | _ \<Rightarrow> Inl (UnauthorizedError ''invalid_session''))"

definition switch_session_workspace ::
  "int \<Rightarrow> string \<Rightarrow> string \<Rightarrow> string \<Rightarrow> auth_db
     \<Rightarrow> (auth_user \<times> workspace_row \<times> string) res \<times> auth_db" where
  "switch_session_workspace now user_id session_id workspace_id db =
     (let hit = (\<lambda>s. as_id s = session_id \<and> as_user_id s = user_id \<and> as_revoked_at s = None
                  \<and> as_deleted_at s = None \<and> now < as_utc (as_expires_at s)
                  \<and> get_active_workspace_with_role db workspace_id user_id \<noteq> None)
      in if \<not> list_ex hit (ad_sessions db)
         then (Inl (ForbiddenError ''workspace_access_denied''), db)
         else let db' = update_sessions hit (\<lambda>s. s\<lparr>as_current_workspace_id := workspace_id\<rparr>) db
              in (get_bound_session now db' user_id session_id, db'))"

text \<open>The endpoint \<open>POST /refresh\<close>: the response is the bound session with the tokens that
  become cookies.\<close>

definition refresh ::
  "auth_env \<Rightarrow> int \<Rightarrow> draws \<Rightarrow> request \<Rightarrow> auth_db
     \<Rightarrow> ((auth_user \<times> workspace_row \<times> string) \<times> string \<times> string) res \<times> auth_db" where
  "refresh env now dr rq db =
     (case rq_refresh_cookie rq of
        None \<Rightarrow> (Inl (UnauthorizedError ''missing_refresh_token''), db)
      | Some token \<Rightarrow>
          if token = [] then (Inl (UnauthorizedError ''missing_refresh_token''), db)
          else case get_refresh_session env db token of
              None \<Rightarrow> (Inl (UnauthorizedError ''invalid_refresh_token''), db)
            | Some existing \<Rightarrow>
                if \<not> session_active now existing
                then (Inl (UnauthorizedError ''invalid_refresh_token''), db)
                else case require_origin_and_csrf env rq (as_id existing) of
                    Inl e \<Rightarrow> (Inl e, db)
                  | Inr _ \<Rightarrow>
                      (case rotate_refresh_session env now dr token
                              \<lparr>dv_user_agent = rq_user_agent rq, dv_ip_address = rq_client_host rq,
                               dv_device_name = None\<rparr> db of
                         (Inl e, db') \<Rightarrow> (Inl e, db')
                       | (Inr (user, replacement, session'), db') \<Rightarrow>
                           (case get_bound_session now db' (us_id user) (as_id session') of
                              Inl e \<Rightarrow> (Inl e, db')
                            | Inr bound \<Rightarrow> (Inr (bound, replacement, as_id session'), db'))))"

text \<open>The endpoint \<open>POST /logout\<close>; \<open>rq_claims\<close> is the decoded access cookie.\<close>

definition logout_target :: "auth_env \<Rightarrow> int \<Rightarrow> request \<Rightarrow> auth_db \<Rightarrow> auth_session option" where
  "logout_target env now rq db =
     (let existing = (if text_truthy (rq_refresh_cookie rq)
                      then get_refresh_session env db (text_or (rq_refresh_cookie rq) '''') else None)
      in if refresh_session_is_active now existing then existing
         else case rq_claims rq of
             Inl _ \<Rightarrow> None
           | Inr (user_id, session_id) \<Rightarrow>
               (case find (\<lambda>s. as_id s = session_id) (ad_sessions db) of
                  None \<Rightarrow> None
                | Some candidate \<Rightarrow>
                    if as_user_id candidate = user_id \<and> session_active now candidate
                    then Some candidate else None))"

definition logout :: "auth_env \<Rightarrow> int \<Rightarrow> request \<Rightarrow> auth_db \<Rightarrow> unit res \<times> auth_db" where
  "logout env now rq db =
     (case logout_target env now rq db of
        None \<Rightarrow> (Inr (), db)
      | Some active \<Rightarrow>
          (case require_origin_and_csrf env rq (as_id active) of
             Inl e \<Rightarrow> (Inl e, db)
           | Inr _ \<Rightarrow>
               if text_truthy (rq_refresh_cookie rq)
                  \<and> get_refresh_session env db (text_or (rq_refresh_cookie rq) '''') = Some active
               then (Inr (), revoke_refresh_session env now (text_or (rq_refresh_cookie rq) '''') db)
               else (Inr (), revoke_auth_session now active db)))"

end
