(* ===== verification/Session_Facts.thy ===== *)
theory Session_Facts
  imports Sessions
begin

text \<open>
  Safety of sessions under any sequence of operations: a family has at most one usable
  session, a revoked session never becomes usable again, and the replay of a rotated token
  ends its family. The last section compares the service with the refresh endpoint, which
  rejects an unusable token before the service can see it.
\<close>

section \<open>The invariant\<close>

definition in_family :: "string \<Rightarrow> auth_session \<Rightarrow> bool" where
  "in_family f s \<longleftrightarrow> as_family_id s = f \<and> as_replaced_by_id s = None"

definition sessions_inv :: "auth_session list \<Rightarrow> bool" where
  "sessions_inv ss \<longleftrightarrow> distinct (map as_id ss) \<and> distinct (map as_refresh_token_hash ss)
     \<and> (\<forall>f. length (filter (in_family f) ss) \<le> 1)
     \<and> (\<forall>s \<in> set ss. as_replaced_by_id s \<noteq> None \<longrightarrow> as_revoked_at s \<noteq> None)"

definition keeps_chain :: "(auth_session \<Rightarrow> auth_session) \<Rightarrow> bool" where
  "keeps_chain g \<longleftrightarrow> (\<forall>s. as_id (g s) = as_id s \<and> as_refresh_token_hash (g s) = as_refresh_token_hash s
     \<and> as_family_id (g s) = as_family_id s \<and> as_replaced_by_id (g s) = as_replaced_by_id s
     \<and> (as_revoked_at s \<noteq> None \<longrightarrow> as_revoked_at (g s) \<noteq> None))"

lemma keeps_chain_inv:
  assumes "keeps_chain g" "sessions_inv ss"
  shows "sessions_inv (map g ss)"
proof -
  have "map as_id (map g ss) = map as_id ss"
    "map as_refresh_token_hash (map g ss) = map as_refresh_token_hash ss"
    using assms(1) by (simp_all add: keeps_chain_def)
  moreover have "filter (in_family f) (map g ss) = map g (filter (in_family f) ss)" for f
    using assms(1) by (simp add: filter_map comp_def keeps_chain_def in_family_def [abs_def])
  moreover have "\<forall>s \<in> set (map g ss). as_replaced_by_id s \<noteq> None \<longrightarrow> as_revoked_at s \<noteq> None"
    using assms by (auto simp: sessions_inv_def keeps_chain_def)
  ultimately show ?thesis using assms(2) by (simp add: sessions_inv_def del: map_map set_map)
qed

text \<open>At most one element of a list satisfies \<open>p\<close>.\<close>

lemma at_most_one:
  assumes "length (filter p xs) \<le> 1" "x \<in> set xs" "y \<in> set xs" "p x" "p y"
  shows "x = y"
proof -
  have "x \<in> set (filter p xs)" "y \<in> set (filter p xs)" using assms by auto
  then show ?thesis using assms(1) by (cases "filter p xs") auto
qed

lemma length_filter_mono:
  "(\<And>x. p x \<Longrightarrow> q x) \<Longrightarrow> length (filter p xs) \<le> length (filter q xs)"
  by (induction xs) auto

definition usable :: "int \<Rightarrow> string \<Rightarrow> auth_session \<Rightarrow> bool" where
  "usable now f s \<longleftrightarrow> as_family_id s = f \<and> session_active now s"

lemma usable_at_most_one:
  assumes "sessions_inv ss"
  shows "length (filter (usable now f) ss) \<le> 1"
proof -
  have "filter (usable now f) ss = filter (usable now f) (filter (in_family f) ss)"
    by (simp add: filter_filter, rule filter_cong) (auto simp: usable_def in_family_def session_active_def)
  also have "length \<dots> \<le> length (filter (in_family f) ss)" by (rule length_filter_le)
  finally show ?thesis using assms unfolding sessions_inv_def by (meson order_trans)
qed

section \<open>Operations as updates of the table\<close>

lemma update_sessions_table [simp]:
  "ad_sessions (update_sessions p g db) = map (\<lambda>s. if p s then g s else s) (ad_sessions db)"
  by (simp add: update_sessions_def)

lemma get_session_in:
  "get_session_by_refresh_hash db h = Some s \<Longrightarrow> s \<in> set (ad_sessions db) \<and> as_refresh_token_hash s = h"
  by (auto simp: get_session_by_refresh_hash_def find_Some_iff)

lemma create_result:
  assumes "create_refresh_session_record env now dr user w dv fam gen db = (Inr (token, s), db')"
  shows "s = new_session env now dr user w dv fam gen" "token = dr_token dr"
    "db' = db\<lparr>ad_sessions := ad_sessions db @ [s]\<rparr>" "as_id s \<notin> as_id ` set (ad_sessions db)"
    "as_refresh_token_hash s \<notin> as_refresh_token_hash ` set (ad_sessions db)"
  using assms by (auto simp: create_refresh_session_record_def Let_def list_ex_iff split: if_splits)

lemma create_inv:
  assumes "create_refresh_session_record env now dr user w dv None gen db = (Inr (token, s), db')"
    and "sessions_inv (ad_sessions db)" "dr_family_id dr \<notin> as_family_id ` set (ad_sessions db)"
  shows "sessions_inv (ad_sessions db')"
proof -
  note r = create_result [OF assms(1)]
  have fam: "as_family_id s = dr_family_id dr" "as_replaced_by_id s = None"
    using r(1) by (simp_all add: new_session_def)
  have "length (filter (in_family f) (ad_sessions db @ [s])) \<le> 1" for f
  proof (cases "f = dr_family_id dr")
    case True
    then have "filter (in_family f) (ad_sessions db) = []"
      using assms(3) by (force simp: filter_empty_conv in_family_def)
    then show ?thesis by simp
  next
    case False
    then show ?thesis using assms(2) fam by (simp add: sessions_inv_def in_family_def)
  qed
  then show ?thesis using r fam assms(2) by (auto simp: sessions_inv_def)
qed

text \<open>A successful rotation: the token belonged to a usable session, which is replaced by a
  new one of the same family.\<close>

definition retire :: "int \<Rightarrow> string \<Rightarrow> auth_session \<Rightarrow> auth_session" where
  "retire now replacement_id s = s\<lparr>as_last_used_at := Some (Aware now),
     as_revoked_at := Some (Aware now), as_replaced_by_id := Some replacement_id\<rparr>"

lemma rotate_success:
  assumes "rotate_refresh_session env now dr token dv db = (Inr (user, token', s'), db')"
  obtains s where "get_refresh_session env db token = Some s" "session_active now s"
    "get_user_by_id db (as_user_id s) = Some user" "us_is_active user"
    "s' = new_session env now dr user (as_current_workspace_id s) dv (Some (as_family_id s))
       (as_generation s + 1)"
    "token' = dr_token dr" "as_id s' \<notin> as_id ` set (ad_sessions db)"
    "as_refresh_token_hash s' \<notin> as_refresh_token_hash ` set (ad_sessions db)"
    "db' = update_sessions (\<lambda>x. as_id x = as_id s) (retire now (as_id s'))
       (db\<lparr>ad_sessions := ad_sessions db @ [s']\<rparr>)"
proof -
  from assms obtain s where s: "get_session_by_refresh_hash db (hash_token env token) = Some s"
    "as_deleted_at s = None" "now < as_utc (as_expires_at s)" "as_revoked_at s = None"
    "as_replaced_by_id s = None" "get_user_by_id db (as_user_id s) = Some user" "us_is_active user"
    and rest: "(case create_refresh_session_record env now dr user (as_current_workspace_id s) dv
        (Some (as_family_id s)) (as_generation s + 1) db of
       (Inl e, _) \<Rightarrow> (Inl e, db)
     | (Inr (token, replacement), db') \<Rightarrow> (Inr (user, token, replacement),
          update_sessions (\<lambda>x. as_id x = as_id s) (retire now (as_id replacement)) db'))
      = (Inr (user, token', s'), db')"
    unfolding rotate_refresh_session_def retire_def
    by (auto split: option.splits if_splits prod.splits sum.splits)
  then obtain db1 where c: "create_refresh_session_record env now dr user (as_current_workspace_id s) dv
        (Some (as_family_id s)) (as_generation s + 1) db = (Inr (token', s'), db1)"
    and db': "db' = update_sessions (\<lambda>x. as_id x = as_id s) (retire now (as_id s')) db1"
    by (auto split: prod.splits sum.splits)
  note r = create_result [OF c]
  show ?thesis
    by (rule that [of s]) (use s db' r in \<open>auto simp: get_refresh_session_def session_active_def\<close>)
qed

lemma rotate_inv:
  assumes "sessions_inv (ad_sessions db)"
    and "rotate_refresh_session env now dr token dv db = (Inr (user, token', s'), db')"
  shows "sessions_inv (ad_sessions db')"
proof -
  obtain s where s: "get_refresh_session env db token = Some s" "session_active now s"
    and s': "s' = new_session env now dr user (as_current_workspace_id s) dv (Some (as_family_id s))
       (as_generation s + 1)"
    and ids: "as_id s' \<notin> as_id ` set (ad_sessions db)"
      "as_refresh_token_hash s' \<notin> as_refresh_token_hash ` set (ad_sessions db)"
    and db': "db' = update_sessions (\<lambda>x. as_id x = as_id s) (retire now (as_id s'))
       (db\<lparr>ad_sessions := ad_sessions db @ [s']\<rparr>)"
    using rotate_success [OF assms(2)] by blast
  have sin: "s \<in> set (ad_sessions db)" using s(1) get_session_in by (auto simp: get_refresh_session_def)
  let ?h = "\<lambda>x. if as_id x = as_id s then retire now (as_id s') x else x"
  have ne: "as_id s' \<noteq> as_id s" using ids(1) sin by auto
  have tab: "ad_sessions db' = map ?h (ad_sessions db) @ [s']" using db' ne by simp
  have keep: "as_id (?h x) = as_id x" "as_refresh_token_hash (?h x) = as_refresh_token_hash x"
    "as_family_id (?h x) = as_family_id x" for x by (simp_all add: retire_def)
  have maps: "map as_id (map ?h (ad_sessions db)) = map as_id (ad_sessions db)"
    "map as_refresh_token_hash (map ?h (ad_sessions db)) = map as_refresh_token_hash (ad_sessions db)"
    using keep by simp_all
  have fam: "as_family_id s' = as_family_id s" "as_replaced_by_id s' = None"
    using s' by (simp_all add: new_session_def)
  have "length (filter (in_family f) (ad_sessions db')) \<le> 1" for f
  proof (cases "f = as_family_id s")
    case True
    have "\<not> in_family f (?h x)" if "x \<in> set (ad_sessions db)" for x
    proof
      assume h: "in_family f (?h x)"
      then have "as_id x \<noteq> as_id s" "in_family f x" by (auto simp: in_family_def retire_def split: if_splits)
      moreover have "in_family f s" using s(2) True by (simp add: in_family_def session_active_def)
      ultimately show False
        using at_most_one [of "in_family f" "ad_sessions db" x s] assms(1) that sin
        by (auto simp: sessions_inv_def)
    qed
    then have "filter (in_family f \<circ> ?h) (ad_sessions db) = []"
      unfolding filter_empty_conv comp_def by blast
    then have "filter (in_family f) (map ?h (ad_sessions db)) = []" by (simp add: filter_map)
    then show ?thesis using tab by simp
  next
    case False
    have "filter (in_family f) (map ?h (ad_sessions db)) = map ?h (filter (in_family f \<circ> ?h) (ad_sessions db))"
      by (simp add: filter_map)
    moreover have "length (filter (in_family f \<circ> ?h) (ad_sessions db))
        \<le> length (filter (in_family f) (ad_sessions db))"
      by (rule length_filter_mono) (auto simp: in_family_def retire_def split: if_splits)
    moreover have "\<not> in_family f s'" using False fam by (simp add: in_family_def)
    moreover have "length (filter (in_family f) (ad_sessions db)) \<le> 1"
      using assms(1) by (simp add: sessions_inv_def)
    ultimately show ?thesis using tab by simp
  qed
  moreover have "map as_id (ad_sessions db') = map as_id (ad_sessions db) @ [as_id s']"
    "map as_refresh_token_hash (ad_sessions db')
       = map as_refresh_token_hash (ad_sessions db) @ [as_refresh_token_hash s']"
    unfolding tab map_append maps by simp_all
  then have "distinct (map as_id (ad_sessions db'))"
    "distinct (map as_refresh_token_hash (ad_sessions db'))"
    using ids assms(1) by (simp_all add: sessions_inv_def)
  moreover have "\<forall>x \<in> set (ad_sessions db'). as_replaced_by_id x \<noteq> None \<longrightarrow> as_revoked_at x \<noteq> None"
    using tab assms(1) fam by (auto simp: sessions_inv_def retire_def)
  ultimately show ?thesis by (simp add: sessions_inv_def)
qed

section \<open>Sequences of operations\<close>

text \<open>One committed operation. A new family has an identifier that no session has yet, as UUIDs
  drawn at random do.\<close>

inductive session_step :: "auth_env \<Rightarrow> auth_db \<Rightarrow> auth_db \<Rightarrow> bool" for env where
  step_login: "create_refresh_session_record env now dr user w dv None 0 db = (Inr r, db') \<Longrightarrow>
    dr_family_id dr \<notin> as_family_id ` set (ad_sessions db) \<Longrightarrow> session_step env db db'"
| step_rotate: "rotate_refresh_session env now dr token dv db = (r, db') \<Longrightarrow> session_step env db db'"
| step_revoke: "session_step env db (revoke_refresh_session env now token db)"
| step_revoke_session: "session_step env db (revoke_auth_session now s db)"
| step_switch: "switch_session_workspace now user_id session_id w db = (r, db') \<Longrightarrow>
    session_step env db db'"

lemma rotate_failure:
  assumes "rotate_refresh_session env now dr token dv db = (Inl e, db')"
  shows "db' = db \<or> (\<exists>f. db' = mark_session_family_compromised f (Aware now) db)"
  using assms unfolding rotate_refresh_session_def
  by (auto split: option.splits if_splits prod.splits sum.splits)

text \<open>Operations that only revoke sessions or move them between workspaces.\<close>

lemma update_keeps_chain:
  "keeps_chain (\<lambda>s. if p s then s\<lparr>as_revoked_at := Some t, as_compromised_at := Some t\<rparr> else s)"
  "keeps_chain (\<lambda>s. if p s then s\<lparr>as_revoked_at := Some t\<rparr> else s)"
  "keeps_chain (\<lambda>s. if p s then s\<lparr>as_current_workspace_id := w\<rparr> else s)"
  by (simp_all add: keeps_chain_def)

definition chain_update :: "auth_db \<Rightarrow> auth_db \<Rightarrow> bool" where
  "chain_update db db' \<longleftrightarrow> (\<exists>g. keeps_chain g \<and> ad_sessions db' = map g (ad_sessions db))"

lemma chain_update_rows:
  "keeps_chain (\<lambda>s. if p s then g s else s) \<Longrightarrow> chain_update db (update_sessions p g db)"
  unfolding chain_update_def update_sessions_table by blast

lemma chain_update_refl: "chain_update db db"
  unfolding chain_update_def by (rule exI [of _ "\<lambda>s. s"]) (simp add: keeps_chain_def)

lemmas chain_updates = chain_update_refl
  chain_update_rows [OF update_keeps_chain(1)] chain_update_rows [OF update_keeps_chain(2)]
  chain_update_rows [OF update_keeps_chain(3)]

lemma revocations_chain_update:
  "chain_update db (mark_session_family_compromised f t db)"
  "chain_update db (revoke_refresh_session env now token db)"
  "chain_update db (revoke_auth_session now s db)"
  unfolding mark_session_family_compromised_def revoke_refresh_session_def
    revoke_session_by_refresh_hash_def revoke_auth_session_def
  by (rule chain_updates)+

lemma switch_chain_update:
  "switch_session_workspace now u i w db = (r, db') \<Longrightarrow> chain_update db db'"
  unfolding switch_session_workspace_def Let_def by (auto split: if_splits intro: chain_updates)

text \<open>Every step either updates sessions in place, or starts a family, or rotates a session.\<close>

lemma step_cases:
  assumes "session_step env db db'"
  obtains (update) "chain_update db db'"
  | (login) now dr user w dv token s where
      "create_refresh_session_record env now dr user w dv None 0 db = (Inr (token, s), db')"
      "dr_family_id dr \<notin> as_family_id ` set (ad_sessions db)"
  | (rotate) now dr token dv user token' s where
      "rotate_refresh_session env now dr token dv db = (Inr (user, token', s), db')"
  using assms
proof (cases rule: session_step.cases)
  case (step_rotate now dr token dv r)
  show ?thesis
  proof (cases r)
    case (Inl e)
    then show ?thesis
      using rotate_failure step_rotate that(1) chain_update_refl revocations_chain_update by metis
  next
    case (Inr x)
    then show ?thesis using step_rotate that(3) by (metis prod_cases3)
  qed
next
  case (step_login now dr user w dv r)
  then show ?thesis using that(2) by (metis surj_pair)
next
  case (step_revoke now token)
  show ?thesis by (rule that(1)) (simp add: step_revoke revocations_chain_update)
next
  case (step_revoke_session now s)
  show ?thesis by (rule that(1)) (simp add: step_revoke_session revocations_chain_update)
next
  case (step_switch now user_id session_id w r)
  show ?thesis by (rule that(1)) (rule switch_chain_update [OF step_switch])
qed

lemma session_step_inv:
  assumes "session_step env db db'" "sessions_inv (ad_sessions db)"
  shows "sessions_inv (ad_sessions db')"
  using assms(1)
proof (cases rule: step_cases)
  case update
  then show ?thesis using keeps_chain_inv assms(2) by (auto simp: chain_update_def)
next
  case (login now dr user w dv token s)
  then show ?thesis using create_inv assms(2) by blast
next
  case (rotate now dr token dv user token' s)
  then show ?thesis by (rule rotate_inv [OF assms(2)])
qed

lemma session_steps_inv:
  "(session_step env)\<^sup>*\<^sup>* db db' \<Longrightarrow> sessions_inv (ad_sessions db) \<Longrightarrow> sessions_inv (ad_sessions db')"
  by (induction rule: rtranclp_induct) (auto intro: session_step_inv)

section \<open>Dead families\<close>

definition family_dead :: "string \<Rightarrow> auth_db \<Rightarrow> bool" where
  "family_dead f db \<longleftrightarrow> f \<in> as_family_id ` set (ad_sessions db)
     \<and> (\<forall>s \<in> set (ad_sessions db). as_family_id s = f \<longrightarrow> as_revoked_at s \<noteq> None)"

lemma session_step_dead:
  assumes "session_step env db db'" "family_dead f db"
  shows "family_dead f db'"
  using assms(1)
proof (cases rule: step_cases)
  case update
  then obtain g where g: "keeps_chain g" "ad_sessions db' = map g (ad_sessions db)"
    by (auto simp: chain_update_def)
  then have "as_family_id ` set (ad_sessions db') = as_family_id ` set (ad_sessions db)"
    by (auto simp: keeps_chain_def image_iff)
  then show ?thesis using g assms(2) by (auto simp: family_dead_def keeps_chain_def)
next
  case (login now dr user w dv token s)
  have "as_family_id s = dr_family_id dr" using create_result(1) [OF login(1)] by (simp add: new_session_def)
  then show ?thesis
    using create_result(3) [OF login(1)] login(2) assms(2) by (auto simp: family_dead_def)
next
  case (rotate now dr token dv user token' s')
  obtain s where s: "get_refresh_session env db token = Some s" "session_active now s"
    and s': "s' = new_session env now dr user (as_current_workspace_id s) dv (Some (as_family_id s))
       (as_generation s + 1)"
    and db': "db' = update_sessions (\<lambda>x. as_id x = as_id s) (retire now (as_id s'))
       (db\<lparr>ad_sessions := ad_sessions db @ [s']\<rparr>)"
    using rotate_success [OF rotate] by blast
  have "as_family_id s \<noteq> f"
    using s assms(2) get_session_in by (fastforce simp: get_refresh_session_def family_dead_def session_active_def)
  then have "as_family_id s' \<noteq> f" using s' by (simp add: new_session_def)
  moreover have "map as_family_id (ad_sessions db') = map as_family_id (ad_sessions db @ [s'])"
    by (simp add: db' retire_def)
  then have "as_family_id ` set (ad_sessions db') = as_family_id ` set (ad_sessions db @ [s'])"
    by (metis set_map)
  ultimately show ?thesis
    using assms(2) unfolding family_dead_def by (auto simp: db' retire_def)
qed

lemma session_steps_dead:
  "(session_step env)\<^sup>*\<^sup>* db db' \<Longrightarrow> family_dead f db \<Longrightarrow> family_dead f db'"
  by (induction rule: rtranclp_induct) (auto intro: session_step_dead)

lemma family_dead_unusable: "family_dead f db \<Longrightarrow> filter (usable now f) (ad_sessions db) = []"
  by (auto simp: family_dead_def filter_empty_conv usable_def session_active_def)

lemma mark_compromised_dead:
  assumes "s \<in> set (ad_sessions db)"
  shows "family_dead (as_family_id s) (mark_session_family_compromised (as_family_id s) t db)"
proof -
  let ?db = "mark_session_family_compromised (as_family_id s) t db"
  have "map as_family_id (ad_sessions ?db) = map as_family_id (ad_sessions db)"
    by (simp add: mark_session_family_compromised_def)
  then have "as_family_id ` set (ad_sessions ?db) = as_family_id ` set (ad_sessions db)"
    by (metis set_map)
  then show ?thesis using assms
    by (auto simp: family_dead_def) (auto simp: mark_session_family_compromised_def)
qed

lemma rotate_replay:
  assumes "get_refresh_session env db token = Some s"
    and "as_deleted_at s = None" "now < as_utc (as_expires_at s)"
    and "as_revoked_at s \<noteq> None \<or> as_replaced_by_id s \<noteq> None"
  shows "rotate_refresh_session env now dr token dv db
    = (Inl (UnauthorizedError ''refresh_token_reuse''),
       mark_session_family_compromised (as_family_id s) (Aware now) db)"
  using assms by (auto simp: rotate_refresh_session_def get_refresh_session_def)

section \<open>CSRF tokens\<close>

lemma split_dots_ne: "split_dots s \<noteq> []"
  by (induction s) (auto split: list.splits)

lemma split_dots_plain: "CHR ''.'' \<notin> set s \<Longrightarrow> split_dots s = [s]"
  by (induction s) auto

lemma split_dots_append:
  "CHR ''.'' \<notin> set s \<Longrightarrow> split_dots (s @ CHR ''.'' # t) = s # split_dots t"
  by (induction s) auto

lemma verify_signed:
  assumes "CHR ''.'' \<notin> set sid" "CHR ''.'' \<notin> set (text_or nonce drawn)"
    and "\<And>m. CHR ''.'' \<notin> set (hmac_hex env (jwt_secret_key env) m)"
  shows "verify_csrf_token env (sign_csrf_token env drawn sid nonce) sid' \<longleftrightarrow> sid' = sid"
  using assms
  by (auto simp: verify_csrf_token_def sign_csrf_token_def Let_def split_dots_append split_dots_plain)

section \<open>Properties\<close>

text \<open>C29. Starting from an empty table, after any sequence of logins,
  rotations, revocations and workspace switches, a family has at most one session that can be
  refreshed, at any point of time.\<close>

theorem one_usable_session_per_family:
  assumes "(session_step env)\<^sup>*\<^sup>* db db'" "ad_sessions db = []"
  shows "length (filter (usable now f) (ad_sessions db')) \<le> 1"
proof -
  have "sessions_inv (ad_sessions db)" using assms(2) by (simp add: sessions_inv_def)
  from session_steps_inv [OF assms(1) this] show ?thesis by (rule usable_at_most_one)
qed

definition sample_env :: auth_env where
  "sample_env = \<lparr>hash_token = (\<lambda>t. ''h'' @ t), hmac_hex = (\<lambda>k m. ''ab''), jwt_secret_key = ''k'',
     refresh_token_expire_days = 30, allowed_origins = [''https://app'']\<rparr>"

definition sample_user :: auth_user where
  "sample_user = \<lparr>us_id = ''u1'', us_is_active = True, us_deleted_at = None\<rparr>"

definition sample_device :: device where
  "sample_device = \<lparr>dv_user_agent = None, dv_ip_address = None, dv_device_name = None\<rparr>"

definition sample_draws :: "string \<Rightarrow> string \<Rightarrow> string \<Rightarrow> draws" where
  "sample_draws i t f = \<lparr>dr_session_id = i, dr_token = t, dr_family_id = f\<rparr>"

definition sample_db :: auth_db where
  "sample_db = \<lparr>ad_users = [sample_user], ad_sessions = [], ad_workspaces = [], ad_memberships = []\<rparr>"

definition sample_login :: auth_db where
  "sample_login = snd (create_refresh_session_record sample_env 0 (sample_draws ''s1'' ''t1'' ''f'')
     sample_user ''w'' sample_device None 0 sample_db)"

definition sample_rotated :: auth_db where
  "sample_rotated = snd (rotate_refresh_session sample_env 5 (sample_draws ''s2'' ''t2'' ''g'') ''t1''
     sample_device sample_login)"

lemma sample_login_step: "session_step sample_env sample_db sample_login"
proof (rule session_step.step_login)
  show "create_refresh_session_record sample_env 0 (sample_draws ''s1'' ''t1'' ''f'') sample_user ''w''
      sample_device None 0 sample_db
    = (Inr (''t1'', new_session sample_env 0 (sample_draws ''s1'' ''t1'' ''f'') sample_user ''w''
        sample_device None 0), sample_login)"
    by (simp add: sample_login_def create_refresh_session_record_def Let_def sample_db_def
        sample_draws_def)
qed (simp add: sample_db_def)

lemma sample_rotate_step: "session_step sample_env sample_login sample_rotated"
  by (rule session_step.step_rotate, unfold sample_rotated_def) (rule prod.collapse [symmetric])

theorem one_usable_session_per_family_witness:
  "length (filter (usable 6 ''f'') (ad_sessions sample_rotated)) \<le> 1
   \<and> length (ad_sessions sample_rotated) = 2"
proof
  have "(session_step sample_env)\<^sup>*\<^sup>* sample_db sample_rotated"
    using sample_login_step sample_rotate_step by (metis rtranclp.simps)
  then show "length (filter (usable 6 ''f'') (ad_sessions sample_rotated)) \<le> 1"
    by (rule one_usable_session_per_family) (simp add: sample_db_def)
  show "length (ad_sessions sample_rotated) = 2" by code_simp
qed

text \<open>A successful rotation consumes a usable session of an active
  user: the old row is revoked and points to its replacement, the replacement is usable in the
  same family with the next generation, and every other row is unchanged.\<close>

theorem rotation_replaces_session:
  assumes "sessions_inv (ad_sessions db)" "0 < refresh_token_expire_days env"
    and "rotate_refresh_session env now dr token dv db = (Inr (user, token', s'), db')"
  shows "\<exists>s. get_refresh_session env db token = Some s \<and> session_active now s \<and> us_is_active user
    \<and> us_id user = as_user_id s \<and> session_active now s' \<and> as_family_id s' = as_family_id s
    \<and> as_generation s' = as_generation s + 1 \<and> as_refresh_token_hash s' = hash_token env token'
    \<and> set (ad_sessions db')
        = set (ad_sessions db) - {s} \<union> {retire now (as_id s') s, s'}
    \<and> \<not> session_active t (retire now (as_id s') s)"
proof -
  obtain s where s: "get_refresh_session env db token = Some s" "session_active now s"
    "get_user_by_id db (as_user_id s) = Some user" "us_is_active user"
    and s': "s' = new_session env now dr user (as_current_workspace_id s) dv (Some (as_family_id s))
       (as_generation s + 1)" and t: "token' = dr_token dr"
    and ids: "as_id s' \<notin> as_id ` set (ad_sessions db)"
    and db': "db' = update_sessions (\<lambda>x. as_id x = as_id s) (retire now (as_id s'))
       (db\<lparr>ad_sessions := ad_sessions db @ [s']\<rparr>)"
    using rotate_success [OF assms(3)] by blast
  have sin: "s \<in> set (ad_sessions db)" using s(1) get_session_in by (auto simp: get_refresh_session_def)
  have one: "x = s" if "x \<in> set (ad_sessions db)" "as_id x = as_id s" for x
    using that sin assms(1) by (metis sessions_inv_def distinct_map inj_onD)
  have "us_id user = as_user_id s" using s(3) by (auto simp: get_user_by_id_def find_Some_iff)
  moreover have "session_active now s'"
    using s' assms(2) by (simp add: session_active_def new_session_def days_def day_us_def)
  moreover have "set (ad_sessions db') = set (ad_sessions db) - {s} \<union> {retire now (as_id s') s, s'}"
  proof -
    let ?h = "\<lambda>x. if as_id x = as_id s then retire now (as_id s') x else x"
    have "?h ` set (ad_sessions db) = insert (?h s) (?h ` (set (ad_sessions db) - {s}))"
      using sin by blast
    moreover have "?h ` (set (ad_sessions db) - {s}) = (\<lambda>x. x) ` (set (ad_sessions db) - {s})"
      by (rule image_cong) (use one in auto)
    moreover have "?h s' = s'" using ids sin by auto
    moreover have "set (ad_sessions db') = ?h ` set (ad_sessions db) \<union> {?h s'}" by (auto simp: db')
    ultimately show ?thesis by auto
  qed
  ultimately show ?thesis using s s' t
    by (auto simp: new_session_def retire_def session_active_def)
qed

definition sample_replacement :: auth_session where
  "sample_replacement = new_session sample_env 5 (sample_draws ''s2'' ''t2'' ''g'') sample_user ''w''
     sample_device (Some ''f'') 1"

theorem rotation_replaces_session_witness:
  "\<exists>s. get_refresh_session sample_env sample_login ''t1'' = Some s \<and> session_active 5 s
     \<and> as_family_id sample_replacement = as_family_id s
     \<and> set (ad_sessions sample_rotated) = set (ad_sessions sample_login) - {s}
          \<union> {retire 5 (as_id sample_replacement) s, sample_replacement}"
proof -
  have inv: "sessions_inv (ad_sessions sample_login)"
    using session_step_inv [OF sample_login_step] by (simp add: sample_db_def sessions_inv_def)
  have rot: "rotate_refresh_session sample_env 5 (sample_draws ''s2'' ''t2'' ''g'') ''t1'' sample_device
      sample_login = (Inr (sample_user, ''t2'', sample_replacement), sample_rotated)"
    by code_simp
  show ?thesis
    using rotation_replaces_session [OF inv _ rot] by (auto simp: sample_env_def)
qed

text \<open>C30. Presenting a token whose session was revoked or already replaced, while
  the session is neither deleted nor expired, makes the rotation service fail with \<open>refresh_token_reuse\<close> and commit
  the end of the whole family: no later operation makes any session of it usable again.\<close>

theorem replay_ends_family:
  assumes "get_refresh_session env db token = Some s"
    and "as_deleted_at s = None" "now < as_utc (as_expires_at s)"
    and "as_revoked_at s \<noteq> None \<or> as_replaced_by_id s \<noteq> None"
    and "rotate_refresh_session env now dr token dv db = (r, db')"
    and "(session_step env)\<^sup>*\<^sup>* db' db''"
  shows "r = Inl (UnauthorizedError ''refresh_token_reuse'')
    \<and> filter (usable t (as_family_id s)) (ad_sessions db'') = []"
proof -
  have r: "r = Inl (UnauthorizedError ''refresh_token_reuse'')"
    "db' = mark_session_family_compromised (as_family_id s) (Aware now) db"
    using rotate_replay [OF assms(1-4)] assms(5) by simp_all
  have "s \<in> set (ad_sessions db)" using assms(1) get_session_in by (auto simp: get_refresh_session_def)
  then have "family_dead (as_family_id s) db''"
    using session_steps_dead [OF assms(6)] mark_compromised_dead r(2) by simp
  then show ?thesis using r(1) family_dead_unusable by simp
qed

definition sample_replayed :: auth_db where
  "sample_replayed = snd (rotate_refresh_session sample_env 6 (sample_draws ''s3'' ''t3'' ''h'') ''t1''
     sample_device sample_rotated)"

definition sample_old :: auth_session where
  "sample_old = hd (ad_sessions sample_rotated)"

theorem replay_ends_family_witness:
  "filter (usable 7 ''f'') (ad_sessions sample_rotated) \<noteq> []
   \<and> filter (usable 7 ''f'') (ad_sessions sample_replayed) = []"
proof
  show "filter (usable 7 ''f'') (ad_sessions sample_rotated) \<noteq> []" by code_simp
  have "get_refresh_session sample_env sample_rotated ''t1'' = Some sample_old"
    "as_deleted_at sample_old = None" "6 < as_utc (as_expires_at sample_old)"
    "as_revoked_at sample_old \<noteq> None \<or> as_replaced_by_id sample_old \<noteq> None"
    by code_simp+
  from replay_ends_family [OF this, of "sample_draws ''s3'' ''t3'' ''h''" sample_device
      "fst (rotate_refresh_session sample_env 6 (sample_draws ''s3'' ''t3'' ''h'') ''t1''
         sample_device sample_rotated)" sample_replayed sample_replayed 7]
  have "filter (usable 7 (as_family_id sample_old)) (ad_sessions sample_replayed) = []"
    by (simp add: sample_replayed_def)
  moreover have "as_family_id sample_old = ''f''" by code_simp
  ultimately show "filter (usable 7 ''f'') (ad_sessions sample_replayed) = []" by simp
qed

text \<open>C31. The refresh endpoint rejects a token whose session was revoked
  or replaced before it calls the rotation service, so a replayed token leaves the database
  unchanged: the family is not ended and its current session stays usable.\<close>

theorem refresh_endpoint_hides_replay:
  assumes "rq_refresh_cookie rq = Some token" "token \<noteq> []"
    and "get_refresh_session env db token = Some s"
    and "as_revoked_at s \<noteq> None \<or> as_replaced_by_id s \<noteq> None"
  shows "refresh env now dr rq db = (Inl (UnauthorizedError ''invalid_refresh_token''), db)"
  using assms by (auto simp: refresh_def session_active_def)

definition sample_request :: request where
  "sample_request = \<lparr>rq_origin = Some ''https://app'', rq_refresh_cookie = Some ''t1'',
     rq_csrf_cookie = None, rq_csrf_header = None,
     rq_claims = Inl (UnauthorizedError ''missing_session''), rq_user_agent = None,
     rq_client_host = None\<rparr>"

theorem refresh_endpoint_hides_replay_witness:
  "refresh sample_env 6 (sample_draws ''s3'' ''t3'' ''h'') sample_request sample_rotated
     = (Inl (UnauthorizedError ''invalid_refresh_token''), sample_rotated)
   \<and> filter (usable 7 ''f'') (ad_sessions sample_rotated) \<noteq> []"
proof
  have "get_refresh_session sample_env sample_rotated ''t1'' = Some sample_old"
    "as_revoked_at sample_old \<noteq> None \<or> as_replaced_by_id sample_old \<noteq> None"
    by code_simp+
  then show "refresh sample_env 6 (sample_draws ''s3'' ''t3'' ''h'') sample_request sample_rotated
     = (Inl (UnauthorizedError ''invalid_refresh_token''), sample_rotated)"
    by (intro refresh_endpoint_hides_replay [where token = "''t1''"]) (simp_all add: sample_request_def)
  show "filter (usable 7 ''f'') (ad_sessions sample_rotated) \<noteq> []" by code_simp
qed

text \<open>A signed CSRF token verifies for the session it was signed for and for
  no other, when neither session identifier nor nonce nor the hexadecimal digest contains the
  separator.\<close>

theorem csrf_token_round_trip:
  assumes "CHR ''.'' \<notin> set sid" "CHR ''.'' \<notin> set (text_or nonce drawn)"
    and "\<And>m. CHR ''.'' \<notin> set (hmac_hex env (jwt_secret_key env) m)"
  shows "verify_csrf_token env (sign_csrf_token env drawn sid nonce) sid' \<longleftrightarrow> sid' = sid"
  by (rule verify_signed [OF assms])

theorem csrf_token_round_trip_witness:
  "verify_csrf_token sample_env (sign_csrf_token sample_env ''n'' ''s1'' None) ''s1''
   \<and> \<not> verify_csrf_token sample_env (sign_csrf_token sample_env ''n'' ''s1'' None) ''s2''"
  using csrf_token_round_trip [of "''s1''" None "''n''" sample_env "''s1''"]
    csrf_token_round_trip [of "''s1''" None "''n''" sample_env "''s2''"]
  by (simp add: sample_env_def)

end
