(* ===== verification/Asset_Schemas.thy ===== *)
theory Asset_Schemas
  imports Identity
begin

text \<open>
  The structured output of the language model: the pydantic schemas of
  \<open>schemas/ai_output_schema.py\<close> as validators on JSON values, the selection and compatibility
  checks of \<open>policies/ai_output_policy.py\<close> and the safety check of \<open>policies/risk_policy.py\<close>.

  A validator returns the dump of the validated model, its fields in declaration order with
  defaults filled in, or a \<open>ValidationError\<close>. The models are strict and forbid unknown
  fields. The regular expressions of \<open>validate_asset_claims\<close> are not modelled.
\<close>

section \<open>Fields\<close>

type_synonym validator = "pyval \<Rightarrow> pyval res"
type_synonym field_spec = "string \<times> pyval option \<times> validator"

definition text_field :: "int \<Rightarrow> int \<Rightarrow> validator" where
  "text_field lo hi v =
     (case v of
        PStr s \<Rightarrow> if lo \<le> int (length s) \<and> int (length s) \<le> hi then Inr (PStr s)
                  else Inl (ValidationError ''String length is out of bounds'')
      | _ \<Rightarrow> Inl (ValidationError ''Input should be a valid string''))"

definition any_text :: validator where
  "any_text v = (case v of PStr s \<Rightarrow> Inr (PStr s)
     | _ \<Rightarrow> Inl (ValidationError ''Input should be a valid string''))"

definition literal_field :: "string list \<Rightarrow> validator" where
  "literal_field options v =
     (case v of
        PStr s \<Rightarrow> if s \<in> set options then Inr (PStr s)
                  else Inl (ValidationError ''Input should be one of the literals'')
      | _ \<Rightarrow> Inl (ValidationError ''Input should be one of the literals''))"

definition list_field :: "int \<Rightarrow> int \<Rightarrow> validator \<Rightarrow> validator" where
  "list_field lo hi item v =
     (case v of
        PSeq xs \<Rightarrow>
          if lo \<le> int (length xs) \<and> int (length xs) \<le> hi
          then res_bind (res_map item xs) (\<lambda>ys. Inr (PSeq ys))
          else Inl (ValidationError ''List length is out of bounds'')
      | _ \<Rightarrow> Inl (ValidationError ''Input should be a valid list''))"

fun model_fields :: "field_spec list \<Rightarrow> (string \<times> pyval) list \<Rightarrow> (string \<times> pyval) list res" where
  "model_fields [] kvs = Inr []"
| "model_fields ((k, dflt, f) # fs) kvs =
     res_bind (case map_of kvs k of
                 Some v \<Rightarrow> f v
               | None \<Rightarrow> (case dflt of Some d \<Rightarrow> Inr d
                           | None \<Rightarrow> Inl (ValidationError ''Field required'')))
       (\<lambda>v. res_bind (model_fields fs kvs) (\<lambda>rest. Inr ((k, v) # rest)))"

definition model_validator :: "field_spec list \<Rightarrow> validator" where
  "model_validator fs v =
     (case v of
        PDict kvs \<Rightarrow>
          if list_all (\<lambda>(k, _). k \<in> set (map fst fs)) kvs
          then res_bind (model_fields fs kvs) (\<lambda>d. Inr (PDict d))
          else Inl (ValidationError ''Extra inputs are not permitted'')
      | _ \<Rightarrow> Inl (ValidationError ''Input should be a valid dictionary''))"

section \<open>Schemas\<close>

definition Recommendation :: validator where
  "Recommendation = model_validator
     [(''kind'', None, literal_field [''recommendation'']),
      (''title'', None, text_field 1 200),
      (''rationale'', None, text_field 1 4000),
      (''action_family'', None, text_field 1 64),
      (''output_type'', None,
        literal_field [''seo_page_update'', ''blog_brief'', ''product_update'', ''x_draft'']),
      (''expected_metric'', None, text_field 1 64),
      (''evidence_ids'', None, list_field 1 20 any_text),
      (''claims'', Some (PSeq []), list_field 0 50 any_text)]"

definition NoRecommendation :: validator where
  "NoRecommendation = model_validator
     [(''kind'', None, literal_field [''no_recommendation'']),
      (''reason'', None, text_field 1 2000),
      (''evidence_ids'', Some (PSeq []), list_field 0 20 any_text)]"

definition ClaimEvidence :: validator where
  "ClaimEvidence = model_validator
     [(''claim'', None, text_field 1 1000), (''evidence_ids'', None, list_field 1 20 any_text)]"

definition SeoPageUpdateContent :: validator where
  "SeoPageUpdateContent = model_validator
     [(''target_page'', None, text_field 1 2000),
      (''target_query_intent'', None, text_field 1 1000),
      (''proposed_title'', None, text_field 1 200),
      (''proposed_meta_description'', None, text_field 1 320),
      (''revised_h1_or_hero'', None, text_field 1 2000),
      (''missing_sections'', Some (PSeq []), list_field 0 30 any_text),
      (''internal_links'', Some (PSeq []), list_field 0 50 any_text),
      (''conversion_action'', None, text_field 1 1000)]"

definition BlogBriefContent :: validator where
  "BlogBriefContent = model_validator
     [(''target_query'', None, text_field 1 500),
      (''search_intent'', None, text_field 1 500),
      (''audience'', None, text_field 1 500),
      (''angle'', None, text_field 1 1000),
      (''recommended_title'', None, text_field 1 200),
      (''outline'', None, list_field 1 30 any_text),
      (''questions_to_answer'', Some (PSeq []), list_field 0 30 any_text),
      (''internal_links'', Some (PSeq []), list_field 0 50 any_text),
      (''product_cta'', None, text_field 1 1000)]"

definition ProductUpdateContent :: validator where
  "ProductUpdateContent = model_validator
     [(''short_announcement'', None, text_field 1 1000),
      (''email_update'', None, text_field 1 8000),
      (''changelog_entry'', None, text_field 1 4000),
      (''customer_benefit'', None, text_field 1 2000),
      (''shipping_evidence'', None, list_field 1 30 any_text)]"

definition XDraftContent :: validator where
  "XDraftContent = model_validator [(''post'', None, text_field 1 280)]"

text \<open>The four kinds of asset share their shape.\<close>

definition asset_model :: "string \<Rightarrow> validator \<Rightarrow> validator" where
  "asset_model kind content = model_validator
     [(''kind'', None, literal_field [kind]),
      (''content'', None, content),
      (''claim_evidence'', Some (PSeq []), list_field 0 50 ClaimEvidence)]"

definition SEOPageUpdate :: validator where
  "SEOPageUpdate = asset_model ''seo_page_update'' SeoPageUpdateContent"

definition BlogBrief :: validator where
  "BlogBrief = asset_model ''blog_brief'' BlogBriefContent"

definition ProductUpdate :: validator where
  "ProductUpdate = asset_model ''product_update'' ProductUpdateContent"

definition XDraft :: validator where
  "XDraft = asset_model ''x_draft'' XDraftContent"

definition NoAsset :: validator where
  "NoAsset = model_validator
     [(''kind'', None, literal_field [''no_asset'']), (''reason'', None, text_field 1 2000)]"

text \<open>A union that is discriminated by \<open>kind\<close>.\<close>

definition discriminated :: "(string \<times> validator) list \<Rightarrow> validator" where
  "discriminated options v =
     (case v of
        PDict kvs \<Rightarrow> (case map_of kvs ''kind'' of
            Some (PStr k) \<Rightarrow> (case map_of options k of
                Some f \<Rightarrow> f v
              | None \<Rightarrow> Inl (ValidationError ''Input tag does not match the expected tags''))
          | _ \<Rightarrow> Inl (ValidationError ''Unable to extract tag''))
      | _ \<Rightarrow> Inl (ValidationError ''Input should be a valid dictionary''))"

definition RecommendationOutput :: validator where
  "RecommendationOutput = discriminated
     [(''recommendation'', Recommendation), (''no_recommendation'', NoRecommendation)]"

definition PreparedAssetOutput :: validator where
  "PreparedAssetOutput = discriminated
     [(''seo_page_update'', SEOPageUpdate), (''blog_brief'', BlogBrief),
      (''product_update'', ProductUpdate), (''x_draft'', XDraft), (''no_asset'', NoAsset)]"

definition RiskFinding :: validator where
  "RiskFinding = model_validator
     [(''code'', None, text_field 1 64),
      (''severity'', None, literal_field [''review'', ''block'']),
      (''message'', None, text_field 1 1000)]"

definition RiskReview :: validator where
  "RiskReview = model_validator
     [(''outcome'', None, literal_field [''pass'', ''review'', ''block'']),
      (''findings'', Some (PSeq []), list_field 0 50 RiskFinding)]"

text \<open>Reading a field of a validated model.\<close>

fun py_get :: "pyval \<Rightarrow> string \<Rightarrow> pyval option" where
  "py_get (PDict kvs) k = map_of kvs k"
| "py_get _ k = None"

fun py_text :: "pyval option \<Rightarrow> string" where
  "py_text (Some (PStr s)) = s"
| "py_text _ = []"

fun py_texts :: "pyval option \<Rightarrow> string list" where
  "py_texts (Some (PSeq xs)) = map (\<lambda>x. py_text (Some x)) xs"
| "py_texts _ = []"

section \<open>Checks on the output\<close>

record evidence_candidate =
  ec_id :: uuid
  ec_workspace_id :: uuid
  ec_product_id :: uuid
  ec_opportunity_id :: "uuid option"
  ec_public_safe_summary :: string
  ec_freshness_status :: string
  ec_observed_at :: datetime

definition select_evidence ::
  "evidence_candidate list \<Rightarrow> uuid \<Rightarrow> uuid \<Rightarrow> uuid \<Rightarrow> uuid \<Rightarrow> evidence_candidate res" where
  "select_evidence candidates workspace_id product_id opportunity_id evidence_id =
     (case dict_of (map (\<lambda>i. (ec_id i, i)) candidates) evidence_id of
        None \<Rightarrow> Inl (ValueError ''unknown_evidence_id'')
      | Some item \<Rightarrow>
          if ec_workspace_id item \<noteq> workspace_id \<or> ec_product_id item \<noteq> product_id
             \<or> ec_opportunity_id item \<noteq> Some opportunity_id
          then Inl (ValueError ''cross_tenant_or_opportunity_evidence'')
          else if ec_freshness_status item \<noteq> ''fresh'' \<or> py_strip (ec_public_safe_summary item) = []
          then Inl (ValueError ''evidence_not_public_safe_and_fresh'')
          else Inr item)"

definition validate_evidence_selection ::
  "uuid list \<Rightarrow> evidence_candidate list \<Rightarrow> uuid \<Rightarrow> uuid \<Rightarrow> uuid \<Rightarrow> evidence_candidate list res" where
  "validate_evidence_selection selected_ids candidates workspace_id product_id opportunity_id =
     (if \<not> distinct selected_ids then Inl (ValueError ''duplicate_evidence_id'')
      else res_map (select_evidence candidates workspace_id product_id opportunity_id) selected_ids)"

definition output_by_action_family :: "(string \<times> string) list" where
  "output_by_action_family =
     [(''seo_snippet_update'', ''seo_page_update''),
      (''existing_page_optimization'', ''seo_page_update''),
      (''content_refresh_investigation'', ''blog_brief''),
      (''seo_page_update'', ''seo_page_update''),
      (''blog_brief'', ''blog_brief''),
      (''product_update'', ''product_update''),
      (''dedicated_content_creation'', ''blog_brief''),
      (''page_quality_fix'', ''seo_page_update''),
      (''x_draft'', ''x_draft'')]"

definition output_type_for_action_family :: "string \<Rightarrow> string res" where
  "output_type_for_action_family action_family =
     (case map_of output_by_action_family action_family of
        Some t \<Rightarrow> Inr t
      | None \<Rightarrow> Inl (ValueError ''unsupported_action_family''))"

definition validate_output_compatibility :: "string \<Rightarrow> string \<Rightarrow> string \<Rightarrow> unit res" where
  "validate_output_compatibility action_family expected_metric output_type =
     (if py_strip expected_metric = []
      then Inl (ValueError ''incompatible_action_metric_or_output'')
      else res_bind (output_type_for_action_family action_family) (\<lambda>t.
        if t \<noteq> output_type then Inl (ValueError ''incompatible_action_metric_or_output'')
        else Inr ()))"

section \<open>Safety of an asset\<close>

text \<open>\<open>json.dumps(v, sort_keys=True)\<close>, with the default separators.\<close>

fun json_dumps_default :: "pyval \<Rightarrow> string" where
  "json_dumps_default (PStr s) = json_string s"
| "json_dumps_default (PInt n) = int_text n"
| "json_dumps_default (PBool b) = (if b then ''true'' else ''false'')"
| "json_dumps_default PNone = ''null''"
| "json_dumps_default (PText s) = json_string s"
| "json_dumps_default (PSeq xs) = ''['' @ join_text '', '' (map json_dumps_default xs) @ '']''"
| "json_dumps_default (PDict kvs) =
     ''{'' @ join_text '', ''
       (map (\<lambda>(k, d). json_string k @ '': '' @ d)
         (sort_key fst (map (map_prod id json_dumps_default) kvs))) @ ''}''"

definition contains_any :: "engine_env \<Rightarrow> string \<Rightarrow> string list \<Rightarrow> bool" where
  "contains_any env content values \<longleftrightarrow>
     list_ex (\<lambda>v. py_strip v \<noteq> [] \<and> text_contains (casefold env (py_strip v)) content) values"

definition evaluate_asset_safety ::
  "engine_env \<Rightarrow> pyval \<Rightarrow> string list \<Rightarrow> string list \<Rightarrow> string list \<Rightarrow> string" where
  "evaluate_asset_safety env structured_content blocked_terms blocked_topics safe_public_boundaries =
     (let content = casefold env (json_dumps_default structured_content) in
      if contains_any env content blocked_terms \<or> contains_any env content blocked_topics
      then ''block''
      else if contains_any env content safe_public_boundaries then ''review''
      else ''pass'')"

definition risk_outcomes :: "string list" where
  "risk_outcomes = [''pass'', ''review'', ''block'']"

definition final_risk_outcome :: "string \<Rightarrow> string \<Rightarrow> string res" where
  "final_risk_outcome deterministic ai =
     (if deterministic \<notin> set risk_outcomes \<or> ai \<notin> set risk_outcomes
      then Inl (ValueError ''invalid_risk_outcome'')
      else if deterministic = ''block'' \<or> ai = ''block'' then Inr ''block''
      else if deterministic = ''review'' \<or> ai = ''review'' then Inr ''review''
      else Inr ''pass'')"

section \<open>Text escapes to ASCII\<close>

definition ascii :: "char \<Rightarrow> bool" where
  "ascii c \<longleftrightarrow> (of_char c :: int) < 128"

lemma ascii_chars [simp]:
  "ascii CHR '',''" "ascii CHR '' ''" "ascii CHR '':''" "ascii CHR ''{''" "ascii CHR ''}''"
  "ascii CHR ''[''" "ascii CHR '']''" "ascii CHR ''-''" "ascii CHR ''t''" "ascii CHR ''r''"
  "ascii CHR ''u''" "ascii CHR ''e''" "ascii CHR ''f''" "ascii CHR ''a''" "ascii CHR ''l''"
  "ascii CHR ''s''" "ascii CHR ''n''"
  by code_simp+

lemma ascii_hex_digit: "0 \<le> d \<Longrightarrow> d < 16 \<Longrightarrow> ascii (hex_digit d)"
  by (auto simp: ascii_def hex_digit_def of_char_of take_bit_int_eq_self)

lemma ascii_json_char: "list_all ascii (json_char c)"
proof -
  have "(of_char c :: int) = int (of_char c)" by (simp only: of_nat_of_char)
  then have n: "0 \<le> (of_char c :: int)" "(of_char c :: int) < 256"
    using nat_of_char_less_256 [of c] by linarith+
  have "ascii (hex_digit (of_char c div 16))" "ascii (hex_digit (of_char c mod 16))"
    using n by (intro ascii_hex_digit; simp)+
  moreover have "list_all ascii [CHR 0x5C, CHR 0x22, CHR ''n'', CHR ''r'', CHR ''t'', CHR ''f'',
      CHR ''b'', CHR ''u'', CHR ''0'']" by code_simp
  moreover have "(of_char c :: int) \<le> 126 \<Longrightarrow> ascii c" by (simp add: ascii_def)
  ultimately show ?thesis by (simp add: json_char_def Let_def)
qed

lemma ascii_json_string [simp]: "list_all ascii (json_string s)"
proof -
  have "list_all ascii [CHR 0x22]" by code_simp
  then show ?thesis using ascii_json_char by (auto simp: json_string_def list_all_iff)
qed

lemma ascii_nat_text: "list_all ascii (nat_text n)" if "0 \<le> n"
  using that
proof (induction n rule: nat_text.induct)
  case (1 n)
  have d: "ascii (digit_char k)" if "0 \<le> k" "k < 10" for k
    using that by (simp add: ascii_def digit_char_def of_char_of take_bit_int_eq_self)
  show ?case
    using 1 d by (subst nat_text.simps) auto
qed

lemma ascii_int_text [simp]: "list_all ascii (int_text n)"
  by (simp add: int_text_def ascii_nat_text)

lemma ascii_join: "list_all ascii sep \<Longrightarrow> \<forall>x \<in> set xs. list_all ascii x \<Longrightarrow> list_all ascii (join_text sep xs)"
  by (induction sep xs rule: join_text.induct) auto

lemma ascii_json_dumps_default [simp]: "list_all ascii (json_dumps_default v)"
proof (induction v)
  case (PSeq xs)
  then have "list_all ascii (join_text '', '' (map json_dumps_default xs))"
    by (intro ascii_join) auto
  then show ?case by simp
next
  case (PDict kvs)
  have "list_all ascii (join_text '', '' (map (\<lambda>(k, d). json_string k @ '': '' @ d)
         (sort_key fst (map (map_prod id json_dumps_default) kvs))))"
  proof (rule ascii_join)
    show "\<forall>x \<in> set (map (\<lambda>(k, d). json_string k @ '': '' @ d)
         (sort_key fst (map (map_prod id json_dumps_default) kvs))). list_all ascii x"
    proof
      fix x assume "x \<in> set (map (\<lambda>(k, d). json_string k @ '': '' @ d)
         (sort_key fst (map (map_prod id json_dumps_default) kvs)))"
      then obtain k v where x: "(k, v) \<in> set kvs" "x = json_string k @ '': '' @ json_dumps_default v"
        by auto
      have "list_all ascii (json_dumps_default v)"
        by (rule PDict [OF x(1)]) (simp add: snds.intros)
      then show "list_all ascii x" unfolding x(2) by simp
    qed
  qed simp
  then show ?case by simp
qed simp_all

lemma text_contains_ascii: "text_contains part s \<Longrightarrow> list_all ascii s \<Longrightarrow> list_all ascii part"
proof (induction s)
  case (Cons c s)
  then show ?case by (auto simp: list_all_iff) (metis in_set_takeD set_ConsD)+
qed simp

section \<open>Properties\<close>

text \<open>The terms that the check can find: those whose folded form is ASCII.\<close>

definition findable :: "engine_env \<Rightarrow> string list \<Rightarrow> string list" where
  "findable env = filter (\<lambda>t. list_all ascii (casefold env (py_strip t)))"

lemma contains_findable:
  assumes "list_all ascii s"
  shows "contains_any env s ts = contains_any env s (findable env ts)"
  using text_contains_ascii [OF _ assms] by (auto simp: contains_any_def findable_def list_ex_iff)

text \<open>C36. The safety check looks for blocked terms in the JSON text of an asset. That text is ASCII whatever the
  asset says, so with a case folding that keeps ASCII text ASCII, the terms whose folded form has a character
  outside ASCII contribute nothing: the outcome is that of the other terms alone, and the asset passes when there
  are no others.\<close>

theorem escaped_terms_are_missed:
  assumes "\<And>s. list_all ascii s \<Longrightarrow> list_all ascii (casefold env s)"
  shows "evaluate_asset_safety env content terms topics boundaries
      = evaluate_asset_safety env content (findable env terms) (findable env topics) (findable env boundaries)
    \<and> (findable env (terms @ topics @ boundaries) = []
        \<longrightarrow> evaluate_asset_safety env content terms topics boundaries = ''pass'')"
proof -
  have "list_all ascii (casefold env (json_dumps_default content))" by (simp add: assms)
  note c = contains_findable [OF this]
  have e: "evaluate_asset_safety env content terms topics boundaries
      = evaluate_asset_safety env content (findable env terms) (findable env topics) (findable env boundaries)"
    unfolding evaluate_asset_safety_def Let_def by (simp only: c [of env terms] c [of env topics] c [of env boundaries])
  moreover have "findable env terms = [] \<and> findable env topics = [] \<and> findable env boundaries = []"
    if "findable env (terms @ topics @ boundaries) = []" using that by (simp add: findable_def)
  ultimately show ?thesis by (simp add: evaluate_asset_safety_def contains_any_def Let_def)
qed

definition folding_env :: engine_env where
  "folding_env = \<lparr>sha256 = (\<lambda>s. s), observation_digest = (\<lambda>_. ''o''), casefold = py_lower\<rparr>"

lemma ascii_py_lower: "list_all ascii s \<Longrightarrow> list_all ascii (py_lower s)"
proof -
  have "ascii (py_lower_char c)" if "ascii c" for c
    using that by (auto simp: ascii_def py_lower_char_def Let_def of_char_of take_bit_int_eq_self)
  then show "list_all ascii s \<Longrightarrow> list_all ascii (py_lower s)" by (auto simp: py_lower_def list_all_iff)
qed

text \<open>A blocked word with an accent passes, beside a plain word that the asset does not contain.\<close>

theorem escaped_terms_are_missed_witness:
  "evaluate_asset_safety folding_env (PDict [(''post'', PStr [CHR ''c'', CHR ''a'', CHR ''f'', CHR 0xE9])])
     [[CHR ''c'', CHR ''a'', CHR ''f'', CHR 0xE9], ''bar''] [] [] = ''pass''"
proof -
  let ?e = "PDict [(''post'', PStr [CHR ''c'', CHR ''a'', CHR ''f'', CHR 0xE9])]"
  have "list_all ascii (casefold folding_env s)" if "list_all ascii s" for s
    using that ascii_py_lower by (simp add: folding_env_def)
  from escaped_terms_are_missed [OF this]
  have "evaluate_asset_safety folding_env ?e [[CHR ''c'', CHR ''a'', CHR ''f'', CHR 0xE9], ''bar''] [] []
    = evaluate_asset_safety folding_env ?e (findable folding_env [[CHR ''c'', CHR ''a'', CHR ''f'', CHR 0xE9], ''bar''])
        (findable folding_env []) (findable folding_env [])" by blast
  also have "\<dots> = ''pass''" by code_simp
  finally show ?thesis .
qed

end
