(* ===== verification/Growth_Policies.thy ===== *)
theory Growth_Policies
  imports Asset_Schemas Sessions
begin

text \<open>
  The policies of the weekly growth loop that need no database: the state machines of runs,
  plans and actions, the selection limit, keys and snapshots
  (\<open>policies/weekly_growth_policy.py\<close>), the transitions of an opportunity
  (\<open>policies/opportunity_transition_policy.py\<close>) and the roles (\<open>policies/access_policy.py\<close>).
\<close>

section \<open>State machines\<close>

text \<open>\<open>repr\<close> of a text without quotes and escapes.\<close>

definition py_repr :: "string \<Rightarrow> string" where
  "py_repr s = [CHR 0x27] @ s @ [CHR 0x27]"

definition transition :: "string \<Rightarrow> string \<Rightarrow> (string \<times> string list) list \<Rightarrow> string res" where
  "transition current target allowed =
     (if target = current then Inr target
      else if target \<notin> set (case map_of allowed current of None \<Rightarrow> [] | Some ts \<Rightarrow> ts)
      then Inl (DomainConflictError (''Invalid transition from '' @ py_repr current @ '' to ''
             @ py_repr target @ ''.''))
      else Inr target)"

definition transition_run :: "string \<Rightarrow> string \<Rightarrow> string res" where
  "transition_run current target = transition current target
     [(''pending'', [''running'', ''stopped'', ''failed'']),
      (''running'', [''completed'', ''stopped'', ''failed''])]"

definition transition_plan :: "string \<Rightarrow> string \<Rightarrow> string res" where
  "transition_plan current target = transition current target
     [(''preparing'', [''ready'', ''stopped'']),
      (''ready'', [''completed'', ''stopped''])]"

definition action_transitions :: "(string \<times> string list) list" where
  "action_transitions =
     [(''pending'', [''ready'', ''dismissed'']),
      (''ready'', [''executing'', ''dismissed'']),
      (''executing'', [''completed'', ''failed'', ''dismissed'']),
      (''failed'', [''ready'', ''dismissed''])]"

definition transition_action :: "string \<Rightarrow> string \<Rightarrow> string res" where
  "transition_action current target = transition current target action_transitions"

definition require_transition :: "string \<Rightarrow> string \<Rightarrow> bool \<Rightarrow> unit res" where
  "require_transition current target internal =
     (if (current = ''open'' \<and> target = ''dismissed'')
         \<or> (internal \<and> current \<in> {''open'', ''planned''} \<and> target = ''superseded'')
      then Inr ()
      else Inl (AppError ''InvalidOpportunityTransitionError''
             (''Invalid opportunity transition: '' @ current @ '' -> '' @ target @ ''.'')))"

section \<open>Selection, keys and snapshots\<close>

text \<open>A candidate is its id and its priority score, absent when the dictionary has none.\<close>

definition select_recommendations ::
  "(uuid \<times> rat option) list \<Rightarrow> int \<Rightarrow> (uuid \<times> rat option) list res" where
  "select_recommendations candidates limit =
     (if \<not> (0 \<le> limit \<and> limit \<le> 3)
      then Inl (ValueError ''Weekly plans may select between zero and three recommendations.'')
      else Inr (take (nat limit)
        (sort_key (\<lambda>(i, p). (- (case p of None \<Rightarrow> 0 | Some x \<Rightarrow> x), i)) candidates)))"

text \<open>The period start is given with its text, \<open>datetime.isoformat\<close>.\<close>

definition scheduled_weekly_key :: "uuid \<Rightarrow> string \<Rightarrow> string \<Rightarrow> string res" where
  "scheduled_weekly_key product_id period_start_text workflow_version =
     (if py_strip workflow_version = [] then Inl (ValueError ''workflow_version is required.'')
      else Inr (''weekly:'' @ product_id @ '':'' @ period_start_text @ '':'' @ workflow_version))"

definition assert_product_scope :: "uuid \<Rightarrow> uuid option \<Rightarrow> unit res" where
  "assert_product_scope expected actual =
     (if actual \<noteq> Some expected
      then Inl (DomainConflictError ''Resource does not belong to the requested product.'')
      else Inr ())"

definition assert_exact_asset_revision ::
  "uuid option \<Rightarrow> int option \<Rightarrow> uuid \<Rightarrow> int \<Rightarrow> unit res" where
  "assert_exact_asset_revision approved_asset_id approved_revision current_asset_id current_revision =
     (if approved_asset_id \<noteq> Some current_asset_id \<or> approved_revision \<noteq> Some current_revision
      then Inl (DomainConflictError ''Approval does not cover the exact current asset revision.'')
      else Inr ())"

definition invalidate_approval_after_edit :: "string \<Rightarrow> int \<Rightarrow> int \<Rightarrow> string" where
  "invalidate_approval_after_edit status approved_revision current_revision =
     (if status = ''approved'' \<and> approved_revision \<noteq> current_revision then ''pending'' else status)"

text \<open>An action of the snapshot: its id, its position and its recommendation.\<close>

definition optional_text :: "string option \<Rightarrow> string" where
  "optional_text v = (case v of None \<Rightarrow> ''None'' | Some s \<Rightarrow> s)"

definition build_plan_snapshot ::
  "uuid \<Rightarrow> uuid \<Rightarrow> int \<Rightarrow> (uuid \<times> int option \<times> uuid option) list \<Rightarrow> pyval list \<Rightarrow> pyval \<Rightarrow> pyval
     \<Rightarrow> pyval" where
  "build_plan_snapshot run_id plan_id revision actions no_recommendations shipped_summary search_summary =
     (let ordered = sort_key (\<lambda>(i, p, r). (optional_text (map_option int_text p), i)) actions in
      PDict [(''schemaVersion'', PInt 1), (''runId'', PStr run_id), (''planId'', PStr plan_id),
        (''revision'', PInt revision),
        (''actionIds'', PSeq (map (\<lambda>(i, p, r). PStr i) ordered)),
        (''recommendationIds'', PSeq (map (\<lambda>(i, p, r). PStr (optional_text r)) ordered)),
        (''noRecommendationOutcomes'', PSeq no_recommendations),
        (''shippedSummary'', shipped_summary), (''searchSummary'', search_summary)])"

section \<open>Roles\<close>

definition write_roles :: "string list" where
  "write_roles = [''owner'', ''admin'', ''editor'']"

definition review_roles :: "string list" where
  "review_roles = [''owner'', ''admin'', ''reviewer'']"

definition get_active_membership_role :: "membership_row list \<Rightarrow> uuid \<Rightarrow> uuid \<Rightarrow> string option" where
  "get_active_membership_role memberships workspace_id user_id =
     map_option ms_role (find (\<lambda>m. ms_workspace_id m = workspace_id \<and> ms_user_id m = user_id
       \<and> ms_is_active m) memberships)"

definition require_role :: "membership_row list \<Rightarrow> uuid \<Rightarrow> uuid \<Rightarrow> string list \<Rightarrow> unit res" where
  "require_role memberships workspace_id user_id allowed =
     (case get_active_membership_role memberships workspace_id user_id of
        None \<Rightarrow> Inl (NotFoundError ''operator_resource_not_found'')
      | Some role \<Rightarrow>
          if role \<notin> set allowed then Inl (ForbiddenError ''operator_write_forbidden'') else Inr ())"

section \<open>Facts\<close>

lemma transition_result: "transition a b t = Inr c \<Longrightarrow> c = b"
  by (auto simp: transition_def split: if_splits)

lemma transition_action_result: "transition_action a b = Inr c \<Longrightarrow> c = b"
  unfolding transition_action_def by (rule transition_result)

lemma transition_action_from:
  assumes "transition_action a b = Inr c" "a \<noteq> b"
  shows "(a, b) \<in> {(''pending'', ''ready''), (''pending'', ''dismissed''), (''ready'', ''executing''),
    (''ready'', ''dismissed''), (''executing'', ''completed''), (''executing'', ''failed''),
    (''executing'', ''dismissed''), (''failed'', ''ready''), (''failed'', ''dismissed'')}"
  using assms
  by (auto simp: transition_action_def transition_def action_transitions_def split: if_splits)

lemma transition_action_allowed [simp]:
  "transition_action ''pending'' ''ready'' = Inr ''ready''"
  "transition_action ''ready'' ''executing'' = Inr ''executing''"
  "transition_action ''executing'' ''completed'' = Inr ''completed''"
  by (simp_all add: transition_action_def transition_def action_transitions_def)

lemma transition_to_executing:
  "transition_action a ''executing'' = Inr c \<Longrightarrow> a \<in> {''ready'', ''executing''}"
  by (cases "a = ''executing''") (auto dest: transition_action_from)

lemma transition_to_completed:
  "transition_action a ''completed'' = Inr c \<Longrightarrow> a \<in> {''executing'', ''completed''}"
  by (cases "a = ''completed''") (auto dest: transition_action_from)

end
