(* ===== verification/Product_Events.thy ===== *)
theory Product_Events
  imports Idempotency Identity
begin

text \<open>
  The product event log of the analytics module: \<open>write_product_event\<close> of
  \<open>services/product_event_service.py\<close> with its repository and table. An event is identified by the
  workspace, the actor and an idempotency key; writing it again returns the stored event.

  The columns that the database fills in by default are left out.
\<close>

section \<open>Tables\<close>

record product_event =
  pe_id :: uuid
  pe_workspace_id :: uuid
  pe_product_id :: "uuid option"
  pe_actor_id :: "uuid option"
  pe_event_name :: string
  pe_idempotency_key :: string
  pe_payload_fingerprint :: string
  pe_resource_type :: "string option"
  pe_resource_id :: "uuid option"
  pe_resource_revision :: "int option"
  pe_report_ordinal :: "int option"
  pe_second_report_return :: "bool option"
  pe_fourth_report_return :: "bool option"
  pe_valid_no_recommendation_report :: "bool option"

record connection_row =
  cn_id :: uuid
  cn_workspace_id :: uuid
  cn_provider :: string

record repo_row =
  rp_id :: uuid
  rp_workspace_id :: uuid
  rp_is_tracked :: bool
  rp_tracking_generation :: int

record event_db =
  el_events :: "product_event list"
  el_connections :: "connection_row list"
  el_repos :: "repo_row list"

text \<open>What the caller of \<open>write_product_event\<close> passes.\<close>

record event_request =
  er_workspace_id :: uuid
  er_product_id :: "uuid option"
  er_actor_id :: "uuid option"
  er_event_name :: string
  er_idempotency_key :: string
  er_resource_type :: "string option"
  er_resource_id :: "uuid option"
  er_resource_revision :: "int option"
  er_report_ordinal :: "int option"
  er_second_report_return :: "bool option"
  er_fourth_report_return :: "bool option"
  er_valid_no_recommendation_report :: "bool option"

definition workspace_event_resources :: "(string \<times> string) list" where
  "workspace_event_resources =
     [(''github_installation_attached'', ''integration_connection''),
      (''repository_monitoring_enabled'', ''repository'')]"

definition event_names :: "string list" where
  "event_names =
     [''product_created'', ''github_installation_attached'', ''repository_monitoring_enabled'',
      ''product_profile_approved'', ''website_connected'', ''website_initial_crawl_completed'',
      ''search_console_connected'', ''search_property_selected'', ''search_baseline_viewed'',
      ''weekly_report_generated'', ''weekly_report_viewed'', ''recommendation_detail_viewed'',
      ''recommendation_feedback_submitted'', ''recommendation_accepted'', ''recommendation_dismissed'',
      ''asset_edited'', ''asset_approved'', ''asset_rejected'', ''action_dismissed'', ''action_started'',
      ''action_completed'', ''measurement_viewed'', ''measurement_completed'', ''weekly_email_delivered'',
      ''compatibility_route_viewed'']"

section \<open>Operations\<close>

definition event_fingerprint :: "engine_env \<Rightarrow> event_request \<Rightarrow> string" where
  "event_fingerprint env r = sha256 env (json_dumps (PDict
     [(''eventName'', PStr (er_event_name r)),
      (''productId'', PStr (case er_product_id r of None \<Rightarrow> ''None'' | Some p \<Rightarrow> p)),
      (''resourceType'', case er_resource_type r of None \<Rightarrow> PNone | Some t \<Rightarrow> PStr t),
      (''resourceId'', case er_resource_id r of None \<Rightarrow> PNone | Some i \<Rightarrow> PStr i),
      (''resourceRevision'', case er_resource_revision r of None \<Rightarrow> PNone | Some n \<Rightarrow> PInt n)]))"

text \<open>The resource of an event that belongs to the workspace must exist there.\<close>

definition owned_resource :: "event_db \<Rightarrow> event_request \<Rightarrow> uuid \<Rightarrow> bool" where
  "owned_resource db r rid \<longleftrightarrow>
     (if er_event_name r = ''github_installation_attached''
      then list_ex (\<lambda>c. cn_workspace_id c = er_workspace_id r \<and> cn_id c = rid
             \<and> cn_provider c = ''github_app'') (el_connections db)
      else list_ex (\<lambda>p. rp_workspace_id p = er_workspace_id r \<and> rp_id p = rid \<and> rp_is_tracked p
             \<and> er_resource_revision r = Some (rp_tracking_generation p)) (el_repos db))"

definition check_scope :: "event_db \<Rightarrow> event_request \<Rightarrow> unit res" where
  "check_scope db r =
     (case map_of workspace_event_resources (er_event_name r) of
        None \<Rightarrow> if er_product_id r = None
                then Inl (AppError ''EventScopeError'' ''Product-scoped events require a product ID.'')
                else Inr ()
      | Some expected \<Rightarrow>
          if er_product_id r \<noteq> None
          then Inl (AppError ''EventScopeError'' ''Workspace-scoped events cannot have a product ID.'')
          else (case er_resource_id r of
              None \<Rightarrow> Inl (AppError ''EventScopeError''
                        ''Workspace-scoped event resource type or ID is invalid.'')
            | Some rid \<Rightarrow>
                if er_resource_type r \<noteq> Some expected
                then Inl (AppError ''EventScopeError''
                       ''Workspace-scoped event resource type or ID is invalid.'')
                else if \<not> owned_resource db r rid
                then Inl (AppError ''EventScopeError''
                       ''Workspace-scoped event resource was not found.'')
                else Inr ()))"

definition get_event_by_actor_key ::
  "event_db \<Rightarrow> uuid \<Rightarrow> uuid option \<Rightarrow> string \<Rightarrow> product_event option" where
  "get_event_by_actor_key db workspace_id actor_id idempotency_key =
     find (\<lambda>e. pe_workspace_id e = workspace_id \<and> pe_actor_id e = actor_id
             \<and> pe_idempotency_key e = idempotency_key) (el_events db)"

definition add_event :: "product_event \<Rightarrow> event_db \<Rightarrow> event_db res" where
  "add_event e db =
     (if pe_event_name e \<in> set event_names \<and> pe_idempotency_key e \<noteq> []
         \<and> (pe_product_id e = None \<longleftrightarrow> pe_event_name e \<in> set (map fst workspace_event_resources))
         \<and> \<not> list_ex (\<lambda>x. pe_workspace_id x = pe_workspace_id e \<and> pe_actor_id x = pe_actor_id e
                \<and> pe_idempotency_key x = pe_idempotency_key e
                \<and> (pe_actor_id e = None \<longrightarrow> pe_event_name x = pe_event_name e)) (el_events db)
      then Inr (db\<lparr>el_events := el_events db @ [e]\<rparr>)
      else Inl (IntegrityError ''product_events''))"

definition new_product_event :: "engine_env \<Rightarrow> uuid \<Rightarrow> event_request \<Rightarrow> product_event" where
  "new_product_event env new_id r =
     \<lparr>pe_id = new_id, pe_workspace_id = er_workspace_id r, pe_product_id = er_product_id r,
      pe_actor_id = er_actor_id r, pe_event_name = er_event_name r,
      pe_idempotency_key = er_idempotency_key r, pe_payload_fingerprint = event_fingerprint env r,
      pe_resource_type = er_resource_type r, pe_resource_id = er_resource_id r,
      pe_resource_revision = er_resource_revision r,
      pe_report_ordinal = er_report_ordinal r, pe_second_report_return = er_second_report_return r,
      pe_fourth_report_return = er_fourth_report_return r,
      pe_valid_no_recommendation_report = er_valid_no_recommendation_report r\<rparr>"

text \<open>The flag of the result tells that the event was already there.\<close>

definition write_product_event ::
  "engine_env \<Rightarrow> uuid \<Rightarrow> event_request \<Rightarrow> event_db \<Rightarrow> ((product_event \<times> bool) \<times> event_db) res" where
  "write_product_event env new_id r db =
     res_bind (check_scope db r) (\<lambda>_.
       case get_event_by_actor_key db (er_workspace_id r) (er_actor_id r) (er_idempotency_key r) of
         Some existing \<Rightarrow>
           if pe_payload_fingerprint existing \<noteq> event_fingerprint env r
           then Inl (AppError ''EventIdempotencyConflictError'' [])
           else Inr ((existing, True), db)
       | None \<Rightarrow>
           res_bind (add_event (new_product_event env new_id r) db) (\<lambda>db'.
             Inr ((new_product_event env new_id r, False), db')))"

section \<open>Facts\<close>

lemma write_product_event_result:
  assumes "write_product_event env new_id r db = Inr ((e, dup), db')"
  shows "el_connections db' = el_connections db" "el_repos db' = el_repos db"
    and "el_events db' = el_events db @ (if dup then [] else [e])" "e \<in> set (el_events db')"
    and "pe_payload_fingerprint e = event_fingerprint env r"
    and "pe_workspace_id e = er_workspace_id r" "pe_actor_id e = er_actor_id r"
    and "pe_idempotency_key e = er_idempotency_key r"
  using assms
  by (auto simp: write_product_event_def res_bind_eq_Inr add_event_def get_event_by_actor_key_def
      new_product_event_def find_Some_iff split: option.splits if_splits)

text \<open>A product-scoped event is refused only when its key already names another event.\<close>

lemma write_product_event_ok:
  assumes "er_product_id r \<noteq> None" "er_event_name r \<in> set event_names" "er_idempotency_key r \<noteq> []"
    and "map_of workspace_event_resources (er_event_name r) = None"
    and "\<And>x. x \<in> set (el_events db) \<Longrightarrow> pe_workspace_id x = er_workspace_id r \<Longrightarrow>
           pe_actor_id x = er_actor_id r \<Longrightarrow> pe_idempotency_key x = er_idempotency_key r \<Longrightarrow>
           pe_payload_fingerprint x = event_fingerprint env r"
  shows "is_ok (write_product_event env new_id r db)"
proof (cases "get_event_by_actor_key db (er_workspace_id r) (er_actor_id r) (er_idempotency_key r)")
  case None
  then have "add_event (new_product_event env new_id r) db
      = Inr (db\<lparr>el_events := el_events db @ [new_product_event env new_id r]\<rparr>)"
    using assms(1-4)
    by (auto simp: add_event_def new_product_event_def get_event_by_actor_key_def find_None_iff
        list_ex_iff map_of_eq_None_iff image_iff)
  then show ?thesis using None assms(1,4) by (simp add: write_product_event_def check_scope_def)
next
  case (Some x)
  then have "pe_payload_fingerprint x = event_fingerprint env r"
    by (intro assms(5)) (auto simp: get_event_by_actor_key_def find_Some_iff)
  then show ?thesis using Some assms(1,4) by (simp add: write_product_event_def check_scope_def)
qed

end
