(* ===== verification/Growth_Store.thy ===== *)
theory Growth_Store
  imports Growth_Policies Product_Events Operator_Store Outbox
begin

text \<open>
  The tables of the weekly growth loop (\<open>models/\<close> of the operator module), the repository
  \<open>repositories/weekly_growth_repository.py\<close>, the receipts that make commands idempotent and the
  reading of search facts (\<open>services/measurement_service.py\<close>). Statuses are the texts that the
  code compares. Columns that the database fills in by default are left out; foreign keys and
  column lengths are not modelled.

  \<open>growth_env\<close> holds what comes from outside: the hash and the case folding of the engine, the
  sequence of random UUIDs and the dialect of the database. \<open>gd_drawn\<close> counts the UUIDs drawn.
\<close>

section \<open>Tables\<close>

record marketing_plan =
  mp_id :: uuid
  mp_workspace_id :: uuid
  mp_product_id :: "uuid option"
  mp_operator_run_id :: "uuid option"
  mp_title :: string
  mp_status :: string
  mp_period_start :: instant
  mp_period_end :: instant
  mp_idempotency_key :: string
  mp_provenance :: pyval
  mp_plan_revision :: "int option"
  mp_schema_version :: "int option"
  mp_selection_policy_version :: "string option"
  mp_finalized_at :: "instant option"
  mp_plan_snapshot :: "pyval option"
  mp_action_count :: "int option"
  mp_no_recommendation_count :: "int option"
  mp_created_by_actor_id :: uuid

record plan_action =
  pa_id :: uuid
  pa_workspace_id :: uuid
  pa_product_id :: "uuid option"
  pa_plan_id :: uuid
  pa_opportunity_id :: "uuid option"
  pa_title :: string
  pa_description :: string
  pa_evidence_ids :: "string list"
  pa_confidence :: string
  pa_missing_information :: "string list"
  pa_approval_level :: string
  pa_approval_status :: string
  pa_status :: string
  pa_cooldown_dedup_key :: string
  pa_idempotency_key :: string
  pa_provenance :: pyval
  pa_position :: "int option"
  pa_recommendation_id :: "uuid option"
  pa_prepared_output_type :: "string option"
  pa_expected_metric :: "(string \<times> pyval) list option"
  pa_measurement_window_days :: "int option"
  pa_estimated_effort :: "string option"
  pa_approved_asset_id :: "uuid option"
  pa_approved_asset_revision :: "int option"
  pa_measurement_due_at :: "instant option"
  pa_completed_by_actor_id :: "uuid option"
  pa_completed_at :: "instant option"
  pa_dismissed_by_actor_id :: "uuid option"
  pa_dismissed_at :: "instant option"
  pa_dismissal_reason :: "string option"
  pa_dismissal_comment :: "string option"

record prepared_asset =
  pr_id :: uuid
  pr_workspace_id :: uuid
  pr_product_id :: uuid
  pr_recommendation_id :: uuid
  pr_action_id :: "uuid option"
  pr_llm_execution_id :: uuid
  pr_revision :: int
  pr_kind :: string
  pr_structured_content :: pyval

record approval_request =
  ap_id :: uuid
  ap_workspace_id :: uuid
  ap_action_id :: uuid
  ap_product_id :: "uuid option"
  ap_asset_id :: "uuid option"
  ap_asset_revision :: "int option"
  ap_status :: string
  ap_reason :: "string option"
  ap_requested_by_actor_id :: uuid
  ap_decided_by_actor_id :: "uuid option"
  ap_decided_at :: "instant option"

record action_risk_review =
  rv_id :: uuid
  rv_workspace_id :: uuid
  rv_product_id :: uuid
  rv_asset_id :: uuid
  rv_asset_revision :: int
  rv_final_outcome :: string

record operator_recommendation =
  rc_id :: uuid
  rc_workspace_id :: uuid
  rc_product_id :: uuid
  rc_opportunity_id :: uuid
  rc_operator_run_id :: uuid
  rc_kind :: string
  rc_output :: pyval
  rc_accepted_at :: "instant option"
  rc_idempotency_key :: string

record recommendation_decision =
  rd_id :: uuid
  rd_workspace_id :: uuid
  rd_product_id :: uuid
  rd_recommendation_id :: uuid
  rd_decision :: string
  rd_reason :: "string option"
  rd_comment :: "string option"
  rd_actor_id :: uuid
  rd_created_at :: instant

record command_receipt =
  cr_id :: uuid
  cr_workspace_id :: uuid
  cr_product_id :: uuid
  cr_operation :: string
  cr_resource_id :: uuid
  cr_idempotency_key :: string
  cr_payload_fingerprint :: string
  cr_result_resource_id :: uuid

record action_event =
  ae_id :: uuid
  ae_workspace_id :: uuid
  ae_product_id :: uuid
  ae_action_id :: uuid
  ae_event_type :: string
  ae_previous_status :: "string option"
  ae_new_status :: string
  ae_actor_id :: uuid
  ae_reason :: "string option"
  ae_details :: pyval

text \<open>The values that \<open>read_search_measurement\<close> returns; the two ratios are stored as the texts of
  their decimals. The column \<open>baseline\<close> holds \<open>{}\<close> where \<open>baseline_value\<close> is null; both are an
  option here.\<close>

record measured_values =
  mv_clicks :: int
  mv_impressions :: int
  mv_ctr :: "rat option"
  mv_position :: "rat option"
  mv_query_id :: string
  mv_page_id :: string

record measurement_window =
  mw_id :: uuid
  mw_workspace_id :: uuid
  mw_action_id :: uuid
  mw_product_id :: "uuid option"
  mw_status :: string
  mw_starts_at :: instant
  mw_ends_at :: instant
  mw_metric_contract :: "(string \<times> pyval) list"
  mw_baseline :: "measured_values option"
  mw_result :: "(string \<times> string) list option"
  mw_idempotency_key :: string
  mw_provenance :: "(string \<times> string) list"
  mw_expected_metric :: "(string \<times> pyval) list"
  mw_baseline_period :: "string \<times> string"
  mw_baseline_value :: "measured_values option"
  mw_comparison_value :: "measured_values option"
  mw_due_at :: instant
  mw_collected_at :: "instant option"
  mw_outcome :: "string option"
  mw_unavailable_reason :: "string option"
  mw_limitations :: "string list"

record search_metric =
  sm_workspace_id :: uuid
  sm_product_id :: uuid
  sm_query_id :: "uuid option"
  sm_page_id :: "uuid option"
  sm_metric_date :: date
  sm_clicks :: int
  sm_impressions :: int
  sm_average_position :: "rat option"

record product_row =
  pd_id :: uuid
  pd_workspace_id :: uuid
  pd_user_id :: uuid

record product_repository =
  prp_id :: uuid
  prp_workspace_id :: uuid
  prp_product_id :: uuid
  prp_repo_id :: uuid
  prp_is_primary_repo :: bool

record draft_row =
  df_id :: uuid
  df_workspace_id :: uuid
  df_user_id :: uuid
  df_repo_id :: uuid
  df_content :: string
  df_source_event_type :: string
  df_source_event_payload :: pyval
  df_status :: string
  df_approved_at :: "instant option"
  df_prepared_asset_id :: "uuid option"
  df_prepared_asset_revision :: "int option"

record draft_status_event =
  dse_id :: uuid
  dse_workspace_id :: uuid
  dse_user_id :: uuid
  dse_repo_id :: uuid
  dse_draft_id :: uuid
  dse_status :: string
  dse_occurred_at :: instant

record growth_db =
  gd_operator :: operator_db
  gd_plans :: "marketing_plan list"
  gd_actions :: "plan_action list"
  gd_assets :: "prepared_asset list"
  gd_approvals :: "approval_request list"
  gd_reviews :: "action_risk_review list"
  gd_recommendations :: "operator_recommendation list"
  gd_decisions :: "recommendation_decision list"
  gd_receipts :: "command_receipt list"
  gd_action_events :: "action_event list"
  gd_measurements :: "measurement_window list"
  gd_events :: event_db
  gd_outbox :: outbox
  gd_drafts :: "draft_row list"
  gd_draft_events :: "draft_status_event list"
  gd_products :: "product_row list"
  gd_repositories :: "product_repository list"
  gd_search_metrics :: "search_metric list"
  gd_memberships :: "membership_row list"
  gd_drawn :: nat

record growth_env =
  ge_engine :: engine_env
  ge_uuid :: "nat \<Rightarrow> uuid"
  ge_dialect :: string

definition draw :: "growth_env \<Rightarrow> growth_db \<Rightarrow> uuid" where
  "draw env db = ge_uuid env (gd_drawn db)"

definition drawn :: "growth_db \<Rightarrow> growth_db" where
  "drawn db = db\<lparr>gd_drawn := gd_drawn db + 1\<rparr>"

section \<open>Repository\<close>

definition get_weekly_run :: "growth_db \<Rightarrow> uuid \<Rightarrow> uuid \<Rightarrow> uuid \<Rightarrow> operator_run option" where
  "get_weekly_run db workspace_id product_id rid =
     find (\<lambda>r. run_workspace_id r = workspace_id \<and> run_product_id r = Some product_id
       \<and> run_id r = rid \<and> run_run_kind r = RK_weekly_growth) (od_runs (gd_operator db))"

definition get_run_by_key :: "growth_db \<Rightarrow> uuid \<Rightarrow> uuid \<Rightarrow> string \<Rightarrow> operator_run option" where
  "get_run_by_key db workspace_id product_id idempotency_key =
     find (\<lambda>r. run_workspace_id r = workspace_id \<and> run_product_id r = Some product_id
       \<and> run_idempotency_key r = idempotency_key) (od_runs (gd_operator db))"

definition get_plan :: "growth_db \<Rightarrow> uuid \<Rightarrow> uuid \<Rightarrow> uuid \<Rightarrow> marketing_plan option" where
  "get_plan db workspace_id product_id plan_id =
     find (\<lambda>p. mp_workspace_id p = workspace_id \<and> mp_product_id p = Some product_id
       \<and> mp_id p = plan_id) (gd_plans db)"

definition get_action :: "growth_db \<Rightarrow> uuid \<Rightarrow> uuid \<Rightarrow> uuid \<Rightarrow> plan_action option" where
  "get_action db workspace_id product_id action_id =
     find (\<lambda>a. pa_workspace_id a = workspace_id \<and> pa_product_id a = Some product_id
       \<and> pa_id a = action_id) (gd_actions db)"

definition get_recommendation :: "growth_db \<Rightarrow> uuid \<Rightarrow> uuid \<Rightarrow> uuid \<Rightarrow> operator_recommendation option" where
  "get_recommendation db workspace_id product_id recommendation_id =
     find (\<lambda>r. rc_workspace_id r = workspace_id \<and> rc_product_id r = product_id
       \<and> rc_id r = recommendation_id) (gd_recommendations db)"

definition get_exact_asset :: "growth_db \<Rightarrow> uuid \<Rightarrow> uuid \<Rightarrow> uuid \<Rightarrow> int \<Rightarrow> prepared_asset option" where
  "get_exact_asset db workspace_id product_id asset_id revision =
     find (\<lambda>x. pr_workspace_id x = workspace_id \<and> pr_product_id x = product_id
       \<and> pr_id x = asset_id \<and> pr_revision x = revision) (gd_assets db)"

definition get_pending_approval :: "growth_db \<Rightarrow> uuid \<Rightarrow> uuid \<Rightarrow> uuid \<Rightarrow> approval_request option" where
  "get_pending_approval db workspace_id product_id action_id =
     find (\<lambda>x. ap_workspace_id x = workspace_id \<and> ap_product_id x = Some product_id
       \<and> ap_action_id x = action_id \<and> ap_status x = ''pending'') (gd_approvals db)"

text \<open>\<open>ORDER BY position, id\<close>; a null position comes last.\<close>

definition list_plan_actions :: "growth_db \<Rightarrow> uuid \<Rightarrow> uuid \<Rightarrow> uuid \<Rightarrow> plan_action list" where
  "list_plan_actions db workspace_id product_id plan_id =
     sort_key (\<lambda>a. (pa_position a = None, case pa_position a of None \<Rightarrow> 0 | Some n \<Rightarrow> n, pa_id a))
       (filter (\<lambda>a. pa_workspace_id a = workspace_id \<and> pa_product_id a = Some product_id
          \<and> pa_plan_id a = plan_id) (gd_actions db))"

text \<open>Assigning to the attributes of a loaded row updates the row with its primary key.\<close>

definition update_action :: "uuid \<Rightarrow> (plan_action \<Rightarrow> plan_action) \<Rightarrow> growth_db \<Rightarrow> growth_db" where
  "update_action aid f db = db\<lparr>gd_actions := map (\<lambda>a. if pa_id a = aid then f a else a) (gd_actions db)\<rparr>"

definition update_approval :: "uuid \<Rightarrow> (approval_request \<Rightarrow> approval_request) \<Rightarrow> growth_db \<Rightarrow> growth_db" where
  "update_approval i f db = db\<lparr>gd_approvals := map (\<lambda>x. if ap_id x = i then f x else x) (gd_approvals db)\<rparr>"

definition update_recommendation ::
  "uuid \<Rightarrow> (operator_recommendation \<Rightarrow> operator_recommendation) \<Rightarrow> growth_db \<Rightarrow> growth_db" where
  "update_recommendation i f db =
     db\<lparr>gd_recommendations := map (\<lambda>x. if rc_id x = i then f x else x) (gd_recommendations db)\<rparr>"

section \<open>Commands\<close>

text \<open>The key of a command: its tenant, operation, resource and idempotency key.\<close>

record command =
  cm_workspace_id :: uuid
  cm_product_id :: uuid
  cm_operation :: string
  cm_resource_id :: uuid
  cm_idempotency_key :: string
  cm_fingerprint :: string

definition same_command :: "command \<Rightarrow> command_receipt \<Rightarrow> bool" where
  "same_command c r \<longleftrightarrow> cr_workspace_id r = cm_workspace_id c \<and> cr_product_id r = cm_product_id c
     \<and> cr_operation r = cm_operation c \<and> cr_resource_id r = cm_resource_id c
     \<and> cr_idempotency_key r = cm_idempotency_key c"

definition command_replay :: "command \<Rightarrow> growth_db \<Rightarrow> uuid option res" where
  "command_replay c db =
     (case find (same_command c) (gd_receipts db) of
        None \<Rightarrow> Inr None
      | Some receipt \<Rightarrow>
          if cr_payload_fingerprint receipt \<noteq> cm_fingerprint c
          then Inl (CommandIdempotencyConflictError ''Idempotency key was used with another payload.'')
          else Inr (Some (cr_result_resource_id receipt)))"

definition record_command :: "growth_env \<Rightarrow> command \<Rightarrow> uuid \<Rightarrow> growth_db \<Rightarrow> growth_db res" where
  "record_command env c result_resource_id db =
     (if list_ex (same_command c) (gd_receipts db)
      then Inl (IntegrityError ''uq_operator_command_receipts_command'')
      else Inr ((drawn db)\<lparr>gd_receipts := gd_receipts db @
        [\<lparr>cr_id = draw env db, cr_workspace_id = cm_workspace_id c, cr_product_id = cm_product_id c,
          cr_operation = cm_operation c, cr_resource_id = cm_resource_id c,
          cr_idempotency_key = cm_idempotency_key c, cr_payload_fingerprint = cm_fingerprint c,
          cr_result_resource_id = result_resource_id\<rparr>]\<rparr>))"

definition command_fingerprint :: "growth_env \<Rightarrow> pyval \<Rightarrow> string" where
  "command_fingerprint env payload = sha256 (ge_engine env) (json_dumps payload)"

text \<open>The frame of a use case: an exception rolls the session back.\<close>

definition use_case :: "(growth_db \<Rightarrow> ('a \<times> growth_db) res) \<Rightarrow> growth_db \<Rightarrow> 'a res \<times> growth_db" where
  "use_case body db = (case body db of Inl e \<Rightarrow> (Inl e, db) | Inr (x, db') \<Rightarrow> (Inr x, db'))"

text \<open>Writing a product event and an outbox event from a use case.\<close>

definition log_event :: "growth_env \<Rightarrow> event_request \<Rightarrow> growth_db \<Rightarrow> growth_db res" where
  "log_event env r db =
     res_bind (write_product_event (ge_engine env) (draw env db) r (gd_events db)) (\<lambda>(_, events).
       Inr ((drawn db)\<lparr>gd_events := events\<rparr>))"

definition enqueue :: "growth_env \<Rightarrow> outbox_event \<Rightarrow> growth_db \<Rightarrow> growth_db res" where
  "enqueue env row db =
     (if is_ok (validate_metadata (ob_metadata_payload row))
      then res_bind (enqueue_outbox_event (ge_dialect env) row (gd_outbox db)) (\<lambda>(_, table).
        Inr ((drawn db)\<lparr>gd_outbox := table\<rparr>))
      else Inl (ValidationError ''metadata''))"

section \<open>Search facts\<close>

definition search_metrics :: "string list" where
  "search_metrics = [''clicks'', ''impressions'', ''ctr'', ''position'', ''average_position'']"

text \<open>\<open>str\<close> of a JSON scalar, Python truth and \<open>a or b\<close> on optional JSON values.\<close>

fun py_str :: "pyval \<Rightarrow> string" where
  "py_str (PStr s) = s"
| "py_str (PText s) = s"
| "py_str (PInt n) = int_text n"
| "py_str (PBool b) = (if b then ''True'' else ''False'')"
| "py_str PNone = ''None''"
| "py_str v = json_dumps v"

fun py_truthy :: "pyval option \<Rightarrow> bool" where
  "py_truthy None = False"
| "py_truthy (Some (PStr s)) = (s \<noteq> [])"
| "py_truthy (Some (PText s)) = (s \<noteq> [])"
| "py_truthy (Some (PInt n)) = (n \<noteq> 0)"
| "py_truthy (Some (PBool b)) = b"
| "py_truthy (Some PNone) = False"
| "py_truthy (Some (PSeq xs)) = (xs \<noteq> [])"
| "py_truthy (Some (PDict kvs)) = (kvs \<noteq> [])"

definition py_or :: "pyval option \<Rightarrow> pyval option \<Rightarrow> pyval option" where
  "py_or a b = (if py_truthy a then a else b)"

text \<open>\<open>UUID(text)\<close>: 32 hexadecimal digits once braces and hyphens are gone, printed in groups.\<close>

definition is_hex :: "char \<Rightarrow> bool" where
  "is_hex c = (let n = (of_char c :: int)
     in (48 \<le> n \<and> n \<le> 57) \<or> (97 \<le> n \<and> n \<le> 102) \<or> (65 \<le> n \<and> n \<le> 70))"

definition parse_uuid :: "string \<Rightarrow> uuid res" where
  "parse_uuid s =
     (let brace = (\<lambda>c. c = CHR ''{'' \<or> c = CHR ''}'');
          h = filter (\<lambda>c. c \<noteq> CHR ''-'') (lstrip_by brace (rstrip_by brace s))
      in if length h \<noteq> 32 \<or> \<not> list_all is_hex h
         then Inl (ValueError ''badly formed hexadecimal UUID string'')
         else let l = py_lower h in
           Inr (take 8 l @ ''-'' @ take 4 (drop 8 l) @ ''-'' @ take 4 (drop 12 l) @ ''-''
             @ take 4 (drop 16 l) @ ''-'' @ drop 20 l))"

definition positioned :: "search_metric list \<Rightarrow> (rat \<times> int) list" where
  "positioned rows = concat (map (\<lambda>r. case sm_average_position r of
     None \<Rightarrow> [] | Some p \<Rightarrow> if p = 0 then [] else [(p, sm_impressions r)]) rows)"

definition average_position :: "search_metric list \<Rightarrow> rat option" where
  "average_position rows =
     (let ps = positioned rows; total = sum_list (map snd ps) in
      if ps = [] \<or> total = 0 then None
      else Some (dec_div (foldl (\<lambda>s (p, w). dec_add s (dec_mul p (of_int w))) 0 ps) (of_int total)))"

definition read_search_measurement ::
  "search_metric list \<Rightarrow> uuid \<Rightarrow> uuid \<Rightarrow> (string \<times> pyval) list \<Rightarrow> date \<Rightarrow> date
     \<Rightarrow> measured_values option res" where
  "read_search_measurement table workspace_id product_id contract starts_on ends_on =
     (let metric = (case map_of contract ''metric'' of None \<Rightarrow> [] | Some m \<Rightarrow> py_str m);
          query_id = py_or (map_of contract ''queryId'') (map_of contract ''query_id'');
          page_id = py_or (map_of contract ''pageId'') (map_of contract ''page_id'')
      in if metric \<notin> set search_metrics \<or> \<not> py_truthy query_id \<or> \<not> py_truthy page_id
         then Inr None
         else let q = py_str (the query_id); p = py_str (the page_id) in
           res_bind (parse_uuid q) (\<lambda>qid. res_bind (parse_uuid p) (\<lambda>pid.
             let rows = filter (\<lambda>r. sm_workspace_id r = workspace_id \<and> sm_product_id r = product_id
                   \<and> sm_query_id r = Some qid \<and> sm_page_id r = Some pid
                   \<and> starts_on \<le> sm_metric_date r \<and> sm_metric_date r < ends_on) table
             in if rows = [] then Inr None
                else let clicks = sum_list (map sm_clicks rows);
                         impressions = sum_list (map sm_impressions rows)
                  in Inr (Some \<lparr>mv_clicks = clicks, mv_impressions = impressions,
                       mv_ctr = (if impressions \<noteq> 0
                         then Some (dec_div (of_int clicks) (of_int impressions)) else None),
                       mv_position = average_position rows, mv_query_id = q, mv_page_id = p\<rparr>))))"

section \<open>Facts\<close>

lemma update_action_simps [simp]:
  "gd_actions (update_action aid f db) = map (\<lambda>a. if pa_id a = aid then f a else a) (gd_actions db)"
  "gd_assets (update_action aid f db) = gd_assets db"
  "gd_approvals (update_action aid f db) = gd_approvals db"
  "gd_reviews (update_action aid f db) = gd_reviews db"
  "gd_receipts (update_action aid f db) = gd_receipts db"
  "gd_measurements (update_action aid f db) = gd_measurements db"
  by (simp_all add: update_action_def)

lemma update_approval_simps [simp]:
  "gd_approvals (update_approval i g db) = map (\<lambda>x. if ap_id x = i then g x else x) (gd_approvals db)"
  "gd_actions (update_approval i g db) = gd_actions db"
  "gd_assets (update_approval i g db) = gd_assets db"
  "gd_reviews (update_approval i g db) = gd_reviews db"
  "gd_receipts (update_approval i g db) = gd_receipts db"
  "gd_measurements (update_approval i g db) = gd_measurements db"
  by (simp_all add: update_approval_def)

lemma update_recommendation_simps [simp]:
  "gd_actions (update_recommendation i h db) = gd_actions db"
  "gd_assets (update_recommendation i h db) = gd_assets db"
  "gd_approvals (update_recommendation i h db) = gd_approvals db"
  "gd_reviews (update_recommendation i h db) = gd_reviews db"
  "gd_receipts (update_recommendation i h db) = gd_receipts db"
  "gd_measurements (update_recommendation i h db) = gd_measurements db"
  by (simp_all add: update_recommendation_def)

lemma drawn_simps [simp]:
  "gd_actions (drawn db) = gd_actions db" "gd_assets (drawn db) = gd_assets db"
  "gd_approvals (drawn db) = gd_approvals db" "gd_reviews (drawn db) = gd_reviews db"
  "gd_receipts (drawn db) = gd_receipts db" "gd_measurements (drawn db) = gd_measurements db"
  by (simp_all add: drawn_def)

text \<open>The tables of approval: what the log, the outbox and the receipts do not touch.\<close>

definition same_approval_tables :: "growth_db \<Rightarrow> growth_db \<Rightarrow> bool" where
  "same_approval_tables db db' \<longleftrightarrow> gd_actions db' = gd_actions db \<and> gd_assets db' = gd_assets db
     \<and> gd_approvals db' = gd_approvals db \<and> gd_reviews db' = gd_reviews db"

lemma same_approval_refl [simp]: "same_approval_tables db db"
  by (simp add: same_approval_tables_def)

lemma same_approval_trans [trans]:
  "same_approval_tables a b \<Longrightarrow> same_approval_tables b c \<Longrightarrow> same_approval_tables a c"
  by (simp add: same_approval_tables_def)

lemma log_event_tables: "log_event env r db = Inr db' \<Longrightarrow> same_approval_tables db db'
    \<and> gd_receipts db' = gd_receipts db"
  by (auto simp: log_event_def res_bind_eq_Inr same_approval_tables_def drawn_def)

lemma record_command_tables: "record_command env c i db = Inr db' \<Longrightarrow> same_approval_tables db db'"
  by (auto simp: record_command_def same_approval_tables_def drawn_def split: if_splits)

lemma record_command_receipt:
  assumes "record_command env c i db = Inr db'"
  shows "find (same_command c) (gd_receipts db) = None"
    and "\<exists>r. find (same_command c) (gd_receipts db') = Some r \<and> cr_payload_fingerprint r = cm_fingerprint c
      \<and> cr_result_resource_id r = i"
proof -
  show none: "find (same_command c) (gd_receipts db) = None"
    using assms by (auto simp: record_command_def find_None_iff list_ex_iff split: if_splits)
  show "\<exists>r. find (same_command c) (gd_receipts db') = Some r
      \<and> cr_payload_fingerprint r = cm_fingerprint c \<and> cr_result_resource_id r = i"
    using assms find_snoc [OF none] by (auto simp: record_command_def same_command_def split: if_splits)
qed

lemma enqueue_tables: "enqueue env row db = Inr db' \<Longrightarrow> same_approval_tables db db'
    \<and> gd_receipts db' = gd_receipts db"
  by (auto simp: enqueue_def res_bind_eq_Inr same_approval_tables_def drawn_def split: if_splits)

end
