(* ===== verification/Growth_Plans.thy ===== *)
theory Growth_Plans
  imports Growth_Store
begin

text \<open>
  The first half of the weekly growth loop (\<open>services/weekly_growth_service.py\<close>): weekly runs, the
  selection of the opportunities of a detection run, canonical plans and their finalization.
  An operation takes the clock as \<open>now\<close> where the code reads it.
\<close>

section \<open>Weekly runs\<close>

text \<open>\<open>datetime.isoformat\<close> of an instant in UTC.\<close>

definition isoformat_utc :: "instant \<Rightarrow> string" where
  "isoformat_utc t =
     (let us = t mod day_us; s = us div 1000000; f = us mod 1000000 in
      date_isoformat (t div day_us) @ ''T'' @ pad_text 2 (nat_text (s div 3600)) @ '':''
        @ pad_text 2 (nat_text (s div 60 mod 60)) @ '':'' @ pad_text 2 (nat_text (s mod 60))
        @ (if f = 0 then [] else ''.'' @ pad_text 6 (nat_text f)) @ ''+00:00'')"

definition add_run :: "operator_run \<Rightarrow> growth_db \<Rightarrow> growth_db res" where
  "add_run run db =
     (if run_trigger run \<in> {''manual'', ''scheduled'', ''significant_event''} \<and> run_idempotency_key run \<noteq> []
         \<and> \<not> list_ex (\<lambda>r. run_workspace_id r = run_workspace_id run \<and> run_product_id r = run_product_id run
                \<and> (run_idempotency_key r = run_idempotency_key run
                   \<or> (run_run_kind run = RK_weekly_growth \<and> run_run_kind r = RK_weekly_growth
                      \<and> run_logical_period_start run \<noteq> None
                      \<and> run_logical_period_start r = run_logical_period_start run
                      \<and> run_workflow_version r = run_workflow_version run)))
              (od_runs (gd_operator db))
      then Inr (db\<lparr>gd_operator := (gd_operator db)\<lparr>od_runs := od_runs (gd_operator db) @ [run]\<rparr>\<rparr>)
      else Inl (IntegrityError ''operator_runs''))"

definition new_weekly_run ::
  "uuid \<Rightarrow> uuid \<Rightarrow> uuid \<Rightarrow> uuid \<Rightarrow> instant \<Rightarrow> instant \<Rightarrow> string \<Rightarrow> string \<Rightarrow> string \<Rightarrow> operator_run" where
  "new_weekly_run rid workspace_id product_id actor_id period_start period_end workflow_version trigger key =
     \<lparr>run_id = rid, run_workspace_id = workspace_id, run_product_id = Some product_id,
      run_run_kind = RK_weekly_growth, run_trigger = trigger, run_status = RS_pending,
      run_idempotency_key = key, run_request_fingerprint = None, run_input_fingerprint = None,
      run_input_schema_version = None, run_detector_suite_version = None,
      run_quality_policy_version = None, run_scoring_policy_version = None,
      run_cooldown_policy_version = None, run_as_of = None, run_lease_owner = None,
      run_lease_expires_at = None, run_failure_category = None,
      run_logical_period_start = Some period_start, run_logical_period_end = Some period_end,
      run_workflow_version = Some workflow_version, run_current_stage = Some ''created'',
      run_stage_summary = Some (PDict []), run_finalized_at = None, run_stopped_reason = None,
      run_analyzer_version = workflow_version, run_provenance = PDict [], run_summary = PDict [],
      run_completed_at = None, run_created_by_actor_id = actor_id\<rparr>"

definition active_weekly_run :: "growth_db \<Rightarrow> uuid \<Rightarrow> uuid \<Rightarrow> operator_run option" where
  "active_weekly_run db workspace_id product_id =
     find (\<lambda>r. run_workspace_id r = workspace_id \<and> run_product_id r = Some product_id
       \<and> run_run_kind r = RK_weekly_growth \<and> run_status r \<in> {RS_pending, RS_running})
       (od_runs (gd_operator db))"

definition create_weekly_run ::
  "growth_env \<Rightarrow> uuid \<Rightarrow> uuid \<Rightarrow> uuid \<Rightarrow> instant \<Rightarrow> instant \<Rightarrow> string \<Rightarrow> string \<Rightarrow> string option \<Rightarrow> growth_db
     \<Rightarrow> (operator_run \<times> growth_db) res" where
  "create_weekly_run env workspace_id product_id actor_id period_start period_end workflow_version
      trigger idempotency_key db =
     (if period_end \<le> period_start then Inl (ValueError ''period_end must be after period_start.'')
      else res_bind (if trigger = ''scheduled''
                     then scheduled_weekly_key product_id (isoformat_utc period_start) workflow_version
                     else Inr (py_strip (text_or idempotency_key [])))
        (\<lambda>key.
          if key = [] then Inl (ValueError ''Manual runs require a caller-supplied idempotency key.'')
          else case get_run_by_key db workspace_id product_id key of
              Some replay \<Rightarrow> Inr (replay, db)
            | None \<Rightarrow> (case active_weekly_run db workspace_id product_id of
                Some active \<Rightarrow> Inl (AppError ''ActiveWeeklyRunConflictError''
                    ''Another weekly growth run is already active for this product.'')
              | None \<Rightarrow>
                  let run = new_weekly_run (draw env db) workspace_id product_id actor_id period_start
                              period_end workflow_version trigger key
                  in res_bind (add_run run (drawn db)) (\<lambda>db'. Inr (run, db')))))"

text \<open>The metadata of an event that points to a resource of a product.\<close>

definition pointer_metadata :: "string \<Rightarrow> uuid \<Rightarrow> uuid \<Rightarrow> uuid \<Rightarrow> metadata" where
  "pointer_metadata id_key rid workspace_id product_id =
     [(id_key, MD_scalar (MD_str rid)), (''workspaceId'', MD_scalar (MD_str workspace_id)),
      (''productId'', MD_scalar (MD_str product_id)), (''schemaVersion'', MD_scalar (MD_int 1)),
      (''correlationId'', MD_scalar (MD_str rid))]"

definition resource_event ::
  "growth_env \<Rightarrow> instant \<Rightarrow> string \<Rightarrow> string \<Rightarrow> uuid \<Rightarrow> uuid \<Rightarrow> uuid \<Rightarrow> instant option \<Rightarrow> growth_db \<Rightarrow> outbox_event" where
  "resource_event env now event_name id_key rid workspace_id product_id available_at db =
     new_event (draw env db) now event_name 1 rid (pointer_metadata id_key rid workspace_id product_id)
       None (Some rid) (Some workspace_id) (Some product_id) available_at"

text \<open>\<open>readiness\<close> is the outcome of \<open>require_operator_run_ready\<close>, which only reads.\<close>

definition request_manual_weekly_run ::
  "growth_env \<Rightarrow> instant \<Rightarrow> unit res \<Rightarrow> uuid \<Rightarrow> uuid \<Rightarrow> uuid \<Rightarrow> instant \<Rightarrow> instant \<Rightarrow> string \<Rightarrow> string \<Rightarrow> growth_db
     \<Rightarrow> (operator_run \<times> growth_db) res" where
  "request_manual_weekly_run env now readiness workspace_id product_id actor_id period_start period_end
      workflow_version idempotency_key db =
     (if period_end \<le> period_start then Inl (ValueError ''period_end must be after period_start.'')
      else res_bind (require_role (gd_memberships db) workspace_id actor_id write_roles) (\<lambda>_.
        case find (\<lambda>p. pd_workspace_id p = workspace_id \<and> pd_id p = product_id) (gd_products db) of
          None \<Rightarrow> Inl (LookupError ''Product not found.'')
        | Some _ \<Rightarrow> res_bind readiness (\<lambda>_.
            res_bind (create_weekly_run env workspace_id product_id actor_id period_start period_end
                        workflow_version ''manual'' (Some idempotency_key) db) (\<lambda>(run, db1).
            res_bind (enqueue env (resource_event env now ''operator/weekly-growth.requested'' ''runId''
                        (run_id run) workspace_id product_id None db1) db1) (\<lambda>db2.
            Inr (run, db2))))))"

section \<open>Selection and plans\<close>

definition accepted_pairs :: "operator_db \<Rightarrow> operator_run \<Rightarrow> uuid \<Rightarrow> (opportunity_row \<times> evaluation_row) list" where
  "accepted_pairs odb run detection_run_id =
     concat (map (\<lambda>e. map (\<lambda>x. (x, e))
       (filter (\<lambda>x. evr_accepted_opportunity_id e = Some (opp_id x)
            \<and> opp_workspace_id x = run_workspace_id run \<and> opp_product_id x = run_product_id run
            \<and> opp_status x = OS_open) (od_opportunities odb)))
       (filter (\<lambda>e. evr_workspace_id e = run_workspace_id run \<and> Some (evr_product_id e) = run_product_id run
            \<and> evr_operator_run_id e = detection_run_id \<and> evr_outcome e = EO_accepted) (od_evaluations odb)))"

definition selection_key :: "opportunity_row \<times> evaluation_row \<Rightarrow> bool \<times> rat \<times> uuid" where
  "selection_key = (\<lambda>(_, e). (evr_priority_score e = None,
     - (case evr_priority_score e of None \<Rightarrow> 0 | Some p \<Rightarrow> p), evr_id e))"

definition summary_items :: "pyval option \<Rightarrow> (string \<times> pyval) list" where
  "summary_items s = (case s of Some (PDict kvs) \<Rightarrow> kvs | _ \<Rightarrow> [])"

definition replay_selection ::
  "operator_db \<Rightarrow> operator_run \<Rightarrow> pyval list \<Rightarrow> opportunity_row list res" where
  "replay_selection odb run values =
     res_bind (res_map (\<lambda>v. parse_uuid (py_str v)) values) (\<lambda>ids.
       let rows = filter (\<lambda>x. opp_workspace_id x = run_workspace_id run \<and> opp_product_id x = run_product_id run
             \<and> opp_id x \<in> set ids) (od_opportunities odb);
           by_id = dict_of (map (\<lambda>x. (opp_id x, x)) rows)
       in if length (fromkeys (map opp_id rows)) \<noteq> length ids
          then Inl (DomainConflictError ''Persisted weekly selection is incomplete.'')
          else res_map (\<lambda>i. case by_id i of None \<Rightarrow> Inl (KeyError i) | Some x \<Rightarrow> Inr x) ids)"

definition select_current_run_opportunities ::
  "operator_run \<Rightarrow> uuid \<Rightarrow> int \<Rightarrow> growth_db \<Rightarrow> (opportunity_row list \<times> growth_db) res" where
  "select_current_run_opportunities run detection_run_id limit db =
     (if run_product_id run = None \<or> run_run_kind run \<noteq> RK_weekly_growth
      then Inl (DomainConflictError ''Selection requires a product-scoped weekly run.'')
      else if \<not> (0 \<le> limit \<and> limit \<le> 3)
      then Inl (ValueError ''Weekly selection limit must be between zero and three.'')
      else let summary = summary_items (run_stage_summary run) in
        case map_of summary ''selectedOpportunityIds'' of
          Some (PSeq values) \<Rightarrow>
            (if values = [] then Inr ([], db)
             else res_bind (replay_selection (gd_operator db) run values) (\<lambda>rows. Inr (rows, db)))
        | _ \<Rightarrow>
            let selected = map fst (take (nat limit)
                  (sort_key selection_key (accepted_pairs (gd_operator db) run detection_run_id)));
                summary' = AList.update ''selectedOpportunityIds'' (PSeq (map (\<lambda>x. PStr (opp_id x)) selected))
                  (AList.update ''detectionRunId'' (PStr detection_run_id) summary)
            in Inr (selected, db\<lparr>gd_operator := update_run (run_id run)
                 (\<lambda>r. r\<lparr>run_stage_summary := Some (PDict summary'), run_current_stage := Some ''selected''\<rparr>)
                 (gd_operator db)\<rparr>))"

record action_values =
  av_title :: string
  av_description :: string
  av_evidence_ids :: "string list"
  av_prepared_output_type :: string
  av_expected_metric :: "(string \<times> pyval) list"
  av_provenance :: "(string \<times> pyval) list"

definition recommendation_action_values :: "pyval \<Rightarrow> action_values res" where
  "recommendation_action_values output =
     res_bind (RecommendationOutput output) (\<lambda>parsed.
       if py_get parsed ''kind'' \<noteq> Some (PStr ''recommendation'')
       then Inl (DomainConflictError ''Canonical actions require recommendation output.'')
       else Inr \<lparr>av_title = py_text (py_get parsed ''title''),
              av_description = py_text (py_get parsed ''rationale''),
              av_evidence_ids = py_texts (py_get parsed ''evidence_ids''),
              av_prepared_output_type = py_text (py_get parsed ''output_type''),
              av_expected_metric = [(''name'', PStr (py_text (py_get parsed ''expected_metric'')))],
              av_provenance = [(''actionFamily'', PStr (py_text (py_get parsed ''action_family''))),
                (''claims'', PSeq (map PStr (py_texts (py_get parsed ''claims''))))]\<rparr>)"

definition add_plan :: "marketing_plan \<Rightarrow> growth_db \<Rightarrow> growth_db res" where
  "add_plan plan db =
     (if mp_period_start plan < mp_period_end plan \<and> mp_idempotency_key plan \<noteq> []
         \<and> \<not> list_ex (\<lambda>p. mp_id p = mp_id plan \<or> (mp_workspace_id p = mp_workspace_id plan
                \<and> mp_idempotency_key p = mp_idempotency_key plan)) (gd_plans db)
      then Inr (db\<lparr>gd_plans := gd_plans db @ [plan]\<rparr>)
      else Inl (IntegrityError ''marketing_plans''))"

definition add_action :: "plan_action \<Rightarrow> growth_db \<Rightarrow> growth_db res" where
  "add_action action db =
     (if list_ex (\<lambda>a. pa_id a = pa_id action \<or> (pa_workspace_id a = pa_workspace_id action
            \<and> pa_idempotency_key a = pa_idempotency_key action)) (gd_actions db)
      then Inl (IntegrityError ''plan_actions'')
      else Inr (db\<lparr>gd_actions := gd_actions db @ [action]\<rparr>))"

definition new_action ::
  "uuid \<Rightarrow> marketing_plan \<Rightarrow> int \<Rightarrow> operator_recommendation \<Rightarrow> action_values \<Rightarrow> plan_action" where
  "new_action aid plan position r v =
     \<lparr>pa_id = aid, pa_workspace_id = mp_workspace_id plan, pa_product_id = mp_product_id plan,
      pa_plan_id = mp_id plan, pa_opportunity_id = Some (rc_opportunity_id r),
      pa_title = av_title v, pa_description = av_description v, pa_evidence_ids = av_evidence_ids v,
      pa_confidence = ''medium'', pa_missing_information = [], pa_approval_level = ''review'',
      pa_approval_status = ''pending'', pa_status = ''pending'',
      pa_cooldown_dedup_key = ''recommendation:'' @ rc_id r,
      pa_idempotency_key = mp_idempotency_key plan @ '':action:'' @ rc_id r,
      pa_provenance = PDict ((''recommendationId'', PStr (rc_id r)) # av_provenance v),
      pa_position = Some position, pa_recommendation_id = Some (rc_id r),
      pa_prepared_output_type = Some (av_prepared_output_type v),
      pa_expected_metric = Some (av_expected_metric v), pa_measurement_window_days = Some 28,
      pa_estimated_effort = Some ''medium'', pa_approved_asset_id = None,
      pa_approved_asset_revision = None, pa_measurement_due_at = None, pa_completed_by_actor_id = None,
      pa_completed_at = None, pa_dismissed_by_actor_id = None, pa_dismissed_at = None,
      pa_dismissal_reason = None, pa_dismissal_comment = None\<rparr>"

fun add_plan_actions ::
  "growth_env \<Rightarrow> marketing_plan \<Rightarrow> int \<Rightarrow> operator_recommendation list \<Rightarrow> growth_db \<Rightarrow> growth_db res" where
  "add_plan_actions env plan position [] db = Inr db"
| "add_plan_actions env plan position (r # rs) db =
     res_bind (recommendation_action_values (rc_output r)) (\<lambda>v.
     res_bind (add_action (new_action (draw env db) plan position r v) (drawn db))
       (add_plan_actions env plan (position + 1) rs))"

definition new_plan ::
  "uuid \<Rightarrow> operator_run \<Rightarrow> uuid \<Rightarrow> instant \<Rightarrow> instant \<Rightarrow> string \<Rightarrow> nat \<Rightarrow> marketing_plan" where
  "new_plan pid run actor_id period_start period_end selection_policy_version n =
     \<lparr>mp_id = pid, mp_workspace_id = run_workspace_id run, mp_product_id = run_product_id run,
      mp_operator_run_id = Some (run_id run),
      mp_title = ''Weekly growth plan: '' @ date_isoformat (period_start div day_us),
      mp_status = ''preparing'', mp_period_start = period_start, mp_period_end = period_end,
      mp_idempotency_key = run_idempotency_key run @ '':plan:1'',
      mp_provenance = PDict [(''runId'', PStr (run_id run))], mp_plan_revision = Some 1,
      mp_schema_version = Some 1, mp_selection_policy_version = Some selection_policy_version,
      mp_finalized_at = None, mp_plan_snapshot = None, mp_action_count = Some (int n),
      mp_no_recommendation_count = Some 0, mp_created_by_actor_id = actor_id\<rparr>"

definition create_canonical_plan ::
  "growth_env \<Rightarrow> operator_run \<Rightarrow> uuid \<Rightarrow> operator_recommendation list \<Rightarrow> string \<Rightarrow> growth_db
     \<Rightarrow> (marketing_plan \<times> growth_db) res" where
  "create_canonical_plan env run actor_id recommendations selection_policy_version db =
     (if run_product_id run = None \<or> run_run_kind run \<noteq> RK_weekly_growth
      then Inl (DomainConflictError ''Canonical plans require a product-scoped weekly run.'')
      else if 3 < length recommendations
      then Inl (ValueError ''Canonical weekly plans contain at most three recommendations.'')
      else if list_ex (\<lambda>r. Some (rc_product_id r) \<noteq> run_product_id run
             \<or> rc_workspace_id r \<noteq> run_workspace_id run) recommendations
      then Inl (DomainConflictError ''Recommendation belongs to another workspace or product.'')
      else case (run_logical_period_start run, run_logical_period_end run) of
          (Some period_start, Some period_end) \<Rightarrow>
            let plan = new_plan (draw env db) run actor_id period_start period_end
                         selection_policy_version (length recommendations)
            in res_bind (add_plan plan (drawn db)) (\<lambda>db1.
               res_bind (add_plan_actions env plan 1 recommendations db1) (\<lambda>db2. Inr (plan, db2)))
        | _ \<Rightarrow> Inl (DomainConflictError ''Weekly run has no logical period.''))"

definition finalized_plan ::
  "instant \<Rightarrow> plan_action list \<Rightarrow> pyval list \<Rightarrow> pyval \<Rightarrow> pyval \<Rightarrow> uuid \<Rightarrow> marketing_plan \<Rightarrow> marketing_plan" where
  "finalized_plan now actions no_recommendations shipped_summary search_summary rid plan =
     plan\<lparr>mp_plan_snapshot := Some (build_plan_snapshot rid (mp_id plan)
            (case mp_plan_revision plan of None \<Rightarrow> 1 | Some n \<Rightarrow> if n = 0 then 1 else n)
            (map (\<lambda>a. (pa_id a, pa_position a, pa_recommendation_id a)) actions)
            no_recommendations shipped_summary search_summary),
          mp_no_recommendation_count := Some (int (length no_recommendations)),
          mp_action_count := Some (int (length actions)), mp_status := ''ready'',
          mp_finalized_at := Some now\<rparr>"

definition finalize_plan ::
  "growth_env \<Rightarrow> instant \<Rightarrow> uuid \<Rightarrow> uuid \<Rightarrow> uuid \<Rightarrow> pyval list \<Rightarrow> pyval \<Rightarrow> pyval \<Rightarrow> growth_db
     \<Rightarrow> (marketing_plan \<times> growth_db) res" where
  "finalize_plan env now workspace_id product_id plan_id no_recommendations shipped_summary
      search_summary db =
     (case get_plan db workspace_id product_id plan_id of
        None \<Rightarrow> Inl (LookupError ''Plan not found.'')
      | Some plan \<Rightarrow>
          if mp_status plan = ''ready'' then Inr (plan, db)
          else res_bind (transition_plan (mp_status plan) ''ready'') (\<lambda>_.
            let actions = list_plan_actions db workspace_id product_id plan_id;
                revision = (case mp_plan_revision plan of None \<Rightarrow> 1 | Some n \<Rightarrow> if n = 0 then 1 else n)
            in case mp_operator_run_id plan of
                None \<Rightarrow> Inl (DomainConflictError ''Canonical plan has no operator run.'')
              | Some rid \<Rightarrow>
                  let plan' = finalized_plan now actions no_recommendations shipped_summary
                                search_summary rid plan;
                      db1 = db\<lparr>gd_plans := map (\<lambda>p. if mp_id p = plan_id then plan' else p) (gd_plans db)\<rparr>
                  in res_bind (log_event env
                        \<lparr>er_workspace_id = workspace_id, er_product_id = Some product_id, er_actor_id = None,
                         er_event_name = ''weekly_report_generated'',
                         er_idempotency_key = ''weekly-report-generated:'' @ mp_id plan @ '':'' @ int_text revision,
                         er_resource_type = Some ''marketing_plan'', er_resource_id = Some (mp_id plan),
                         er_resource_revision = Some revision,
                         er_report_ordinal = None, er_second_report_return = None,
                         er_fourth_report_return = None, er_valid_no_recommendation_report =
                           Some (actions = [] \<and> no_recommendations \<noteq> [])\<rparr> db1) (\<lambda>db2.
                     Inr (plan', db2))))"

definition snapshot_hash :: "growth_env \<Rightarrow> marketing_plan \<Rightarrow> string res" where
  "snapshot_hash env plan =
     (case mp_plan_snapshot plan of
        Some snapshot \<Rightarrow> if mp_status plan = ''ready''
          then Inr (sha256 (ge_engine env) (json_dumps snapshot))
          else Inl (DomainConflictError ''Only finalized plans have a delivery hash.'')
      | None \<Rightarrow> Inl (DomainConflictError ''Only finalized plans have a delivery hash.''))"

end
