(* ===== verification/Growth_Actions.thy ===== *)
theory Growth_Actions
  imports Growth_Plans
begin

text \<open>
  The second half of the weekly growth loop (\<open>services/weekly_growth_service.py\<close>): decisions on
  recommendations, approval of exact asset revisions, the life of an action, revisions and
  rejections of assets and the measurement of completed actions
  (\<open>services/measurement_service.py\<close>), with the bridge from an approved X asset to a draft
  (\<open>services/x_asset_bridge_service.py\<close>).

  A use case is the body of its \<open>try\<close> block run by \<open>use_case\<close>, which rolls back when the body
  raises. The clock is an argument, read once.
\<close>

section \<open>Decisions on recommendations\<close>

definition decision_text :: "bool \<Rightarrow> string" where
  "decision_text accept = (if accept then ''accepted'' else ''dismissed'')"

text \<open>\<open>ORDER BY created_at DESC LIMIT 1\<close>; of rows with the same time, the one inserted last.\<close>

definition latest_decision :: "growth_db \<Rightarrow> uuid \<Rightarrow> uuid \<Rightarrow> uuid \<Rightarrow> recommendation_decision option" where
  "latest_decision db workspace_id product_id recommendation_id =
     (case rev (sort_key rd_created_at (filter (\<lambda>d. rd_workspace_id d = workspace_id
         \<and> rd_product_id d = product_id \<and> rd_recommendation_id d = recommendation_id) (gd_decisions db))) of
        [] \<Rightarrow> None | d # _ \<Rightarrow> Some d)"

definition add_decision ::
  "growth_env \<Rightarrow> uuid \<Rightarrow> uuid \<Rightarrow> uuid \<Rightarrow> string \<Rightarrow> string option \<Rightarrow> string option \<Rightarrow> uuid \<Rightarrow> instant \<Rightarrow> growth_db
     \<Rightarrow> growth_db" where
  "add_decision env workspace_id product_id recommendation_id decision reason comment actor_id created db =
     (drawn db)\<lparr>gd_decisions := gd_decisions db @
       [\<lparr>rd_id = draw env db, rd_workspace_id = workspace_id, rd_product_id = product_id,
         rd_recommendation_id = recommendation_id, rd_decision = decision, rd_reason = reason,
         rd_comment = comment, rd_actor_id = actor_id, rd_created_at = created\<rparr>]\<rparr>"

definition decide_recommendation ::
  "growth_env \<Rightarrow> instant \<Rightarrow> uuid \<Rightarrow> uuid \<Rightarrow> uuid \<Rightarrow> bool \<Rightarrow> uuid \<Rightarrow> string option \<Rightarrow> string option \<Rightarrow> growth_db
     \<Rightarrow> (operator_recommendation \<times> growth_db) res" where
  "decide_recommendation env now workspace_id product_id recommendation_id accept actor_id reason comment db =
     (case get_recommendation db workspace_id product_id recommendation_id of
        None \<Rightarrow> Inl (LookupError ''Recommendation not found.'')
      | Some recommendation \<Rightarrow>
          let action = find (\<lambda>a. pa_workspace_id a = workspace_id \<and> pa_product_id a = Some product_id
                \<and> pa_recommendation_id a = Some recommendation_id) (gd_actions db);
              latest = latest_decision db workspace_id product_id recommendation_id
          in if (case action of None \<Rightarrow> False | Some a \<Rightarrow> pa_status a = ''dismissed'')
             then Inl (DomainConflictError ''Dismissed actions cannot change recommendation decision.'')
             else if (case latest of None \<Rightarrow> False | Some d \<Rightarrow> rd_decision d \<noteq> decision_text accept)
             then Inl (DomainConflictError ''Recommendation already has a contradictory decision.'')
             else let accepted_at = (if accept then (case rc_accepted_at recommendation of
                          None \<Rightarrow> Some now | Some t \<Rightarrow> Some t) else None);
                      db1 = update_recommendation recommendation_id (\<lambda>r. r\<lparr>rc_accepted_at := accepted_at\<rparr>) db
               in Inr (recommendation\<lparr>rc_accepted_at := accepted_at\<rparr>,
                    add_decision env workspace_id product_id recommendation_id (decision_text accept)
                      reason comment actor_id now db1))"

text \<open>An event request about a resource of a product.\<close>

definition product_event_request ::
  "uuid \<Rightarrow> uuid \<Rightarrow> uuid option \<Rightarrow> string \<Rightarrow> string \<Rightarrow> string \<Rightarrow> uuid \<Rightarrow> int option \<Rightarrow> event_request" where
  "product_event_request workspace_id product_id actor_id event_name key resource_type resource_id revision =
     \<lparr>er_workspace_id = workspace_id, er_product_id = Some product_id, er_actor_id = actor_id,
      er_event_name = event_name, er_idempotency_key = key, er_resource_type = Some resource_type,
      er_resource_id = Some resource_id, er_resource_revision = revision,
      er_report_ordinal = None, er_second_report_return = None, er_fourth_report_return = None,
      er_valid_no_recommendation_report = None\<rparr>"

definition new_command :: "uuid \<Rightarrow> uuid \<Rightarrow> string \<Rightarrow> uuid \<Rightarrow> string \<Rightarrow> string \<Rightarrow> command" where
  "new_command workspace_id product_id operation resource_id idempotency_key fingerprint =
     \<lparr>cm_workspace_id = workspace_id, cm_product_id = product_id, cm_operation = operation,
      cm_resource_id = resource_id, cm_idempotency_key = idempotency_key, cm_fingerprint = fingerprint\<rparr>"

text \<open>The head of every use case: a receipt of the command makes it return the stored result,
  found by \<open>lookup\<close>; otherwise \<open>body\<close> runs.\<close>

definition with_replay ::
  "command \<Rightarrow> (uuid \<Rightarrow> growth_db \<Rightarrow> 'a option) \<Rightarrow> string \<Rightarrow> (growth_db \<Rightarrow> ('a \<times> growth_db) res) \<Rightarrow> growth_db
     \<Rightarrow> ('a \<times> growth_db) res" where
  "with_replay c lookup missing body db =
     res_bind (command_replay c db) (\<lambda>replay_id.
       case replay_id of
         Some rid \<Rightarrow> (case lookup rid db of None \<Rightarrow> Inl (LookupError missing) | Some x \<Rightarrow> Inr (x, db))
       | None \<Rightarrow> body db)"

definition decide_body ::
  "growth_env \<Rightarrow> instant \<Rightarrow> uuid \<Rightarrow> uuid \<Rightarrow> uuid \<Rightarrow> bool \<Rightarrow> uuid \<Rightarrow> string option \<Rightarrow> string option \<Rightarrow> command
     \<Rightarrow> growth_db \<Rightarrow> (operator_recommendation \<times> growth_db) res" where
  "decide_body env now workspace_id product_id recommendation_id accept actor_id reason comment c db =
     res_bind (decide_recommendation env now workspace_id product_id recommendation_id accept actor_id
                 reason comment db) (\<lambda>(recommendation, db1).
     res_bind (log_event env (product_event_request workspace_id product_id (Some actor_id)
                 (if accept then ''recommendation_accepted'' else ''recommendation_dismissed'')
                 (''recommendation-'' @ decision_text accept @ '':'' @ recommendation_id)
                 ''recommendation'' recommendation_id None) db1) (\<lambda>db2.
     res_bind (record_command env c (rc_id recommendation) db2) (\<lambda>db3.
     Inr (recommendation, db3))))"

definition decide_command :: "uuid \<Rightarrow> uuid \<Rightarrow> uuid \<Rightarrow> bool \<Rightarrow> string \<Rightarrow> string \<Rightarrow> command" where
  "decide_command workspace_id product_id recommendation_id accept =
     new_command workspace_id product_id
       (if accept then ''recommendation.accept'' else ''recommendation.dismiss'') recommendation_id"

definition decide_recommendation_use_case ::
  "growth_env \<Rightarrow> instant \<Rightarrow> uuid \<Rightarrow> uuid \<Rightarrow> uuid \<Rightarrow> bool \<Rightarrow> uuid \<Rightarrow> string option \<Rightarrow> string option \<Rightarrow> string \<Rightarrow> string
     \<Rightarrow> growth_db \<Rightarrow> operator_recommendation res \<times> growth_db" where
  "decide_recommendation_use_case env now workspace_id product_id recommendation_id accept actor_id reason
      comment idempotency_key fingerprint =
     (let c = decide_command workspace_id product_id recommendation_id accept idempotency_key fingerprint in
      use_case (with_replay c (\<lambda>i db. get_recommendation db workspace_id product_id i)
        ''Recommendation replay result not found.''
        (decide_body env now workspace_id product_id recommendation_id accept actor_id reason comment c)))"

section \<open>Approval of an exact revision\<close>

text \<open>The post of an X asset, or the error that its content raises.\<close>

definition x_post :: "pyval \<Rightarrow> string res" where
  "x_post structured =
     (case XDraft structured of
        Inl _ \<Rightarrow> Inl (ValueError ''invalid_x_asset_content'')
      | Inr v \<Rightarrow> Inr (py_text (case py_get v ''content'' of None \<Rightarrow> None | Some c \<Rightarrow> py_get c ''post'')))"

definition primary_repo :: "growth_db \<Rightarrow> uuid \<Rightarrow> uuid \<Rightarrow> uuid option" where
  "primary_repo db workspace_id product_id =
     (case sort_key (\<lambda>r. (\<not> prp_is_primary_repo r, prp_id r))
         (filter (\<lambda>r. prp_workspace_id r = workspace_id \<and> prp_product_id r = product_id) (gd_repositories db)) of
        [] \<Rightarrow> None | r # _ \<Rightarrow> Some (prp_repo_id r))"

definition insert_draft ::
  "growth_env \<Rightarrow> instant \<Rightarrow> uuid \<Rightarrow> uuid \<Rightarrow> uuid \<Rightarrow> int \<Rightarrow> uuid \<Rightarrow> uuid \<Rightarrow> string \<Rightarrow> growth_db \<Rightarrow> growth_db" where
  "insert_draft env now workspace_id product_id asset_id revision user_id repo_id post db =
     (let draft_id = draw env db; event_id = draw env (drawn db) in
      (drawn (drawn db))\<lparr>
        gd_drafts := gd_drafts db @
          [\<lparr>df_id = draft_id, df_workspace_id = workspace_id, df_user_id = user_id, df_repo_id = repo_id,
            df_content = post, df_source_event_type = ''operator_x_asset'',
            df_source_event_payload = PDict [(''productId'', PStr product_id)],
            df_status = ''approved'', df_approved_at = Some now, df_prepared_asset_id = Some asset_id,
            df_prepared_asset_revision = Some revision\<rparr>],
        gd_draft_events := gd_draft_events db @
          [\<lparr>dse_id = event_id, dse_workspace_id = workspace_id, dse_user_id = user_id,
            dse_repo_id = repo_id, dse_draft_id = draft_id, dse_status = ''approved'',
            dse_occurred_at = now\<rparr>]\<rparr>)"

definition project_x_asset_to_draft ::
  "growth_env \<Rightarrow> instant \<Rightarrow> uuid \<Rightarrow> uuid \<Rightarrow> uuid \<Rightarrow> int \<Rightarrow> growth_db \<Rightarrow> (uuid option \<times> growth_db) res" where
  "project_x_asset_to_draft env now workspace_id product_id asset_id revision db =
     (case find (\<lambda>x. pr_workspace_id x = workspace_id \<and> pr_product_id x = product_id \<and> pr_id x = asset_id
         \<and> pr_revision x = revision \<and> pr_kind x = ''x_draft'') (gd_assets db) of
        None \<Rightarrow> Inr (None, db)
      | Some asset \<Rightarrow> res_bind (x_post (pr_structured_content asset)) (\<lambda>content.
          if \<not> list_ex (\<lambda>r. rv_workspace_id r = workspace_id \<and> rv_product_id r = product_id
                \<and> rv_asset_id r = asset_id \<and> rv_asset_revision r = revision
                \<and> rv_final_outcome r \<noteq> ''block'') (gd_reviews db)
          then Inr (None, db)
          else case find (\<lambda>d. df_workspace_id d = workspace_id \<and> df_prepared_asset_id d = Some asset_id
                 \<and> df_prepared_asset_revision d = Some revision) (gd_drafts db) of
              Some d \<Rightarrow> Inr (Some (df_id d), db)
            | None \<Rightarrow> (case (find (\<lambda>p. pd_workspace_id p = workspace_id \<and> pd_id p = product_id) (gd_products db),
                         primary_repo db workspace_id product_id) of
                (Some product, Some repo_id) \<Rightarrow>
                  Inr (Some (draw env db), insert_draft env now workspace_id product_id asset_id revision
                         (pd_user_id product) repo_id content db)
              | _ \<Rightarrow> Inr (None, db))))"

definition approve_request :: "instant \<Rightarrow> uuid \<Rightarrow> int \<Rightarrow> uuid \<Rightarrow> approval_request \<Rightarrow> approval_request" where
  "approve_request now asset_id revision actor_id x =
     x\<lparr>ap_asset_id := Some asset_id, ap_asset_revision := Some revision, ap_status := ''approved'',
       ap_decided_by_actor_id := Some actor_id, ap_decided_at := Some now\<rparr>"

definition approve_action :: "uuid \<Rightarrow> int \<Rightarrow> plan_action \<Rightarrow> plan_action" where
  "approve_action asset_id revision a =
     a\<lparr>pa_approved_asset_id := Some asset_id, pa_approved_asset_revision := Some revision,
       pa_approval_status := ''approved'', pa_status := ''ready''\<rparr>"

definition approve_exact_revision ::
  "growth_env \<Rightarrow> instant \<Rightarrow> uuid \<Rightarrow> uuid \<Rightarrow> uuid \<Rightarrow> uuid \<Rightarrow> int \<Rightarrow> uuid \<Rightarrow> growth_db
     \<Rightarrow> (approval_request \<times> growth_db) res" where
  "approve_exact_revision env now workspace_id product_id action_id asset_id revision actor_id db =
     (case (get_action db workspace_id product_id action_id,
            get_exact_asset db workspace_id product_id asset_id revision,
            get_pending_approval db workspace_id product_id action_id) of
        (Some action, Some asset, Some approval) \<Rightarrow>
          if pr_action_id asset \<noteq> Some (pa_id action)
          then Inl (LookupError ''Action, asset revision, or pending approval not found.'')
          else res_bind (transition_action (pa_status action) ''ready'') (\<lambda>_.
            let db1 = update_action action_id (approve_action asset_id revision)
                  (update_approval (ap_id approval) (approve_request now asset_id revision actor_id) db)
            in res_bind (project_x_asset_to_draft env now workspace_id product_id asset_id revision db1)
                 (\<lambda>(_, db2). Inr (approve_request now asset_id revision actor_id approval, db2)))
      | _ \<Rightarrow> Inl (LookupError ''Action, asset revision, or pending approval not found.''))"

definition asset_lineage :: "uuid \<Rightarrow> uuid \<Rightarrow> uuid \<Rightarrow> uuid option \<Rightarrow> prepared_asset \<Rightarrow> bool" where
  "asset_lineage workspace_id product_id recommendation_id action_id x \<longleftrightarrow>
     pr_workspace_id x = workspace_id \<and> pr_product_id x = product_id
     \<and> pr_recommendation_id x = recommendation_id \<and> pr_action_id x = action_id"

text \<open>\<open>SELECT max(revision)\<close>, and the row that \<open>ORDER BY revision DESC LIMIT 1\<close> returns.\<close>

definition latest_asset :: "growth_db \<Rightarrow> uuid \<Rightarrow> uuid \<Rightarrow> uuid \<Rightarrow> uuid option \<Rightarrow> prepared_asset option" where
  "latest_asset db workspace_id product_id recommendation_id action_id =
     (case rev (sort_key pr_revision (filter (asset_lineage workspace_id product_id recommendation_id action_id)
         (gd_assets db))) of [] \<Rightarrow> None | x # _ \<Rightarrow> Some x)"

definition current_review :: "growth_db \<Rightarrow> uuid \<Rightarrow> uuid \<Rightarrow> uuid \<Rightarrow> int \<Rightarrow> action_risk_review option" where
  "current_review db workspace_id product_id asset_id revision =
     find (\<lambda>r. rv_workspace_id r = workspace_id \<and> rv_product_id r = product_id \<and> rv_asset_id r = asset_id
       \<and> rv_asset_revision r = revision) (gd_reviews db)"

definition approve_body ::
  "growth_env \<Rightarrow> instant \<Rightarrow> uuid \<Rightarrow> uuid \<Rightarrow> uuid \<Rightarrow> uuid \<Rightarrow> int \<Rightarrow> uuid \<Rightarrow> command \<Rightarrow> growth_db
     \<Rightarrow> (plan_action \<times> growth_db) res" where
  "approve_body env now workspace_id product_id action_id asset_id revision actor_id c db =
     (case get_action db workspace_id product_id action_id of
        None \<Rightarrow> Inl (LookupError ''Action or exact asset revision not found.'')
      | Some action \<Rightarrow>
          if pa_approval_status action = ''approved'' \<and> pa_approved_asset_id action = Some asset_id
             \<and> pa_approved_asset_revision action = Some revision
          then res_bind (record_command env c (pa_id action) db) (\<lambda>db1. Inr (action, db1))
          else (case get_exact_asset db workspace_id product_id asset_id revision of
              None \<Rightarrow> Inl (LookupError ''Action or exact asset revision not found.'')
            | Some asset \<Rightarrow>
                if pr_action_id asset \<noteq> Some action_id
                then Inl (LookupError ''Action or exact asset revision not found.'')
                else if map_option pr_revision (latest_asset db workspace_id product_id
                          (pr_recommendation_id asset) (Some action_id)) \<noteq> Some revision
                then Inl (DomainConflictError ''Asset revision is stale.'')
                else if (case current_review db workspace_id product_id asset_id revision of
                           None \<Rightarrow> True | Some r \<Rightarrow> rv_final_outcome r = ''block'')
                then Inl (DomainConflictError ''Asset risk is not current or is blocked.'')
                else res_bind (approve_exact_revision env now workspace_id product_id action_id asset_id
                                 revision actor_id db) (\<lambda>(_, db1).
                  res_bind (log_event env (product_event_request workspace_id product_id (Some actor_id)
                              ''asset_approved'' (''asset-approved:'' @ asset_id @ '':'' @ int_text revision)
                              ''prepared_asset'' asset_id (Some revision)) db1) (\<lambda>db2.
                  res_bind (record_command env c (pa_id action) db2) (\<lambda>db3.
                  Inr (approve_action asset_id revision action, db3))))))"

definition approve_command :: "uuid \<Rightarrow> uuid \<Rightarrow> uuid \<Rightarrow> string \<Rightarrow> uuid option \<Rightarrow> string \<Rightarrow> string \<Rightarrow> command" where
  "approve_command workspace_id product_id action_id operation command_resource_id =
     new_command workspace_id product_id operation
       (case command_resource_id of None \<Rightarrow> action_id | Some i \<Rightarrow> i)"

definition approve_action_revision_use_case ::
  "growth_env \<Rightarrow> instant \<Rightarrow> uuid \<Rightarrow> uuid \<Rightarrow> uuid \<Rightarrow> uuid \<Rightarrow> int \<Rightarrow> uuid \<Rightarrow> string \<Rightarrow> string \<Rightarrow> string \<Rightarrow> uuid option
     \<Rightarrow> growth_db \<Rightarrow> plan_action res \<times> growth_db" where
  "approve_action_revision_use_case env now workspace_id product_id action_id asset_id revision actor_id
      idempotency_key fingerprint operation command_resource_id =
     (let c = approve_command workspace_id product_id action_id operation command_resource_id
            idempotency_key fingerprint in
      use_case (with_replay c (\<lambda>i db. get_action db workspace_id product_id i)
        ''Action replay result not found.''
        (approve_body env now workspace_id product_id action_id asset_id revision actor_id c)))"

section \<open>Measurement\<close>

definition window_days :: "plan_action \<Rightarrow> int" where
  "window_days a = (case pa_measurement_window_days a of None \<Rightarrow> 28 | Some n \<Rightarrow> if n = 0 then 28 else n)"

definition add_measurement :: "measurement_window \<Rightarrow> growth_db \<Rightarrow> growth_db res" where
  "add_measurement m db =
     (if mw_starts_at m < mw_ends_at m
         \<and> \<not> list_ex (\<lambda>x. mw_workspace_id x = mw_workspace_id m
                \<and> mw_idempotency_key x = mw_idempotency_key m) (gd_measurements db)
      then Inr (db\<lparr>gd_measurements := gd_measurements db @ [m]\<rparr>)
      else Inl (IntegrityError ''measurement_windows''))"

definition new_measurement ::
  "uuid \<Rightarrow> uuid \<Rightarrow> uuid \<Rightarrow> plan_action \<Rightarrow> string \<Rightarrow> instant \<Rightarrow> measured_values option \<Rightarrow> measurement_window" where
  "new_measurement mid workspace_id product_id action idempotency_key starts_at baseline =
     (let due_at = starts_at + Times.days (window_days action);
          contract = (case pa_expected_metric action of None \<Rightarrow> [] | Some m \<Rightarrow> m)
      in \<lparr>mw_id = mid, mw_workspace_id = workspace_id, mw_action_id = pa_id action,
          mw_product_id = Some product_id, mw_status = ''scheduled'', mw_starts_at = starts_at,
          mw_ends_at = due_at, mw_metric_contract = contract, mw_baseline = baseline, mw_result = None,
          mw_idempotency_key = idempotency_key, mw_provenance = [(''actionId'', pa_id action)],
          mw_expected_metric = contract,
          mw_baseline_period = (date_isoformat ((starts_at - Times.days (window_days action)) div day_us),
            date_isoformat (starts_at div day_us)),
          mw_baseline_value = baseline, mw_comparison_value = None, mw_due_at = due_at,
          mw_collected_at = None, mw_outcome = None, mw_unavailable_reason = None, mw_limitations = []\<rparr>)"

definition schedule_measurement ::
  "growth_env \<Rightarrow> instant \<Rightarrow> uuid \<Rightarrow> uuid \<Rightarrow> uuid \<Rightarrow> string \<Rightarrow> instant \<Rightarrow> growth_db
     \<Rightarrow> (measurement_window \<times> growth_db) res" where
  "schedule_measurement env now workspace_id product_id action_id idempotency_key starts_at db =
     (case get_action db workspace_id product_id action_id of
        None \<Rightarrow> Inl (LookupError ''Action not found.'')
      | Some action \<Rightarrow>
          let due_at = starts_at + Times.days (window_days action);
              db1 = update_action action_id (\<lambda>a. a\<lparr>pa_measurement_due_at := Some due_at\<rparr>) db
          in case find (\<lambda>m. mw_workspace_id m = workspace_id \<and> mw_idempotency_key m = idempotency_key)
                 (gd_measurements db1) of
              Some existing \<Rightarrow> Inr (existing, db1)
            | None \<Rightarrow>
                res_bind (read_search_measurement (gd_search_metrics db1) workspace_id product_id
                    (case pa_expected_metric action of None \<Rightarrow> [] | Some m \<Rightarrow> m)
                    ((starts_at - Times.days (window_days action)) div day_us) (starts_at div day_us)) (\<lambda>baseline.
                let m = new_measurement (draw env db1) workspace_id product_id action idempotency_key
                          starts_at baseline
                in res_bind (add_measurement m (drawn db1)) (\<lambda>db2.
                   res_bind (enqueue env (resource_event env now ''operator/measurement.followup''
                               ''measurementId'' (mw_id m) workspace_id product_id (Some due_at) db2) db2)
                     (\<lambda>db3. Inr (m, db3)))))"

definition metric_value_of :: "string \<Rightarrow> measured_values \<Rightarrow> rat option" where
  "metric_value_of key v =
     (if key = ''clicks'' then Some (of_int (mv_clicks v))
      else if key = ''impressions'' then Some (of_int (mv_impressions v))
      else if key = ''ctr'' then mv_ctr v
      else if key = ''position'' then mv_position v
      else None)"

definition measured_outcome :: "string \<Rightarrow> rat option \<Rightarrow> rat option \<Rightarrow> string" where
  "measured_outcome key before after =
     (case (before, after) of
        (Some b, Some a) \<Rightarrow>
          if a = b then ''unchanged''
          else if key = ''position'' then (if a < b then ''improved'' else ''declined'')
          else (if a > b then ''improved'' else ''declined'')
      | _ \<Rightarrow> ''inconclusive'')"

text \<open>The follow-up of one measurement; the result is the status, the outcome and whether the
  measurement was already settled, \<open>None\<close> when there is no such measurement.\<close>

definition settle_measurement ::
  "search_metric list \<Rightarrow> instant \<Rightarrow> uuid \<Rightarrow> uuid \<Rightarrow> measurement_window \<Rightarrow> measurement_window res" where
  "settle_measurement table now workspace_id product_id m =
     (let metric = (case map_of (mw_metric_contract m) ''metric'' of None \<Rightarrow> [] | Some v \<Rightarrow> py_str v) in
      if metric \<notin> set search_metrics
      then Inr (m\<lparr>mw_status := ''unavailable'', mw_outcome := Some ''unavailable'',
             mw_unavailable_reason := Some ''Metric requires manual measurement.'',
             mw_limitations := [''No causal claim is available for non-search metrics.''],
             mw_collected_at := Some now\<rparr>)
      else res_bind (read_search_measurement table workspace_id product_id (mw_metric_contract m)
             (mw_starts_at m div day_us) (mw_ends_at m div day_us)) (\<lambda>current.
        case (current, mw_baseline_value m) of
          (Some cur, Some base) \<Rightarrow>
            let key = (if metric = ''average_position'' then ''position'' else metric);
                outcome = measured_outcome key (metric_value_of key base) (metric_value_of key cur)
            in Inr (m\<lparr>mw_status := ''completed'', mw_outcome := Some outcome,
                 mw_comparison_value := Some cur, mw_result := Some [(''outcome'', outcome)],
                 mw_limitations := [''Observed association only; no causal claim.''],
                 mw_collected_at := Some now\<rparr>)
        | _ \<Rightarrow> Inr (m\<lparr>mw_status := ''unavailable'', mw_outcome := Some ''unavailable'',
                 mw_unavailable_reason := Some ''Comparable authoritative search facts are unavailable.'',
                 mw_collected_at := Some now\<rparr>)))"

definition measurement_followup ::
  "growth_env \<Rightarrow> instant \<Rightarrow> uuid \<Rightarrow> uuid \<Rightarrow> uuid \<Rightarrow> growth_db
     \<Rightarrow> ((string \<times> string option \<times> bool) option) res \<times> growth_db" where
  "measurement_followup env now measurement_id workspace_id product_id =
     use_case (\<lambda>db.
       case find (\<lambda>m. mw_id m = measurement_id \<and> mw_workspace_id m = workspace_id
           \<and> mw_product_id m = Some product_id) (gd_measurements db) of
         None \<Rightarrow> Inr (None, db)
       | Some m \<Rightarrow>
           if mw_status m \<in> {''completed'', ''unavailable''} then Inr (Some (mw_status m, None, True), db)
           else res_bind (settle_measurement (gd_search_metrics db) now workspace_id product_id m) (\<lambda>m'.
             let db1 = db\<lparr>gd_measurements :=
                   map (\<lambda>x. if mw_id x = measurement_id then m' else x) (gd_measurements db)\<rparr>
             in res_bind (if mw_status m' = ''completed''
                  then log_event env (product_event_request workspace_id product_id None
                         ''measurement_completed'' (''measurement-completed:'' @ mw_id m)
                         ''measurement_window'' (mw_id m) None) db1
                  else Inr db1) (\<lambda>db2.
                Inr (Some (mw_status m', mw_outcome m', False), db2))))"

section \<open>The life of an action\<close>

definition start_allowed :: "growth_db \<Rightarrow> uuid \<Rightarrow> uuid \<Rightarrow> plan_action \<Rightarrow> unit res" where
  "start_allowed db workspace_id product_id action =
     (case pa_approved_asset_id action of
        None \<Rightarrow> Inr ()
      | Some asset_id \<Rightarrow>
          (case get_exact_asset db workspace_id product_id asset_id
                (case pa_approved_asset_revision action of None \<Rightarrow> 0 | Some n \<Rightarrow> n) of
             None \<Rightarrow> Inl (DomainConflictError ''Approved asset revision no longer exists.'')
           | Some asset \<Rightarrow> assert_exact_asset_revision (pa_approved_asset_id action)
               (pa_approved_asset_revision action) (pr_id asset) (pr_revision asset)))"

definition moved_action ::
  "string \<Rightarrow> uuid \<Rightarrow> instant \<Rightarrow> string option \<Rightarrow> string option \<Rightarrow> plan_action \<Rightarrow> plan_action" where
  "moved_action target actor_id timestamp reason comment a =
     (let a1 = a\<lparr>pa_status := target\<rparr>;
          a2 = (if target = ''completed''
                then a1\<lparr>pa_completed_by_actor_id := Some actor_id, pa_completed_at := Some timestamp\<rparr> else a1)
      in if target = ''dismissed''
         then a2\<lparr>pa_dismissed_by_actor_id := Some actor_id, pa_dismissed_at := Some timestamp,
                pa_dismissal_reason := reason, pa_dismissal_comment := comment\<rparr> else a2)"

definition withdraw_recommendation ::
  "growth_env \<Rightarrow> uuid \<Rightarrow> uuid \<Rightarrow> plan_action \<Rightarrow> uuid \<Rightarrow> instant \<Rightarrow> string option \<Rightarrow> string option \<Rightarrow> growth_db
     \<Rightarrow> growth_db" where
  "withdraw_recommendation env workspace_id product_id action actor_id timestamp reason comment db =
     (case pa_recommendation_id action of
        None \<Rightarrow> db
      | Some rid \<Rightarrow> (case get_recommendation db workspace_id product_id rid of
            None \<Rightarrow> db
          | Some r \<Rightarrow> add_decision env workspace_id product_id (rc_id r) ''dismissed'' reason comment actor_id
              timestamp (update_recommendation (rc_id r) (\<lambda>x. x\<lparr>rc_accepted_at := None\<rparr>) db)))"

definition add_action_event ::
  "growth_env \<Rightarrow> uuid \<Rightarrow> uuid \<Rightarrow> uuid \<Rightarrow> string \<Rightarrow> string \<Rightarrow> uuid \<Rightarrow> string option \<Rightarrow> string option \<Rightarrow> growth_db
     \<Rightarrow> growth_db" where
  "add_action_event env workspace_id product_id action_id previous target actor_id reason comment db =
     (drawn db)\<lparr>gd_action_events := gd_action_events db @
       [\<lparr>ae_id = draw env db, ae_workspace_id = workspace_id, ae_product_id = product_id,
         ae_action_id = action_id, ae_event_type = target, ae_previous_status = Some previous,
         ae_new_status = target, ae_actor_id = actor_id, ae_reason = reason,
         ae_details = PDict (if text_truthy comment then [(''comment'', PStr (the comment))] else [])\<rparr>]\<rparr>"

definition transition_canonical_action ::
  "growth_env \<Rightarrow> instant \<Rightarrow> uuid \<Rightarrow> uuid \<Rightarrow> uuid \<Rightarrow> string \<Rightarrow> uuid \<Rightarrow> string option \<Rightarrow> string option \<Rightarrow> growth_db
     \<Rightarrow> (plan_action \<times> growth_db) res" where
  "transition_canonical_action env now workspace_id product_id action_id target actor_id reason comment db =
     (case get_action db workspace_id product_id action_id of
        None \<Rightarrow> Inl (LookupError ''Action not found.'')
      | Some action \<Rightarrow>
          res_bind (if target = ''executing'' then start_allowed db workspace_id product_id action else Inr ())
            (\<lambda>_. res_bind (transition_action (pa_status action) target) (\<lambda>_.
             let move = moved_action target actor_id now reason comment;
                 db1 = update_action action_id move db;
                 db2 = (if target = ''dismissed''
                        then withdraw_recommendation env workspace_id product_id action actor_id now reason
                               comment db1
                        else db1)
             in Inr (move action, add_action_event env workspace_id product_id (pa_id action)
                  (pa_status action) target actor_id reason comment db2))))"

definition action_event_name :: "string \<Rightarrow> string option" where
  "action_event_name target = map_of [(''dismissed'', ''action_dismissed''),
     (''executing'', ''action_started''), (''completed'', ''action_completed'')] target"

text \<open>A loaded row shows what later statements of the session assigned to it.\<close>

definition refreshed :: "growth_db \<Rightarrow> uuid \<Rightarrow> uuid \<Rightarrow> plan_action \<Rightarrow> plan_action" where
  "refreshed db workspace_id product_id a =
     (case get_action db workspace_id product_id (pa_id a) of None \<Rightarrow> a | Some x \<Rightarrow> x)"

definition transition_body ::
  "growth_env \<Rightarrow> instant \<Rightarrow> uuid \<Rightarrow> uuid \<Rightarrow> uuid \<Rightarrow> string \<Rightarrow> uuid \<Rightarrow> string option \<Rightarrow> string option \<Rightarrow> command \<Rightarrow> growth_db
     \<Rightarrow> (plan_action \<times> growth_db) res" where
  "transition_body env now workspace_id product_id action_id target actor_id reason comment c db =
     (case get_action db workspace_id product_id action_id of
        None \<Rightarrow> Inl (LookupError ''Action not found.'')
      | Some action \<Rightarrow>
          if pa_status action = target
          then res_bind (record_command env c (pa_id action) db) (\<lambda>db1. Inr (action, db1))
          else res_bind (transition_canonical_action env now workspace_id product_id action_id target
                 actor_id reason comment db) (\<lambda>(moved, db1).
            res_bind (case action_event_name target of
                None \<Rightarrow> Inr db1
              | Some name \<Rightarrow> log_event env (product_event_request workspace_id product_id (Some actor_id) name
                  (map (\<lambda>x. if x = CHR ''_'' then CHR ''-'' else x) name @ '':'' @ action_id)
                  ''plan_action'' action_id None) db1) (\<lambda>db2.
            res_bind (if target = ''completed''
                then res_bind (schedule_measurement env now workspace_id product_id action_id
                       (cm_idempotency_key c @ '':measurement'') now db2) (\<lambda>(_, db3). Inr db3)
                else Inr db2) (\<lambda>db3.
            res_bind (record_command env c (pa_id moved) db3) (\<lambda>db4.
            Inr (refreshed db4 workspace_id product_id moved, db4))))))"

definition transition_command :: "uuid \<Rightarrow> uuid \<Rightarrow> uuid \<Rightarrow> string \<Rightarrow> string \<Rightarrow> string \<Rightarrow> command" where
  "transition_command workspace_id product_id action_id target =
     new_command workspace_id product_id (''action.'' @ target) action_id"

definition transition_action_use_case ::
  "growth_env \<Rightarrow> instant \<Rightarrow> uuid \<Rightarrow> uuid \<Rightarrow> uuid \<Rightarrow> string \<Rightarrow> uuid \<Rightarrow> string \<Rightarrow> string \<Rightarrow> string option \<Rightarrow> string option
     \<Rightarrow> growth_db \<Rightarrow> plan_action res \<times> growth_db" where
  "transition_action_use_case env now workspace_id product_id action_id target actor_id idempotency_key
      fingerprint reason comment =
     (let c = transition_command workspace_id product_id action_id target idempotency_key fingerprint in
      use_case (with_replay c (\<lambda>i db. get_action db workspace_id product_id i)
        ''Action replay result not found.''
        (transition_body env now workspace_id product_id action_id target actor_id reason comment c)))"

section \<open>Assets\<close>

definition get_asset :: "growth_db \<Rightarrow> uuid \<Rightarrow> uuid \<Rightarrow> uuid \<Rightarrow> prepared_asset option" where
  "get_asset db workspace_id product_id asset_id =
     find (\<lambda>x. pr_workspace_id x = workspace_id \<and> pr_product_id x = product_id \<and> pr_id x = asset_id)
       (gd_assets db)"

definition approval_of :: "growth_db \<Rightarrow> uuid \<Rightarrow> uuid \<Rightarrow> uuid \<Rightarrow> approval_request option" where
  "approval_of db workspace_id product_id action_id =
     find (\<lambda>x. ap_workspace_id x = workspace_id \<and> ap_product_id x = Some product_id
       \<and> ap_action_id x = action_id) (gd_approvals db)"

definition add_asset :: "prepared_asset \<Rightarrow> growth_db \<Rightarrow> growth_db res" where
  "add_asset x db =
     (if 0 < pr_revision x
         \<and> \<not> list_ex (\<lambda>y. pr_workspace_id y = pr_workspace_id x \<and> pr_product_id y = pr_product_id x
                \<and> pr_recommendation_id y = pr_recommendation_id x \<and> pr_revision y = pr_revision x)
              (gd_assets db)
         \<and> \<not> list_ex (\<lambda>y. pr_id y = pr_id x) (gd_assets db)
      then Inr (db\<lparr>gd_assets := gd_assets db @ [x]\<rparr>)
      else Inl (IntegrityError ''prepared_assets''))"

definition withdraw_approval :: "plan_action \<Rightarrow> plan_action" where
  "withdraw_approval a =
     a\<lparr>pa_approved_asset_id := None, pa_approved_asset_revision := None, pa_approval_status := ''pending'',
       pa_status := (if pa_status a = ''ready'' then ''pending'' else pa_status a)\<rparr>"

definition reopen_request :: "approval_request \<Rightarrow> approval_request" where
  "reopen_request x =
     x\<lparr>ap_status := ''pending'', ap_asset_id := None, ap_asset_revision := None, ap_decided_at := None,
       ap_decided_by_actor_id := None\<rparr>"

definition reopen_approval :: "uuid \<Rightarrow> uuid \<Rightarrow> uuid option \<Rightarrow> growth_db \<Rightarrow> growth_db res" where
  "reopen_approval workspace_id product_id action_id db =
     (case action_id of
        None \<Rightarrow> Inr db
      | Some aid \<Rightarrow> (case get_action db workspace_id product_id aid of
            None \<Rightarrow> Inl (LookupError ''Action not found.'')
          | Some action \<Rightarrow>
              let db1 = update_action aid withdraw_approval db in
              Inr (case approval_of db1 workspace_id product_id aid of
                  None \<Rightarrow> db1
                | Some approval \<Rightarrow> update_approval (ap_id approval) reopen_request db1)))"

text \<open>The content of an edit: the kind of the asset overrides a given kind.\<close>

definition edited_content :: "(string \<times> pyval) list \<Rightarrow> string \<Rightarrow> pyval res" where
  "edited_content structured_content kind =
     (case PreparedAssetOutput (PDict (AList.update ''kind'' (PStr kind) structured_content)) of
        Inl _ \<Rightarrow> Inl (ValueError ''Structured content does not match the asset kind.'')
      | Inr v \<Rightarrow> Inr v)"

definition revised_asset :: "uuid \<Rightarrow> prepared_asset \<Rightarrow> prepared_asset \<Rightarrow> pyval \<Rightarrow> prepared_asset" where
  "revised_asset new_id base latest new_content =
     base\<lparr>pr_id := new_id, pr_revision := pr_revision latest + 1, pr_structured_content := new_content\<rparr>"

definition revise_body ::
  "growth_env \<Rightarrow> uuid \<Rightarrow> uuid \<Rightarrow> uuid \<Rightarrow> int \<Rightarrow> (string \<times> pyval) list \<Rightarrow> command \<Rightarrow> growth_db
     \<Rightarrow> (prepared_asset \<times> growth_db) res" where
  "revise_body env workspace_id product_id asset_id revision structured_content c db =
     (case (case get_exact_asset db workspace_id product_id asset_id revision of
              None \<Rightarrow> get_asset db workspace_id product_id asset_id | Some x \<Rightarrow> Some x) of
        None \<Rightarrow> Inl (LookupError ''Asset not found.'')
      | Some base \<Rightarrow>
          res_bind (edited_content structured_content (pr_kind base)) (\<lambda>new_content.
          case latest_asset db workspace_id product_id (pr_recommendation_id base) (pr_action_id base) of
            None \<Rightarrow> Inl (LookupError ''Asset not found.'')
          | Some latest \<Rightarrow>
              if revision \<noteq> pr_revision latest
              then (if revision + 1 = pr_revision latest
                       \<and> json_dumps (pr_structured_content latest) = json_dumps new_content
                    then res_bind (record_command env c (pr_id latest) db) (\<lambda>db1. Inr (latest, db1))
                    else Inl (DomainConflictError ''Asset revision is stale.''))
              else let new_asset = revised_asset (draw env db) base latest new_content
                in res_bind (add_asset new_asset (drawn db)) (\<lambda>db1.
                   res_bind (log_event env (product_event_request workspace_id product_id None
                       ''asset_edited''
                       (''asset-edited:'' @ pr_id new_asset @ '':'' @ int_text (pr_revision new_asset))
                       ''prepared_asset'' (pr_id new_asset) (Some (pr_revision new_asset))) db1) (\<lambda>db2.
                   res_bind (reopen_approval workspace_id product_id (pr_action_id base) db2) (\<lambda>db3.
                   res_bind (record_command env c (pr_id new_asset) db3) (\<lambda>db4.
                   Inr (new_asset, db4)))))))"

definition revise_asset_use_case ::
  "growth_env \<Rightarrow> uuid \<Rightarrow> uuid \<Rightarrow> uuid \<Rightarrow> int \<Rightarrow> (string \<times> pyval) list \<Rightarrow> string \<Rightarrow> string \<Rightarrow> growth_db
     \<Rightarrow> prepared_asset res \<times> growth_db" where
  "revise_asset_use_case env workspace_id product_id asset_id revision structured_content idempotency_key
      fingerprint =
     (let c = new_command workspace_id product_id ''asset.patch'' asset_id idempotency_key fingerprint in
      use_case (with_replay c (\<lambda>i db. get_asset db workspace_id product_id i)
        ''Asset replay result not found.''
        (revise_body env workspace_id product_id asset_id revision structured_content c)))"

definition reject_request :: "instant \<Rightarrow> prepared_asset \<Rightarrow> string option \<Rightarrow> uuid \<Rightarrow> approval_request \<Rightarrow> approval_request" where
  "reject_request now asset reason actor_id x =
     x\<lparr>ap_status := ''rejected'', ap_asset_id := Some (pr_id asset),
       ap_asset_revision := Some (pr_revision asset), ap_reason := reason,
       ap_decided_by_actor_id := Some actor_id, ap_decided_at := Some now\<rparr>"

definition reject_action :: "plan_action \<Rightarrow> plan_action" where
  "reject_action a = a\<lparr>pa_approval_status := ''rejected'', pa_status := ''pending''\<rparr>"

definition reject_body ::
  "growth_env \<Rightarrow> instant \<Rightarrow> uuid \<Rightarrow> uuid \<Rightarrow> uuid \<Rightarrow> int \<Rightarrow> uuid \<Rightarrow> string option \<Rightarrow> command \<Rightarrow> growth_db
     \<Rightarrow> (prepared_asset \<times> growth_db) res" where
  "reject_body env now workspace_id product_id asset_id revision actor_id reason c db =
     (case get_exact_asset db workspace_id product_id asset_id revision of
        None \<Rightarrow> Inl (LookupError ''Asset not found.'')
      | Some asset \<Rightarrow> (case (pr_action_id asset,
            case pr_action_id asset of None \<Rightarrow> None | Some aid \<Rightarrow> approval_of db workspace_id product_id aid) of
          (Some aid, Some approval) \<Rightarrow>
            (case get_action db workspace_id product_id aid of
               None \<Rightarrow> Inl (LookupError ''Action not found.'')
             | Some action \<Rightarrow>
                 let db1 = update_action aid reject_action
                       (update_approval (ap_id approval) (reject_request now asset reason actor_id) db)
                 in res_bind (log_event env (product_event_request workspace_id product_id (Some actor_id)
                       ''asset_rejected''
                       (''asset-rejected:'' @ pr_id asset @ '':'' @ int_text (pr_revision asset))
                       ''prepared_asset'' (pr_id asset) (Some (pr_revision asset))) db1) (\<lambda>db2.
                    res_bind (record_command env c (pr_id asset) db2) (\<lambda>db3.
                    Inr (asset, db3))))
        | _ \<Rightarrow> Inl (LookupError ''Approval request not found.'')))"

definition reject_asset_use_case ::
  "growth_env \<Rightarrow> instant \<Rightarrow> uuid \<Rightarrow> uuid \<Rightarrow> uuid \<Rightarrow> int \<Rightarrow> uuid \<Rightarrow> string option \<Rightarrow> string \<Rightarrow> string \<Rightarrow> growth_db
     \<Rightarrow> prepared_asset res \<times> growth_db" where
  "reject_asset_use_case env now workspace_id product_id asset_id revision actor_id reason idempotency_key
      fingerprint =
     (let c = new_command workspace_id product_id ''asset.reject'' asset_id idempotency_key fingerprint in
      use_case (with_replay c (\<lambda>i db. get_asset db workspace_id product_id i)
        ''Asset replay result not found.''
        (reject_body env now workspace_id product_id asset_id revision actor_id reason c)))"

end
