(* ===== verification/Growth_Facts.thy ===== *)
theory Growth_Facts
  imports Growth_Actions
begin

text \<open>
  What the approval of growth actions guarantees. The invariant \<open>growth_inv\<close> says that an action
  that is ready to start has an approval for the latest revision of its asset and that the risk
  review of this revision does not block it; every use case of the weekly growth loop keeps it.
\<close>

section \<open>The invariant\<close>

definition approved_exactly :: "growth_db \<Rightarrow> plan_action \<Rightarrow> bool" where
  "approved_exactly db a \<longleftrightarrow> pa_approval_status a = ''approved''
     \<and> (case (pa_product_id a, pa_approved_asset_id a, pa_approved_asset_revision a) of
          (Some p, Some i, Some n) \<Rightarrow>
            list_ex (\<lambda>x. pr_workspace_id x = pa_workspace_id a \<and> pr_product_id x = p \<and> pr_id x = i
                \<and> pr_revision x = n \<and> pr_action_id x = Some (pa_id a)
                \<and> map_option pr_revision (latest_asset db (pa_workspace_id a) p (pr_recommendation_id x)
                    (Some (pa_id a))) = Some n) (gd_assets db)
            \<and> (case current_review db (pa_workspace_id a) p i n of
                 None \<Rightarrow> False | Some r \<Rightarrow> rv_final_outcome r \<noteq> ''block'')
        | _ \<Rightarrow> False)"

definition growth_inv :: "growth_db \<Rightarrow> bool" where
  "growth_inv db \<longleftrightarrow> distinct (map pa_id (gd_actions db)) \<and> distinct (map pr_id (gd_assets db))
     \<and> distinct (map rc_id (gd_recommendations db))
     \<and> list_all (\<lambda>a. pa_status a = ''ready'' \<longrightarrow> approved_exactly db a) (gd_actions db)"

lemma approved_exactly_cong:
  "gd_assets db' = gd_assets db \<Longrightarrow> gd_reviews db' = gd_reviews db \<Longrightarrow>
     approved_exactly db' a = approved_exactly db a"
proof -
  assume same: "gd_assets db' = gd_assets db" "gd_reviews db' = gd_reviews db"
  have views: "latest_asset db' = latest_asset db" "current_review db' = current_review db"
    by (intro ext; simp add: latest_asset_def current_review_def same)+
  show "approved_exactly db' a = approved_exactly db a"
    unfolding approved_exactly_def same views by (rule refl)
qed

lemma approved_exactly_frame:
  "same_approval_tables db db' \<Longrightarrow> approved_exactly db' a = approved_exactly db a"
  by (rule approved_exactly_cong) (simp_all add: same_approval_tables_def)

text \<open>Rewriting one action keeps the invariant when the rewritten action satisfies it.\<close>

lemma growth_inv_update:
  assumes "growth_inv db" "gd_assets db' = gd_assets db" "gd_reviews db' = gd_reviews db"
    and "map rc_id (gd_recommendations db') = map rc_id (gd_recommendations db)"
    and "gd_actions db' = map (\<lambda>a. if pa_id a = aid then f a else a) (gd_actions db)"
    and "\<And>a. pa_id (f a) = pa_id a"
    and "\<And>a. a \<in> set (gd_actions db) \<Longrightarrow> pa_id a = aid \<Longrightarrow> pa_status (f a) = ''ready'' \<Longrightarrow>
           approved_exactly db (f a)"
  shows "growth_inv db'"
proof -
  have "map pa_id (gd_actions db') = map pa_id (gd_actions db)" using assms(5,6) by simp
  moreover have "approved_exactly db a"
    if "a \<in> set (gd_actions db')" "pa_status a = ''ready''" for a
    using that assms(1,5,7) by (auto simp: growth_inv_def list_all_iff split: if_splits)
  ultimately show ?thesis
    using assms(1-4) approved_exactly_cong [OF assms(2,3)]
    by (simp add: growth_inv_def list_all_iff)
qed

lemma growth_inv_frame:
  assumes "growth_inv db" "same_approval_tables db db'"
    and "map rc_id (gd_recommendations db') = map rc_id (gd_recommendations db)"
  shows "growth_inv db'"
  using assms approved_exactly_frame [OF assms(2)]
  by (auto simp: growth_inv_def same_approval_tables_def list_all_iff)

lemma get_action_in:
  "get_action db w p aid = Some a \<Longrightarrow> a \<in> set (gd_actions db) \<and> pa_id a = aid
     \<and> pa_workspace_id a = w \<and> pa_product_id a = Some p"
  by (auto simp: get_action_def find_Some_iff)

lemma get_action_update:
  assumes "get_action db w p aid = Some a"
    and "gd_actions db' = map (\<lambda>a. if pa_id a = aid then f a else a) (gd_actions db)"
    and "\<And>a. pa_id (f a) = pa_id a \<and> pa_workspace_id (f a) = pa_workspace_id a
           \<and> pa_product_id (f a) = pa_product_id a"
  shows "get_action db' w p aid = Some (f a)"
proof -
  have "find (\<lambda>a. pa_workspace_id a = w \<and> pa_product_id a = Some p \<and> pa_id a = aid)
      (map (\<lambda>a. if pa_id a = aid then f a else a) (gd_actions db))
    = Some (if pa_id a = aid then f a else a)"
    using assms(1,3) unfolding get_action_def by (intro find_map_keeps) auto
  then show ?thesis using assms(2) get_action_in [OF assms(1)] by (simp add: get_action_def)
qed

lemma get_action_cong: "gd_actions db' = gd_actions db \<Longrightarrow> get_action db' w p aid = get_action db w p aid"
  by (simp add: get_action_def)

lemma unique_action:
  "growth_inv db \<Longrightarrow> a \<in> set (gd_actions db) \<Longrightarrow> b \<in> set (gd_actions db) \<Longrightarrow> pa_id a = pa_id b \<Longrightarrow> a = b"
  by (auto simp: growth_inv_def distinct_map inj_on_def)

section \<open>What the operations leave alone\<close>

lemma add_decision_tables:
  "same_approval_tables db (add_decision env w p rid d reason comment actor t db)"
  "gd_receipts (add_decision env w p rid d reason comment actor t db) = gd_receipts db"
  "gd_recommendations (add_decision env w p rid d reason comment actor t db) = gd_recommendations db"
  by (simp_all add: add_decision_def same_approval_tables_def drawn_def)

lemma add_action_event_tables:
  "same_approval_tables db (add_action_event env w p aid prev target actor reason comment db)"
  "gd_recommendations (add_action_event env w p aid prev target actor reason comment db)
     = gd_recommendations db"
  by (simp_all add: add_action_event_def same_approval_tables_def drawn_def)

lemma update_recommendation_ids [simp]:
  "(\<And>r. rc_id (f r) = rc_id r) \<Longrightarrow>
     map rc_id (gd_recommendations (update_recommendation i f db)) = map rc_id (gd_recommendations db)"
  by (simp add: update_recommendation_def)

lemma update_action_recommendations [simp]:
  "gd_recommendations (update_action aid f db) = gd_recommendations db"
  "gd_recommendations (update_approval i g db) = gd_recommendations db"
  by (simp_all add: update_action_def update_approval_def)

lemma withdraw_recommendation_tables:
  "same_approval_tables db (withdraw_recommendation env w p a actor t reason comment db)"
  "map rc_id (gd_recommendations (withdraw_recommendation env w p a actor t reason comment db))
     = map rc_id (gd_recommendations db)"
  by (auto simp: withdraw_recommendation_def add_decision_def same_approval_tables_def drawn_def
      update_recommendation_def split: option.splits)

lemma log_event_recommendations: "log_event env r db = Inr db' \<Longrightarrow> gd_recommendations db' = gd_recommendations db"
  by (auto simp: log_event_def res_bind_eq_Inr drawn_def)

lemma record_command_recommendations:
  "record_command env c i db = Inr db' \<Longrightarrow> gd_recommendations db' = gd_recommendations db"
  by (auto simp: record_command_def drawn_def split: if_splits)

lemma enqueue_recommendations: "enqueue env row db = Inr db' \<Longrightarrow> gd_recommendations db' = gd_recommendations db"
  by (auto simp: enqueue_def res_bind_eq_Inr drawn_def split: if_splits)

lemma project_tables:
  "project_x_asset_to_draft env now w p i n db = Inr (d, db') \<Longrightarrow> same_approval_tables db db'
     \<and> gd_recommendations db' = gd_recommendations db \<and> gd_receipts db' = gd_receipts db"
  by (auto simp: project_x_asset_to_draft_def res_bind_eq_Inr same_approval_tables_def insert_draft_def
      drawn_def Let_def split: option.splits if_splits)

lemma schedule_measurement_tables:
  assumes "schedule_measurement env now w p aid key t db = Inr (m, db')"
  shows "\<exists>due. gd_actions db' = map (\<lambda>a. if pa_id a = aid then a\<lparr>pa_measurement_due_at := Some due\<rparr> else a)
        (gd_actions db)"
    "gd_assets db' = gd_assets db" "gd_reviews db' = gd_reviews db"
    "gd_recommendations db' = gd_recommendations db"
proof -
  obtain due db0 where db0: "db0 = update_action aid (\<lambda>a. a\<lparr>pa_measurement_due_at := Some due\<rparr>) db"
    and same: "same_approval_tables db0 db'" "gd_recommendations db' = gd_recommendations db0"
  proof -
    from assms obtain action where action: "get_action db w p aid = Some action"
      by (auto simp: schedule_measurement_def split: option.splits)
    let ?due = "t + Times.days (window_days action)"
    let ?db = "update_action aid (\<lambda>a. a\<lparr>pa_measurement_due_at := Some ?due\<rparr>) db"
    show thesis
    proof (cases "find (\<lambda>m. mw_workspace_id m = w \<and> mw_idempotency_key m = key) (gd_measurements ?db)")
      case (Some x)
      then show thesis using assms action that [of ?db ?due] by (simp add: schedule_measurement_def Let_def)
    next
      case None
      then obtain m' row db2 where "add_measurement m' (drawn ?db) = Inr db2" "enqueue env row db2 = Inr db'"
        using assms action by (auto simp: schedule_measurement_def Let_def res_bind_eq_Inr)
      then have "same_approval_tables ?db db2" "gd_recommendations db2 = gd_recommendations ?db"
        "same_approval_tables db2 db'" "gd_recommendations db' = gd_recommendations db2"
        using enqueue_tables [of env row db2 db'] enqueue_recommendations [of env row db2 db']
        by (auto simp: add_measurement_def same_approval_tables_def drawn_def split: if_splits)
      then show thesis using that [of ?db ?due] same_approval_trans by simp
    qed
  qed
  then show "\<exists>due. gd_actions db' = map (\<lambda>a. if pa_id a = aid then a\<lparr>pa_measurement_due_at := Some due\<rparr> else a)
        (gd_actions db)"
    "gd_assets db' = gd_assets db" "gd_reviews db' = gd_reviews db"
    "gd_recommendations db' = gd_recommendations db"
    by (auto simp: same_approval_tables_def)
qed

section \<open>Every operation keeps the invariant\<close>

lemma log_record_tables:
  assumes "log_event env r db1 = Inr db2" "record_command env c i db2 = Inr db3"
  shows "same_approval_tables db1 db3" "gd_recommendations db3 = gd_recommendations db1"
  using log_event_tables [OF assms(1)] record_command_tables [OF assms(2)]
    log_event_recommendations [OF assms(1)] record_command_recommendations [OF assms(2)]
  by (auto intro: same_approval_trans)

lemma decide_result:
  assumes "decide_recommendation env now w p rid accept actor reason comment db = Inr (r, db')"
  shows "same_approval_tables db db'" "map rc_id (gd_recommendations db') = map rc_id (gd_recommendations db)"
    "gd_receipts db' = gd_receipts db" "rc_id r = rid" "get_recommendation db' w p rid = Some r"
proof -
  from assms obtain r0 t where r0: "get_recommendation db w p rid = Some r0" "r = r0\<lparr>rc_accepted_at := t\<rparr>"
    and db': "db' = add_decision env w p rid (decision_text accept) reason comment actor now
        (update_recommendation rid (\<lambda>r. r\<lparr>rc_accepted_at := t\<rparr>) db)"
    by (auto simp: decide_recommendation_def Let_def split: option.splits if_splits)
  show "same_approval_tables db db'" "map rc_id (gd_recommendations db') = map rc_id (gd_recommendations db)"
    "gd_receipts db' = gd_receipts db"
    by (simp_all add: db' add_decision_def same_approval_tables_def drawn_def)
  show "rc_id r = rid" using r0 by (auto simp: get_recommendation_def find_Some_iff)
  have "find (\<lambda>r. rc_workspace_id r = w \<and> rc_product_id r = p \<and> rc_id r = rid)
      (map (\<lambda>x. if rc_id x = rid then x\<lparr>rc_accepted_at := t\<rparr> else x) (gd_recommendations db))
    = Some (if rc_id r0 = rid then r0\<lparr>rc_accepted_at := t\<rparr> else r0)"
    using r0(1) unfolding get_recommendation_def by (intro find_map_keeps) auto
  then show "get_recommendation db' w p rid = Some r"
    using r0 by (auto simp: db' add_decision_def drawn_def get_recommendation_def update_recommendation_def
        find_Some_iff)
qed

lemma decide_body_inv:
  assumes "growth_inv db" "decide_body env now w p rid accept actor reason comment c db = Inr (x, db')"
  shows "growth_inv db'"
proof -
  from assms(2) obtain r i db1 db2 where
    d: "decide_recommendation env now w p rid accept actor reason comment db = Inr (x, db1)"
    and l: "log_event env r db1 = Inr db2" "record_command env c i db2 = Inr db'"
    by (auto simp: decide_body_def res_bind_eq_Inr)
  have "same_approval_tables db db'"
    using decide_result(1) [OF d] log_record_tables(1) [OF l] by (rule same_approval_trans)
  then show ?thesis
    using decide_result(2) [OF d] log_record_tables(2) [OF l] by (intro growth_inv_frame [OF assms(1)]) simp_all
qed

lemma approve_body_result:
  assumes "approve_body env now w p aid i n actor c db = Inr (a', db')"
  obtains (same) "same_approval_tables db db'" "gd_recommendations db' = gd_recommendations db"
      "get_action db w p aid = Some a'"
  | (moved) action where "get_action db w p aid = Some action" "a' = approve_action i n action"
      "gd_actions db' = map (\<lambda>a. if pa_id a = aid then approve_action i n a else a) (gd_actions db)"
      "gd_assets db' = gd_assets db" "gd_reviews db' = gd_reviews db"
      "gd_recommendations db' = gd_recommendations db"
      "approved_exactly db (approve_action i n action)"
proof -
  from assms obtain action where action: "get_action db w p aid = Some action"
    by (auto simp: approve_body_def split: option.splits)
  show thesis
  proof (cases "pa_approval_status action = ''approved'' \<and> pa_approved_asset_id action = Some i
      \<and> pa_approved_asset_revision action = Some n")
    case True
    then have r: "record_command env c (pa_id action) db = Inr db' \<and> action = a'"
      using assms action by (clarsimp simp: approve_body_def res_bind_eq_Inr)
    then show thesis
      using same action record_command_tables [of env c "pa_id action" db db']
        record_command_recommendations [of env c "pa_id action" db db'] by blast
  next
    case False
    let ?log = "product_event_request w p (Some actor) ''asset_approved''
        (''asset-approved:'' @ i @ '':'' @ int_text n) ''prepared_asset'' i (Some n)"
    let ?rest = "res_bind (approve_exact_revision env now w p aid i n actor db) (\<lambda>(_, db1).
        res_bind (log_event env ?log db1) (\<lambda>db2. res_bind (record_command env c (pa_id action) db2) (\<lambda>db3.
        Inr (approve_action i n action, db3))))"
    from False have "approve_body env now w p aid i n actor c db
        = (case get_exact_asset db w p i n of
              None \<Rightarrow> Inl (LookupError ''Action or exact asset revision not found.'')
            | Some asset \<Rightarrow>
                if pr_action_id asset \<noteq> Some aid
                then Inl (LookupError ''Action or exact asset revision not found.'')
                else if map_option pr_revision (latest_asset db w p (pr_recommendation_id asset) (Some aid))
                    \<noteq> Some n
                then Inl (DomainConflictError ''Asset revision is stale.'')
                else if (case current_review db w p i n of None \<Rightarrow> True | Some r \<Rightarrow> rv_final_outcome r = ''block'')
                then Inl (DomainConflictError ''Asset risk is not current or is blocked.'')
                else ?rest)"
      unfolding approve_body_def action option.case by (rule if_not_P)
    with assms obtain asset where asset: "get_exact_asset db w p i n = Some asset"
      "pr_action_id asset = Some aid"
      "map_option pr_revision (latest_asset db w p (pr_recommendation_id asset) (Some aid)) = Some n"
      and r: "case current_review db w p i n of None \<Rightarrow> False | Some r \<Rightarrow> rv_final_outcome r \<noteq> ''block''"
      and rest: "?rest = Inr (a', db')"
      by (cases "get_exact_asset db w p i n") (auto split: if_splits option.splits)
    from rest obtain ap db1 db2 where
      e: "approve_exact_revision env now w p aid i n actor db = Inr (ap, db1)"
      and l: "log_event env ?log db1 = Inr db2" "record_command env c (pa_id action) db2 = Inr db'"
      and a': "a' = approve_action i n action"
      by (auto simp: res_bind_eq_Inr)
    have "\<exists>(approval :: approval_request) d. project_x_asset_to_draft env now w p i n
        (update_action aid (approve_action i n)
          (update_approval (ap_id approval) (approve_request now i n actor) db)) = Inr (d, db1)"
      using e unfolding approve_exact_revision_def action asset(1)
      by (auto simp: res_bind_eq_Inr Let_def split: option.splits if_splits)
    then obtain approval :: approval_request and d where pr: "project_x_asset_to_draft env now w p i n
        (update_action aid (approve_action i n)
          (update_approval (ap_id approval) (approve_request now i n actor) db)) = Inr (d, db1)" by blast
    have tables: "gd_actions db' = map (\<lambda>a. if pa_id a = aid then approve_action i n a else a) (gd_actions db)"
      "gd_assets db' = gd_assets db" "gd_reviews db' = gd_reviews db" "gd_recommendations db' = gd_recommendations db"
      using project_tables [OF pr] log_record_tables [OF l] by (auto simp: same_approval_tables_def)
    have "approved_exactly db (approve_action i n action)"
      using asset r get_action_in [OF action]
      by (auto simp: approved_exactly_def approve_action_def list_ex_iff get_exact_asset_def find_Some_iff
          intro!: bexI [of _ asset])
    then show thesis using moved action a' tables by blast
  qed
qed

lemma approve_body_inv:
  assumes "growth_inv db" "approve_body env now w p aid i n actor c db = Inr (a', db')"
  shows "growth_inv db'"
  using assms(2)
proof (cases rule: approve_body_result)
  case same
  then show ?thesis using growth_inv_frame [OF assms(1)] by simp
next
  case (moved action)
  show ?thesis
  proof (rule growth_inv_update [OF assms(1) moved(4,5) _ moved(3)])
    fix a assume "a \<in> set (gd_actions db)" "pa_id a = aid"
    then have "a = action" using unique_action [OF assms(1)] get_action_in [OF moved(1)] by auto
    then show "approved_exactly db (approve_action i n a)" using moved(7) by simp
  qed (simp_all add: moved(6) approve_action_def)
qed

lemma transition_canonical_result:
  assumes "transition_canonical_action env now w p aid target actor reason comment db = Inr (a', db')"
  obtains action where "get_action db w p aid = Some action" "is_ok (transition_action (pa_status action) target)"
    "a' = moved_action target actor now reason comment action"
    "gd_actions db' = map (\<lambda>a. if pa_id a = aid then moved_action target actor now reason comment a else a)
        (gd_actions db)"
    "gd_assets db' = gd_assets db" "gd_reviews db' = gd_reviews db"
    "map rc_id (gd_recommendations db') = map rc_id (gd_recommendations db)"
proof -
  let ?f = "moved_action target actor now reason comment"
  from assms obtain action st where action: "get_action db w p aid = Some action"
    "transition_action (pa_status action) target = Inr st" "a' = ?f action"
    and db': "db' = add_action_event env w p (pa_id action) (pa_status action) target actor reason comment
        (if target = ''dismissed'' then withdraw_recommendation env w p action actor now reason comment
           (update_action aid ?f db) else update_action aid ?f db)"
    by (auto simp: transition_canonical_action_def res_bind_eq_Inr Let_def split: option.splits)
  have "same_approval_tables (update_action aid ?f db) db'"
    "map rc_id (gd_recommendations db') = map rc_id (gd_recommendations db)"
    using add_action_event_tables withdraw_recommendation_tables
    by (auto simp: db' same_approval_tables_def)
  then show thesis using that [OF action(1)] action(2,3) by (auto simp: same_approval_tables_def)
qed

lemma moved_action_simps [simp]:
  "pa_id (moved_action target actor t reason comment a) = pa_id a"
  "pa_workspace_id (moved_action target actor t reason comment a) = pa_workspace_id a"
  "pa_product_id (moved_action target actor t reason comment a) = pa_product_id a"
  "pa_status (moved_action target actor t reason comment a) = target"
  by (simp_all add: moved_action_def Let_def)

text \<open>What a transition leaves: the action moved, perhaps with the date of its measurement.\<close>

definition settled_move :: "string \<Rightarrow> plan_action \<Rightarrow> plan_action \<Rightarrow> bool" where
  "settled_move target a a' \<longleftrightarrow> pa_id a' = pa_id a \<and> pa_workspace_id a' = pa_workspace_id a
     \<and> pa_product_id a' = pa_product_id a \<and> pa_status a' = target"

lemma transition_body_result:
  assumes "transition_body env now w p aid target actor reason comment c db = Inr (a', db')"
  obtains (same) "same_approval_tables db db'" "gd_recommendations db' = gd_recommendations db"
      "get_action db w p aid = Some a'" "pa_status a' = target"
  | (moved) action f where "get_action db w p aid = Some action" "pa_status action \<noteq> target"
      "is_ok (transition_action (pa_status action) target)"
      "gd_actions db' = map (\<lambda>a. if pa_id a = aid then f a else a) (gd_actions db)"
      "\<And>a. settled_move target a (f a)"
      "gd_assets db' = gd_assets db" "gd_reviews db' = gd_reviews db"
      "map rc_id (gd_recommendations db') = map rc_id (gd_recommendations db)"
      "get_action db' w p aid = Some a'"
proof -
  from assms obtain action where action: "get_action db w p aid = Some action"
    by (auto simp: transition_body_def split: option.splits)
  show thesis
  proof (cases "pa_status action = target")
    case True
    then have r: "record_command env c (pa_id action) db = Inr db' \<and> action = a'"
      using assms action by (clarsimp simp: transition_body_def res_bind_eq_Inr)
    then show thesis
      using same action True record_command_tables [of env c "pa_id action" db db']
        record_command_recommendations [of env c "pa_id action" db db'] by blast
  next
    case False
    from assms action False obtain m db1 db2 db3 where
      t: "transition_canonical_action env now w p aid target actor reason comment db = Inr (m, db1)"
      and l: "(case action_event_name target of None \<Rightarrow> Inr db1
              | Some name \<Rightarrow> log_event env (product_event_request w p (Some actor) name
                  (map (\<lambda>x. if x = CHR ''_'' then CHR ''-'' else x) name @ '':'' @ aid)
                  ''plan_action'' aid None) db1) = Inr db2"
      and sm: "(if target = ''completed''
                then res_bind (schedule_measurement env now w p aid
                       (cm_idempotency_key c @ '':measurement'') now db2) (\<lambda>(_, db3). Inr db3)
                else Inr db2) = Inr db3"
      and r: "record_command env c (pa_id m) db3 = Inr db'" and a': "a' = refreshed db' w p m"
      by (auto simp: transition_body_def res_bind_eq_Inr)
    obtain f0 where f0: "f0 = moved_action target actor now reason comment" by simp
    from t have tc: "is_ok (transition_action (pa_status action) target)" "m = f0 action"
      "gd_actions db1 = map (\<lambda>a. if pa_id a = aid then f0 a else a) (gd_actions db)"
      "gd_assets db1 = gd_assets db" "gd_reviews db1 = gd_reviews db"
      "map rc_id (gd_recommendations db1) = map rc_id (gd_recommendations db)"
      by (rule transition_canonical_result; use action f0 in simp)+
    have l2: "same_approval_tables db1 db2" "gd_recommendations db2 = gd_recommendations db1"
      using l by (auto split: option.splits dest: log_event_tables log_event_recommendations)
    obtain g where g: "gd_actions db3 = map (\<lambda>a. if pa_id a = aid then g a else a) (gd_actions db2)"
      "\<And>a. settled_move (pa_status a) a (g a)"
      "gd_assets db3 = gd_assets db2" "gd_reviews db3 = gd_reviews db2"
      "gd_recommendations db3 = gd_recommendations db2"
    proof (cases "target = ''completed''")
      case True
      then obtain m' where "schedule_measurement env now w p aid (cm_idempotency_key c @ '':measurement'') now db2
          = Inr (m', db3)" using sm by (auto simp: res_bind_eq_Inr)
      note sch = schedule_measurement_tables [OF this]
      from sch(1) obtain due where "gd_actions db3
          = map (\<lambda>a. if pa_id a = aid then a\<lparr>pa_measurement_due_at := Some due\<rparr> else a) (gd_actions db2)" by blast
      then show thesis using that [of "\<lambda>a. a\<lparr>pa_measurement_due_at := Some due\<rparr>"] sch(2-4)
        by (simp add: settled_move_def)
    next
      case False
      then show thesis using that [of "\<lambda>a. a"] sm by (simp add: settled_move_def map_idI)
    qed
    note r2 = record_command_tables [OF r] record_command_recommendations [OF r]
    let ?f = "\<lambda>a. g (f0 a)"
    have id0: "pa_id (f0 a) = pa_id a" for a using f0 by simp
    have acts: "gd_actions db' = map (\<lambda>a. if pa_id a = aid then ?f a else a) (gd_actions db)"
      using tc(3) l2(1) g(1) r2(1) id0 by (auto simp: same_approval_tables_def)
    have mv: "settled_move target a (?f a)" for a
      using g(2) [of "f0 a"] f0 by (simp add: settled_move_def)
    have get: "get_action db' w p aid = Some (?f action)"
      by (rule get_action_update [OF action acts]) (use mv in \<open>auto simp: settled_move_def\<close>)
    have "pa_id m = aid" using tc(2) id0 get_action_in [OF action] by simp
    then have "a' = ?f action" using get a' by (simp add: refreshed_def)
    then show thesis
      using moved [OF action False tc(1) acts mv] get tc(4-6) l2 g(3-5) r2
      by (auto simp: same_approval_tables_def)
  qed
qed

lemma transition_body_inv:
  assumes "growth_inv db" "transition_body env now w p aid target actor reason comment c db = Inr (a', db')"
    and "target \<noteq> ''ready''"
  shows "growth_inv db'"
  using assms(2)
proof (cases rule: transition_body_result)
  case same
  then show ?thesis using growth_inv_frame [OF assms(1)] by simp
next
  case (moved action f)
  then show ?thesis
    using assms(3) by (intro growth_inv_update [OF assms(1) moved(6-8,4)]) (auto simp: settled_move_def)
qed

text \<open>A new asset of another action does not disturb an approval.\<close>

lemma approved_exactly_add_asset:
  assumes "approved_exactly db a" "gd_assets db' = gd_assets db @ [x]" "gd_reviews db' = gd_reviews db"
    and "pr_action_id x \<noteq> Some (pa_id a)"
  shows "approved_exactly db' a"
proof -
  have l: "latest_asset db' w p r (Some (pa_id a)) = latest_asset db w p r (Some (pa_id a))" for w p r
    using assms(2,4) by (simp add: latest_asset_def asset_lineage_def)
  have v: "current_review db' = current_review db"
    by (intro ext) (simp add: current_review_def assms(3))
  show ?thesis
    using assms(1) unfolding approved_exactly_def assms(2) v l
    by (auto simp: list_ex_iff split: option.splits)
qed

lemma withdraw_approval_simps [simp]:
  "pa_id (withdraw_approval a) = pa_id a" "pa_workspace_id (withdraw_approval a) = pa_workspace_id a"
  "pa_product_id (withdraw_approval a) = pa_product_id a"
  "pa_approval_status (withdraw_approval a) = ''pending''" "pa_status (withdraw_approval a) \<noteq> ''ready''"
  "pa_approved_asset_id (withdraw_approval a) = None"
  by (simp_all add: withdraw_approval_def)

lemma reopen_result:
  assumes "reopen_approval w p act db = Inr db'"
  shows "gd_actions db' = map (\<lambda>a. if Some (pa_id a) = act then withdraw_approval a else a) (gd_actions db)"
    "gd_assets db' = gd_assets db" "gd_reviews db' = gd_reviews db"
    "gd_recommendations db' = gd_recommendations db"
  using assms
  by (auto simp: reopen_approval_def Let_def map_idI split: option.splits)

lemma add_asset_result:
  assumes "add_asset x db = Inr db'"
  shows "gd_assets db' = gd_assets db @ [x]" "gd_actions db' = gd_actions db" "gd_reviews db' = gd_reviews db"
    "gd_recommendations db' = gd_recommendations db" "pr_id x \<notin> pr_id ` set (gd_assets db)"
  using assms by (auto simp: add_asset_def list_ex_iff split: if_splits)

lemma log_event_untouched:
  assumes "log_event env r db = Inr db'"
  shows "gd_actions db' = gd_actions db" "gd_assets db' = gd_assets db" "gd_approvals db' = gd_approvals db"
    "gd_reviews db' = gd_reviews db" "gd_recommendations db' = gd_recommendations db"
    "gd_receipts db' = gd_receipts db"
  using log_event_tables [OF assms] log_event_recommendations [OF assms] by (auto simp: same_approval_tables_def)

lemma revise_body_result:
  assumes "revise_body env w p i n new c db = Inr (x, db')"
  obtains (same) "same_approval_tables db db'" "gd_recommendations db' = gd_recommendations db"
      "x \<in> set (gd_assets db)"
  | (revised) base latest where "base \<in> set (gd_assets db)" "pr_workspace_id base = w" "pr_product_id base = p"
      "pr_id base = i" "latest_asset db w p (pr_recommendation_id base) (pr_action_id base) = Some latest"
      "n = pr_revision latest" "pr_revision x = n + 1" "pr_action_id x = pr_action_id base"
      "pr_workspace_id x = w" "pr_product_id x = p" "pr_recommendation_id x = pr_recommendation_id base"
      "gd_assets db' = gd_assets db @ [x]" "pr_id x \<notin> pr_id ` set (gd_assets db)"
      "gd_actions db' = map (\<lambda>a. if Some (pa_id a) = pr_action_id base then withdraw_approval a else a)
         (gd_actions db)"
      "gd_reviews db' = gd_reviews db" "gd_recommendations db' = gd_recommendations db"
      "\<And>aid. pr_action_id base = Some aid \<Longrightarrow> get_action db w p aid \<noteq> None"
proof -
  from assms obtain base where b: "(case get_exact_asset db w p i n of
      None \<Rightarrow> get_asset db w p i | Some x \<Rightarrow> Some x) = Some base"
    by (auto simp: revise_body_def split: option.splits)
  then have base: "base \<in> set (gd_assets db)" "pr_workspace_id base = w" "pr_product_id base = p" "pr_id base = i"
    by (auto simp: get_exact_asset_def get_asset_def find_Some_iff split: option.splits)
  from assms b obtain new_content latest where
    latest: "latest_asset db w p (pr_recommendation_id base) (pr_action_id base) = Some latest"
    and rest: "(if n \<noteq> pr_revision latest
              then (if n + 1 = pr_revision latest
                       \<and> json_dumps (pr_structured_content latest) = json_dumps new_content
                    then res_bind (record_command env c (pr_id latest) db) (\<lambda>db1. Inr (latest, db1))
                    else Inl (DomainConflictError ''Asset revision is stale.''))
              else let new_asset = revised_asset (draw env db) base latest new_content
                in res_bind (add_asset new_asset (drawn db)) (\<lambda>db1.
                   res_bind (log_event env (product_event_request w p None ''asset_edited''
                       (''asset-edited:'' @ pr_id new_asset @ '':'' @ int_text (pr_revision new_asset))
                       ''prepared_asset'' (pr_id new_asset) (Some (pr_revision new_asset))) db1) (\<lambda>db2.
                   res_bind (reopen_approval w p (pr_action_id base) db2) (\<lambda>db3.
                   res_bind (record_command env c (pr_id new_asset) db3) (\<lambda>db4.
                   Inr (new_asset, db4)))))) = Inr (x, db')"
    unfolding revise_body_def by (auto simp: res_bind_eq_Inr split: option.splits)
  show thesis
  proof (cases "n = pr_revision latest")
    case False
    with rest have "record_command env c (pr_id latest) db = Inr db'" "x = latest"
      by (auto simp: res_bind_eq_Inr split: if_splits)
    moreover have "latest \<in> set (gd_assets db)"
    proof -
      have "latest \<in> set (rev (sort_key pr_revision (filter (asset_lineage w p (pr_recommendation_id base)
          (pr_action_id base)) (gd_assets db))))"
        using latest unfolding latest_asset_def
        by (cases "rev (sort_key pr_revision (filter (asset_lineage w p (pr_recommendation_id base)
          (pr_action_id base)) (gd_assets db)))") auto
      then show ?thesis by simp
    qed
    ultimately show thesis
      using same record_command_tables [of env c "pr_id latest" db db']
        record_command_recommendations [of env c "pr_id latest" db db'] by blast
  next
    case True
    then obtain req db1 db2 db3 where x: "x = revised_asset (draw env db) base latest new_content"
      and a: "add_asset x (drawn db) = Inr db1" and l: "log_event env req db1 = Inr db2"
      and o: "reopen_approval w p (pr_action_id base) db2 = Inr db3"
      and r: "record_command env c (pr_id x) db3 = Inr db'"
      using rest by (auto simp: res_bind_eq_Inr Let_def)
    note tables = add_asset_result [OF a] log_event_tables [OF l] log_event_recommendations [OF l]
      reopen_result [OF o] record_command_tables [OF r] record_command_recommendations [OF r]
    have "get_action db w p aid \<noteq> None" if "pr_action_id base = Some aid" for aid
      using o that tables(2) log_event_untouched(1) [OF l]
      by (auto simp: reopen_approval_def get_action_def split: option.splits)
    moreover have "gd_recommendations (drawn db) = gd_recommendations db" by (simp add: drawn_def)
    ultimately show thesis
      using revised [OF base latest True] x base True tables
      by (simp add: same_approval_tables_def revised_asset_def)
  qed
qed

lemma revise_body_inv:
  assumes "growth_inv db" "revise_body env w p i n new c db = Inr (x, db')"
  shows "growth_inv db'"
  using assms(2)
proof (cases rule: revise_body_result)
  case same
  then show ?thesis using growth_inv_frame [OF assms(1)] by simp
next
  case (revised base latest)
  have "map pa_id (gd_actions db') = map pa_id (gd_actions db)" using revised(14) by simp
  moreover have "approved_exactly db' a"
    if in': "a \<in> set (gd_actions db')" and ready: "pa_status a = ''ready''" for a
  proof -
    have a: "a \<in> set (gd_actions db)" "Some (pa_id a) \<noteq> pr_action_id base"
      using in' ready revised(14) by (auto split: if_splits)
    then have "approved_exactly db a" using assms(1) ready by (auto simp: growth_inv_def list_all_iff)
    then show ?thesis
      by (rule approved_exactly_add_asset [OF _ revised(12,15)]) (use a revised(8) in auto)
  qed
  ultimately show ?thesis
    using assms(1) revised(12,13,16) by (auto simp: growth_inv_def list_all_iff)
qed

lemma reject_body_result:
  assumes "reject_body env now w p i n actor reason c db = Inr (x, db')"
  obtains aid action where "get_exact_asset db w p i n = Some x" "pr_action_id x = Some aid"
    "get_action db w p aid = Some action"
    "gd_actions db' = map (\<lambda>a. if pa_id a = aid then reject_action a else a) (gd_actions db)"
    "gd_assets db' = gd_assets db" "gd_reviews db' = gd_reviews db"
    "gd_recommendations db' = gd_recommendations db"
proof -
  from assms obtain aid approval action req db2 where x: "get_exact_asset db w p i n = Some x"
    "pr_action_id x = Some aid" "get_action db w p aid = Some action"
    and l: "log_event env req (update_action aid reject_action
        (update_approval (ap_id (approval :: approval_request)) (reject_request now x reason actor) db)) = Inr db2"
      "record_command env c (pr_id x) db2 = Inr db'"
    unfolding reject_body_def Let_def by (auto simp: res_bind_eq_Inr split: option.splits)
  show thesis
    using that [OF x] log_record_tables [OF l] by (simp add: same_approval_tables_def)
qed

lemma reject_action_simps [simp]:
  "pa_id (reject_action a) = pa_id a" "pa_workspace_id (reject_action a) = pa_workspace_id a"
  "pa_product_id (reject_action a) = pa_product_id a" "pa_status (reject_action a) = ''pending''"
  by (simp_all add: reject_action_def)

lemma reject_body_inv:
  assumes "growth_inv db" "reject_body env now w p i n actor reason c db = Inr (x, db')"
  shows "growth_inv db'"
proof -
  obtain aid action where
    "gd_actions db' = map (\<lambda>a. if pa_id a = aid then reject_action a else a) (gd_actions db)"
    "gd_assets db' = gd_assets db" "gd_reviews db' = gd_reviews db"
    "gd_recommendations db' = gd_recommendations db"
    by (rule reject_body_result [OF assms(2)]) (rule that)
  then show ?thesis
    by (intro growth_inv_update [where aid = aid and f = reject_action, OF assms(1)]) simp_all
qed

lemma followup_tables:
  assumes "measurement_followup env now mid w p db = (r, db')"
  shows "same_approval_tables db db' \<and> gd_recommendations db' = gd_recommendations db
    \<and> gd_receipts db' = gd_receipts db"
proof (cases "find (\<lambda>m. mw_id m = mid \<and> mw_workspace_id m = w \<and> mw_product_id m = Some p) (gd_measurements db)")
  case None
  then show ?thesis using assms by (simp add: measurement_followup_def use_case_def)
next
  case (Some m)
  show ?thesis
  proof (cases "mw_status m = ''completed'' \<or> mw_status m = ''unavailable''")
    case True
    then show ?thesis using assms Some by (simp add: measurement_followup_def use_case_def)
  next
    case False
    show ?thesis
    proof (cases "settle_measurement (gd_search_metrics db) now w p m")
      case (Inl e)
      then show ?thesis using assms Some False by (simp add: measurement_followup_def use_case_def)
    next
    case m': (Inr m')
    let ?db = "db\<lparr>gd_measurements := map (\<lambda>x. if mw_id x = mid then m' else x) (gd_measurements db)\<rparr>"
    let ?logged = "if mw_status m' = ''completed''
      then log_event env (product_event_request w p None ''measurement_completed''
             (''measurement-completed:'' @ mw_id m) ''measurement_window'' (mw_id m) None) ?db
      else Inr ?db"
    have db': "db' = (case ?logged of Inl e \<Rightarrow> db | Inr db2 \<Rightarrow> db2)"
      using assms Some False m'
      by (cases ?logged) (simp_all add: measurement_followup_def use_case_def Let_def)
    show ?thesis
    proof (cases ?logged)
      case (Inl e)
      then show ?thesis using db' by simp
    next
      case (Inr db2)
      then have "same_approval_tables ?db db2 \<and> gd_recommendations db2 = gd_recommendations ?db
          \<and> gd_receipts db2 = gd_receipts ?db"
        by (auto simp: same_approval_tables_def dest: log_event_untouched split: if_splits)
      then show ?thesis using Inr db' by (simp add: same_approval_tables_def)
    qed
    qed
  qed
qed

lemma new_action_id [simp]: "pa_id (new_action aid plan k r v) = aid"
  by (simp add: new_action_def)

lemma add_plan_actions_Cons:
  assumes "add_plan_actions env plan k (r # rs) db = Inr db'"
  obtains v db1 where "db1 = (drawn db)\<lparr>gd_actions := gd_actions db @ [new_action (draw env db) plan k r v]\<rparr>"
    "draw env db \<notin> pa_id ` set (gd_actions db)" "add_plan_actions env plan (k + 1) rs db1 = Inr db'"
proof -
  from assms obtain v db1 where "add_action (new_action (draw env db) plan k r v) (drawn db) = Inr db1"
    "add_plan_actions env plan (k + 1) rs db1 = Inr db'" by (auto simp: res_bind_eq_Inr)
  then show thesis
    using that [of db1 v] by (fastforce simp: add_action_def list_ex_iff split: if_splits)
qed

lemma add_plan_actions_tables:
  assumes "add_plan_actions env plan k rs db = Inr db'"
  shows "gd_assets db' = gd_assets db \<and> gd_reviews db' = gd_reviews db
    \<and> gd_recommendations db' = gd_recommendations db"
  using assms
proof (induction rs arbitrary: db k)
  case (Cons r rs)
  obtain v db1 where db1:
    "db1 = (drawn db)\<lparr>gd_actions := gd_actions db @ [new_action (draw env db) plan k r v]\<rparr>"
    "add_plan_actions env plan (k + 1) rs db1 = Inr db'"
    by (rule add_plan_actions_Cons [OF Cons.prems]) (rule that)
  from Cons.IH [OF db1(2)] show ?case by (simp add: db1(1) drawn_def)
qed simp

definition planned :: "marketing_plan \<Rightarrow> int \<Rightarrow> operator_recommendation list \<Rightarrow> plan_action list \<Rightarrow> bool" where
  "planned plan k rs new \<longleftrightarrow> list_all (\<lambda>a. pa_status a = ''pending'' \<and> pa_plan_id a = mp_id plan
       \<and> pa_workspace_id a = mp_workspace_id plan \<and> pa_product_id a = mp_product_id plan) new
     \<and> map pa_position new = map (\<lambda>i. Some (k + int i)) [0..<length rs]
     \<and> map pa_recommendation_id new = map (\<lambda>r. Some (rc_id r)) rs"

lemma add_plan_actions_result:
  assumes "add_plan_actions env plan k rs db = Inr db'"
  shows "\<exists>new. gd_actions db' = gd_actions db @ new \<and> planned plan k rs new
      \<and> (distinct (map pa_id (gd_actions db)) \<longrightarrow> distinct (map pa_id (gd_actions db')))"
  using assms
proof (induction rs arbitrary: db k)
  case Nil
  then show ?case by (auto simp: planned_def intro: exI [of _ "[]"])
next
  case (Cons r rs)
  obtain v db1 where db1:
    "db1 = (drawn db)\<lparr>gd_actions := gd_actions db @ [new_action (draw env db) plan k r v]\<rparr>"
    "draw env db \<notin> pa_id ` set (gd_actions db)" "add_plan_actions env plan (k + 1) rs db1 = Inr db'"
    by (rule add_plan_actions_Cons [OF Cons.prems]) (rule that)
  let ?a = "new_action (draw env db) plan k r v"
  from Cons.IH [OF db1(3)] obtain new where new: "gd_actions db' = gd_actions db1 @ new"
    "planned plan (k + 1) rs new"
    "distinct (map pa_id (gd_actions db1)) \<longrightarrow> distinct (map pa_id (gd_actions db'))" by blast
  have upt: "[0..<Suc (length rs)] = 0 # map Suc [0..<length rs]"
    by (metis map_Suc_upt upt_conv_Cons zero_less_Suc)
  have "gd_actions db' = gd_actions db @ (?a # new)" using new(1) db1(1) by simp
  moreover have "distinct (map pa_id (gd_actions db)) \<longrightarrow> distinct (map pa_id (gd_actions db'))"
    using new(3) db1(1,2) by simp
  moreover have "planned plan k (r # rs) (?a # new)"
    using new(2) by (simp add: planned_def new_action_def upt comp_def del: upt_Suc)
  ultimately show ?case by blast
qed

lemma create_plan_result:
  assumes "create_canonical_plan env run actor recs ver db = Inr (plan, db')"
  shows "\<exists>new. gd_actions db' = gd_actions db @ new \<and> planned plan 1 recs new
      \<and> (distinct (map pa_id (gd_actions db)) \<longrightarrow> distinct (map pa_id (gd_actions db')))"
    "gd_assets db' = gd_assets db" "gd_reviews db' = gd_reviews db"
    "gd_recommendations db' = gd_recommendations db" "length recs \<le> 3"
proof -
  from assms obtain db1 where p: "add_plan plan (drawn db) = Inr db1"
    "add_plan_actions env plan 1 recs db1 = Inr db'" and n: "length recs \<le> 3"
    by (auto simp: create_canonical_plan_def Let_def res_bind_eq_Inr split: if_splits option.splits)
  have same: "gd_actions db1 = gd_actions db" "gd_assets db1 = gd_assets db" "gd_reviews db1 = gd_reviews db"
    "gd_recommendations db1 = gd_recommendations db"
    using p(1) by (auto simp: add_plan_def drawn_def split: if_splits)
  show "\<exists>new. gd_actions db' = gd_actions db @ new \<and> planned plan 1 recs new
      \<and> (distinct (map pa_id (gd_actions db)) \<longrightarrow> distinct (map pa_id (gd_actions db')))"
    using add_plan_actions_result [OF p(2)] unfolding same .
  show "gd_assets db' = gd_assets db" "gd_reviews db' = gd_reviews db"
    "gd_recommendations db' = gd_recommendations db" "length recs \<le> 3"
    using add_plan_actions_tables [OF p(2)] same n by simp_all
qed

lemma create_plan_inv:
  assumes "growth_inv db" "create_canonical_plan env run actor recs ver db = Inr (plan, db')"
  shows "growth_inv db'"
proof -
  note r = create_plan_result [OF assms(2)]
  from r(1) obtain new where new: "gd_actions db' = gd_actions db @ new"
    "planned plan 1 recs new"
    "distinct (map pa_id (gd_actions db)) \<longrightarrow> distinct (map pa_id (gd_actions db'))" by blast
  have "approved_exactly db a" if "a \<in> set (gd_actions db')" "pa_status a = ''ready''" for a
    using that new(1,2) assms(1) by (auto simp: growth_inv_def planned_def list_all_iff)
  then show ?thesis
    using assms(1) new(3) r(2-4) approved_exactly_cong [OF r(2,3)] by (auto simp: growth_inv_def list_all_iff)
qed

section \<open>Steps of the loop\<close>

lemma use_case_keeps:
  assumes "use_case (with_replay c lookup missing body) db = (r, db')"
    and "P db" "\<And>x db'. body db = Inr (x, db') \<Longrightarrow> P db'"
  shows "P db'"
proof (cases "command_replay c db")
  case (Inl e)
  then show ?thesis using assms(1,2) by (simp add: use_case_def with_replay_def)
next
  case (Inr replay)
  show ?thesis
  proof (cases replay)
    case None
    then show ?thesis
      using assms Inr by (cases "body db") (auto simp: use_case_def with_replay_def)
  next
    case (Some i)
    then show ?thesis
      using assms(1,2) Inr by (cases "lookup i db") (auto simp: use_case_def with_replay_def)
  qed
qed

text \<open>The commands that the API offers, by whoever and in whatever order. A transition is asked for by
  \<open>dismiss\<close>, \<open>start\<close> and \<open>complete\<close> only.\<close>

inductive growth_step :: "growth_env \<Rightarrow> growth_db \<Rightarrow> growth_db \<Rightarrow> bool" for env where
  decide: "decide_recommendation_use_case env now w p rid accept actor reason comment key fp db = (r, db')
     \<Longrightarrow> growth_step env db db'"
| approve: "approve_action_revision_use_case env now w p aid i n actor key fp op res db = (ra, db')
     \<Longrightarrow> growth_step env db db'"
| move: "transition_action_use_case env now w p aid target actor key fp reason comment db = (ra, db')
     \<Longrightarrow> target \<in> {''dismissed'', ''executing'', ''completed''} \<Longrightarrow> growth_step env db db'"
| revise: "revise_asset_use_case env w p i n new key fp db = (rx, db') \<Longrightarrow> growth_step env db db'"
| reject: "reject_asset_use_case env now w p i n actor reason key fp db = (rx, db') \<Longrightarrow> growth_step env db db'"
| follow_up: "measurement_followup env now mid w p db = (rm, db') \<Longrightarrow> growth_step env db db'"
| plan: "create_canonical_plan env run actor recs ver db = Inr (pl, db') \<Longrightarrow> growth_step env db db'"

lemma growth_step_inv: "growth_step env db db' \<Longrightarrow> growth_inv db \<Longrightarrow> growth_inv db'"
proof (induction rule: growth_step.induct)
  case (decide now w p rid accept actor reason comment key fp db r db')
  then show ?case unfolding decide_recommendation_use_case_def Let_def
    by (elim use_case_keeps) (auto intro: decide_body_inv)
next
  case (approve now w p aid i n actor key fp op res db ra db')
  then show ?case unfolding approve_action_revision_use_case_def Let_def
    by (elim use_case_keeps) (auto intro: approve_body_inv)
next
  case (move now w p aid target actor key fp reason comment db ra db')
  then show ?case unfolding transition_action_use_case_def Let_def
    by (elim use_case_keeps) (auto intro: transition_body_inv)
next
  case (revise w p i n new key fp db rx db')
  then show ?case unfolding revise_asset_use_case_def Let_def
    by (elim use_case_keeps) (auto intro: revise_body_inv)
next
  case (reject now w p i n actor reason key fp db rx db')
  then show ?case unfolding reject_asset_use_case_def Let_def
    by (elim use_case_keeps) (auto intro: reject_body_inv)
next
  case (follow_up now mid w p db rm db')
  then show ?case using followup_tables growth_inv_frame by metis
next
  case (plan run actor recs ver db pl db')
  then show ?case using create_plan_inv by blast
qed

lemma reachable_inv: "(growth_step env)\<^sup>*\<^sup>* db db' \<Longrightarrow> growth_inv db \<Longrightarrow> growth_inv db'"
  by (induction rule: rtranclp_induct) (auto dest: growth_step_inv)

end
