(* ===== verification/Growth_Commands.thy ===== *)
theory Growth_Commands
  imports Growth_Facts
begin

text \<open>
  Commands and their receipts. The locale \<open>idempotent_command\<close> states what the body of a use case
  owes its receipt; it is interpreted on the bodies of all five commands of the weekly growth loop,
  so that replay and conflict are proved once. Receipts are never removed.
\<close>

section \<open>Idempotent commands\<close>

lemma find_prefix: "find P xs = Some a \<Longrightarrow> find P (xs @ ys) = Some a"
  by (induction xs) auto

locale idempotent_command =
  fixes body :: "command \<Rightarrow> growth_db \<Rightarrow> ('a \<times> growth_db) res"
    and lookup :: "uuid \<Rightarrow> growth_db \<Rightarrow> 'a option"
    and missing :: string
  assumes leaves_receipt: "growth_inv db \<Longrightarrow> body c db = Inr (x, db') \<Longrightarrow>
    \<exists>i. command_replay c db' = Inr (Some i) \<and> lookup i db' = Some x"
begin

lemma receipt_after:
  assumes "growth_inv db" "use_case (with_replay c lookup missing (body c)) db = (Inr x, db')"
  shows "\<exists>i. command_replay c db' = Inr (Some i) \<and> lookup i db' = Some x"
proof (cases "command_replay c db")
  case (Inl e)
  then show ?thesis using assms(2) by (simp add: use_case_def with_replay_def)
next
  case (Inr replay)
  show ?thesis
  proof (cases replay)
    case None
    then show ?thesis
      using assms Inr leaves_receipt by (cases "body c db") (auto simp: use_case_def with_replay_def)
  next
    case (Some i)
    then show ?thesis
      using assms(2) Inr by (cases "lookup i db") (auto simp: use_case_def with_replay_def)
  qed
qed

text \<open>The same command again, whatever else its body would do.\<close>

lemma same_again:
  assumes "growth_inv db" "use_case (with_replay c lookup missing (body c)) db = (Inr x, db')"
  shows "use_case (with_replay c lookup missing later) db' = (Inr x, db')"
  using receipt_after [OF assms] by (auto simp: use_case_def with_replay_def)

lemma other_payload:
  assumes "growth_inv db" "use_case (with_replay c lookup missing (body c)) db = (Inr x, db')"
    and "fp \<noteq> cm_fingerprint c"
  shows "use_case (with_replay (c\<lparr>cm_fingerprint := fp\<rparr>) lookup missing later) db'
    = (Inl (CommandIdempotencyConflictError ''Idempotency key was used with another payload.''), db')"
proof -
  have "same_command (c\<lparr>cm_fingerprint := fp\<rparr>) = same_command c" by (rule ext) (simp add: same_command_def)
  then have "command_replay (c\<lparr>cm_fingerprint := fp\<rparr>) db'
      = Inl (CommandIdempotencyConflictError ''Idempotency key was used with another payload.'')"
    using receipt_after [OF assms(1,2)] assms(3)
    by (auto simp: command_replay_def split: option.splits if_splits)
  then show ?thesis by (simp add: use_case_def with_replay_def)
qed

text \<open>In a later database the command changes nothing, whether or not its result is still there.\<close>

lemma never_again:
  assumes "growth_inv db" "use_case (with_replay c lookup missing (body c)) db = (Inr x, db')"
    and "gd_receipts db'' = gd_receipts db' @ rs"
  shows "snd (use_case (with_replay c lookup missing later) db'') = db''"
proof -
  from receipt_after [OF assms(1,2)] obtain i where "command_replay c db' = Inr (Some i)" by blast
  then have "command_replay c db'' = Inr (Some i)"
    using assms(3) by (auto simp: command_replay_def find_prefix split: option.splits if_splits)
  then show ?thesis by (cases "lookup i db''") (simp_all add: use_case_def with_replay_def)
qed

end

lemma receipt_found: "record_command env c i db = Inr db' \<Longrightarrow> command_replay c db' = Inr (Some i)"
  using record_command_receipt [of env c i db db'] by (auto simp: command_replay_def)

lemma find_id:
  assumes "distinct (map f xs)" "x \<in> set xs" "P x" "\<And>y. P y \<Longrightarrow> f y = f x"
  shows "find P xs = Some x"
  using assms
proof (induction xs)
  case (Cons y ys)
  show ?case
  proof (cases "P y")
    case True
    then have "f y = f x" by (rule Cons.prems(4))
    then have "x \<notin> set ys" using Cons.prems(1) by (metis distinct.simps(2) image_eqI list.set_map list.simps(9))
    then show ?thesis using True Cons.prems(2) by simp
  next
    case False
    then have "x \<in> set ys" using Cons.prems(2,3) by auto
    from Cons.IH [OF _ this Cons.prems(3,4)] Cons.prems(1) have "find P ys = Some x" by simp
    then show ?thesis using False by simp
  qed
qed simp

lemma get_asset_known:
  "growth_inv db \<Longrightarrow> x \<in> set (gd_assets db) \<Longrightarrow> pr_workspace_id x = w \<Longrightarrow> pr_product_id x = p \<Longrightarrow>
     get_asset db w p (pr_id x) = Some x"
  unfolding get_asset_def by (rule find_id [where f = pr_id]) (auto simp: growth_inv_def)

text \<open>The last thing a body does is to record its receipt.\<close>

lemma approve_body_records:
  assumes "approve_body env now w p aid i n actor c db = Inr (a, db')"
  obtains db2 where "record_command env c (pa_id a) db2 = Inr db'"
proof -
  have "pa_id (approve_action i n action) = pa_id action" for action by (simp add: approve_action_def)
  then show thesis using assms that
    by (auto simp: approve_body_def res_bind_eq_Inr split: option.splits if_splits)
qed

lemma transition_body_records:
  assumes "transition_body env now w p aid target actor reason comment c db = Inr (a, db')"
  obtains db2 where "record_command env c (pa_id a) db2 = Inr db'"
proof -
  have "pa_id (refreshed db w p m) = pa_id m" for db m
    by (auto simp: refreshed_def dest: get_action_in split: option.splits)
  then show thesis using assms that
    by (auto simp: transition_body_def res_bind_eq_Inr split: option.splits if_splits)
qed

lemma latest_asset_in:
  assumes "latest_asset db w p r act = Some x"
  shows "x \<in> set (gd_assets db)" "asset_lineage w p r act x"
proof -
  let ?xs = "rev (sort_key pr_revision (filter (asset_lineage w p r act) (gd_assets db)))"
  have "x \<in> set ?xs" using assms unfolding latest_asset_def by (cases ?xs) auto
  then show "x \<in> set (gd_assets db)" "asset_lineage w p r act x" by auto
qed

lemma revise_body_records:
  assumes "revise_body env w p i n new c db = Inr (x, db')"
  obtains db2 where "record_command env c (pr_id x) db2 = Inr db'" "pr_workspace_id x = w" "pr_product_id x = p"
proof -
  have t: "get_exact_asset db w p i n = Some y \<Longrightarrow> pr_workspace_id y = w \<and> pr_product_id y = p"
    "get_asset db w p i = Some y \<Longrightarrow> pr_workspace_id y = w \<and> pr_product_id y = p" for y w p i n
    by (auto simp: get_exact_asset_def get_asset_def find_Some_iff)
  have "\<exists>db2. record_command env c (pr_id x) db2 = Inr db' \<and> pr_workspace_id x = w \<and> pr_product_id x = p"
    using assms unfolding revise_body_def Let_def
    by (auto simp: res_bind_eq_Inr revised_asset_def asset_lineage_def dest!: t latest_asset_in(2)
        split: option.split_asm if_split_asm)
  then show thesis using that by blast
qed

lemma reject_body_records:
  assumes "reject_body env now w p i n actor reason c db = Inr (x, db')"
  obtains db2 where "record_command env c (pr_id x) db2 = Inr db'"
proof -
  show thesis using assms that unfolding reject_body_def Let_def
    by (auto simp: res_bind_eq_Inr split: option.splits)
qed

interpretation decide: idempotent_command "decide_body env now w p rid accept actor reason comment"
  "\<lambda>i db. get_recommendation db w p i" "''Recommendation replay result not found.''"
proof
  fix db c x db'
  assume "decide_body env now w p rid accept actor reason comment c db = Inr (x, db')"
  then obtain r db1 db2 where
    d: "decide_recommendation env now w p rid accept actor reason comment db = Inr (x, db1)"
    and l: "log_event env r db1 = Inr db2" and c: "record_command env c (rc_id x) db2 = Inr db'"
    by (auto simp: decide_body_def res_bind_eq_Inr)
  have "get_recommendation db' w p (rc_id x) = Some x"
    using decide_result(4,5) [OF d] log_record_tables(2) [OF l c] by (simp add: get_recommendation_def)
  then show "\<exists>i. command_replay c db' = Inr (Some i) \<and> get_recommendation db' w p i = Some x"
    using receipt_found [OF c] by blast
qed

interpretation approve: idempotent_command "approve_body env now w p aid i n actor"
  "\<lambda>i db. get_action db w p i" "''Action replay result not found.''"
proof
  fix db c a db'
  assume inv: "growth_inv db" and b: "approve_body env now w p aid i n actor c db = Inr (a, db')"
  obtain db2 where c: "record_command env c (pa_id a) db2 = Inr db'"
    by (rule approve_body_records [OF b]) (rule that)
  from b have "get_action db' w p (pa_id a) = Some a"
  proof (cases rule: approve_body_result)
    case same
    then show ?thesis using get_action_in get_action_cong by (metis same_approval_tables_def)
  next
    case (moved action)
    have "get_action db' w p aid = Some (approve_action i n action)"
      by (rule get_action_update [OF moved(1,3)]) (simp add: approve_action_def)
    then show ?thesis using moved(2) get_action_in [OF moved(1)] by (simp add: approve_action_def)
  qed
  then show "\<exists>i. command_replay c db' = Inr (Some i) \<and> get_action db' w p i = Some a"
    using receipt_found [OF c] by blast
qed

interpretation move: idempotent_command "transition_body env now w p aid target actor reason comment"
  "\<lambda>i db. get_action db w p i" "''Action replay result not found.''"
proof
  fix db c a db'
  assume inv: "growth_inv db" and b: "transition_body env now w p aid target actor reason comment c db = Inr (a, db')"
  obtain db2 where c: "record_command env c (pa_id a) db2 = Inr db'"
    by (rule transition_body_records [OF b]) (rule that)
  from b have "get_action db' w p (pa_id a) = Some a"
  proof (cases rule: transition_body_result)
    case same
    then show ?thesis using get_action_in get_action_cong by (metis same_approval_tables_def)
  next
    case (moved action f)
    then show ?thesis using get_action_in by metis
  qed
  then show "\<exists>i. command_replay c db' = Inr (Some i) \<and> get_action db' w p i = Some a"
    using receipt_found [OF c] by blast
qed

interpretation revise: idempotent_command "revise_body env w p i n new"
  "\<lambda>i db. get_asset db w p i" "''Asset replay result not found.''"
proof
  fix db c x db'
  assume inv: "growth_inv db" and b: "revise_body env w p i n new c db = Inr (x, db')"
  obtain db2 where c: "record_command env c (pr_id x) db2 = Inr db'"
    and x: "pr_workspace_id x = w" "pr_product_id x = p" by (rule revise_body_records [OF b]) (rule that)
  have "x \<in> set (gd_assets db')"
    using b by (cases rule: revise_body_result) (auto simp: same_approval_tables_def)
  then have "get_asset db' w p (pr_id x) = Some x"
    using x by (rule get_asset_known [OF revise_body_inv [OF inv b]])
  then show "\<exists>i. command_replay c db' = Inr (Some i) \<and> get_asset db' w p i = Some x"
    using receipt_found [OF c] by blast
qed

interpretation reject: idempotent_command "reject_body env now w p i n actor reason"
  "\<lambda>i db. get_asset db w p i" "''Asset replay result not found.''"
proof
  fix db c x db'
  assume inv: "growth_inv db" and b: "reject_body env now w p i n actor reason c db = Inr (x, db')"
  obtain db2 where c: "record_command env c (pr_id x) db2 = Inr db'"
    by (rule reject_body_records [OF b]) (rule that)
  have "get_exact_asset db w p i n = Some x" "gd_assets db' = gd_assets db"
    using reject_body_result [OF b] by metis+
  then have "x \<in> set (gd_assets db')" "pr_workspace_id x = w" "pr_product_id x = p"
    by (auto simp: get_exact_asset_def find_Some_iff)
  then have "get_asset db' w p (pr_id x) = Some x"
    by (rule get_asset_known [OF reject_body_inv [OF inv b]])
  then show "\<exists>i. command_replay c db' = Inr (Some i) \<and> get_asset db' w p i = Some x"
    using receipt_found [OF c] by blast
qed

section \<open>Receipts are kept\<close>

definition receipts_grow :: "growth_db \<Rightarrow> growth_db \<Rightarrow> bool" where
  "receipts_grow db db' \<longleftrightarrow> (\<exists>rs. gd_receipts db' = gd_receipts db @ rs)"

lemma receipts_grow_same [simp]: "gd_receipts db' = gd_receipts db \<Longrightarrow> receipts_grow db db'"
  by (simp add: receipts_grow_def)

lemma receipts_grow_trans: "receipts_grow a b \<Longrightarrow> receipts_grow b c \<Longrightarrow> receipts_grow a c"
  by (auto simp: receipts_grow_def)

lemma record_command_grows: "record_command env c i db = Inr db' \<Longrightarrow> receipts_grow db db'"
  by (auto simp: record_command_def receipts_grow_def split: if_splits)

lemma event_tables_receipts [simp]:
  "gd_receipts (add_decision env w p rid d reason comment actor t db) = gd_receipts db"
  "gd_receipts (add_action_event env w p aid prev target actor reason comment db) = gd_receipts db"
  "gd_receipts (withdraw_recommendation env w p a actor t reason comment db) = gd_receipts db"
  by (auto simp: add_decision_def add_action_event_def withdraw_recommendation_def drawn_def split: option.splits)

lemma log_event_receipts: "log_event env r db = Inr db' \<Longrightarrow> gd_receipts db' = gd_receipts db"
  using log_event_tables by blast

lemma transition_canonical_receipts:
  "transition_canonical_action env now w p aid target actor reason comment db = Inr (a, db') \<Longrightarrow>
     gd_receipts db' = gd_receipts db"
  by (auto simp: transition_canonical_action_def res_bind_eq_Inr Let_def split: option.splits)

lemma schedule_measurement_receipts:
  "schedule_measurement env now w p aid key t db = Inr (m, db') \<Longrightarrow> gd_receipts db' = gd_receipts db"
  using enqueue_tables
  by (fastforce simp: schedule_measurement_def add_measurement_def res_bind_eq_Inr Let_def
      split: option.splits if_splits)

lemma approve_exact_receipts:
  "approve_exact_revision env now w p aid i n actor db = Inr (x, db') \<Longrightarrow> gd_receipts db' = gd_receipts db"
  using project_tables
  by (fastforce simp: approve_exact_revision_def res_bind_eq_Inr Let_def split: option.splits if_splits)

lemma reopen_receipts: "reopen_approval w p act db = Inr db' \<Longrightarrow> gd_receipts db' = gd_receipts db"
  by (auto simp: reopen_approval_def Let_def split: option.splits)

lemma add_asset_receipts: "add_asset x db = Inr db' \<Longrightarrow> gd_receipts db' = gd_receipts db"
  by (auto simp: add_asset_def split: if_splits)

lemma add_plan_actions_receipts:
  "add_plan_actions env plan k rs db = Inr db' \<Longrightarrow> gd_receipts db' = gd_receipts db"
proof (induction rs arbitrary: db k)
  case (Cons r rs)
  obtain v db1 where db1:
    "db1 = (drawn db)\<lparr>gd_actions := gd_actions db @ [new_action (draw env db) plan k r v]\<rparr>"
    "add_plan_actions env plan (k + 1) rs db1 = Inr db'"
    by (rule add_plan_actions_Cons [OF Cons.prems]) (rule that)
  from Cons.IH [OF db1(2)] show ?case by (simp add: db1(1))
qed simp

lemma followup_receipts: "measurement_followup env now mid w p db = (r, db') \<Longrightarrow> gd_receipts db' = gd_receipts db"
  using followup_tables by blast

lemma create_plan_receipts:
  "create_canonical_plan env run actor recs ver db = Inr (plan, db') \<Longrightarrow> gd_receipts db' = gd_receipts db"
  by (auto simp: create_canonical_plan_def add_plan_def Let_def res_bind_eq_Inr
      dest!: add_plan_actions_receipts split: if_split_asm option.split_asm)

lemma body_receipts:
  "decide_body env now w p rid accept actor reason comment c db = Inr (r, db') \<Longrightarrow> receipts_grow db db'"
  "approve_body env now w p aid i n actor c db = Inr (a, db') \<Longrightarrow> receipts_grow db db'"
  "transition_body env now w p aid target actor reason comment c db = Inr (a, db') \<Longrightarrow> receipts_grow db db'"
  "revise_body env w p i n new c db = Inr (x, db') \<Longrightarrow> receipts_grow db db'"
  "reject_body env now w p i n actor reason c db = Inr (x, db') \<Longrightarrow> receipts_grow db db'"
  subgoal
    by (auto simp: decide_body_def res_bind_eq_Inr receipts_grow_def
        dest!: record_command_grows log_event_receipts decide_result(3))
  subgoal
    by (auto simp: approve_body_def res_bind_eq_Inr receipts_grow_def
        dest!: record_command_grows log_event_receipts approve_exact_receipts split: option.splits if_splits)
  subgoal
    by (auto simp: transition_body_def res_bind_eq_Inr receipts_grow_def
        dest!: record_command_grows log_event_receipts transition_canonical_receipts schedule_measurement_receipts
        split: option.split_asm if_split_asm)
  subgoal
    by (auto simp: revise_body_def res_bind_eq_Inr receipts_grow_def Let_def
        dest!: record_command_grows log_event_receipts add_asset_receipts reopen_receipts
        split: option.split_asm if_split_asm)
  subgoal
    by (auto simp: reject_body_def res_bind_eq_Inr receipts_grow_def Let_def
        dest!: record_command_grows log_event_receipts split: option.split_asm)
  done

lemma step_receipts: "growth_step env db db' \<Longrightarrow> receipts_grow db db'"
proof (induction rule: growth_step.induct)
  case (decide now w p rid accept actor reason comment key fp db r db')
  then show ?case unfolding decide_recommendation_use_case_def Let_def
    by (elim use_case_keeps) (auto intro: body_receipts)
next
  case (approve now w p aid i n actor key fp op res db ra db')
  then show ?case unfolding approve_action_revision_use_case_def Let_def
    by (elim use_case_keeps) (auto intro: body_receipts)
next
  case (move now w p aid target actor key fp reason comment db ra db')
  from move(1) show ?case unfolding transition_action_use_case_def Let_def
    by (elim use_case_keeps) (auto intro: body_receipts)
next
  case (revise w p i n new key fp db rx db')
  then show ?case unfolding revise_asset_use_case_def Let_def
    by (elim use_case_keeps) (auto intro: body_receipts)
next
  case (reject now w p i n actor reason key fp db rx db')
  then show ?case unfolding reject_asset_use_case_def Let_def
    by (elim use_case_keeps) (auto intro: body_receipts)
next
  case (follow_up now mid w p db rm db')
  then show ?case using followup_receipts by simp
next
  case (plan run actor recs ver db pl db')
  then show ?case using create_plan_receipts by simp
qed

lemma steps_receipts: "(growth_step env)\<^sup>*\<^sup>* db db' \<Longrightarrow> receipts_grow db db'"
  by (induction rule: rtranclp_induct) (auto intro: receipts_grow_trans dest: step_receipts)

end
