(* ===== verification/Growth_Properties.thy ===== *)
theory Growth_Properties
  imports Growth_Commands
begin

text \<open>
  The properties of the weekly growth loop: an action starts only when the latest revision of its
  asset is approved, a command runs once, an edit withdraws the approval, a plan numbers its
  actions, an approved X asset becomes one draft, and two defects.
\<close>

section \<open>A concrete database\<close>

definition loop_env :: growth_env where
  "loop_env = \<lparr>ge_engine = folding_env, ge_uuid = (\<lambda>n. ''g'' @ int_text (int n)), ge_dialect = ''postgresql''\<rparr>"

definition loop_action :: plan_action where
  "loop_action = \<lparr>pa_id = ''a1'', pa_workspace_id = ''w'', pa_product_id = Some ''p'', pa_plan_id = ''pl'',
     pa_opportunity_id = Some ''o1'', pa_title = ''Title'', pa_description = ''Text'', pa_evidence_ids = [],
     pa_confidence = ''medium'', pa_missing_information = [], pa_approval_level = ''review'',
     pa_approval_status = ''pending'', pa_status = ''pending'', pa_cooldown_dedup_key = ''recommendation:r1'',
     pa_idempotency_key = ''k:action:r1'', pa_provenance = PDict [], pa_position = Some 1,
     pa_recommendation_id = Some ''r1'', pa_prepared_output_type = Some ''x_draft'',
     pa_expected_metric = Some [(''name'', PStr ''clicks'')], pa_measurement_window_days = Some 28,
     pa_estimated_effort = Some ''medium'', pa_approved_asset_id = None, pa_approved_asset_revision = None,
     pa_measurement_due_at = None, pa_completed_by_actor_id = None, pa_completed_at = None,
     pa_dismissed_by_actor_id = None, pa_dismissed_at = None, pa_dismissal_reason = None,
     pa_dismissal_comment = None\<rparr>"

definition loop_content :: pyval where
  "loop_content = PDict [(''kind'', PStr ''x_draft''), (''content'', PDict [(''post'', PStr ''Shipped'')]),
     (''claim_evidence'', PSeq [])]"

definition loop_asset :: prepared_asset where
  "loop_asset = \<lparr>pr_id = ''x1'', pr_workspace_id = ''w'', pr_product_id = ''p'', pr_recommendation_id = ''r1'',
     pr_action_id = Some ''a1'', pr_llm_execution_id = ''l1'', pr_revision = 1, pr_kind = ''x_draft'',
     pr_structured_content = loop_content\<rparr>"

definition loop_approval :: approval_request where
  "loop_approval = \<lparr>ap_id = ''q1'', ap_workspace_id = ''w'', ap_action_id = ''a1'', ap_product_id = Some ''p'',
     ap_asset_id = None, ap_asset_revision = None, ap_status = ''pending'', ap_reason = None,
     ap_requested_by_actor_id = ''u'', ap_decided_by_actor_id = None, ap_decided_at = None\<rparr>"

definition loop_recommendation :: operator_recommendation where
  "loop_recommendation = \<lparr>rc_id = ''r1'', rc_workspace_id = ''w'', rc_product_id = ''p'',
     rc_opportunity_id = ''o1'', rc_operator_run_id = ''n1'', rc_kind = ''recommendation'',
     rc_output = PDict [(''kind'', PStr ''recommendation''), (''title'', PStr ''Title''),
       (''rationale'', PStr ''Why''), (''evidence_ids'', PSeq [PStr ''e1'']),
       (''action_family'', PStr ''publish_product_update''), (''output_type'', PStr ''x_draft''),
       (''expected_metric'', PStr ''clicks''), (''claims'', PSeq [])],
     rc_accepted_at = None, rc_idempotency_key = ''k''\<rparr>"

definition loop_db :: growth_db where
  "loop_db = \<lparr>gd_operator = \<lparr>od_runs = [], od_evaluations = [], od_opportunities = [], od_evidence = [], od_drawn = 0\<rparr>,
     gd_plans = [], gd_actions = [loop_action], gd_assets = [loop_asset], gd_approvals = [loop_approval],
     gd_reviews = [\<lparr>rv_id = ''v1'', rv_workspace_id = ''w'', rv_product_id = ''p'', rv_asset_id = ''x1'',
       rv_asset_revision = 1, rv_final_outcome = ''pass''\<rparr>],
     gd_recommendations = [loop_recommendation], gd_decisions = [], gd_receipts = [], gd_action_events = [],
     gd_measurements = [], gd_events = \<lparr>el_events = [], el_connections = [], el_repos = []\<rparr>, gd_outbox = [],
     gd_drafts = [], gd_draft_events = [],
     gd_products = [\<lparr>pd_id = ''p'', pd_workspace_id = ''w'', pd_user_id = ''u''\<rparr>],
     gd_repositories = [\<lparr>prp_id = ''b1'', prp_workspace_id = ''w'', prp_product_id = ''p'', prp_repo_id = ''g'',
       prp_is_primary_repo = True\<rparr>],
     gd_search_metrics = [], gd_memberships = [], gd_drawn = 0\<rparr>"

definition loop_approved :: growth_db where
  "loop_approved = snd (approve_action_revision_use_case loop_env 5 ''w'' ''p'' ''a1'' ''x1'' 1 ''u''
     ''key1'' ''f1'' ''action.approve'' None loop_db)"

lemma loop_inv: "growth_inv loop_db"
  by code_simp

section \<open>Starting an action\<close>

lemma started_from: "is_ok (transition_action s ''executing'') \<Longrightarrow> s \<noteq> ''executing'' \<Longrightarrow> s = ''ready''"
  by (auto simp: transition_action_def transition_def action_transitions_def split: if_splits)

lemma use_case_runs:
  assumes "use_case (with_replay c lookup missing body) db = (Inr x, db')" "db' \<noteq> db"
  shows "body db = Inr (x, db')"
proof (cases "command_replay c db")
  case (Inr replay)
  show ?thesis
  proof (cases replay)
    case None
    then show ?thesis using assms Inr by (cases "body db") (auto simp: use_case_def with_replay_def)
  next
    case (Some i)
    then show ?thesis
      using assms Inr by (cases "lookup i db") (auto simp: use_case_def with_replay_def)
  qed
qed (use assms in \<open>simp add: use_case_def with_replay_def\<close>)

text \<open>C13. In every database that the commands reach, an action that \<open>transition_action_use_case\<close> moves
  to \<open>executing\<close> was \<open>ready\<close>, and it had the approval of the latest revision of its asset, whose risk
  review exists and does not block.\<close>

theorem started_actions_are_approved:
  assumes "growth_inv db0" "(growth_step env)\<^sup>*\<^sup>* db0 db"
    and "transition_action_use_case env now w p aid ''executing'' actor key fp reason comment db = (Inr a, db')"
    and "get_action db w p aid = Some before" "pa_status before \<noteq> ''executing''"
    and "get_action db' w p aid = Some after" "pa_status after = ''executing''"
  shows "pa_status before = ''ready'' \<and> approved_exactly db before"
proof -
  have inv: "growth_inv db" using reachable_inv [OF assms(2,1)] .
  have "db' \<noteq> db" using assms(4-7) by auto
  then have "transition_body env now w p aid ''executing'' actor reason comment
      (transition_command w p aid ''executing'' key fp) db = Inr (a, db')"
    using assms(3) unfolding transition_action_use_case_def Let_def by (rule use_case_runs [rotated])
  then have "pa_status before = ''ready''"
  proof (cases rule: transition_body_result)
    case same
    then show ?thesis using assms(4,5) by simp
  next
    case (moved action f)
    then show ?thesis using assms(4,5) started_from by simp
  qed
  then show ?thesis
    using inv get_action_in [OF assms(4)] by (auto simp: growth_inv_def list_all_iff)
qed

theorem started_actions_are_approved_witness:
  "pa_status (the (get_action loop_approved ''w'' ''p'' ''a1'')) = ''ready''
    \<and> approved_exactly loop_approved (the (get_action loop_approved ''w'' ''p'' ''a1''))"
proof (rule started_actions_are_approved [OF loop_inv])
  show "(growth_step loop_env)\<^sup>*\<^sup>* loop_db loop_approved"
    unfolding loop_approved_def by (intro r_into_rtranclp growth_step.approve) (rule prod.collapse [symmetric])
  let ?run = "transition_action_use_case loop_env 9 ''w'' ''p'' ''a1'' ''executing'' ''u'' ''key2'' ''f2'' None
      None loop_approved"
  show "?run = (Inr (projr (fst ?run)), snd ?run)" by code_simp
  show "get_action loop_approved ''w'' ''p'' ''a1'' = Some (the (get_action loop_approved ''w'' ''p'' ''a1''))"
    by code_simp
  show "pa_status (the (get_action loop_approved ''w'' ''p'' ''a1'')) \<noteq> ''executing''" by code_simp
  show "get_action (snd ?run) ''w'' ''p'' ''a1'' = Some (the (get_action (snd ?run) ''w'' ''p'' ''a1''))"
    by code_simp
  show "pa_status (the (get_action (snd ?run) ''w'' ''p'' ''a1'')) = ''executing''" by code_simp
qed

section \<open>Commands run once\<close>

lemma new_command_fingerprint [simp]:
  "(new_command w p operation i key fp)\<lparr>cm_fingerprint := fp'\<rparr> = new_command w p operation i key fp'"
  "cm_fingerprint (new_command w p operation i key fp) = fp"
  by (simp_all add: new_command_def)

lemmas command_defs = decide_recommendation_use_case_def approve_action_revision_use_case_def
  transition_action_use_case_def revise_asset_use_case_def reject_asset_use_case_def
  decide_command_def approve_command_def transition_command_def Let_def

text \<open>C14. A command that succeeded and is sent again at once with the same idempotency key and fingerprint returns
  the same result and changes nothing; sent again in any database that later commands reach, it changes nothing, whatever
  it then answers. This holds for all five commands, at another time and by another actor.\<close>

theorem commands_run_once:
  assumes "growth_inv db" "(growth_step env)\<^sup>*\<^sup>* db1 db2"
  shows "(decide_recommendation_use_case env now w p rid accept actor reason comment key fp db = (Inr r, db1) \<longrightarrow>
       decide_recommendation_use_case env now' w p rid accept actor' reason' comment' key fp db1 = (Inr r, db1)
       \<and> snd (decide_recommendation_use_case env now' w p rid accept actor' reason' comment' key fp db2) = db2)
    \<and> (approve_action_revision_use_case env now w p aid i n actor key fp operation target db = (Inr a, db1) \<longrightarrow>
       approve_action_revision_use_case env now' w p aid i' n' actor' key fp operation target db1 = (Inr a, db1)
       \<and> snd (approve_action_revision_use_case env now' w p aid i' n' actor' key fp operation target db2) = db2)
    \<and> (transition_action_use_case env now w p aid status actor key fp reason comment db = (Inr a, db1) \<longrightarrow>
       transition_action_use_case env now' w p aid status actor' key fp reason' comment' db1 = (Inr a, db1)
       \<and> snd (transition_action_use_case env now' w p aid status actor' key fp reason' comment' db2) = db2)
    \<and> (revise_asset_use_case env w p i n new key fp db = (Inr x, db1) \<longrightarrow>
       revise_asset_use_case env w p i n' new' key fp db1 = (Inr x, db1)
       \<and> snd (revise_asset_use_case env w p i n' new' key fp db2) = db2)
    \<and> (reject_asset_use_case env now w p i n actor reason key fp db = (Inr x, db1) \<longrightarrow>
       reject_asset_use_case env now' w p i n' actor' reason' key fp db1 = (Inr x, db1)
       \<and> snd (reject_asset_use_case env now' w p i n' actor' reason' key fp db2) = db2)"
proof -
  obtain rs where rs: "gd_receipts db2 = gd_receipts db1 @ rs"
    using steps_receipts [OF assms(2)] by (auto simp: receipts_grow_def)
  note facts = decide.same_again decide.never_again approve.same_again approve.never_again
    move.same_again move.never_again revise.same_again revise.never_again reject.same_again reject.never_again
  show ?thesis unfolding command_defs
    by (intro conjI impI; (rule facts; (assumption | rule assms(1) rs)?))
qed

definition loop_started :: growth_db where
  "loop_started = snd (transition_action_use_case loop_env 9 ''w'' ''p'' ''a1'' ''executing'' ''u'' ''key2'' ''f2''
     None None loop_approved)"

lemma loop_start_step: "(growth_step loop_env)\<^sup>*\<^sup>* loop_approved loop_started"
  unfolding loop_started_def
  by (intro r_into_rtranclp growth_step.move) (rule prod.collapse [symmetric], simp)

theorem commands_run_once_witness:
  "approve_action_revision_use_case loop_env 50 ''w'' ''p'' ''a1'' ''x9'' 4 ''v'' ''key1'' ''f1'' ''action.approve'' None
     loop_approved = (Inr (the (get_action loop_approved ''w'' ''p'' ''a1'')), loop_approved)
   \<and> snd (approve_action_revision_use_case loop_env 50 ''w'' ''p'' ''a1'' ''x9'' 4 ''v'' ''key1'' ''f1''
        ''action.approve'' None loop_started) = loop_started"
  by (rule commands_run_once [where now = 5 and i = "''x1''" and n = 1 and actor = "''u''",
        OF loop_inv loop_start_step, THEN conjunct2, THEN conjunct1, THEN mp]) code_simp

text \<open>A command under an idempotency key that a command of the same operation on the same resource
  used with another payload is refused with a conflict and changes nothing.\<close>

theorem reused_key_is_refused:
  assumes "growth_inv db" "fp' \<noteq> fp"
    and conflict: "conflict = CommandIdempotencyConflictError ''Idempotency key was used with another payload.''"
  shows "(decide_recommendation_use_case env now w p rid accept actor reason comment key fp db = (Inr r, db1) \<longrightarrow>
       decide_recommendation_use_case env now' w p rid accept actor' reason' comment' key fp' db1
         = (Inl conflict, db1))
    \<and> (approve_action_revision_use_case env now w p aid i n actor key fp operation target db = (Inr a, db1) \<longrightarrow>
       approve_action_revision_use_case env now' w p aid i' n' actor' key fp' operation target db1
         = (Inl conflict, db1))
    \<and> (transition_action_use_case env now w p aid status actor key fp reason comment db = (Inr a, db1) \<longrightarrow>
       transition_action_use_case env now' w p aid status actor' key fp' reason' comment' db1 = (Inl conflict, db1))
    \<and> (revise_asset_use_case env w p i n new key fp db = (Inr x, db1) \<longrightarrow>
       revise_asset_use_case env w p i n' new' key fp' db1 = (Inl conflict, db1))
    \<and> (reject_asset_use_case env now w p i n actor reason key fp db = (Inr x, db1) \<longrightarrow>
       reject_asset_use_case env now' w p i n' actor' reason' key fp' db1 = (Inl conflict, db1))"
proof -
  have fp: "fp' \<noteq> cm_fingerprint (new_command w p operation i key fp)" for operation i using assms(2) by simp
  note facts = decide.other_payload [OF assms(1) _ fp] approve.other_payload [OF assms(1) _ fp]
    move.other_payload [OF assms(1) _ fp] revise.other_payload [OF assms(1) _ fp]
    reject.other_payload [OF assms(1) _ fp]
  show ?thesis unfolding command_defs conflict
    by (intro conjI impI; (rule facts [simplified new_command_fingerprint]; assumption))
qed

theorem reused_key_is_refused_witness:
  "approve_action_revision_use_case loop_env 50 ''w'' ''p'' ''a1'' ''x9'' 4 ''v'' ''key1'' ''other'' ''action.approve''
     None loop_approved
   = (Inl (CommandIdempotencyConflictError ''Idempotency key was used with another payload.''), loop_approved)"
  by (rule reused_key_is_refused [where now = 5 and i = "''x1''" and n = 1 and actor = "''u''" and fp = "''f1''"
        and a = "the (get_action loop_approved ''w'' ''p'' ''a1'')", OF loop_inv _ refl, THEN conjunct2,
        THEN conjunct1, THEN mp]) code_simp+

section \<open>Edits and rejections\<close>

lemma sort_key_snoc_max:
  assumes "\<And>y. y \<in> set xs \<Longrightarrow> f y < f x"
  shows "sort_key f (xs @ [x]) = sort_key f xs @ [x]"
proof (rule properties_for_sort_key)
  show "mset (sort_key f xs @ [x]) = mset (xs @ [x])" by simp
  show "sorted (map f (sort_key f xs @ [x]))" using assms by (auto simp: sorted_append less_imp_le)
  show "filter (\<lambda>y. f k = f y) (sort_key f xs @ [x]) = filter (\<lambda>y. f k = f y) (xs @ [x])"
    for k using sort_key_stable [of f "f k" xs] by (simp add: eq_commute [of "f k"])
qed

lemma latest_asset_max:
  assumes "latest_asset db w p r act = Some x" "y \<in> set (gd_assets db)" "asset_lineage w p r act y"
  shows "pr_revision y \<le> pr_revision x"
proof -
  let ?xs = "sort_key pr_revision (filter (asset_lineage w p r act) (gd_assets db))"
  obtain zs where zs: "rev ?xs = x # zs" using assms(1) unfolding latest_asset_def by (cases "rev ?xs") auto
  then have xs: "?xs = rev zs @ [x]" by (metis rev.simps(2) rev_rev_ident)
  have "y \<in> set ?xs" using assms(2,3) by simp
  moreover have "sorted (map pr_revision ?xs)" by (rule sorted_sort_key)
  ultimately show ?thesis unfolding xs by (auto simp: sorted_append)
qed

text \<open>C15. An edit stores a new revision, which is the latest one, and withdraws the approval of the
  action: afterwards the action has no approved asset and is not ready.\<close>

theorem edit_withdraws_approval:
  assumes "growth_inv db" "revise_asset_use_case env w p i n new key fp db = (Inr x, db')"
    and "pr_id x \<notin> pr_id ` set (gd_assets db)" "pr_action_id x = Some aid" "db' \<noteq> db"
  shows "gd_assets db' = gd_assets db @ [x] \<and> pr_revision x = n + 1
    \<and> latest_asset db' w p (pr_recommendation_id x) (Some aid) = Some x
    \<and> (\<exists>a. get_action db' w p aid = Some a \<and> pa_approved_asset_id a = None
         \<and> pa_approved_asset_revision a = None \<and> pa_approval_status a = ''pending''
         \<and> pa_status a \<noteq> ''ready'')"
proof -
  have "revise_body env w p i n new (new_command w p ''asset.patch'' i key fp) db = Inr (x, db')"
    using assms(2,5) unfolding revise_asset_use_case_def Let_def by (rule use_case_runs)
  then show ?thesis
  proof (cases rule: revise_body_result)
    case same
    then show ?thesis using assms(3) by blast
  next
    case (revised base latest)
    have act: "pr_action_id base = Some aid" using revised(8) assms(4) by simp
    let ?l = "asset_lineage w p (pr_recommendation_id x) (Some aid)"
    have "pr_revision y < pr_revision x" if "y \<in> set (filter ?l (gd_assets db))" for y
      using latest_asset_max [OF revised(5), of y] that revised(6,7,11) act by simp
    then have "sort_key pr_revision (filter ?l (gd_assets db) @ [x])
        = sort_key pr_revision (filter ?l (gd_assets db)) @ [x]" by (rule sort_key_snoc_max)
    moreover have "filter ?l (gd_assets db') = filter ?l (gd_assets db) @ [x]"
      using revised(9,10,12) assms(4) by (simp add: asset_lineage_def)
    ultimately have "latest_asset db' w p (pr_recommendation_id x) (Some aid) = Some x"
      by (simp add: latest_asset_def)
    moreover obtain a where a: "get_action db w p aid = Some a" using revised(17) [OF act] by auto
    have "gd_actions db' = map (\<lambda>a. if pa_id a = aid then withdraw_approval a else a) (gd_actions db)"
      using revised(14) act by simp
    then have "get_action db' w p aid = Some (withdraw_approval a)"
      by (rule get_action_update [OF a]) simp
    ultimately show ?thesis using revised(7,12) by (simp add: withdraw_approval_def)
  qed
qed

definition loop_edited :: "prepared_asset res \<times> growth_db" where
  "loop_edited = revise_asset_use_case loop_env ''w'' ''p'' ''x1'' 1
     [(''content'', PDict [(''post'', PStr ''Better'')])] ''key3'' ''f3'' loop_approved"

theorem edit_withdraws_approval_witness:
  "gd_assets (snd loop_edited) = gd_assets loop_approved @ [projr (fst loop_edited)]
    \<and> pr_revision (projr (fst loop_edited)) = 1 + 1
    \<and> latest_asset (snd loop_edited) ''w'' ''p'' (pr_recommendation_id (projr (fst loop_edited))) (Some ''a1'')
        = Some (projr (fst loop_edited))
    \<and> (\<exists>a. get_action (snd loop_edited) ''w'' ''p'' ''a1'' = Some a \<and> pa_approved_asset_id a = None
         \<and> pa_approved_asset_revision a = None \<and> pa_approval_status a = ''pending''
         \<and> pa_status a \<noteq> ''ready'')"
  by (rule edit_withdraws_approval [where env = loop_env and db = loop_approved and i = "''x1''" and key = "''key3''" and fp = "''f3''"
        and new = "[(''content'', PDict [(''post'', PStr ''Better'')])]"]) code_simp+

lemma no_way_to_pending: "s \<noteq> ''pending'' \<Longrightarrow> \<not> is_ok (transition_action s ''pending'')"
  by (auto simp: transition_action_def transition_def action_transitions_def)

text \<open>C37. Rejecting an asset makes its action \<open>pending\<close> again, also an action that was dismissed, started or
  completed: the state machine of actions has no such transition.\<close>

theorem rejection_revives_action:
  assumes "reject_asset_use_case env now w p i n actor reason key fp db = (Inr x, db')" "db' \<noteq> db"
    and "pr_action_id x = Some aid" "get_action db w p aid = Some before" "pa_status before \<noteq> ''pending''"
  shows "\<not> is_ok (transition_action (pa_status before) ''pending'')
    \<and> (\<exists>a. get_action db' w p aid = Some a \<and> pa_status a = ''pending'' \<and> pa_approval_status a = ''rejected'')"
proof -
  have "reject_body env now w p i n actor reason (new_command w p ''asset.reject'' i key fp) db = Inr (x, db')"
    using assms(1,2) unfolding reject_asset_use_case_def Let_def by (rule use_case_runs)
  then have "gd_actions db' = map (\<lambda>a. if pa_id a = aid then reject_action a else a) (gd_actions db)"
    by (rule reject_body_result) (use assms(3) in simp)
  then have "get_action db' w p aid = Some (reject_action before)"
    by (rule get_action_update [OF assms(4)]) simp
  then show ?thesis using no_way_to_pending [OF assms(5)] by (simp add: reject_action_def)
qed

definition loop_dismissed :: growth_db where
  "loop_dismissed = snd (transition_action_use_case loop_env 9 ''w'' ''p'' ''a1'' ''dismissed'' ''u'' ''key4'' ''f4''
     None None loop_approved)"

definition loop_rejected :: "prepared_asset res \<times> growth_db" where
  "loop_rejected = reject_asset_use_case loop_env 12 ''w'' ''p'' ''x1'' 1 ''u'' None ''key5'' ''f5'' loop_dismissed"

theorem rejection_revives_action_witness:
  "\<not> is_ok (transition_action (pa_status (the (get_action loop_dismissed ''w'' ''p'' ''a1''))) ''pending'')
    \<and> (\<exists>a. get_action (snd loop_rejected) ''w'' ''p'' ''a1'' = Some a \<and> pa_status a = ''pending''
         \<and> pa_approval_status a = ''rejected'')"
  by (rule rejection_revives_action [where env = loop_env and now = 12 and db = loop_dismissed and i = "''x1''" and n = 1 and actor = "''u''"
        and reason = None and key = "''key5''" and fp = "''f5''" and x = "projr (fst loop_rejected)"]) code_simp+

section \<open>Measurement\<close>

text \<open>C38. The expected metric of a planned action is stored under \<open>name\<close>, but a measurement reads it
  under \<open>metric\<close>: no planned action ever gets a baseline, and the follow-up of its measurement always reports
  that it is unavailable, whatever search facts there are.\<close>

theorem planned_actions_are_not_measured:
  assumes "recommendation_action_values answer = Inr v" "pa_expected_metric a = Some (av_expected_metric v)"
  shows "read_search_measurement facts w p (av_expected_metric v) starts_on ends_on = Inr None
    \<and> (\<exists>m. settle_measurement facts now w p (new_measurement mid w p a key starts_at baseline) = Inr m
          \<and> mw_status m = ''unavailable'')"
proof -
  obtain t where "av_expected_metric v = [(''name'', PStr t)]"
    using assms(1) by (auto simp: recommendation_action_values_def res_bind_eq_Inr split: if_splits)
  then show ?thesis
    using assms(2)
    by (simp add: read_search_measurement_def settle_measurement_def new_measurement_def search_metrics_def Let_def)
qed

theorem planned_actions_are_not_measured_witness:
  "read_search_measurement [] ''w'' ''p'' (av_expected_metric (projr (recommendation_action_values
       (rc_output loop_recommendation)))) 1 2 = Inr None
   \<and> (\<exists>m. settle_measurement [] 3 ''w'' ''p'' (new_measurement ''m'' ''w'' ''p'' loop_action ''k'' 0 None) = Inr m
         \<and> mw_status m = ''unavailable'')"
  by (rule planned_actions_are_not_measured [where answer = "rc_output loop_recommendation"]; code_simp)

section \<open>The bridge to drafts\<close>

lemma find_conj: "find P xs = Some x \<Longrightarrow> Q x \<Longrightarrow> find (\<lambda>y. P y \<and> Q y) xs = Some x"
  by (induction xs) (auto split: if_splits)

definition draft_of :: "uuid \<Rightarrow> uuid \<Rightarrow> int \<Rightarrow> draft_row \<Rightarrow> bool" where
  "draft_of w i n d \<longleftrightarrow> df_workspace_id d = w \<and> df_prepared_asset_id d = Some i
     \<and> df_prepared_asset_revision d = Some n"

text \<open>C16. Approving a revision of an X asset whose review does not block and that has no draft yet, for a product
  with a primary repository, adds one approved draft with the text of the post; projecting the revision again finds this draft and adds nothing.\<close>

theorem approved_post_becomes_draft:
  assumes "approve_exact_revision env now w p aid i n actor db = Inr (q, db')"
    and "get_exact_asset db w p i n = Some x" "pr_kind x = ''x_draft''"
    and "current_review db w p i n = Some r" "rv_final_outcome r \<noteq> ''block''"
    and "find (\<lambda>y. pd_workspace_id y = w \<and> pd_id y = p) (gd_products db) = Some product"
    and "primary_repo db w p = Some repo" "\<not> list_ex (draft_of w i n) (gd_drafts db)"
  shows "\<exists>d. gd_drafts db' = gd_drafts db @ [d] \<and> draft_of w i n d \<and> df_status d = ''approved''
      \<and> x_post (pr_structured_content x) = Inr (df_content d) \<and> df_repo_id d = repo
      \<and> project_x_asset_to_draft env now' w p i n db' = Inr (Some (df_id d), db')"
proof -
  have asset: "find (\<lambda>x. pr_workspace_id x = w \<and> pr_product_id x = p \<and> pr_id x = i \<and> pr_revision x = n
      \<and> pr_kind x = ''x_draft'') (gd_assets db) = Some x"
    using find_conj [OF assms(2) [unfolded get_exact_asset_def], of "\<lambda>x. pr_kind x = ''x_draft''"] assms(3)
    by (simp add: conj_assoc)
  have review: "list_ex (\<lambda>r. rv_workspace_id r = w \<and> rv_product_id r = p \<and> rv_asset_id r = i
      \<and> rv_asset_revision r = n \<and> rv_final_outcome r \<noteq> ''block'') (gd_reviews db)"
    using assms(4,5) by (auto simp: current_review_def find_Some_iff list_ex_iff)
  have none: "find (\<lambda>d. df_workspace_id d = w \<and> df_prepared_asset_id d = Some i
      \<and> df_prepared_asset_revision d = Some n) (gd_drafts db) = None"
    using assms(8) by (auto simp: find_None_iff list_ex_iff draft_of_def)
  from assms(1) obtain db1 d where
    pr: "project_x_asset_to_draft env now w p i n db1 = Inr (d, db')"
    and same: "gd_assets db1 = gd_assets db" "gd_reviews db1 = gd_reviews db" "gd_drafts db1 = gd_drafts db"
      "gd_products db1 = gd_products db" "primary_repo db1 w p = primary_repo db w p"
    by (auto simp: approve_exact_revision_def res_bind_eq_Inr Let_def update_action_def update_approval_def
        primary_repo_def split: option.splits if_splits)
  from pr obtain post where post: "x_post (pr_structured_content x) = Inr post"
    and db': "db' = insert_draft env now w p i n (pd_user_id product) repo post db1"
    unfolding project_x_asset_to_draft_def same asset option.case
    by (auto simp: res_bind_eq_Inr review none assms(6,7))
  obtain draft where draft: "gd_drafts db' = gd_drafts db @ [draft]" "draft_of w i n draft"
    "df_status draft = ''approved''" "df_content draft = post" "df_repo_id draft = repo"
    using same(3) by (simp add: db' insert_draft_def Let_def draft_of_def)
  have again: "find (\<lambda>d. df_workspace_id d = w \<and> df_prepared_asset_id d = Some i
      \<and> df_prepared_asset_revision d = Some n) (gd_drafts db') = Some draft"
    using find_snoc [OF none] draft(1,2) by (simp add: draft_of_def)
  have tables: "gd_assets db' = gd_assets db" "gd_reviews db' = gd_reviews db"
    using same(1,2) by (simp_all add: db' insert_draft_def Let_def drawn_def)
  have "project_x_asset_to_draft env now' w p i n db' = Inr (Some (df_id draft), db')"
    unfolding project_x_asset_to_draft_def tables asset option.case post
    by (simp add: review again)
  then show ?thesis using draft post by blast
qed

theorem approved_post_becomes_draft_witness:
  "\<exists>d. gd_drafts loop_approved = gd_drafts loop_db @ [d] \<and> draft_of ''w'' ''x1'' 1 d"
proof -
  let ?run = "approve_exact_revision loop_env 5 ''w'' ''p'' ''a1'' ''x1'' 1 ''u'' loop_db"
  have "\<exists>d. gd_drafts (snd (projr ?run)) = gd_drafts loop_db @ [d] \<and> draft_of ''w'' ''x1'' 1 d
      \<and> df_status d = ''approved'' \<and> x_post (pr_structured_content loop_asset) = Inr (df_content d)
      \<and> df_repo_id d = ''g''
      \<and> project_x_asset_to_draft loop_env 7 ''w'' ''p'' ''x1'' 1 (snd (projr ?run))
          = Inr (Some (df_id d), snd (projr ?run))"
    by (rule approved_post_becomes_draft [where env = loop_env and now = 5 and aid = "''a1''" and actor = "''u''"
          and db = loop_db and q = "fst (projr ?run)" and p = "''p''" and r = "the (current_review loop_db ''w'' ''p'' ''x1'' 1)"
          and product = "hd (gd_products loop_db)"]; code_simp)
  moreover have "gd_drafts (snd (projr ?run)) = gd_drafts loop_approved" by code_simp
  ultimately show ?thesis by auto
qed

section \<open>Plans\<close>

lemma add_plan_actions_plans: "add_plan_actions env plan k rs db = Inr db' \<Longrightarrow> gd_plans db' = gd_plans db"
proof (induction rs arbitrary: db k)
  case (Cons r rs)
  obtain v db1 where db1:
    "db1 = (drawn db)\<lparr>gd_actions := gd_actions db @ [new_action (draw env db) plan k r v]\<rparr>"
    "add_plan_actions env plan (k + 1) rs db1 = Inr db'"
    by (rule add_plan_actions_Cons [OF Cons.prems]) (rule that)
  from Cons.IH [OF db1(2)] show ?case by (simp add: db1(1) drawn_def)
qed simp

lemma plan_stored:
  assumes "create_canonical_plan env run actor recs ver db = Inr (plan, db')"
  shows "gd_plans db' = gd_plans db @ [plan]" "mp_id plan \<notin> mp_id ` set (gd_plans db)"
    "mp_status plan = ''preparing''" "mp_workspace_id plan = run_workspace_id run"
    "mp_product_id plan = run_product_id run" "mp_operator_run_id plan = Some (run_id run)"
proof -
  from assms obtain db1 s e where p: "add_plan plan (drawn db) = Inr db1"
    "add_plan_actions env plan 1 recs db1 = Inr db'"
    and plan: "plan = new_plan (draw env db) run actor s e ver (length recs)"
    by (auto simp: create_canonical_plan_def Let_def res_bind_eq_Inr split: if_splits option.splits)
  show "gd_plans db' = gd_plans db @ [plan]" "mp_id plan \<notin> mp_id ` set (gd_plans db)"
    using p(1) add_plan_actions_plans [OF p(2)]
    by (auto simp: add_plan_def drawn_def list_ex_iff split: if_splits)
  show "mp_status plan = ''preparing''" "mp_workspace_id plan = run_workspace_id run"
    "mp_product_id plan = run_product_id run" "mp_operator_run_id plan = Some (run_id run)"
    using plan by (simp_all add: new_plan_def)
qed

lemma small_int_text: "int_text 1 = ''1''" "int_text 2 = ''2''" "int_text 3 = ''3''"
  by code_simp+

lemma up_to_three:
  assumes "length xs \<le> 3"
  obtains "xs = []" | a where "xs = [a]" | a b where "xs = [a, b]" | a b c where "xs = [a, b, c]"
  using assms by (cases xs; cases "tl xs"; cases "tl (tl xs)"; cases "tl (tl (tl xs))") auto

text \<open>With at most three actions the order of the texts of their positions is the order of the positions.\<close>

lemma planned_order:
  assumes "map pa_position new = map (\<lambda>i. Some (1 + int i)) [0..<length new]" "length new \<le> 3"
  shows "sort_key (\<lambda>a. (pa_position a = None, case pa_position a of None \<Rightarrow> 0 | Some n \<Rightarrow> n, pa_id a)) new = new
    \<and> sort_key (\<lambda>(i, p, r). (optional_text (map_option int_text p), i))
       (map (\<lambda>a. (pa_id a, pa_position a, pa_recommendation_id a)) new)
     = map (\<lambda>a. (pa_id a, pa_position a, pa_recommendation_id a)) new"
  using assms(2)
  by (cases rule: up_to_three)
     (use assms(1) in \<open>auto simp: small_int_text optional_text_def upt_rec less_eq_prod_simp intro!: sort_key_id_if_sorted\<close>)

lemma planned_list:
  assumes "create_canonical_plan env run actor recs ver db = Inr (plan, db')"
    and "mp_id plan \<notin> pa_plan_id ` set (gd_actions db)" "run_product_id run = Some p"
  obtains new where "list_plan_actions db' (run_workspace_id run) p (mp_id plan) = new"
    "gd_actions db' = gd_actions db @ new" "planned plan 1 recs new" "length new = length recs" "length recs \<le> 3"
proof -
  note r = create_plan_result [OF assms(1)] and st = plan_stored [OF assms(1)]
  from r(1) obtain new where new: "gd_actions db' = gd_actions db @ new" "planned plan 1 recs new" by blast
  have len: "length new = length recs" using new(2) by (auto simp: planned_def dest: map_eq_imp_length_eq)
  have "filter (\<lambda>a. pa_workspace_id a = run_workspace_id run \<and> pa_product_id a = Some p
      \<and> pa_plan_id a = mp_id plan) (gd_actions db') = new"
    using assms(2,3) new st(4,5) by (force simp: planned_def list_all_iff filter_empty_conv filter_id_conv)
  then have "list_plan_actions db' (run_workspace_id run) p (mp_id plan) = new"
    using planned_order [of new] new(2) len r(5) by (simp add: list_plan_actions_def planned_def)
  then show thesis using that new len r(5) by blast
qed

text \<open>A plan that is created and finalized lists the selected recommendations in the order of their
  selection, at most three, with as many actions; finalizing it again returns the same plan and changes nothing.\<close>

theorem snapshot_keeps_selection:
  assumes "create_canonical_plan env run actor recs ver db = Inr (plan, db1)"
    and "mp_id plan \<notin> pa_plan_id ` set (gd_actions db)" "run_product_id run = Some p"
    and "finalize_plan env now (run_workspace_id run) p (mp_id plan) no_recs shipped search db1 = Inr (plan', db2)"
  shows "length recs \<le> 3 \<and> mp_status plan' = ''ready'' \<and> mp_action_count plan' = Some (int (length recs))
    \<and> py_get (the (mp_plan_snapshot plan')) ''recommendationIds'' = Some (PSeq (map (\<lambda>r. PStr (rc_id r)) recs))
    \<and> finalize_plan env now' (run_workspace_id run) p (mp_id plan) no_recs' shipped' search' db2 = Inr (plan', db2)"
proof -
  note st = plan_stored [OF assms(1)]
  obtain new where new: "list_plan_actions db1 (run_workspace_id run) p (mp_id plan) = new"
    "planned plan 1 recs new" "length new = length recs" "length recs \<le> 3"
    by (rule planned_list [OF assms(1-3)]) (rule that)
  have none: "find (\<lambda>q. mp_workspace_id q = run_workspace_id run \<and> mp_product_id q = Some p \<and> mp_id q = mp_id plan)
      (gd_plans db) = None" using st(2) by (fastforce simp: find_None_iff image_iff)
  have get: "get_plan db1 (run_workspace_id run) p (mp_id plan) = Some plan"
    using find_snoc [OF none, of plan] st(1,4,5) assms(3) by (simp add: get_plan_def)
  let ?plan = "finalized_plan now new no_recs shipped search (run_id run) plan"
  let ?db = "db1\<lparr>gd_plans := map (\<lambda>q. if mp_id q = mp_id plan then ?plan else q) (gd_plans db1)\<rparr>"
  from assms(4) st(3,6) obtain req where plan': "plan' = ?plan" and l: "log_event env req ?db = Inr db2"
    unfolding finalize_plan_def get option.case new(1)
    by (auto simp: res_bind_eq_Inr transition_plan_def transition_def Let_def)
  have ids [simp]: "mp_id ?plan = mp_id plan" "mp_workspace_id ?plan = mp_workspace_id plan"
    "mp_product_id ?plan = mp_product_id plan" "mp_status ?plan = ''ready''"
    "mp_action_count ?plan = Some (int (length new))" by (simp_all add: finalized_plan_def)
  have "gd_plans db2 = gd_plans ?db" using l by (auto simp: log_event_def res_bind_eq_Inr drawn_def)
  moreover have "map (\<lambda>q. if mp_id q = mp_id plan then ?plan else q) (gd_plans db1) = gd_plans db @ [?plan]"
    using st(1,2) by (fastforce simp: image_iff intro!: map_idI)
  ultimately have "get_plan db2 (run_workspace_id run) p (mp_id plan) = Some ?plan"
    using find_snoc [OF none, of ?plan] st(4,5) assms(3) by (simp add: get_plan_def)
  then have again: "finalize_plan env now' (run_workspace_id run) p (mp_id plan) no_recs' shipped' search' db2
      = Inr (plan', db2)" by (simp add: finalize_plan_def plan')
  have "map (\<lambda>a. PStr (optional_text (pa_recommendation_id a))) new = map (\<lambda>r. PStr (rc_id r)) recs"
  proof -
    have "map (\<lambda>i. PStr (optional_text i)) (map pa_recommendation_id new)
        = map (\<lambda>i. PStr (optional_text i)) (map (\<lambda>r. Some (rc_id r)) recs)"
      using new(2) by (simp add: planned_def)
    then show ?thesis by (simp add: comp_def optional_text_def)
  qed
  then have "py_get (the (mp_plan_snapshot plan')) ''recommendationIds'' = Some (PSeq (map (\<lambda>r. PStr (rc_id r)) recs))"
    using planned_order [of new] new(2-4)
    by (simp add: plan' finalized_plan_def build_plan_snapshot_def planned_def comp_def)
  then show ?thesis using again new(3,4) plan' by simp
qed

definition loop_run :: operator_run where
  "loop_run = new_weekly_run ''n1'' ''w'' ''p'' ''u'' 0 1000 ''v1'' ''manual'' ''k''"

definition loop_plan :: "marketing_plan \<times> growth_db" where
  "loop_plan = projr (create_canonical_plan loop_env loop_run ''u'' [loop_recommendation] ''s1''
     (loop_db\<lparr>gd_actions := []\<rparr>))"

definition loop_final :: "marketing_plan \<times> growth_db" where
  "loop_final = projr (finalize_plan loop_env 7 ''w'' ''p'' (mp_id (fst loop_plan)) [] PNone PNone (snd loop_plan))"

theorem snapshot_keeps_selection_witness:
  "length [loop_recommendation] \<le> 3 \<and> mp_status (fst loop_final) = ''ready''
    \<and> mp_action_count (fst loop_final) = Some (int (length [loop_recommendation]))
    \<and> py_get (the (mp_plan_snapshot (fst loop_final))) ''recommendationIds''
        = Some (PSeq (map (\<lambda>r. PStr (rc_id r)) [loop_recommendation]))
    \<and> finalize_plan loop_env 9 (run_workspace_id loop_run) ''p'' (mp_id (fst loop_plan)) [] PNone PNone
        (snd loop_final) = Inr (fst loop_final, snd loop_final)"
  by (rule snapshot_keeps_selection [where actor = "''u''" and ver = "''s1''" and now = 7 and no_recs = "[]"
        and shipped = PNone and search = PNone and db = "loop_db\<lparr>gd_actions := []\<rparr>"
        and ?db1.0 = "snd loop_plan"]; code_simp)

end
