(* ===== verification/Lexical_Match.thy ===== *)
theory Lexical_Match
  imports Ranking
begin

text \<open>
  Lexical matching of shipped work and search queries with the product profile
  (\<open>policies/lexical_match_policy.py\<close>). Case folding is the parameter of the engine; a
  quotient of decimals is rounded to 28 digits.
\<close>

section \<open>Tokens\<close>

definition stop_words :: "string list" where
  "stop_words = [''a'', ''an'', ''and'', ''for'', ''in'', ''of'', ''on'', ''the'', ''to'', ''with'']"

definition navigation_terms :: "string list" where
  "navigation_terms = [''login'', ''log in'', ''signin'', ''sign in'', ''pricing'', ''contact'', ''support'']"

definition singular :: "string \<Rightarrow> string" where
  "singular token = (if token \<noteq> [] \<and> last token = CHR ''s'' \<and> 3 < length token then butlast token else token)"

definition lexical_tokens :: "engine_env \<Rightarrow> string option \<Rightarrow> string set" where
  "lexical_tokens env value =
     (case value of
        None \<Rightarrow> {}
      | Some s \<Rightarrow> if s = [] then {}
          else set (map singular (filter (\<lambda>t. t \<notin> set stop_words) (find_tokens (casefold env s)))))"

text \<open>\<open>Decimal(len(part)) / len(whole) if whole else Decimal(0)\<close>.\<close>

definition token_share :: "string set \<Rightarrow> string set \<Rightarrow> rat" where
  "token_share part whole = (if whole = {} then 0 else dec_div (of_nat (card part)) (of_nat (card whole)))"

definition capability_text :: "profile_capability_snapshot \<Rightarrow> string" where
  "capability_text c = pc_name c @ '' '' @ (case pc_description c of None \<Rightarrow> [] | Some d \<Rightarrow> d)"

section \<open>Capabilities\<close>

record capability_match =
  ca_capability_key :: "string option"
  ca_coverage :: rat
  ca_relevance :: rat

definition capability_candidates ::
  "engine_env \<Rightarrow> string \<Rightarrow> profile_capability_snapshot list \<Rightarrow> (rat \<times> rat \<times> string) list" where
  "capability_candidates env text capabilities =
     (let text_tokens = lexical_tokens env (Some text) in
      concat (map (\<lambda>c.
        let capability_tokens = lexical_tokens env (Some (capability_text c));
            overlap = text_tokens \<inter> capability_tokens;
            coverage = token_share overlap capability_tokens;
            relevance = token_share overlap text_tokens
        in if pc_active c \<and> 3 / 5 \<le> coverage \<and> 1 / 5 \<le> relevance
           then [(coverage, relevance, pc_capability_key c)] else []) capabilities))"

definition match_capability ::
  "engine_env \<Rightarrow> string \<Rightarrow> profile_capability_snapshot list \<Rightarrow> capability_match" where
  "match_capability env text capabilities =
     (let none = \<lparr>ca_capability_key = None, ca_coverage = 0, ca_relevance = 0\<rparr> in
      case rev (sort (capability_candidates env text capabilities)) of
        [] \<Rightarrow> none
      | (coverage, relevance, key) # rest \<Rightarrow>
          if (case rest of [] \<Rightarrow> False | (c, r, _) # _ \<Rightarrow> c = coverage \<and> r = relevance) then none
          else \<lparr>ca_capability_key = Some key, ca_coverage = coverage, ca_relevance = relevance\<rparr>)"

section \<open>Queries\<close>

record query_profile_match_result =
  qm_relevance :: rat
  qm_branded :: bool
  qm_navigational :: bool

definition profile_context :: "product_profile_snapshot \<Rightarrow> string" where
  "profile_context profile = join_text '' '' (filter (\<lambda>s. s \<noteq> [])
     (List.map_filter id [pf_audience profile, pf_objective profile, pf_positioning profile]))"

definition relevant_tokens :: "engine_env \<Rightarrow> product_profile_snapshot \<Rightarrow> string set" where
  "relevant_tokens env profile =
     \<Union> (set (map (\<lambda>c. lexical_tokens env (Some (capability_text c))) (pf_capabilities profile)))
       \<union> lexical_tokens env (Some (profile_context profile)) \<union> lexical_tokens env (pf_product_name profile)"

definition query_profile_match :: "engine_env \<Rightarrow> string \<Rightarrow> product_profile_snapshot \<Rightarrow> query_profile_match_result" where
  "query_profile_match env query profile =
     (let query_tokens = lexical_tokens env (Some query);
          product_tokens = lexical_tokens env (pf_product_name profile);
          overlap = query_tokens \<inter> relevant_tokens env profile;
          branded = (product_tokens \<noteq> {} \<and> product_tokens \<subseteq> query_tokens);
          normalized_query = join_text '' '' (find_tokens (casefold env query))
      in \<lparr>qm_relevance = token_share overlap query_tokens, qm_branded = branded,
          qm_navigational = branded \<and> list_ex (\<lambda>term. text_contains term normalized_query) navigation_terms\<rparr>)"

section \<open>Facts\<close>

lemma finite_lexical_tokens [simp]: "finite (lexical_tokens env v)"
  by (simp add: lexical_tokens_def split: option.splits)

end
