(* ===== verification/Input_Repository.thy ===== *)
theory Input_Repository
  imports Growth_Store Lexical_Match
begin

text \<open>
  The facts that a detection reads (\<open>repositories/opportunity_input_repository.py\<close>): products and
  their approved profiles, search facts with the synchronisation that vouches for them, website
  facts with the crawl that vouches for them, shipped events and the history of opportunities.
  A table is the list of its rows; timestamps are instants, as PostgreSQL returns them; columns
  that no query and no caller reads are left out.
\<close>

section \<open>Tables\<close>

record product_info =
  pi_id :: uuid
  pi_workspace_id :: uuid
  pi_name :: string

record profile_row =
  pq_id :: uuid
  pq_workspace_id :: uuid
  pq_product_id :: uuid
  pq_status :: string
  pq_deleted_at :: "instant option"
  pq_version :: "int option"
  pq_schema_version :: int
  pq_completeness_score :: int
  pq_quarterly_objective :: "string option"
  pq_primary_audience :: "string option"
  pq_primary_conversion_goal :: "string option"
  pq_primary_conversion_url :: "string option"
  pq_main_value_proposition :: "string option"
  pq_differentiation :: "string option"
  pq_important_capabilities :: "pyval list"

record integration_row =
  ic_id :: uuid
  ic_workspace_id :: uuid
  ic_status :: string
  ic_deleted_at :: "instant option"

record search_source =
  so_id :: uuid
  so_workspace_id :: uuid
  so_product_id :: uuid
  so_integration_connection_id :: uuid
  so_status :: string
  so_deleted_at :: "instant option"
  so_latest_successful_data_date :: "date option"

record search_sync_run =
  sy_id :: uuid
  sy_workspace_id :: uuid
  sy_product_id :: uuid
  sy_source_id :: uuid
  sy_status :: string
  sy_is_complete :: bool
  sy_is_truncated :: bool
  sy_requested_start_date :: date
  sy_requested_end_date :: date
  sy_completed_at :: "instant option"
  sy_deleted_at :: "instant option"

record daily_metric =
  dm_workspace_id :: uuid
  dm_product_id :: uuid
  dm_source_id :: uuid
  dm_grain :: string
  dm_query_id :: "uuid option"
  dm_page_id :: "uuid option"
  dm_metric_date :: date
  dm_clicks :: int
  dm_impressions :: int
  dm_average_position :: "rat option"
  dm_deleted_at :: "instant option"

record search_query_row =
  sq_id :: uuid
  sq_workspace_id :: uuid
  sq_product_id :: uuid
  sq_source_id :: uuid
  sq_deleted_at :: "instant option"
  sq_query_text :: string
  sq_query_fingerprint :: string

record search_page_row =
  sg_id :: uuid
  sg_workspace_id :: uuid
  sg_product_id :: uuid
  sg_source_id :: uuid
  sg_deleted_at :: "instant option"
  sg_url_fingerprint :: string
  sg_normalized_url :: string
  sg_website_page_id :: "uuid option"
  sg_match_status :: match_status

record website_source_row =
  wo_id :: uuid
  wo_workspace_id :: uuid
  wo_product_id :: uuid
  wo_status :: string
  wo_deleted_at :: "instant option"
  wo_normalized_base_url :: string

record crawl_run_row =
  wr_id :: uuid
  wr_workspace_id :: uuid
  wr_product_id :: uuid
  wr_source_id :: uuid
  wr_status :: string
  wr_completed_at :: "instant option"
  wr_deleted_at :: "instant option"
  wr_summary :: "(string \<times> pyval) list"
  wr_pages_discovered :: int
  wr_pages_succeeded :: int
  wr_pages_failed :: int

record website_page_row =
  wg_id :: uuid
  wg_workspace_id :: uuid
  wg_product_id :: uuid
  wg_deleted_at :: "instant option"
  wg_url :: string
  wg_canonical_url :: string
  wg_url_fingerprint :: string

record crawl_result_row =
  wx_workspace_id :: uuid
  wx_product_id :: uuid
  wx_source_id :: uuid
  wx_crawl_run_id :: uuid
  wx_page_id :: uuid
  wx_deleted_at :: "instant option"
  wx_status :: string
  wx_final_url :: "string option"
  wx_title :: "string option"
  wx_meta_description :: "string option"
  wx_headings :: "(string \<times> pyval) list list"
  wx_is_indexable :: "bool option"
  wx_internal_links :: "string list option"

record mapping_row =
  wm_workspace_id :: uuid
  wm_product_id :: uuid
  wm_source_id :: uuid
  wm_crawl_run_id :: uuid
  wm_deleted_at :: "instant option"
  wm_capability_key :: string
  wm_page_id :: "uuid option"
  wm_status :: string
  wm_relevance_score :: int
  wm_confidence_score :: int
  wm_evidence :: "(string \<times> pyval) list"

record normalized_event_row =
  ne_id :: uuid
  ne_workspace_id :: uuid
  ne_repo_id :: uuid
  ne_dedupe_key :: string
  ne_event_type :: string
  ne_occurred_at :: instant

record event_evaluation_row =
  ee_workspace_id :: uuid
  ee_normalized_event_id :: uuid
  ee_outcome :: string
  ee_public_worthiness_score :: int
  ee_public_summary :: "string option"
  ee_user_benefit :: "string option"

record feedback_row =
  fb_id :: uuid
  fb_workspace_id :: uuid
  fb_product_id :: uuid
  fb_opportunity_id :: uuid
  fb_reason_code :: string
  fb_created_at :: instant

text \<open>An opportunity comes with its \<open>created_at\<close>, which the database fills in.\<close>

record input_db =
  in_products :: "product_info list"
  in_profiles :: "profile_row list"
  in_connections :: "integration_row list"
  in_search_sources :: "search_source list"
  in_sync_runs :: "search_sync_run list"
  in_metrics :: "daily_metric list"
  in_queries :: "search_query_row list"
  in_search_pages :: "search_page_row list"
  in_website_sources :: "website_source_row list"
  in_crawl_runs :: "crawl_run_row list"
  in_website_pages :: "website_page_row list"
  in_crawl_results :: "crawl_result_row list"
  in_mappings :: "mapping_row list"
  in_normalized_events :: "normalized_event_row list"
  in_repositories :: "product_repository list"
  in_evaluations :: "event_evaluation_row list"
  in_opportunities :: "(opportunity_row \<times> instant) list"
  in_feedback :: "feedback_row list"

section \<open>Queries\<close>

text \<open>\<open>ORDER BY k DESC LIMIT 1\<close>; \<open>t <= bound\<close> is false for a null \<open>t\<close>.\<close>

definition latest_by :: "('a \<Rightarrow> 'k :: linorder) \<Rightarrow> 'a list \<Rightarrow> 'a option" where
  "latest_by k xs = (case rev (sort_key k xs) of [] \<Rightarrow> None | x # _ \<Rightarrow> Some x)"

definition no_later :: "instant option \<Rightarrow> instant \<Rightarrow> bool" where
  "no_later t bound = (case t of None \<Rightarrow> False | Some x \<Rightarrow> x \<le> bound)"

definition get_product_and_profile :: "input_db \<Rightarrow> uuid \<Rightarrow> uuid \<Rightarrow> product_info option \<times> profile_row option" where
  "get_product_and_profile db workspace_id product_id =
     (find (\<lambda>p. pi_workspace_id p = workspace_id \<and> pi_id p = product_id) (in_products db),
      find (\<lambda>p. pq_workspace_id p = workspace_id \<and> pq_product_id p = product_id
        \<and> pq_status p = ''approved'' \<and> pq_deleted_at p = None) (in_profiles db))"

definition sync_covers :: "(date \<times> date) option \<Rightarrow> search_sync_run \<Rightarrow> bool" where
  "sync_covers required r = (case required of None \<Rightarrow> True
     | Some (start, finish) \<Rightarrow> sy_requested_start_date r \<le> start \<and> finish \<le> sy_requested_end_date r)"

definition source_active :: "input_db \<Rightarrow> uuid \<Rightarrow> uuid \<Rightarrow> search_source \<Rightarrow> bool" where
  "source_active db workspace_id product_id s \<longleftrightarrow> so_workspace_id s = workspace_id \<and> so_product_id s = product_id
     \<and> so_status s = ''active'' \<and> so_deleted_at s = None
     \<and> list_ex (\<lambda>c. ic_workspace_id c = workspace_id \<and> ic_id c = so_integration_connection_id s
          \<and> ic_status c = ''active'' \<and> ic_deleted_at c = None) (in_connections db)"

definition get_search_authority ::
  "input_db \<Rightarrow> uuid \<Rightarrow> uuid \<Rightarrow> instant \<Rightarrow> (date \<times> date) option \<Rightarrow> (search_source \<times> search_sync_run) option" where
  "get_search_authority db workspace_id product_id as_of required =
     latest_by (\<lambda>(s, r). (the (sy_completed_at r), sy_id r))
       (filter (\<lambda>(s, r). source_active db workspace_id product_id s \<and> sy_workspace_id r = workspace_id
            \<and> sy_product_id r = product_id \<and> sy_source_id r = so_id s \<and> sy_status r = ''succeeded''
            \<and> sy_is_complete r \<and> sy_deleted_at r = None \<and> no_later (sy_completed_at r) as_of
            \<and> sync_covers required r)
          (List.product (in_search_sources db) (in_sync_runs db)))"

record search_facts =
  sx_metrics :: "daily_metric list"
  sx_queries :: "search_query_row list"
  sx_pages :: "search_page_row list"
  sx_website_pages :: "website_page_row list"
  sx_truncated :: bool

definition list_search_facts ::
  "input_db \<Rightarrow> uuid \<Rightarrow> uuid \<Rightarrow> uuid \<Rightarrow> date \<Rightarrow> date \<Rightarrow> instant \<Rightarrow> search_facts" where
  "list_search_facts db workspace_id product_id source_id start finish as_of =
     (let pages = filter (\<lambda>p. sg_workspace_id p = workspace_id \<and> sg_product_id p = product_id
            \<and> sg_source_id p = source_id \<and> sg_deleted_at p = None) (in_search_pages db);
          website_page_ids = List.map_filter sg_website_page_id pages
      in \<lparr>sx_metrics = filter (\<lambda>m. dm_workspace_id m = workspace_id \<and> dm_product_id m = product_id
              \<and> dm_source_id m = source_id \<and> start \<le> dm_metric_date m \<and> dm_metric_date m \<le> finish
              \<and> dm_deleted_at m = None) (in_metrics db),
          sx_queries = filter (\<lambda>q. sq_workspace_id q = workspace_id \<and> sq_product_id q = product_id
              \<and> sq_source_id q = source_id \<and> sq_deleted_at q = None) (in_queries db),
          sx_pages = pages,
          sx_website_pages = filter (\<lambda>p. wg_workspace_id p = workspace_id \<and> wg_product_id p = product_id
              \<and> wg_id p \<in> set website_page_ids \<and> wg_deleted_at p = None) (in_website_pages db),
          sx_truncated = list_ex (\<lambda>r. sy_workspace_id r = workspace_id \<and> sy_product_id r = product_id
              \<and> sy_source_id r = source_id \<and> sy_status r = ''succeeded'' \<and> sy_requested_start_date r \<le> finish
              \<and> start \<le> sy_requested_end_date r \<and> sy_is_truncated r \<and> no_later (sy_completed_at r) as_of
              \<and> sy_deleted_at r = None) (in_sync_runs db)\<rparr>)"

definition get_website_authority ::
  "input_db \<Rightarrow> uuid \<Rightarrow> uuid \<Rightarrow> instant \<Rightarrow> (website_source_row \<times> crawl_run_row \<times> bool) option" where
  "get_website_authority db workspace_id product_id as_of =
     (case latest_by (\<lambda>(s, r). (the (wr_completed_at r), wr_id r))
         (filter (\<lambda>(s, r). wo_workspace_id s = workspace_id \<and> wo_product_id s = product_id
              \<and> wo_status s = ''active'' \<and> wo_deleted_at s = None \<and> wr_workspace_id r = workspace_id
              \<and> wr_product_id r = product_id \<and> wr_source_id r = wo_id s \<and> wr_status r = ''succeeded''
              \<and> no_later (wr_completed_at r) as_of \<and> wr_deleted_at r = None)
            (List.product (in_website_sources db) (in_crawl_runs db))) of
        None \<Rightarrow> None
      | Some (source, run) \<Rightarrow> Some (source, run,
          list_ex (\<lambda>r. wr_workspace_id r = workspace_id \<and> wr_product_id r = product_id
            \<and> wr_source_id r = wo_id source \<and> wr_status r \<in> {''failed'', ''cancelled''}
            \<and> no_later (wr_completed_at r) as_of
            \<and> (case (wr_completed_at run, wr_completed_at r) of (Some a, Some b) \<Rightarrow> a < b | _ \<Rightarrow> False)
            \<and> wr_deleted_at r = None) (in_crawl_runs db)))"

definition list_website_facts ::
  "input_db \<Rightarrow> uuid \<Rightarrow> uuid \<Rightarrow> uuid \<Rightarrow> uuid \<Rightarrow> (crawl_result_row \<times> website_page_row) list \<times> mapping_row list" where
  "list_website_facts db workspace_id product_id source_id crawl_id =
     (filter (\<lambda>(x, p). wx_workspace_id x = workspace_id \<and> wx_product_id x = product_id
          \<and> wx_source_id x = source_id \<and> wx_crawl_run_id x = crawl_id \<and> wx_deleted_at x = None
          \<and> wg_workspace_id p = workspace_id \<and> wg_product_id p = product_id \<and> wg_id p = wx_page_id x
          \<and> wg_deleted_at p = None)
        (List.product (in_crawl_results db) (in_website_pages db)),
      filter (\<lambda>m. wm_workspace_id m = workspace_id \<and> wm_product_id m = product_id \<and> wm_source_id m = source_id
          \<and> wm_crawl_run_id m = crawl_id \<and> wm_deleted_at m = None) (in_mappings db))"

text \<open>One row per event, repository link and evaluation, in the order of the events.\<close>

definition list_shipping_rows ::
  "input_db \<Rightarrow> uuid \<Rightarrow> uuid \<Rightarrow> instant \<Rightarrow> instant
     \<Rightarrow> (normalized_event_row \<times> product_repository \<times> event_evaluation_row) list" where
  "list_shipping_rows db workspace_id product_id start finish =
     sort_key (\<lambda>(e, _, _). (ne_occurred_at e, ne_id e))
       (filter (\<lambda>(e, r, v). ne_workspace_id e = workspace_id \<and> prp_workspace_id r = workspace_id
            \<and> prp_repo_id r = ne_repo_id e \<and> prp_product_id r = product_id \<and> ee_workspace_id v = workspace_id
            \<and> ee_normalized_event_id v = ne_id e \<and> start \<le> ne_occurred_at e \<and> ne_occurred_at e \<le> finish)
          (List.product (in_normalized_events db) (List.product (in_repositories db) (in_evaluations db))))"

definition list_history ::
  "input_db \<Rightarrow> uuid \<Rightarrow> uuid \<Rightarrow> (opportunity_row \<times> instant \<times> feedback_row option) list" where
  "list_history db workspace_id product_id =
     map (\<lambda>(opp, created). (opp, created,
         latest_by (\<lambda>f. (fb_created_at f, fb_id f))
           (filter (\<lambda>f. fb_workspace_id f = workspace_id \<and> fb_product_id f = product_id
              \<and> fb_opportunity_id f = opp_id opp) (in_feedback db))))
       (sort_key (\<lambda>(opp, created). (created, opp_id opp))
         (filter (\<lambda>(opp, created). opp_workspace_id opp = workspace_id \<and> opp_product_id opp = Some product_id)
           (in_opportunities db)))"

section \<open>Facts\<close>

lemma latest_by_Some:
  assumes "latest_by k xs = Some x"
  shows "x \<in> set xs" "\<And>y. y \<in> set xs \<Longrightarrow> k y \<le> k x"
proof -
  obtain zs where "rev (sort_key k xs) = x # zs"
    using assms unfolding latest_by_def by (cases "rev (sort_key k xs)") auto
  then have eq: "sort_key k xs = rev zs @ [x]" by (metis rev.simps(2) rev_rev_ident)
  have sorted: "sorted (map k (sort_key k xs))" by (rule sorted_sort_key)
  have set: "set xs = set (rev zs @ [x])" by (metis eq set_sort)
  show "x \<in> set xs" using set by simp
  show "k y \<le> k x" if "y \<in> set xs" for y
    using that set sorted unfolding eq by (auto simp: sorted_append)
qed

lemma latest_by_None: "latest_by k xs = None \<longleftrightarrow> xs = []"
  unfolding latest_by_def by (cases "sort_key k xs" rule: rev_cases) (auto dest: arg_cong [of _ _ length])

end
