(* ===== verification/Snapshots.thy ===== *)
theory Snapshots
  imports Input_Repository
begin

text \<open>
  Assembly of the detection input (\<open>services/opportunity_snapshot_service.py\<close>): the search snapshot
  over two adjacent windows of 28 days, the website snapshot of the latest good crawl, the shipped
  events of the last 28 days and the history, with the checks of the pydantic contracts.

  \<open>snapshot_env\<close> holds what is outside: the engine's parameters, the JSON dump and the validation
  of a \<open>DetectionInput\<close> (pydantic), and the element that \<open>next(iter(s))\<close> takes from a set.
\<close>

record snapshot_env =
  sn_engine :: engine_env
  sn_dump :: "detection_input \<Rightarrow> pyval"
  sn_validate :: "pyval \<Rightarrow> detection_input res"
  sn_pick :: "int set \<Rightarrow> int"

section \<open>Search\<close>

definition metric_of :: "daily_metric list \<Rightarrow> metric_snapshot res" where
  "metric_of rows =
     (let clicks = sum_list (map dm_clicks rows);
          impressions = sum_list (map dm_impressions rows);
          weighted_position = foldl (\<lambda>s r. dec_add s (dec_mul
            (case dm_average_position r of None \<Rightarrow> 0 | Some p \<Rightarrow> p) (of_int (dm_impressions r)))) 0 rows
      in checked valid_metrics ''MetricSnapshot''
           \<lparr>mt_clicks = clicks, mt_impressions = impressions,
            mt_ctr = (if impressions \<noteq> 0 then dec_div (of_int clicks) (of_int impressions) else 0),
            mt_average_position = (if impressions \<noteq> 0 then dec_div weighted_position (of_int impressions) else 0)\<rparr>)"

definition split_metric :: "daily_metric list \<Rightarrow> date \<Rightarrow> (metric_snapshot \<times> metric_snapshot) res" where
  "split_metric rows current_start =
     res_bind (metric_of (filter (\<lambda>r. current_start \<le> dm_metric_date r) rows)) (\<lambda>current.
     res_bind (metric_of (filter (\<lambda>r. dm_metric_date r < current_start) rows)) (\<lambda>prior.
     Inr (current, prior)))"

text \<open>The rows that name a query and a page; \<open>dict\<close> keeps the order of the first insertions. A set of
  pages is listed in the order of its first rows.\<close>

definition detail_rows :: "daily_metric list \<Rightarrow> daily_metric list" where
  "detail_rows metrics = filter (\<lambda>r. dm_grain r = ''query_page'' \<and> dm_query_id r \<noteq> None \<and> dm_page_id r \<noteq> None) metrics"

definition rows_of_query :: "uuid \<Rightarrow> daily_metric list \<Rightarrow> daily_metric list" where
  "rows_of_query i rows = filter (\<lambda>r. dm_query_id r = Some i) rows"

definition rows_of_page :: "uuid \<Rightarrow> daily_metric list \<Rightarrow> daily_metric list" where
  "rows_of_page i rows = filter (\<lambda>r. dm_page_id r = Some i) rows"

definition page_by_id :: "search_facts \<Rightarrow> uuid \<Rightarrow> search_page_row option" where
  "page_by_id facts i = find (\<lambda>p. sg_id p = i) (sx_pages facts)"

definition associated_pages :: "search_facts \<Rightarrow> daily_metric list \<Rightarrow> search_page_row list" where
  "associated_pages facts rows =
     sort_key sg_url_fingerprint (List.map_filter (page_by_id facts)
       (fromkeys (List.map_filter dm_page_id rows)))"

definition query_snapshot_of ::
  "engine_env \<Rightarrow> product_profile_snapshot \<Rightarrow> search_facts \<Rightarrow> date \<Rightarrow> daily_metric list \<Rightarrow> search_query_row
     \<Rightarrow> query_performance_snapshot res" where
  "query_snapshot_of env profile facts current_start rows query =
     (let associated = associated_pages facts rows;
          matched = filter (\<lambda>p. sg_match_status p = MS_matched) associated
      in res_bind (split_metric rows current_start) (\<lambda>(current, prior).
         let profile_match = query_profile_match env (sq_query_text query) profile in
         checked valid_query ''QueryPerformanceSnapshot''
           \<lparr>qp_query_fingerprint = sq_query_fingerprint query, qp_query_text = sq_query_text query,
            qp_current = current, qp_prior = prior,
            qp_page_fingerprints = map sg_url_fingerprint associated,
            qp_matched_page_fingerprint = (case matched of [p] \<Rightarrow> Some (sg_url_fingerprint p) | _ \<Rightarrow> None),
            qp_page_match_status = (if length matched = 1 then MS_matched
              else if 1 < length matched then MS_ambiguous else MS_unmatched),
            qp_profile_relevance = qm_relevance profile_match, qp_branded = qm_branded profile_match,
            qp_navigational = qm_navigational profile_match\<rparr>))"

definition query_snapshots ::
  "engine_env \<Rightarrow> product_profile_snapshot \<Rightarrow> search_facts \<Rightarrow> date \<Rightarrow> query_performance_snapshot list res" where
  "query_snapshots env profile facts current_start =
     (let rows = detail_rows (sx_metrics facts) in
      res_map (\<lambda>(i, query). query_snapshot_of env profile facts current_start (rows_of_query i rows) query)
        (List.map_filter (\<lambda>i. map_option (Pair i) (find (\<lambda>q. sq_id q = i) (sx_queries facts)))
          (fromkeys (List.map_filter dm_query_id rows))))"

definition page_snapshot_of ::
  "search_facts \<Rightarrow> date \<Rightarrow> daily_metric list \<Rightarrow> search_page_row \<Rightarrow> search_page_performance_snapshot res" where
  "page_snapshot_of facts current_start rows page =
     res_bind (split_metric rows current_start) (\<lambda>(current, prior).
       checked valid_search_page ''SearchPagePerformanceSnapshot''
         \<lparr>sp_url_fingerprint = sg_url_fingerprint page, sp_url = sg_normalized_url page,
          sp_website_page_fingerprint = (case sg_website_page_id page of
              None \<Rightarrow> None
            | Some i \<Rightarrow> map_option wg_url_fingerprint (find (\<lambda>p. wg_id p = i) (sx_website_pages facts))),
          sp_match_status = sg_match_status page, sp_current = current, sp_prior = prior\<rparr>)"

definition page_snapshots :: "search_facts \<Rightarrow> date \<Rightarrow> search_page_performance_snapshot list res" where
  "page_snapshots facts current_start =
     (let rows = detail_rows (sx_metrics facts) in
      res_map (\<lambda>(i, page). page_snapshot_of facts current_start (rows_of_page i rows) page)
        (List.map_filter (\<lambda>i. map_option (Pair i) (page_by_id facts i))
          (fromkeys (List.map_filter dm_page_id rows))))"

definition missing_dates_of :: "daily_metric list \<Rightarrow> date \<Rightarrow> date list" where
  "missing_dates_of site_rows prior_start =
     filter (\<lambda>d. d \<notin> dm_metric_date ` set site_rows) [prior_start..prior_start + 55]"

definition search_snapshot_of ::
  "engine_env \<Rightarrow> product_profile_snapshot \<Rightarrow> search_source \<Rightarrow> search_sync_run \<Rightarrow> search_facts \<Rightarrow> date
     \<Rightarrow> search_snapshot res" where
  "search_snapshot_of env profile source run facts current_end =
     (let current_start = current_end - 27; prior_end = current_start - 1; prior_start = prior_end - 27;
          site_rows = filter (\<lambda>r. dm_grain r = ''site_total'') (sx_metrics facts);
          missing_dates = missing_dates_of site_rows prior_start;
          truncated = (sy_is_truncated run \<or> sx_truncated facts)
      in res_bind (query_snapshots env profile facts current_start) (\<lambda>queries.
         res_bind (page_snapshots facts current_start) (\<lambda>pages.
         res_bind (split_metric site_rows current_start) (\<lambda>(current_total, prior_total).
         Inr \<lparr>ss_source_id = Some (so_id source), ss_sync_id = Some (sy_id run),
           ss_health_status = (if missing_dates \<noteq> [] \<or> truncated then SH_degraded else SH_healthy),
           ss_baseline_status = (if missing_dates = [] \<and> \<not> truncated then BS_ready else BS_building),
           ss_current_start = Some current_start, ss_current_end = Some current_end,
           ss_prior_start = Some prior_start, ss_prior_end = Some prior_end,
           ss_period_start = Some current_start, ss_period_end = Some current_end,
           ss_comparison_start = Some prior_start, ss_comparison_end = Some prior_end,
           ss_missing_dates = missing_dates, ss_complete = (missing_dates = []), ss_truncated = truncated,
           ss_warnings = (if missing_dates \<noteq> [] then [''missing_site_total_dates''] else [])
             @ (if truncated then [''overlapping_successful_sync_truncated''] else []),
           ss_current = Some current_total, ss_prior = Some prior_total,
           ss_queries = sort_key qp_query_fingerprint queries,
           ss_pages = sort_key sp_url_fingerprint pages\<rparr>))))"

definition current_window_end :: "search_source \<Rightarrow> search_sync_run \<Rightarrow> instant \<Rightarrow> date" where
  "current_window_end source run as_of =
     min (case so_latest_successful_data_date source of None \<Rightarrow> sy_requested_end_date run | Some d \<Rightarrow> d)
       (as_of div day_us)"

definition assemble_search ::
  "engine_env \<Rightarrow> input_db \<Rightarrow> uuid \<Rightarrow> uuid \<Rightarrow> instant \<Rightarrow> product_profile_snapshot \<Rightarrow> search_snapshot option res" where
  "assemble_search env db workspace_id product_id as_of profile =
     (case get_search_authority db workspace_id product_id as_of None of
        None \<Rightarrow> Inr None
      | Some (source0, run0) \<Rightarrow>
          let current_end = current_window_end source0 run0 as_of;
              prior_start = current_end - 27 - 1 - 27
          in case get_search_authority db workspace_id product_id as_of (Some (prior_start, current_end)) of
              None \<Rightarrow> Inr None
            | Some (source, run) \<Rightarrow>
                let facts = list_search_facts db workspace_id product_id (so_id source) prior_start current_end as_of
                in res_bind (search_snapshot_of env profile source run facts current_end) (\<lambda>s. Inr (Some s)))"

section \<open>Website\<close>

text \<open>\<open>raw_level in (level, "h1", "H1")\<close>; in Python \<open>True\<close> equals 1.\<close>

definition heading_level_is :: "int \<Rightarrow> pyval option \<Rightarrow> bool" where
  "heading_level_is level raw =
     (case raw of
        Some (PInt n) \<Rightarrow> n = level
      | Some (PBool b) \<Rightarrow> (if b then 1 else 0) = level
      | Some (PStr s) \<Rightarrow> s = CHR ''h'' # int_text level \<or> s = CHR ''H'' # int_text level
      | _ \<Rightarrow> False)"

definition heading_values :: "(string \<times> pyval) list list \<Rightarrow> int option \<Rightarrow> string list" where
  "heading_values headings level =
     concat (map (\<lambda>h.
       if (case level of None \<Rightarrow> False | Some n \<Rightarrow> \<not> heading_level_is n (map_of h ''level'')) then []
       else case py_or (map_of h ''text'') (map_of h ''value'') of Some (PStr s) \<Rightarrow> [s] | _ \<Rightarrow> []) headings)"

definition website_page_type :: "string \<Rightarrow> string \<Rightarrow> page_type" where
  "website_page_type url base_url =
     (let slash = (\<lambda>c. c = CHR ''/'');
          path = rstrip_by slash (py_lower (takeWhile (\<lambda>c. c \<noteq> CHR ''?'') url));
          has = list_ex (\<lambda>segment. text_contains segment path)
      in if path = rstrip_by slash (py_lower base_url) then PT_homepage
         else if has [''/pricing'', ''/plans''] then PT_pricing
         else if has [''/signup'', ''/register'', ''/contact'', ''/demo''] then PT_conversion
         else if has [''/product'', ''/features'', ''/solutions''] then PT_product
         else PT_other)"

definition page_of_result ::
  "engine_env \<Rightarrow> website_source_row \<Rightarrow> crawl_result_row \<Rightarrow> website_page_row \<Rightarrow> website_page_snapshot" where
  "page_of_result env source x page =
     \<lparr>wp_page_fingerprint = wg_url_fingerprint page,
      wp_url = (case wx_final_url x of None \<Rightarrow> wg_url page | Some u \<Rightarrow> if u = [] then wg_url page else u),
      wp_title = wx_title x, wp_meta_description = wx_meta_description x,
      wp_headings = heading_values (wx_headings x) None, wp_h1s = heading_values (wx_headings x) (Some 1),
      wp_indexable = wx_is_indexable x,
      wp_crawl_status = (if wx_status x = ''blocked'' then PC_blocked
        else if wx_status x \<noteq> ''succeeded'' then PC_failed else PC_succeeded),
      wp_canonical_url = Some (wg_canonical_url page),
      wp_canonical_fingerprint = Some (sha256 env (wg_canonical_url page)),
      wp_page_type = website_page_type (wg_canonical_url page) (wo_normalized_base_url source),
      wp_internal_links = map_option sort (wx_internal_links x)\<rparr>"

text \<open>\<open>isinstance(v, int)\<close>, which holds of truth values too.\<close>

definition as_int :: "pyval option \<Rightarrow> int option" where
  "as_int v = (case v of Some (PInt n) \<Rightarrow> Some n | Some (PBool b) \<Rightarrow> Some (if b then 1 else 0) | _ \<Rightarrow> None)"

definition evidence_profile_version :: "(int set \<Rightarrow> int) \<Rightarrow> crawl_run_row \<Rightarrow> mapping_row list \<Rightarrow> int \<Rightarrow> int" where
  "evidence_profile_version pick run mappings profile_version =
     (let versions = List.map_filter (\<lambda>m. as_int (map_of (wm_evidence m) ''profile_version'')) mappings;
          default = (if versions \<noteq> [] then pick (set versions) else profile_version)
      in case map_of (wr_summary run) ''profile_version'' of
           None \<Rightarrow> default
         | Some v \<Rightarrow> (case as_int (Some v) of None \<Rightarrow> profile_version | Some n \<Rightarrow> n))"

definition parse_mapping_status :: "string \<Rightarrow> mapping_status res" where
  "parse_mapping_status s =
     (if s = ''represented'' \<or> s = ''complete'' then Inr MP_complete
      else if s = ''partial'' then Inr MP_partial
      else if s = ''missing'' then Inr MP_missing
      else Inl (ValidationError ''CapabilityMappingSnapshot''))"

definition mapping_of ::
  "(crawl_result_row \<times> website_page_row) list \<Rightarrow> int \<Rightarrow> mapping_row \<Rightarrow> capability_mapping_snapshot res" where
  "mapping_of results version m =
     (let absent = ''missing:'' @ wm_capability_key m;
          fingerprint = (case wm_page_id m of
              None \<Rightarrow> absent
            | Some i \<Rightarrow> (case find (\<lambda>(x, p). wg_id p = i) results of
                None \<Rightarrow> absent | Some (x, p) \<Rightarrow> wg_url_fingerprint p))
      in res_bind (parse_mapping_status (wm_status m)) (\<lambda>status.
         checked valid_mapping ''CapabilityMappingSnapshot''
           \<lparr>cm_capability_key = wm_capability_key m, cm_page_fingerprint = fingerprint,
            cm_profile_version = version,
            cm_coverage_score = dec_div (of_int (wm_confidence_score m)) 100,
            cm_relevance_score = dec_div (of_int (wm_relevance_score m)) 100, cm_status = status\<rparr>))"

definition assemble_website ::
  "snapshot_env \<Rightarrow> input_db \<Rightarrow> uuid \<Rightarrow> uuid \<Rightarrow> instant \<Rightarrow> int \<Rightarrow> website_snapshot option res" where
  "assemble_website env db workspace_id product_id as_of profile_version =
     (case get_website_authority db workspace_id product_id as_of of
        None \<Rightarrow> Inr None
      | Some (source, run, newer_failed) \<Rightarrow>
          (case list_website_facts db workspace_id product_id (wo_id source) (wr_id run) of (results, mappings) \<Rightarrow>
            let pages = map (\<lambda>(x, p). page_of_result (sn_engine env) source x p) results;
                version = evidence_profile_version (sn_pick env) run mappings profile_version;
                complete = (wr_pages_discovered run = wr_pages_succeeded run \<and> wr_pages_failed run = 0)
            in res_bind (res_map (mapping_of results version) mappings) (\<lambda>mapped.
               Inr (Some \<lparr>ws_source_id = Some (wo_id source), ws_crawl_id = Some (wr_id run),
                 ws_profile_version = version, ws_status = WS_succeeded,
                 ws_health_status = (if complete then WH_healthy else WH_degraded),
                 ws_completed_at = map_option Aware (wr_completed_at run), ws_complete = complete,
                 ws_warnings = (if newer_failed then [''newer_failed_crawl_ignored''] else []),
                 ws_pages = map Website_page (sort_key wp_page_fingerprint pages),
                 ws_capability_mappings =
                   sort_key (\<lambda>m. (cm_capability_key m, cm_page_fingerprint m)) mapped\<rparr>))))"

section \<open>Profile, shipping and history\<close>

definition shipping_outcome_of :: "string \<Rightarrow> shipping_outcome res" where
  "shipping_outcome_of raw =
     (case map_of [(''generate'', SO_generate), (''ignore'', SO_ignore), (''hold'', SO_review), (''block'', SO_review)] raw of
        None \<Rightarrow> Inl (AppError ''InvalidShippingEvaluationOutcomeError''
                  (''Unsupported persisted shipping evaluation outcome: '' @ [CHR 0x27] @ raw @ [CHR 0x27] @ ''.''))
      | Some x \<Rightarrow> Inr x)"

definition invalid_capability :: "profile_capability_snapshot res" where
  "invalid_capability = Inl (AppError ''MissingApprovedProfileError''
     ''Approved profile contains an invalid important capability.'')"

definition profile_capability :: "pyval \<Rightarrow> profile_capability_snapshot res" where
  "profile_capability value =
     (case value of
        PStr s \<Rightarrow> Inr \<lparr>pc_capability_key = s, pc_name = s, pc_description = None, pc_active = True\<rparr>
      | PDict kvs \<Rightarrow>
          let key = py_or (map_of kvs ''capability_key'') (map_of kvs ''key'');
              name = py_or (map_of kvs ''name'') key
          in (case (key, name) of
                (Some (PStr k), Some (PStr n)) \<Rightarrow>
                  Inr \<lparr>pc_capability_key = k, pc_name = n,
                    pc_description = (case map_of kvs ''description'' of Some (PStr d) \<Rightarrow> Some d | _ \<Rightarrow> None),
                    pc_active = (case map_of kvs ''active'' of Some (PBool b) \<Rightarrow> b | _ \<Rightarrow> True)\<rparr>
              | _ \<Rightarrow> invalid_capability)
      | _ \<Rightarrow> invalid_capability)"

text \<open>\<open>a or b\<close> on optional texts.\<close>

definition text_or_else :: "string option \<Rightarrow> string option \<Rightarrow> string option" where
  "text_or_else a b = (if a = None \<or> a = Some [] then b else a)"

definition profile_snapshot_of ::
  "product_info \<Rightarrow> profile_row \<Rightarrow> int \<Rightarrow> profile_capability_snapshot list \<Rightarrow> product_profile_snapshot res" where
  "profile_snapshot_of product profile version capabilities =
     checked valid_profile ''ProductProfileSnapshot''
       \<lparr>pf_product_name = Some (pi_name product), pf_profile_id = Some (pq_id profile),
        pf_profile_version = version, pf_schema_version = int_text (pq_schema_version profile),
        pf_status = PS_approved, pf_completeness = of_int (pq_completeness_score profile),
        pf_objective = pq_quarterly_objective profile, pf_audience = pq_primary_audience profile,
        pf_conversion_action = (case pq_primary_conversion_goal profile of
            None \<Rightarrow> pq_primary_conversion_url profile | Some g \<Rightarrow> Some g),
        pf_conversion_url = pq_primary_conversion_url profile,
        pf_positioning = text_or_else (pq_main_value_proposition profile) (pq_differentiation profile),
        pf_capabilities = capabilities\<rparr>"

definition event_text :: "event_evaluation_row \<Rightarrow> string" where
  "event_text v = join_text '' '' (filter (\<lambda>s. s \<noteq> []) (List.map_filter id [ee_public_summary v, ee_user_benefit v]))"

definition shipping_event_of ::
  "engine_env \<Rightarrow> profile_capability_snapshot list
     \<Rightarrow> normalized_event_row \<times> product_repository \<times> event_evaluation_row \<Rightarrow> shipping_event_snapshot res" where
  "shipping_event_of env capabilities row =
     (case row of (e, r, v) \<Rightarrow>
       let m = match_capability env (event_text v) capabilities in
       res_bind (shipping_outcome_of (ee_outcome v)) (\<lambda>outcome.
       checked valid_event ''ShippingEventSnapshot''
         \<lparr>se_event_id = Some (ne_id e), se_event_key = ne_dedupe_key e, se_repository_id = Some (ne_repo_id e),
          se_mapping_id = Some (prp_id r), se_event_type = ne_event_type e, se_occurred_at = Aware (ne_occurred_at e),
          se_safe_summary = ee_public_summary v, se_summary = None, se_user_benefit = ee_user_benefit v,
          se_evaluation_outcome = outcome, se_public_worthiness_score = of_int (ee_public_worthiness_score v),
          se_capability_key = ca_capability_key m, se_capability_coverage_score = ca_coverage m,
          se_capability_relevance_score = ca_relevance m\<rparr>))"

text \<open>A member of an enumeration by its text.\<close>

definition parse_enum :: "('e \<Rightarrow> string) \<Rightarrow> 'e list \<Rightarrow> string \<Rightarrow> 'e res" where
  "parse_enum value members s =
     (case find (\<lambda>m. value m = s) members of None \<Rightarrow> Inl (ValidationError ''enum'') | Some m \<Rightarrow> Inr m)"

definition action_families :: "action_family list" where
  "action_families = [AF_seo_snippet_update, AF_existing_page_optimization, AF_content_refresh_investigation,
     AF_seo_page_update, AF_blog_brief, AF_product_update, AF_dedicated_content_creation, AF_page_quality_fix,
     AF_x_draft]"

definition opportunity_types :: "opportunity_type list" where
  "opportunity_types = [OT_high_impressions_low_ctr, OT_ranking_within_reach, OT_search_decline,
     OT_shipped_but_not_marketed, OT_search_demand_without_dedicated_content, OT_existing_page_needs_improvement]"

definition valid_history_item :: "opportunity_history_item \<Rightarrow> bool" where
  "valid_history_item h \<longleftrightarrow> list_all (\<lambda>x. case x of None \<Rightarrow> True | Some s \<Rightarrow> valid_score s)
     [hi_confidence_score h, hi_strategic_fit_score h, hi_priority_score h]"

definition utc :: "datetime \<Rightarrow> datetime" where
  "utc t = (case t of Aware x \<Rightarrow> Aware x | Naive x \<Rightarrow> Aware x)"

text \<open>A null column stays null.\<close>

fun nullable :: "('a \<Rightarrow> 'b res) \<Rightarrow> 'a option \<Rightarrow> 'b option res" where
  "nullable f None = Inr None"
| "nullable f (Some x) = res_bind (f x) (\<lambda>y. Inr (Some y))"

definition history_item_of ::
  "opportunity_row \<times> instant \<times> feedback_row option \<Rightarrow> opportunity_history_item res" where
  "history_item_of row =
     (case row of (opp, created, feedback) \<Rightarrow>
       res_bind (nullable (parse_enum action_family_value action_families) (opp_action_family opp)) (\<lambda>family.
       res_bind (nullable (parse_enum opportunity_type_value opportunity_types) (opp_opportunity_type opp)) (\<lambda>kind.
       checked valid_history_item ''OpportunityHistoryItem''
         \<lparr>hi_identity_fingerprint = text_or (opp_identity_fingerprint opp) (opp_cooldown_dedup_key opp),
          hi_action_family = family, hi_opportunity_type = kind, hi_status = opp_status opp,
          hi_occurred_at = Aware created, hi_dismissal_reason = map_option fb_reason_code feedback,
          hi_cooldown_until = Some (utc (opp_cooldown_until opp)),
          hi_confidence_score = opp_confidence_score opp,
          hi_strategic_fit_score = opp_strategic_fit_score opp,
          hi_priority_score = opp_priority_score opp\<rparr>)))"

definition history_of :: "input_db \<Rightarrow> uuid \<Rightarrow> uuid \<Rightarrow> opportunity_history_item list res" where
  "history_of db workspace_id product_id =
     res_map history_item_of (filter (\<lambda>(opp, _, _). text_truthy (opp_identity_fingerprint opp) \<or> opp_cooldown_dedup_key opp \<noteq> [])
       (list_history db workspace_id product_id))"

section \<open>The snapshot\<close>

definition sorted_collections :: "string list" where
  "sorted_collections = [''capabilities'', ''warnings'', ''missing_dates'', ''page_fingerprints'', ''queries'',
     ''pages'', ''capability_mappings'', ''events'', ''opportunities'']"

fun snapshot_canonical :: "string option \<Rightarrow> pyval \<Rightarrow> pyval" where
  "snapshot_canonical key (PDict kvs) =
     PDict (sort_key fst (map (\<lambda>(name, item). (name, snapshot_canonical (Some name) item)) kvs))"
| "snapshot_canonical key (PSeq xs) =
     (let values = map (snapshot_canonical None) xs in
      PSeq (case key of
          None \<Rightarrow> values
        | Some k \<Rightarrow> if k \<in> set sorted_collections then sort_key json_dumps values else values))"
| "snapshot_canonical key v = v"

record snapshot_assembly =
  sa_detection_input :: detection_input
  sa_payload :: pyval
  sa_canonical_bytes :: string
  sa_input_hash :: string

definition canonicalize_detection_input :: "snapshot_env \<Rightarrow> detection_input \<Rightarrow> snapshot_assembly" where
  "canonicalize_detection_input env d =
     (let payload = snapshot_canonical None (sn_dump env d); bytes = json_dumps payload
      in \<lparr>sa_detection_input = d, sa_payload = payload, sa_canonical_bytes = bytes,
          sa_input_hash = sha256 (sn_engine env) bytes\<rparr>)"

definition assemble_detection_input ::
  "snapshot_env \<Rightarrow> input_db \<Rightarrow> uuid \<Rightarrow> uuid \<Rightarrow> instant \<Rightarrow> snapshot_assembly res" where
  "assemble_detection_input env db workspace_id product_id as_of =
     (case get_product_and_profile db workspace_id product_id of
        (None, _) \<Rightarrow> Inl (AppError ''MissingProductError''
            (''Product '' @ product_id @ '' does not exist in workspace '' @ workspace_id @ ''.''))
      | (Some product, None) \<Rightarrow> Inl (AppError ''MissingApprovedProfileError''
            ''A complete approved product profile is required.'')
      | (Some product, Some profile) \<Rightarrow> (case pq_version profile of
            None \<Rightarrow> Inl (AppError ''MissingApprovedProfileError'' ''A complete approved product profile is required.'')
          | Some version \<Rightarrow>
              res_bind (res_map profile_capability (pq_important_capabilities profile)) (\<lambda>unsorted.
              let capabilities = sort_key pc_capability_key unsorted;
                  window_start = as_of - Times.days 28
              in res_bind (profile_snapshot_of product profile version capabilities) (\<lambda>profile_snapshot.
              res_bind (assemble_search (sn_engine env) db workspace_id product_id as_of profile_snapshot) (\<lambda>search.
              res_bind (assemble_website env db workspace_id product_id as_of version) (\<lambda>website.
              res_bind (res_map (shipping_event_of (sn_engine env) capabilities)
                  (list_shipping_rows db workspace_id product_id window_start as_of)) (\<lambda>events.
              res_bind (history_of db workspace_id product_id) (\<lambda>history.
              Inr (canonicalize_detection_input env
                \<lparr>di_schema_version = ''1'', di_workspace_id = workspace_id, di_product_id = product_id,
                 di_as_of = Aware as_of, di_profile = profile_snapshot, di_search = search, di_queries = [],
                 di_pages = [], di_website = website,
                 di_shipping = \<lparr>sh_window_start = Some (Aware window_start), sh_window_end = Some (Aware as_of),
                   sh_events = events\<rparr>,
                 di_history = history\<rparr>)))))))))"

section \<open>Stored snapshots\<close>

record run_snapshot =
  rs_id :: uuid
  rs_workspace_id :: uuid
  rs_product_id :: uuid
  rs_operator_run_id :: uuid
  rs_schema_version :: int
  rs_input_payload :: pyval
  rs_input_hash :: string
  rs_source_cutoff :: datetime
  rs_retention_expires_at :: datetime

definition stored_hash_ok :: "snapshot_env \<Rightarrow> snapshot_assembly \<Rightarrow> run_snapshot \<Rightarrow> unit res" where
  "stored_hash_ok env assembly existing =
     (case sn_validate env (rs_input_payload existing) of
        Inl _ \<Rightarrow> Inl (AppError ''SnapshotHashMismatchError'' ''Stored run snapshot is not canonical detection input.'')
      | Inr stored_input \<Rightarrow>
          let stored = canonicalize_detection_input env stored_input in
          if sa_input_hash stored \<noteq> rs_input_hash existing \<or> sa_input_hash stored \<noteq> sa_input_hash assembly
          then Inl (AppError ''SnapshotHashMismatchError'' ''Run already has a different immutable snapshot.'')
          else Inr ())"

text \<open>\<open>int(schema_version)\<close>; the schema version of a detection input is a text of digits.\<close>

definition text_int :: "string \<Rightarrow> int" where
  "text_int s = foldl (\<lambda>n c. 10 * n + (of_char c - 48)) 0 s"

definition new_snapshot :: "uuid \<Rightarrow> uuid \<Rightarrow> uuid \<Rightarrow> uuid \<Rightarrow> snapshot_assembly \<Rightarrow> run_snapshot" where
  "new_snapshot new_id workspace_id product_id rid assembly =
     \<lparr>rs_id = new_id, rs_workspace_id = workspace_id, rs_product_id = product_id, rs_operator_run_id = rid,
      rs_schema_version = text_int (di_schema_version (sa_detection_input assembly)),
      rs_input_payload = sa_payload assembly, rs_input_hash = sa_input_hash assembly,
      rs_source_cutoff = di_as_of (sa_detection_input assembly),
      rs_retention_expires_at = dt_plus (di_as_of (sa_detection_input assembly)) (Times.days 180)\<rparr>"

definition persist_run_snapshot ::
  "snapshot_env \<Rightarrow> uuid \<Rightarrow> uuid \<Rightarrow> uuid \<Rightarrow> uuid \<Rightarrow> snapshot_assembly \<Rightarrow> run_snapshot list
     \<Rightarrow> (run_snapshot \<times> run_snapshot list) res" where
  "persist_run_snapshot env new_id workspace_id product_id rid assembly table =
     (if assembly \<noteq> canonicalize_detection_input env (sa_detection_input assembly)
      then Inl (AppError ''SnapshotHashMismatchError'' ''Detection input payload does not match its SHA-256 hash.'')
      else if di_workspace_id (sa_detection_input assembly) \<noteq> workspace_id
         \<or> di_product_id (sa_detection_input assembly) \<noteq> product_id
      then Inl (ValueError ''Snapshot tenant does not match the detection input tenant.'')
      else case find (\<lambda>x. rs_workspace_id x = workspace_id \<and> rs_product_id x = product_id
             \<and> rs_operator_run_id x = rid) table of
          Some existing \<Rightarrow> res_bind (stored_hash_ok env assembly existing) (\<lambda>_. Inr (existing, table))
        | None \<Rightarrow> let x = new_snapshot new_id workspace_id product_id rid assembly in Inr (x, table @ [x]))"

end
