(* ===== verification/Run_Workflow.thy ===== *)
theory Run_Workflow
  imports Growth_Plans Snapshots
begin

text \<open>
  The workflow that carries out a detection run (\<open>app/workflows/opportunity_detection.py\<close>), the request
  that creates one (\<open>services/operator_run_service.py\<close>) with the readiness check it calls
  (\<open>products/services/product_profile_service.py\<close>), and the child run that a weekly run starts
  (\<open>app/workflows/weekly_operator.py\<close>).

  A worker runs several transactions: it claims the run under a lease, assembles the input, renews the
  lease, and stores the snapshot and the detection together; or it stops the run or gives it back. Every
  transaction is one function on the database. Between them other workers act: \<open>others i\<close> is what
  happens to the database between two transactions of the worker, and \<open>clock i\<close> the time it reads. The
  reads of an assembly see one state of the database. The owner of a lease is the random UUID that the
  worker drew. The creation time of an opportunity is given by the database.
\<close>

section \<open>State\<close>

record workflow_env =
  wf_store :: store_env
  wf_dump :: "detection_input \<Rightarrow> pyval"
  wf_validate :: "pyval \<Rightarrow> detection_input res"
  wf_pick :: "int set \<Rightarrow> int"
  wf_dialect :: string
  wf_lease_duration :: timedelta

definition workflow_snapshot_env :: "workflow_env \<Rightarrow> snapshot_env" where
  "workflow_snapshot_env env =
     \<lparr>sn_engine = sv_engine (wf_store env), sn_dump = wf_dump env, sn_validate = wf_validate env,
      sn_pick = wf_pick env\<rparr>"

record run_db =
  rd_operator :: operator_db
  rd_snapshots :: "run_snapshot list"
  rd_inputs :: input_db
  rd_created :: "uuid \<Rightarrow> instant"
  rd_memberships :: "membership_row list"
  rd_outbox :: outbox

abbreviation rd_runs :: "run_db \<Rightarrow> operator_run list" where
  "rd_runs db \<equiv> od_runs (rd_operator db)"

definition read_inputs :: "run_db \<Rightarrow> input_db" where
  "read_inputs db = (rd_inputs db)
     \<lparr>in_opportunities := map (\<lambda>x. (x, rd_created db (opp_id x))) (od_opportunities (rd_operator db))\<rparr>"

definition find_run :: "run_db \<Rightarrow> uuid \<Rightarrow> operator_run option" where
  "find_run db rid = find (\<lambda>r. run_id r = rid) (rd_runs db)"

definition change_run :: "uuid \<Rightarrow> (operator_run \<Rightarrow> operator_run) \<Rightarrow> run_db \<Rightarrow> run_db" where
  "change_run rid f db = db\<lparr>rd_operator := update_run rid f (rd_operator db)\<rparr>"

definition run_status_value :: "run_status \<Rightarrow> string" where
  "run_status_value s = (case s of RS_pending \<Rightarrow> ''pending'' | RS_running \<Rightarrow> ''running''
     | RS_completed \<Rightarrow> ''completed'' | RS_failed \<Rightarrow> ''failed'' | RS_stopped \<Rightarrow> ''stopped'')"

definition lease_lost :: py_error where
  "lease_lost = AppError ''OpportunityDetectionLeaseLostError'' ''Opportunity detection lease was lost.''"

section \<open>Transactions of a worker\<close>

datatype claim = Settled pyval | Claimed instant

definition claimed_run :: "workflow_env \<Rightarrow> string \<Rightarrow> instant \<Rightarrow> operator_run \<Rightarrow> operator_run" where
  "claimed_run env owner now r =
     r\<lparr>run_status := RS_running, run_lease_owner := Some owner,
       run_lease_expires_at := Some (now + wf_lease_duration env),
       run_as_of := (if run_as_of r = None then Some now else run_as_of r), run_failure_category := None\<rparr>"

definition claim_run ::
  "workflow_env \<Rightarrow> string \<Rightarrow> instant \<Rightarrow> uuid \<Rightarrow> uuid \<Rightarrow> uuid \<Rightarrow> run_db \<Rightarrow> (claim \<times> run_db) res" where
  "claim_run env owner now rid workspace_id product_id db =
     (let not_found = Settled (PDict [(''status'', PStr ''not_found''), (''runId'', PStr rid)]) in
      case find_run db rid of
        None \<Rightarrow> Inr (not_found, db)
      | Some run \<Rightarrow>
          if run_run_kind run \<noteq> RK_opportunity_detection then Inr (not_found, db)
          else if run_workspace_id run \<noteq> workspace_id \<or> run_product_id run \<noteq> Some product_id
          then Inl (AppError ''OpportunityDetectionTenantMismatchError''
                 ''Opportunity detection event tenant does not match the persisted run.'')
          else if run_status run \<in> {RS_completed, RS_stopped, RS_failed}
          then Inr (Settled (PDict [(''status'', PStr (run_status_value (run_status run))),
                      (''runId'', PStr (run_id run)), (''summary'', run_summary run)]),
                    if run_lease_owner run \<noteq> None \<or> run_lease_expires_at run \<noteq> None
                    then change_run rid clear_lease db else db)
          else if run_status run = RS_running
             \<and> (case run_lease_expires_at run of None \<Rightarrow> False | Some t \<Rightarrow> now < t)
          then Inl (AppError ''OpportunityDetectionLeaseBusyError'' ''Opportunity detection run is leased.'')
          else Inr (Claimed (case run_as_of run of None \<Rightarrow> now | Some t \<Rightarrow> t),
                    change_run rid (claimed_run env owner now) db))"

definition renew_lease :: "workflow_env \<Rightarrow> string \<Rightarrow> instant \<Rightarrow> uuid \<Rightarrow> run_db \<Rightarrow> run_db res" where
  "renew_lease env owner now rid db =
     (if length (filter (\<lambda>r. run_id r = rid \<and> run_status r = RS_running
            \<and> run_lease_owner r = Some owner) (rd_runs db)) \<noteq> 1
      then Inl lease_lost
      else Inr (change_run rid (\<lambda>r. if run_status r = RS_running \<and> run_lease_owner r = Some owner
             then r\<lparr>run_lease_expires_at := Some (now + wf_lease_duration env)\<rparr> else r) db))"

text \<open>The snapshot and the detection are committed together; when the run has evaluations already,
  nothing is committed.\<close>

definition store_detection ::
  "workflow_env \<Rightarrow> string \<Rightarrow> instant \<Rightarrow> uuid \<Rightarrow> uuid \<Rightarrow> uuid \<Rightarrow> snapshot_assembly \<Rightarrow> run_db
     \<Rightarrow> (evaluation_row list \<times> run_db) res" where
  "store_detection env owner now rid workspace_id product_id assembly db =
     (let odb = rd_operator db in
      res_bind (persist_run_snapshot (workflow_snapshot_env env) (sv_uuid (wf_store env) (od_drawn odb))
                  workspace_id product_id rid assembly (rd_snapshots db)) (\<lambda>(_, snapshots).
      res_bind (detection_transaction (wf_store env) now workspace_id product_id rid
                  \<lparr>da_detection_input = sa_detection_input assembly, da_input_hash = sa_input_hash assembly\<rparr>
                  (Some owner) (odb\<lparr>od_drawn := od_drawn odb + 1\<rparr>)) (\<lambda>(rows, odb').
      Inr (rows, if list_for_run odb workspace_id product_id rid \<noteq> [] then db
                 else db\<lparr>rd_operator := odb', rd_snapshots := snapshots\<rparr>))))"

definition missing_reason :: "py_error \<Rightarrow> string option" where
  "missing_reason e = (case e of AppError name _ \<Rightarrow>
       if name = ''MissingProductError'' then Some ''missing_product''
       else if name = ''MissingApprovedProfileError'' then Some ''missing_approved_profile'' else None
     | _ \<Rightarrow> None)"

definition stop_run :: "string \<Rightarrow> instant \<Rightarrow> uuid \<Rightarrow> string \<Rightarrow> run_db \<Rightarrow> run_db res" where
  "stop_run owner now rid reason db =
     (if length (filter (\<lambda>r. run_id r = rid \<and> run_lease_owner r = Some owner) (rd_runs db)) \<noteq> 1
      then Inl lease_lost
      else Inr (change_run rid (\<lambda>r. if run_lease_owner r = Some owner
             then clear_lease (r\<lparr>run_status := RS_stopped, run_summary := PDict [(''reason'', PStr reason)],
                                run_completed_at := Some now\<rparr>) else r) db))"

definition release_run :: "string \<Rightarrow> uuid \<Rightarrow> run_db \<Rightarrow> run_db" where
  "release_run owner rid db =
     change_run rid (\<lambda>r. if run_lease_owner r = Some owner \<and> run_status r \<noteq> RS_completed
       then clear_lease (r\<lparr>run_status := RS_pending, run_failure_category := Some ''unexpected''\<rparr>) else r) db"

section \<open>The workflow\<close>

text \<open>The last transaction and what it reports.\<close>

definition finish_run ::
  "workflow_env \<Rightarrow> string \<Rightarrow> instant \<Rightarrow> uuid \<Rightarrow> uuid \<Rightarrow> uuid \<Rightarrow> snapshot_assembly \<Rightarrow> run_db \<Rightarrow> pyval res \<times> run_db" where
  "finish_run env owner now rid workspace_id product_id assembly db =
     (case store_detection env owner now rid workspace_id product_id assembly db of
        Inl e \<Rightarrow> (Inl e, db)
      | Inr (evaluations, db') \<Rightarrow>
          (case find_run db' rid of
             None \<Rightarrow> (Inl (AppError ''AssertionError'' []), db')
           | Some current \<Rightarrow>
               (Inr (PDict [(''status'', PStr (run_status_value (run_status current))),
                  (''runId'', PStr rid), (''evaluations'', PInt (int (length evaluations))),
                  (''summary'', run_summary current)]), db')))"

definition detect_run ::
  "workflow_env \<Rightarrow> (nat \<Rightarrow> run_db \<Rightarrow> run_db) \<Rightarrow> (nat \<Rightarrow> instant) \<Rightarrow> string \<Rightarrow> uuid \<Rightarrow> uuid \<Rightarrow> uuid \<Rightarrow> instant \<Rightarrow> run_db
     \<Rightarrow> pyval res \<times> run_db" where
  "detect_run env others clock owner rid workspace_id product_id as_of db =
     (let db1 = others 0 db in
      case assemble_detection_input (workflow_snapshot_env env) (read_inputs db1) workspace_id product_id as_of of
        Inl e \<Rightarrow> (Inl e, db1)
      | Inr assembly \<Rightarrow>
          let db2 = others 1 db1 in
          (case renew_lease env owner (clock 1) rid db2 of
             Inl e \<Rightarrow> (Inl e, db2)
           | Inr db3 \<Rightarrow> finish_run env owner (clock 2) rid workspace_id product_id assembly (others 2 db3)))"

definition process ::
  "workflow_env \<Rightarrow> (nat \<Rightarrow> run_db \<Rightarrow> run_db) \<Rightarrow> (nat \<Rightarrow> instant) \<Rightarrow> string \<Rightarrow> uuid \<Rightarrow> uuid \<Rightarrow> uuid \<Rightarrow> run_db
     \<Rightarrow> pyval res \<times> run_db" where
  "process env others clock owner rid workspace_id product_id db =
     (case claim_run env owner (clock 0) rid workspace_id product_id db of
        Inl e \<Rightarrow> (Inl e, db)
      | Inr (Settled v, db1) \<Rightarrow> (Inr v, db1)
      | Inr (Claimed as_of, db1) \<Rightarrow>
          (case detect_run env others clock owner rid workspace_id product_id as_of db1 of
             (Inr v, db2) \<Rightarrow> (Inr v, db2)
           | (Inl e, db2) \<Rightarrow>
               let db3 = others 3 db2 in
               (case missing_reason e of
                  Some reason \<Rightarrow>
                    (case stop_run owner (clock 3) rid reason db3 of
                       Inl lost \<Rightarrow> (Inl lost, db3)
                     | Inr db4 \<Rightarrow> (Inr (PDict [(''status'', PStr ''stopped''), (''runId'', PStr rid),
                           (''summary'', PDict [(''reason'', PStr reason)])]), db4))
                | None \<Rightarrow> (Inl e, release_run owner rid db3))))"

section \<open>Requesting a run\<close>

definition get_product_profile_state :: "input_db \<Rightarrow> uuid \<Rightarrow> uuid \<Rightarrow> profile_row option \<times> profile_row option" where
  "get_product_profile_state db workspace_id product_id =
     (let rows = filter (\<lambda>r. pq_workspace_id r = workspace_id \<and> pq_product_id r = product_id
            \<and> pq_status r \<in> {''draft'', ''approved''}) (in_profiles db)
      in (find (\<lambda>r. pq_status r = ''draft'') rows, find (\<lambda>r. pq_status r = ''approved'') rows))"

definition require_manual_run_ready ::
  "input_db \<Rightarrow> uuid \<Rightarrow> uuid \<Rightarrow> bool option \<Rightarrow> bool option \<Rightarrow> unit res" where
  "require_manual_run_ready db workspace_id product_id operator_enabled manual_enabled =
     (let approved = snd (get_product_profile_state db workspace_id product_id) in
      if (case approved of None \<Rightarrow> True | Some r \<Rightarrow> pq_version r = None)
      then Inl (AppError ''approved_product_profile_required''
             ''An approved product profile is required before running the operator.'')
      else if operator_enabled = Some False \<or> manual_enabled = Some False
      then Inl (AppError ''manual_runs_disabled'' ''Manual operator runs are disabled.'')
      else Inr ())"

definition request_fingerprint :: "engine_env \<Rightarrow> string \<Rightarrow> string" where
  "request_fingerprint env trigger = sha256 env (json_dumps (PDict [(''trigger'', PStr trigger)]))"

definition run_column :: "string \<Rightarrow> operator_run \<Rightarrow> string option" where
  "run_column c r =
     (if c = ''workspace_id'' then Some (run_workspace_id r)
      else if c = ''product_id'' then run_product_id r
      else if c = ''idempotency_key'' then Some (run_idempotency_key r)
      else None)"

definition run_ok :: "operator_run \<Rightarrow> bool" where
  "run_ok r \<longleftrightarrow> run_trigger r \<in> {''manual'', ''scheduled'', ''significant_event''} \<and> run_idempotency_key r \<noteq> []
     \<and> (run_lease_owner r = None \<longleftrightarrow> run_lease_expires_at r = None)"

definition insert_run ::
  "string \<Rightarrow> operator_run \<Rightarrow> operator_run list \<Rightarrow> ((operator_run \<times> bool) \<times> operator_run list) res" where
  "insert_run dialect =
     insert_or_replay dialect run_column [''workspace_id'', ''product_id'', ''idempotency_key''] run_ok run_id"

definition detection_run ::
  "uuid \<Rightarrow> uuid \<Rightarrow> uuid \<Rightarrow> string \<Rightarrow> string \<Rightarrow> string \<Rightarrow> pyval \<Rightarrow> uuid \<Rightarrow> operator_run" where
  "detection_run rid workspace_id product_id trigger key fingerprint provenance actor_id =
     \<lparr>run_id = rid, run_workspace_id = workspace_id, run_product_id = Some product_id,
      run_run_kind = RK_opportunity_detection, run_trigger = trigger, run_status = RS_pending,
      run_idempotency_key = key, run_request_fingerprint = Some fingerprint, run_input_fingerprint = None,
      run_input_schema_version = Some ''1'', run_detector_suite_version = Some ''v1'',
      run_quality_policy_version = Some ''v1'', run_scoring_policy_version = Some ''v1'',
      run_cooldown_policy_version = Some ''v1'', run_as_of = None, run_lease_owner = None,
      run_lease_expires_at = None, run_failure_category = None, run_logical_period_start = None,
      run_logical_period_end = None, run_workflow_version = None, run_current_stage = None,
      run_stage_summary = None, run_finalized_at = None, run_stopped_reason = None,
      run_analyzer_version = ''opportunity-detection-v1'', run_provenance = provenance,
      run_summary = PDict [], run_completed_at = None, run_created_by_actor_id = actor_id\<rparr>"

definition active_detection_run :: "run_db \<Rightarrow> uuid \<Rightarrow> uuid \<Rightarrow> operator_run option" where
  "active_detection_run db workspace_id product_id =
     find (\<lambda>r. run_workspace_id r = workspace_id \<and> run_product_id r = Some product_id
       \<and> run_run_kind r = RK_opportunity_detection \<and> run_status r \<in> {RS_pending, RS_running}) (rd_runs db)"

definition keyed_run :: "run_db \<Rightarrow> uuid \<Rightarrow> uuid \<Rightarrow> string \<Rightarrow> operator_run option" where
  "keyed_run db workspace_id product_id key =
     find (\<lambda>r. run_workspace_id r = workspace_id \<and> run_product_id r = Some product_id
       \<and> run_idempotency_key r = key) (rd_runs db)"

definition enqueue_run_requested ::
  "workflow_env \<Rightarrow> instant \<Rightarrow> uuid \<Rightarrow> uuid \<Rightarrow> uuid \<Rightarrow> uuid \<Rightarrow> outbox \<Rightarrow> outbox res" where
  "enqueue_run_requested env now new_id rid workspace_id product_id table =
     (let metadata = pointer_metadata ''runId'' rid workspace_id product_id in
      if \<not> is_ok (validate_metadata metadata) then Inl (ValidationError ''metadata'')
      else res_bind (enqueue_outbox_event (wf_dialect env)
             (new_event new_id now ''operator/opportunities.detect.requested'' 1 rid metadata None
                (Some rid) (Some workspace_id) (Some product_id) None) table) (\<lambda>(_, table'). Inr table'))"

definition request_operator_run ::
  "workflow_env \<Rightarrow> instant \<Rightarrow> uuid \<Rightarrow> uuid \<Rightarrow> uuid \<Rightarrow> string \<Rightarrow> run_db \<Rightarrow> (operator_run \<times> run_db) res" where
  "request_operator_run env now workspace_id product_id actor_id idempotency_key db =
     (let key = py_strip idempotency_key; odb = rd_operator db; draw_id = sv_uuid (wf_store env);
          fingerprint = request_fingerprint (sv_engine (wf_store env)) ''manual'' in
      if key = [] \<or> 255 < length key
      then Inl (ValueError ''Idempotency-Key must contain between 1 and 255 characters.'')
      else res_bind (require_role (rd_memberships db) workspace_id actor_id write_roles) (\<lambda>_.
        if \<not> list_ex (\<lambda>x. pi_workspace_id x = workspace_id \<and> pi_id x = product_id) (in_products (rd_inputs db))
        then Inl (AppError ''ProductNotFoundError'' ''Product was not found.'')
        else res_bind (require_manual_run_ready (rd_inputs db) workspace_id product_id None None) (\<lambda>_.
        if keyed_run db workspace_id product_id key = None \<and> active_detection_run db workspace_id product_id \<noteq> None
        then Inl (AppError ''ActiveOperatorRunConflictError''
               ''Another opportunity detection run is already active for this product.'')
        else res_bind (insert_run (wf_dialect env)
               (detection_run (draw_id (od_drawn odb)) workspace_id product_id ''manual'' key fingerprint
                  (PDict []) actor_id) (od_runs odb)) (\<lambda>((value, _), runs).
        if run_request_fingerprint value \<noteq> Some fingerprint
        then Inl (AppError ''OperatorRunIdempotencyConflictError'' ''Idempotency key was already used with another body.'')
        else res_bind (enqueue_run_requested env now (draw_id (od_drawn odb + 1)) (run_id value) workspace_id
               product_id (rd_outbox db)) (\<lambda>table.
        let db' = db\<lparr>rd_operator := odb\<lparr>od_runs := runs, od_drawn := od_drawn odb + 2\<rparr>, rd_outbox := table\<rparr> in
        case find_run db' (run_id value) of
          None \<Rightarrow> Inl (RuntimeError ''Operator run was inserted but could not be loaded.'')
        | Some run \<Rightarrow> Inr (run, db'))))))"

text \<open>The detection run that a weekly run starts; it is not checked against active runs.\<close>

definition start_child_run :: "workflow_env \<Rightarrow> operator_run \<Rightarrow> uuid \<Rightarrow> uuid \<Rightarrow> run_db \<Rightarrow> (operator_run \<times> run_db) res" where
  "start_child_run env weekly workspace_id product_id db =
     (let odb = rd_operator db;
          child = detection_run (sv_uuid (wf_store env) (od_drawn odb)) workspace_id product_id (run_trigger weekly)
            (run_idempotency_key weekly @ '':detection'') ''weekly-child-v1''
            (PDict [(''weeklyRunId'', PStr (run_id weekly))]) (run_created_by_actor_id weekly)
      in if run_ok child \<and> keyed_run db workspace_id product_id (run_idempotency_key child) = None
            \<and> find_run db (run_id child) = None
         then Inr (child, db\<lparr>rd_operator := odb\<lparr>od_runs := od_runs odb @ [child], od_drawn := od_drawn odb + 1\<rparr>\<rparr>)
         else Inl (IntegrityError ''operator_runs''))"

end
