(* ===== verification/Feedback.thy ===== *)
theory Feedback
  imports Run_Workflow
begin

text \<open>
  Feedback on opportunities (\<open>services/opportunity_feedback_service.py\<close>): a user comments on an
  opportunity, dismisses it, or the system supersedes it. A dismissal starts a cooldown, stores the feedback
  and logs the change of status in one transaction. Feedback is inserted under the idempotency key of the
  request.

  A function is one transaction: it returns the database after the commit, and an error leaves the database
  as it was. \<open>clock i\<close> is the \<open>i\<close>-th reading of the clock. \<open>run_view\<close> is what the tables of the detection
  workflow show of the database. Foreign keys are not modelled.
\<close>

section \<open>Reasons and commands\<close>

datatype feedback_reason =
    FR_useful | FR_not_relevant | FR_already_done | FR_insufficient_evidence | FR_incorrect | FR_other
  | FR_wrong_priority | FR_wrong_target | FR_not_actionable | FR_poor_timing | FR_data_incorrect | FR_not_now
  | FR_incorrect_interpretation | FR_too_much_effort | FR_duplicate | FR_wrong_target_page

fun feedback_reason_value :: "feedback_reason \<Rightarrow> string" where
  "feedback_reason_value FR_useful = ''useful''"
| "feedback_reason_value FR_not_relevant = ''not_relevant''"
| "feedback_reason_value FR_already_done = ''already_done''"
| "feedback_reason_value FR_insufficient_evidence = ''insufficient_evidence''"
| "feedback_reason_value FR_incorrect = ''incorrect''"
| "feedback_reason_value FR_other = ''other''"
| "feedback_reason_value FR_wrong_priority = ''wrong_priority''"
| "feedback_reason_value FR_wrong_target = ''wrong_target''"
| "feedback_reason_value FR_not_actionable = ''not_actionable''"
| "feedback_reason_value FR_poor_timing = ''poor_timing''"
| "feedback_reason_value FR_data_incorrect = ''data_incorrect''"
| "feedback_reason_value FR_not_now = ''not_now''"
| "feedback_reason_value FR_incorrect_interpretation = ''incorrect_interpretation''"
| "feedback_reason_value FR_too_much_effort = ''too_much_effort''"
| "feedback_reason_value FR_duplicate = ''duplicate''"
| "feedback_reason_value FR_wrong_target_page = ''wrong_target_page''"

datatype dismissal_reason =
    DR_not_relevant | DR_already_done | DR_not_now | DR_insufficient_evidence | DR_incorrect_interpretation
  | DR_too_much_effort | DR_duplicate | DR_wrong_target_page | DR_other

fun dismissal_reason_value :: "dismissal_reason \<Rightarrow> string" where
  "dismissal_reason_value DR_not_relevant = ''not_relevant''"
| "dismissal_reason_value DR_already_done = ''already_done''"
| "dismissal_reason_value DR_not_now = ''not_now''"
| "dismissal_reason_value DR_insufficient_evidence = ''insufficient_evidence''"
| "dismissal_reason_value DR_incorrect_interpretation = ''incorrect_interpretation''"
| "dismissal_reason_value DR_too_much_effort = ''too_much_effort''"
| "dismissal_reason_value DR_duplicate = ''duplicate''"
| "dismissal_reason_value DR_wrong_target_page = ''wrong_target_page''"
| "dismissal_reason_value DR_other = ''other''"

definition dismissal_reasons :: "dismissal_reason list" where
  "dismissal_reasons = [DR_not_relevant, DR_already_done, DR_not_now, DR_insufficient_evidence,
     DR_incorrect_interpretation, DR_too_much_effort, DR_duplicate, DR_wrong_target_page, DR_other]"

text \<open>\<open>OpportunityFeedbackCommand\<close>; \<open>valid_feedback_command\<close> states the limits of its fields.\<close>

record feedback_command =
  fc_opportunity_id :: uuid
  fc_evaluation_id :: "uuid option"
  fc_reason_code :: feedback_reason
  fc_usefulness :: "int option"
  fc_comment :: "string option"
  fc_evaluation_eligible :: bool

definition valid_feedback_command :: "feedback_command \<Rightarrow> bool" where
  "valid_feedback_command c \<longleftrightarrow> (case fc_usefulness c of None \<Rightarrow> True | Some n \<Rightarrow> 1 \<le> n \<and> n \<le> 5)
     \<and> (case fc_comment c of None \<Rightarrow> True | Some s \<Rightarrow> length s \<le> 500)"

section \<open>Tables\<close>

record opportunity_feedback = feedback_row +
  fb_evaluation_id :: "uuid option"
  fb_actor_id :: uuid
  fb_idempotency_key :: string
  fb_request_fingerprint :: string
  fb_usefulness :: "int option"
  fb_comment :: "string option"
  fb_evaluation_eligible :: bool

record opportunity_status_event =
  ose_id :: uuid
  ose_workspace_id :: uuid
  ose_product_id :: uuid
  ose_opportunity_id :: uuid
  ose_actor_id :: uuid
  ose_previous_status :: string
  ose_new_status :: string
  ose_reason_code :: "string option"
  ose_feedback_id :: "uuid option"
  ose_created_at :: instant

record feedback_db =
  fd_runs :: run_db
  fd_feedback :: "opportunity_feedback list"
  fd_status_events :: "opportunity_status_event list"

definition run_view :: "feedback_db \<Rightarrow> run_db" where
  "run_view db = (fd_runs db)\<lparr>rd_inputs :=
     (rd_inputs (fd_runs db))\<lparr>in_feedback := map feedback_row.truncate (fd_feedback db)\<rparr>\<rparr>"

abbreviation fd_opportunities :: "feedback_db \<Rightarrow> opportunity_row list" where
  "fd_opportunities db \<equiv> od_opportunities (rd_operator (fd_runs db))"

definition draw_uuid :: "workflow_env \<Rightarrow> feedback_db \<Rightarrow> uuid \<times> feedback_db" where
  "draw_uuid env db =
     (let operator = rd_operator (fd_runs db) in
      (sv_uuid (wf_store env) (od_drawn operator),
       db\<lparr>fd_runs := (fd_runs db)\<lparr>rd_operator := operator\<lparr>od_drawn := od_drawn operator + 1\<rparr>\<rparr>\<rparr>))"

section \<open>Repositories\<close>

definition get_opportunity :: "feedback_db \<Rightarrow> uuid \<Rightarrow> uuid \<Rightarrow> uuid \<Rightarrow> opportunity_row option" where
  "get_opportunity db workspace_id product_id i =
     find (\<lambda>x. opp_workspace_id x = workspace_id \<and> opp_product_id x = Some product_id \<and> opp_id x = i)
       (fd_opportunities db)"

definition change_opportunity :: "uuid \<Rightarrow> (opportunity_row \<Rightarrow> opportunity_row) \<Rightarrow> feedback_db \<Rightarrow> feedback_db" where
  "change_opportunity i f db =
     (let operator = rd_operator (fd_runs db) in
      db\<lparr>fd_runs := (fd_runs db)\<lparr>rd_operator := operator\<lparr>od_opportunities :=
        map (\<lambda>x. if opp_id x = i then f x else x) (od_opportunities operator)\<rparr>\<rparr>\<rparr>)"

definition get_by_idempotency_key :: "feedback_db \<Rightarrow> uuid \<Rightarrow> uuid \<Rightarrow> string \<Rightarrow> opportunity_feedback option" where
  "get_by_idempotency_key db workspace_id product_id key =
     find (\<lambda>f. fb_workspace_id f = workspace_id \<and> fb_product_id f = product_id \<and> fb_idempotency_key f = key)
       (fd_feedback db)"

definition add_status_event :: "opportunity_status_event \<Rightarrow> feedback_db \<Rightarrow> feedback_db res" where
  "add_status_event event db =
     (if list_ex (\<lambda>e. ose_id e = ose_id event) (fd_status_events db) then Inl (IntegrityError ''primary key'')
      else Inr (db\<lparr>fd_status_events := fd_status_events db @ [event]\<rparr>))"

section \<open>The service\<close>

definition feedback_fingerprint :: "workflow_env \<Rightarrow> feedback_command \<Rightarrow> string \<Rightarrow> string" where
  "feedback_fingerprint env c action =
     sha256 (sv_engine (wf_store env)) (json_dumps (PDict
       [(''action'', PStr action),
        (''opportunity_id'', PStr (fc_opportunity_id c)),
        (''evaluation_id'', case fc_evaluation_id c of None \<Rightarrow> PNone | Some i \<Rightarrow> PStr i),
        (''reason_code'', PStr (feedback_reason_value (fc_reason_code c))),
        (''usefulness'', case fc_usefulness c of None \<Rightarrow> PNone | Some n \<Rightarrow> PInt n),
        (''comment'', case fc_comment c of None \<Rightarrow> PNone | Some s \<Rightarrow> PStr s),
        (''evaluation_eligible'', PBool (fc_evaluation_eligible c))]))"

definition feedback_conflict :: py_error where
  "feedback_conflict = AppError ''FeedbackIdempotencyConflictError''
     ''Idempotency key was already used with another body.''"

definition opportunity_not_found :: py_error where
  "opportunity_not_found = AppError ''OpportunityNotFoundError'' ''Opportunity was not found.''"

definition replay_feedback ::
  "feedback_db \<Rightarrow> uuid \<Rightarrow> uuid \<Rightarrow> string \<Rightarrow> string \<Rightarrow> opportunity_feedback option res" where
  "replay_feedback db workspace_id product_id key fingerprint =
     (case get_by_idempotency_key db workspace_id product_id key of
        None \<Rightarrow> Inr None
      | Some existing \<Rightarrow>
          if fb_request_fingerprint existing \<noteq> fingerprint then Inl feedback_conflict else Inr (Some existing))"

definition validated_evaluation_id ::
  "feedback_db \<Rightarrow> uuid \<Rightarrow> uuid \<Rightarrow> uuid \<Rightarrow> uuid option \<Rightarrow> uuid option res" where
  "validated_evaluation_id db workspace_id product_id opportunity_id evaluation_id =
     (case evaluation_id of
        None \<Rightarrow> Inr None
      | Some i \<Rightarrow>
          (case find (\<lambda>e. evr_workspace_id e = workspace_id \<and> evr_product_id e = product_id \<and> evr_id e = i
                \<and> evr_accepted_opportunity_id e = Some opportunity_id)
              (od_evaluations (rd_operator (fd_runs db))) of
             None \<Rightarrow> Inl (ValueError ''Evaluation does not belong to the opportunity.'')
           | Some e \<Rightarrow> Inr (Some (evr_id e))))"

definition feedback_column :: "string \<Rightarrow> opportunity_feedback \<Rightarrow> string option" where
  "feedback_column c f =
     (if c = ''workspace_id'' then Some (fb_workspace_id f)
      else if c = ''product_id'' then Some (fb_product_id f)
      else if c = ''idempotency_key'' then Some (fb_idempotency_key f)
      else None)"

definition feedback_ok :: "opportunity_feedback \<Rightarrow> bool" where
  "feedback_ok f \<longleftrightarrow> (case fb_usefulness f of None \<Rightarrow> True | Some n \<Rightarrow> 1 \<le> n \<and> n \<le> 5)"

definition insert_feedback_row :: "string \<Rightarrow> opportunity_feedback \<Rightarrow> opportunity_feedback list
     \<Rightarrow> ((opportunity_feedback \<times> bool) \<times> opportunity_feedback list) res" where
  "insert_feedback_row dialect =
     insert_or_replay dialect feedback_column [''workspace_id'', ''product_id'', ''idempotency_key''] feedback_ok fb_id"

definition insert_feedback ::
  "workflow_env \<Rightarrow> instant \<Rightarrow> uuid \<Rightarrow> uuid \<Rightarrow> uuid \<Rightarrow> uuid option \<Rightarrow> uuid \<Rightarrow> string \<Rightarrow> string \<Rightarrow> feedback_command
     \<Rightarrow> feedback_db \<Rightarrow> ((opportunity_feedback \<times> bool) \<times> feedback_db) res" where
  "insert_feedback env now workspace_id product_id opportunity_id evaluation_id actor_id key fingerprint c db0 =
     (let (new_id, db) = draw_uuid env db0 in
      res_bind (insert_feedback_row (wf_dialect env)
          \<lparr>fb_id = new_id, fb_workspace_id = workspace_id, fb_product_id = product_id,
           fb_opportunity_id = opportunity_id, fb_reason_code = feedback_reason_value (fc_reason_code c),
           fb_created_at = now, fb_evaluation_id = evaluation_id, fb_actor_id = actor_id,
           fb_idempotency_key = key, fb_request_fingerprint = fingerprint, fb_usefulness = fc_usefulness c,
           fb_comment = fc_comment c, fb_evaluation_eligible = fc_evaluation_eligible c\<rparr>
          (fd_feedback db)) (\<lambda>((row, inserted), rows).
      if fb_request_fingerprint row \<noteq> fingerprint then Inl feedback_conflict
      else Inr ((row, inserted), db\<lparr>fd_feedback := rows\<rparr>)))"

definition check_feedback_key :: "string \<Rightarrow> unit res" where
  "check_feedback_key key =
     (if py_strip key = [] \<or> 255 < length key
      then Inl (ValueError ''Idempotency-Key must contain between 1 and 255 characters.'') else Inr ())"

definition append_feedback ::
  "workflow_env \<Rightarrow> (nat \<Rightarrow> instant) \<Rightarrow> uuid \<Rightarrow> uuid \<Rightarrow> uuid \<Rightarrow> string \<Rightarrow> feedback_command \<Rightarrow> feedback_db
     \<Rightarrow> (opportunity_feedback \<times> feedback_db) res" where
  "append_feedback env clock workspace_id product_id actor_id key c db =
     res_bind (check_feedback_key key) (\<lambda>_.
     let fingerprint = feedback_fingerprint env c ''feedback'' in
     res_bind (replay_feedback db workspace_id product_id key fingerprint) (\<lambda>existing.
     case existing of
       Some feedback \<Rightarrow> Inr (feedback, db)
     | None \<Rightarrow>
         (case get_opportunity db workspace_id product_id (fc_opportunity_id c) of
            None \<Rightarrow> Inl opportunity_not_found
          | Some opportunity \<Rightarrow>
              res_bind (validated_evaluation_id db workspace_id product_id (opp_id opportunity)
                  (fc_evaluation_id c)) (\<lambda>evaluation_id.
              res_bind (insert_feedback env (clock 0) workspace_id product_id (opp_id opportunity) evaluation_id
                  actor_id key fingerprint c db) (\<lambda>((feedback, _), db').
              Inr (feedback, db'))))))"

definition dismissal_length :: "string \<Rightarrow> timedelta res" where
  "dismissal_length reason =
     (case map_of dismissal_table reason of None \<Rightarrow> Inl (KeyError reason) | Some n \<Rightarrow> Inr (Times.days n))"

text \<open>The change of status that a dismissal and its event make, after all checks.\<close>

definition dismiss_transaction ::
  "workflow_env \<Rightarrow> (nat \<Rightarrow> instant) \<Rightarrow> uuid \<Rightarrow> uuid \<Rightarrow> uuid \<Rightarrow> string \<Rightarrow> feedback_command \<Rightarrow> opportunity_row
     \<Rightarrow> uuid option \<Rightarrow> feedback_db \<Rightarrow> (opportunity_feedback \<times> feedback_db) res" where
  "dismiss_transaction env clock workspace_id product_id actor_id key c opportunity evaluation_id db =
     (let reason = feedback_reason_value (fc_reason_code c) in
      res_bind (dismissal_length reason) (\<lambda>cooldown.
      let db1 = change_opportunity (opp_id opportunity) (\<lambda>x. x\<lparr>opp_status := OS_dismissed,
            opp_cooldown_until := Aware (clock 0 + cooldown)\<rparr>) db in
      res_bind (insert_feedback env (clock 1) workspace_id product_id (opp_id opportunity) evaluation_id actor_id
          key (feedback_fingerprint env c ''dismiss'') c db1) (\<lambda>((feedback, inserted), db2).
      if inserted then
        let (event_id, db3) = draw_uuid env db2 in
        res_bind (add_status_event
            \<lparr>ose_id = event_id, ose_workspace_id = workspace_id, ose_product_id = product_id,
             ose_opportunity_id = opp_id opportunity, ose_actor_id = actor_id, ose_previous_status = ''open'',
             ose_new_status = ''dismissed'', ose_reason_code = Some reason, ose_feedback_id = Some (fb_id feedback),
             ose_created_at = clock 2\<rparr> db3) (\<lambda>db4. Inr (feedback, db4))
      else Inr (feedback, db2))))"

definition dismiss_opportunity ::
  "workflow_env \<Rightarrow> (nat \<Rightarrow> instant) \<Rightarrow> uuid \<Rightarrow> uuid \<Rightarrow> uuid \<Rightarrow> string \<Rightarrow> feedback_command \<Rightarrow> feedback_db
     \<Rightarrow> (opportunity_feedback \<times> feedback_db) res" where
  "dismiss_opportunity env clock workspace_id product_id actor_id key c db =
     res_bind (check_feedback_key key) (\<lambda>_.
     case get_opportunity db workspace_id product_id (fc_opportunity_id c) of
       None \<Rightarrow> Inl opportunity_not_found
     | Some opportunity \<Rightarrow>
         res_bind (replay_feedback db workspace_id product_id key (feedback_fingerprint env c ''dismiss''))
           (\<lambda>existing.
         case existing of
           Some feedback \<Rightarrow> Inr (feedback, db)
         | None \<Rightarrow>
             res_bind (require_transition (opportunity_status_value (opp_status opportunity)) ''dismissed'' False)
               (\<lambda>_.
             if \<not> is_ok (parse_enum dismissal_reason_value dismissal_reasons
                  (feedback_reason_value (fc_reason_code c)))
             then Inl (ValueError ''Reason is not valid for dismissal.'')
             else res_bind (validated_evaluation_id db workspace_id product_id (opp_id opportunity)
                      (fc_evaluation_id c)) (\<lambda>evaluation_id.
               dismiss_transaction env clock workspace_id product_id actor_id key c opportunity evaluation_id db))))"

definition supersede_opportunity ::
  "workflow_env \<Rightarrow> instant \<Rightarrow> uuid \<Rightarrow> uuid \<Rightarrow> uuid \<Rightarrow> uuid \<Rightarrow> feedback_db \<Rightarrow> feedback_db res" where
  "supersede_opportunity env now workspace_id product_id opportunity_id actor_id db =
     (case get_opportunity db workspace_id product_id opportunity_id of
        None \<Rightarrow> Inl opportunity_not_found
      | Some opportunity \<Rightarrow>
          let previous = opportunity_status_value (opp_status opportunity) in
          res_bind (require_transition previous ''superseded'' True) (\<lambda>_.
          let db1 = change_opportunity (opp_id opportunity) (\<lambda>x. x\<lparr>opp_status := OS_superseded\<rparr>) db;
              (event_id, db2) = draw_uuid env db1
          in add_status_event
               \<lparr>ose_id = event_id, ose_workspace_id = workspace_id, ose_product_id = product_id,
                ose_opportunity_id = opp_id opportunity, ose_actor_id = actor_id, ose_previous_status = previous,
                ose_new_status = ''superseded'', ose_reason_code = None, ose_feedback_id = None,
                ose_created_at = now\<rparr> db2))"

section \<open>The endpoints\<close>

definition dismiss_roles :: "string list" where
  "dismiss_roles = [''owner'', ''admin'', ''editor'', ''reviewer'']"

definition visible_opportunity :: "feedback_db \<Rightarrow> uuid \<Rightarrow> uuid \<Rightarrow> uuid \<Rightarrow> uuid \<Rightarrow> opportunity_row res" where
  "visible_opportunity db workspace_id product_id opportunity_id user_id =
     (case get_active_membership_role (rd_memberships (fd_runs db)) workspace_id user_id of
        None \<Rightarrow> Inl (NotFoundError ''opportunity_not_found'')
      | Some _ \<Rightarrow>
          (case get_opportunity db workspace_id product_id opportunity_id of
             None \<Rightarrow> Inl (NotFoundError ''opportunity_not_found'')
           | Some opportunity \<Rightarrow> Inr opportunity))"

record feedback_payload =
  py_reason :: feedback_reason
  py_usefulness :: "int option"
  py_comment :: "string option"
  py_evaluation_eligible :: bool

definition latest_evaluation_id :: "feedback_db \<Rightarrow> uuid \<Rightarrow> uuid \<Rightarrow> uuid \<Rightarrow> uuid option" where
  "latest_evaluation_id db workspace_id product_id opportunity_id =
     map_option evr_id (latest_by (\<lambda>e. (rd_created (fd_runs db) (evr_id e), evr_id e))
       (filter (\<lambda>e. evr_workspace_id e = workspace_id \<and> evr_product_id e = product_id
            \<and> evr_accepted_opportunity_id e = Some opportunity_id)
          (od_evaluations (rd_operator (fd_runs db)))))"

definition feedback_http_error :: "py_error \<Rightarrow> py_error" where
  "feedback_http_error e =
     (case e of
        AppError name message \<Rightarrow>
          if name = ''FeedbackIdempotencyConflictError'' then AppError ''feedback_idempotency_conflict'' message
          else if name = ''InvalidOpportunityTransitionError''
          then AppError ''invalid_opportunity_transition'' message
          else if name = ''OpportunityNotFoundError'' then NotFoundError ''opportunity_not_found''
          else e
      | ValueError message \<Rightarrow> AppError ''invalid_idempotency_key'' message
      | _ \<Rightarrow> e)"

definition feedback_endpoint ::
  "workflow_env \<Rightarrow> (nat \<Rightarrow> instant) \<Rightarrow> bool \<Rightarrow> uuid \<Rightarrow> uuid \<Rightarrow> uuid \<Rightarrow> feedback_payload \<Rightarrow> uuid \<Rightarrow> string \<Rightarrow> feedback_db
     \<Rightarrow> (opportunity_feedback \<times> feedback_db) res" where
  "feedback_endpoint env clock dismiss workspace_id product_id opportunity_id payload user_id key db =
     res_bind (visible_opportunity db workspace_id product_id opportunity_id user_id) (\<lambda>_.
     res_bind (if dismiss then require_role (rd_memberships (fd_runs db)) workspace_id user_id dismiss_roles
               else Inr ()) (\<lambda>_.
     let c = \<lparr>fc_opportunity_id = opportunity_id,
              fc_evaluation_id = latest_evaluation_id db workspace_id product_id opportunity_id,
              fc_reason_code = py_reason payload, fc_usefulness = py_usefulness payload,
              fc_comment = py_comment payload, fc_evaluation_eligible = py_evaluation_eligible payload\<rparr>
     in case (if dismiss then dismiss_opportunity else append_feedback)
            env clock workspace_id product_id user_id key c db of
          Inl e \<Rightarrow> Inl (feedback_http_error e)
        | Inr x \<Rightarrow> Inr x))"

text \<open>The list of a product's opportunities, best first; every filter is optional. A descending order of PostgreSQL
  puts null first, and a comparison with null does not hold.\<close>

definition list_opportunities ::
  "feedback_db \<Rightarrow> uuid \<Rightarrow> uuid \<Rightarrow> uuid \<Rightarrow> string option \<Rightarrow> string option \<Rightarrow> string option \<Rightarrow> rat option \<Rightarrow> nat \<Rightarrow> nat
     \<Rightarrow> opportunity_row list res" where
  "list_opportunities db workspace_id product_id user_id status kind detector min_priority limit offset =
     (case get_active_membership_role (rd_memberships (fd_runs db)) workspace_id user_id of
        None \<Rightarrow> Inl (ForbiddenError ''workspace_access_denied'')
      | Some _ \<Rightarrow> Inr (take limit (drop offset
          (sort_key (\<lambda>x. (opp_priority_score x \<noteq> None, - (case opp_priority_score x of None \<Rightarrow> 0 | Some s \<Rightarrow> s), - rd_created (fd_runs db) (opp_id x), opp_id x))
            (filter (\<lambda>x. opp_workspace_id x = workspace_id \<and> opp_product_id x = Some product_id
                \<and> (case status of None \<Rightarrow> True | Some s \<Rightarrow> opportunity_status_value (opp_status x) = s)
                \<and> (case kind of None \<Rightarrow> True | Some k \<Rightarrow> opp_opportunity_type x = Some k)
                \<and> (case detector of None \<Rightarrow> True | Some d \<Rightarrow> opp_detector_id x = Some d)
                \<and> (case min_priority of None \<Rightarrow> True | Some m \<Rightarrow> (\<exists>s. opp_priority_score x = Some s \<and> m \<le> s)))
              (fd_opportunities db))))))"

definition get_evidence ::
  "feedback_db \<Rightarrow> uuid \<Rightarrow> uuid \<Rightarrow> uuid \<Rightarrow> uuid \<Rightarrow> evidence_row list res" where
  "get_evidence db workspace_id product_id opportunity_id user_id =
     res_bind (visible_opportunity db workspace_id product_id opportunity_id user_id) (\<lambda>_.
     Inr (sort_key (\<lambda>v. (case ev_observed_at (evd_evidence v) of Aware t \<Rightarrow> - t | Naive t \<Rightarrow> - t, evd_id v))
       (filter (\<lambda>v. evd_workspace_id v = workspace_id \<and> evd_product_id v = product_id
           \<and> evd_opportunity_id v = Some opportunity_id) (od_evidence (rd_operator (fd_runs db))))))"

definition get_evidence_detail ::
  "feedback_db \<Rightarrow> uuid \<Rightarrow> uuid \<Rightarrow> uuid \<Rightarrow> uuid \<Rightarrow> uuid \<Rightarrow> evidence_row res" where
  "get_evidence_detail db workspace_id product_id opportunity_id evidence_id user_id =
     res_bind (visible_opportunity db workspace_id product_id opportunity_id user_id) (\<lambda>_.
     case find (\<lambda>v. evd_workspace_id v = workspace_id \<and> evd_product_id v = product_id
         \<and> evd_opportunity_id v = Some opportunity_id \<and> evd_id v = evidence_id)
         (od_evidence (rd_operator (fd_runs db))) of
       None \<Rightarrow> Inl (NotFoundError ''opportunity_evidence_not_found'')
     | Some v \<Rightarrow> Inr v)"

end
