(* ===== verification/Feedback_Facts.thy ===== *)
theory Feedback_Facts
  imports Feedback Operator_Store_Facts "HOL-Library.Sublist"
begin

text \<open>
  What feedback guarantees. A command takes effect once per idempotency key; the log of status events
  explains the status of every opportunity, and a dismissal in the log names the feedback that caused it; a
  dismissed finding is not accepted by detection again before its cooldown ends.
\<close>

section \<open>Results of the operations\<close>

lemma require_dismissed [simp]: "require_transition s ''dismissed'' False = Inr u \<longleftrightarrow> s = ''open''"
  by (simp add: require_transition_def)

lemma require_superseded [simp]:
  "require_transition s ''superseded'' True = Inr u \<longleftrightarrow> s = ''open'' \<or> s = ''planned''"
  by (simp add: require_transition_def)

lemma status_value_eq [simp]: "opportunity_status_value s = opportunity_status_value s' \<longleftrightarrow> s = s'"
  by (cases s; cases s') simp_all

lemma status_value_open [simp]: "opportunity_status_value s = ''open'' \<longleftrightarrow> s = OS_open"
  using status_value_eq [of s OS_open] by simp

interpretation feedback_insert: idempotent_insert
    "\<lambda>f. (fb_workspace_id f, fb_product_id f, fb_idempotency_key f)" "insert_feedback_row dialect" for dialect
  unfolding insert_feedback_row_def by (rule insert_or_replay_contract) (auto simp: matches_def feedback_column_def)

lemma draw_uuid_tables [simp]:
  "fd_opportunities (snd (draw_uuid env db)) = fd_opportunities db"
  "fd_feedback (snd (draw_uuid env db)) = fd_feedback db"
  "fd_status_events (snd (draw_uuid env db)) = fd_status_events db"
  by (simp_all add: draw_uuid_def Let_def)

lemma change_opportunity_tables [simp]:
  "fd_opportunities (change_opportunity i g db) = map (\<lambda>x. if opp_id x = i then g x else x) (fd_opportunities db)"
  "fd_feedback (change_opportunity i g db) = fd_feedback db"
  "fd_status_events (change_opportunity i g db) = fd_status_events db"
  by (simp_all add: change_opportunity_def Let_def)

lemma get_opportunity_Some:
  "get_opportunity db w p i = Some x \<Longrightarrow> x \<in> set (fd_opportunities db) \<and> opp_id x = i
     \<and> opp_workspace_id x = w \<and> opp_product_id x = Some p"
  by (auto simp: get_opportunity_def find_Some_iff)

definition feedback_of :: "uuid \<Rightarrow> uuid \<Rightarrow> uuid \<Rightarrow> string \<Rightarrow> string \<Rightarrow> feedback_command \<Rightarrow> opportunity_feedback \<Rightarrow> bool" where
  "feedback_of w p i key fingerprint c f \<longleftrightarrow> fb_workspace_id f = w \<and> fb_product_id f = p \<and> fb_opportunity_id f = i
     \<and> fb_idempotency_key f = key \<and> fb_request_fingerprint f = fingerprint
     \<and> fb_reason_code f = feedback_reason_value (fc_reason_code c) \<and> fb_usefulness f = fc_usefulness c
     \<and> fb_comment f = fc_comment c"

lemma insert_feedback_fresh:
  assumes "insert_feedback env now w p i eid a key fingerprint c db = Inr ((f, b), db')"
    and "get_by_idempotency_key db w p key = None"
  shows "b \<and> feedback_of w p i key fingerprint c f
    \<and> db' = (snd (draw_uuid env db))\<lparr>fd_feedback := fd_feedback db @ [f]\<rparr>"
proof -
  define row where "row = \<lparr>fb_id = fst (draw_uuid env db), fb_workspace_id = w, fb_product_id = p,
           fb_opportunity_id = i, fb_reason_code = feedback_reason_value (fc_reason_code c),
           fb_created_at = now, fb_evaluation_id = eid, fb_actor_id = a,
           fb_idempotency_key = key, fb_request_fingerprint = fingerprint, fb_usefulness = fc_usefulness c,
           fb_comment = fc_comment c, fb_evaluation_eligible = fc_evaluation_eligible c\<rparr>"
  from assms(1) obtain rows where ins: "insert_feedback_row (wf_dialect env) row (fd_feedback db) = Inr ((f, b), rows)"
    and db': "db' = (snd (draw_uuid env db))\<lparr>fd_feedback := rows\<rparr>"
    unfolding insert_feedback_def row_def Let_def
    by (auto simp: res_bind_eq_Inr case_prod_unfold split: if_splits)
  have b
  proof (rule ccontr)
    assume "\<not> b"
    with ins have "f \<in> set (fd_feedback db)" "fb_workspace_id f = w" "fb_product_id f = p" "fb_idempotency_key f = key"
      using feedback_insert.replay [of "wf_dialect env" row "fd_feedback db" f rows] by (auto simp: row_def)
    with assms(2) show False by (auto simp: get_by_idempotency_key_def find_None_iff)
  qed
  with ins have "f = row" "rows = fd_feedback db @ [f]"
    using feedback_insert.fresh [of "wf_dialect env" row "fd_feedback db" f rows] by auto
  with \<open>b\<close> show ?thesis by (simp add: feedback_of_def row_def db')
qed

lemma replay_feedback_cases:
  "replay_feedback db w p key fingerprint = Inr existing \<longleftrightarrow> existing = get_by_idempotency_key db w p key
     \<and> (\<forall>g. existing = Some g \<longrightarrow> fb_request_fingerprint g = fingerprint)"
  by (auto simp: replay_feedback_def split: option.splits)

lemma append_fresh:
  assumes "append_feedback env clock w p a key c db = Inr (f, db')" "get_by_idempotency_key db w p key = None"
  shows "feedback_of w p (fc_opportunity_id c) key (feedback_fingerprint env c ''feedback'') c f
    \<and> db' = (snd (draw_uuid env db))\<lparr>fd_feedback := fd_feedback db @ [f]\<rparr>
    \<and> (\<exists>x. get_opportunity db w p (fc_opportunity_id c) = Some x)"
proof -
  from assms obtain x eid b where "get_opportunity db w p (fc_opportunity_id c) = Some x"
    "insert_feedback env (clock 0) w p (opp_id x) eid a key (feedback_fingerprint env c ''feedback'') c db = Inr ((f, b), db')"
    unfolding append_feedback_def Let_def
    by (auto simp: res_bind_eq_Inr replay_feedback_cases split: option.splits)
  with insert_feedback_fresh [OF this(2) assms(2)] get_opportunity_Some [OF this(1)] show ?thesis by simp
qed

definition dismissed_row :: "instant \<Rightarrow> string \<Rightarrow> opportunity_row \<Rightarrow> opportunity_row" where
  "dismissed_row now reason x = x\<lparr>opp_status := OS_dismissed,
     opp_cooldown_until := Aware (now + Times.days (dismissal_days (Some reason)))\<rparr>"

definition logs_dismissal :: "opportunity_feedback \<Rightarrow> opportunity_status_event \<Rightarrow> bool" where
  "logs_dismissal f e \<longleftrightarrow> ose_feedback_id e = Some (fb_id f) \<and> ose_opportunity_id e = fb_opportunity_id f
     \<and> ose_reason_code e = Some (fb_reason_code f) \<and> ose_workspace_id e = fb_workspace_id f"

lemma dismissal_length_days:
  "dismissal_length reason = Inr d \<Longrightarrow> d = Times.days (dismissal_days (Some reason))"
  by (auto simp: dismissal_length_def dismissal_days_def text_or_def dismissal_table_def split: option.splits if_splits)

lemma dismiss_fresh:
  assumes "dismiss_opportunity env clock w p a key c db = Inr (f, db')" "get_by_idempotency_key db w p key = None"
  obtains x e where "get_opportunity db w p (fc_opportunity_id c) = Some x" "opp_status x = OS_open"
    "feedback_of w p (opp_id x) key (feedback_fingerprint env c ''dismiss'') c f"
    "fd_opportunities db' = map (\<lambda>y. if opp_id y = opp_id x then dismissed_row (clock 0) (fb_reason_code f) y else y)
        (fd_opportunities db)"
    "fd_feedback db' = fd_feedback db @ [f]" "fd_status_events db' = fd_status_events db @ [e]"
    "logs_dismissal f e" "ose_previous_status e = ''open''" "ose_new_status e = ''dismissed''"
proof -
  from assms obtain x eid where x: "get_opportunity db w p (fc_opportunity_id c) = Some x" "opp_status x = OS_open"
    and tx: "dismiss_transaction env clock w p a key c x eid db = Inr (f, db')"
    unfolding dismiss_opportunity_def
    by (auto simp: res_bind_eq_Inr replay_feedback_cases split: option.splits if_splits)
  let ?reason = "feedback_reason_value (fc_reason_code c)"
  let ?db1 = "\<lambda>d. change_opportunity (opp_id x) (\<lambda>y. y\<lparr>opp_status := OS_dismissed,
            opp_cooldown_until := Aware (clock 0 + d)\<rparr>) db"
  from tx obtain d b db2 where d: "dismissal_length ?reason = Inr d"
    and ins: "insert_feedback env (clock 1) w p (opp_id x) eid a key (feedback_fingerprint env c ''dismiss'') c (?db1 d)
        = Inr ((f, b), db2)"
    and rest: "(if b then
        let (event_id, db3) = draw_uuid env db2 in
        res_bind (add_status_event
            \<lparr>ose_id = event_id, ose_workspace_id = w, ose_product_id = p,
             ose_opportunity_id = opp_id x, ose_actor_id = a, ose_previous_status = ''open'',
             ose_new_status = ''dismissed'', ose_reason_code = Some ?reason, ose_feedback_id = Some (fb_id f),
             ose_created_at = clock 2\<rparr> db3) (\<lambda>db4. Inr (f, db4))
      else Inr (f, db2)) = Inr (f, db')"
    unfolding dismiss_transaction_def Let_def
    by (auto simp: res_bind_eq_Inr split: if_splits prod.splits)
  have "get_by_idempotency_key (?db1 d) w p key = None" using assms(2) by (simp add: get_by_idempotency_key_def)
  from insert_feedback_fresh [OF ins this] have f: "b" "feedback_of w p (opp_id x) key (feedback_fingerprint env c ''dismiss'') c f"
    and db2: "db2 = (snd (draw_uuid env (?db1 d)))\<lparr>fd_feedback := fd_feedback db @ [f]\<rparr>" by simp_all
  from rest f(1) obtain e where "db' = (snd (draw_uuid env db2))\<lparr>fd_status_events := fd_status_events db @ [e]\<rparr>"
    "logs_dismissal f e" "ose_previous_status e = ''open''" "ose_new_status e = ''dismissed''"
    using f(2)
    by (auto simp: res_bind_eq_Inr add_status_event_def case_prod_unfold Let_def logs_dismissal_def feedback_of_def db2
        split: if_splits)
  moreover have "fb_reason_code f = ?reason" using f(2) by (simp add: feedback_of_def)
  ultimately show thesis
    using x f(2) dismissal_length_days [OF d]
    by (intro that [of x e]) (simp_all add: db2 dismissed_row_def cong: if_cong)
qed

lemma supersede_result:
  assumes "supersede_opportunity env now w p i a db = Inr db'"
  obtains x e where "get_opportunity db w p i = Some x" "opp_status x \<in> {OS_open, OS_planned}"
    "fd_opportunities db' = map (\<lambda>y. if opp_id y = opp_id x then y\<lparr>opp_status := OS_superseded\<rparr> else y)
        (fd_opportunities db)"
    "fd_feedback db' = fd_feedback db" "fd_status_events db' = fd_status_events db @ [e]"
    "ose_opportunity_id e = opp_id x" "ose_previous_status e = opportunity_status_value (opp_status x)"
    "ose_new_status e = ''superseded''"
proof -
  have planned: "opportunity_status_value s = ''planned'' \<longleftrightarrow> s = OS_planned" for s by (cases s) simp_all
  from assms show thesis
    unfolding supersede_opportunity_def
    by (auto simp: Let_def res_bind_eq_Inr case_prod_unfold add_status_event_def planned
        split: option.splits if_splits intro!: that)
qed

section \<open>Steps\<close>

text \<open>A database changes by feedback, by a detection that is stored, and by changes to the other tables. The
  primary key of opportunities holds after every commit.\<close>

inductive feedback_step :: "workflow_env \<Rightarrow> feedback_db \<Rightarrow> feedback_db \<Rightarrow> bool" for env where
  step_append: "append_feedback env clock w p a key c db = Inr (f, db') \<Longrightarrow> feedback_step env db db'"
| step_dismiss: "dismiss_opportunity env clock w p a key c db = Inr (f, db') \<Longrightarrow> feedback_step env db db'"
| step_supersede: "supersede_opportunity env now w p i a db = Inr db' \<Longrightarrow> feedback_step env db db'"
| step_detect: "store_detection env who now rid w p asm (run_view db) = Inr (rows, rdb) \<Longrightarrow>
    distinct (map opp_id (od_opportunities (rd_operator rdb))) \<Longrightarrow> feedback_step env db (db\<lparr>fd_runs := rdb\<rparr>)"
| step_rest: "feedback_step env db (db\<lparr>fd_runs := (fd_runs db)\<lparr>
    rd_operator := (rd_operator (fd_runs db))\<lparr>od_runs := runs, od_drawn := n\<rparr>, rd_snapshots := snapshots,
    rd_inputs := facts, rd_memberships := members, rd_outbox := table\<rparr>\<rparr>)"

lemma store_detection_opportunities:
  assumes "store_detection env who now rid w p asm db = Inr (rows, db')"
  shows "\<exists>opps. od_opportunities (rd_operator db') = od_opportunities (rd_operator db) @ opps
    \<and> list_all (\<lambda>x. opp_status x = OS_open) opps"
proof (cases "list_for_run (rd_operator db) w p rid = []")
  case False
  then have "db' = db" using assms by (auto simp: store_detection_def Let_def res_bind_eq_Inr)
  then show ?thesis by (intro exI [of _ "[]"]) simp
next
  case True
  let ?odb = "(rd_operator db)\<lparr>od_drawn := od_drawn (rd_operator db) + 1\<rparr>"
  from assms True obtain asm' odb' snapshots where
    tx: "detection_transaction (wf_store env) now w p rid asm' (Some who) ?odb = Inr (rows, odb')"
    and db': "db' = db\<lparr>rd_operator := odb', rd_snapshots := snapshots\<rparr>"
    unfolding store_detection_def Let_def by (auto simp: res_bind_eq_Inr)
  have "list_for_run ?odb w p rid = []" using True by (simp add: list_for_run_def)
  then obtain run raw persisted odb1 where all: "persist_all (wf_store env) w p run asm' 0 raw ?odb = Inr (persisted, odb1)"
    and odb': "od_opportunities odb' = od_opportunities odb1"
    by (rule transaction_fresh [OF tx]) (auto simp: update_run_def)
  from persist_all_result [OF all] obtain opps evs where "adds ?odb odb1 opps persisted evs"
    "list_all2 stored_opportunity (filter acc raw) opps" by blast
  then show ?thesis
    by (intro exI [of _ opps]) (auto simp: db' odb' adds_def list_all_iff stored_opportunity_def
        split: option.splits dest!: list_all2_right)
qed

definition opp_key :: "opportunity_row \<Rightarrow> uuid \<times> uuid option \<times> uuid" where
  "opp_key x = (opp_workspace_id x, opp_product_id x, opp_id x)"

text \<open>Whatever a step is, it adds open opportunities, or it moves one opportunity along a legal transition and
  logs that.\<close>

definition grows :: "feedback_db \<Rightarrow> feedback_db \<Rightarrow> bool" where
  "grows db db' \<longleftrightarrow> (\<exists>opps. fd_opportunities db' = fd_opportunities db @ opps \<and> list_all (\<lambda>x. opp_status x = OS_open) opps)
     \<and> (distinct (map opp_id (fd_opportunities db)) \<longrightarrow> distinct (map opp_id (fd_opportunities db')))
     \<and> fd_status_events db' = fd_status_events db"

definition moves :: "opportunity_row \<Rightarrow> opportunity_status_event \<Rightarrow> feedback_db \<Rightarrow> feedback_db \<Rightarrow> bool" where
  "moves x e db db' \<longleftrightarrow> x \<in> set (fd_opportunities db) \<and> opp_status x \<in> {OS_open, OS_planned}
     \<and> (\<exists>g s. (\<forall>y. opp_key (g y) = opp_key y \<and> opp_status (g y) = s) \<and> ose_new_status e = opportunity_status_value s
          \<and> fd_opportunities db' = map (\<lambda>y. if opp_id y = opp_id x then g y else y) (fd_opportunities db))
     \<and> fd_status_events db' = fd_status_events db @ [e] \<and> ose_opportunity_id e = opp_id x
     \<and> ose_previous_status e = opportunity_status_value (opp_status x)
     \<and> is_ok (require_transition (ose_previous_status e) (ose_new_status e) True)
     \<and> (ose_new_status e = ''dismissed'' \<longrightarrow> (\<exists>f \<in> set (fd_feedback db'). logs_dismissal f e))"

lemma feedback_step_cases:
  assumes "feedback_step env db db'"
  shows "prefix (fd_feedback db) (fd_feedback db') \<and> (grows db db' \<or> (\<exists>x e. moves x e db db'))"
  using assms
proof cases
  case (step_append clock w p a key c f)
  show ?thesis
  proof (cases "get_by_idempotency_key db w p key")
    case None
    from append_fresh [OF step_append None] show ?thesis by (auto simp: grows_def)
  next
    case (Some g)
    with step_append have "db' = db"
      by (auto simp: append_feedback_def Let_def res_bind_eq_Inr replay_feedback_cases split: option.splits)
    then show ?thesis by (simp add: grows_def)
  qed
next
  case (step_dismiss clock w p a key c f)
  show ?thesis
  proof (cases "get_by_idempotency_key db w p key")
    case None
    obtain x e where x: "get_opportunity db w p (fc_opportunity_id c) = Some x" "opp_status x = OS_open"
      "feedback_of w p (opp_id x) key (feedback_fingerprint env c ''dismiss'') c f"
      "fd_opportunities db' = map (\<lambda>y. if opp_id y = opp_id x then dismissed_row (clock 0) (fb_reason_code f) y else y)
        (fd_opportunities db)" "fd_feedback db' = fd_feedback db @ [f]" "fd_status_events db' = fd_status_events db @ [e]"
      "logs_dismissal f e" "ose_previous_status e = ''open''" "ose_new_status e = ''dismissed''"
      by (rule dismiss_fresh [OF step_dismiss None]) (rule that)
    have "moves x e db db'"
      unfolding moves_def
      using x get_opportunity_Some [OF x(1)]
      by (auto simp: logs_dismissal_def feedback_of_def require_transition_def dismissed_row_def opp_key_def
          intro!: exI [of _ "dismissed_row (clock 0) (fb_reason_code f)"] exI [of _ OS_dismissed])
    then show ?thesis using x(5) by auto
  next
    case (Some g)
    with step_dismiss have "db' = db"
      by (auto simp: dismiss_opportunity_def Let_def res_bind_eq_Inr replay_feedback_cases split: option.splits)
    then show ?thesis by (simp add: grows_def)
  qed
next
  case (step_supersede now w p i a)
  obtain x e where x: "get_opportunity db w p i = Some x" "opp_status x \<in> {OS_open, OS_planned}"
    "fd_opportunities db' = map (\<lambda>y. if opp_id y = opp_id x then y\<lparr>opp_status := OS_superseded\<rparr> else y)
        (fd_opportunities db)"
    "fd_feedback db' = fd_feedback db" "fd_status_events db' = fd_status_events db @ [e]"
    "ose_opportunity_id e = opp_id x" "ose_previous_status e = opportunity_status_value (opp_status x)"
    "ose_new_status e = ''superseded''"
    by (rule supersede_result [OF step_supersede]) (rule that)
  have "moves x e db db'"
    unfolding moves_def
    using x get_opportunity_Some [OF x(1)]
    by (auto simp: require_transition_def opp_key_def intro!: exI [of _ "\<lambda>y. y\<lparr>opp_status := OS_superseded\<rparr>"] exI [of _ OS_superseded])
  then show ?thesis using x(4) by auto
next
  case (step_detect who now rid w p asm rows rdb)
  from store_detection_opportunities [OF step_detect(2)] step_detect(1,3) show ?thesis
    by (auto simp: grows_def run_view_def)
next
  case (step_rest runs n snapshots facts members table)
  then show ?thesis by (simp add: grows_def)
qed

lemma moves_row:
  assumes "moves x e db db'" "distinct (map opp_id (fd_opportunities db))" "y \<in> set (fd_opportunities db)"
  shows "\<exists>y' \<in> set (fd_opportunities db'). opp_id y' = opp_id y
    \<and> (if opp_id y = opp_id x then y = x \<and> opportunity_status_value (opp_status y') = ose_new_status e else y' = y)"
proof -
  have "y = x" if "opp_id y = opp_id x"
    using assms that by (auto simp: moves_def distinct_map dest: inj_onD)
  then show ?thesis using assms(1,3) by (fastforce simp: moves_def opp_key_def)
qed

lemma moves_back:
  assumes "moves x e db db'" "y' \<in> set (fd_opportunities db')"
  shows "\<exists>y \<in> set (fd_opportunities db). opp_id y = opp_id y'
    \<and> (if opp_id y = opp_id x then opportunity_status_value (opp_status y') = ose_new_status e else y' = y)"
proof -
  obtain g s where g: "\<forall>y. opp_key (g y) = opp_key y \<and> opp_status (g y) = s"
    "ose_new_status e = opportunity_status_value s"
    "fd_opportunities db' = map (\<lambda>y. if opp_id y = opp_id x then g y else y) (fd_opportunities db)"
    using assms(1) unfolding moves_def by blast
  then obtain y where "y \<in> set (fd_opportunities db)" "y' = (if opp_id y = opp_id x then g y else y)"
    using assms(2) by auto
  then show ?thesis using g by (intro bexI [of _ y]) (simp_all add: opp_key_def)
qed

lemma moves_keys: "moves x e db db' \<Longrightarrow> map opp_key (fd_opportunities db') = map opp_key (fd_opportunities db)"
  by (clarsimp simp: moves_def)

lemma moves_ids:
  assumes "moves x e db db'"
  shows "map opp_id (fd_opportunities db') = map opp_id (fd_opportunities db)"
  using arg_cong [OF moves_keys [OF assms], of "map (snd \<circ> snd)"] by (simp add: comp_def opp_key_def)

lemma feedback_steps_distinct:
  assumes "(feedback_step env)\<^sup>*\<^sup>* db db'" "distinct (map opp_id (fd_opportunities db))"
  shows "distinct (map opp_id (fd_opportunities db'))"
  using assms by induction (auto dest!: feedback_step_cases moves_ids simp: grows_def)

text \<open>A dismissed, superseded or completed opportunity never changes again.\<close>

lemma settled_row_stays:
  assumes "(feedback_step env)\<^sup>*\<^sup>* db db'" "distinct (map opp_id (fd_opportunities db))"
    and "y \<in> set (fd_opportunities db)" "opp_status y \<notin> {OS_open, OS_planned}"
  shows "y \<in> set (fd_opportunities db')"
  using assms(1)
proof induction
  case base
  show ?case by (rule assms(3))
next
  case (step db1 db2)
  have "distinct (map opp_id (fd_opportunities db1))" by (rule feedback_steps_distinct [OF step(1) assms(2)])
  then have "y \<in> set (fd_opportunities db2)" if m: "moves x e db1 db2" for x e
    using moves_row [OF m _ step.IH] assms(4) m by (cases "opp_id y = opp_id x") (auto simp: moves_def)
  with step.IH feedback_step_cases [OF step(2)] show ?case by (auto simp: grows_def)
qed

section \<open>The log of status events\<close>

fun trail :: "string \<Rightarrow> opportunity_status_event list \<Rightarrow> string option" where
  "trail s [] = Some s"
| "trail s (e # es) =
     (if ose_previous_status e = s \<and> is_ok (require_transition s (ose_new_status e) True)
      then trail (ose_new_status e) es else None)"

lemma trail_append: "trail s (es @ es') = (case trail s es of None \<Rightarrow> None | Some s' \<Rightarrow> trail s' es')"
  by (induction es arbitrary: s) auto

definition first_status :: "feedback_db \<Rightarrow> uuid \<Rightarrow> string" where
  "first_status db i = (case find (\<lambda>x. opp_id x = i) (fd_opportunities db) of
     None \<Rightarrow> ''open'' | Some x \<Rightarrow> opportunity_status_value (opp_status x))"

abbreviation events_of :: "uuid \<Rightarrow> opportunity_status_event list \<Rightarrow> opportunity_status_event list" where
  "events_of i es \<equiv> filter (\<lambda>e. ose_opportunity_id e = i) es"

definition explained :: "feedback_db \<Rightarrow> feedback_db \<Rightarrow> opportunity_status_event list \<Rightarrow> bool" where
  "explained db0 db new \<longleftrightarrow> fd_status_events db = fd_status_events db0 @ new
     \<and> (\<forall>x \<in> set (fd_opportunities db).
          trail (first_status db0 (opp_id x)) (events_of (opp_id x) new) = Some (opportunity_status_value (opp_status x)))
     \<and> (\<forall>e \<in> set new. ose_opportunity_id e \<in> opp_id ` set (fd_opportunities db))
     \<and> opp_id ` set (fd_opportunities db0) \<subseteq> opp_id ` set (fd_opportunities db)
     \<and> (\<forall>e \<in> set new. ose_new_status e = ''dismissed'' \<longrightarrow> (\<exists>f \<in> set (fd_feedback db). logs_dismissal f e))"

lemma find_key: "distinct (map k xs) \<Longrightarrow> x \<in> set xs \<Longrightarrow> find (\<lambda>z. k z = k x) xs = Some x"
  by (induction xs) force+

lemma explained_start: "distinct (map opp_id (fd_opportunities db)) \<Longrightarrow> explained db db []"
  by (simp add: explained_def first_status_def find_key)

lemma explained_grows:
  assumes "explained db0 db new" "grows db db'" "set (fd_feedback db) \<subseteq> set (fd_feedback db')"
    and "distinct (map opp_id (fd_opportunities db'))"
  shows "explained db0 db' new"
proof -
  obtain opps where opps: "fd_opportunities db' = fd_opportunities db @ opps" "\<forall>x \<in> set opps. opp_status x = OS_open"
    using assms(2) by (auto simp: grows_def list_all_iff)
  have "trail (first_status db0 (opp_id x)) (events_of (opp_id x) new) = Some ''open''" if "x \<in> set opps" for x
  proof -
    have n: "opp_id x \<notin> opp_id ` set (fd_opportunities db)" using that assms(4) unfolding opps(1) by auto
    moreover have "ose_opportunity_id e \<in> opp_id ` set (fd_opportunities db)" if "e \<in> set new" for e
      using assms(1) that by (simp add: explained_def)
    ultimately have "events_of (opp_id x) new = []" by (intro filter_False) metis
    moreover have "first_status db0 (opp_id x) = ''open''"
    proof -
      have "opp_id ` set (fd_opportunities db0) \<subseteq> opp_id ` set (fd_opportunities db)"
        using assms(1) by (simp add: explained_def)
      with n have "find (\<lambda>z. opp_id z = opp_id x) (fd_opportunities db0) = None"
        unfolding find_None_iff by (metis image_eqI subsetD)
      then show ?thesis by (simp add: first_status_def)
    qed
    ultimately show ?thesis by simp
  qed
  moreover have "\<exists>f \<in> set (fd_feedback db'). logs_dismissal f e" if "e \<in> set new" "ose_new_status e = ''dismissed''" for e
    using assms(1,3) that unfolding explained_def by blast
  moreover have "fd_status_events db' = fd_status_events db" using assms(2) by (simp add: grows_def)
  ultimately show ?thesis using assms(1) opps unfolding explained_def by auto
qed

lemma explained_moves:
  assumes "explained db0 db new" "moves x e db db'" "set (fd_feedback db) \<subseteq> set (fd_feedback db')"
    and "distinct (map opp_id (fd_opportunities db))"
  shows "explained db0 db' (new @ [e])"
proof -
  have ids: "opp_id ` set (fd_opportunities db') = opp_id ` set (fd_opportunities db)"
    using moves_ids [OF assms(2)] by (metis set_map)
  have "trail (first_status db0 (opp_id y')) (events_of (opp_id y') (new @ [e])) = Some (opportunity_status_value (opp_status y'))"
    if y': "y' \<in> set (fd_opportunities db')" for y'
  proof -
    obtain y where y: "y \<in> set (fd_opportunities db)" "opp_id y = opp_id y'"
      "if opp_id y = opp_id x then opportunity_status_value (opp_status y') = ose_new_status e else y' = y"
      using moves_back [OF assms(2) y'] by blast
    have t: "trail (first_status db0 (opp_id y)) (events_of (opp_id y) new) = Some (opportunity_status_value (opp_status y))"
      using assms(1) y(1) by (simp add: explained_def)
    have e: "ose_opportunity_id e = opp_id x" "ose_previous_status e = opportunity_status_value (opp_status x)"
      "is_ok (require_transition (ose_previous_status e) (ose_new_status e) True)"
      using assms(2) unfolding moves_def by blast+
    have "y = x" if "opp_id y = opp_id x"
      using assms(2,4) that y(1) by (auto simp: moves_def distinct_map dest: inj_onD)
    then have same: "opp_id y = opp_id x \<Longrightarrow> ose_previous_status e = opportunity_status_value (opp_status y)" using e(2) by simp
    show ?thesis
    proof (cases "opp_id y = opp_id x")
      case True
      then have "trail (opportunity_status_value (opp_status y)) [e] = Some (opportunity_status_value (opp_status y'))"
        using same e(3) y(3) by simp
      then show ?thesis using t True e(1) y(2) by (simp add: trail_append del: trail.simps)
    next
      case False
      then have "y' = y" using y(3) by presburger
      then show ?thesis using t e(1) False by simp
    qed
  qed
  moreover have "\<exists>f \<in> set (fd_feedback db'). logs_dismissal f d" if "d \<in> set (new @ [e])" "ose_new_status d = ''dismissed''" for d
  proof (cases "d = e")
    case True
    then show ?thesis using that(2) assms(2) by (simp add: moves_def)
  next
    case False
    then have "\<exists>f \<in> set (fd_feedback db). logs_dismissal f d" using that assms(1) by (simp add: explained_def)
    then show ?thesis using assms(3) by blast
  qed
  moreover have "fd_status_events db' = fd_status_events db @ [e]" "ose_opportunity_id e \<in> opp_id ` set (fd_opportunities db)"
    using assms(2) unfolding moves_def by blast+
  ultimately show ?thesis using assms(1) ids unfolding explained_def by simp
qed

lemma steps_explained:
  assumes "(feedback_step env)\<^sup>*\<^sup>* db0 db" "distinct (map opp_id (fd_opportunities db0))"
  shows "\<exists>new. explained db0 db new"
  using assms(1)
proof induction
  case base
  show ?case using explained_start [OF assms(2)] by blast
next
  case (step db db')
  then obtain new where new: "explained db0 db new" by blast
  have d: "distinct (map opp_id (fd_opportunities db))" "distinct (map opp_id (fd_opportunities db'))"
    using feedback_steps_distinct [OF _ assms(2)] step(1,2) by (auto intro: rtranclp.rtrancl_into_rtrancl)
  from feedback_step_cases [OF step(2)] show ?case
    using explained_grows [OF new _ _ d(2)] explained_moves [OF new _ _ d(1)] set_mono_prefix by blast
qed

end
