(* ===== verification/Snapshot_Facts.thy ===== *)
theory Snapshot_Facts
  imports Snapshots Detection
begin

text \<open>
  What the assembly of a detection input guarantees: the input satisfies the contracts that the
  engine relies on, its search windows are adjacent and its hash does not depend on the order of
  collections; and what a capability match means.
\<close>

section \<open>Lexical matches\<close>

lemma token_share_unit:
  assumes "part \<subseteq> whole" "finite whole"
  shows "valid_unit (token_share part whole)"
proof (cases "whole = {}")
  case True
  then show ?thesis by (simp add: token_share_def valid_unit_def)
next
  case False
  then have pos: "0 < card whole" using assms(2) by (simp add: card_gt_0_iff)
  have "card part \<le> card whole" using assms by (simp add: card_mono)
  then have "(of_nat (card part) :: rat) / of_nat (card whole) \<le> of_int 1" using pos by simp
  moreover have "0 \<le> (of_nat (card part) :: rat) / of_nat (card whole)" by simp
  ultimately have "0 \<le> dec_round (of_nat (card part) / of_nat (card whole))"
    "dec_round (of_nat (card part) / of_nat (card whole)) \<le> of_int 1"
    using dec.rnd_nonneg dec.rnd_le_int [of _ 1] by auto
  then show ?thesis using False by (simp add: token_share_def valid_unit_def dec_div_def)
qed

lemma capability_candidates_in:
  "(c, r, k) \<in> set (capability_candidates env words caps) \<Longrightarrow>
     valid_unit c \<and> valid_unit r \<and> 3 / 5 \<le> c \<and> 1 / 5 \<le> r
     \<and> (\<exists>x \<in> set caps. pc_active x \<and> pc_capability_key x = k)"
  by (auto simp: capability_candidates_def Let_def intro!: token_share_unit split: if_splits)

lemma match_capability_cases:
  obtains (none) "match_capability env words caps = \<lparr>ca_capability_key = None, ca_coverage = 0, ca_relevance = 0\<rparr>"
  | (some) c r k where
      "match_capability env words caps = \<lparr>ca_capability_key = Some k, ca_coverage = c, ca_relevance = r\<rparr>"
      "(c, r, k) \<in> set (capability_candidates env words caps)"
      "\<And>c' r' k'. (c', r', k') \<in> set (capability_candidates env words caps) \<Longrightarrow> (c', r', k') \<noteq> (c, r, k) \<Longrightarrow>
         (c', r') < (c, r)"
proof -
  let ?cs = "capability_candidates env words caps"
  show thesis
  proof (cases "rev (sort ?cs)")
    case Nil
    then show thesis by (intro none) (simp add: match_capability_def)
  next
    case (Cons best rest)
    obtain c r k where best: "best = (c, r, k)" by (cases best)
    show thesis
    proof (cases "case rest of [] \<Rightarrow> False | (c', r', _) # _ \<Rightarrow> c' = c \<and> r' = r")
      case True
      then show thesis using Cons best by (intro none) (simp add: match_capability_def)
    next
      case False
      have eq: "sort ?cs = rev rest @ [(c, r, k)]" using Cons best by (metis rev.simps(2) rev_rev_ident)
      have all: "set ?cs = set (rev rest @ [(c, r, k)])" by (metis eq set_sort)
      have sorted: "sorted (rev rest @ [(c, r, k)])" by (metis eq sorted_sort)
      have less: "(c', r') < (c, r)" if "(c', r', k') \<in> set rest" for c' r' k'
      proof -
        from that obtain x rest' where "rest = x # rest'" by (cases rest) auto
        then obtain c1 r1 k1 where rest: "rest = (c1, r1, k1) # rest'" by (cases x) auto
        have "(c1, r1) \<noteq> (c, r)" using False rest by auto
        moreover have "(c1, r1, k1) \<le> (c, r, k)" "(c', r', k') \<le> (c1, r1, k1)"
          using sorted that rest by (auto simp: sorted_append)
        ultimately show ?thesis by (auto simp: less_eq_prod_simp less_prod_simp)
      qed
      show thesis
        using Cons best False all less by (intro some [of k c r]) (auto simp: match_capability_def)
    qed
  qed
qed

text \<open>A shipped event is matched with a capability only when the capability is active, the event covers at
  least 60 percent of its words and they make up at least 20 percent of the words of the event, and every other
  capability that qualifies is strictly worse.\<close>

theorem capability_match_is_best:
  assumes "m = match_capability env words caps" "ca_capability_key m = Some k"
  shows "3 / 5 \<le> ca_coverage m \<and> ca_coverage m \<le> 1 \<and> 1 / 5 \<le> ca_relevance m \<and> ca_relevance m \<le> 1
    \<and> (\<exists>x \<in> set caps. pc_active x \<and> pc_capability_key x = k)
    \<and> (\<forall>(c, r, k') \<in> set (capability_candidates env words caps).
         (c, r, k') = (ca_coverage m, ca_relevance m, k) \<or> (c, r) < (ca_coverage m, ca_relevance m))"
proof (cases rule: match_capability_cases [of env words caps])
  case none
  then show ?thesis using assms by simp
next
  case (some c r k')
  then have m: "ca_coverage m = c" "ca_relevance m = r" "k' = k" using assms by simp_all
  have "3 / 5 \<le> c \<and> c \<le> 1 \<and> 1 / 5 \<le> r \<and> r \<le> 1" "\<exists>x \<in> set caps. pc_active x \<and> pc_capability_key x = k"
    using capability_candidates_in [OF some(2)] m(3) by (simp_all add: valid_unit_def)
  moreover have "\<forall>(c', r', k') \<in> set (capability_candidates env words caps). (c', r', k') = (c, r, k) \<or> (c', r') < (c, r)"
    using some(3) m(3) by blast
  ultimately show ?thesis unfolding m(1,2) by blast
qed

definition export_match :: capability_match where
  "export_match = match_capability folding_env ''Exports'' [\<lparr>pc_capability_key = ''Exports'', pc_name = ''Exports'',
     pc_description = None, pc_active = True\<rparr>]"

theorem capability_match_is_best_witness: "3 / 5 \<le> ca_coverage export_match \<and> 1 / 5 \<le> ca_relevance export_match"
proof -
  have "ca_capability_key export_match = Some ''Exports''" by code_simp
  from capability_match_is_best [OF export_match_def this] show ?thesis by (elim conjE) (intro conjI)
qed

section \<open>Validity of the parts\<close>

lemma metric_of_valid: "metric_of rows = Inr m \<Longrightarrow> valid_metrics m"
  by (auto simp: metric_of_def Let_def)

lemma split_metric_valid: "split_metric rows d = Inr (c, p) \<Longrightarrow> valid_metrics c \<and> valid_metrics p"
  by (auto simp: split_metric_def res_bind_eq_Inr dest: metric_of_valid)

lemma query_snapshot_valid: "query_snapshot_of env profile facts d rows q = Inr s \<Longrightarrow> valid_query s"
  by (auto simp: query_snapshot_of_def Let_def res_bind_eq_Inr)

lemma page_snapshot_valid: "page_snapshot_of facts d rows p = Inr s \<Longrightarrow> valid_search_page s"
  by (auto simp: page_snapshot_of_def res_bind_eq_Inr)

lemma mapping_of_valid: "mapping_of results v m = Inr s \<Longrightarrow> valid_mapping s"
  by (auto simp: mapping_of_def Let_def res_bind_eq_Inr)

lemma shipping_event_valid:
  "shipping_event_of env caps row = Inr s \<Longrightarrow> valid_event s \<and> is_aware (se_occurred_at s)"
  by (auto simp: shipping_event_of_def Let_def res_bind_eq_Inr split: prod.splits)

lemma history_item_aware: "history_item_of row = Inr h \<Longrightarrow> aware_history h"
  by (auto simp: history_item_of_def aware_history_def utc_def res_bind_eq_Inr split: prod.splits datetime.splits)

lemma res_map_list_all:
  "res_map f xs = Inr ys \<Longrightarrow> (\<And>x y. f x = Inr y \<Longrightarrow> P y) \<Longrightarrow> list_all P ys"
  unfolding res_map_eq_Inr by (induction xs ys rule: list_all2_induct) auto

text \<open>The two windows of a search snapshot are the 28 days up to its end and the 28 days before them, so that
  its quality depends on the facts alone.\<close>

definition search_windows :: "search_snapshot \<Rightarrow> int \<Rightarrow> bool" where
  "search_windows s e \<longleftrightarrow> ss_current_start s = Some (e - 27) \<and> ss_current_end s = Some e
     \<and> ss_prior_start s = Some (e - 55) \<and> ss_prior_end s = Some (e - 28)"

definition well_windowed :: "search_snapshot \<Rightarrow> bool" where
  "well_windowed s \<longleftrightarrow> valid_search s \<and> (\<exists>e. search_windows s e) \<and> period_days s = 56 \<and> periods_are_adjacent s
     \<and> (search_reasons (Some s) = [] \<longleftrightarrow> ss_missing_dates s = [] \<and> \<not> ss_truncated s)"

lemma search_snapshot_of_windows:
  assumes "search_snapshot_of env profile source run facts current_end = Inr s"
  shows "well_windowed s"
proof -
  from assms obtain qs ps c p where
    q: "query_snapshots env profile facts (current_end - 27) = Inr qs"
    and p: "page_snapshots facts (current_end - 27) = Inr ps"
    and s: "ss_queries s = sort_key qp_query_fingerprint qs" "ss_pages s = sort_key sp_url_fingerprint ps"
      "ss_current_start s = Some (current_end - 27)" "ss_current_end s = Some current_end"
      "ss_prior_start s = Some (current_end - 27 - 1 - 27)" "ss_prior_end s = Some (current_end - 27 - 1)"
      "ss_complete s = (ss_missing_dates s = [])"
      "ss_health_status s = (if ss_missing_dates s \<noteq> [] \<or> ss_truncated s then SH_degraded else SH_healthy)"
      "ss_baseline_status s = (if ss_missing_dates s = [] \<and> \<not> ss_truncated s then BS_ready else BS_building)"
    unfolding search_snapshot_of_def Let_def by (auto simp: res_bind_eq_Inr)
  have "list_all valid_query qs"
    using q unfolding query_snapshots_def Let_def
    by (rule res_map_list_all) (auto dest: query_snapshot_valid)
  moreover have "list_all valid_search_page ps"
    using p unfolding page_snapshots_def Let_def
    by (rule res_map_list_all) (auto dest: page_snapshot_valid)
  ultimately have "valid_search s" using s(1,2) by (simp add: valid_search_def list_all_iff)
  moreover have "period_days s = 56" "periods_are_adjacent s"
    using s by (simp_all add: period_days_def periods_are_adjacent_def)
  moreover have "search_windows s current_end" using s(3-6) by (simp add: search_windows_def)
  ultimately show ?thesis using s(7-9) by (auto simp: well_windowed_def search_reasons_def)
qed

lemma assemble_search_windows:
  "assemble_search env db w p t profile = Inr (Some s) \<Longrightarrow> well_windowed s"
  by (auto simp: assemble_search_def Let_def res_bind_eq_Inr dest: search_snapshot_of_windows
      split: option.splits prod.splits)

text \<open>The crawl of a website snapshot ended when the snapshot was taken.\<close>

definition well_crawled :: "instant \<Rightarrow> website_snapshot \<Rightarrow> bool" where
  "well_crawled t s \<longleftrightarrow> list_all valid_mapping (ws_capability_mappings s) \<and> ws_status s = WS_succeeded
     \<and> (\<exists>c. ws_completed_at s = Some (Aware c) \<and> c \<le> t)"

lemma website_authority_completed:
  assumes "get_website_authority db w p t = Some (source, run, newer)"
  shows "\<exists>c. wr_completed_at run = Some c \<and> c \<le> t"
  using assms unfolding get_website_authority_def
  by (auto dest!: latest_by_Some(1) simp: no_later_def split: option.splits)

lemma assemble_website_crawled:
  assumes "assemble_website env db w p t v = Inr (Some s)"
  shows "well_crawled t s"
proof -
  from assms obtain source run newer where a: "get_website_authority db w p t = Some (source, run, newer)"
    by (auto simp: assemble_website_def split: option.splits)
  obtain results mappings where f: "list_website_facts db w p (wo_id source) (wr_id run) = (results, mappings)"
    by fastforce
  from assms a f obtain version mapped where m: "res_map (mapping_of results version) mappings = Inr mapped"
    and s: "ws_capability_mappings s = sort_key (\<lambda>m. (cm_capability_key m, cm_page_fingerprint m)) mapped"
      "ws_status s = WS_succeeded" "ws_completed_at s = map_option Aware (wr_completed_at run)"
    unfolding assemble_website_def by (auto simp: Let_def res_bind_eq_Inr)
  have "list_all valid_mapping mapped"
    using m by (rule res_map_list_all) (auto dest: mapping_of_valid)
  then show ?thesis using s website_authority_completed [OF a] by (auto simp: well_crawled_def list_all_iff)
qed

section \<open>The whole input\<close>

lemma assemble_parts:
  assumes "assemble_detection_input env db w p t = Inr a"
  obtains profile search website events history where
    "a = canonicalize_detection_input env
      \<lparr>di_schema_version = ''1'', di_workspace_id = w, di_product_id = p, di_as_of = Aware t,
       di_profile = profile, di_search = search, di_queries = [], di_pages = [], di_website = website,
       di_shipping = \<lparr>sh_window_start = Some (Aware (t - Times.days 28)), sh_window_end = Some (Aware t),
         sh_events = events\<rparr>, di_history = history\<rparr>"
    "valid_profile profile" "\<And>s. search = Some s \<Longrightarrow> well_windowed s"
    "\<And>s. website = Some s \<Longrightarrow> well_crawled t s"
    "list_all (\<lambda>e. valid_event e \<and> is_aware (se_occurred_at e)) events" "list_all aware_history history"
proof -
  from assms obtain product row version unsorted profile search website events history where
    pr: "profile_snapshot_of product row version (sort_key pc_capability_key unsorted) = Inr profile"
    and se: "assemble_search (sn_engine env) db w p t profile = Inr search"
    and we: "assemble_website env db w p t version = Inr website"
    and ev: "res_map (shipping_event_of (sn_engine env) (sort_key pc_capability_key unsorted))
        (list_shipping_rows db w p (t - Times.days 28) t) = Inr events"
    and hi: "history_of db w p = Inr history"
    and a: "a = canonicalize_detection_input env
      \<lparr>di_schema_version = ''1'', di_workspace_id = w, di_product_id = p, di_as_of = Aware t,
       di_profile = profile, di_search = search, di_queries = [], di_pages = [], di_website = website,
       di_shipping = \<lparr>sh_window_start = Some (Aware (t - Times.days 28)), sh_window_end = Some (Aware t),
         sh_events = events\<rparr>, di_history = history\<rparr>"
    unfolding assemble_detection_input_def
    by (auto simp: res_bind_eq_Inr Let_def split: prod.splits option.splits)
  have "valid_profile profile" using pr by (auto simp: profile_snapshot_of_def)
  moreover have "list_all (\<lambda>e. valid_event e \<and> is_aware (se_occurred_at e)) events"
    using ev by (rule res_map_list_all) (rule shipping_event_valid)
  moreover have "list_all aware_history history"
    using hi unfolding history_of_def by (rule res_map_list_all) (rule history_item_aware)
  moreover have "well_windowed s" if "search = Some s" for s
    using se that assemble_search_windows by simp
  moreover have "well_crawled t s" if "website = Some s" for s
    using we that assemble_website_crawled by simp
  ultimately show thesis using that a by blast
qed

lemma assembled_ok:
  assumes "assemble_detection_input env db w p t = Inr a"
  shows "a = canonicalize_detection_input env (sa_detection_input a)"
    "di_workspace_id (sa_detection_input a) = w" "di_product_id (sa_detection_input a) = p"
    "valid_input (sa_detection_input a)" "aware_input (sa_detection_input a)"
  by (rule assemble_parts [OF assms],
      force simp: canonicalize_detection_input_def Let_def valid_input_def aware_input_def well_windowed_def
        well_crawled_def list_all_iff split: option.splits)+


definition facts_env :: snapshot_env where
  "facts_env = \<lparr>sn_engine = folding_env, sn_dump = (\<lambda>d. PDict [(''asOf'', PStr (di_product_id d))]),
     sn_validate = (\<lambda>v. Inl (ValidationError ''DetectionInput'')), sn_pick = Min\<rparr>"

definition facts_db :: input_db where
  "facts_db = \<lparr>in_products = [\<lparr>pi_id = ''p'', pi_workspace_id = ''w'', pi_name = ''Acme''\<rparr>],
     in_profiles = [\<lparr>pq_id = ''f'', pq_workspace_id = ''w'', pq_product_id = ''p'', pq_status = ''approved'',
       pq_deleted_at = None, pq_version = Some 3, pq_schema_version = 1, pq_completeness_score = 100,
       pq_quarterly_objective = Some ''Grow'', pq_primary_audience = Some ''Teams'', pq_primary_conversion_goal = None,
       pq_primary_conversion_url = None, pq_main_value_proposition = None, pq_differentiation = Some ''Fast'',
       pq_important_capabilities = [PStr ''Exports'']\<rparr>],
     in_connections = [\<lparr>ic_id = ''c'', ic_workspace_id = ''w'', ic_status = ''active'', ic_deleted_at = None\<rparr>],
     in_search_sources = [\<lparr>so_id = ''s'', so_workspace_id = ''w'', so_product_id = ''p'',
       so_integration_connection_id = ''c'', so_status = ''active'', so_deleted_at = None,
       so_latest_successful_data_date = Some 100\<rparr>],
     in_sync_runs = [\<lparr>sy_id = ''y'', sy_workspace_id = ''w'', sy_product_id = ''p'', sy_source_id = ''s'',
       sy_status = ''succeeded'', sy_is_complete = True, sy_is_truncated = False, sy_requested_start_date = 0,
       sy_requested_end_date = 101, sy_completed_at = Some 5, sy_deleted_at = None\<rparr>],
     in_metrics = [\<lparr>dm_workspace_id = ''w'', dm_product_id = ''p'', dm_source_id = ''s'', dm_grain = ''query_page'',
       dm_query_id = Some ''q'', dm_page_id = Some ''g'', dm_metric_date = 99, dm_clicks = 0, dm_impressions = 4,
       dm_average_position = Some 8, dm_deleted_at = None\<rparr>],
     in_queries = [\<lparr>sq_id = ''q'', sq_workspace_id = ''w'', sq_product_id = ''p'', sq_source_id = ''s'',
       sq_deleted_at = None, sq_query_text = ''acme export'', sq_query_fingerprint = ''qf''\<rparr>],
     in_search_pages = [\<lparr>sg_id = ''g'', sg_workspace_id = ''w'', sg_product_id = ''p'', sg_source_id = ''s'',
       sg_deleted_at = None, sg_url_fingerprint = ''uf'', sg_normalized_url = ''https://acme/x'',
       sg_website_page_id = None, sg_match_status = MS_matched\<rparr>],
     in_website_sources = [\<lparr>wo_id = ''o'', wo_workspace_id = ''w'', wo_product_id = ''p'', wo_status = ''active'',
       wo_deleted_at = None, wo_normalized_base_url = ''https://acme''\<rparr>],
     in_crawl_runs = [\<lparr>wr_id = ''r'', wr_workspace_id = ''w'', wr_product_id = ''p'', wr_source_id = ''o'',
       wr_status = ''succeeded'', wr_completed_at = Some 7, wr_deleted_at = None, wr_summary = [],
       wr_pages_discovered = 1, wr_pages_succeeded = 1, wr_pages_failed = 0\<rparr>],
     in_website_pages = [\<lparr>wg_id = ''h'', wg_workspace_id = ''w'', wg_product_id = ''p'', wg_deleted_at = None,
       wg_url = ''https://acme/'', wg_canonical_url = ''https://acme/'', wg_url_fingerprint = ''hf''\<rparr>],
     in_crawl_results = [\<lparr>wx_workspace_id = ''w'', wx_product_id = ''p'', wx_source_id = ''o'', wx_crawl_run_id = ''r'',
       wx_page_id = ''h'', wx_deleted_at = None, wx_status = ''succeeded'', wx_final_url = None, wx_title = None,
       wx_meta_description = None, wx_headings = [], wx_is_indexable = Some True, wx_internal_links = None\<rparr>],
     in_mappings = [\<lparr>wm_workspace_id = ''w'', wm_product_id = ''p'', wm_source_id = ''o'', wm_crawl_run_id = ''r'',
       wm_deleted_at = None, wm_capability_key = ''Exports'', wm_page_id = Some ''h'', wm_status = ''partial'',
       wm_relevance_score = 0, wm_confidence_score = 100, wm_evidence = []\<rparr>],
     in_normalized_events = [\<lparr>ne_id = ''e'', ne_workspace_id = ''w'', ne_repo_id = ''b'', ne_dedupe_key = ''k'',
       ne_event_type = ''release'', ne_occurred_at = 8\<rparr>],
     in_repositories = [\<lparr>prp_id = ''l'', prp_workspace_id = ''w'', prp_product_id = ''p'', prp_repo_id = ''b'',
       prp_is_primary_repo = True\<rparr>],
     in_evaluations = [\<lparr>ee_workspace_id = ''w'', ee_normalized_event_id = ''e'', ee_outcome = ''hold'',
       ee_public_worthiness_score = 80, ee_public_summary = Some ''Exports'', ee_user_benefit = None\<rparr>],
     in_opportunities = [], in_feedback = []\<rparr>"


section \<open>The hash does not depend on the order of collections\<close>

lemma map_insort_fst:
  "(\<And>x. fst (g x) = fst x) \<Longrightarrow> map g (insort_key fst x xs) = insort_key fst (g x) (map g xs)"
  by (induction xs) auto

lemma map_sort_fst: "(\<And>x. fst (g x) = fst x) \<Longrightarrow> map g (sort_key fst xs) = sort_key fst (map g xs)"
  by (induction xs) (simp_all add: map_insort_fst)

definition canon_text :: "string option \<Rightarrow> pyval \<Rightarrow> string" where
  "canon_text key v = json_dumps (snapshot_canonical key v)"

lemma canon_text_seq:
  "canon_text key (PSeq xs) = ''['' @ join_text '',''
     (if \<exists>k. key = Some k \<and> k \<in> set sorted_collections then sort (map (canon_text None) xs)
      else map (canon_text None) xs) @ '']''"
  by (cases key) (simp_all add: canon_text_def [abs_def] Let_def map_sort_key comp_def)

lemma canon_text_dict:
  "canon_text key (PDict kvs) = ''{'' @ join_text '','' (map (\<lambda>(k, d). json_string k @ '':'' @ d)
     (sort_key fst (map (\<lambda>(n, v). (n, canon_text (Some n) v)) kvs))) @ ''}''"
proof -
  let ?L = "map (\<lambda>(n, v). (n, snapshot_canonical (Some n) v)) kvs"
  have "sort_key fst (map (map_prod id json_dumps) (sort_key fst ?L)) = sort_key fst (map (map_prod id json_dumps) ?L)"
    by (subst map_sort_fst) (simp, rule sort_key_id_if_sorted, rule sorted_sort_key)
  also have "map (map_prod id json_dumps) ?L = map (\<lambda>(n, v). (n, canon_text (Some n) v)) kvs"
    by (simp add: canon_text_def comp_def case_prod_unfold)
  finally show ?thesis
    unfolding canon_text_def [of key] snapshot_canonical.simps json_dumps.simps by (rule arg_cong)
qed

text \<open>Two dumps that differ in the order of the entries of a dictionary or of the elements of a sorted collection.\<close>

inductive reordered :: "string option \<Rightarrow> pyval \<Rightarrow> pyval \<Rightarrow> bool" where
  same: "reordered key v v"
| swap: "reordered key u v \<Longrightarrow> reordered key v x \<Longrightarrow> reordered key u x"
| entries: "list_all2 (\<lambda>a b. fst a = fst b \<and> reordered (Some (fst a)) (snd a) (snd b)) kvs kvs' \<Longrightarrow>
    reordered key (PDict kvs) (PDict kvs')"
| entry_order: "mset kvs = mset kvs' \<Longrightarrow> distinct (map fst kvs) \<Longrightarrow> reordered key (PDict kvs) (PDict kvs')"
| elements: "list_all2 (reordered None) xs ys \<Longrightarrow> reordered key (PSeq xs) (PSeq ys)"
| element_order: "k \<in> set sorted_collections \<Longrightarrow> mset xs = mset ys \<Longrightarrow> reordered (Some k) (PSeq xs) (PSeq ys)"

lemma reordered_text: "reordered key u v \<Longrightarrow> canon_text key u = canon_text key v"
proof (induction rule: reordered.induct)
  case (entries kvs kvs' key)
  then have "map (\<lambda>(n, v). (n, canon_text (Some n) v)) kvs = map (\<lambda>(n, v). (n, canon_text (Some n) v)) kvs'"
    by (induction rule: list_all2_induct) auto
  then show ?case by (simp add: canon_text_dict)
next
  case (entry_order kvs kvs' key)
  let ?f = "\<lambda>(n, v). (n, canon_text (Some n) v)"
  have "distinct (map fst (map ?f kvs))" using entry_order(2) by (simp add: comp_def case_prod_unfold)
  then have "inj_on fst (set (map ?f kvs))" unfolding distinct_map [of fst] by blast
  moreover have "mset (map ?f kvs) = mset (sort_key fst (map ?f kvs'))" using entry_order(1) by simp
  ultimately have "sort_key fst (map ?f kvs) = sort_key fst (map ?f kvs')"
    by (intro sort_key_inj_key_eq) simp_all
  then show ?case by (simp add: canon_text_dict)
next
  case (elements xs ys key)
  then have "map (canon_text None) xs = map (canon_text None) ys" by (induction rule: list_all2_induct) auto
  then show ?case by (simp only: canon_text_seq)
next
  case (element_order k xs ys)
  then have "mset (map (canon_text None) xs) = mset (map (canon_text None) ys)" by simp
  then have "sort (map (canon_text None) xs) = sort (map (canon_text None) ys)"
    by (intro properties_for_sort) simp_all
  then show ?case using element_order(1) by (simp add: canon_text_seq)
qed simp_all

text \<open>C34. Two detection inputs whose dumps differ only in the order of dictionary entries and of the elements of the
  nine sorted collections have the same canonical bytes and the same hash.\<close>

theorem hash_ignores_order:
  assumes "reordered None (sn_dump env d) (sn_dump env d')"
  shows "sa_canonical_bytes (canonicalize_detection_input env d) = sa_canonical_bytes (canonicalize_detection_input env d')
    \<and> sa_input_hash (canonicalize_detection_input env d) = sa_input_hash (canonicalize_detection_input env d')"
  using reordered_text [OF assms] by (simp add: canonicalize_detection_input_def Let_def canon_text_def)

section \<open>Stored snapshots\<close>

text \<open>Canonicalising a canonical payload changes nothing.\<close>

lemma snapshot_canonical_idem: "snapshot_canonical key (snapshot_canonical key v) = snapshot_canonical key v"
proof (induction key v rule: snapshot_canonical.induct)
  case (1 key kvs)
  let ?f = "\<lambda>(n, v). (n, snapshot_canonical (Some n) v)"
  have "map ?f (map ?f kvs) = map ?f kvs" using "1.IH" by auto
  then have "map ?f (sort_key fst (map ?f kvs)) = sort_key fst (map ?f kvs)"
    by (subst map_sort_fst) (auto simp del: map_map)
  then show ?case by (simp add: sort_key_id_if_sorted sorted_sort_key)
next
  case (2 key xs)
  have "map (snapshot_canonical None) ys = ys" if "set ys = set (map (snapshot_canonical None) xs)" for ys
    by (rule map_idI) (use that "2.IH" in auto)
  then have "map (snapshot_canonical None) (map (snapshot_canonical None) xs) = map (snapshot_canonical None) xs"
    "map (snapshot_canonical None) (sort_key json_dumps (map (snapshot_canonical None) xs))
      = sort_key json_dumps (map (snapshot_canonical None) xs)" by (simp_all del: map_map)
  then show ?case by (cases key) (simp_all add: Let_def sort_key_id_if_sorted sorted_sort_key del: map_map)
qed simp_all

text \<open>An input read back from a stored payload, whose dump differs from the payload in the order of its entries
  and sorted collections only, has the hash of the payload.\<close>

lemma reread_hash:
  assumes "a = canonicalize_detection_input env (sa_detection_input a)" "reordered None (sn_dump env d') (sa_payload a)"
  shows "sa_input_hash (canonicalize_detection_input env d') = sa_input_hash a"
proof -
  from assms(1) obtain d where "a = canonicalize_detection_input env d" by blast
  then have a: "sa_payload a = snapshot_canonical None (sn_dump env d)"
    "sa_input_hash a = sha256 (sn_engine env) (json_dumps (sa_payload a))"
    by (simp_all add: canonicalize_detection_input_def Let_def)
  have "json_dumps (snapshot_canonical None (sn_dump env d')) = json_dumps (snapshot_canonical None (sa_payload a))"
    using reordered_text [OF assms(2)] by (simp add: canon_text_def)
  then show ?thesis by (simp add: canonicalize_detection_input_def Let_def a snapshot_canonical_idem)
qed

text \<open>C33. The first snapshot of a run is stored with the hash of its payload. Storing an assembled input with the
  same hash again returns the stored row; storing one with another hash is refused; the table does not change. This
  needs that pydantic reads the stored payload back and that what it then dumps is the payload again, up to the
  order of dictionary entries and of the sorted collections.\<close>

theorem snapshot_is_immutable:
  assumes "persist_run_snapshot env i w p rid a table = Inr (x, table')"
    and "find (\<lambda>x. rs_workspace_id x = w \<and> rs_product_id x = p \<and> rs_operator_run_id x = rid) table = None"
    and "sn_validate env (sa_payload a) = Inr d'" "reordered None (sn_dump env d') (sa_payload a)"
    and "b = canonicalize_detection_input env (sa_detection_input b)"
    and "di_workspace_id (sa_detection_input b) = w" "di_product_id (sa_detection_input b) = p"
  shows "table' = table @ [x] \<and> rs_input_hash x = sa_input_hash a \<and> rs_input_payload x = sa_payload a
    \<and> persist_run_snapshot env j w p rid b table'
      = (if sa_input_hash b = sa_input_hash a then Inr (x, table')
         else Inl (AppError ''SnapshotHashMismatchError'' ''Run already has a different immutable snapshot.''))"
proof -
  from assms(1,2) have a: "a = canonicalize_detection_input env (sa_detection_input a)"
    and x: "x = new_snapshot i w p rid a" "table' = table @ [x]"
    by (auto simp: persist_run_snapshot_def Let_def split: if_splits)
  have again: "find (\<lambda>x. rs_workspace_id x = w \<and> rs_product_id x = p \<and> rs_operator_run_id x = rid) table' = Some x"
    unfolding x(2) by (rule find_snoc [OF assms(2)]) (simp add: x(1) new_snapshot_def)
  have "stored_hash_ok env b x = (if sa_input_hash b = sa_input_hash a then Inr ()
      else Inl (AppError ''SnapshotHashMismatchError'' ''Run already has a different immutable snapshot.''))"
    using assms(3) reread_hash [OF a assms(4)] by (simp add: stored_hash_ok_def x(1) new_snapshot_def Let_def)
  then have "persist_run_snapshot env j w p rid b table'
      = (if sa_input_hash b = sa_input_hash a then Inr (x, table')
         else Inl (AppError ''SnapshotHashMismatchError'' ''Run already has a different immutable snapshot.''))"
    using assms(5-7) again by (simp add: persist_run_snapshot_def)
  then show ?thesis using x by (simp add: new_snapshot_def)
qed

definition shuffled_env :: snapshot_env where
  "shuffled_env = facts_env\<lparr>sn_dump := (\<lambda>d. PDict [(''as_of'', PStr (di_product_id d)),
     (''opportunities'', PSeq (map (\<lambda>h. PStr (hi_identity_fingerprint h)) (di_history d)))])\<rparr>"

definition shuffled_input :: "string list \<Rightarrow> detection_input" where
  "shuffled_input ids = sample_input PS_approved (map (\<lambda>i. \<lparr>hi_identity_fingerprint = i, hi_action_family = None,
     hi_opportunity_type = None, hi_status = OS_open, hi_occurred_at = Aware 0, hi_dismissal_reason = None,
     hi_cooldown_until = None, hi_confidence_score = None, hi_strategic_fit_score = None,
     hi_priority_score = None\<rparr>) ids)"

theorem hash_ignores_order_witness:
  "sa_input_hash (canonicalize_detection_input shuffled_env (shuffled_input [''b'', ''a'']))
    = sa_input_hash (canonicalize_detection_input shuffled_env (shuffled_input [''a'', ''b'']))"
proof -
  have "reordered None (sn_dump shuffled_env (shuffled_input [''b'', ''a'']))
      (sn_dump shuffled_env (shuffled_input [''a'', ''b'']))"
    by (auto simp: shuffled_env_def shuffled_input_def sample_input_def sorted_collections_def
        intro!: reordered.entries reordered.same reordered.element_order)
  from hash_ignores_order [OF this] show ?thesis by simp
qed

text \<open>A dump of two fields and the validation that reads it back.\<close>

definition read_shuffled :: "pyval \<Rightarrow> detection_input res" where
  "read_shuffled v = (case v of PDict [_, (_, PSeq xs)] \<Rightarrow> Inr (shuffled_input
       (map (\<lambda>x. case x of PStr i \<Rightarrow> i | _ \<Rightarrow> []) xs)) | _ \<Rightarrow> Inl (ValidationError ''DetectionInput''))"

definition stored_env :: snapshot_env where
  "stored_env = shuffled_env\<lparr>sn_validate := read_shuffled\<rparr>"

definition stored_assembly :: "string list \<Rightarrow> snapshot_assembly" where
  "stored_assembly ids = canonicalize_detection_input stored_env (shuffled_input ids)"

theorem snapshot_is_immutable_witness:
  "persist_run_snapshot stored_env ''j'' ''workspace'' ''product'' ''r'' (stored_assembly [''c''])
      [new_snapshot ''i'' ''workspace'' ''product'' ''r'' (stored_assembly [''b'', ''a''])]
    = Inl (AppError ''SnapshotHashMismatchError'' ''Run already has a different immutable snapshot.'')"
proof -
  let ?a = "stored_assembly [''b'', ''a'']" and ?b = "stored_assembly [''c'']"
  let ?x = "new_snapshot ''i'' ''workspace'' ''product'' ''r'' ?a"
  have input: "sa_detection_input (stored_assembly ids) = shuffled_input ids" for ids
    by (simp add: stored_assembly_def canonicalize_detection_input_def Let_def)
  have tenant: "di_workspace_id (shuffled_input ids) = ''workspace''" "di_product_id (shuffled_input ids) = ''product''"
    for ids by (simp_all add: shuffled_input_def sample_input_def)
  have canonical: "stored_assembly ids = canonicalize_detection_input stored_env (sa_detection_input (stored_assembly ids))"
    for ids unfolding input by (simp add: stored_assembly_def)
  have first: "persist_run_snapshot stored_env ''i'' ''workspace'' ''product'' ''r'' ?a [] = Inr (?x, [?x])"
    unfolding persist_run_snapshot_def canonical [symmetric] Let_def by (simp add: input tenant)
  have "sa_payload ?a = sn_dump stored_env (shuffled_input [''a'', ''b''])" by code_simp
  then have read: "sn_validate stored_env (sa_payload ?a) = Inr (shuffled_input [''a'', ''b''])"
    "reordered None (sn_dump stored_env (shuffled_input [''a'', ''b''])) (sa_payload ?a)"
    by (simp_all add: reordered.same)
       (simp add: stored_env_def shuffled_env_def read_shuffled_def shuffled_input_def sample_input_def comp_def)
  have "sa_input_hash ?b \<noteq> sa_input_hash ?a" by code_simp
  then show ?thesis
    using snapshot_is_immutable [OF first _ read canonical, of "[''c'']" "''j''"] by (simp add: input tenant)
qed

end
