(* ===== verification/Run_Workflow_Facts.thy ===== *)
theory Run_Workflow_Facts
  imports Run_Workflow Operator_Store_Facts Snapshot_Facts
begin

text \<open>
  Detection runs under concurrent workers. Every transaction keeps the tables consistent: a run is leased
  exactly while it is running, and exactly the completed runs have evaluations and a snapshot, both of the
  input that the run names. A lease protects its owner from the steps of other workers until it expires, so
  a worker that is alive completes its run; a run whose worker raised an exception can be claimed again.
\<close>

section \<open>Consistency\<close>

definition detected :: "operator_run \<Rightarrow> bool" where
  "detected r \<longleftrightarrow> run_run_kind r = RK_opportunity_detection \<and> run_status r = RS_completed"

definition lease_ok :: "operator_run \<Rightarrow> bool" where
  "lease_ok r \<longleftrightarrow> (run_lease_owner r = None \<longleftrightarrow> run_lease_expires_at r = None)
     \<and> (run_lease_owner r \<noteq> None \<longleftrightarrow> run_run_kind r = RK_opportunity_detection \<and> run_status r = RS_running)"

definition evaluation_of :: "operator_run \<Rightarrow> evaluation_row \<Rightarrow> bool" where
  "evaluation_of r e \<longleftrightarrow> evr_operator_run_id e = run_id r \<and> evr_workspace_id e = run_workspace_id r
     \<and> run_product_id r = Some (evr_product_id e) \<and> run_input_fingerprint r = Some (evr_input_fingerprint e)"

definition snapshot_of :: "operator_run \<Rightarrow> run_snapshot \<Rightarrow> bool" where
  "snapshot_of r s \<longleftrightarrow> rs_operator_run_id s = run_id r \<and> rs_workspace_id s = run_workspace_id r
     \<and> run_product_id r = Some (rs_product_id s) \<and> run_input_fingerprint r = Some (rs_input_hash s)"

definition results_ok :: "run_db \<Rightarrow> bool" where
  "results_ok db \<longleftrightarrow>
     (\<forall>e \<in> set (od_evaluations (rd_operator db)). \<exists>r \<in> set (rd_runs db). detected r \<and> evaluation_of r e)
     \<and> (\<forall>s \<in> set (rd_snapshots db). \<exists>r \<in> set (rd_runs db). detected r \<and> snapshot_of r s)
     \<and> (\<forall>r \<in> set (rd_runs db). detected r \<longrightarrow> (\<exists>s \<in> set (rd_snapshots db). snapshot_of r s)
          \<and> (\<exists>e \<in> set (od_evaluations (rd_operator db)). evaluation_of r e))
     \<and> distinct (map rs_operator_run_id (rd_snapshots db))"

definition run_inv :: "workflow_env \<Rightarrow> run_db \<Rightarrow> bool" where
  "run_inv env db \<longleftrightarrow> distinct (map run_id (rd_runs db)) \<and> list_all lease_ok (rd_runs db) \<and> results_ok db
     \<and> drawn_ids (wf_store env) (rd_operator db)"

section \<open>Looking up and changing runs\<close>

lemma find_run_in: "find_run db rid = Some r \<Longrightarrow> r \<in> set (rd_runs db) \<and> run_id r = rid"
  by (auto simp: find_run_def dest: find_SomeD)

lemma find_run_iff:
  assumes "distinct (map run_id (rd_runs db))"
  shows "find_run db rid = Some r \<longleftrightarrow> r \<in> set (rd_runs db) \<and> run_id r = rid"
proof
  assume r: "r \<in> set (rd_runs db) \<and> run_id r = rid"
  then have "find_run db rid \<noteq> None" by (auto simp: find_run_def find_None_iff)
  then obtain r' where "find_run db rid = Some r'" by blast
  moreover from this have "r' = r"
    using find_run_in r assms by (metis distinct_map inj_onD)
  ultimately show "find_run db rid = Some r" by simp
qed (rule find_run_in)

lemma find_run_unique:
  assumes "distinct (map run_id (rd_runs db))" "find_run db rid = Some run" "r \<in> set (rd_runs db)" "run_id r = rid"
  shows "r = run"
  using find_run_iff [OF assms(1), of rid r] assms(2-4) by simp

lemma distinct_filter_single: "distinct xs \<Longrightarrow> x \<in> set xs \<Longrightarrow> filter (\<lambda>y. y = x) xs = [x]"
  by (induction xs) (auto simp: filter_empty_conv)

lemma filter_single:
  assumes "distinct (map run_id xs)" "run \<in> set xs" "P run"
  shows "filter (\<lambda>r. run_id r = run_id run \<and> P r) xs = [run]"
proof -
  have "filter (\<lambda>r. run_id r = run_id run \<and> P r) xs = filter (\<lambda>r. r = run) xs"
    using assms by (intro filter_cong) (auto dest: inj_onD simp: distinct_map)
  also have "\<dots> = [run]" using assms(1,2) by (simp add: distinct_map distinct_filter_single)
  finally show ?thesis .
qed

lemma find_stronger:
  "find P xs = Some x \<Longrightarrow> (\<And>y. R y \<Longrightarrow> P y) \<Longrightarrow> R x \<Longrightarrow> find R xs = Some x"
  by (induction xs) (auto split: if_splits)

lemma change_run_simps [simp]:
  "rd_runs (change_run rid f db) = map (\<lambda>r. if run_id r = rid then f r else r) (rd_runs db)"
  "od_evaluations (rd_operator (change_run rid f db)) = od_evaluations (rd_operator db)"
  "od_evidence (rd_operator (change_run rid f db)) = od_evidence (rd_operator db)"
  "od_drawn (rd_operator (change_run rid f db)) = od_drawn (rd_operator db)"
  "rd_snapshots (change_run rid f db) = rd_snapshots db"
  "rd_inputs (change_run rid f db) = rd_inputs db"
  by (simp_all add: change_run_def update_run_def)

lemma find_map_id:
  assumes "\<And>r. run_id (f r) = run_id r"
  shows "find (\<lambda>r. run_id r = k) (map (\<lambda>r. if run_id r = rid then f r else r) xs)
    = map_option (\<lambda>r. if run_id r = rid then f r else r) (find (\<lambda>r. run_id r = k) xs)"
  by (induction xs) (auto simp: assms)

lemma find_change_run:
  assumes "\<And>r. run_id (f r) = run_id r"
  shows "find_run (change_run rid f db) rid = map_option f (find_run db rid)"
  unfolding find_run_def change_run_simps find_map_id [OF assms]
  by (cases "find (\<lambda>r. run_id r = rid) (rd_runs db)") (auto dest: find_SomeD)

lemma find_change_run_other:
  assumes "\<And>r. run_id (f r) = run_id r" "rid' \<noteq> rid"
  shows "find_run (change_run rid f db) rid' = find_run db rid'"
  unfolding find_run_def change_run_simps find_map_id [OF assms(1)]
  using assms(2) by (cases "find (\<lambda>r. run_id r = rid') (rd_runs db)") (auto dest: find_SomeD)

text \<open>Changes of a run that keep its identity and its results.\<close>

definition same_results :: "operator_run \<Rightarrow> operator_run \<Rightarrow> bool" where
  "same_results r r' \<longleftrightarrow> run_id r' = run_id r \<and> run_workspace_id r' = run_workspace_id r
     \<and> run_product_id r' = run_product_id r \<and> run_input_fingerprint r' = run_input_fingerprint r
     \<and> (detected r' \<longleftrightarrow> detected r)"

lemma same_resultsD:
  assumes "same_results r r'"
  shows "run_id r' = run_id r" "detected r' = detected r" "evaluation_of r' = evaluation_of r"
    "snapshot_of r' = snapshot_of r"
  using assms by (auto simp: same_results_def evaluation_of_def snapshot_of_def fun_eq_iff)

lemma results_ok_map:
  assumes "results_ok db" "\<And>r. r \<in> set (rd_runs db) \<Longrightarrow> same_results r (g r)" "set (rd_runs db') = g ` set (rd_runs db)"
    and "od_evaluations (rd_operator db') = od_evaluations (rd_operator db)" "rd_snapshots db' = rd_snapshots db"
  shows "results_ok db'"
proof -
  have "(\<exists>r \<in> set (rd_runs db'). detected r \<and> evaluation_of r e)
      \<longleftrightarrow> (\<exists>r \<in> set (rd_runs db). detected r \<and> evaluation_of r e)" for e
    unfolding assms(3) bex_simps(7) by (rule bex_cong) (simp_all add: same_resultsD [OF assms(2)])
  moreover have "(\<exists>r \<in> set (rd_runs db'). detected r \<and> snapshot_of r s)
      \<longleftrightarrow> (\<exists>r \<in> set (rd_runs db). detected r \<and> snapshot_of r s)" for s
    unfolding assms(3) bex_simps(7) by (rule bex_cong) (simp_all add: same_resultsD [OF assms(2)])
  moreover have "(\<forall>r \<in> set (rd_runs db'). detected r \<longrightarrow> (\<exists>s \<in> A. snapshot_of r s) \<and> (\<exists>e \<in> B. evaluation_of r e))
      \<longleftrightarrow> (\<forall>r \<in> set (rd_runs db). detected r \<longrightarrow> (\<exists>s \<in> A. snapshot_of r s) \<and> (\<exists>e \<in> B. evaluation_of r e))" for A B
    unfolding assms(3) ball_simps(9) by (rule ball_cong) (simp_all add: same_resultsD [OF assms(2)])
  ultimately show ?thesis using assms(1) unfolding results_ok_def assms(4,5) by simp
qed

lemma change_run_inv:
  assumes "run_inv env db"
    and "\<And>r. r \<in> set (rd_runs db) \<Longrightarrow> run_id r = rid \<Longrightarrow> same_results r (f r) \<and> lease_ok (f r)"
  shows "run_inv env (change_run rid f db)"
proof -
  let ?g = "\<lambda>r. if run_id r = rid then f r else r"
  have g: "same_results r (?g r)" if "r \<in> set (rd_runs db)" for r
    using assms(2) [OF that] by (auto simp: same_results_def)
  then have ids: "map run_id (map ?g (rd_runs db)) = map run_id (rd_runs db)" by (simp add: same_results_def)
  have "distinct (map run_id (map ?g (rd_runs db)))" unfolding ids using assms(1) by (simp add: run_inv_def)
  moreover have "results_ok (change_run rid f db)"
    by (rule results_ok_map [where db = db and g = ?g]) (use assms(1) g in \<open>simp_all add: run_inv_def\<close>)
  moreover have "list_all lease_ok (map ?g (rd_runs db))"
    using assms by (auto simp: list_all_iff run_inv_def)
  moreover have "drawn_ids (wf_store env) (rd_operator (change_run rid f db))"
    using assms(1) by (simp add: run_inv_def drawn_ids_def)
  ultimately show ?thesis unfolding run_inv_def change_run_simps by blast
qed

lemma add_run_inv:
  assumes "run_inv env db" "run_id r \<notin> run_id ` set (rd_runs db)" "lease_ok r" "\<not> detected r" "od_drawn (rd_operator db) \<le> n"
  shows "run_inv env (db\<lparr>rd_operator := (rd_operator db)\<lparr>od_runs := rd_runs db @ [r], od_drawn := n\<rparr>, rd_outbox := table\<rparr>)"
proof -
  have "sv_uuid (wf_store env) ` {..<od_drawn (rd_operator db)} \<subseteq> sv_uuid (wf_store env) ` {..<n}"
    using assms(5) by (intro image_mono) auto
  then show ?thesis using assms by (auto simp: run_inv_def results_ok_def drawn_ids_def)
qed

section \<open>Every transaction keeps the tables consistent\<close>

lemma drawn_ids_grow:
  "drawn_ids env db \<Longrightarrow> od_evidence db' = od_evidence db \<Longrightarrow> od_drawn db \<le> od_drawn db' \<Longrightarrow> drawn_ids env db'"
  unfolding drawn_ids_def by (metis image_mono lessThan_subset_iff order_trans)

lemma persist_evidence_drawn:
  "persist_evidence env row oid es db = Inr db' \<Longrightarrow> drawn_ids env db \<Longrightarrow> evr_id row \<in> sv_uuid env ` {..<od_drawn db}
     \<Longrightarrow> drawn_ids env db' \<and> od_drawn db \<le> od_drawn db'"
proof (induction es arbitrary: db)
  case (Cons e es)
  let ?v = "\<lparr>evd_id = sv_uuid env (od_drawn db), evd_workspace_id = evr_workspace_id row,
        evd_product_id = evr_product_id row, evd_evaluation_id = evr_id row,
        evd_opportunity_id = oid, evd_evidence = stored_evidence e,
        evd_source_fingerprint = sv_source_digest env e, evd_schema_version = ''1''\<rparr>"
  from Cons.prems(1) obtain db1 where db1: "add_evidence ?v (db\<lparr>od_drawn := od_drawn db + 1\<rparr>) = Inr db1"
    "persist_evidence env row oid es db1 = Inr db'" by (auto simp: res_bind_eq_Inr)
  have "drawn_ids env db1 \<and> od_drawn db1 = od_drawn db + 1"
    using add_results(3) [OF db1(1)] Cons.prems(2,3) by (auto simp: drawn_ids_def less_Suc_eq)
  then show ?case using Cons.IH [OF db1(2)] Cons.prems(3) by (force simp: less_Suc_eq)
qed simp

lemma persist_one_drawn:
  assumes "persist_one env w p run asm i e db = Inr (row, db')" "drawn_ids env db"
  shows "drawn_ids env db' \<and> od_drawn db \<le> od_drawn db'"
proof -
  let ?first = "case (de_outcome e, de_candidate e) of
          (EO_accepted, Some c) \<Rightarrow>
            let oid = sv_uuid env (od_drawn db) in
            res_bind (add_opportunity (new_opportunity oid w p run asm i e c)
                        (db\<lparr>od_drawn := od_drawn db + 1\<rparr>))
              (\<lambda>db'. Inr (Some oid, db'))
        | _ \<Rightarrow> Inr (None, db)"
  let ?row = "\<lambda>oid db1. new_evaluation env (sv_uuid env (od_drawn db1)) oid w p run asm i e"
  from assms(1) obtain oid db1 db2 where f: "?first = Inr (oid, db1)"
    and r: "row = ?row oid db1"
    and a: "add_evaluation (?row oid db1) (db1\<lparr>od_drawn := od_drawn db1 + 1\<rparr>) = Inr db2"
    and v: "(case de_candidate e of None \<Rightarrow> Inr db2
           | Some c \<Rightarrow> persist_evidence env row oid (dc_evidence c) db2) = Inr db'"
    unfolding persist_one_def Let_def by (auto simp: res_bind_eq_Inr)
  have 1: "drawn_ids env db1 \<and> od_drawn db \<le> od_drawn db1"
    using f drawn_ids_grow [OF assms(2), of db1]
    by (auto simp: res_bind_eq_Inr Let_def assms(2)
        split: option.splits evaluation_outcome.splits dest!: add_results(1))
  have 2: "drawn_ids env db2 \<and> od_drawn db2 = od_drawn db1 + 1"
    using add_results(2) [OF a] 1 by (auto simp: drawn_ids_def less_Suc_eq)
  then have "evr_id row \<in> sv_uuid env ` {..<od_drawn db2}" using r by (simp add: new_evaluation_def Let_def)
  then show ?thesis using v 1 2 persist_evidence_drawn [of env row oid _ db2 db']
    by (force split: option.splits)
qed

lemma persist_all_drawn:
  "persist_all env w p run asm i es db = Inr (rows, db') \<Longrightarrow> drawn_ids env db
     \<Longrightarrow> drawn_ids env db' \<and> od_drawn db \<le> od_drawn db'"
proof (induction es arbitrary: i db rows)
  case (Cons e es)
  from Cons.prems(1) obtain row rows' db1 where one: "persist_one env w p run asm i e db = Inr (row, db1)"
    and rest: "persist_all env w p run asm (i + 1) es db1 = Inr (rows', db')"
    by (auto simp: res_bind_eq_Inr)
  from persist_one_drawn [OF one Cons.prems(2)] Cons.IH [OF rest] show ?case by simp
qed simp

lemma claim_run_inv:
  assumes "claim_run env owner now rid w p db = Inr (c, db')" "run_inv env db"
  shows "run_inv env db'"
proof -
  have lease: "lease_ok r" if "r \<in> set (rd_runs db)" for r
    using assms(2) that by (simp add: run_inv_def list_all_iff)
  have ids: "distinct (map run_id (rd_runs db))" using assms(2) by (simp add: run_inv_def)
  consider "db' = db"
    | run where "find_run db rid = Some run" "run_status run \<in> {RS_completed, RS_stopped, RS_failed}" "db' = change_run rid clear_lease db"
    | run where "find_run db rid = Some run" "run_run_kind run = RK_opportunity_detection"
        "run_status run \<notin> {RS_completed, RS_stopped, RS_failed}" "db' = change_run rid (claimed_run env owner now) db"
    using assms(1) by (auto simp: claim_run_def Let_def split: option.splits if_splits)
  then show ?thesis
  proof cases
    case 1
    then show ?thesis using assms(2) by simp
  next
    case (2 run)
    have "same_results r (clear_lease r) \<and> lease_ok (clear_lease r)" if "r \<in> set (rd_runs db)" "run_id r = rid" for r
    proof -
      have "r = run" by (rule find_run_unique [OF ids 2(1) that])
      then show ?thesis using lease [OF that(1)] 2(2)
        by (auto simp: same_results_def clear_lease_def detected_def lease_ok_def)
    qed
    then show ?thesis unfolding 2(3) by (rule change_run_inv [OF assms(2)])
  next
    case (3 run)
    have "same_results r (claimed_run env owner now r) \<and> lease_ok (claimed_run env owner now r)"
      if "r \<in> set (rd_runs db)" "run_id r = rid" for r
    proof -
      have "r = run" by (rule find_run_unique [OF ids 3(1) that])
      then show ?thesis using 3(2,3) by (auto simp: same_results_def claimed_run_def detected_def lease_ok_def)
    qed
    then show ?thesis unfolding 3(4) by (rule change_run_inv [OF assms(2)])
  qed
qed

lemma leased_change_inv:
  assumes "run_inv env db"
    and "\<And>r. lease_ok r \<Longrightarrow> P r \<Longrightarrow> same_results r (f r) \<and> lease_ok (f r)"
  shows "run_inv env (change_run rid (\<lambda>r. if P r then f r else r) db)"
proof (rule change_run_inv [OF assms(1)])
  fix r assume "r \<in> set (rd_runs db)"
  then have "lease_ok r" using assms(1) by (simp add: run_inv_def list_all_iff)
  then show "same_results r (if P r then f r else r) \<and> lease_ok (if P r then f r else r)"
    using assms(2) by (simp add: same_results_def)
qed

lemma renew_inv: "renew_lease env owner now rid db = Inr db' \<Longrightarrow> run_inv env db \<Longrightarrow> run_inv env db'"
  by (auto simp: renew_lease_def same_results_def lease_ok_def detected_def
      split: if_splits intro!: leased_change_inv)

lemma stop_inv: "stop_run owner now rid reason db = Inr db' \<Longrightarrow> run_inv env db \<Longrightarrow> run_inv env db'"
  by (auto simp: stop_run_def same_results_def lease_ok_def detected_def clear_lease_def
      split: if_splits intro!: leased_change_inv)

lemma release_run_inv: "run_inv env db \<Longrightarrow> run_inv env (release_run owner rid db)"
  unfolding release_run_def
  by (rule leased_change_inv) (auto simp: same_results_def lease_ok_def detected_def clear_lease_def)

text \<open>What a first store leaves behind. The run was leased, so it was running and had no snapshot.\<close>

definition stored_run :: "string \<Rightarrow> instant \<Rightarrow> pyval \<Rightarrow> operator_run \<Rightarrow> operator_run" where
  "stored_run h now summary r = clear_lease (complete_run h now summary r)"

lemma no_snapshot:
  assumes "run_inv env db" "find_run db rid = Some run" "\<not> detected run"
  shows "rid \<notin> rs_operator_run_id ` set (rd_snapshots db)"
proof
  assume "rid \<in> rs_operator_run_id ` set (rd_snapshots db)"
  then obtain s where s: "s \<in> set (rd_snapshots db)" "rs_operator_run_id s = rid" by blast
  then obtain r where r: "r \<in> set (rd_runs db)" "detected r" "snapshot_of r s"
    using assms(1) by (auto simp: run_inv_def results_ok_def)
  then have "run_id r = rid" using s(2) by (simp add: snapshot_of_def)
  then have "r = run" using find_run_unique [OF _ assms(2) r(1)] assms(1) by (simp add: run_inv_def)
  then show False using r(2) assms(3) by simp
qed

lemma store_fresh:
  assumes "store_detection env owner now rid w p a db = Inr (rows, db')"
    and "list_for_run (rd_operator db) w p rid = []" "run_inv env db"
  obtains run persisted where "find_run db rid = Some run" "run_workspace_id run = w" "run_product_id run = Some p"
    "run_run_kind run = RK_opportunity_detection" "run_status run = RS_running" "run_lease_owner run = Some owner"
    "rd_runs db' = map (\<lambda>r. if run_id r = rid
       then stored_run (sa_input_hash a) now (summarize_evaluations persisted) r else r) (rd_runs db)"
    "od_evaluations (rd_operator db') = od_evaluations (rd_operator db) @ persisted" "persisted \<noteq> []"
    "\<forall>e \<in> set persisted. of_run w p rid e \<and> evr_input_fingerprint e = sa_input_hash a"
    "rows = sort_key evr_evaluation_key persisted"
    "rd_snapshots db' = rd_snapshots db
       @ [new_snapshot (sv_uuid (wf_store env) (od_drawn (rd_operator db))) w p rid a]"
    "drawn_ids (wf_store env) (rd_operator db')" "od_drawn (rd_operator db) < od_drawn (rd_operator db')"
    "rd_inputs db' = rd_inputs db"
proof -
  let ?odb = "(rd_operator db)\<lparr>od_drawn := od_drawn (rd_operator db) + 1\<rparr>"
  let ?asm = "\<lparr>da_detection_input = sa_detection_input a, da_input_hash = sa_input_hash a\<rparr>"
  let ?i = "sv_uuid (wf_store env) (od_drawn (rd_operator db))"
  from assms(1,2) obtain x snapshots odb' where
    sn: "persist_run_snapshot (workflow_snapshot_env env) ?i w p rid a (rd_snapshots db) = Inr (x, snapshots)"
    and tx: "detection_transaction (wf_store env) now w p rid ?asm (Some owner) ?odb = Inr (rows, odb')"
    and db': "db' = db\<lparr>rd_operator := odb', rd_snapshots := snapshots\<rparr>"
    unfolding store_detection_def Let_def by (auto simp: res_bind_eq_Inr)
  have fresh: "list_for_run ?odb w p rid = []" using assms(2) by (simp add: list_for_run_def)
  obtain run raw persisted odb1 where r: "get_product_run ?odb w p rid = Some run"
    "run_run_kind run = RK_opportunity_detection"
    and raw: "evaluate_detection_input (sv_engine (wf_store env)) (sa_detection_input a) = Inr raw"
    and pa: "persist_all (wf_store env) w p run ?asm 0 raw ?odb = Inr (persisted, odb1)"
    and own: "run_lease_owner run = Some owner" and rows: "rows = sort_key evr_evaluation_key persisted"
    and odb': "odb' = update_run rid (stored_run (sa_input_hash a) now (summarize_evaluations persisted)) odb1"
    by (rule transaction_fresh [OF tx fresh]) (rule that, simp_all add: stored_run_def [abs_def])
  have run: "run \<in> set (rd_runs db)" "run_id run = rid" "run_workspace_id run = w" "run_product_id run = Some p"
    using get_product_run_in [OF r(1)] by auto
  have found: "find_run db rid = Some run"
    using find_run_iff run(1,2) assms(3) by (simp add: run_inv_def)
  have "lease_ok run" using run(1) assms(3) by (simp add: run_inv_def list_all_iff)
  then have status: "run_status run = RS_running" using own by (simp add: lease_ok_def)
  then have "\<not> detected run" by (simp add: detected_def)
  from no_snapshot [OF assms(3) found this]
  have "find (\<lambda>x. rs_workspace_id x = w \<and> rs_product_id x = p \<and> rs_operator_run_id x = rid) (rd_snapshots db) = None"
    by (auto simp: find_None_iff image_iff)
  then have snaps: "snapshots = rd_snapshots db @ [new_snapshot ?i w p rid a]"
    using sn by (auto simp: persist_run_snapshot_def Let_def split: if_splits)
  obtain opps evs where ad: "adds ?odb odb1 opps persisted evs"
    "list_all2 (\<lambda>(j, e) row. stored_evaluation (wf_store env) w p (run_id run) (da_input_hash ?asm) j e row)
        (enumerate 0 raw) persisted"
    using persist_all_result [OF pa] by blast
  have evals: "\<forall>e \<in> set persisted. of_run w p rid e \<and> evr_input_fingerprint e = sa_input_hash a"
  proof
    fix e assume "e \<in> set persisted"
    from list_all2_right [OF ad(2) this] run(2)
    show "of_run w p rid e \<and> evr_input_fingerprint e = sa_input_hash a" by (auto simp: stored_evaluation_def)
  qed
  have "length persisted = length raw" using ad(2) by (auto dest: list_all2_lengthD)
  then have ne: "persisted \<noteq> []" using evaluate_nonempty [OF raw] by auto
  have "drawn_ids (wf_store env) ?odb"
    by (rule drawn_ids_grow [where db = "rd_operator db"]) (use assms(3) in \<open>simp_all add: run_inv_def\<close>)
  from persist_all_drawn [OF pa this]
  have drawn: "drawn_ids (wf_store env) odb'" "od_drawn (rd_operator db) < od_drawn odb'"
    by (simp_all add: odb' update_run_def drawn_ids_def)
  show thesis
    by (rule that [OF found run(3,4) r(2) status own _ _ ne evals rows])
       (use ad(1) odb' drawn snaps in \<open>simp_all add: db' adds_def update_run_def\<close>)
qed

lemma results_ok_store:
  assumes res: "results_ok db" and ids: "distinct (map run_id (rd_runs db))"
    and found: "find_run db rid = Some run" "\<not> detected run"
    and new: "detected (f run)" "\<forall>e \<in> set persisted. evaluation_of (f run) e" "persisted \<noteq> []" "snapshot_of (f run) x"
    and fresh: "rs_operator_run_id x \<notin> rs_operator_run_id ` set (rd_snapshots db)"
    and db': "rd_runs db' = map (\<lambda>r. if run_id r = rid then f r else r) (rd_runs db)"
      "od_evaluations (rd_operator db') = od_evaluations (rd_operator db) @ persisted"
      "rd_snapshots db' = rd_snapshots db @ [x]"
  shows "results_ok db'"
  unfolding results_ok_def
proof (intro conjI ballI impI)
  let ?g = "\<lambda>r. if run_id r = rid then f r else r"
  have old: "?g r = r" if "r \<in> set (rd_runs db)" "detected r" for r
    using find_run_unique [OF ids found(1) that(1)] that(2) found(2) by auto
  have in_new: "f run \<in> set (rd_runs db')" "\<And>r. r \<in> set (rd_runs db) \<Longrightarrow> detected r \<Longrightarrow> r \<in> set (rd_runs db')"
    using find_run_in [OF found(1)] old unfolding db'(1) by force+
  show "\<exists>r \<in> set (rd_runs db'). detected r \<and> evaluation_of r e" if e: "e \<in> set (od_evaluations (rd_operator db'))" for e
  proof -
    consider "e \<in> set (od_evaluations (rd_operator db))" | "e \<in> set persisted" using e db'(2) by auto
    then show ?thesis using res new(1,2) in_new unfolding results_ok_def by cases blast+
  qed
  show "\<exists>r \<in> set (rd_runs db'). detected r \<and> snapshot_of r s" if s: "s \<in> set (rd_snapshots db')" for s
  proof -
    consider "s \<in> set (rd_snapshots db)" | "s = x" using s db'(3) by auto
    then show ?thesis using res new(1,4) in_new unfolding results_ok_def by cases blast+
  qed
  show "distinct (map rs_operator_run_id (rd_snapshots db'))" using res fresh db'(3) by (simp add: results_ok_def)
  fix r assume "r \<in> set (rd_runs db')" and d: "detected r"
  then obtain r0 where r0: "r0 \<in> set (rd_runs db)" "r = ?g r0" unfolding db'(1) by auto
  then consider "r = f run" | "r \<in> set (rd_runs db)" using find_run_unique [OF ids found(1)] by metis
  then have "(\<exists>s \<in> set (rd_snapshots db'). snapshot_of r s)
      \<and> (\<exists>e \<in> set (od_evaluations (rd_operator db')). evaluation_of r e)"
    unfolding db'(2,3) using res d new(2-4) by cases (auto simp: results_ok_def neq_Nil_conv)
  then show "\<exists>s \<in> set (rd_snapshots db'). snapshot_of r s"
    "\<exists>e \<in> set (od_evaluations (rd_operator db')). evaluation_of r e" by blast+
qed

lemma store_inv:
  assumes "store_detection env owner now rid w p a db = Inr (rows, db')" "run_inv env db"
  shows "run_inv env db'"
proof (cases "list_for_run (rd_operator db) w p rid = []")
  case False
  then have "db' = db" using assms(1) by (auto simp: store_detection_def Let_def res_bind_eq_Inr)
  then show ?thesis using assms(2) by simp
next
  case True
  obtain run persisted where found: "find_run db rid = Some run" and run: "run_workspace_id run = w"
      "run_product_id run = Some p" "run_run_kind run = RK_opportunity_detection" "run_status run = RS_running"
    and runs: "rd_runs db' = map (\<lambda>r. if run_id r = rid
       then stored_run (sa_input_hash a) now (summarize_evaluations persisted) r else r) (rd_runs db)"
    and evs: "od_evaluations (rd_operator db') = od_evaluations (rd_operator db) @ persisted" "persisted \<noteq> []"
      "\<forall>e \<in> set persisted. of_run w p rid e \<and> evr_input_fingerprint e = sa_input_hash a"
    and snaps: "rd_snapshots db' = rd_snapshots db
       @ [new_snapshot (sv_uuid (wf_store env) (od_drawn (rd_operator db))) w p rid a]"
    and drawn: "drawn_ids (wf_store env) (rd_operator db')"
    by (rule store_fresh [OF assms(1) True assms(2)]) (rule that)
  let ?f = "stored_run (sa_input_hash a) now (summarize_evaluations persisted)"
  note ok = assms(2) [unfolded run_inv_def]
  have f: "run_id (?f r) = run_id r" "lease_ok (?f r)" for r
    by (simp_all add: stored_run_def clear_lease_def complete_run_def lease_ok_def)
  have nd: "\<not> detected run" using run(4) by (simp add: detected_def)
  have new: "detected (?f run)" "snapshot_of (?f run) (new_snapshot i w p rid a)"
    "of_run w p rid e \<and> evr_input_fingerprint e = sa_input_hash a \<Longrightarrow> evaluation_of (?f run) e" for e i
    using run find_run_in [OF found]
    by (auto simp: stored_run_def clear_lease_def complete_run_def detected_def evaluation_of_def of_run_def
        snapshot_of_def new_snapshot_def)
  have "results_ok db'"
    by (rule results_ok_store [OF _ _ found nd new(1) _ evs(2) new(2) _ runs evs(1) snaps])
       (use ok evs(3) new(3) no_snapshot [OF assms(2) found nd] in \<open>auto simp: new_snapshot_def\<close>)
  moreover have "map run_id (rd_runs db') = map run_id (rd_runs db)" unfolding runs by (simp add: f(1))
  moreover have "list_all lease_ok (rd_runs db')" using ok f(2) unfolding runs by (auto simp: list_all_iff)
  ultimately show ?thesis using ok drawn unfolding run_inv_def by simp
qed

lemma detection_run_new: "lease_ok (detection_run i w p t k f v u) \<and> \<not> detected (detection_run i w p t k f v u)"
  by (simp add: detection_run_def lease_ok_def detected_def)

interpretation run_insert: idempotent_insert "\<lambda>r. (run_workspace_id r, run_product_id r, run_idempotency_key r)"
    "insert_run dialect" for dialect
  unfolding insert_run_def by (rule insert_or_replay_contract) (auto simp: matches_def run_column_def)

lemma request_result:
  assumes "request_operator_run env now w p actor k db = Inr (run, db')"
  obtains v b runs table where "insert_run (wf_dialect env) (detection_run (sv_uuid (wf_store env)
      (od_drawn (rd_operator db))) w p ''manual'' (py_strip k)
      (request_fingerprint (sv_engine (wf_store env)) ''manual'') (PDict []) actor) (rd_runs db) = Inr ((v, b), runs)"
    "db' = db\<lparr>rd_operator := (rd_operator db)\<lparr>od_runs := runs, od_drawn := od_drawn (rd_operator db) + 2\<rparr>, rd_outbox := table\<rparr>"
    "find_run db' (run_id v) = Some run"
    "enqueue_run_requested env now (sv_uuid (wf_store env) (od_drawn (rd_operator db) + 1)) (run_id v) w p
       (rd_outbox db) = Inr table"
    "keyed_run db w p (py_strip k) = None \<longrightarrow> active_detection_run db w p = None"
  using assms unfolding request_operator_run_def Let_def
  by (auto simp: res_bind_eq_Inr split: if_splits option.splits)

lemma request_inv:
  assumes "request_operator_run env now w p actor k db = Inr (run, db')" "run_inv env db"
  shows "run_inv env db'"
proof -
  let ?new = "detection_run (sv_uuid (wf_store env) (od_drawn (rd_operator db))) w p ''manual'' (py_strip k)
      (request_fingerprint (sv_engine (wf_store env)) ''manual'') (PDict []) actor"
  obtain v b runs table where ins: "insert_run (wf_dialect env) ?new (rd_runs db) = Inr ((v, b), runs)"
    and db': "db' = db\<lparr>rd_operator := (rd_operator db)\<lparr>od_runs := runs, od_drawn := od_drawn (rd_operator db) + 2\<rparr>, rd_outbox := table\<rparr>"
    by (rule request_result [OF assms(1)]) (rule that)
  have pk: "distinct (map run_id runs)"
    using insert_or_replay_keeps_pk [OF ins [unfolded insert_run_def]] assms(2) by (simp add: run_inv_def)
  consider "runs = rd_runs db" | "runs = rd_runs db @ [?new]"
    using insert_or_replay_rows [OF ins [unfolded insert_run_def]] by blast
  then show ?thesis
  proof cases
    case 1
    have "drawn_ids (wf_store env) (rd_operator db')"
      by (rule drawn_ids_grow [where db = "rd_operator db"]) (use assms(2) in \<open>simp_all add: db' run_inv_def\<close>)
    then show ?thesis using assms(2) 1 by (simp add: run_inv_def results_ok_def db')
  next
    case 2
    then have "run_id ?new \<notin> run_id ` set (rd_runs db)" using pk by simp
    then show ?thesis unfolding db' 2 using assms(2) detection_run_new by (intro add_run_inv) simp_all
  qed
qed

lemma request_runs:
  assumes "request_operator_run env now w p actor k db = Inr (run, db')"
  shows "\<exists>rs. rd_runs db' = rd_runs db @ rs"
proof -
  obtain v b runs table where ins: "insert_run (wf_dialect env) (detection_run (sv_uuid (wf_store env)
      (od_drawn (rd_operator db))) w p ''manual'' (py_strip k)
      (request_fingerprint (sv_engine (wf_store env)) ''manual'') (PDict []) actor) (rd_runs db) = Inr ((v, b), runs)"
    and db': "db' = db\<lparr>rd_operator := (rd_operator db)\<lparr>od_runs := runs, od_drawn := od_drawn (rd_operator db) + 2\<rparr>, rd_outbox := table\<rparr>"
    by (rule request_result [OF assms]) (rule that)
  from insert_or_replay_rows [OF ins [unfolded insert_run_def]] show ?thesis
    unfolding db' by (elim disjE) simp_all
qed

lemma child_inv:
  assumes "start_child_run env weekly w p db = Inr (run, db')" "run_inv env db"
  shows "run_inv env db'"
proof -
  from assms(1) have db': "db' = db\<lparr>rd_operator := (rd_operator db)
      \<lparr>od_runs := rd_runs db @ [run], od_drawn := od_drawn (rd_operator db) + 1\<rparr>, rd_outbox := rd_outbox db\<rparr>"
    and run: "run_id run \<notin> run_id ` set (rd_runs db)" "lease_ok run \<and> \<not> detected run"
    using detection_run_new
    by (auto simp: start_child_run_def Let_def find_run_def find_None_iff image_iff split: if_splits)
  show ?thesis unfolding db' using assms(2) run by (intro add_run_inv) simp_all
qed

section \<open>Steps of the workers\<close>

text \<open>A step of the worker \<open>who\<close> at the time \<open>now\<close>. The rest of the program may change everything but
  the detection runs and their results.\<close>

definition weekly_change :: "operator_run \<Rightarrow> operator_run \<Rightarrow> bool" where
  "weekly_change r r' \<longleftrightarrow> same_results r r' \<and> run_run_kind r' = run_run_kind r
     \<and> (run_run_kind r = RK_opportunity_detection \<longrightarrow> r' = r)
     \<and> (run_run_kind r \<noteq> RK_opportunity_detection \<longrightarrow> run_lease_owner r' = None \<and> run_lease_expires_at r' = None)"

inductive run_step :: "workflow_env \<Rightarrow> string \<Rightarrow> instant \<Rightarrow> run_db \<Rightarrow> run_db \<Rightarrow> bool" for env where
  step_request: "request_operator_run env now w p actor k db = Inr (run, db') \<Longrightarrow> run_step env who now db db'"
| step_child: "start_child_run env weekly w p db = Inr (run, db') \<Longrightarrow> run_step env who now db db'"
| step_claim: "claim_run env who now rid w p db = Inr (c, db') \<Longrightarrow> run_step env who now db db'"
| step_renew: "renew_lease env who now rid db = Inr db' \<Longrightarrow> run_step env who now db db'"
| step_store: "store_detection env who now rid w p a db = Inr (rows, db') \<Longrightarrow> run_step env who now db db'"
| step_stop: "stop_run who now rid reason db = Inr db' \<Longrightarrow> run_step env who now db db'"
| step_release: "run_step env who now db (release_run who rid db)"
| step_weekly: "(\<And>r. weekly_change r (f r)) \<Longrightarrow> run_step env who now db (change_run rid f db)"
| step_add_weekly: "run_run_kind r \<noteq> RK_opportunity_detection \<Longrightarrow> run_lease_owner r = None \<Longrightarrow>
    run_lease_expires_at r = None \<Longrightarrow> run_id r \<notin> run_id ` set (rd_runs db) \<Longrightarrow>
    run_step env who now db (db\<lparr>rd_operator := (rd_operator db)\<lparr>od_runs := rd_runs db @ [r]\<rparr>\<rparr>)"
| step_facts: "run_step env who now db (db\<lparr>rd_operator := (rd_operator db)\<lparr>od_opportunities := xs\<rparr>,
    rd_inputs := facts, rd_created := created, rd_memberships := members, rd_outbox := table\<rparr>)"

lemma weekly_change_inv:
  assumes "\<And>r. weekly_change r (f r)" "run_inv env db"
  shows "run_inv env (change_run rid f db)"
proof (rule change_run_inv [OF assms(2)])
  fix r assume "r \<in> set (rd_runs db)"
  then have "lease_ok r" using assms(2) by (simp add: run_inv_def list_all_iff)
  then show "same_results r (f r) \<and> lease_ok (f r)"
    using assms(1) [of r] by (cases "run_run_kind r = RK_opportunity_detection") (auto simp: weekly_change_def lease_ok_def)
qed

lemma run_step_inv: "run_step env who now db db' \<Longrightarrow> run_inv env db \<Longrightarrow> run_inv env db'"
proof (induction rule: run_step.induct)
  case (step_add_weekly r db who now)
  then show ?case
    using add_run_inv [of env db r "od_drawn (rd_operator db)" "rd_outbox db"]
    by (simp add: lease_ok_def detected_def)
next
  case (step_facts who now db xs facts created members table)
  then show ?case by (simp add: run_inv_def results_ok_def drawn_ids_def)
qed (auto intro: request_inv child_inv claim_run_inv renew_inv store_inv stop_inv release_run_inv weekly_change_inv)

text \<open>The steps of other workers before \<open>t\<close>; they leave a run alone that is leased until then.\<close>

definition other_steps :: "workflow_env \<Rightarrow> string \<Rightarrow> instant \<Rightarrow> run_db \<Rightarrow> run_db \<Rightarrow> bool" where
  "other_steps env owner t = (\<lambda>db db'. \<exists>who now. who \<noteq> owner \<and> now < t \<and> run_step env who now db db')\<^sup>*\<^sup>*"

definition held :: "string \<Rightarrow> instant \<Rightarrow> uuid \<Rightarrow> operator_run \<Rightarrow> run_db \<Rightarrow> bool" where
  "held owner t rid run db \<longleftrightarrow> find_run db rid = Some run \<and> run_lease_owner run = Some owner
     \<and> run_lease_expires_at run = Some t"

lemma find_run_append:
  "find_run db rid = Some run \<Longrightarrow> rd_runs db' = rd_runs db @ rs \<Longrightarrow> find_run db' rid = Some run"
proof -
  have "find P xs = Some x \<Longrightarrow> find P (xs @ rs) = Some x" for P xs and x :: operator_run
    by (induction xs) auto
  then show "find_run db rid = Some run \<Longrightarrow> rd_runs db' = rd_runs db @ rs \<Longrightarrow> find_run db' rid = Some run"
    by (simp add: find_run_def)
qed

lemma append_held: "held owner t rid run db \<Longrightarrow> rd_runs db' = rd_runs db @ rs \<Longrightarrow> held owner t rid run db'"
  using find_run_append [of db rid run db' rs] by (simp add: held_def)

lemma change_run_held:
  assumes "held owner t rid run db" "\<And>r. run_id (f r) = run_id r" "rid' = rid \<Longrightarrow> f run = run"
  shows "held owner t rid run (change_run rid' f db)"
proof (cases "rid' = rid")
  case True
  then show ?thesis using assms(1,3) find_change_run [OF assms(2), of rid db] by (simp add: held_def)
next
  case False
  then show ?thesis using assms(1) find_change_run_other [OF assms(2), of rid rid' db] by (simp add: held_def)
qed

lemma unowned_held:
  assumes "held owner t rid run db" "\<And>r. run_id (f r) = run_id r" "\<And>r. P r \<Longrightarrow> run_lease_owner r \<noteq> Some owner"
  shows "held owner t rid run (change_run rid' (\<lambda>r. if P r then f r else r) db)"
  by (rule change_run_held [OF assms(1)]) (use assms in \<open>auto simp: held_def\<close>)

lemma claim_held:
  assumes "claim_run env who now rid' w p db = Inr (c, db')" "held owner t rid run db" "run_inv env db" "now < t"
  shows "held owner t rid run db'"
proof -
  have run: "run_run_kind run = RK_opportunity_detection \<and> run_status run = RS_running"
    using assms(2,3) find_run_in [of db rid run] by (auto simp: held_def run_inv_def list_all_iff lease_ok_def)
  have "db' = db \<or> rid' \<noteq> rid \<and> (\<exists>f. db' = change_run rid' f db \<and> (\<forall>r. run_id (f r) = run_id r))"
  proof (cases "rid' = rid")
    case True
    then show ?thesis using assms(1,2,4) run by (auto simp: claim_run_def Let_def held_def split: if_splits)
  next
    case False
    have "run_id (clear_lease r) = run_id r" "run_id (claimed_run env who now r) = run_id r" for r
      by (simp_all add: clear_lease_def claimed_run_def)
    then show ?thesis using assms(1) False
      by (auto simp: claim_run_def Let_def split: option.splits if_splits)
  qed
  then show ?thesis using assms(2) by (auto intro: change_run_held)
qed

lemma store_held:
  assumes "store_detection env who now rid' w p a db = Inr (rows, db')" "held owner t rid run db"
    and "run_inv env db" "who \<noteq> owner"
  shows "held owner t rid run db'"
proof (cases "list_for_run (rd_operator db) w p rid' = []")
  case False
  then have "db' = db" using assms(1) by (auto simp: store_detection_def Let_def res_bind_eq_Inr)
  then show ?thesis using assms(2) by simp
next
  case True
  obtain run' persisted where found: "find_run db rid' = Some run'" "run_lease_owner run' = Some who"
    and runs: "rd_runs db' = map (\<lambda>r. if run_id r = rid'
       then stored_run (sa_input_hash a) now (summarize_evaluations persisted) r else r) (rd_runs db)"
    by (rule store_fresh [OF assms(1) True assms(3)]) (rule that)
  have "rid' \<noteq> rid" using assms(2,4) found by (auto simp: held_def)
  then have "held owner t rid run (change_run rid' (stored_run (sa_input_hash a) now (summarize_evaluations persisted)) db)"
    by (intro change_run_held [OF assms(2)]) (simp_all add: stored_run_def clear_lease_def complete_run_def)
  then show ?thesis using runs by (simp add: held_def find_run_def)
qed

lemma step_held:
  assumes "run_step env who now db db'" "held owner t rid run db" "run_inv env db" "who \<noteq> owner" "now < t"
  shows "held owner t rid run db'"
  using assms(1)
proof cases
  case (step_request w p actor k new)
  then obtain rs where "rd_runs db' = rd_runs db @ rs" using request_runs by blast
  then show ?thesis by (rule append_held [OF assms(2)])
next
  case (step_child weekly w p new)
  then have "rd_runs db' = rd_runs db @ [new]" by (auto simp: start_child_run_def Let_def split: if_splits)
  then show ?thesis by (rule append_held [OF assms(2)])
next
  case (step_claim rid' w p c)
  then show ?thesis using claim_held assms by blast
next
  case (step_renew rid')
  then show ?thesis using assms(2,4) by (auto simp: renew_lease_def split: if_splits intro!: unowned_held)
next
  case (step_store rid' w p a rows)
  then show ?thesis using store_held assms by blast
next
  case (step_stop rid' reason)
  then show ?thesis using assms(2,4)
    by (auto simp: stop_run_def clear_lease_def split: if_splits intro!: unowned_held)
next
  case (step_release rid')
  then show ?thesis using assms(2,4) by (auto simp: release_run_def clear_lease_def intro!: unowned_held)
next
  case (step_weekly f rid')
  moreover have "run_run_kind run = RK_opportunity_detection"
    using assms(2,3) find_run_in [of db rid run] by (auto simp: held_def run_inv_def list_all_iff lease_ok_def)
  ultimately show ?thesis using assms(2)
    by (auto simp: weekly_change_def same_results_def intro!: change_run_held)
next
  case (step_add_weekly r)
  show ?thesis by (rule append_held [OF assms(2), of _ "[r]"]) (simp add: step_add_weekly)
next
  case (step_facts xs facts created members table)
  then show ?thesis using assms(2) by (simp add: held_def find_run_def)
qed

lemma other_steps_held:
  assumes "other_steps env owner t' db db'" "held owner t rid run db" "run_inv env db" "t' \<le> t"
  shows "held owner t rid run db' \<and> run_inv env db'"
  using assms(1) unfolding other_steps_def
proof (induction rule: rtranclp_induct)
  case base
  then show ?case using assms by simp
next
  case (step y z)
  then obtain who now where "who \<noteq> owner" "now < t'" "run_step env who now y z" by blast
  with step.IH assms(4) step_held run_step_inv show ?case by fastforce
qed

section \<open>A worker and its run\<close>

definition claimable_run :: "run_db \<Rightarrow> instant \<Rightarrow> uuid \<Rightarrow> uuid \<Rightarrow> uuid \<Rightarrow> operator_run \<Rightarrow> bool" where
  "claimable_run db now rid w p run \<longleftrightarrow> find_run db rid = Some run \<and> run_run_kind run = RK_opportunity_detection
     \<and> run_workspace_id run = w \<and> run_product_id run = Some p
     \<and> (run_status run = RS_pending
        \<or> run_status run = RS_running \<and> (case run_lease_expires_at run of None \<Rightarrow> True | Some t \<Rightarrow> t \<le> now))"

definition cutoff :: "operator_run \<Rightarrow> instant \<Rightarrow> instant" where
  "cutoff run now = (case run_as_of run of None \<Rightarrow> now | Some t \<Rightarrow> t)"

definition claimed_db :: "workflow_env \<Rightarrow> string \<Rightarrow> instant \<Rightarrow> uuid \<Rightarrow> run_db \<Rightarrow> run_db" where
  "claimed_db env owner now rid db = change_run rid (claimed_run env owner now) db"

text \<open>The steps of the others happen before the lease expires: before its first expiry, and after the
  renewal before the renewed one.\<close>

definition rely :: "workflow_env \<Rightarrow> string \<Rightarrow> (nat \<Rightarrow> instant) \<Rightarrow> (nat \<Rightarrow> run_db \<Rightarrow> run_db) \<Rightarrow> bool" where
  "rely env owner clock others \<longleftrightarrow>
     (\<forall>i db. other_steps env owner ((if i = 2 then clock 1 else clock 0) + wf_lease_duration env) db (others i db))"

lemma claim_succeeds:
  "claimable_run db now rid w p run \<Longrightarrow>
     claim_run env owner now rid w p db = Inr (Claimed (cutoff run now), claimed_db env owner now rid db)"
  by (auto simp: claimable_run_def claim_run_def Let_def cutoff_def claimed_db_def split: option.splits)

lemma claimed_held:
  assumes "claimable_run db now rid w p run" "run_inv env db"
  shows "held owner (now + wf_lease_duration env) rid (claimed_run env owner now run) (claimed_db env owner now rid db)"
    and "run_inv env (claimed_db env owner now rid db)"
proof -
  show "held owner (now + wf_lease_duration env) rid (claimed_run env owner now run) (claimed_db env owner now rid db)"
    using assms(1) unfolding held_def claimed_db_def claimable_run_def
    by (subst find_change_run) (auto simp: claimed_run_def)
  show "run_inv env (claimed_db env owner now rid db)"
    by (rule claim_run_inv [OF claim_succeeds [OF assms(1)] assms(2)])
qed

definition renewed_db :: "workflow_env \<Rightarrow> string \<Rightarrow> instant \<Rightarrow> uuid \<Rightarrow> run_db \<Rightarrow> run_db" where
  "renewed_db env owner now rid db = change_run rid (\<lambda>r. if run_status r = RS_running \<and> run_lease_owner r = Some owner
     then r\<lparr>run_lease_expires_at := Some (now + wf_lease_duration env)\<rparr> else r) db"

lemma renew_held:
  assumes "held owner t rid run db" "run_inv env db"
  shows "renew_lease env owner now rid db = Inr (renewed_db env owner now rid db)"
    and "held owner (now + wf_lease_duration env) rid (run\<lparr>run_lease_expires_at := Some (now + wf_lease_duration env)\<rparr>) (renewed_db env owner now rid db)"
    and "run_inv env (renewed_db env owner now rid db)"
proof -
  have r: "run \<in> set (rd_runs db)" "run_id run = rid" "run_lease_owner run = Some owner" "run_status run = RS_running"
    using assms find_run_in [of db rid run] by (auto simp: held_def run_inv_def list_all_iff lease_ok_def)
  have ids: "distinct (map run_id (rd_runs db))" using assms(2) by (simp add: run_inv_def)
  have "filter (\<lambda>r. run_id r = rid \<and> run_status r = RS_running \<and> run_lease_owner r = Some owner) (rd_runs db) = [run]"
    using filter_single [OF ids r(1), of "\<lambda>r. run_status r = RS_running \<and> run_lease_owner r = Some owner"] r by simp
  then show renew: "renew_lease env owner now rid db = Inr (renewed_db env owner now rid db)" by (simp add: renew_lease_def renewed_db_def)
  show "run_inv env (renewed_db env owner now rid db)" by (rule renew_inv [OF renew assms(2)])
  show "held owner (now + wf_lease_duration env) rid (run\<lparr>run_lease_expires_at := Some (now + wf_lease_duration env)\<rparr>) (renewed_db env owner now rid db)"
    using assms(1) r unfolding held_def renewed_db_def by (subst find_change_run) auto
qed

lemma no_evaluations:
  assumes "run_inv env db" "find_run db rid = Some run" "\<not> detected run"
  shows "list_for_run (rd_operator db) w p rid = []"
proof -
  have "evr_operator_run_id e \<noteq> rid" if in_table: "e \<in> set (od_evaluations (rd_operator db))" for e
  proof
    assume e: "evr_operator_run_id e = rid"
    obtain r where r: "r \<in> set (rd_runs db)" "detected r" "evaluation_of r e"
      using assms(1) in_table by (auto simp: run_inv_def results_ok_def)
    then have "r = run"
      using find_run_unique [OF _ assms(2) r(1)] assms(1) e by (simp add: run_inv_def evaluation_of_def)
    then show False using r(2) assms(3) by simp
  qed
  then show ?thesis by (simp add: list_for_run_def sort_key_Nil_iff filter_empty_conv of_run_def)
qed

lemma store_succeeds:
  assumes held: "held owner t rid run db" and inv: "run_inv env db"
    and run: "run_workspace_id run = w" "run_product_id run = Some p"
    and a: "assemble_detection_input (workflow_snapshot_env env) facts w p as_of = Inr a"
      "texts_fit (sa_detection_input a)"
    and ids: "inj (sv_uuid (wf_store env))" "ordinal_digests (wf_store env)"
  shows "\<exists>rows db'. store_detection env owner now rid w p a db = Inr (rows, db')"
proof -
  note ok = assembled_ok [OF a(1)]
  let ?odb = "(rd_operator db)\<lparr>od_drawn := od_drawn (rd_operator db) + 1\<rparr>"
  let ?asm = "\<lparr>da_detection_input = sa_detection_input a, da_input_hash = sa_input_hash a\<rparr>"
  have r: "find_run db rid = Some run" "run \<in> set (rd_runs db)" "run_id run = rid" "run_lease_owner run = Some owner"
      "run_run_kind run = RK_opportunity_detection" "\<not> detected run"
    using held inv find_run_in [of db rid run] by (auto simp: held_def run_inv_def list_all_iff lease_ok_def detected_def)
  have none: "find (\<lambda>x. rs_workspace_id x = w \<and> rs_product_id x = p \<and> rs_operator_run_id x = rid) (rd_snapshots db) = None"
    using no_snapshot [OF inv r(1,6)] by (auto simp: find_None_iff image_iff)
  have get: "get_product_run ?odb w p rid = Some run"
    unfolding get_product_run_def
    by (rule find_stronger [where P = "\<lambda>r. run_id r = rid"]) (use r(1,3) run in \<open>simp_all add: find_run_def\<close>)
  have drawn: "drawn_ids (wf_store env) ?odb"
    by (rule drawn_ids_grow [where db = "rd_operator db"]) (use inv in \<open>simp_all add: run_inv_def\<close>)
  have fresh: "list_for_run ?odb w p rid = []"
    using no_evaluations [OF inv r(1,6)] by (simp add: list_for_run_def)
  have "is_ok (fst (persist_detection (wf_store env) now w p rid ?asm (Some owner) ?odb))"
    by (rule persist_detection_ok [OF get r(5) _ _ fresh _ _ _ _ ids drawn]) (use ok a(2) r(4) in simp_all)
  then obtain rows odb' where "detection_transaction (wf_store env) now w p rid ?asm (Some owner) ?odb = Inr (rows, odb')"
    by (auto simp: persist_detection_def is_ok_iff split: sum.splits)
  then show ?thesis using none ok(1-3) by (simp add: store_detection_def Let_def persist_run_snapshot_def)
qed

lemma worker_flow:
  assumes "claimable_run db (clock 0) rid w p run" "run_inv env db" "rely env owner clock others" "clock 0 \<le> clock 1"
  obtains db1 run1 where "db1 = others 0 (claimed_db env owner (clock 0) rid db)"
    "held owner (clock 0 + wf_lease_duration env) rid run1 db1" "run_inv env db1" "run1 = claimed_run env owner (clock 0) run"
    "\<And>a. assemble_detection_input (workflow_snapshot_env env) (read_inputs db1) w p (cutoff run (clock 0)) = Inr a \<Longrightarrow>
      \<exists>db4 run4. held owner (clock 1 + wf_lease_duration env) rid run4 db4 \<and> run_inv env db4
        \<and> run4 = run1\<lparr>run_lease_expires_at := Some (clock 1 + wf_lease_duration env)\<rparr>
        \<and> detect_run env others clock owner rid w p (cutoff run (clock 0)) (claimed_db env owner (clock 0) rid db)
          = finish_run env owner (clock 2) rid w p a db4"
proof -
  let ?t0 = "clock 0 + wf_lease_duration env" and ?t1 = "clock 1 + wf_lease_duration env"
  let ?db = "claimed_db env owner (clock 0) rid db" and ?run = "claimed_run env owner (clock 0) run"
  have other: "held owner t rid r (others i d) \<and> run_inv env (others i d)"
    if "held owner t rid r d" "run_inv env d" "(if i = 2 then clock 1 else clock 0) + wf_lease_duration env \<le> t" for t r d i
    using assms(3) that other_steps_held unfolding rely_def by blast
  have 1: "held owner ?t0 rid ?run (others 0 ?db)" "run_inv env (others 0 ?db)"
    using other [OF claimed_held [OF assms(1,2)], of 0] by simp_all
  have 2: "held owner ?t0 rid ?run (others 1 (others 0 ?db))" "run_inv env (others 1 (others 0 ?db))"
    using other [OF 1, of 1] by simp_all
  note 3 = renew_held [OF 2, of "clock 1"]
  have 4: "held owner ?t1 rid (?run\<lparr>run_lease_expires_at := Some ?t1\<rparr>) (others 2 (renewed_db env owner (clock 1) rid (others 1 (others 0 ?db))))"
    "run_inv env (others 2 (renewed_db env owner (clock 1) rid (others 1 (others 0 ?db))))"
    using other [OF 3(2,3), of 2] by simp_all
  show thesis
    by (rule that [OF refl 1 refl]) (use 3(1) 4 in \<open>auto simp: detect_run_def Let_def\<close>)
qed

lemma stored_found:
  assumes "store_detection env owner now rid w p a db = Inr (rows, db')" "held owner t rid run db" "run_inv env db"
  obtains summary where "find_run db' rid = Some (stored_run (sa_input_hash a) now summary run)"
    "list_for_run (rd_operator db') w p rid = rows" "rows \<noteq> []" "run_inv env db'"
proof -
  have r: "find_run db rid = Some run" "\<not> detected run"
    using assms(2,3) find_run_in [of db rid run] by (auto simp: held_def run_inv_def list_all_iff lease_ok_def detected_def)
  note fresh = no_evaluations [OF assms(3) r]
  obtain run' persisted where p: "rd_runs db' = map (\<lambda>r. if run_id r = rid
       then stored_run (sa_input_hash a) now (summarize_evaluations persisted) r else r) (rd_runs db)"
    "od_evaluations (rd_operator db') = od_evaluations (rd_operator db) @ persisted" "persisted \<noteq> []"
    "\<forall>e \<in> set persisted. of_run w p rid e \<and> evr_input_fingerprint e = sa_input_hash a"
    "rows = sort_key evr_evaluation_key persisted"
    by (rule store_fresh [OF assms(1) fresh assms(3)]) (rule that)
  let ?f = "stored_run (sa_input_hash a) now (summarize_evaluations persisted)"
  have "find_run (change_run rid ?f db) rid = Some (?f run)"
    by (subst find_change_run) (simp_all add: r(1) stored_run_def clear_lease_def complete_run_def)
  then have "find_run db' rid = Some (?f run)" using p(1) by (simp add: find_run_def)
  moreover have "list_for_run (rd_operator db') w p rid = rows"
    using fresh p(2,4,5) by (simp add: list_for_run_def sort_key_Nil_iff)
  moreover have "rows \<noteq> []" using p(3,5) by (simp add: sort_key_Nil_iff)
  ultimately show thesis using that store_inv [OF assms(1,3)] by blast
qed

text \<open>A failure leaves the lease with the worker.\<close>

definition same_run :: "operator_run \<Rightarrow> operator_run \<Rightarrow> bool" where
  "same_run r r' \<longleftrightarrow> run_workspace_id r' = run_workspace_id r \<and> run_product_id r' = run_product_id r
     \<and> run_run_kind r' = run_run_kind r"

lemma failure_held:
  assumes "claimable_run db (clock 0) rid w p run" "run_inv env db" "rely env owner clock others" "clock 0 \<le> clock 1"
    and "detect_run env others clock owner rid w p (cutoff run (clock 0)) (claimed_db env owner (clock 0) rid db) = (Inl e, db2)"
  obtains t run2 where "held owner t rid run2 db2" "run_inv env db2" "clock 0 + wf_lease_duration env \<le> t"
    "same_run run run2" "run_as_of run2 = Some (cutoff run (clock 0))"
proof -
  obtain db1 run1 where 1: "db1 = others 0 (claimed_db env owner (clock 0) rid db)"
    "held owner (clock 0 + wf_lease_duration env) rid run1 db1" "run_inv env db1" "run1 = claimed_run env owner (clock 0) run"
    and flow: "\<And>a. assemble_detection_input (workflow_snapshot_env env) (read_inputs db1) w p (cutoff run (clock 0)) = Inr a \<Longrightarrow>
      \<exists>db4 run4. held owner (clock 1 + wf_lease_duration env) rid run4 db4 \<and> run_inv env db4
        \<and> run4 = run1\<lparr>run_lease_expires_at := Some (clock 1 + wf_lease_duration env)\<rparr>
        \<and> detect_run env others clock owner rid w p (cutoff run (clock 0)) (claimed_db env owner (clock 0) rid db)
          = finish_run env owner (clock 2) rid w p a db4"
    by (rule worker_flow [OF assms(1-4)]) (rule that)
  have run1: "same_run run run1" "run_as_of run1 = Some (cutoff run (clock 0))"
    using 1(4) by (simp_all add: same_run_def claimed_run_def cutoff_def split: option.splits)
  show thesis
  proof (cases "assemble_detection_input (workflow_snapshot_env env) (read_inputs db1) w p (cutoff run (clock 0))")
    case (Inl x)
    then have "db2 = db1" using assms(5) 1(1) by (simp add: detect_run_def Let_def)
    then show ?thesis using that 1(2,3) run1 by blast
  next
    case (Inr a)
    then obtain db4 run4 where 4: "held owner (clock 1 + wf_lease_duration env) rid run4 db4" "run_inv env db4"
      "run4 = run1\<lparr>run_lease_expires_at := Some (clock 1 + wf_lease_duration env)\<rparr>"
      and fin: "finish_run env owner (clock 2) rid w p a db4 = (Inl e, db2)"
      using flow assms(5) by metis
    have "db2 = db4"
    proof (cases "store_detection env owner (clock 2) rid w p a db4")
      case (Inr x)
      then obtain rows db5 where st: "store_detection env owner (clock 2) rid w p a db4 = Inr (rows, db5)" by (cases x) auto
      obtain summary where "find_run db5 rid = Some (stored_run (sa_input_hash a) (clock 2) summary run4)"
        by (rule stored_found [OF st 4(1,2)])
      then show ?thesis using fin st by (simp add: finish_run_def)
    qed (use fin in \<open>simp add: finish_run_def\<close>)
    moreover have "same_run run run4" "run_as_of run4 = Some (cutoff run (clock 0))"
      using 4(3) run1 by (simp_all add: same_run_def)
    ultimately show ?thesis using that [of "clock 1 + wf_lease_duration env" run4] 4 assms(4) by simp
  qed
qed

lemma stop_held:
  assumes "held owner t rid run db" "run_inv env db"
  shows "\<exists>db'. stop_run owner now rid reason db = Inr db' \<and> find_run db' rid
    = Some (clear_lease (run\<lparr>run_status := RS_stopped, run_summary := PDict [(''reason'', PStr reason)], run_completed_at := Some now\<rparr>))"
proof -
  have r: "find_run db rid = Some run" "run \<in> set (rd_runs db)" "run_id run = rid" "run_lease_owner run = Some owner"
    using assms(1) find_run_in [of db rid run] by (auto simp: held_def)
  have "filter (\<lambda>r. run_id r = rid \<and> run_lease_owner r = Some owner) (rd_runs db) = [run]"
    using filter_single [OF _ r(2), of "\<lambda>r. run_lease_owner r = Some owner"] r assms(2) by (simp add: run_inv_def)
  then show ?thesis using r by (simp add: stop_run_def, subst find_change_run) (auto simp: clear_lease_def)
qed

lemma release_held:
  assumes "held owner t rid run db" "run_inv env db"
  shows "find_run (release_run owner rid db) rid
    = Some (clear_lease (run\<lparr>run_status := RS_pending, run_failure_category := Some ''unexpected''\<rparr>))"
proof -
  have r: "find_run db rid = Some run" "run_lease_owner run = Some owner" "run_status run = RS_running"
    using assms find_run_in [of db rid run] by (auto simp: held_def run_inv_def list_all_iff lease_ok_def)
  show ?thesis unfolding release_run_def by (subst find_change_run) (use r in \<open>auto simp: clear_lease_def\<close>)
qed

end
