(* ===== verification/Run_Properties.thy ===== *)
theory Run_Properties
  imports Run_Workflow_Facts
begin

text \<open>
  The properties of detection runs: the tables are consistent in every reachable database, a worker that
  keeps its lease completes the run, and a run whose worker failed is stopped or free again. Each comes with a
  concrete run on the tables of a small product.
\<close>

text \<open>C8. Requests, child runs of weekly runs and any number of workers, in any order, keep the
  tables of detection runs consistent: a run is leased exactly while it is running; a completed run has
  evaluations and exactly one snapshot, all of the input whose fingerprint the run carries; and a run that
  is not completed has none.\<close>

theorem results_belong_to_completed_runs:
  assumes "(\<lambda>d d'. \<exists>who now. run_step env who now d d')\<^sup>*\<^sup>* db db'"
    and "rd_runs db = []" "od_evaluations (rd_operator db) = []" "od_evidence (rd_operator db) = []" "rd_snapshots db = []"
    and "r \<in> set (rd_runs db')" "run_run_kind r = RK_opportunity_detection"
  shows "(run_lease_owner r \<noteq> None \<longleftrightarrow> run_status r = RS_running)
    \<and> (run_status r = RS_completed \<longrightarrow> (\<exists>e \<in> set (od_evaluations (rd_operator db')). evaluation_of r e)
        \<and> (\<exists>s \<in> set (rd_snapshots db'). snapshot_of r s
            \<and> (\<forall>s' \<in> set (rd_snapshots db'). rs_operator_run_id s' = run_id r \<longrightarrow> s' = s)))
    \<and> (run_status r \<noteq> RS_completed \<longrightarrow> run_id r \<notin> rs_operator_run_id ` set (rd_snapshots db')
        \<and> (\<forall>w p. list_for_run (rd_operator db') w p (run_id r) = []))"
proof -
  have inv: "run_inv env db'"
    using assms(1)
  proof (induction rule: rtranclp_induct)
    case base
    then show ?case using assms(2-5) by (simp add: run_inv_def results_ok_def drawn_ids_def)
  qed (blast intro: run_step_inv)
  then have found: "find_run db' (run_id r) = Some r" using assms(6) by (simp add: find_run_iff run_inv_def)
  have single: "s' = s" if "snapshot_of r s" "s \<in> set (rd_snapshots db')" "s' \<in> set (rd_snapshots db')"
    "rs_operator_run_id s' = run_id r" for s s'
    using inv that unfolding run_inv_def results_ok_def snapshot_of_def distinct_map by (metis inj_onD)
  have "lease_ok r" using inv assms(6) by (simp add: run_inv_def list_all_iff)
  moreover have "run_status r = RS_completed \<Longrightarrow> (\<exists>e \<in> set (od_evaluations (rd_operator db')). evaluation_of r e)
      \<and> (\<exists>s \<in> set (rd_snapshots db'). snapshot_of r s)"
    using inv assms(6,7) by (simp add: run_inv_def results_ok_def detected_def)
  moreover have "run_status r \<noteq> RS_completed \<Longrightarrow> \<not> detected r" by (simp add: detected_def)
  ultimately show ?thesis
    using no_snapshot [OF inv found] no_evaluations [OF inv found] single assms(7) unfolding lease_ok_def by blast
qed

text \<open>C9. A worker that claims a pending run, or one whose lease has expired, completes it, provided that
  other workers take steps only before its lease expires (it is renewed after the assembly), that the input can be
  assembled and its texts fit the titles built from them, and that new identifiers are unique and digests tell ordinals
  apart: the workflow returns the completed status and stores evaluations, the fingerprint and the snapshot of the input.\<close>

theorem detection_run_completes:
  assumes "claimable_run db (clock 0) rid w p run" "run_inv env db" "rely env owner clock others" "clock 0 \<le> clock 1"
    and "assemble_detection_input (workflow_snapshot_env env)
           (read_inputs (others 0 (claimed_db env owner (clock 0) rid db))) w p (cutoff run (clock 0)) = Inr a"
    and "texts_fit (sa_detection_input a)" "inj (sv_uuid (wf_store env))" "ordinal_digests (wf_store env)"
  shows "\<exists>db' r s. process env others clock owner rid w p db
      = (Inr (PDict [(''status'', PStr ''completed''), (''runId'', PStr rid),
          (''evaluations'', PInt (int (length (list_for_run (rd_operator db') w p rid)))), (''summary'', run_summary r)]), db')
    \<and> find_run db' rid = Some r \<and> run_status r = RS_completed \<and> run_lease_owner r = None
    \<and> list_for_run (rd_operator db') w p rid \<noteq> [] \<and> s \<in> set (rd_snapshots db') \<and> snapshot_of r s
    \<and> rs_input_hash s = sa_input_hash a \<and> run_as_of r = Some (cutoff run (clock 0))"
proof -
  have run: "run_workspace_id run = w" "run_product_id run = Some p" "run_run_kind run = RK_opportunity_detection"
    using assms(1) by (simp_all add: claimable_run_def)
  obtain db1 run1 where 1: "db1 = others 0 (claimed_db env owner (clock 0) rid db)" "run1 = claimed_run env owner (clock 0) run"
    and flow: "\<And>a. assemble_detection_input (workflow_snapshot_env env) (read_inputs db1) w p (cutoff run (clock 0)) = Inr a \<Longrightarrow>
      \<exists>db4 run4. held owner (clock 1 + wf_lease_duration env) rid run4 db4 \<and> run_inv env db4
        \<and> run4 = run1\<lparr>run_lease_expires_at := Some (clock 1 + wf_lease_duration env)\<rparr>
        \<and> detect_run env others clock owner rid w p (cutoff run (clock 0)) (claimed_db env owner (clock 0) rid db)
          = finish_run env owner (clock 2) rid w p a db4"
    by (rule worker_flow [OF assms(1-4)]) (rule that)
  obtain db4 run4 where 4: "held owner (clock 1 + wf_lease_duration env) rid run4 db4" "run_inv env db4"
    "run4 = run1\<lparr>run_lease_expires_at := Some (clock 1 + wf_lease_duration env)\<rparr>"
    and d: "detect_run env others clock owner rid w p (cutoff run (clock 0)) (claimed_db env owner (clock 0) rid db)
          = finish_run env owner (clock 2) rid w p a db4"
    using flow assms(5) 1(1) by blast
  have run4: "run_workspace_id run4 = w" "run_product_id run4 = Some p" "run_run_kind run4 = RK_opportunity_detection"
      "run_as_of run4 = Some (cutoff run (clock 0))"
    using run 4(3) 1(2) by (simp_all add: claimed_run_def cutoff_def split: option.splits)
  obtain rows db5 where st: "store_detection env owner (clock 2) rid w p a db4 = Inr (rows, db5)"
    using store_succeeds [OF 4(1,2) run4(1,2) assms(5-8)] by blast
  obtain summary where s: "find_run db5 rid = Some (stored_run (sa_input_hash a) (clock 2) summary run4)"
    "list_for_run (rd_operator db5) w p rid = rows" "rows \<noteq> []" "run_inv env db5"
    by (rule stored_found [OF st 4(1,2)])
  let ?r = "stored_run (sa_input_hash a) (clock 2) summary run4"
  have r: "run_status ?r = RS_completed" "run_lease_owner ?r = None" "detected ?r" "run_input_fingerprint ?r = Some (sa_input_hash a)"
      "run_as_of ?r = Some (cutoff run (clock 0))"
    using run4(3,4) by (simp_all add: stored_run_def clear_lease_def complete_run_def detected_def)
  obtain x where x: "x \<in> set (rd_snapshots db5)" "snapshot_of ?r x"
    using s(4) r(3) find_run_in [OF s(1)] unfolding run_inv_def results_ok_def by blast
  have "process env others clock owner rid w p db
      = (Inr (PDict [(''status'', PStr ''completed''), (''runId'', PStr rid),
          (''evaluations'', PInt (int (length rows))), (''summary'', run_summary ?r)]), db5)"
    using claim_succeeds [OF assms(1)] d st s(1) r(1) by (simp add: process_def finish_run_def run_status_value_def)
  moreover have "rs_input_hash x = sa_input_hash a" using x(2) r(4) by (simp add: snapshot_of_def)
  ultimately show ?thesis using s r x by blast
qed

text \<open>C10. Provided that other workers take steps only before its lease expires, a worker whose detection
  raises does not keep the run: when the product or its approved profile is
  missing the run is stopped with that reason; after every other exception, which the workflow raises again, the
  run is pending and a later worker can claim it, with the cutoff of the first attempt.\<close>

theorem failed_run_is_free:
  assumes "claimable_run db (clock 0) rid w p run" "run_inv env db" "rely env owner clock others" "clock 0 \<le> clock 1"
    and "detect_run env others clock owner rid w p (cutoff run (clock 0)) (claimed_db env owner (clock 0) rid db) = (Inl e, db2)"
  shows "\<exists>db' r. find_run db' rid = Some r \<and> run_lease_owner r = None \<and> run_as_of r = Some (cutoff run (clock 0))
    \<and> (case missing_reason e of
         Some reason \<Rightarrow> process env others clock owner rid w p db
             = (Inr (PDict [(''status'', PStr ''stopped''), (''runId'', PStr rid),
                 (''summary'', PDict [(''reason'', PStr reason)])]), db')
           \<and> run_status r = RS_stopped \<and> run_summary r = PDict [(''reason'', PStr reason)]
       | None \<Rightarrow> process env others clock owner rid w p db = (Inl e, db')
           \<and> run_status r = RS_pending \<and> run_failure_category r = Some ''unexpected''
           \<and> (\<forall>owner' now. claim_run env owner' now rid w p db'
               = Inr (Claimed (cutoff run (clock 0)), claimed_db env owner' now rid db')))"
proof -
  obtain t run2 where 2: "held owner t rid run2 db2" "run_inv env db2" "clock 0 + wf_lease_duration env \<le> t"
    "same_run run run2" "run_as_of run2 = Some (cutoff run (clock 0))"
    by (rule failure_held [OF assms])
  let ?db3 = "others 3 db2"
  have "other_steps env owner (clock 0 + wf_lease_duration env) db2 ?db3"
    using assms(3) unfolding rely_def by (metis numeral_eq_iff semiring_norm(89))
  from other_steps_held [OF this 2(1,2,3)] have 3: "held owner t rid run2 ?db3" "run_inv env ?db3" by simp_all
  note start = claim_succeeds [OF assms(1), of env owner]
  show ?thesis
  proof (cases "missing_reason e")
    case None
    let ?r = "clear_lease (run2\<lparr>run_status := RS_pending, run_failure_category := Some ''unexpected''\<rparr>)"
    note free = release_held [OF 3]
    have "claimable_run (release_run owner rid ?db3) now rid w p ?r" "cutoff ?r now = cutoff run (clock 0)" for now
      using free assms(1) 2(4,5) by (simp_all add: claimable_run_def same_run_def clear_lease_def cutoff_def)
    then have "\<forall>owner' now. claim_run env owner' now rid w p (release_run owner rid ?db3)
        = Inr (Claimed (cutoff run (clock 0)), claimed_db env owner' now rid (release_run owner rid ?db3))"
      using claim_succeeds by metis
    moreover have "process env others clock owner rid w p db = (Inl e, release_run owner rid ?db3)"
      using start assms(5) None by (simp add: process_def Let_def)
    ultimately show ?thesis
      using free None 2(5) by (intro exI [of _ "release_run owner rid ?db3"] exI [of _ ?r]) (simp add: clear_lease_def)
  next
    case (Some reason)
    obtain db' where st: "stop_run owner (clock 3) rid reason ?db3 = Inr db'" "find_run db' rid
      = Some (clear_lease (run2\<lparr>run_status := RS_stopped, run_summary := PDict [(''reason'', PStr reason)], run_completed_at := Some (clock 3)\<rparr>))"
      using stop_held [OF 3] by blast
    have "process env others clock owner rid w p db = (Inr (PDict [(''status'', PStr ''stopped''), (''runId'', PStr rid),
        (''summary'', PDict [(''reason'', PStr reason)])]), db')"
      using start assms(5) Some st(1) by (simp add: process_def Let_def)
    then show ?thesis using st(2) Some 2(5) by (intro exI [of _ db'] exI) (auto simp: clear_lease_def)
  qed
qed

section \<open>A concrete run\<close>

text \<open>A manual request for the product of \<open>facts_db\<close>, and a worker that is alone.\<close>

definition sample_workflow :: workflow_env where
  "sample_workflow = \<lparr>wf_store = sample_store\<lparr>sv_engine := folding_env\<rparr>,
     wf_dump = (\<lambda>d. PDict [(''asOf'', PStr (di_product_id d))]),
     wf_validate = (\<lambda>v. Inl (ValidationError ''DetectionInput'')), wf_pick = Min, wf_dialect = ''postgresql'',
     wf_lease_duration = 1800\<rparr>"

definition start_db :: "input_db \<Rightarrow> run_db" where
  "start_db facts = \<lparr>rd_operator = \<lparr>od_runs = [], od_evaluations = [], od_opportunities = [], od_evidence = [], od_drawn = 0\<rparr>,
     rd_snapshots = [], rd_inputs = facts, rd_created = (\<lambda>_. 0),
     rd_memberships = [\<lparr>ms_workspace_id = ''w'', ms_user_id = ''u'', ms_role = ''owner'', ms_is_active = True\<rparr>],
     rd_outbox = []\<rparr>"

definition waiting_db :: run_db where
  "waiting_db = snd (projr (request_operator_run sample_workflow 0 ''w'' ''p'' ''u'' ''key'' (start_db facts_db)))"

definition sample_clock :: "nat \<Rightarrow> instant" where
  "sample_clock i = 100 * day_us + int i"

lemma waiting_request:
  "\<exists>run. request_operator_run sample_workflow 0 ''w'' ''p'' ''u'' ''key'' (start_db facts_db) = Inr (run, waiting_db)"
proof -
  have "is_ok (request_operator_run sample_workflow 0 ''w'' ''p'' ''u'' ''key'' (start_db facts_db))" by code_simp
  then show ?thesis by (auto simp: is_ok_iff waiting_db_def)
qed

lemma waiting_inv: "run_inv sample_workflow waiting_db"
proof -
  have "run_inv sample_workflow (start_db facts_db)"
    by (simp add: run_inv_def results_ok_def drawn_ids_def start_db_def)
  then show ?thesis using waiting_request request_inv by blast
qed

lemma waiting_claimable: "claimable_run waiting_db (sample_clock 0) [] ''w'' ''p'' (hd (rd_runs waiting_db))"
  by code_simp

lemma alone: "rely env owner clock (\<lambda>_ db. db)"
  by (simp add: rely_def other_steps_def)

theorem results_belong_to_completed_runs_witness:
  "run_lease_owner (hd (rd_runs waiting_db)) \<noteq> None \<longleftrightarrow> run_status (hd (rd_runs waiting_db)) = RS_running"
proof -
  have "(\<lambda>d d'. \<exists>who now. run_step sample_workflow who now d d')\<^sup>*\<^sup>* (start_db facts_db) waiting_db"
    using waiting_request step_request by (intro r_into_rtranclp) blast
  moreover have "hd (rd_runs waiting_db) \<in> set (rd_runs waiting_db)"
    "run_run_kind (hd (rd_runs waiting_db)) = RK_opportunity_detection" by code_simp+
  ultimately show ?thesis
    using results_belong_to_completed_runs [of sample_workflow "start_db facts_db" waiting_db "hd (rd_runs waiting_db)"]
    by (simp add: start_db_def)
qed

theorem detection_run_completes_witness:
  "\<exists>db' r. find_run db' [] = Some r \<and> run_status r = RS_completed
     \<and> snd (process sample_workflow (\<lambda>_ db. db) sample_clock ''worker'' [] ''w'' ''p'' waiting_db) = db'"
proof -
  let ?run = "hd (rd_runs waiting_db)"
  let ?db = "claimed_db sample_workflow ''worker'' (sample_clock 0) [] waiting_db"
  let ?a = "projr (assemble_detection_input (workflow_snapshot_env sample_workflow) (read_inputs ?db) ''w'' ''p'' (cutoff ?run (sample_clock 0)))"
  have "is_ok (assemble_detection_input (workflow_snapshot_env sample_workflow) (read_inputs ?db) ''w'' ''p'' (cutoff ?run (sample_clock 0)))"
    by code_simp
  then have a: "assemble_detection_input (workflow_snapshot_env sample_workflow) (read_inputs ((\<lambda>_ db. db) (0::nat) ?db)) ''w'' ''p''
      (cutoff ?run (sample_clock 0)) = Inr ?a" by (auto simp: is_ok_iff)
  have t: "texts_fit (sa_detection_input ?a)" by code_simp
  have ids: "inj (sv_uuid (wf_store sample_workflow))" "ordinal_digests (wf_store sample_workflow)"
    using sample_store_ok(10,11) by (simp_all add: sample_workflow_def ordinal_digests_def)
  have "sample_clock 0 \<le> sample_clock 1" by (simp add: sample_clock_def)
  from detection_run_completes [OF waiting_claimable waiting_inv alone this a t ids]
  show ?thesis by force
qed

text \<open>The product is deleted while the worker is busy.\<close>

definition deleting :: "nat \<Rightarrow> run_db \<Rightarrow> run_db" where
  "deleting i db = (if i = 0 then db\<lparr>rd_inputs := (rd_inputs db)\<lparr>in_products := []\<rparr>\<rparr> else db)"

lemma deleting_rely:
  assumes "0 < clock 0 + wf_lease_duration env" "0 < clock 1 + wf_lease_duration env"
  shows "rely env ''worker'' clock deleting"
proof -
  have "run_step env ''admin'' 0 db (deleting i db)" for i db
    using step_facts [where env = env and who = "''admin''" and now = 0 and db = db
      and xs = "od_opportunities (rd_operator db)" and facts = "rd_inputs (deleting i db)"
      and created = "rd_created db" and members = "rd_memberships db" and table = "rd_outbox db"]
    by (simp add: deleting_def split: if_splits)
  then have "\<exists>who now. who \<noteq> ''worker'' \<and> now < t \<and> run_step env who now db (deleting i db)" if "0 < t" for t i db
    using that by (intro exI [of _ "''admin''"] exI [of _ 0]) simp
  then show ?thesis using assms unfolding rely_def other_steps_def by (auto intro!: r_into_rtranclp)
qed

theorem failed_run_is_free_witness:
  "fst (process sample_workflow deleting sample_clock ''worker'' [] ''w'' ''p'' waiting_db)
     = Inr (PDict [(''status'', PStr ''stopped''), (''runId'', PStr []), (''summary'', PDict [(''reason'', PStr ''missing_product'')])])"
proof -
  let ?run = "hd (rd_runs waiting_db)"
  let ?db = "claimed_db sample_workflow ''worker'' (sample_clock 0) [] waiting_db"
  let ?d = "detect_run sample_workflow deleting sample_clock ''worker'' [] ''w'' ''p'' (cutoff ?run (sample_clock 0)) ?db"
  have "case fst ?d of Inl e \<Rightarrow> missing_reason e = Some ''missing_product'' | Inr _ \<Rightarrow> False" by code_simp
  then obtain e db2 where d: "?d = (Inl e, db2)" "missing_reason e = Some ''missing_product''"
    by (cases ?d) (auto split: sum.splits)
  have "rely sample_workflow ''worker'' sample_clock deleting"
    by (rule deleting_rely) (simp_all add: sample_clock_def sample_workflow_def day_us_def)
  from failed_run_is_free [OF waiting_claimable waiting_inv this _ d(1)] d(2) show ?thesis
    by (auto simp: sample_clock_def)
qed

end
