(* ===== verification/Feedback_Properties.thy ===== *)
theory Feedback_Properties
  imports Feedback_Facts Run_Properties
begin

text \<open>
  The properties of feedback: a command runs once, the log of status events explains every status, and
  a dismissed finding stays away until its cooldown ends. The concrete dismissal uses the product of
  \<open>facts_db\<close>.
\<close>

section \<open>A command runs once\<close>

definition feedback_service :: "bool \<Rightarrow> workflow_env \<Rightarrow> (nat \<Rightarrow> instant) \<Rightarrow> uuid \<Rightarrow> uuid \<Rightarrow> uuid \<Rightarrow> string
     \<Rightarrow> feedback_command \<Rightarrow> feedback_db \<Rightarrow> (opportunity_feedback \<times> feedback_db) res" where
  "feedback_service dismiss = (if dismiss then dismiss_opportunity else append_feedback)"

definition feedback_action :: "bool \<Rightarrow> string" where
  "feedback_action dismiss = (if dismiss then ''dismiss'' else ''feedback'')"

lemma find_append_Some: "find P xs = Some y \<Longrightarrow> find P (xs @ ys) = Some y"
  by (induction xs) (auto split: if_splits)

lemma find_append_None: "find P xs = None \<Longrightarrow> find P (xs @ ys) = find P ys"
  by (induction xs) (auto split: if_splits)

lemma steps_keep_feedback:
  assumes "(feedback_step env)\<^sup>*\<^sup>* db db'" "get_by_idempotency_key db w p key = Some f"
  shows "get_by_idempotency_key db' w p key = Some f"
  using assms
proof induction
  case (step db1 db2)
  from feedback_step_cases [OF step(2)] obtain ys where "fd_feedback db2 = fd_feedback db1 @ ys"
    unfolding prefix_def by blast
  then show ?case using step(3,4) by (simp add: get_by_idempotency_key_def find_append_Some)
qed

lemma find_opp_key: "get_opportunity db w p i \<noteq> None \<longleftrightarrow> (w, Some p, i) \<in> opp_key ` set (fd_opportunities db)"
  by (auto simp: get_opportunity_def find_None_iff opp_key_def image_iff)

lemma steps_keep_opportunity:
  assumes "(feedback_step env)\<^sup>*\<^sup>* db db'" "get_opportunity db w p i \<noteq> None"
  shows "get_opportunity db' w p i \<noteq> None"
  using assms
proof induction
  case (step db1 db2)
  have "opp_key ` set (fd_opportunities db1) \<subseteq> opp_key ` set (fd_opportunities db2)"
    using feedback_step_cases [OF step(2)]
    by (auto simp: grows_def) (metis image_eqI list.set_map moves_keys)
  then show ?case using step(3,4) unfolding find_opp_key by blast
qed

lemma service_result:
  assumes "feedback_service dismiss env clock w p a key c db = Inr (f, db')"
  shows "check_feedback_key key = Inr () \<and> get_by_idempotency_key db' w p key = Some f
    \<and> fb_request_fingerprint f = feedback_fingerprint env c (feedback_action dismiss)
    \<and> (dismiss \<longrightarrow> get_opportunity db' w p (fc_opportunity_id c) \<noteq> None)"
proof -
  have key: "check_feedback_key key = Inr ()" using assms
    by (auto simp: feedback_service_def append_feedback_def dismiss_opportunity_def res_bind_eq_Inr split: if_splits)
  show ?thesis
  proof (cases "get_by_idempotency_key db w p key")
    case (Some g)
    with assms have "f = g \<and> db' = db \<and> fb_request_fingerprint f = feedback_fingerprint env c (feedback_action dismiss)
        \<and> (dismiss \<longrightarrow> get_opportunity db w p (fc_opportunity_id c) \<noteq> None)"
      by (auto simp: feedback_service_def feedback_action_def append_feedback_def dismiss_opportunity_def Let_def
          res_bind_eq_Inr replay_feedback_cases split: option.splits if_splits)
    then show ?thesis using key Some by metis
  next
    case None
    show ?thesis
    proof (cases dismiss)
      case True
      then have d: "dismiss_opportunity env clock w p a key c db = Inr (f, db')" using assms by (simp add: feedback_service_def)
      from d have "get_opportunity db w p (fc_opportunity_id c) \<noteq> None"
        by (auto simp: dismiss_opportunity_def res_bind_eq_Inr split: option.splits)
      moreover have "feedback_step env db db'" by (rule step_dismiss [OF d])
      ultimately have "get_opportunity db' w p (fc_opportunity_id c) \<noteq> None" using steps_keep_opportunity by blast
      with True key show ?thesis
        by (rule_tac dismiss_fresh [OF d None])
           (use None in \<open>auto simp: get_by_idempotency_key_def feedback_of_def feedback_action_def find_append_None\<close>)
    next
      case False
      then have "append_feedback env clock w p a key c db = Inr (f, db')" using assms by (simp add: feedback_service_def)
      from append_fresh [OF this None] False key None show ?thesis
        by (auto simp: get_by_idempotency_key_def feedback_of_def feedback_action_def find_append_None)
    qed
  qed
qed

lemma service_again:
  assumes "check_feedback_key key = Inr ()" "get_by_idempotency_key db w p key = Some f"
    and "dismiss \<longrightarrow> get_opportunity db w p (fc_opportunity_id c) \<noteq> None"
  shows "feedback_service dismiss env clock w p a key c db =
    (if fb_request_fingerprint f = feedback_fingerprint env c (feedback_action dismiss) then Inr (f, db) else Inl feedback_conflict)"
  using assms
  by (auto simp: feedback_service_def feedback_action_def append_feedback_def dismiss_opportunity_def Let_def
      replay_feedback_def)

text \<open>Feedback or a dismissal that succeeded and is sent again with the same key, by whoever
  and whatever happened in between, returns the stored feedback and changes nothing; another command under
  that key, also the same body with the other action, is refused with a conflict unless the fingerprints collide.\<close>

theorem feedback_runs_once:
  assumes "feedback_service dismiss env clock w p a key c db = Inr (f, db1)" "(feedback_step env)\<^sup>*\<^sup>* db1 db2"
  shows "feedback_service dismiss env clock' w p a' key c db2 = Inr (f, db2)
    \<and> (\<forall>dismiss' c'. feedback_fingerprint env c' (feedback_action dismiss') \<noteq> feedback_fingerprint env c (feedback_action dismiss)
        \<longrightarrow> get_opportunity db2 w p (fc_opportunity_id c') \<noteq> None
        \<longrightarrow> feedback_service dismiss' env clock' w p a' key c' db2 = Inl feedback_conflict)"
proof -
  note r = service_result [OF assms(1)]
  have f: "get_by_idempotency_key db2 w p key = Some f" using steps_keep_feedback [OF assms(2)] r by blast
  have "dismiss \<longrightarrow> get_opportunity db2 w p (fc_opportunity_id c) \<noteq> None"
    using steps_keep_opportunity [OF assms(2)] r by blast
  then show ?thesis using service_again [OF _ f] r by simp
qed

section \<open>The log explains the status\<close>

text \<open>C12. However feedback, dismissals, supersessions and detections follow each
  other, replaying the logged events of an opportunity from its first status (open when it was detected since)
  only makes legal transitions, each from the status the event names, and ends in its current status; every
  logged dismissal names a stored feedback on the same opportunity with the same reason.\<close>

theorem status_log_explains_status:
  assumes "(feedback_step env)\<^sup>*\<^sup>* db0 db" "distinct (map opp_id (fd_opportunities db0))"
  shows "\<exists>new. fd_status_events db = fd_status_events db0 @ new
    \<and> (\<forall>x \<in> set (fd_opportunities db). trail (first_status db0 (opp_id x)) (events_of (opp_id x) new)
         = Some (opportunity_status_value (opp_status x)))
    \<and> (\<forall>e \<in> set new. ose_new_status e = ''dismissed'' \<longrightarrow> (\<exists>f \<in> set (fd_feedback db). logs_dismissal f e))"
  using steps_explained [OF assms] unfolding explained_def by blast

section \<open>A dismissed finding stays away\<close>

lemma assembled_history:
  assumes "assemble_detection_input env db w p t = Inr a"
  shows "history_of db w p = Inr (di_history (sa_detection_input a)) \<and> di_as_of (sa_detection_input a) = Aware t"
  using assms unfolding assemble_detection_input_def
  by (auto simp: res_bind_eq_Inr Let_def canonicalize_detection_input_def split: prod.splits option.splits)

lemma res_map_image: "res_map f xs = Inr ys \<Longrightarrow> x \<in> set xs \<Longrightarrow> \<exists>y \<in> set ys. f x = Inr y"
  by (auto simp: res_map_eq_Inr list_all2_conv_all_nth in_set_conv_nth)

lemma history_item_fields:
  "history_item_of (x, created, fb) = Inr h \<Longrightarrow> hi_status h = opp_status x
     \<and> hi_cooldown_until h = Some (utc (opp_cooldown_until x))
     \<and> (opp_identity_fingerprint x = Some i \<longrightarrow> i \<noteq> [] \<longrightarrow> hi_identity_fingerprint h = i)"
  by (auto simp: history_item_of_def res_bind_eq_Inr text_or_def)

lemma dismissed_row_blocks:
  assumes "x \<in> set (od_opportunities (rd_operator db))" "opp_workspace_id x = w" "opp_product_id x = Some p"
    and "opp_status x = OS_dismissed" "opp_cooldown_until x = Aware u" "t < u" "opp_identity_fingerprint x = Some i" "i \<noteq> []"
    and "history_of (read_inputs db) w p = Inr hs"
  shows "\<exists>h \<in> set hs. hi_identity_fingerprint h = i \<and> blocks k (Aware t) h"
proof -
  have "(x, rd_created db (opp_id x)) \<in> set (in_opportunities (read_inputs db))" using assms(1) by (auto simp: read_inputs_def)
  then obtain fb where "(x, rd_created db (opp_id x), fb) \<in> set (list_history (read_inputs db) w p)"
    using assms(2,3) unfolding list_history_def by (force simp: image_iff)
  then have "(x, rd_created db (opp_id x), fb) \<in> set (filter (\<lambda>(opp, _, _). text_truthy (opp_identity_fingerprint opp)
      \<or> opp_cooldown_dedup_key opp \<noteq> []) (list_history (read_inputs db) w p))" using assms(7,8) by (simp add: text_truthy_def)
  from res_map_image [OF assms(9) [unfolded history_of_def] this]
  obtain h where h: "h \<in> set hs" "history_item_of (x, rd_created db (opp_id x), fb) = Inr h" by (elim bexE)
  then have "hi_identity_fingerprint h = i" "hi_status h = OS_dismissed"
    "hi_cooldown_until h = Some (Aware u)"
    using assms(4,5,7,8) history_item_fields [OF h(2)] by (simp_all add: utc_def)
  then show ?thesis using h(1) assms(6) by (intro bexI [of _ h]) (simp_all add: blocks_def cooldown_end_def)
qed

text \<open>C11. After a dismissal with some reason, whatever feedback and detections
  follow, no detection whose cutoff is before the end of the reason's cooldown accepts a finding with the
  identity of the dismissed opportunity.\<close>

theorem dismissed_finding_stays_away:
  assumes "dismiss_opportunity env clock w p actor key c db = Inr (f, db1)" "get_by_idempotency_key db w p key = None"
    and "get_opportunity db w p (fc_opportunity_id c) = Some x" "opp_identity_fingerprint x = Some i" "i \<noteq> []"
    and "distinct (map opp_id (fd_opportunities db))" "(feedback_step env)\<^sup>*\<^sup>* db1 db2"
    and "assemble_detection_input (workflow_snapshot_env env) (read_inputs (run_view db2)) w p t = Inr a"
    and "t < clock 0 + Times.days (dismissal_days (Some (feedback_reason_value (fc_reason_code c))))"
    and "evaluate_detection_input (sv_engine (wf_store env)) (sa_detection_input a) = Inr es"
  shows "i \<notin> identity_of ` set (filter acc es)"
proof
  let ?u = "clock 0 + Times.days (dismissal_days (Some (feedback_reason_value (fc_reason_code c))))"
  let ?y = "dismissed_row (clock 0) (feedback_reason_value (fc_reason_code c)) x"
  have y: "?y \<in> set (fd_opportunities db1)"
    by (rule dismiss_fresh [OF assms(1,2)])
       (use assms(3) get_opportunity_Some [OF assms(3)] in \<open>force simp: feedback_of_def dismissed_row_def image_iff\<close>)
  have "feedback_step env db db1" by (rule step_dismiss [OF assms(1)])
  then have "distinct (map opp_id (fd_opportunities db1))" using feedback_steps_distinct [OF _ assms(6)] by blast
  from settled_row_stays [OF assms(7) this y] have "?y \<in> set (fd_opportunities db2)" by (simp add: dismissed_row_def)
  then have in2: "?y \<in> set (od_opportunities (rd_operator (run_view db2)))" by (simp add: run_view_def)
  note hist = assembled_history [OF assms(8)]
  assume "i \<in> identity_of ` set (filter acc es)"
  then obtain e where e: "e \<in> set es" "acc e" "identity_of e = i" by auto
  from evaluate_sound [OF assms(10) e(1,2)] obtain k where k: "de_candidate e = Some k" "unblocked (sa_detection_input a) k"
    unfolding sound_acceptance_def by blast
  obtain h where h: "h \<in> set (di_history (sa_detection_input a))" "hi_identity_fingerprint h = i"
    "blocks (dc_opportunity_type k) (Aware t) h"
    using dismissed_row_blocks [OF in2, of w p ?u t i] get_opportunity_Some [OF assms(3)] assms(4,5,9) hist
    by (auto simp: dismissed_row_def)
  then have "h \<in> set (identity_history (sa_detection_input a) k)"
    using e(3) k(1) by (simp add: identity_history_def identity_of_def dismissed_row_def)
  then show False using k(2) h(3) hist by (auto simp: unblocked_def list_all_iff)
qed

section \<open>A concrete dismissal\<close>

definition acme_opportunity :: opportunity_row where
  "acme_opportunity = \<lparr>opp_id = ''x'', opp_workspace_id = ''w'', opp_product_id = Some ''p'', opp_operator_run_id = None,
     opp_opportunity_type = Some ''search_decline'', opp_action_family = Some ''content_refresh_investigation'',
     opp_subject_kind = Some ''page'', opp_subject_keys = Some [], opp_identity_fingerprint = Some ''decline'',
     opp_observation_fingerprint = Some ''seen'', opp_detector_id = Some ''search_decline'', opp_detector_version = Some ''1'',
     opp_title = ''Decline'', opp_evidence_ids = [], opp_interpretation = ''Decline'', opp_recommendation = ''Refresh'',
     opp_confidence = ''high'', opp_missing_information = [], opp_approval_level = ''review'',
     opp_measurement_window = ''28d'', opp_stop_conditions = [], opp_impact_score = 60, opp_effort_score = 40,
     opp_urgency_score = 50, opp_confidence_score = Some 80, opp_strategic_fit_score = Some 70, opp_novelty_score = Some 100,
     opp_priority_score = Some 65, opp_score_version = Some ''v1'', opp_expected_metric = Some [], opp_effort_band = Some ''small'',
     opp_lifecycle_version = Some ''v1'', opp_status = OS_open, opp_cooldown_dedup_key = ''decline'',
     opp_cooldown_until = Aware 0, opp_provenance = PNone, opp_created_by_actor_id = ''u''\<rparr>"

definition acme_feedback_db :: feedback_db where
  "acme_feedback_db = \<lparr>fd_runs = (start_db facts_db)\<lparr>rd_operator := (rd_operator (start_db facts_db))
     \<lparr>od_opportunities := [acme_opportunity]\<rparr>\<rparr>, fd_feedback = [], fd_status_events = []\<rparr>"

definition not_now :: feedback_command where
  "not_now = \<lparr>fc_opportunity_id = ''x'', fc_evaluation_id = None, fc_reason_code = FR_not_now, fc_usefulness = Some 2,
     fc_comment = None, fc_evaluation_eligible = True\<rparr>"

definition dismissed_acme :: "opportunity_feedback \<times> feedback_db" where
  "dismissed_acme = projr (dismiss_opportunity sample_workflow sample_clock ''w'' ''p'' ''u'' ''key'' not_now acme_feedback_db)"

lemma acme_dismissed:
  "dismiss_opportunity sample_workflow sample_clock ''w'' ''p'' ''u'' ''key'' not_now acme_feedback_db
     = Inr (fst dismissed_acme, snd dismissed_acme)"
proof -
  have "is_ok (dismiss_opportunity sample_workflow sample_clock ''w'' ''p'' ''u'' ''key'' not_now acme_feedback_db)"
    by code_simp
  then show ?thesis by (auto simp: is_ok_iff dismissed_acme_def)
qed

theorem feedback_runs_once_witness:
  "feedback_service True sample_workflow sample_clock ''w'' ''p'' ''v'' ''key'' not_now (snd dismissed_acme)
     = Inr (fst dismissed_acme, snd dismissed_acme)"
  using feedback_runs_once [of True sample_workflow sample_clock "''w''" "''p''" "''u''" "''key''" not_now
      acme_feedback_db "fst dismissed_acme" "snd dismissed_acme" "snd dismissed_acme" sample_clock "''v''"]
    acme_dismissed
  by (simp add: feedback_service_def)

theorem status_log_explains_status_witness:
  "\<exists>new. fd_status_events (snd dismissed_acme) = new \<and> (\<forall>x \<in> set (fd_opportunities (snd dismissed_acme)).
     trail (first_status acme_feedback_db (opp_id x)) (events_of (opp_id x) new) = Some (opportunity_status_value (opp_status x)))"
proof -
  have "(feedback_step sample_workflow)\<^sup>*\<^sup>* acme_feedback_db (snd dismissed_acme)"
    by (rule r_into_rtranclp) (rule step_dismiss [OF acme_dismissed])
  moreover have "distinct (map opp_id (fd_opportunities acme_feedback_db))" "fd_status_events acme_feedback_db = []" by code_simp+
  ultimately show ?thesis
    using status_log_explains_status [of sample_workflow acme_feedback_db "snd dismissed_acme"] by auto
qed

theorem dismissed_finding_stays_away_witness:
  "''decline'' \<notin> identity_of ` set (filter acc (projr (evaluate_detection_input folding_env (sa_detection_input
     (projr (assemble_detection_input (workflow_snapshot_env sample_workflow) (read_inputs (run_view (snd dismissed_acme)))
        ''w'' ''p'' (101 * day_us)))))))"
proof -
  let ?as = "assemble_detection_input (workflow_snapshot_env sample_workflow) (read_inputs (run_view (snd dismissed_acme)))
        ''w'' ''p'' (101 * day_us)"
  let ?es = "evaluate_detection_input (sv_engine (wf_store sample_workflow)) (sa_detection_input (projr ?as))"
  have "is_ok ?as" "is_ok ?es" by code_simp+
  then have ok: "?as = Inr (projr ?as)" "?es = Inr (projr ?es)" by (auto simp: is_ok_iff)
  have start: "get_by_idempotency_key acme_feedback_db ''w'' ''p'' ''key'' = None"
    "get_opportunity acme_feedback_db ''w'' ''p'' (fc_opportunity_id not_now) = Some acme_opportunity"
    "opp_identity_fingerprint acme_opportunity = Some ''decline''" "''decline'' \<noteq> []" "distinct (map opp_id (fd_opportunities acme_feedback_db))"
    "101 * day_us < sample_clock 0 + Times.days (dismissal_days (Some (feedback_reason_value (fc_reason_code not_now))))"
    by code_simp+
  from dismissed_finding_stays_away [OF acme_dismissed start(1-5) rtranclp.rtrancl_refl ok(1) start(6) ok(2)]
  show ?thesis by (simp add: sample_workflow_def acme_opportunity_def)
qed

end
