(* ===== verification/Profiles.thy ===== *)
theory Profiles
  imports Run_Workflow
begin

text \<open>
  Product profiles (\<open>products/services/product_profile_service.py\<close>): a product has a draft that is edited under
  a revision number and approved versions, of which one is current. The policy
  (\<open>products/policies/product_profile_policy.py\<close>) computes completeness and changed fields; approving a draft
  writes an audit trail and a product event. \<open>profile_row_of\<close> is the view of a profile that detection reads.

  A payload is a validated \<open>ProductProfileDraftWrite\<close>; \<open>draft_fits\<close> states the limits that validation
  enforces. Foreign keys are not modelled.
\<close>

section \<open>Tables\<close>

datatype product_profile_status = PP_draft | PP_approved | PP_superseded

datatype audit_action = draft_created | draft_updated | profile_approved | profile_superseded

record profile_content =
  ct_product_name :: "string option"
  ct_short_description :: "string option"
  ct_primary_audience :: "string option"
  ct_primary_customer_problem :: "string option"
  ct_main_value_proposition :: "string option"
  ct_primary_conversion_goal :: "string option"
  ct_primary_conversion_url :: "string option"
  ct_main_market :: "string option"
  ct_differentiation :: "string option"
  ct_important_capabilities :: "string list"
  ct_quarterly_objective :: "string option"
  ct_restricted_topics :: "string list"
  ct_restricted_claims :: "string list"
  ct_restricted_language :: "string list"
  ct_brand_voice_guidance :: "string option"

record product_profile =
  pp_id :: uuid
  pp_workspace_id :: uuid
  pp_product_id :: uuid
  pp_status :: product_profile_status
  pp_version :: "int option"
  pp_draft_revision :: int
  pp_based_on_profile_id :: "uuid option"
  pp_schema_version :: int
  pp_content :: profile_content
  pp_completeness_score :: int
  pp_approved_at :: "instant option"
  pp_approved_by :: "uuid option"
  pp_created_by :: uuid
  pp_updated_by :: uuid

record profile_audit_event =
  au_workspace_id :: uuid
  au_product_id :: uuid
  au_profile_id :: uuid
  au_actor_id :: uuid
  au_action :: audit_action
  au_profile_version :: "int option"
  au_draft_revision :: int
  au_changed_fields :: "string list"

record profile_db =
  pb_products :: "product_row list"
  pb_memberships :: "membership_row list"
  pb_profiles :: "product_profile list"
  pb_audit :: "profile_audit_event list"
  pb_events :: event_db
  pb_drawn :: nat

text \<open>The check constraints, and the unique indexes on versions, drafts and approved profiles.\<close>

definition profile_ok :: "product_profile \<Rightarrow> bool" where
  "profile_ok r \<longleftrightarrow> 0 < pp_draft_revision r \<and> 0 < pp_schema_version r
     \<and> 0 \<le> pp_completeness_score r \<and> pp_completeness_score r \<le> 100
     \<and> (if pp_status r = PP_draft then pp_version r = None \<and> pp_approved_at r = None \<and> pp_approved_by r = None
        else pp_version r \<noteq> None \<and> pp_approved_at r \<noteq> None \<and> pp_approved_by r \<noteq> None)"

definition same_product :: "product_profile \<Rightarrow> product_profile \<Rightarrow> bool" where
  "same_product a b \<longleftrightarrow> pp_workspace_id a = pp_workspace_id b \<and> pp_product_id a = pp_product_id b"

definition profiles_clash :: "product_profile \<Rightarrow> product_profile \<Rightarrow> bool" where
  "profiles_clash a b \<longleftrightarrow> pp_id a = pp_id b
     \<or> (same_product a b \<and> ((pp_version a \<noteq> None \<and> pp_version a = pp_version b)
          \<or> (pp_status a = PP_draft \<and> pp_status b = PP_draft)
          \<or> (pp_status a = PP_approved \<and> pp_status b = PP_approved)))"

fun no_clash :: "product_profile list \<Rightarrow> bool" where
  "no_clash [] = True"
| "no_clash (r # rs) = (list_all (\<lambda>x. \<not> profiles_clash r x) rs \<and> no_clash rs)"

definition flush_profiles :: "product_profile list \<Rightarrow> profile_db \<Rightarrow> profile_db res" where
  "flush_profiles rows db =
     (if list_all profile_ok rows \<and> no_clash rows then Inr (db\<lparr>pb_profiles := rows\<rparr>)
      else Inl (IntegrityError ''product_profiles''))"

section \<open>Policy\<close>

definition profile_write_roles :: "string list" where
  "profile_write_roles = [''owner'', ''admin'', ''editor'']"

definition profile_approve_roles :: "string list" where
  "profile_approve_roles = [''owner'', ''admin'']"

definition required_fields :: "string list" where
  "required_fields = [''product_name'', ''short_description'', ''primary_audience'', ''primary_customer_problem'',
     ''main_value_proposition'', ''main_market'']"

text \<open>\<open>round\<close> on a quotient: half to even.\<close>

definition py_round :: "rat \<Rightarrow> int" where
  "py_round x = (let f = \<lfloor>x\<rfloor>; d = x - of_int f in
     if d < 1 / 2 then f else if 1 / 2 < d then f + 1 else if even f then f else f + 1)"

definition completeness :: "(string \<times> pyval) list \<Rightarrow> int \<times> string list" where
  "completeness values =
     (let missing = filter (\<lambda>f. \<not> py_truthy (map_of values f)) required_fields;
          n = length required_fields
      in (py_round (of_nat ((n - length missing) * 100) / of_nat n), missing))"

definition changed_fields :: "(string \<times> pyval) list option \<Rightarrow> (string \<times> pyval) list \<Rightarrow> string list" where
  "changed_fields before after =
     sort (filter (\<lambda>f. case before of None \<Rightarrow> True | Some b \<Rightarrow> map_of b f \<noteq> map_of after f) (map fst after))"

section \<open>Service\<close>

definition opt_text :: "string option \<Rightarrow> pyval" where
  "opt_text v = (case v of None \<Rightarrow> PNone | Some s \<Rightarrow> PStr s)"

definition text_list :: "string list \<Rightarrow> pyval" where
  "text_list xs = PSeq (map PStr xs)"

definition content_values :: "profile_content \<Rightarrow> (string \<times> pyval) list" where
  "content_values c =
     [(''product_name'', opt_text (ct_product_name c)),
      (''short_description'', opt_text (ct_short_description c)),
      (''primary_audience'', opt_text (ct_primary_audience c)),
      (''primary_customer_problem'', opt_text (ct_primary_customer_problem c)),
      (''main_value_proposition'', opt_text (ct_main_value_proposition c)),
      (''primary_conversion_goal'', opt_text (ct_primary_conversion_goal c)),
      (''primary_conversion_url'', opt_text (ct_primary_conversion_url c)),
      (''main_market'', opt_text (ct_main_market c)),
      (''differentiation'', opt_text (ct_differentiation c)),
      (''important_capabilities'', text_list (ct_important_capabilities c)),
      (''quarterly_objective'', opt_text (ct_quarterly_objective c)),
      (''restricted_topics'', text_list (ct_restricted_topics c)),
      (''restricted_claims'', text_list (ct_restricted_claims c)),
      (''restricted_language'', text_list (ct_restricted_language c)),
      (''brand_voice_guidance'', opt_text (ct_brand_voice_guidance c))]"

text \<open>\<open>value or None\<close> on every text.\<close>

definition text_or_none :: "string option \<Rightarrow> string option" where
  "text_or_none v = (if v = Some [] then None else v)"

definition payload_values :: "profile_content \<Rightarrow> profile_content" where
  "payload_values c = c\<lparr>ct_product_name := text_or_none (ct_product_name c),
     ct_short_description := text_or_none (ct_short_description c),
     ct_primary_audience := text_or_none (ct_primary_audience c),
     ct_primary_customer_problem := text_or_none (ct_primary_customer_problem c),
     ct_main_value_proposition := text_or_none (ct_main_value_proposition c),
     ct_primary_conversion_goal := text_or_none (ct_primary_conversion_goal c),
     ct_primary_conversion_url := text_or_none (ct_primary_conversion_url c),
     ct_main_market := text_or_none (ct_main_market c),
     ct_differentiation := text_or_none (ct_differentiation c),
     ct_quarterly_objective := text_or_none (ct_quarterly_objective c),
     ct_brand_voice_guidance := text_or_none (ct_brand_voice_guidance c)\<rparr>"

definition draft_fits :: "profile_content \<Rightarrow> bool" where
  "draft_fits c \<longleftrightarrow> list_all (\<lambda>(v, n). case v of None \<Rightarrow> True | Some s \<Rightarrow> length s \<le> n)
     [(ct_product_name c, 120), (ct_short_description c, 1200), (ct_primary_audience c, 500),
      (ct_primary_customer_problem c, 1000), (ct_main_value_proposition c, 1000), (ct_primary_conversion_url c, 500),
      (ct_main_market c, 300), (ct_differentiation c, 1000), (ct_quarterly_objective c, 1000),
      (ct_brand_voice_guidance c, 1000)]"

definition profile_access :: "membership_row list \<Rightarrow> uuid \<Rightarrow> uuid \<Rightarrow> string list \<Rightarrow> unit res" where
  "profile_access memberships workspace_id user_id allowed =
     (case get_active_membership_role memberships workspace_id user_id of
        None \<Rightarrow> Inl (NotFoundError ''product_profile_not_found'')
      | Some role \<Rightarrow> if role \<in> set allowed then Inr () else Inl (ForbiddenError ''product_profile_forbidden''))"

definition get_profile_for_update :: "profile_db \<Rightarrow> uuid \<Rightarrow> uuid \<Rightarrow> product_profile_status \<Rightarrow> product_profile option" where
  "get_profile_for_update db workspace_id product_id status =
     find (\<lambda>r. pp_workspace_id r = workspace_id \<and> pp_product_id r = product_id \<and> pp_status r = status) (pb_profiles db)"

definition get_product_for_update :: "profile_db \<Rightarrow> uuid \<Rightarrow> uuid \<Rightarrow> product_row option" where
  "get_product_for_update db workspace_id product_id =
     find (\<lambda>p. pd_workspace_id p = workspace_id \<and> pd_id p = product_id) (pb_products db)"

definition revision_conflict :: py_error where
  "revision_conflict = AppError ''product_profile_revision_conflict'' ''The product profile changed. Reload and try again.''"

definition replace_profile :: "product_profile \<Rightarrow> product_profile list \<Rightarrow> product_profile list" where
  "replace_profile row rows = map (\<lambda>r. if pp_id r = pp_id row then row else r) rows"

definition new_draft :: "uuid \<Rightarrow> uuid \<Rightarrow> uuid \<Rightarrow> uuid \<Rightarrow> product_profile option \<Rightarrow> profile_content \<Rightarrow> product_profile" where
  "new_draft new_id workspace_id product_id user_id approved body =
     \<lparr>pp_id = new_id, pp_workspace_id = workspace_id, pp_product_id = product_id, pp_status = PP_draft,
      pp_version = None, pp_draft_revision = 1, pp_based_on_profile_id = map_option pp_id approved,
      pp_schema_version = 1, pp_content = body,
      pp_completeness_score = fst (completeness (content_values body)), pp_approved_at = None,
      pp_approved_by = None, pp_created_by = user_id, pp_updated_by = user_id\<rparr>"

definition audit_entry ::
  "product_profile \<Rightarrow> uuid \<Rightarrow> audit_action \<Rightarrow> int option \<Rightarrow> string list \<Rightarrow> profile_audit_event" where
  "audit_entry row user_id action version names =
     \<lparr>au_workspace_id = pp_workspace_id row, au_product_id = pp_product_id row, au_profile_id = pp_id row,
      au_actor_id = user_id, au_action = action, au_profile_version = version,
      au_draft_revision = pp_draft_revision row, au_changed_fields = names\<rparr>"

text \<open>The audit events are written with the commit, which reports a violated constraint as a conflict.\<close>

definition commit_profile_mutation :: "profile_audit_event list \<Rightarrow> profile_db \<Rightarrow> profile_db res" where
  "commit_profile_mutation events db =
     (if list_all (\<lambda>e. 0 < au_draft_revision e) events then Inr (db\<lparr>pb_audit := pb_audit db @ events\<rparr>)
      else Inl revision_conflict)"

definition save_draft ::
  "growth_env \<Rightarrow> uuid \<Rightarrow> uuid \<Rightarrow> uuid \<Rightarrow> int option \<Rightarrow> profile_content \<Rightarrow> profile_db \<Rightarrow> (product_profile \<times> profile_db) res" where
  "save_draft env workspace_id product_id user_id expected_revision payload db =
     res_bind (profile_access (pb_memberships db) workspace_id user_id profile_write_roles) (\<lambda>_.
     if get_product_for_update db workspace_id product_id = None
     then Inl (NotFoundError ''product_profile_not_found'')
     else let body = payload_values payload;
              approved = get_profile_for_update db workspace_id product_id PP_approved in
       (case get_profile_for_update db workspace_id product_id PP_draft of
          None \<Rightarrow>
            if expected_revision \<noteq> None then Inl revision_conflict
            else let draft = new_draft (ge_uuid env (pb_drawn db)) workspace_id product_id user_id approved body in
              res_bind (flush_profiles (pb_profiles db @ [draft]) (db\<lparr>pb_drawn := pb_drawn db + 1\<rparr>)) (\<lambda>db1.
              res_bind (commit_profile_mutation [audit_entry draft user_id draft_created None
                          (changed_fields None (content_values body))] db1) (\<lambda>db2.
              Inr (draft, db2)))
        | Some before \<Rightarrow>
            if expected_revision \<noteq> Some (pp_draft_revision before) then Inl revision_conflict
            else let draft = before\<lparr>pp_content := body, pp_draft_revision := pp_draft_revision before + 1,
                       pp_completeness_score := fst (completeness (content_values body)), pp_updated_by := user_id\<rparr> in
              res_bind (flush_profiles (replace_profile draft (pb_profiles db)) db) (\<lambda>db1.
              res_bind (commit_profile_mutation [audit_entry draft user_id draft_updated None
                          (changed_fields (Some (content_values (pp_content before))) (content_values body))] db1) (\<lambda>db2.
              Inr (draft, db2)))))"

definition approval_event :: "product_profile \<Rightarrow> uuid \<Rightarrow> int \<Rightarrow> event_request" where
  "approval_event draft user_id version =
     \<lparr>er_workspace_id = pp_workspace_id draft, er_product_id = Some (pp_product_id draft), er_actor_id = Some user_id,
      er_event_name = ''product_profile_approved'',
      er_idempotency_key = ''product-profile-approved:'' @ pp_id draft @ '':'' @ int_text version,
      er_resource_type = Some ''product_profile'', er_resource_id = Some (pp_id draft),
      er_resource_revision = Some version, er_report_ordinal = None, er_second_report_return = None,
      er_fourth_report_return = None, er_valid_no_recommendation_report = None\<rparr>"

definition next_version :: "product_profile option \<Rightarrow> int" where
  "next_version current = (case current of None \<Rightarrow> 0 | Some r \<Rightarrow> (case pp_version r of None \<Rightarrow> 0 | Some v \<Rightarrow> v)) + 1"

definition approve_draft ::
  "growth_env \<Rightarrow> instant \<Rightarrow> uuid \<Rightarrow> uuid \<Rightarrow> uuid \<Rightarrow> int \<Rightarrow> profile_db \<Rightarrow> (product_profile \<times> profile_db) res" where
  "approve_draft env now workspace_id product_id user_id expected_revision db =
     res_bind (profile_access (pb_memberships db) workspace_id user_id profile_approve_roles) (\<lambda>_.
     if get_product_for_update db workspace_id product_id = None
     then Inl (NotFoundError ''product_profile_not_found'')
     else (case get_profile_for_update db workspace_id product_id PP_draft of
       None \<Rightarrow> Inl (NotFoundError ''product_profile_draft_not_found'')
     | Some draft \<Rightarrow>
         if pp_draft_revision draft \<noteq> expected_revision then Inl revision_conflict
         else let (score, missing) = completeness (content_values (pp_content draft)) in
           if missing \<noteq> []
           then Inl (AppError ''product_profile_incomplete''
                  (''Product profile is incomplete: '' @ join_text '', '' missing @ ''.''))
           else let current = get_profile_for_update db workspace_id product_id PP_approved;
                    version = next_version current;
                    superseded = (case current of None \<Rightarrow> pb_profiles db
                      | Some c \<Rightarrow> replace_profile (c\<lparr>pp_status := PP_superseded\<rparr>) (pb_profiles db));
                    row = draft\<lparr>pp_completeness_score := score, pp_status := PP_approved, pp_version := Some version,
                      pp_approved_at := Some now, pp_approved_by := Some user_id, pp_updated_by := user_id\<rparr>
             in res_bind (flush_profiles superseded db) (\<lambda>db1.
                res_bind (flush_profiles (replace_profile row (pb_profiles db1)) db1) (\<lambda>db2.
                res_bind (write_product_event (ge_engine env) (ge_uuid env (pb_drawn db2))
                            (approval_event row user_id version) (pb_events db2)) (\<lambda>(_, events).
                res_bind (commit_profile_mutation
                    (audit_entry row user_id profile_approved (Some version) []
                     # (case current of None \<Rightarrow> [] | Some c \<Rightarrow> [audit_entry c user_id profile_superseded (pp_version c) []]))
                    (db2\<lparr>pb_events := events, pb_drawn := pb_drawn db2 + 1\<rparr>)) (\<lambda>db3.
                Inr (row, db3)))))))"

section \<open>What detection reads\<close>

definition profile_status_value :: "product_profile_status \<Rightarrow> string" where
  "profile_status_value s = (case s of PP_draft \<Rightarrow> ''draft'' | PP_approved \<Rightarrow> ''approved'' | PP_superseded \<Rightarrow> ''superseded'')"

definition profile_row_of :: "product_profile \<Rightarrow> profile_row" where
  "profile_row_of r = (let c = pp_content r in
     \<lparr>pq_id = pp_id r, pq_workspace_id = pp_workspace_id r, pq_product_id = pp_product_id r,
      pq_status = profile_status_value (pp_status r), pq_deleted_at = None, pq_version = pp_version r,
      pq_schema_version = pp_schema_version r, pq_completeness_score = pp_completeness_score r,
      pq_quarterly_objective = ct_quarterly_objective c, pq_primary_audience = ct_primary_audience c,
      pq_primary_conversion_goal = ct_primary_conversion_goal c, pq_primary_conversion_url = ct_primary_conversion_url c,
      pq_main_value_proposition = ct_main_value_proposition c, pq_differentiation = ct_differentiation c,
      pq_important_capabilities = map PStr (ct_important_capabilities c)\<rparr>)"

section \<open>Readiness\<close>

datatype blocking_reason = approved_product_profile_required | operator_disabled | manual_runs_disabled

record profile_readiness =
  rn_draft_completeness_score :: int
  rn_draft_missing_fields :: "string list"
  rn_approved_profile_id :: "uuid option"
  rn_approved_profile_version :: "int option"
  rn_profile_ready :: bool
  rn_operator_enabled :: bool
  rn_manual_run_available :: bool
  rn_blocking_reasons :: "blocking_reason list"

text \<open>\<open>str.split("_")\<close> and \<open>str.capitalize\<close> on ASCII text.\<close>

fun split_on :: "char \<Rightarrow> string \<Rightarrow> string list" where
  "split_on c [] = [[]]"
| "split_on c (x # xs) =
     (if x = c then [] # split_on c xs
      else (case split_on c xs of [] \<Rightarrow> [[x]] | w # ws \<Rightarrow> (x # w) # ws))"

definition py_upper_char :: "char \<Rightarrow> char" where
  "py_upper_char c = (if CHR ''a'' \<le> c \<and> c \<le> CHR ''z'' then char_of (of_char c - 32 :: nat) else c)"

definition capitalize :: "string \<Rightarrow> string" where
  "capitalize s = (case s of [] \<Rightarrow> [] | c # cs \<Rightarrow> py_upper_char c # py_lower cs)"

definition public_field_name :: "string \<Rightarrow> string" where
  "public_field_name s = (case split_on CHR ''_'' s of [] \<Rightarrow> [] | w # ws \<Rightarrow> w @ concat (map capitalize ws))"

definition product_profile_readiness ::
  "product_profile option \<Rightarrow> product_profile option \<Rightarrow> bool \<Rightarrow> bool \<Rightarrow> profile_readiness" where
  "product_profile_readiness draft approved operator_on manual_on =
     (let (score, missing) = (case draft of None \<Rightarrow> completeness [] | Some d \<Rightarrow> completeness (content_values (pp_content d)));
          ready = (case approved of None \<Rightarrow> False | Some a \<Rightarrow> pp_version a \<noteq> None)
      in \<lparr>rn_draft_completeness_score = score, rn_draft_missing_fields = map public_field_name missing,
          rn_approved_profile_id = (if ready then map_option pp_id approved else None),
          rn_approved_profile_version = (if ready then Option.bind approved pp_version else None),
          rn_profile_ready = ready, rn_operator_enabled = operator_on,
          rn_manual_run_available = (ready \<and> operator_on \<and> manual_on),
          rn_blocking_reasons = (if ready then [] else [approved_product_profile_required])
            @ (if operator_on then [] else [operator_disabled]) @ (if manual_on then [] else [manual_runs_disabled])\<rparr>)"

definition list_versions :: "profile_db \<Rightarrow> uuid \<Rightarrow> uuid \<Rightarrow> nat \<Rightarrow> nat \<Rightarrow> product_profile list" where
  "list_versions db workspace_id product_id limit offset =
     take limit (drop offset (rev (sort_key (\<lambda>r. (the (pp_version r), pp_id r))
       (filter (\<lambda>r. pp_workspace_id r = workspace_id \<and> pp_product_id r = product_id \<and> pp_version r \<noteq> None) (pb_profiles db)))))"

definition get_profile_version :: "profile_db \<Rightarrow> uuid \<Rightarrow> uuid \<Rightarrow> int \<Rightarrow> product_profile option" where
  "get_profile_version db workspace_id product_id version =
     find (\<lambda>r. pp_workspace_id r = workspace_id \<and> pp_product_id r = product_id \<and> pp_version r = Some version) (pb_profiles db)"

end
