(* ===== verification/Profile_Facts.thy ===== *)
theory Profile_Facts
  imports Profiles
begin

text \<open>
  What the profile service guarantees: the approved versions of a product form one sequence whose last
  element is current, every approved version is complete, an edit with a stale revision is refused, and
  an approved profile is what the next detection reads.
\<close>

section \<open>The table\<close>

lemma no_clash_unique: "no_clash xs \<Longrightarrow> a \<in> set xs \<Longrightarrow> b \<in> set xs \<Longrightarrow> profiles_clash a b \<Longrightarrow> a = b"
  by (induction xs) (auto simp: list_all_iff profiles_clash_def same_product_def)

lemma flush_result: "flush_profiles rows db = Inr db' \<longleftrightarrow> list_all profile_ok rows \<and> no_clash rows \<and> db' = db\<lparr>pb_profiles := rows\<rparr>"
  by (auto simp: flush_profiles_def)

lemma set_replace_profile:
  assumes "no_clash rows" "old \<in> set rows" "pp_id row = pp_id old"
  shows "set (replace_profile row rows) = insert row (set rows - {old})"
proof -
  have "pp_id r = pp_id row \<longleftrightarrow> r = old" if "r \<in> set rows" for r
    using no_clash_unique [OF assms(1) that assms(2)] assms(3) by (auto simp: profiles_clash_def)
  then show ?thesis using assms(2) by (auto simp: replace_profile_def)
qed

lemma get_profile_in:
  "get_profile_for_update db w p s = Some r \<Longrightarrow>
     r \<in> set (pb_profiles db) \<and> pp_workspace_id r = w \<and> pp_product_id r = p \<and> pp_status r = s"
  by (auto simp: get_profile_for_update_def dest: find_SomeD)

lemma get_profile_eq:
  assumes "no_clash (pb_profiles db)" "s \<noteq> PP_superseded"
    and "r \<in> set (pb_profiles db)" "pp_workspace_id r = w" "pp_product_id r = p" "pp_status r = s"
  shows "get_profile_for_update db w p s = Some r"
proof -
  have "get_profile_for_update db w p s \<noteq> None"
    using assms(3-6) by (auto simp: get_profile_for_update_def find_None_iff)
  then obtain r' where r': "get_profile_for_update db w p s = Some r'" by blast
  then have "profiles_clash r' r"
    using get_profile_in [OF r'] assms(2,4-6) by (cases s) (auto simp: profiles_clash_def same_product_def)
  then show ?thesis using no_clash_unique [OF assms(1)] get_profile_in [OF r'] assms(3) r' by blast
qed

section \<open>Versions\<close>

definition complete :: "profile_content \<Rightarrow> bool" where
  "complete c \<longleftrightarrow> snd (completeness (content_values c)) = []"

definition clean :: "profile_content \<Rightarrow> bool" where
  "clean c \<longleftrightarrow> draft_fits c \<and> payload_values c = c"

text \<open>The version of a row is one of the versions up to the current one, which all exist.\<close>

definition versioned :: "product_profile set \<Rightarrow> product_profile \<Rightarrow> bool" where
  "versioned rows r \<longleftrightarrow> (\<exists>v a n. pp_version r = Some v \<and> a \<in> rows \<and> same_product r a \<and> pp_status a = PP_approved
     \<and> pp_version a = Some n \<and> 1 \<le> v \<and> v \<le> n
     \<and> (\<forall>k. 1 \<le> k \<and> k \<le> n \<longrightarrow> (\<exists>b \<in> rows. same_product r b \<and> pp_version b = Some k)))"

definition history_ok :: "product_profile set \<Rightarrow> bool" where
  "history_ok rows \<longleftrightarrow> (\<forall>r \<in> rows. clean (pp_content r)
     \<and> (pp_status r \<noteq> PP_draft \<longrightarrow> complete (pp_content r) \<and> versioned rows r))"

definition profile_inv :: "profile_db \<Rightarrow> bool" where
  "profile_inv db \<longleftrightarrow> list_all profile_ok (pb_profiles db) \<and> no_clash (pb_profiles db) \<and> history_ok (set (pb_profiles db))"

inductive profile_step :: "growth_env \<Rightarrow> profile_db \<Rightarrow> profile_db \<Rightarrow> bool" for env where
  step_save: "save_draft env w p u e payload db = Inr (row, db') \<Longrightarrow> draft_fits payload \<Longrightarrow> profile_step env db db'"
| step_approve: "approve_draft env now w p u e db = Inr (row, db') \<Longrightarrow> profile_step env db db'"
| step_other: "profile_step env db (db\<lparr>pb_products := ps, pb_memberships := ms, pb_events := es, pb_drawn := n\<rparr>)"

lemma commit_result: "commit_profile_mutation es db = Inr db' \<Longrightarrow> db' = db\<lparr>pb_audit := pb_audit db @ es\<rparr>"
  by (simp add: commit_profile_mutation_def split: if_splits)

lemma save_result:
  assumes "save_draft env w p u e payload db = Inr (row, db')"
  obtains "get_profile_for_update db w p PP_draft = None" "e = None"
      "row = new_draft (ge_uuid env (pb_drawn db)) w p u (get_profile_for_update db w p PP_approved) (payload_values payload)"
      "pb_profiles db' = pb_profiles db @ [row]" "list_all profile_ok (pb_profiles db')" "no_clash (pb_profiles db')"
  | before where "get_profile_for_update db w p PP_draft = Some before" "e = Some (pp_draft_revision before)"
      "row = before\<lparr>pp_content := payload_values payload, pp_draft_revision := pp_draft_revision before + 1,
         pp_completeness_score := fst (completeness (content_values (payload_values payload))), pp_updated_by := u\<rparr>"
      "pb_profiles db' = replace_profile row (pb_profiles db)" "list_all profile_ok (pb_profiles db')"
      "no_clash (pb_profiles db')"
  using assms unfolding save_draft_def Let_def
  by (auto simp: res_bind_eq_Inr flush_result split: if_splits option.splits dest!: commit_result)

lemma save_keeps: 
  "save_draft env w p u e payload db = Inr (row, db') \<Longrightarrow>
     pb_memberships db' = pb_memberships db \<and> pb_products db' = pb_products db"
  unfolding save_draft_def Let_def
  by (auto simp: res_bind_eq_Inr flush_result split: if_splits option.splits dest!: commit_result)

lemma approve_result:
  assumes "approve_draft env now w p u e db = Inr (row, db')"
  obtains draft where "get_profile_for_update db w p PP_draft = Some draft" "pp_draft_revision draft = e"
    "complete (pp_content draft)"
    "row = draft\<lparr>pp_completeness_score := fst (completeness (content_values (pp_content draft))), pp_status := PP_approved,
       pp_version := Some (next_version (get_profile_for_update db w p PP_approved)), pp_approved_at := Some now,
       pp_approved_by := Some u, pp_updated_by := u\<rparr>"
    "pb_profiles db' = replace_profile row (case get_profile_for_update db w p PP_approved of None \<Rightarrow> pb_profiles db
       | Some c \<Rightarrow> replace_profile (c\<lparr>pp_status := PP_superseded\<rparr>) (pb_profiles db))"
    "no_clash (case get_profile_for_update db w p PP_approved of None \<Rightarrow> pb_profiles db
       | Some c \<Rightarrow> replace_profile (c\<lparr>pp_status := PP_superseded\<rparr>) (pb_profiles db))"
    "list_all profile_ok (pb_profiles db')" "no_clash (pb_profiles db')"
    "pb_memberships db' = pb_memberships db" "pb_products db' = pb_products db"
  using assms unfolding approve_draft_def Let_def
  by (auto simp: res_bind_eq_Inr flush_result complete_def split: if_splits option.splits prod.splits dest!: commit_result)

section \<open>Steps\<close>

lemma payload_values_idem [simp]: "payload_values (payload_values c) = payload_values c"
  by (simp add: payload_values_def text_or_none_def)

lemma clean_payload: "draft_fits c \<Longrightarrow> clean (payload_values c)"
  by (simp add: clean_def) (auto simp: draft_fits_def payload_values_def text_or_none_def)

lemma versionedI:
  assumes "pp_version r = Some v" "a \<in> rows" "same_product r a" "pp_status a = PP_approved" "pp_version a = Some n" "1 \<le> v" "v \<le> n"
    and "\<And>k. 1 \<le> k \<Longrightarrow> k \<le> n \<Longrightarrow> \<exists>b \<in> rows. same_product r b \<and> pp_version b = Some k"
  shows "versioned rows r"
  unfolding versioned_def using assms by blast

lemma versionedE:
  assumes "versioned rows r"
  obtains v a n where "pp_version r = Some v" "a \<in> rows" "same_product r a" "pp_status a = PP_approved" "pp_version a = Some n"
    "1 \<le> v" "v \<le> n" "\<And>k. 1 \<le> k \<Longrightarrow> k \<le> n \<Longrightarrow> \<exists>b \<in> rows. same_product r b \<and> pp_version b = Some k"
  using assms unfolding versioned_def by blast

lemma history_draft:
  assumes "history_ok rows" "clean (pp_content row)" "pp_status row = PP_draft"
    and "\<forall>r \<in> gone. pp_status r = PP_draft \<and> pp_version r = None"
  shows "history_ok (insert row (rows - gone))"
proof -
  have "versioned (insert row (rows - gone)) r" if vr: "versioned rows r" for r
    using vr
  proof (rule versionedE)
    fix v a n assume *: "pp_version r = Some v" "a \<in> rows" "same_product r a" "pp_status a = PP_approved" "pp_version a = Some n"
      "1 \<le> v" "v \<le> n" "\<And>k. 1 \<le> k \<Longrightarrow> k \<le> n \<Longrightarrow> \<exists>b \<in> rows. same_product r b \<and> pp_version b = Some k"
    show ?thesis
    proof (rule versionedI [OF *(1) _ *(3-7)])
      show "a \<in> insert row (rows - gone)" using *(2,4) assms(4) by auto
      show "\<exists>b \<in> insert row (rows - gone). same_product r b \<and> pp_version b = Some k" if "1 \<le> k" "k \<le> n" for k
        using *(8) [OF that] assms(4) by force
    qed
  qed
  then show ?thesis using assms(1-3) unfolding history_ok_def by blast
qed

lemma save_inv:
  assumes "save_draft env w p u e payload db = Inr (row, db')" "draft_fits payload" "profile_inv db"
  shows "profile_inv db'"
  using assms(1)
proof (cases rule: save_result)
  case 1
  have "history_ok (insert row (set (pb_profiles db) - {}))"
    using assms(3) clean_payload [OF assms(2)] 1(3)
    by (intro history_draft) (simp_all add: profile_inv_def new_draft_def)
  then show ?thesis using 1(4-6) by (simp add: profile_inv_def)
next
  case (2 before)
  note b = get_profile_in [OF 2(1)]
  have ok: "no_clash (pb_profiles db)" "profile_ok before" using assms(3) b by (auto simp: profile_inv_def list_all_iff)
  have "set (pb_profiles db') = insert row (set (pb_profiles db) - {before})"
    unfolding 2(4) using ok(1) b 2(3) by (intro set_replace_profile) simp_all
  moreover have "history_ok (insert row (set (pb_profiles db) - {before}))"
    using assms(3) clean_payload [OF assms(2)] 2(3) b ok(2)
    by (intro history_draft) (simp_all add: profile_inv_def profile_ok_def)
  ultimately show ?thesis using 2(5,6) by (simp add: profile_inv_def)
qed

text \<open>Approving: the current version is superseded by the draft.\<close>

definition supersede :: "product_profile option \<Rightarrow> product_profile \<Rightarrow> product_profile" where
  "supersede current r = (if current = Some r then r\<lparr>pp_status := PP_superseded\<rparr> else r)"

lemma versions_before:
  assumes hist: "history_ok rows"
    and current: "\<And>a. current = Some a \<Longrightarrow> a \<in> rows \<and> same_product draft a \<and> pp_status a = PP_approved"
      "\<And>a. a \<in> rows \<Longrightarrow> same_product draft a \<Longrightarrow> pp_status a = PP_approved \<Longrightarrow> current = Some a"
  shows "1 \<le> next_version current
    \<and> (\<forall>k. 1 \<le> k \<and> k < next_version current \<longrightarrow> (\<exists>b \<in> rows. same_product draft b \<and> pp_version b = Some k))"
proof (cases current)
  case None
  then show ?thesis by (auto simp: next_version_def)
next
  case (Some c)
  note c = current(1) [OF Some]
  then have "versioned rows c" using hist by (auto simp: history_ok_def)
  then show ?thesis
  proof (rule versionedE)
    fix v a n assume *: "pp_version c = Some v" "a \<in> rows" "same_product c a" "pp_status a = PP_approved" "pp_version a = Some n"
      "1 \<le> v" "v \<le> n" "\<And>k. 1 \<le> k \<Longrightarrow> k \<le> n \<Longrightarrow> \<exists>b \<in> rows. same_product c b \<and> pp_version b = Some k"
    have "same_product draft a" using c *(3) by (simp add: same_product_def)
    from current(2) [OF *(2) this *(4)] have "next_version current = n + 1" "v = n"
      using Some *(1,5) by (simp_all add: next_version_def)
    moreover have "\<exists>b \<in> rows. same_product draft b \<and> pp_version b = Some k" if "1 \<le> k" "k \<le> n" for k
      using *(8) [OF that] c by (simp add: same_product_def)
    ultimately show ?thesis using *(6) by simp
  qed
qed

lemma history_approve:
  assumes hist: "history_ok rows"
    and draft: "draft \<in> rows" "pp_version draft = None" "clean (pp_content draft)" "complete (pp_content draft)"
    and current: "\<And>a. current = Some a \<Longrightarrow> a \<in> rows \<and> same_product draft a \<and> pp_status a = PP_approved"
      "\<And>a. a \<in> rows \<Longrightarrow> same_product draft a \<Longrightarrow> pp_status a = PP_approved \<Longrightarrow> current = Some a"
    and row: "pp_version row = Some (next_version current)" "pp_status row = PP_approved" "same_product draft row"
      "pp_content row = pp_content draft"
  shows "history_ok (insert row (supersede current ` (rows - {draft})))" (is "history_ok ?new")
proof -
  have same: "pp_version (supersede current b) = pp_version b" "pp_content (supersede current b) = pp_content b"
    "same_product r (supersede current b) = same_product r b" "same_product (supersede current b) r = same_product b r" for b r
    by (simp_all add: supersede_def same_product_def)
  have sym: "same_product a b \<Longrightarrow> same_product a c \<Longrightarrow> same_product b c" for a b c by (simp add: same_product_def)
  have kept: "\<exists>b' \<in> ?new. same_product r b' \<and> pp_version b' = Some k"
    if "\<exists>b \<in> rows. same_product r b \<and> pp_version b = Some k" for r k
  proof -
    from that obtain b where "b \<in> rows" "same_product r b" "pp_version b = Some k" by blast
    then show ?thesis using draft(2) by (intro bexI [of _ "supersede current b"]) (auto simp: same)
  qed
  have before: "1 \<le> next_version current"
    "\<And>k. 1 \<le> k \<Longrightarrow> k < next_version current \<Longrightarrow> \<exists>b \<in> rows. same_product draft b \<and> pp_version b = Some k"
    using versions_before [OF hist current(1) current(2)] by blast+
  have upto: "\<exists>b \<in> ?new. same_product draft b \<and> pp_version b = Some k" if "1 \<le> k" "k \<le> next_version current" for k
  proof (cases "k = next_version current")
    case True
    then show ?thesis using row(1,3) by (intro bexI [of _ row]) simp_all
  next
    case False
    then have "k < next_version current" using that(2) by simp
    from kept [OF before(2) [OF that(1) this]] show ?thesis .
  qed
  have of_row: "versioned ?new r" if "pp_version r = Some v" "same_product draft r" "1 \<le> v" "v \<le> next_version current" for r v
  proof (rule versionedI [OF that(1) _ _ row(2,1) that(3,4)])
    show "same_product r row" using sym that(2) row(3) by blast
    show "\<exists>b \<in> ?new. same_product r b \<and> pp_version b = Some k" if "1 \<le> k" "k \<le> next_version current" for k
      using upto [OF that] sym [OF \<open>same_product draft r\<close>] by blast
  qed simp
  have others: "versioned ?new (supersede current r)" if r: "r \<in> rows" "pp_status r \<noteq> PP_draft" for r
  proof -
    have "versioned rows r" using hist r by (auto simp: history_ok_def)
    then show ?thesis
    proof (rule versionedE)
      fix v a n assume *: "pp_version r = Some v" "a \<in> rows" "same_product r a" "pp_status a = PP_approved" "pp_version a = Some n"
        "1 \<le> v" "v \<le> n" "\<And>k. 1 \<le> k \<Longrightarrow> k \<le> n \<Longrightarrow> \<exists>b \<in> rows. same_product r b \<and> pp_version b = Some k"
      show ?thesis
      proof (cases "same_product draft r")
        case True
        then have "current = Some a" using current(2) [OF *(2) _ *(4)] *(3) by (simp add: same_product_def)
        then have "v \<le> next_version current" using *(5,7) by (simp add: next_version_def)
        then show ?thesis using of_row [of "supersede current r" v] * True by (simp add: same)
      next
        case False
        then have "current \<noteq> Some a" using current(1) *(3) by (auto simp: same_product_def)
        then have "a \<in> ?new" using *(2,5) draft(2) by (auto simp: supersede_def image_iff)
        moreover have "\<exists>b \<in> ?new. same_product (supersede current r) b \<and> pp_version b = Some k" if "1 \<le> k" "k \<le> n" for k
          unfolding same by (rule kept) (rule *(8) [OF that])
        ultimately show ?thesis using * by (intro versionedI [of _ v a _ n]) (simp_all only: same)
      qed
    qed
  qed
  have "clean (pp_content r) \<and> (pp_status r \<noteq> PP_draft \<longrightarrow> complete (pp_content r) \<and> versioned ?new r)" if r: "r \<in> ?new" for r
  proof (cases "r = row")
    case True
    then show ?thesis using draft row of_row [OF row(1,3)] before(1) by simp
  next
    case False
    then obtain r0 where r0: "r0 \<in> rows" "r = supersede current r0" using r by blast
    then have "pp_status r \<noteq> PP_draft \<Longrightarrow> pp_status r0 \<noteq> PP_draft" by (auto simp: supersede_def split: if_splits dest: current(1))
    then show ?thesis using hist r0 others [OF r0(1)] by (auto simp: history_ok_def same)
  qed
  then show ?thesis unfolding history_ok_def by blast
qed

lemma approve_rows:
  assumes "profile_inv db" "get_profile_for_update db w p PP_draft = Some draft" "pp_id row = pp_id draft"
    and "no_clash (case current of None \<Rightarrow> pb_profiles db | Some c \<Rightarrow> replace_profile (c\<lparr>pp_status := PP_superseded\<rparr>) (pb_profiles db))"
    and "current = get_profile_for_update db w p PP_approved"
  shows "set (replace_profile row (case current of None \<Rightarrow> pb_profiles db
       | Some c \<Rightarrow> replace_profile (c\<lparr>pp_status := PP_superseded\<rparr>) (pb_profiles db)))
    = insert row (supersede current ` (set (pb_profiles db) - {draft}))"
proof (cases current)
  case None
  then show ?thesis
    using set_replace_profile [of "pb_profiles db" draft row] get_profile_in [OF assms(2)] assms(1,3)
    by (simp add: profile_inv_def supersede_def)
next
  case (Some c)
  let ?c = "c\<lparr>pp_status := PP_superseded\<rparr>"
  note d = get_profile_in [OF assms(2)] and c = get_profile_in [OF Some [unfolded assms(5)]]
  have "draft \<noteq> c" using d c by auto
  have rows: "set (replace_profile ?c (pb_profiles db)) = insert ?c (set (pb_profiles db) - {c})"
    using set_replace_profile [of "pb_profiles db" c ?c] c assms(1) by (simp add: profile_inv_def)
  then have "draft \<in> set (replace_profile ?c (pb_profiles db))" using d \<open>draft \<noteq> c\<close> by auto
  then have "set (replace_profile row (replace_profile ?c (pb_profiles db))) = insert row (insert ?c (set (pb_profiles db) - {c}) - {draft})"
    using set_replace_profile [of _ draft row] assms(3,4) Some rows by simp
  moreover have "?c \<noteq> draft" using d by auto
  moreover have "supersede current ` (set (pb_profiles db) - {draft}) = insert ?c (set (pb_profiles db) - {c} - {draft})"
    using c Some \<open>draft \<noteq> c\<close> by (auto simp: supersede_def image_iff)
  ultimately show ?thesis using Some by (auto simp: insert_Diff_if)
qed

lemma approve_inv:
  assumes "approve_draft env now w p u e db = Inr (row, db')" "profile_inv db"
  shows "profile_inv db'"
  using assms(1)
proof (rule approve_result)
  fix draft
  let ?current = "get_profile_for_update db w p PP_approved"
  assume d: "get_profile_for_update db w p PP_draft = Some draft" "complete (pp_content draft)"
    and row: "row = draft\<lparr>pp_completeness_score := fst (completeness (content_values (pp_content draft))), pp_status := PP_approved,
       pp_version := Some (next_version ?current), pp_approved_at := Some now, pp_approved_by := Some u, pp_updated_by := u\<rparr>"
    and db': "pb_profiles db' = replace_profile row (case ?current of None \<Rightarrow> pb_profiles db
       | Some c \<Rightarrow> replace_profile (c\<lparr>pp_status := PP_superseded\<rparr>) (pb_profiles db))"
      "list_all profile_ok (pb_profiles db')" "no_clash (pb_profiles db')"
    and mid: "no_clash (case ?current of None \<Rightarrow> pb_profiles db
       | Some c \<Rightarrow> replace_profile (c\<lparr>pp_status := PP_superseded\<rparr>) (pb_profiles db))"
  note draft = get_profile_in [OF d(1)]
  have ok: "profile_ok draft" "clean (pp_content draft)" "history_ok (set (pb_profiles db))" "no_clash (pb_profiles db)"
    using assms(2) draft by (auto simp: profile_inv_def list_all_iff history_ok_def)
  have "set (pb_profiles db') = insert row (supersede ?current ` (set (pb_profiles db) - {draft}))"
    unfolding db'(1) by (rule approve_rows [OF assms(2) d(1) _ mid refl]) (simp add: row)
  moreover have "history_ok (insert row (supersede ?current ` (set (pb_profiles db) - {draft})))"
  proof (rule history_approve [OF ok(3) _ _ ok(2) d(2)])
    show "\<And>a. ?current = Some a \<Longrightarrow> a \<in> set (pb_profiles db) \<and> same_product draft a \<and> pp_status a = PP_approved"
      using draft by (auto dest: get_profile_in simp: same_product_def)
    show "\<And>a. a \<in> set (pb_profiles db) \<Longrightarrow> same_product draft a \<Longrightarrow> pp_status a = PP_approved \<Longrightarrow> ?current = Some a"
      using draft by (intro get_profile_eq [OF ok(4)]) (auto simp: same_product_def)
  qed (use draft ok(1) in \<open>simp_all add: row profile_ok_def same_product_def\<close>)
  ultimately show "profile_inv db'" using db'(2,3) by (simp add: profile_inv_def)
qed

lemma profile_step_inv: "profile_step env db db' \<Longrightarrow> profile_inv db \<Longrightarrow> profile_inv db'"
proof (induction rule: profile_step.induct)
  case (step_other db ps ms es n)
  then show ?case by (simp add: profile_inv_def)
qed (rule save_inv approve_inv, assumption+)+

section \<open>Properties\<close>

lemma reachable_profiles:
  assumes "(profile_step env)\<^sup>*\<^sup>* db db'" "pb_profiles db = []"
  shows "profile_inv db'"
  using assms(1)
proof (induction rule: rtranclp_induct)
  case base
  then show ?case using assms(2) by (simp add: profile_inv_def history_ok_def)
qed (blast intro: profile_step_inv)

text \<open>C20. However drafts are saved and approved, the approved versions of a product are numbered from 1
  without a gap, exactly one of them is current and it is the last, and each of them is complete.\<close>

theorem versions_are_linear:
  assumes "(profile_step env)\<^sup>*\<^sup>* db db'" "pb_profiles db = []"
    and "r \<in> set (pb_profiles db')" "pp_status r \<noteq> PP_draft"
  shows "complete (pp_content r) \<and> (\<exists>n. \<exists>!a. a \<in> set (pb_profiles db') \<and> same_product r a \<and> pp_status a = PP_approved
    \<and> pp_version a = Some n \<and> {k. \<exists>b \<in> set (pb_profiles db'). same_product r b \<and> pp_version b = Some k} = {1..n})"
proof -
  have inv: "list_all profile_ok (pb_profiles db')" "no_clash (pb_profiles db')" "history_ok (set (pb_profiles db'))"
    using reachable_profiles [OF assms(1,2)] by (simp_all add: profile_inv_def)
  have one: "a = b" if "a \<in> set (pb_profiles db')" "b \<in> set (pb_profiles db')" "same_product r a" "same_product r b"
    "pp_status a = PP_approved" "pp_status b = PP_approved" for a b
    using no_clash_unique [OF inv(2) that(1,2)] that(3-6) by (simp add: profiles_clash_def same_product_def)
  have "complete (pp_content r)" and vr: "versioned (set (pb_profiles db')) r"
    using inv(3) assms(3,4) by (simp_all add: history_ok_def)
  from vr obtain a n where a: "a \<in> set (pb_profiles db')" "same_product r a" "pp_status a = PP_approved" "pp_version a = Some n"
    and all: "\<And>k. 1 \<le> k \<Longrightarrow> k \<le> n \<Longrightarrow> \<exists>b \<in> set (pb_profiles db'). same_product r b \<and> pp_version b = Some k"
    by (rule versionedE) blast
  have "1 \<le> k \<and> k \<le> n" if b: "b \<in> set (pb_profiles db')" "same_product r b" "pp_version b = Some k" for b k
  proof -
    have "pp_status b \<noteq> PP_draft" using inv(1) b by (auto simp: list_all_iff profile_ok_def)
    then have "versioned (set (pb_profiles db')) b" using inv(3) b(1) by (simp add: history_ok_def)
    then obtain a' n' where a': "a' \<in> set (pb_profiles db')" "same_product b a'" "pp_status a' = PP_approved" "pp_version a' = Some n'"
      "1 \<le> k" "k \<le> n'" using b(3) by (auto elim!: versionedE)
    moreover have "a' = a" using one [OF a'(1) a(1) _ a(2)] a'(2,3) a(3) b(2) by (simp add: same_product_def)
    ultimately show ?thesis using a(4) by simp
  qed
  then have "{k. \<exists>b \<in> set (pb_profiles db'). same_product r b \<and> pp_version b = Some k} = {1..n}" using all by auto
  then show ?thesis using \<open>complete (pp_content r)\<close> a one by blast
qed

lemma completeness_bounds: "0 \<le> fst (completeness vs) \<and> fst (completeness vs) \<le> 100"
proof -
  have table: "list_all (\<lambda>n. 0 \<le> py_round (of_nat (n * 100) / of_nat 6) \<and> py_round (of_nat (n * 100) / of_nat 6) \<le> 100) [0..<7]"
    by code_simp
  let ?n = "6 - length (filter (\<lambda>f. \<not> py_truthy (map_of vs f)) required_fields)"
  have "?n \<in> set [0..<7]" by simp
  with table have "0 \<le> py_round (of_nat (?n * 100) / of_nat 6) \<and> py_round (of_nat (?n * 100) / of_nat 6) \<le> 100"
    unfolding list_all_iff by blast
  moreover have "length required_fields = 6" by (simp add: required_fields_def)
  ultimately show ?thesis by (simp add: completeness_def Let_def)
qed

definition index_key :: "product_profile \<Rightarrow> uuid \<times> uuid \<times> uuid \<times> int option \<times> product_profile_status" where
  "index_key r = (pp_id r, pp_workspace_id r, pp_product_id r, pp_version r, pp_status r)"

lemma no_clash_map: "\<forall>r \<in> set rs. index_key (f r) = index_key r \<Longrightarrow> no_clash (map f rs) = no_clash rs"
proof (induction rs)
  case (Cons r rs)
  have "profiles_clash (f r) (f x) = profiles_clash r x" if "x \<in> set rs" for x
    using Cons.prems that by (auto simp: profiles_clash_def same_product_def index_key_def)
  then show ?case using Cons by (simp add: list_all_iff)
qed simp

text \<open>A draft can be replaced by its next revision.\<close>

lemma flush_revision:
  assumes "profile_inv db" "old \<in> set (pb_profiles db)" "index_key row = index_key old" "profile_ok row"
  shows "flush_profiles (replace_profile row (pb_profiles db)) db = Inr (db\<lparr>pb_profiles := replace_profile row (pb_profiles db)\<rparr>)"
proof -
  have "r = old" if "r \<in> set (pb_profiles db)" "pp_id r = pp_id row" for r
    using no_clash_unique [OF _ that(1) assms(2)] that(2) assms(1,3) by (simp add: profile_inv_def profiles_clash_def index_key_def)
  then have "\<forall>r \<in> set (pb_profiles db). index_key (if pp_id r = pp_id row then row else r) = index_key r"
    using assms(3) by auto
  then have "no_clash (replace_profile row (pb_profiles db))"
    unfolding replace_profile_def using no_clash_map assms(1) by (simp add: profile_inv_def)
  then show ?thesis using assms(1,4)
    by (auto simp: flush_profiles_def profile_inv_def list_all_iff replace_profile_def)
qed

lemma saved_draft:
  assumes "save_draft env w p u e payload db = Inr (row, db')" "profile_inv db" "draft_fits payload"
  shows "get_profile_for_update db' w p PP_draft = Some row" "e \<noteq> Some (pp_draft_revision row)" "0 < pp_draft_revision row"
proof -
  have inv: "profile_inv db'" by (rule save_inv [OF assms(1,3,2)])
  have "row \<in> set (pb_profiles db') \<and> pp_workspace_id row = w \<and> pp_product_id row = p \<and> pp_status row = PP_draft
      \<and> e \<noteq> Some (pp_draft_revision row)"
    using assms(1)
  proof (cases rule: save_result)
    case 1
    then show ?thesis by (simp add: new_draft_def)
  next
    case (2 before)
    have "set (pb_profiles db') = insert row (set (pb_profiles db) - {before})"
      unfolding 2(4) using assms(2) get_profile_in [OF 2(1)] 2(3) by (intro set_replace_profile) (simp_all add: profile_inv_def)
    then show ?thesis using get_profile_in [OF 2(1)] 2(2,3) by simp
  qed
  then show "get_profile_for_update db' w p PP_draft = Some row" "e \<noteq> Some (pp_draft_revision row)" "0 < pp_draft_revision row"
    using inv by (auto simp: profile_inv_def list_all_iff profile_ok_def intro: get_profile_eq)
qed

text \<open>C21. Two editors that read the same revision cannot both save: after the first save, a save or an approval
  with the revision that the first editor had read is refused, and a save with the new revision goes through.\<close>

theorem stale_revision_is_refused:
  assumes "save_draft env w p u e payload db = Inr (row, db')" "profile_inv db" "draft_fits payload"
    and "get_active_membership_role (pb_memberships db) w u' = Some role" "role \<in> {''owner'', ''admin''}"
  shows "save_draft env w p u' e payload' db' = Inl revision_conflict
    \<and> (\<forall>n. e = Some n \<longrightarrow> approve_draft env now w p u' n db' = Inl revision_conflict)
    \<and> is_ok (save_draft env w p u' (Some (pp_draft_revision row)) payload' db')"
proof -
  note row = saved_draft [OF assms(1-3)]
  have inv: "profile_inv db'" by (rule save_inv [OF assms(1,3,2)])
  have access: "profile_access (pb_memberships db') w u' profile_write_roles = Inr ()"
    "profile_access (pb_memberships db') w u' profile_approve_roles = Inr ()"
    using assms(4,5) save_keeps [OF assms(1)]
    by (auto simp: profile_access_def profile_write_roles_def profile_approve_roles_def)
  have product: "get_product_for_update db' w p \<noteq> None"
    using assms(1) save_keeps [OF assms(1)] by (auto simp: save_draft_def get_product_for_update_def res_bind_eq_Inr split: if_splits)
  let ?new = "row\<lparr>pp_content := payload_values payload', pp_draft_revision := pp_draft_revision row + 1,
      pp_completeness_score := fst (completeness (content_values (payload_values payload'))), pp_updated_by := u'\<rparr>"
  have "profile_ok row" using inv get_profile_in [OF row(1)] by (simp add: profile_inv_def list_all_iff)
  then have "profile_ok ?new" using completeness_bounds by (simp add: profile_ok_def)
  then have "flush_profiles (replace_profile ?new (pb_profiles db')) db' = Inr (db'\<lparr>pb_profiles := replace_profile ?new (pb_profiles db')\<rparr>)"
    using get_profile_in [OF row(1)] by (intro flush_revision [OF inv, of row]) (simp_all add: index_key_def)
  then have "is_ok (save_draft env w p u' (Some (pp_draft_revision row)) payload' db')"
    using access(1) product row(1,3) by (simp add: save_draft_def Let_def commit_profile_mutation_def audit_entry_def)
  then show ?thesis using access product row by (auto simp: save_draft_def approve_draft_def Let_def)
qed

lemma find_map_option: "find P (map f xs) = map_option f (find (\<lambda>x. P (f x)) xs)"
  by (induction xs) simp_all

lemma find_filter: "find Q (filter R xs) = find (\<lambda>x. R x \<and> Q x) xs"
  by (induction xs) simp_all

lemma complete_score: "complete c \<Longrightarrow> fst (completeness (content_values c)) = 100"
proof -
  have "py_round (of_nat (6 * 100) / of_nat 6) = 100" by code_simp
  then show "complete c \<Longrightarrow> fst (completeness (content_values c)) = 100"
    by (simp add: complete_def completeness_def Let_def required_fields_def)
qed

lemma clean_objective:
  assumes "clean c"
  shows "case ct_quarterly_objective c of None \<Rightarrow> True | Some s \<Rightarrow> length_between 1 1000 s"
proof -
  have "payload_values c = c" "draft_fits c" using assms by (simp_all add: clean_def)
  then have "ct_quarterly_objective (payload_values c) = ct_quarterly_objective c" by simp
  then have "ct_quarterly_objective c \<noteq> Some []" by (simp add: payload_values_def text_or_none_def split: if_splits)
  then show ?thesis using \<open>draft_fits c\<close>
    by (cases "ct_quarterly_objective c") (auto simp: draft_fits_def length_between_def Suc_le_eq)
qed

lemma approved_row:
  assumes "approve_draft env now w p u e db = Inr (row, db')" "profile_inv db"
  shows "get_profile_for_update db' w p PP_approved = Some row" "pp_version row \<noteq> None" "complete (pp_content row)"
    "clean (pp_content row)" "pp_completeness_score row = 100"
proof -
  have inv: "profile_inv db'" by (rule approve_inv [OF assms])
  have "row \<in> set (pb_profiles db') \<and> pp_workspace_id row = w \<and> pp_product_id row = p \<and> pp_status row = PP_approved
      \<and> complete (pp_content row) \<and> pp_completeness_score row = 100"
    using assms(1)
  proof (rule approve_result, goal_cases)
    case (1 draft)
    then show ?case
      using approve_rows [OF assms(2) 1(1) _ 1(6) refl, of row] get_profile_in [OF 1(1)] complete_score [OF 1(3)] by simp
  qed
  then show "get_profile_for_update db' w p PP_approved = Some row" "pp_version row \<noteq> None" "complete (pp_content row)"
    "clean (pp_content row)" "pp_completeness_score row = 100"
    using inv by (auto simp: profile_inv_def list_all_iff profile_ok_def history_ok_def split: if_splits intro: get_profile_eq)
qed

text \<open>C22. An approved profile is the one that the next detection reads: the readiness check passes and the
  input repository returns this version. It never makes the assembly fail: its capabilities are accepted and its
  texts satisfy the snapshot contract, because the limits of a draft are those of the snapshot.\<close>

theorem approved_profile_feeds_detection:
  assumes "approve_draft env now w p u e db = Inr (row, db')" "profile_inv db"
    and "in_profiles inputs = map profile_row_of (pb_profiles db')"
    and "find (\<lambda>x. pi_workspace_id x = w \<and> pi_id x = p) (in_products inputs) = Some product"
  shows "require_manual_run_ready inputs w p None None = Inr ()
    \<and> get_product_and_profile inputs w p = (Some product, Some (profile_row_of row))
    \<and> (\<exists>version caps snapshot. pq_version (profile_row_of row) = Some version
        \<and> res_map profile_capability (pq_important_capabilities (profile_row_of row)) = Inr caps
        \<and> profile_snapshot_of product (profile_row_of row) version (sort_key pc_capability_key caps) = Inr snapshot
        \<and> pf_profile_version snapshot = version \<and> pf_completeness snapshot = 100)"
proof -
  note row = approved_row [OF assms(1,2)]
  have approved: "profile_status_value st = ''approved'' \<longleftrightarrow> st = PP_approved" for st
    by (cases st) (simp_all add: profile_status_value_def)
  have found: "find (\<lambda>x. pp_workspace_id x = w \<and> pp_product_id x = p \<and> pp_status x = PP_approved) (pb_profiles db') = Some row"
    using row(1) by (simp add: get_profile_for_update_def)
  have "get_product_and_profile inputs w p = (Some product, Some (profile_row_of row))"
    using assms(3,4) found by (simp add: get_product_and_profile_def find_map_option profile_row_of_def Let_def approved)
  moreover have "snd (get_product_profile_state inputs w p) = Some (profile_row_of row)"
    using assms(3) found
    by (simp add: get_product_profile_state_def Let_def find_filter find_map_option profile_row_of_def approved conj_ac cong: conj_cong)
  moreover obtain version where version: "pp_version row = Some version" using row(2) by blast
  moreover have "res_map profile_capability (map PStr xs)
      = Inr (map (\<lambda>s. \<lparr>pc_capability_key = s, pc_name = s, pc_description = None, pc_active = True\<rparr>) xs)" for xs
    by (induction xs) (simp_all add: profile_capability_def)
  moreover have "case ct_quarterly_objective (pp_content row) of None \<Rightarrow> True | Some s \<Rightarrow> length_between 1 1000 s"
    by (rule clean_objective [OF row(4)])
  ultimately show ?thesis
    using row(5) by (simp add: require_manual_run_ready_def profile_snapshot_of_def profile_row_of_def Let_def valid_profile_def valid_score_def)
qed

section \<open>A concrete product\<close>

definition acme_env :: growth_env where
  "acme_env = \<lparr>ge_engine = \<lparr>sha256 = (\<lambda>s. s), observation_digest = (\<lambda>_. ''o''), casefold = py_lower\<rparr>,
     ge_uuid = (\<lambda>n. replicate (Suc n) CHR ''u''), ge_dialect = ''postgresql''\<rparr>"

definition acme_payload :: profile_content where
  "acme_payload = \<lparr>ct_product_name = Some ''Acme'', ct_short_description = Some ''Exports'', ct_primary_audience = Some ''Teams'',
     ct_primary_customer_problem = Some ''Reports'', ct_main_value_proposition = Some ''Speed'', ct_primary_conversion_goal = None,
     ct_primary_conversion_url = Some [], ct_main_market = Some ''EU'', ct_differentiation = None,
     ct_important_capabilities = [''Exports''], ct_quarterly_objective = Some [], ct_restricted_topics = [],
     ct_restricted_claims = [], ct_restricted_language = [], ct_brand_voice_guidance = None\<rparr>"

definition acme_db :: profile_db where
  "acme_db = \<lparr>pb_products = [\<lparr>pd_id = ''p'', pd_workspace_id = ''w'', pd_user_id = ''u''\<rparr>],
     pb_memberships = [\<lparr>ms_workspace_id = ''w'', ms_user_id = ''u'', ms_role = ''owner'', ms_is_active = True\<rparr>],
     pb_profiles = [], pb_audit = [], pb_events = \<lparr>el_events = [], el_connections = [], el_repos = []\<rparr>, pb_drawn = 0\<rparr>"

definition acme_saved :: "product_profile \<times> profile_db" where
  "acme_saved = projr (save_draft acme_env ''w'' ''p'' ''u'' None acme_payload acme_db)"

definition acme_approved :: "product_profile \<times> profile_db" where
  "acme_approved = projr (approve_draft acme_env 5 ''w'' ''p'' ''u'' 1 (snd acme_saved))"

definition acme_inputs :: input_db where
  "acme_inputs = \<lparr>in_products = [\<lparr>pi_id = ''p'', pi_workspace_id = ''w'', pi_name = ''Acme''\<rparr>],
     in_profiles = map profile_row_of (pb_profiles (snd acme_approved)), in_connections = [], in_search_sources = [],
     in_sync_runs = [], in_metrics = [], in_queries = [], in_search_pages = [], in_website_sources = [], in_crawl_runs = [],
     in_website_pages = [], in_crawl_results = [], in_mappings = [], in_normalized_events = [], in_repositories = [],
     in_evaluations = [], in_opportunities = [], in_feedback = []\<rparr>"

lemma acme_steps:
  "save_draft acme_env ''w'' ''p'' ''u'' None acme_payload acme_db = Inr (fst acme_saved, snd acme_saved)"
  "approve_draft acme_env 5 ''w'' ''p'' ''u'' 1 (snd acme_saved) = Inr (fst acme_approved, snd acme_approved)"
  "draft_fits acme_payload"
proof -
  have "is_ok (save_draft acme_env ''w'' ''p'' ''u'' None acme_payload acme_db)" by code_simp
  then show "save_draft acme_env ''w'' ''p'' ''u'' None acme_payload acme_db = Inr (fst acme_saved, snd acme_saved)"
    by (auto simp: is_ok_iff acme_saved_def)
  have "is_ok (approve_draft acme_env 5 ''w'' ''p'' ''u'' 1 (snd acme_saved))" by code_simp
  then show "approve_draft acme_env 5 ''w'' ''p'' ''u'' 1 (snd acme_saved) = Inr (fst acme_approved, snd acme_approved)"
    by (auto simp: is_ok_iff acme_approved_def)
  show "draft_fits acme_payload" by code_simp
qed

lemma acme_inv: "profile_inv acme_db" "profile_inv (snd acme_saved)"
proof -
  show start: "profile_inv acme_db" by (simp add: profile_inv_def acme_db_def history_ok_def)
  show "profile_inv (snd acme_saved)" by (rule save_inv [OF acme_steps(1,3) start])
qed

theorem versions_are_linear_witness:
  "complete (pp_content (fst acme_approved)) \<and> pp_version (fst acme_approved) = Some 1"
proof -
  have "(profile_step acme_env)\<^sup>*\<^sup>* acme_db (snd acme_approved)"
    using step_save [OF acme_steps(1,3)] step_approve [OF acme_steps(2)]
    by (blast intro: converse_rtranclp_into_rtranclp)
  moreover have "pb_profiles acme_db = []" by (simp add: acme_db_def)
  moreover have "fst acme_approved \<in> set (pb_profiles (snd acme_approved))" "pp_status (fst acme_approved) \<noteq> PP_draft"
    by code_simp+
  ultimately have "complete (pp_content (fst acme_approved))" using versions_are_linear by blast
  moreover have "pp_version (fst acme_approved) = Some 1" by code_simp
  ultimately show ?thesis by simp
qed

theorem stale_revision_is_refused_witness:
  "save_draft acme_env ''w'' ''p'' ''u'' None acme_payload (snd acme_saved) = Inl revision_conflict"
proof -
  have "get_active_membership_role (pb_memberships acme_db) ''w'' ''u'' = Some ''owner''" by code_simp
  from stale_revision_is_refused [OF acme_steps(1) acme_inv(1) acme_steps(3) this] show ?thesis by simp
qed

theorem approved_profile_feeds_detection_witness:
  "require_manual_run_ready acme_inputs ''w'' ''p'' None None = Inr ()"
proof -
  have "find (\<lambda>x. pi_workspace_id x = ''w'' \<and> pi_id x = ''p'') (in_products acme_inputs)
      = Some \<lparr>pi_id = ''p'', pi_workspace_id = ''w'', pi_name = ''Acme''\<rparr>" by (simp add: acme_inputs_def)
  from approved_profile_feeds_detection [OF acme_steps(2) acme_inv(2) _ this] show ?thesis by (simp add: acme_inputs_def)
qed

end
