(* ===== verification/Drafts.thy ===== *)
theory Drafts
  imports Growth_Actions Input_Repository
begin

text \<open>
  Review and publication of drafts (\<open>drafts/services/review.py\<close> with \<open>policies/review.py\<close> and the X adapter of
  \<open>providers/x.py\<close>). A draft is edited, gets another candidate, is approved or rejected, and is posted on X either
  by \<open>publish_draft\<close> or, for the exact revision of an operator asset, by \<open>approve_and_publish_draft_revision\<close>.

  Publication is two transactions with a network call between them: the first commits a publication attempt,
  the second records the result. \<open>others i\<close> is what other processes do to the database meanwhile
  (when an earlier attempt exists the lock on the draft row is still held, which only restricts what they can do).
  \<open>dd_sent\<close> is what
  X received, in order; \<open>dv_http n\<close> is the answer to its \<open>n\<close>-th request. Decryption of credentials is a parameter.
  Occurrence times are given by the database.
\<close>

section \<open>Tables\<close>

record review_draft = draft_row +
  df_posted_at :: "instant option"
  df_tweet_id :: "string option"
  df_user_edited :: bool
  df_edit_distance :: "nat option"
  df_generation_run_id :: "uuid option"
  df_selected_candidate_id :: "uuid option"
  df_normalized_event_id :: "uuid option"
  df_rejected_at :: "instant option"
  df_rejection_reason :: "string option"
  df_posting_started_at :: "instant option"
  df_updated_at :: instant

record publication_attempt =
  pu_id :: uuid
  pu_workspace_id :: uuid
  pu_draft_id :: uuid
  pu_command_id :: string
  pu_payload_fingerprint :: "string option"
  pu_status :: string
  pu_provider :: string
  pu_provider_receipt :: "(string \<times> string) list option"
  pu_error_category :: "string option"
  pu_completed_at :: "instant option"

record draft_feedback_event =
  dfe_id :: uuid
  dfe_workspace_id :: uuid
  dfe_user_id :: uuid
  dfe_repo_id :: uuid
  dfe_draft_id :: uuid
  dfe_generation_run_id :: "uuid option"
  dfe_candidate_id :: "uuid option"
  dfe_event_type :: string
  dfe_previous_candidate_id :: "uuid option"
  dfe_content_before :: "string option"
  dfe_content_after :: "string option"
  dfe_edit_distance :: "nat option"
  dfe_rejection_reason :: "string option"
  dfe_provider_post_id :: "string option"
  dfe_metadata :: "(string \<times> string) list"
  dfe_occurred_at :: instant

record tweet_candidate =
  tc_id :: uuid
  tc_workspace_id :: uuid
  tc_normalized_event_id :: uuid
  tc_content :: string

record x_connection =
  xc_id :: uuid
  xc_workspace_id :: uuid
  xc_provider :: string
  xc_status :: string
  xc_deleted_at :: "instant option"
  xc_updated_at :: instant
  xc_scopes :: "string list"
  xc_credentials_ciphertext :: "string option"
  xc_credential_key_version :: "string option"

record publish_request =
  px_content :: string
  px_credentials :: "(string \<times> string) list"
  px_idempotency_key :: string

record draft_db =
  dd_drafts :: "review_draft list"
  dd_attempts :: "publication_attempt list"
  dd_status_events :: "draft_status_event list"
  dd_feedback :: "draft_feedback_event list"
  dd_candidates :: "tweet_candidate list"
  dd_connections :: "x_connection list"
  dd_assets :: "prepared_asset list"
  dd_memberships :: "membership_row list"
  dd_sent :: "publish_request list"
  dd_drawn :: nat

text \<open>\<open>No_Reply\<close> is a timeout or a transport error; a reply has a status code and a body, absent when it is not
  JSON.\<close>

datatype http_reply = No_Reply | Reply int "pyval option"

record draft_env =
  dv_uuid :: "nat \<Rightarrow> uuid"
  dv_sha256 :: "string \<Rightarrow> string"
  dv_decrypt :: "string \<Rightarrow> string \<Rightarrow> (string \<times> string) list option"
  dv_http :: "nat \<Rightarrow> publish_request \<Rightarrow> http_reply"

section \<open>Policy\<close>

definition draft_edit_roles :: "string list" where
  "draft_edit_roles = [''owner'', ''admin'', ''editor'']"

definition draft_review_roles :: "string list" where
  "draft_review_roles = [''owner'', ''admin'', ''reviewer'']"

definition draft_publish_roles :: "string list" where
  "draft_publish_roles = [''owner'', ''admin'']"

definition ensure_publishable :: "string \<Rightarrow> instant option \<Rightarrow> unit res" where
  "ensure_publishable status approved_at =
     (if status \<noteq> ''approved'' \<or> approved_at = None
      then Inl (AppError ''draft_publish_requires_approval'' ''Draft must be explicitly approved before publishing.'')
      else Inr ())"

definition ensure_editable :: "string \<Rightarrow> unit res" where
  "ensure_editable status =
     (if status \<notin> {''pending'', ''approved''}
      then Inl (AppError ''draft_edit_invalid_status'' ''Only pending or approved drafts can be edited.'') else Inr ())"

definition ensure_approvable :: "string \<Rightarrow> unit res" where
  "ensure_approvable status =
     (if status \<noteq> ''pending''
      then Inl (AppError ''draft_approve_invalid_status'' ''Only pending drafts can be approved.'') else Inr ())"

definition ensure_rejectable :: "string \<Rightarrow> unit res" where
  "ensure_rejectable status =
     (if status \<notin> {''pending'', ''approved''}
      then Inl (AppError ''draft_reject_invalid_status'' ''Only pending or approved drafts can be rejected.'') else Inr ())"

definition ensure_candidate_selectable :: "string \<Rightarrow> unit res" where
  "ensure_candidate_selectable status =
     (if status \<notin> {''pending'', ''approved''}
      then Inl (AppError ''draft_selection_invalid_status'' ''Only pending or approved drafts can select candidates.'')
      else Inr ())"

definition require_draft_role :: "draft_db \<Rightarrow> uuid \<Rightarrow> uuid \<Rightarrow> string list \<Rightarrow> string \<Rightarrow> unit res" where
  "require_draft_role db workspace_id user_id allowed forbidden_code =
     (case get_active_membership_role (dd_memberships db) workspace_id user_id of
        None \<Rightarrow> Inl (NotFoundError ''draft_not_found'')
      | Some role \<Rightarrow> if role \<notin> set allowed then Inl (ForbiddenError forbidden_code) else Inr ())"

section \<open>Edit distance\<close>

text \<open>The inner loop: \<open>left\<close> is the last entry of the current row, the list the rest of the previous row from the
  entry on the diagonal.\<close>

fun edit_row :: "char \<Rightarrow> string \<Rightarrow> nat list \<Rightarrow> nat \<Rightarrow> nat list" where
  "edit_row b (a # after) (diagonal # up # previous) left =
     (let n = min (left + 1) (min (up + 1) (diagonal + (if b \<noteq> a then 1 else 0)))
      in n # edit_row b after (up # previous) n)"
| "edit_row b after previous left = []"

fun edit_rows :: "nat \<Rightarrow> string \<Rightarrow> string \<Rightarrow> nat list \<Rightarrow> nat list" where
  "edit_rows i [] after previous = previous"
| "edit_rows i (b # before) after previous = edit_rows (i + 1) before after (i # edit_row b after previous i)"

definition edit_distance :: "string \<Rightarrow> string \<Rightarrow> nat" where
  "edit_distance before after =
     (let (long, short) = (if length before < length after then (after, before) else (before, after))
      in last (edit_rows 1 long short [0..<length short + 1]))"

section \<open>Helpers of the service\<close>

definition lock_draft :: "draft_db \<Rightarrow> uuid \<Rightarrow> uuid \<Rightarrow> review_draft res" where
  "lock_draft db workspace_id draft_id =
     (case find (\<lambda>d. df_workspace_id d = workspace_id \<and> df_id d = draft_id) (dd_drafts db) of
        None \<Rightarrow> Inl (NotFoundError ''draft_not_found'') | Some d \<Rightarrow> Inr d)"

definition draft_ok :: "review_draft \<Rightarrow> bool" where
  "draft_ok d \<longleftrightarrow> df_status d \<in> {''pending'', ''approved'', ''rejected'', ''posted''}
     \<and> (df_status d \<in> {''approved'', ''posted''} \<longrightarrow> df_approved_at d \<noteq> None)
     \<and> (df_status d = ''posted'' \<longrightarrow> df_posted_at d \<noteq> None \<and> df_tweet_id d \<noteq> None)
     \<and> ((df_prepared_asset_id d = None \<and> df_prepared_asset_revision d = None)
        \<or> (df_prepared_asset_id d \<noteq> None \<and> (case df_prepared_asset_revision d of None \<Rightarrow> False | Some n \<Rightarrow> 0 < n)))"

text \<open>An update of one draft; a check constraint that it violates raises an error.\<close>

definition update_draft :: "uuid \<Rightarrow> uuid \<Rightarrow> (review_draft \<Rightarrow> review_draft) \<Rightarrow> draft_db \<Rightarrow> draft_db res" where
  "update_draft workspace_id draft_id f db =
     (if list_all (\<lambda>d. df_workspace_id d = workspace_id \<and> df_id d = draft_id \<longrightarrow> draft_ok (f d)) (dd_drafts db)
      then Inr (db\<lparr>dd_drafts := map (\<lambda>d. if df_workspace_id d = workspace_id \<and> df_id d = draft_id then f d else d)
             (dd_drafts db)\<rparr>)
      else Inl (IntegrityError ''drafts''))"

definition add_draft_feedback ::
  "draft_env \<Rightarrow> instant \<Rightarrow> review_draft \<Rightarrow> uuid \<Rightarrow> string \<Rightarrow> (draft_feedback_event \<Rightarrow> draft_feedback_event) \<Rightarrow> draft_db \<Rightarrow> draft_db" where
  "add_draft_feedback env now d actor_id event_type fill db =
     db\<lparr>dd_feedback := dd_feedback db @ [fill
       \<lparr>dfe_id = dv_uuid env (dd_drawn db), dfe_workspace_id = df_workspace_id d, dfe_user_id = actor_id,
        dfe_repo_id = df_repo_id d, dfe_draft_id = df_id d, dfe_generation_run_id = df_generation_run_id d,
        dfe_candidate_id = None, dfe_event_type = event_type, dfe_previous_candidate_id = None,
        dfe_content_before = None, dfe_content_after = None, dfe_edit_distance = None, dfe_rejection_reason = None,
        dfe_provider_post_id = None, dfe_metadata = [], dfe_occurred_at = now\<rparr>],
      dd_drawn := dd_drawn db + 1\<rparr>"

definition add_draft_status :: "draft_env \<Rightarrow> instant \<Rightarrow> review_draft \<Rightarrow> uuid \<Rightarrow> string \<Rightarrow> draft_db \<Rightarrow> draft_db" where
  "add_draft_status env now d actor_id status db =
     db\<lparr>dd_status_events := dd_status_events db @
       [\<lparr>dse_id = dv_uuid env (dd_drawn db), dse_workspace_id = df_workspace_id d, dse_user_id = actor_id,
         dse_repo_id = df_repo_id d, dse_draft_id = df_id d, dse_status = status, dse_occurred_at = now\<rparr>],
      dd_drawn := dd_drawn db + 1\<rparr>"

section \<open>Review\<close>

definition edit_draft_content ::
  "draft_env \<Rightarrow> instant \<Rightarrow> uuid \<Rightarrow> uuid \<Rightarrow> uuid \<Rightarrow> string \<Rightarrow> draft_db \<Rightarrow> (review_draft \<times> draft_db) res" where
  "edit_draft_content env now workspace_id draft_id actor_id new_content db =
     res_bind (require_draft_role db workspace_id actor_id draft_edit_roles ''draft_write_forbidden'') (\<lambda>_.
     res_bind (lock_draft db workspace_id draft_id) (\<lambda>draft.
     res_bind (ensure_editable (df_status draft)) (\<lambda>_.
     if df_content draft = new_content then Inr (draft, db)
     else let distance = edit_distance (df_content draft) new_content in
       res_bind (update_draft workspace_id draft_id (\<lambda>d. d\<lparr>df_content := new_content, df_user_edited := True,
           df_edit_distance := Some distance, df_updated_at := now\<rparr>) db) (\<lambda>db1.
       let db2 = add_draft_feedback env now draft actor_id ''edited'' (\<lambda>e. e
             \<lparr>dfe_candidate_id := df_selected_candidate_id draft,
              dfe_previous_candidate_id := df_selected_candidate_id draft,
              dfe_content_before := Some (df_content draft), dfe_content_after := Some new_content,
              dfe_edit_distance := Some distance\<rparr>) db1
       in res_bind (lock_draft db2 workspace_id draft_id) (\<lambda>d. Inr (d, db2))))))"

definition approve_review ::
  "draft_env \<Rightarrow> instant \<Rightarrow> uuid \<Rightarrow> uuid \<Rightarrow> uuid \<Rightarrow> draft_db \<Rightarrow> (review_draft \<times> draft_db) res" where
  "approve_review env now workspace_id draft_id actor_id db =
     res_bind (require_draft_role db workspace_id actor_id draft_review_roles ''draft_review_forbidden'') (\<lambda>_.
     res_bind (lock_draft db workspace_id draft_id) (\<lambda>draft.
     if df_status draft \<in> {''approved'', ''posted''} then Inr (draft, db)
     else res_bind (ensure_approvable (df_status draft)) (\<lambda>_.
       res_bind (update_draft workspace_id draft_id (\<lambda>d. d\<lparr>df_status := ''approved'', df_approved_at := Some now,
           df_rejected_at := None, df_rejection_reason := None, df_updated_at := now\<rparr>) db) (\<lambda>db1.
       let db2 = add_draft_feedback env now draft actor_id ''approved'' (\<lambda>e. e
             \<lparr>dfe_candidate_id := df_selected_candidate_id draft, dfe_content_after := Some (df_content draft),
              dfe_edit_distance := df_edit_distance draft\<rparr>) (add_draft_status env now draft actor_id ''approved'' db1)
       in res_bind (lock_draft db2 workspace_id draft_id) (\<lambda>d. Inr (d, db2))))))"

definition reject_review ::
  "draft_env \<Rightarrow> instant \<Rightarrow> uuid \<Rightarrow> uuid \<Rightarrow> uuid \<Rightarrow> string \<Rightarrow> draft_db \<Rightarrow> (review_draft \<times> draft_db) res" where
  "reject_review env now workspace_id draft_id actor_id reason db =
     res_bind (require_draft_role db workspace_id actor_id draft_review_roles ''draft_review_forbidden'') (\<lambda>_.
     res_bind (lock_draft db workspace_id draft_id) (\<lambda>draft.
     if df_status draft = ''rejected'' then Inr (draft, db)
     else res_bind (ensure_rejectable (df_status draft)) (\<lambda>_.
       res_bind (update_draft workspace_id draft_id (\<lambda>d. d\<lparr>df_status := ''rejected'', df_approved_at := None,
           df_rejected_at := Some now, df_rejection_reason := Some reason, df_updated_at := now\<rparr>) db) (\<lambda>db1.
       let db2 = add_draft_feedback env now draft actor_id ''rejected'' (\<lambda>e. e
             \<lparr>dfe_candidate_id := df_selected_candidate_id draft, dfe_content_before := Some (df_content draft),
              dfe_edit_distance := df_edit_distance draft, dfe_rejection_reason := Some reason\<rparr>)
             (add_draft_status env now draft actor_id ''rejected'' db1)
       in res_bind (lock_draft db2 workspace_id draft_id) (\<lambda>d. Inr (d, db2))))))"

definition select_draft_candidate ::
  "draft_env \<Rightarrow> instant \<Rightarrow> uuid \<Rightarrow> uuid \<Rightarrow> uuid \<Rightarrow> uuid \<Rightarrow> draft_db \<Rightarrow> (review_draft \<times> draft_db) res" where
  "select_draft_candidate env now workspace_id draft_id actor_id candidate_id db =
     res_bind (require_draft_role db workspace_id actor_id draft_edit_roles ''draft_write_forbidden'') (\<lambda>_.
     res_bind (lock_draft db workspace_id draft_id) (\<lambda>draft.
     res_bind (ensure_candidate_selectable (df_status draft)) (\<lambda>_.
     case find (\<lambda>t. tc_workspace_id t = workspace_id \<and> tc_id t = candidate_id
           \<and> df_normalized_event_id draft = Some (tc_normalized_event_id t)) (dd_candidates db) of
       None \<Rightarrow> Inl (NotFoundError ''draft_candidate_not_found'')
     | Some chosen \<Rightarrow>
         if df_selected_candidate_id draft = Some candidate_id \<and> df_content draft = tc_content chosen
         then Inr (draft, db)
         else res_bind (update_draft workspace_id draft_id (\<lambda>d. d\<lparr>df_selected_candidate_id := Some candidate_id,
             df_content := tc_content chosen, df_user_edited := False, df_edit_distance := Some 0,
             df_updated_at := now\<rparr>) db) (\<lambda>db1.
           let db2 = add_draft_feedback env now draft actor_id ''selected'' (\<lambda>e. e
                 \<lparr>dfe_candidate_id := Some candidate_id,
                  dfe_previous_candidate_id := df_selected_candidate_id draft,
                  dfe_content_before := Some (df_content draft), dfe_content_after := Some (tc_content chosen),
                  dfe_edit_distance := Some 0, dfe_metadata := [(''source'', ''manual_candidate_switch'')]\<rparr>) db1
           in res_bind (lock_draft db2 workspace_id draft_id) (\<lambda>d. Inr (d, db2))))))"

section \<open>The X adapter\<close>

datatype publish_outcome = Published string string | Transient_Error | Permanent_Error

definition x_url :: "string \<Rightarrow> string" where
  "x_url post_id = ''https://x.com/i/web/status/'' @ post_id"

definition read_reply :: "http_reply \<Rightarrow> publish_outcome" where
  "read_reply reply =
     (case reply of
        No_Reply \<Rightarrow> Transient_Error
      | Reply status body \<Rightarrow>
          if status = 429 \<or> 500 \<le> status then Transient_Error
          else if 400 \<le> status \<and> status \<le> 599 then Permanent_Error
          else (case Option.bind body (\<lambda>b. Option.bind (py_get b ''data'') (\<lambda>x. py_get x ''id'')) of
             Some (PStr post_id) \<Rightarrow> if post_id = [] then Permanent_Error else Published post_id (x_url post_id)
           | _ \<Rightarrow> Permanent_Error))"

definition publish_x :: "draft_env \<Rightarrow> publish_request \<Rightarrow> draft_db \<Rightarrow> publish_outcome \<times> draft_db" where
  "publish_x env request db =
     (if text_or (map_of (px_credentials request) ''accessToken'') [] = [] then (Permanent_Error, db)
      else (read_reply (dv_http env (length (dd_sent db)) request), db\<lparr>dd_sent := dd_sent db @ [request]\<rparr>))"

definition active_x_connection :: "draft_db \<Rightarrow> uuid \<Rightarrow> x_connection option" where
  "active_x_connection db workspace_id =
     latest_by (\<lambda>x. (xc_updated_at x, xc_id x))
       (filter (\<lambda>x. xc_workspace_id x = workspace_id \<and> xc_provider x \<in> {''x'', ''twitter''} \<and> xc_status x = ''active''
          \<and> xc_deleted_at x = None) (dd_connections db))"

text \<open>The credentials of the workspace, or the code of the error that stops a publication.\<close>

definition x_credentials :: "draft_env \<Rightarrow> draft_db \<Rightarrow> uuid \<Rightarrow> string + (string \<times> string) list" where
  "x_credentials env db workspace_id =
     (case active_x_connection db workspace_id of
        None \<Rightarrow> Inl ''x_connection_required''
      | Some connection \<Rightarrow>
          if ''tweet.write'' \<notin> set (xc_scopes connection) then Inl ''x_write_scope_required''
          else (case (xc_credentials_ciphertext connection, xc_credential_key_version connection) of
             (Some ciphertext, Some version) \<Rightarrow>
               (case dv_decrypt env ciphertext version of
                  None \<Rightarrow> Inl ''x_credentials_unavailable'' | Some credentials \<Rightarrow> Inr credentials)
           | _ \<Rightarrow> Inl ''x_credentials_unavailable''))"

definition x_error_message :: "string \<Rightarrow> string" where
  "x_error_message code =
     (if code = ''x_connection_required'' then ''X account is not connected.''
      else if code = ''x_write_scope_required'' then ''X connection does not allow posting.''
      else ''X credentials are unavailable.'')"

section \<open>Publication attempts\<close>

definition find_attempt :: "draft_db \<Rightarrow> uuid \<Rightarrow> string \<Rightarrow> publication_attempt option" where
  "find_attempt db workspace_id command_id =
     find (\<lambda>a. pu_workspace_id a = workspace_id \<and> pu_command_id a = command_id) (dd_attempts db)"

definition add_attempt :: "draft_env \<Rightarrow> uuid \<Rightarrow> uuid \<Rightarrow> string \<Rightarrow> string option \<Rightarrow> draft_db \<Rightarrow> draft_db res" where
  "add_attempt env workspace_id draft_id command_id fingerprint db =
     (if find_attempt db workspace_id command_id \<noteq> None
      then Inl (IntegrityError ''uq_publication_attempts_command'')
      else Inr (db\<lparr>dd_attempts := dd_attempts db @
        [\<lparr>pu_id = dv_uuid env (dd_drawn db), pu_workspace_id = workspace_id, pu_draft_id = draft_id,
          pu_command_id = command_id, pu_payload_fingerprint = fingerprint, pu_status = ''pending'',
          pu_provider = ''x'', pu_provider_receipt = None, pu_error_category = None, pu_completed_at = None\<rparr>],
        dd_drawn := dd_drawn db + 1\<rparr>))"

definition update_attempt ::
  "uuid \<Rightarrow> string \<Rightarrow> (publication_attempt \<Rightarrow> publication_attempt) \<Rightarrow> draft_db \<Rightarrow> draft_db" where
  "update_attempt workspace_id command_id f db =
     db\<lparr>dd_attempts := map (\<lambda>a. if pu_workspace_id a = workspace_id \<and> pu_command_id a = command_id then f a else a)
       (dd_attempts db)\<rparr>"

text \<open>The transaction after a successful post. \<open>fill\<close> adds what the two commands record differently.\<close>

definition record_post ::
  "draft_env \<Rightarrow> instant \<Rightarrow> review_draft \<Rightarrow> uuid \<Rightarrow> string \<Rightarrow> string \<Rightarrow> string
     \<Rightarrow> (draft_feedback_event \<Rightarrow> draft_feedback_event) \<Rightarrow> draft_db \<Rightarrow> draft_db res" where
  "record_post env now draft actor_id key post_id url fill db =
     res_bind (update_draft (df_workspace_id draft) (df_id draft) (\<lambda>d. d\<lparr>df_status := ''posted'', df_posted_at := Some now,
         df_tweet_id := Some post_id, df_posting_started_at := None, df_updated_at := now\<rparr>) db) (\<lambda>db1.
     Inr (update_attempt (df_workspace_id draft) key (\<lambda>a. a\<lparr>pu_status := ''completed'',
           pu_provider_receipt := Some [(''providerPostId'', post_id), (''url'', url)], pu_completed_at := Some now\<rparr>)
         (add_draft_feedback env now draft actor_id ''posted'' (\<lambda>e. fill (e
             \<lparr>dfe_content_after := Some (df_content draft), dfe_provider_post_id := Some post_id,
              dfe_metadata := [(''provider'', ''x''), (''url'', url), (''idempotencyKey'', key)]\<rparr>))
           (add_draft_status env now draft actor_id ''posted'' db1))))"

section \<open>Publishing a draft\<close>

record publish_receipt =
  pt_draft_id :: uuid
  pt_provider_post_id :: "string option"
  pt_url :: string
  pt_idempotency_key :: string
  pt_already_posted :: bool

definition existing_publish_url :: "draft_db \<Rightarrow> uuid \<Rightarrow> string \<Rightarrow> string" where
  "existing_publish_url db draft_id post_id =
     (case rev (sort_key dfe_occurred_at (filter (\<lambda>e. dfe_draft_id e = draft_id \<and> dfe_event_type e = ''posted''
          \<and> dfe_provider_post_id e = Some post_id) (dd_feedback db))) of
        [] \<Rightarrow> x_url post_id
      | e # _ \<Rightarrow> (case map_of (dfe_metadata e) ''url'' of None \<Rightarrow> x_url post_id | Some url \<Rightarrow> url))"

datatype publish_start = Already_Posted publish_receipt | Send review_draft

definition draft_key :: "uuid \<Rightarrow> string" where
  "draft_key draft_id = ''x:draft:'' @ draft_id"

text \<open>The first part of a publication, up to the call of the publisher; a new attempt is committed.\<close>

definition start_publish ::
  "draft_env \<Rightarrow> uuid \<Rightarrow> uuid \<Rightarrow> uuid \<Rightarrow> draft_db \<Rightarrow> (publish_start \<times> draft_db) res" where
  "start_publish env workspace_id draft_id actor_id db =
     res_bind (require_draft_role db workspace_id actor_id draft_publish_roles ''draft_publish_forbidden'') (\<lambda>_.
     res_bind (lock_draft db workspace_id draft_id) (\<lambda>draft.
     if df_status draft = ''posted'' \<and> text_or (df_tweet_id draft) [] \<noteq> []
     then Inr (Already_Posted \<lparr>pt_draft_id = df_id draft, pt_provider_post_id = df_tweet_id draft,
            pt_url = existing_publish_url db draft_id (the (df_tweet_id draft)),
            pt_idempotency_key = draft_key draft_id, pt_already_posted = True\<rparr>, db)
     else res_bind (ensure_publishable (df_status draft) (df_approved_at draft)) (\<lambda>_.
       case find_attempt db workspace_id (draft_key draft_id) of
         Some attempt \<Rightarrow>
           if pu_status attempt = ''unknown_outcome''
           then Inl (AppError ''publisher_unknown_outcome''
                  ''The previous X publication outcome is unknown and requires reconciliation.'')
           else Inr (Send draft, db)
       | None \<Rightarrow>
           res_bind (add_attempt env workspace_id draft_id (draft_key draft_id) None db) (\<lambda>db1.
           Inr (Send draft, db1)))))"

definition publish_draft ::
  "draft_env \<Rightarrow> (nat \<Rightarrow> draft_db \<Rightarrow> draft_db) \<Rightarrow> instant \<Rightarrow> uuid \<Rightarrow> uuid \<Rightarrow> uuid \<Rightarrow> draft_db
     \<Rightarrow> publish_receipt res \<times> draft_db" where
  "publish_draft env others now workspace_id draft_id actor_id db =
     (case start_publish env workspace_id draft_id actor_id db of
        Inl e \<Rightarrow> (Inl e, db)
      | Inr (Already_Posted receipt, db1) \<Rightarrow> (Inr receipt, db1)
      | Inr (Send draft, db1) \<Rightarrow>
          let db2 = others 0 db1;
              key = draft_key draft_id
          in case x_credentials env db2 workspace_id of
               Inl code \<Rightarrow> (Inl (AppError code (x_error_message code)), db2)
             | Inr credentials \<Rightarrow>
                 (case publish_x env \<lparr>px_content = df_content draft, px_credentials = credentials,
                          px_idempotency_key = key\<rparr> db2 of
                    (outcome, db3) \<Rightarrow>
                      let db4 = others 1 db3 in
                      (case outcome of
                         Transient_Error \<Rightarrow> (Inl (AppError ''publisher_transient_failure''
                             ''X publishing outcome is unknown and requires reconciliation.''),
                           update_attempt workspace_id key (\<lambda>a. a\<lparr>pu_status := ''unknown_outcome'',
                             pu_error_category := Some ''transport''\<rparr>) db4)
                       | Permanent_Error \<Rightarrow> (Inl (AppError ''publisher_rejected'' ''X rejected the post.''),
                           update_attempt workspace_id key (\<lambda>a. a\<lparr>pu_status := ''failed'',
                             pu_error_category := Some ''provider_rejected''\<rparr>) db4)
                       | Published post_id url \<Rightarrow>
                           (case record_post env now draft actor_id key post_id url
                               (\<lambda>e. e\<lparr>dfe_candidate_id := df_selected_candidate_id draft,
                                     dfe_edit_distance := df_edit_distance draft\<rparr>) db4 of
                              Inl e \<Rightarrow> (Inl e, db4)
                            | Inr db5 \<Rightarrow>
                                (case lock_draft db5 workspace_id draft_id of
                                   Inl e \<Rightarrow> (Inl e, db5)
                                 | Inr posted \<Rightarrow> (Inr \<lparr>pt_draft_id = df_id posted, pt_provider_post_id = df_tweet_id posted,
                                     pt_url = url, pt_idempotency_key = key, pt_already_posted = False\<rparr>, db5))))))"

section \<open>Approving and publishing an exact revision\<close>

record publication_result =
  pn_draft_id :: uuid
  pn_asset_id :: uuid
  pn_revision :: int
  pn_outcome :: string
  pn_original_outcome :: string
  pn_provider_post_id :: "string option"
  pn_url :: "string option"
  pn_idempotency_key :: string
  pn_error_code :: "string option"

definition publication_fingerprint :: "draft_env \<Rightarrow> uuid \<Rightarrow> uuid \<Rightarrow> int \<Rightarrow> string" where
  "publication_fingerprint env draft_id asset_id revision =
     dv_sha256 env (json_dumps (PDict [(''assetId'', PStr asset_id), (''draftId'', PStr draft_id),
       (''revision'', PInt revision)]))"

definition publication_command_result ::
  "uuid \<Rightarrow> uuid \<Rightarrow> int \<Rightarrow> string \<Rightarrow> string \<Rightarrow> bool \<Rightarrow> (string \<times> string) list option \<Rightarrow> string option \<Rightarrow> publication_result" where
  "publication_command_result draft_id asset_id revision key original replay receipt error_code =
     (let fields = (case receipt of None \<Rightarrow> [] | Some kvs \<Rightarrow> kvs) in
      \<lparr>pn_draft_id = draft_id, pn_asset_id = asset_id, pn_revision = revision,
       pn_outcome = (if replay then ''replay'' else original), pn_original_outcome = original,
       pn_provider_post_id = map_of fields ''providerPostId'', pn_url = map_of fields ''url'',
       pn_idempotency_key = key, pn_error_code = error_code\<rparr>)"

definition original_outcome :: "string \<Rightarrow> string" where
  "original_outcome status =
     (if status = ''completed'' then ''success'' else if status = ''failed'' then ''failed'' else ''unknown'')"

definition replay_publication ::
  "draft_env \<Rightarrow> uuid \<Rightarrow> uuid \<Rightarrow> int \<Rightarrow> string \<Rightarrow> publication_attempt \<Rightarrow> publication_result res" where
  "replay_publication env draft_id asset_id revision key attempt =
     (if pu_payload_fingerprint attempt \<noteq> Some (publication_fingerprint env draft_id asset_id revision)
      then Inl (AppError ''publication_idempotency_conflict''
             ''Idempotency key was used with another publication payload.'')
      else Inr (publication_command_result draft_id asset_id revision key (original_outcome (pu_status attempt)) True
             (pu_provider_receipt attempt) (pu_error_category attempt)))"

text \<open>The text of the requested asset revision, when there is one.\<close>

definition exact_x_post :: "draft_db \<Rightarrow> uuid \<Rightarrow> uuid \<Rightarrow> int \<Rightarrow> string option" where
  "exact_x_post db workspace_id asset_id revision =
     (case find (\<lambda>x. pr_workspace_id x = workspace_id \<and> pr_id x = asset_id \<and> pr_revision x = revision
          \<and> pr_kind x = ''x_draft'') (dd_assets db) of
        None \<Rightarrow> None
      | Some asset \<Rightarrow> (case x_post (pr_structured_content asset) of Inl _ \<Rightarrow> None | Inr post \<Rightarrow> Some post))"

text \<open>The first transaction: it approves the draft where that is needed and commits the attempt.\<close>

definition start_publication ::
  "draft_env \<Rightarrow> instant \<Rightarrow> uuid \<Rightarrow> uuid \<Rightarrow> uuid \<Rightarrow> int \<Rightarrow> uuid \<Rightarrow> string \<Rightarrow> draft_db
     \<Rightarrow> (review_draft \<times> draft_db) res" where
  "start_publication env now workspace_id draft_id asset_id revision actor_id key db =
     res_bind (lock_draft db workspace_id draft_id) (\<lambda>draft.
     if exact_x_post db workspace_id asset_id revision = None \<or> df_prepared_asset_id draft \<noteq> Some asset_id
        \<or> df_prepared_asset_revision draft \<noteq> Some revision
        \<or> exact_x_post db workspace_id asset_id revision \<noteq> Some (df_content draft)
     then Inl (AppError ''draft_revision_conflict'' ''Draft does not match the requested exact X asset revision.'')
     else if df_status draft = ''posted''
     then Inl (AppError ''draft_already_published''
            ''This exact draft revision was already published by another command.'')
     else res_bind (if df_status draft = ''approved'' then Inr db
         else res_bind (ensure_approvable (df_status draft)) (\<lambda>_.
           res_bind (update_draft workspace_id draft_id (\<lambda>d. d\<lparr>df_status := ''approved'',
               df_approved_at := Some now, df_updated_at := now\<rparr>) db) (\<lambda>db1.
           Inr (add_draft_feedback env now draft actor_id ''approved''
                  (\<lambda>e. e\<lparr>dfe_content_after := Some (df_content draft)\<rparr>)
                  (add_draft_status env now draft actor_id ''approved'' db1))))) (\<lambda>db2.
       res_bind (add_attempt env workspace_id draft_id key
           (Some (publication_fingerprint env draft_id asset_id revision)) db2) (\<lambda>db3.
       Inr (draft, db3))))"

definition provider_key :: "draft_env \<Rightarrow> uuid \<Rightarrow> string \<Rightarrow> string" where
  "provider_key env workspace_id key = ''x:publication:'' @ workspace_id @ '':'' @ dv_sha256 env key"

definition send_publication ::
  "draft_env \<Rightarrow> (nat \<Rightarrow> draft_db \<Rightarrow> draft_db) \<Rightarrow> instant \<Rightarrow> uuid \<Rightarrow> uuid \<Rightarrow> uuid \<Rightarrow> int \<Rightarrow> uuid \<Rightarrow> string \<Rightarrow> review_draft
     \<Rightarrow> draft_db \<Rightarrow> publication_result res \<times> draft_db" where
  "send_publication env others now workspace_id draft_id asset_id revision actor_id key draft db1 =
     (let db2 = others 0 db1;
          result = (\<lambda>original receipt code. Inr (publication_command_result draft_id asset_id revision key original
            False receipt code))
      in case x_credentials env db2 workspace_id of
           Inl code \<Rightarrow> (result ''failed'' None (Some code),
             update_attempt workspace_id key (\<lambda>a. a\<lparr>pu_status := ''failed'', pu_error_category := Some code,
               pu_completed_at := Some now\<rparr>) db2)
         | Inr credentials \<Rightarrow>
             (case publish_x env \<lparr>px_content = df_content draft, px_credentials = credentials,
                      px_idempotency_key = provider_key env workspace_id key\<rparr> db2 of
                (outcome, db3) \<Rightarrow>
                  let db4 = others 1 db3 in
                  (case outcome of
                     Transient_Error \<Rightarrow> (result ''unknown'' None (Some ''publisher_unknown_outcome''),
                       update_attempt workspace_id key (\<lambda>a. a\<lparr>pu_status := ''unknown_outcome'',
                         pu_error_category := Some ''publisher_unknown_outcome''\<rparr>) db4)
                   | Permanent_Error \<Rightarrow> (result ''failed'' None (Some ''publisher_rejected''),
                       update_attempt workspace_id key (\<lambda>a. a\<lparr>pu_status := ''failed'',
                         pu_error_category := Some ''publisher_rejected'', pu_completed_at := Some now\<rparr>) db4)
                   | Published post_id url \<Rightarrow>
                       (case record_post env now draft actor_id key post_id url (\<lambda>e. e) db4 of
                          Inl e \<Rightarrow> (Inl e, db4)
                        | Inr db5 \<Rightarrow> (result ''success'' (Some [(''providerPostId'', post_id), (''url'', url)]) None, db5)))))"

definition approve_and_publish_draft_revision ::
  "draft_env \<Rightarrow> (nat \<Rightarrow> draft_db \<Rightarrow> draft_db) \<Rightarrow> instant \<Rightarrow> uuid \<Rightarrow> uuid \<Rightarrow> uuid \<Rightarrow> int \<Rightarrow> uuid \<Rightarrow> string \<Rightarrow> draft_db
     \<Rightarrow> publication_result res \<times> draft_db" where
  "approve_and_publish_draft_revision env others now workspace_id draft_id asset_id revision actor_id idempotency_key db =
     (case require_draft_role db workspace_id actor_id draft_publish_roles ''draft_publish_forbidden'' of
        Inl e \<Rightarrow> (Inl e, db)
      | Inr _ \<Rightarrow>
          let key = py_strip idempotency_key in
          case find_attempt db workspace_id key of
            Some attempt \<Rightarrow> (replay_publication env draft_id asset_id revision key attempt, db)
          | None \<Rightarrow>
              (case start_publication env now workspace_id draft_id asset_id revision actor_id key db of
                 Inl e \<Rightarrow> (Inl e, db)
               | Inr (draft, db1) \<Rightarrow>
                   send_publication env others now workspace_id draft_id asset_id revision actor_id key draft db1))"

end
