(* ===== verification/Edit_Distance.thy ===== *)
theory Edit_Distance
  imports Drafts
begin

text \<open>
  The edit distance that is recorded with an edit of a draft (\<open>_edit_distance\<close> of \<open>drafts/services/review.py\<close>, which
  keeps two rows of the table) is the least number of single-character edits.
\<close>

section \<open>The edit distance is minimal\<close>

text \<open>One edit inserts, deletes or replaces a character.\<close>

inductive single_edit :: "string \<Rightarrow> string \<Rightarrow> bool" where
  insert_char: "single_edit (xs @ ys) (xs @ c # ys)"
| delete_char: "single_edit (xs @ c # ys) (xs @ ys)"
| replace_char: "single_edit (xs @ c # ys) (xs @ d # ys)"

inductive align :: "nat \<Rightarrow> string \<Rightarrow> string \<Rightarrow> bool" where
  align_Nil [intro]: "align 0 [] []"
| align_keep [intro]: "align n xs ys \<Longrightarrow> align n (x # xs) (x # ys)"
| align_replace [intro]: "align n xs ys \<Longrightarrow> align (Suc n) (x # xs) (y # ys)"
| align_delete [intro]: "align n xs ys \<Longrightarrow> align (Suc n) (x # xs) ys"
| align_insert [intro]: "align n xs ys \<Longrightarrow> align (Suc n) xs (y # ys)"

fun lev :: "string \<Rightarrow> string \<Rightarrow> nat" where
  "lev [] ys = length ys"
| "lev (x # xs) [] = Suc (length xs)"
| "lev (x # xs) (y # ys) =
     min (Suc (lev (x # xs) ys)) (min (Suc (lev xs (y # ys))) (lev xs ys + (if x \<noteq> y then 1 else 0)))"

lemma lev_Nil_right [simp]: "lev xs [] = length xs"
  by (cases xs) simp_all

lemma align_insert_all: "align (length ys) [] ys"
  by (induction ys) auto

lemma align_delete_all: "align (length xs) xs []"
  by (induction xs) auto

lemma align_min: "align a xs ys \<Longrightarrow> align b xs ys \<Longrightarrow> align (min a b) xs ys"
  by (simp add: min_def)

lemma align_lev: "align (lev xs ys) xs ys"
proof (induction xs ys rule: lev.induct)
  case (2 x xs)
  show ?case using align_delete_all [of "x # xs"] by simp
next
  case (3 x xs y ys)
  have "align (lev xs ys + (if x \<noteq> y then 1 else 0)) (x # xs) (y # ys)" using 3(3) by auto
  moreover have "align (Suc (lev (x # xs) ys)) (x # xs) (y # ys)" "align (Suc (lev xs (y # ys))) (x # xs) (y # ys)"
    using 3(1,2) by auto
  ultimately show ?case unfolding lev.simps by (intro align_min)
qed (simp_all add: align_insert_all)

lemma lev_delete_le: "lev (x # xs) ys \<le> Suc (lev xs ys)"
  by (cases ys) (simp_all add: min_le_iff_disj)

lemma lev_insert_le: "lev xs (y # ys) \<le> Suc (lev xs ys)"
  by (cases xs) (simp_all add: min_le_iff_disj)

lemma lev_least: "align n xs ys \<Longrightarrow> lev xs ys \<le> n"
proof (induction rule: align.induct)
  case (align_keep n xs ys x)
  then show ?case by (simp add: min_le_iff_disj)
next
  case (align_replace n xs ys x y)
  then show ?case by (simp add: min_le_iff_disj)
next
  case (align_delete n xs ys x)
  then show ?case using lev_delete_le [of x xs ys] by linarith
next
  case (align_insert n xs ys y)
  then show ?case using lev_insert_le [of xs y ys] by linarith
qed simp

lemma align_append: "align m xs ys \<Longrightarrow> align n us vs \<Longrightarrow> align (m + n) (xs @ us) (ys @ vs)"
  by (induction rule: align.induct) auto

lemma align_rev: "align n xs ys \<Longrightarrow> align n (rev xs) (rev ys)"
proof (induction rule: align.induct)
  case (align_keep n xs ys x)
  then show ?case using align_append [of n "rev xs" "rev ys" 0 "[x]" "[x]"] by auto
next
  case (align_replace n xs ys x y)
  then show ?case using align_append [of n "rev xs" "rev ys" 1 "[x]" "[y]"] by auto
next
  case (align_delete n xs ys x)
  then show ?case using align_append [of n "rev xs" "rev ys" 1 "[x]" "[]"] by auto
next
  case (align_insert n xs ys y)
  then show ?case using align_append [of n "rev xs" "rev ys" 1 "[]" "[y]"] by auto
qed auto

lemma align_sym: "align n xs ys \<Longrightarrow> align n ys xs"
  by (induction rule: align.induct) auto

lemma lev_rev: "lev (rev xs) (rev ys) = lev xs ys"
  using lev_least [OF align_rev [OF align_lev, of xs ys]] lev_least [OF align_rev [OF align_lev, of "rev xs" "rev ys"]] by simp

lemma lev_sym: "lev xs ys = lev ys xs"
  using lev_least [OF align_sym [OF align_lev]] by (intro antisym) simp_all

text \<open>A row of the table: the distances of one prefix of the first text and all prefixes of the second. Prefixes are
  held in reverse.\<close>

fun table_row :: "(string \<Rightarrow> nat) \<Rightarrow> string \<Rightarrow> string \<Rightarrow> nat list" where
  "table_row f p [] = [f p]"
| "table_row f p (a # suf) = f p # table_row f (a # p) suf"

lemma table_row_hd: "\<exists>rest. table_row f p suf = f p # rest"
  by (cases suf) auto

lemma edit_row_correct: "edit_row b suf (table_row (lev rb) p suf) (lev (b # rb) p) = tl (table_row (lev (b # rb)) p suf)"
proof (induction suf arbitrary: p)
  case (Cons a suf)
  obtain rest where rest: "table_row (lev rb) (a # p) suf = lev rb (a # p) # rest" using table_row_hd by blast
  obtain rest' where rest': "table_row (lev (b # rb)) (a # p) suf = lev (b # rb) (a # p) # rest'" using table_row_hd by blast
  show ?case using Cons.IH [of "a # p"] rest rest' by (simp add: Let_def)
qed simp

lemma edit_rows_correct:
  "edit_rows (Suc (length rb)) before after (table_row (lev rb) [] after) = table_row (lev (rev before @ rb)) [] after"
proof (induction before arbitrary: rb)
  case (Cons b before)
  have "Suc (length rb) # edit_row b after (table_row (lev rb) [] after) (Suc (length rb)) = table_row (lev (b # rb)) [] after"
    using edit_row_correct [of b after rb "[]"] table_row_hd [of "lev (b # rb)" "[]" after] by auto
  then show ?case using Cons.IH [of "b # rb"] by simp
qed simp

lemma first_row: "table_row (lev []) p suf = [length p..<length p + length suf + 1]"
  by (induction suf arbitrary: p) (simp_all add: upt_rec)

lemma table_row_last: "last (table_row f p suf) = f (rev suf @ p)"
proof (induction suf arbitrary: p)
  case (Cons a suf)
  then show ?case using table_row_hd [of f "a # p" suf] by auto
qed simp

lemma edit_distance_lev: "edit_distance before after = lev before after"
proof -
  have "last (edit_rows 1 xs ys [0..<length ys + 1]) = lev xs ys" for xs ys
    using edit_rows_correct [of "[]" xs ys] first_row [of "[]" ys] by (simp add: table_row_last lev_rev)
  then show ?thesis by (simp add: edit_distance_def lev_sym [of after])
qed

lemma align_split:
  "align n xs (us @ vs) \<Longrightarrow> \<exists>xs1 xs2 n1 n2. xs = xs1 @ xs2 \<and> n = n1 + n2 \<and> align n1 xs1 us \<and> align n2 xs2 vs"
proof (induction n xs "us @ vs" arbitrary: us rule: align.induct)
  case align_Nil
  then show ?case by (intro exI [of _ "[]"] exI [of _ 0]) auto
next
  case (align_delete n xs x)
  then obtain xs1 xs2 n1 n2 where "xs = xs1 @ xs2" "n = n1 + n2" "align n1 xs1 us" "align n2 xs2 vs" by blast
  then show ?case by (intro exI [of _ "x # xs1"] exI [of _ xs2] exI [of _ "Suc n1"] exI [of _ n2]) auto
next
  case (align_keep n xs ys x)
  show ?case
  proof (cases us)
    case Nil
    then show ?thesis using align_keep(1,3)
      by (intro exI [of _ "[]"] exI [of _ "x # xs"] exI [of _ 0] exI [of _ n]) auto
  next
    case (Cons u us')
    then obtain xs1 xs2 n1 n2 where "xs = xs1 @ xs2" "n = n1 + n2" "align n1 xs1 us'" "align n2 xs2 vs" "u = x"
      using align_keep(2) [of us'] align_keep(3) by auto
    then show ?thesis using Cons by (intro exI [of _ "x # xs1"] exI [of _ xs2] exI [of _ n1] exI [of _ n2]) auto
  qed
next
  case (align_replace n xs ys x y)
  show ?case
  proof (cases us)
    case Nil
    then show ?thesis using align_replace(1,3)
      by (intro exI [of _ "[]"] exI [of _ "x # xs"] exI [of _ 0] exI [of _ "Suc n"]) auto
  next
    case (Cons u us')
    then obtain xs1 xs2 n1 n2 where "xs = xs1 @ xs2" "n = n1 + n2" "align n1 xs1 us'" "align n2 xs2 vs"
      using align_replace(2) [of us'] align_replace(3) by auto
    then show ?thesis using Cons by (intro exI [of _ "x # xs1"] exI [of _ xs2] exI [of _ "Suc n1"] exI [of _ n2]) auto
  qed
next
  case (align_insert n xs ys y)
  show ?case
  proof (cases us)
    case Nil
    then show ?thesis using align_insert(1,3)
      by (intro exI [of _ "[]"] exI [of _ xs] exI [of _ 0] exI [of _ "Suc n"]) auto
  next
    case (Cons u us')
    then obtain xs1 xs2 n1 n2 where "xs = xs1 @ xs2" "n = n1 + n2" "align n1 xs1 us'" "align n2 xs2 vs"
      using align_insert(2) [of us'] align_insert(3) by auto
    then show ?thesis using Cons by (intro exI [of _ xs1] exI [of _ xs2] exI [of _ "Suc n1"] exI [of _ n2]) auto
  qed
qed

lemma align_tail: "align n xs (c # vs) \<Longrightarrow> \<exists>m \<le> Suc n. align m xs vs"
proof (induction n xs "c # vs" rule: align.induct)
  case (align_delete n xs x)
  then obtain m where "m \<le> Suc n" "align m xs vs" by blast
  then show ?case by (intro exI [of _ "Suc m"]) auto
next
  case (align_replace n xs x)
  then show ?case by (intro exI [of _ "Suc n"]) auto
next
  case (align_insert n xs)
  then show ?case by (intro exI [of _ n]) auto
qed auto

lemma align_head: "align n xs (c # vs) \<Longrightarrow> \<exists>m \<le> Suc n. align m xs (d # vs)"
proof (induction n xs "c # vs" rule: align.induct)
  case (align_delete n xs x)
  then obtain m where "m \<le> Suc n" "align m xs (d # vs)" by blast
  then show ?case by (intro exI [of _ "Suc m"]) auto
next
  case (align_replace n xs x)
  then show ?case by (intro exI [of _ "Suc n"]) auto
next
  case (align_insert n xs)
  then show ?case by (intro exI [of _ "Suc n"]) auto
qed auto

lemma align_single_edit:
  assumes "align n xs ys" "single_edit ys zs"
  shows "\<exists>m \<le> Suc n. align m xs zs"
  using assms(2)
proof cases
  case (insert_char us vs c)
  then obtain xs1 xs2 n1 n2 where p: "xs = xs1 @ xs2" "n = n1 + n2" "align n1 xs1 us" "align n2 xs2 vs"
    using align_split assms(1) by blast
  then have "align (n1 + Suc n2) xs (us @ c # vs)" using align_append [OF p(3) align_insert [OF p(4)]] by simp
  then show ?thesis using insert_char p(2) by (intro exI [of _ "Suc n"]) simp
next
  case (delete_char us c vs)
  then obtain xs1 xs2 n1 n2 where p: "xs = xs1 @ xs2" "n = n1 + n2" "align n1 xs1 us" "align n2 xs2 (c # vs)"
    using align_split assms(1) by blast
  obtain m where "m \<le> Suc n2" "align m xs2 vs" using align_tail [OF p(4)] by blast
  then show ?thesis using delete_char p align_append [OF p(3)] by (intro exI [of _ "n1 + m"]) simp
next
  case (replace_char us c vs d)
  then obtain xs1 xs2 n1 n2 where p: "xs = xs1 @ xs2" "n = n1 + n2" "align n1 xs1 us" "align n2 xs2 (c # vs)"
    using align_split assms(1) by blast
  obtain m where "m \<le> Suc n2" "align m xs2 (d # vs)" using align_head [OF p(4)] by blast
  then show ?thesis using replace_char p align_append [OF p(3)] by (intro exI [of _ "n1 + m"]) simp
qed

lemma align_refl: "align 0 xs xs"
  by (induction xs) auto

lemma edits_align: "(single_edit ^^ n) xs ys \<Longrightarrow> \<exists>m \<le> n. align m xs ys"
proof (induction n arbitrary: ys)
  case (Suc n)
  then obtain zs where "(single_edit ^^ n) xs zs" "single_edit zs ys" by auto
  moreover from this obtain m where "m \<le> n" "align m xs zs" using Suc.IH by blast
  ultimately show ?case using align_single_edit by (meson Suc_le_mono le_trans)
qed (auto intro: align_refl)

lemma single_edit_Cons: "single_edit xs ys \<Longrightarrow> single_edit (c # xs) (c # ys)"
proof (induction rule: single_edit.induct)
  case (insert_char xs ys d)
  then show ?case using single_edit.insert_char [of "c # xs" ys d] by simp
next
  case (delete_char xs d ys)
  then show ?case using single_edit.delete_char [of "c # xs" d ys] by simp
next
  case (replace_char xs d ys e)
  then show ?case using single_edit.replace_char [of "c # xs" d ys e] by simp
qed

lemma edits_Cons: "(single_edit ^^ n) xs ys \<Longrightarrow> (single_edit ^^ n) (c # xs) (c # ys)"
  by (induction n arbitrary: ys) (auto intro: single_edit_Cons)

lemma align_edits: "align n xs ys \<Longrightarrow> (single_edit ^^ n) xs ys"
proof (induction rule: align.induct)
  case (align_keep n xs ys x)
  show ?case by (rule edits_Cons [OF align_keep(2)])
next
  case (align_replace n xs ys x y)
  have "single_edit (x # ys) (y # ys)" using replace_char [of "[]" x ys y] by simp
  then show ?case using edits_Cons [OF align_replace(2), of x] by auto
next
  case (align_delete n xs ys x)
  have "single_edit (x # xs) xs" using delete_char [of "[]" x xs] by simp
  then show ?case using align_delete(2) by (rule relpowp_Suc_I2)
next
  case (align_insert n xs ys y)
  have "single_edit ys (y # ys)" using insert_char [of "[]" ys y] by simp
  then show ?case using align_insert(2) by auto
qed simp

text \<open>C19. The distance that an edit records is the least number of insertions, deletions and
  replacements of one character that turn the old text into the new one: that many suffice and fewer do not.\<close>

theorem edit_distance_is_minimal:
  "(single_edit ^^ edit_distance before after) before after
     \<and> (\<forall>n. (single_edit ^^ n) before after \<longrightarrow> edit_distance before after \<le> n)"
proof -
  have "edit_distance before after \<le> n" if "(single_edit ^^ n) before after" for n
    using edits_align [OF that] lev_least edit_distance_lev le_trans by metis
  then show ?thesis using align_edits [OF align_lev, of before after] by (simp add: edit_distance_lev)
qed

theorem edit_distance_is_minimal_witness: "edit_distance ''kitten'' ''sitting'' = 3 \<and> (single_edit ^^ 3) ''kitten'' ''sitting''"
proof -
  have "edit_distance ''kitten'' ''sitting'' = 3" by code_simp
  then show ?thesis using edit_distance_is_minimal [of "''kitten''" "''sitting''"] by simp
qed

end
