(* ===== verification/Draft_Facts.thy ===== *)
theory Draft_Facts
  imports Drafts
begin

text \<open>
  Publication of drafts under concurrency. The two ways to publish are broken into the transactions and the
  network call that they consist of; \<open>publication_step\<close> interleaves those of any number of processes. The
  invariants hold in every state that these steps reach: a posted draft stays posted and its post is on
  record, and a publication command sends at most one post.
\<close>

section \<open>Results of the operations\<close>

lemma lock_draft_Inr:
  "lock_draft db w i = Inr d \<Longrightarrow> d \<in> set (dd_drafts db) \<and> df_workspace_id d = w \<and> df_id d = i"
  by (auto simp: lock_draft_def find_Some_iff split: option.splits)

lemma update_draft_Inr:
  "update_draft w i g db = Inr db' \<Longrightarrow>
     db' = db\<lparr>dd_drafts := map (\<lambda>d. if df_workspace_id d = w \<and> df_id d = i then g d else d) (dd_drafts db)\<rparr>
     \<and> (\<forall>d \<in> set (dd_drafts db). df_workspace_id d = w \<and> df_id d = i \<longrightarrow> draft_ok (g d))"
  by (auto simp: update_draft_def list_all_iff split: if_splits)

lemma log_tables [simp]:
  "dd_drafts (add_draft_feedback env now d u t fill db) = dd_drafts db"
  "dd_attempts (add_draft_feedback env now d u t fill db) = dd_attempts db"
  "dd_sent (add_draft_feedback env now d u t fill db) = dd_sent db"
  "dd_drafts (add_draft_status env now d u s db) = dd_drafts db"
  "dd_attempts (add_draft_status env now d u s db) = dd_attempts db"
  "dd_sent (add_draft_status env now d u s db) = dd_sent db"
  "dd_feedback (add_draft_status env now d u s db) = dd_feedback db"
  "dd_drafts (update_attempt w k f db) = dd_drafts db"
  "dd_sent (update_attempt w k f db) = dd_sent db"
  "dd_feedback (update_attempt w k f db) = dd_feedback db"
  "e \<in> set (dd_feedback db) \<Longrightarrow> e \<in> set (dd_feedback (add_draft_feedback env now d u t fill db))"
  by (auto simp: add_draft_feedback_def add_draft_status_def update_attempt_def)

definition attempt_keys :: "draft_db \<Rightarrow> (uuid \<times> string) list" where
  "attempt_keys db = map (\<lambda>a. (pu_workspace_id a, pu_command_id a)) (dd_attempts db)"

lemma find_attempt_None: "find_attempt db w k = None \<longleftrightarrow> (w, k) \<notin> set (attempt_keys db)"
  by (auto simp: find_attempt_def find_None_iff attempt_keys_def image_iff)

definition settles :: "(publication_attempt \<Rightarrow> publication_attempt) \<Rightarrow> bool" where
  "settles f \<longleftrightarrow> (\<forall>a. pu_workspace_id (f a) = pu_workspace_id a \<and> pu_command_id (f a) = pu_command_id a
     \<and> pu_payload_fingerprint (f a) = pu_payload_fingerprint a)"

lemma update_attempt_keys: "settles f \<Longrightarrow> attempt_keys (update_attempt w k f db) = attempt_keys db"
  by (simp add: attempt_keys_def update_attempt_def settles_def)

lemma add_attempt_Inr:
  assumes "add_attempt env w i k fp db = Inr db'"
  shows "(w, k) \<notin> set (attempt_keys db) \<and> attempt_keys db' = attempt_keys db @ [(w, k)] \<and> dd_drafts db' = dd_drafts db
    \<and> dd_sent db' = dd_sent db \<and> dd_feedback db' = dd_feedback db"
proof -
  have "(w, k) \<notin> set (attempt_keys db)" using assms by (auto simp: add_attempt_def find_attempt_None split: if_splits)
  then show ?thesis using assms by (auto simp: add_attempt_def attempt_keys_def split: if_splits)
qed

text \<open>What a review does: it changes one draft that is not posted, and does not post it.\<close>

definition reviews :: "draft_db \<Rightarrow> draft_db \<Rightarrow> bool" where
  "reviews db db' \<longleftrightarrow> dd_attempts db' = dd_attempts db \<and> dd_sent db' = dd_sent db
     \<and> set (dd_feedback db) \<subseteq> set (dd_feedback db')
     \<and> (dd_drafts db' = dd_drafts db
        \<or> (\<exists>d \<in> set (dd_drafts db). \<exists>g. df_status d \<noteq> ''posted''
            \<and> (\<forall>x. df_id (g x) = df_id x \<and> df_workspace_id (g x) = df_workspace_id x
                 \<and> (df_status (g x) = ''posted'' \<longrightarrow> df_status x = ''posted''))
            \<and> (\<forall>x \<in> set (dd_drafts db). df_workspace_id x = df_workspace_id d \<and> df_id x = df_id d \<longrightarrow> draft_ok (g x))
            \<and> dd_drafts db' = map (\<lambda>x. if df_workspace_id x = df_workspace_id d \<and> df_id x = df_id d then g x else x) (dd_drafts db)))"

lemma reviews_update:
  assumes "lock_draft db w i = Inr d" "df_status d \<noteq> ''posted''" "update_draft w i g db = Inr db1"
    and "\<And>x. df_id (g x) = df_id x \<and> df_workspace_id (g x) = df_workspace_id x
        \<and> (df_status (g x) = ''posted'' \<longrightarrow> df_status x = ''posted'')"
    and "dd_drafts db' = dd_drafts db1" "dd_attempts db' = dd_attempts db1" "dd_sent db' = dd_sent db1"
    and "set (dd_feedback db1) \<subseteq> set (dd_feedback db')"
  shows "reviews db db'"
proof -
  note d = lock_draft_Inr [OF assms(1)] and u = update_draft_Inr [OF assms(3)]
  have "\<exists>g. df_status d \<noteq> ''posted'' \<and> (\<forall>x. df_id (g x) = df_id x \<and> df_workspace_id (g x) = df_workspace_id x
                 \<and> (df_status (g x) = ''posted'' \<longrightarrow> df_status x = ''posted''))
            \<and> (\<forall>x \<in> set (dd_drafts db). df_workspace_id x = df_workspace_id d \<and> df_id x = df_id d \<longrightarrow> draft_ok (g x))
            \<and> dd_drafts db' = map (\<lambda>x. if df_workspace_id x = df_workspace_id d \<and> df_id x = df_id d then g x else x) (dd_drafts db)"
    by (rule exI [of _ g]) (use d u assms(2,4,5) in simp)
  moreover have "dd_attempts db' = dd_attempts db" "dd_sent db' = dd_sent db" "set (dd_feedback db) \<subseteq> set (dd_feedback db')"
    using u assms(6-8) by simp_all
  ultimately show ?thesis using d unfolding reviews_def by blast
qed

lemma reviews_refl [simp]: "reviews db db"
  by (simp add: reviews_def)

lemma edit_reviews:
  assumes "edit_draft_content env now w i u c db = Inr (x, db')"
  shows "reviews db db'"
proof -
  from assms consider "db' = db" | d db1 n fill where "lock_draft db w i = Inr d" "df_status d \<noteq> ''posted''"
      "update_draft w i (\<lambda>d. d\<lparr>df_content := c, df_user_edited := True, df_edit_distance := Some n, df_updated_at := now\<rparr>) db = Inr db1"
      "db' = add_draft_feedback env now d u ''edited'' fill db1"
    by (auto simp: edit_draft_content_def res_bind_eq_Inr Let_def ensure_editable_def split: if_splits)
  then show ?thesis
  proof cases
    case (2 d db1 n fill)
    show ?thesis by (rule reviews_update [OF 2(1-3)]) (auto simp: 2(4))
  qed simp
qed

lemma approve_reviews:
  assumes "approve_review env now w i u db = Inr (x, db')"
  shows "reviews db db'"
proof -
  from assms consider "db' = db" | d db1 fill where "lock_draft db w i = Inr d" "df_status d \<noteq> ''posted''"
      "update_draft w i (\<lambda>d. d\<lparr>df_status := ''approved'', df_approved_at := Some now, df_rejected_at := None,
         df_rejection_reason := None, df_updated_at := now\<rparr>) db = Inr db1"
      "db' = add_draft_feedback env now d u ''approved'' fill (add_draft_status env now d u ''approved'' db1)"
    by (auto simp: approve_review_def res_bind_eq_Inr Let_def split: if_splits)
  then show ?thesis
  proof cases
    case (2 d db1 fill)
    show ?thesis by (rule reviews_update [OF 2(1-3)]) (auto simp: 2(4))
  qed simp
qed

lemma reject_reviews:
  assumes "reject_review env now w i u reason db = Inr (x, db')"
  shows "reviews db db'"
proof -
  from assms consider "db' = db" | d db1 fill where "lock_draft db w i = Inr d" "df_status d \<noteq> ''posted''"
      "update_draft w i (\<lambda>d. d\<lparr>df_status := ''rejected'', df_approved_at := None, df_rejected_at := Some now,
         df_rejection_reason := Some reason, df_updated_at := now\<rparr>) db = Inr db1"
      "db' = add_draft_feedback env now d u ''rejected'' fill (add_draft_status env now d u ''rejected'' db1)"
    by (auto simp: reject_review_def res_bind_eq_Inr Let_def ensure_rejectable_def split: if_splits)
  then show ?thesis
  proof cases
    case (2 d db1 fill)
    show ?thesis by (rule reviews_update [OF 2(1-3)]) (auto simp: 2(4))
  qed simp
qed

lemma select_reviews:
  assumes "select_draft_candidate env now w i u t db = Inr (x, db')"
  shows "reviews db db'"
proof -
  from assms consider "db' = db" | d db1 fill c where "lock_draft db w i = Inr d" "df_status d \<noteq> ''posted''"
      "update_draft w i (\<lambda>d. d\<lparr>df_selected_candidate_id := Some t, df_content := c, df_user_edited := False,
         df_edit_distance := Some 0, df_updated_at := now\<rparr>) db = Inr db1"
      "db' = add_draft_feedback env now d u ''selected'' fill db1"
    by (auto simp: select_draft_candidate_def res_bind_eq_Inr Let_def ensure_candidate_selectable_def
        split: if_splits option.splits)
  then show ?thesis
  proof cases
    case (2 d db1 fill c)
    show ?thesis by (rule reviews_update [OF 2(1-3)]) (auto simp: 2(4))
  qed simp
qed

lemma start_publication_result:
  assumes "start_publication env now w i a n u k db = Inr (d, db')"
  obtains db2 where "reviews db db2" "(w, k) \<notin> set (attempt_keys db)" "attempt_keys db' = attempt_keys db @ [(w, k)]"
    "dd_drafts db' = dd_drafts db2" "dd_sent db' = dd_sent db" "dd_feedback db' = dd_feedback db2"
    "d \<in> set (dd_drafts db)" "df_workspace_id d = w" "df_id d = i"
    "exact_x_post db w a n = Some (df_content d)" "df_status d \<in> {''pending'', ''approved''}"
proof -
  from assms obtain db2 where l: "lock_draft db w i = Inr d" and st: "df_status d \<noteq> ''posted''"
    and post: "exact_x_post db w a n = Some (df_content d)"
    and two: "(df_status d = ''approved'' \<and> db2 = db) \<or> (\<exists>db1. df_status d = ''pending''
        \<and> update_draft w i (\<lambda>d. d\<lparr>df_status := ''approved'', df_approved_at := Some now, df_updated_at := now\<rparr>) db = Inr db1
        \<and> db2 = add_draft_feedback env now d u ''approved'' (\<lambda>e. e\<lparr>dfe_content_after := Some (df_content d)\<rparr>)
            (add_draft_status env now d u ''approved'' db1))"
    and add: "add_attempt env w i k (Some (publication_fingerprint env i a n)) db2 = Inr db'"
    unfolding start_publication_def
    by (auto simp: res_bind_eq_Inr ensure_approvable_def split: if_splits)
  have r: "reviews db db2"
    using two
  proof (elim disjE conjE exE)
    fix db1
    assume u: "update_draft w i (\<lambda>d. d\<lparr>df_status := ''approved'', df_approved_at := Some now, df_updated_at := now\<rparr>) db = Inr db1"
      "db2 = add_draft_feedback env now d u ''approved'' (\<lambda>e. e\<lparr>dfe_content_after := Some (df_content d)\<rparr>)
            (add_draft_status env now d u ''approved'' db1)"
    show ?thesis by (rule reviews_update [OF l st u(1)]) (auto simp: u(2))
  qed simp
  then have "attempt_keys db2 = attempt_keys db" "dd_sent db2 = dd_sent db" by (simp_all add: reviews_def attempt_keys_def)
  with add_attempt_Inr [OF add] lock_draft_Inr [OF l] r post two show thesis by (intro that [of db2]) auto
qed

section \<open>Interleaved publications\<close>

text \<open>A flight is a publication whose attempt is committed and whose request has not been sent yet: the workspace,
  the command of the attempt, the key given to X and the draft as it was read.\<close>

datatype flight = Flight (fl_workspace: uuid) (fl_command: string) (fl_key: string) (fl_draft: review_draft)

definition flight_request :: "flight \<Rightarrow> (string \<times> string) list \<Rightarrow> publish_request" where
  "flight_request f credentials =
     \<lparr>px_content = df_content (fl_draft f), px_credentials = credentials, px_idempotency_key = fl_key f\<rparr>"

inductive publication_step :: "draft_env \<Rightarrow> draft_db \<times> flight list \<Rightarrow> draft_db \<times> flight list \<Rightarrow> bool" for env where
  step_start: "start_publish env w i u db = Inr (Send d, db') \<Longrightarrow>
    publication_step env (db, fs) (db', Flight w (draft_key i) (draft_key i) d # fs)"
| step_command: "start_publication env now w i a n u k db = Inr (d, db') \<Longrightarrow>
    publication_step env (db, fs) (db', Flight w k (provider_key env w k) d # fs)"
| step_send: "f \<in> set fs \<Longrightarrow> publish_x env (flight_request f credentials) db = (outcome, db') \<Longrightarrow>
    publication_step env (db, fs) (db', remove1 f fs)"
| step_cancel: "f \<in> set fs \<Longrightarrow> publication_step env (db, fs) (db, remove1 f fs)"
| step_settle: "settles g \<Longrightarrow> publication_step env (db, fs) (update_attempt w k g db, fs)"
| step_post: "record_post env now d u k post url fill db = Inr db' \<Longrightarrow> (\<And>e. dfe_draft_id (fill e) = dfe_draft_id e
    \<and> dfe_event_type (fill e) = dfe_event_type e \<and> dfe_provider_post_id (fill e) = dfe_provider_post_id e) \<Longrightarrow>
    publication_step env (db, fs) (db', fs)"
| step_edit: "edit_draft_content env now w i u c db = Inr (x, db') \<Longrightarrow> publication_step env (db, fs) (db', fs)"
| step_approve: "approve_review env now w i u db = Inr (x, db') \<Longrightarrow> publication_step env (db, fs) (db', fs)"
| step_reject: "reject_review env now w i u reason db = Inr (x, db') \<Longrightarrow> publication_step env (db, fs) (db', fs)"
| step_select: "select_draft_candidate env now w i u t db = Inr (x, db') \<Longrightarrow> publication_step env (db, fs) (db', fs)"
| step_draft: "draft_ok d \<Longrightarrow> df_status d \<noteq> ''posted'' \<Longrightarrow> df_id d \<notin> df_id ` set (dd_drafts db) \<Longrightarrow>
    publication_step env (db, fs) (db\<lparr>dd_drafts := dd_drafts db @ [d], dd_drawn := m\<rparr>, fs)"
| step_rest: "publication_step env (db, fs) (db\<lparr>dd_candidates := cs, dd_connections := xs, dd_assets := ps,
    dd_memberships := ms\<rparr>, fs)"

lemma start_publish_result:
  assumes "start_publish env w i u db = Inr (Send d, db')"
  shows "dd_drafts db' = dd_drafts db \<and> dd_sent db' = dd_sent db \<and> dd_feedback db' = dd_feedback db
    \<and> (attempt_keys db' = attempt_keys db \<or> attempt_keys db' = attempt_keys db @ [(w, draft_key i)])
    \<and> df_status d = ''approved'' \<and> lock_draft db w i = Inr d"
  using assms
  by (auto simp: start_publish_def res_bind_eq_Inr ensure_publishable_def dest!: add_attempt_Inr split: if_splits option.splits)

lemma record_post_result:
  assumes "record_post env now d u k post url fill db = Inr db'"
  shows "dd_sent db' = dd_sent db \<and> attempt_keys db' = attempt_keys db \<and> set (dd_feedback db) \<subseteq> set (dd_feedback db')
    \<and> dd_drafts db' = map (\<lambda>x. if df_workspace_id x = df_workspace_id d \<and> df_id x = df_id d
         then x\<lparr>df_status := ''posted'', df_posted_at := Some now, df_tweet_id := Some post, df_posting_started_at := None,
                df_updated_at := now\<rparr> else x) (dd_drafts db)
    \<and> (\<forall>x \<in> set (dd_drafts db). df_workspace_id x = df_workspace_id d \<and> df_id x = df_id d \<longrightarrow>
         draft_ok (x\<lparr>df_status := ''posted'', df_posted_at := Some now, df_tweet_id := Some post, df_posting_started_at := None,
                df_updated_at := now\<rparr>))
    \<and> ((\<forall>e. dfe_draft_id (fill e) = dfe_draft_id e \<and> dfe_event_type (fill e) = dfe_event_type e
          \<and> dfe_provider_post_id (fill e) = dfe_provider_post_id e) \<longrightarrow>
        (\<exists>e \<in> set (dd_feedback db'). dfe_draft_id e = df_id d \<and> dfe_event_type e = ''posted'' \<and> dfe_provider_post_id e = Some post))"
proof -
  from assms obtain db1 where u: "update_draft (df_workspace_id d) (df_id d) (\<lambda>x. x\<lparr>df_status := ''posted'', df_posted_at := Some now,
         df_tweet_id := Some post, df_posting_started_at := None, df_updated_at := now\<rparr>) db = Inr db1"
    and db': "db' = update_attempt (df_workspace_id d) k (\<lambda>a. a\<lparr>pu_status := ''completed'',
           pu_provider_receipt := Some [(''providerPostId'', post), (''url'', url)], pu_completed_at := Some now\<rparr>)
         (add_draft_feedback env now d u ''posted'' (\<lambda>e. fill (e
             \<lparr>dfe_content_after := Some (df_content d), dfe_provider_post_id := Some post,
              dfe_metadata := [(''provider'', ''x''), (''url'', url), (''idempotencyKey'', k)]\<rparr>))
           (add_draft_status env now d u ''posted'' db1))"
    by (auto simp: record_post_def res_bind_eq_Inr)
  note r = update_draft_Inr [OF u]
  have "attempt_keys db' = attempt_keys db"
    unfolding db' using r by (subst update_attempt_keys) (simp_all add: settles_def attempt_keys_def)
  then show ?thesis unfolding db' using r by (auto simp: add_draft_feedback_def)
qed

section \<open>Posted drafts stay posted and are on record\<close>

definition recorded :: "draft_db \<Rightarrow> review_draft \<Rightarrow> bool" where
  "recorded db d \<longleftrightarrow> (\<exists>e \<in> set (dd_feedback db). dfe_draft_id e = df_id d \<and> dfe_event_type e = ''posted''
     \<and> dfe_provider_post_id e = df_tweet_id d)"

lemma recorded_mono: "recorded db d \<Longrightarrow> set (dd_feedback db) \<subseteq> set (dd_feedback db') \<Longrightarrow> recorded db' d"
  unfolding recorded_def by blast

definition drafts_inv :: "draft_db \<Rightarrow> bool" where
  "drafts_inv db \<longleftrightarrow> distinct (map df_id (dd_drafts db)) \<and> list_all draft_ok (dd_drafts db)
     \<and> (\<forall>d \<in> set (dd_drafts db). df_status d = ''posted'' \<longrightarrow> recorded db d)"

definition keeps_posted :: "draft_db \<Rightarrow> draft_db \<Rightarrow> bool" where
  "keeps_posted db db' \<longleftrightarrow> (\<forall>d \<in> set (dd_drafts db). df_status d = ''posted'' \<longrightarrow>
     (\<exists>d' \<in> set (dd_drafts db'). df_id d' = df_id d \<and> df_status d' = ''posted''))"

lemma same_drafts_inv:
  "dd_drafts db' = dd_drafts db \<Longrightarrow> set (dd_feedback db) \<subseteq> set (dd_feedback db') \<Longrightarrow> drafts_inv db \<Longrightarrow>
     drafts_inv db' \<and> keeps_posted db db'"
proof -
  assume same: "dd_drafts db' = dd_drafts db" "set (dd_feedback db) \<subseteq> set (dd_feedback db')" and inv: "drafts_inv db"
  show ?thesis using inv same(1) recorded_mono [OF _ same(2)] by (auto simp: drafts_inv_def keeps_posted_def)
qed

lemma map_draft_ids:
  "(\<And>x. df_id (g x) = df_id x) \<Longrightarrow> map df_id (map (\<lambda>x. if P x then g x else x) xs) = map df_id xs"
  by (induction xs) simp_all

lemma reviews_inv:
  assumes "reviews db db'" "drafts_inv db"
  shows "drafts_inv db' \<and> keeps_posted db db'"
proof (cases "dd_drafts db' = dd_drafts db")
  case True
  then show ?thesis using same_drafts_inv assms by (simp add: reviews_def)
next
  case False
  then obtain d g where d: "d \<in> set (dd_drafts db)" "df_status d \<noteq> ''posted''"
    and g: "\<And>x. df_id (g x) = df_id x \<and> (df_status (g x) = ''posted'' \<longrightarrow> df_status x = ''posted'')"
    and ok: "\<And>x. x \<in> set (dd_drafts db) \<Longrightarrow> df_workspace_id x = df_workspace_id d \<and> df_id x = df_id d \<Longrightarrow> draft_ok (g x)"
    and db': "dd_drafts db' = map (\<lambda>x. if df_workspace_id x = df_workspace_id d \<and> df_id x = df_id d then g x else x) (dd_drafts db)"
    using assms(1) unfolding reviews_def by blast
  have only: "x = d" if "x \<in> set (dd_drafts db)" "df_id x = df_id d" for x
    using that d(1) assms(2) by (auto simp: drafts_inv_def distinct_map dest: inj_onD)
  have fb: "set (dd_feedback db) \<subseteq> set (dd_feedback db')" using assms(1) by (simp add: reviews_def)
  have "distinct (map df_id (dd_drafts db'))"
    using assms(2) g unfolding db' drafts_inv_def by (subst map_draft_ids) simp_all
  moreover have "draft_ok y \<and> (df_status y = ''posted'' \<longrightarrow> recorded db' y)" if y: "y \<in> set (dd_drafts db')" for y
  proof -
    obtain x where x: "x \<in> set (dd_drafts db)" "y = (if df_workspace_id x = df_workspace_id d \<and> df_id x = df_id d then g x else x)"
      using y unfolding db' by auto
    show ?thesis
    proof (cases "df_workspace_id x = df_workspace_id d \<and> df_id x = df_id d")
      case True
      then show ?thesis using x ok only [OF x(1)] d(2) g by auto
    next
      case False
      then have "y = x" using x(2) by presburger
      then show ?thesis using x(1) assms(2) recorded_mono [OF _ fb] by (simp add: drafts_inv_def list_all_iff)
    qed
  qed
  moreover have "keeps_posted db db'"
    unfolding keeps_posted_def
  proof (intro ballI impI)
    fix x assume x: "x \<in> set (dd_drafts db)" "df_status x = ''posted''"
    then have "df_id x \<noteq> df_id d" using only d(2) by blast
    then have "x \<in> set (dd_drafts db')" using x(1) unfolding db' by force
    then show "\<exists>d' \<in> set (dd_drafts db'). df_id d' = df_id x \<and> df_status d' = ''posted''" using x(2) by blast
  qed
  ultimately show ?thesis by (simp add: drafts_inv_def list_all_iff)
qed

lemma post_inv:
  assumes "record_post env now d u k post url fill db = Inr db'" "drafts_inv db"
    and "\<And>e. dfe_draft_id (fill e) = dfe_draft_id e \<and> dfe_event_type (fill e) = dfe_event_type e
        \<and> dfe_provider_post_id (fill e) = dfe_provider_post_id e"
  shows "drafts_inv db' \<and> keeps_posted db db'"
proof -
  let ?g = "\<lambda>x. x\<lparr>df_status := ''posted'', df_posted_at := Some now, df_tweet_id := Some post, df_posting_started_at := None,
                df_updated_at := now\<rparr>"
  let ?P = "\<lambda>x. df_workspace_id x = df_workspace_id d \<and> df_id x = df_id d"
  note r = record_post_result [OF assms(1)]
  then have db': "dd_drafts db' = map (\<lambda>x. if ?P x then ?g x else x) (dd_drafts db)" by blast
  have "distinct (map df_id (dd_drafts db'))"
    using assms(2) unfolding db' drafts_inv_def by (subst map_draft_ids) simp_all
  moreover have "draft_ok y \<and> (df_status y = ''posted'' \<longrightarrow> recorded db' y)" if y: "y \<in> set (dd_drafts db')" for y
  proof -
    obtain x where x: "x \<in> set (dd_drafts db)" "y = (if ?P x then ?g x else x)" using y unfolding db' by auto
    show ?thesis
    proof (cases "?P x")
      case True
      moreover obtain e where "e \<in> set (dd_feedback db')" "dfe_draft_id e = df_id d" "dfe_event_type e = ''posted''"
        "dfe_provider_post_id e = Some post" using r assms(3) by blast
      ultimately show ?thesis using r x by (auto simp: recorded_def)
    next
      case False
      then have "y = x" using x(2) by presburger
      moreover have "set (dd_feedback db) \<subseteq> set (dd_feedback db')" using r by blast
      ultimately show ?thesis using x(1) assms(2) recorded_mono [of db x db'] by (simp add: drafts_inv_def list_all_iff)
    qed
  qed
  moreover have "keeps_posted db db'"
    unfolding keeps_posted_def
  proof (intro ballI impI)
    fix x assume "x \<in> set (dd_drafts db)" "df_status x = ''posted''"
    then show "\<exists>d' \<in> set (dd_drafts db'). df_id d' = df_id x \<and> df_status d' = ''posted''"
      unfolding db' by (intro bexI [of _ "if ?P x then ?g x else x"]) auto
  qed
  ultimately show ?thesis by (simp add: drafts_inv_def list_all_iff)
qed

lemma publication_step_inv:
  assumes "publication_step env s s'" "drafts_inv (fst s)"
  shows "drafts_inv (fst s') \<and> keeps_posted (fst s) (fst s')"
  using assms
proof (cases rule: publication_step.cases)
  case (step_start w i u db d db' fs)
  then show ?thesis using start_publish_result [of env w i u db d db'] same_drafts_inv [of db' db] assms(2) by simp
next
  case (step_command now w i a n u k db d db' fs)
  obtain db2 where "reviews db db2" "dd_drafts db' = dd_drafts db2" "dd_feedback db' = dd_feedback db2"
    using start_publication_result [OF step_command(3)] by blast
  moreover from this have "drafts_inv db2 \<and> keeps_posted db db2" using reviews_inv assms(2) step_command(1) by simp
  ultimately show ?thesis using step_command same_drafts_inv [of db' db2] by (simp add: keeps_posted_def)
next
  case (step_send f fs credentials db outcome db')
  then have "dd_drafts db' = dd_drafts db" "dd_feedback db' = dd_feedback db" by (auto simp: publish_x_def split: if_splits)
  then show ?thesis using step_send same_drafts_inv [of db' db] assms(2) by simp
next
  case (step_post now d u k post url fill db db' fs)
  then show ?thesis using post_inv [OF step_post(3)] assms(2) by simp
next
  case (step_draft d db fs m)
  then show ?thesis using assms(2) by (auto simp: drafts_inv_def keeps_posted_def recorded_def)
next
  case (step_edit now w i u c db x db' fs)
  then show ?thesis using reviews_inv [OF edit_reviews [OF step_edit(3)]] assms(2) by simp
next
  case (step_approve now w i u db x db' fs)
  then show ?thesis using reviews_inv [OF approve_reviews [OF step_approve(3)]] assms(2) by simp
next
  case (step_reject now w i u reason db x db' fs)
  then show ?thesis using reviews_inv [OF reject_reviews [OF step_reject(3)]] assms(2) by simp
next
  case (step_select now w i u t db x db' fs)
  then show ?thesis using reviews_inv [OF select_reviews [OF step_select(3)]] assms(2) by simp
next
  case (step_cancel f fs db)
  then show ?thesis using same_drafts_inv [of db db] assms(2) by simp
next
  case (step_settle g db fs w k)
  then show ?thesis using same_drafts_inv [of "update_attempt w k g db" db] assms(2) by simp
next
  case (step_rest db fs cs xs ps ms)
  then show ?thesis
    using same_drafts_inv [of "fst s'" "fst s"] assms(2) by simp
qed

section \<open>A command posts once\<close>

definition sent_with :: "string \<Rightarrow> draft_db \<Rightarrow> nat" where
  "sent_with key db = length (filter (\<lambda>r. px_idempotency_key r = key) (dd_sent db))"

definition flying_with :: "string \<Rightarrow> flight list \<Rightarrow> nat" where
  "flying_with key fs = length (filter (\<lambda>f. fl_key f = key) fs)"

definition once :: "draft_env \<Rightarrow> uuid \<Rightarrow> string \<Rightarrow> draft_db \<times> flight list \<Rightarrow> bool" where
  "once env w k s \<longleftrightarrow> sent_with (provider_key env w k) (fst s) + flying_with (provider_key env w k) (snd s)
     \<le> (if (w, k) \<in> set (attempt_keys (fst s)) then 1 else 0)"

lemma provider_key_not_draft_key: "provider_key env w k \<noteq> draft_key i"
  by (simp add: provider_key_def draft_key_def)

lemma flying_remove: "f \<in> set fs \<Longrightarrow> flying_with key fs = flying_with key (remove1 f fs) + (if fl_key f = key then 1 else 0)"
  unfolding flying_with_def by (induction fs) auto

lemma flying_remove_le: "flying_with key (remove1 f fs) \<le> flying_with key fs"
  unfolding flying_with_def by (induction fs) auto

lemma once_same:
  assumes "once env w k (db, fs)" "dd_sent db' = dd_sent db" "set (attempt_keys db) \<subseteq> set (attempt_keys db')"
    "flying_with (provider_key env w k) fs' \<le> flying_with (provider_key env w k) fs"
  shows "once env w k (db', fs')"
  using assms by (auto simp: once_def sent_with_def split: if_splits)

lemma reviews_once: "reviews db db' \<Longrightarrow> once env w k (db, fs) \<Longrightarrow> once env w k (db', fs)"
  by (simp add: reviews_def once_def sent_with_def attempt_keys_def)

lemma publication_step_once:
  assumes "publication_step env s s'" "once env w k s"
    and "\<And>w' k'. provider_key env w' k' = provider_key env w k \<Longrightarrow> w' = w \<and> k' = k"
  shows "once env w k s'"
  using assms(1)
proof (cases rule: publication_step.cases)
  case (step_start w' i u db d db' fs)
  note r = start_publish_result [OF step_start(3)]
  have "flying_with (provider_key env w k) (Flight w' (draft_key i) (draft_key i) d # fs) = flying_with (provider_key env w k) fs"
    using provider_key_not_draft_key [of env w k i] by (auto simp: flying_with_def)
  then show ?thesis using step_start(1,2) assms(2) r by (auto intro!: once_same [of env w k db fs])
next
  case (step_command now w' i a n u k' db d db' fs)
  obtain db2 where r: "(w', k') \<notin> set (attempt_keys db)" "attempt_keys db' = attempt_keys db @ [(w', k')]" "dd_sent db' = dd_sent db"
    by (rule start_publication_result [OF step_command(3)]) (rule that)
  show ?thesis
  proof (cases "(w', k') = (w, k)")
    case True
    then have "once env w k (db, fs)" "(w, k) \<notin> set (attempt_keys db)" using assms(2) step_command(1) r(1) by auto
    then show ?thesis using True r step_command(2) by (simp add: once_def sent_with_def flying_with_def)
  next
    case False
    then have "provider_key env w' k' \<noteq> provider_key env w k" using assms(3) by blast
    then have "flying_with (provider_key env w k) (Flight w' k' (provider_key env w' k') d # fs)
        = flying_with (provider_key env w k) fs" by (simp add: flying_with_def)
    then show ?thesis using step_command(1,2) assms(2) r by (auto intro!: once_same [of env w k db fs])
  qed
next
  case (step_send f fs credentials db outcome db')
  have "attempt_keys db' = attempt_keys db" "dd_sent db' = dd_sent db \<or> dd_sent db' = dd_sent db @ [flight_request f credentials]"
    using step_send(4) by (auto simp: publish_x_def attempt_keys_def split: if_splits)
  then have "sent_with (provider_key env w k) db' + flying_with (provider_key env w k) (remove1 f fs)
      \<le> sent_with (provider_key env w k) db + flying_with (provider_key env w k) fs"
    using flying_remove [OF step_send(3), of "provider_key env w k"]
    by (auto simp: sent_with_def flight_request_def)
  then show ?thesis using assms(2) step_send(1,2) \<open>attempt_keys db' = attempt_keys db\<close> by (auto simp: once_def)
next
  case (step_cancel f fs db)
  then show ?thesis using assms(2) flying_remove_le by (auto intro!: once_same [of env w k db fs])
next
  case (step_settle g db fs w' k')
  then show ?thesis using assms(2) by (auto simp: update_attempt_keys intro!: once_same [of env w k db fs])
next
  case (step_post now d u k' post url fill db db' fs)
  then show ?thesis using assms(2) record_post_result [OF step_post(3)] by (auto intro!: once_same [of env w k db fs])
next
  case (step_edit now w' i u c db x db' fs)
  then show ?thesis using reviews_once [OF edit_reviews [OF step_edit(3)]] assms(2) by simp
next
  case (step_approve now w' i u db x db' fs)
  then show ?thesis using reviews_once [OF approve_reviews [OF step_approve(3)]] assms(2) by simp
next
  case (step_reject now w' i u reason db x db' fs)
  then show ?thesis using reviews_once [OF reject_reviews [OF step_reject(3)]] assms(2) by simp
next
  case (step_select now w' i u t db x db' fs)
  then show ?thesis using reviews_once [OF select_reviews [OF step_select(3)]] assms(2) by simp
next
  case (step_draft d db fs m)
  then show ?thesis using assms(2) by (simp add: once_def sent_with_def attempt_keys_def)
next
  case (step_rest db fs cs xs ps ms)
  then show ?thesis using assms(2) by (simp add: once_def sent_with_def attempt_keys_def)
qed

end
