(* ===== verification/Draft_Properties.thy ===== *)
theory Draft_Properties
  imports Draft_Facts
begin

text \<open>
  The properties of publication: the code is an interleaving of the steps, a command posts once, posted drafts stay
  posted and on record; and two defects. A text can be posted twice after an unknown outcome, and an edit after the
  approval is published without another approval.
\<close>

section \<open>The code takes steps\<close>

text \<open>What other processes do during a publication: any steps that leave the flights of others in the air.\<close>

definition meanwhile :: "draft_env \<Rightarrow> (nat \<Rightarrow> draft_db \<Rightarrow> draft_db) \<Rightarrow> bool" where
  "meanwhile env others \<longleftrightarrow> (\<forall>i db fs. \<exists>fs'. set fs \<subseteq> set fs'
     \<and> (publication_step env)\<^sup>*\<^sup>* (db, fs) (others i db, fs'))"

lemma meanwhileE:
  assumes "meanwhile env others"
  obtains fs' where "set fs \<subseteq> set fs'" "(publication_step env)\<^sup>*\<^sup>* (db, fs) (others i db, fs')"
  using assms unfolding meanwhile_def by blast

lemma alone_meanwhile: "meanwhile env (\<lambda>_ db. db)"
  unfolding meanwhile_def by blast

lemma steps_then: "(publication_step env)\<^sup>*\<^sup>* s t \<Longrightarrow> publication_step env t u \<Longrightarrow> (publication_step env)\<^sup>*\<^sup>* s u"
  by (rule rtranclp.rtrancl_into_rtrancl)

lemma send_steps:
  assumes "(publication_step env)\<^sup>*\<^sup>* s (db, fs)" "Flight w k pk d \<in> set fs" "meanwhile env others"
    and "publish_x env \<lparr>px_content = df_content d, px_credentials = c, px_idempotency_key = pk\<rparr> db = (out, db')"
  shows "\<exists>fs'. (publication_step env)\<^sup>*\<^sup>* s (others i db', fs')" "\<exists>fs'. (publication_step env)\<^sup>*\<^sup>* s (db', fs')"
proof -
  have "publication_step env (db, fs) (db', remove1 (Flight w k pk d) fs)"
    using assms(2,4) by (intro step_send) (simp_all add: flight_request_def)
  with assms(1) have sent: "(publication_step env)\<^sup>*\<^sup>* s (db', remove1 (Flight w k pk d) fs)" by (rule steps_then)
  then show "\<exists>fs'. (publication_step env)\<^sup>*\<^sup>* s (db', fs')" by blast
  from sent show "\<exists>fs'. (publication_step env)\<^sup>*\<^sup>* s (others i db', fs')"
    using meanwhileE [OF assms(3)] by (metis rtranclp_trans)
qed

lemma settled_steps:
  assumes "\<exists>fs. (publication_step env)\<^sup>*\<^sup>* s (db, fs)" "settles g"
  shows "\<exists>fs. (publication_step env)\<^sup>*\<^sup>* s (update_attempt w k g db, fs)"
  using assms steps_then step_settle by metis

lemma posted_steps:
  assumes "\<exists>fs. (publication_step env)\<^sup>*\<^sup>* s (db, fs)" "record_post env now d u k post url fill db = Inr db'"
    and "\<And>e. dfe_draft_id (fill e) = dfe_draft_id e \<and> dfe_event_type (fill e) = dfe_event_type e
        \<and> dfe_provider_post_id (fill e) = dfe_provider_post_id e"
  shows "\<exists>fs. (publication_step env)\<^sup>*\<^sup>* s (db', fs)"
  using assms(1) steps_then step_post [OF assms(2,3)] by metis

lemma settles_simps [simp]:
  "settles (\<lambda>a. a\<lparr>pu_status := s, pu_error_category := c\<rparr>)"
  "settles (\<lambda>a. a\<lparr>pu_status := s, pu_error_category := c, pu_completed_at := t\<rparr>)"
  by (simp_all add: settles_def)

lemma send_publication_steps:
  assumes "(publication_step env)\<^sup>*\<^sup>* s (db1, Flight w k (provider_key env w k) d # fs)" "meanwhile env others"
  shows "\<exists>fs'. (publication_step env)\<^sup>*\<^sup>* s (snd (send_publication env others now w i a n u k d db1), fs')"
proof -
  obtain fs2 where 2: "Flight w k (provider_key env w k) d \<in> set fs2" "(publication_step env)\<^sup>*\<^sup>* s (others 0 db1, fs2)"
    using meanwhileE [OF assms(2), of "Flight w k (provider_key env w k) d # fs" db1 0] assms(1)
    by (metis list.set_intros(1) rtranclp_trans subsetD)
  show ?thesis
  proof (cases "x_credentials env (others 0 db1) w")
    case (Inl code)
    then show ?thesis using 2(2) by (auto simp: send_publication_def Let_def intro!: settled_steps)
  next
    case (Inr c)
    obtain out db3 where p: "publish_x env \<lparr>px_content = df_content d, px_credentials = c,
        px_idempotency_key = provider_key env w k\<rparr> (others 0 db1) = (out, db3)" by fastforce
    note 4 = send_steps(1) [OF 2(2,1) assms(2) p, of 1]
    show ?thesis
    proof (cases out)
      case (Published post url)
      show ?thesis
      proof (cases "record_post env now d u k post url (\<lambda>e. e) (others 1 db3)")
        case (Inr db5)
        then have "\<exists>fs. (publication_step env)\<^sup>*\<^sup>* s (db5, fs)" using posted_steps [OF 4 Inr] by simp
        then show ?thesis using p Published Inr \<open>x_credentials env (others 0 db1) w = Inr c\<close>
          by (simp add: send_publication_def Let_def)
      qed (use p Published 4 \<open>x_credentials env (others 0 db1) w = Inr c\<close> in \<open>simp add: send_publication_def Let_def\<close>)
    qed (use p 4 Inr in \<open>auto simp: send_publication_def Let_def intro!: settled_steps\<close>)
  qed
qed

lemma publish_draft_steps:
  assumes "meanwhile env others"
  shows "\<exists>fs'. (publication_step env)\<^sup>*\<^sup>* (db, fs) (snd (publish_draft env others now w i u db), fs')"
proof (cases "start_publish env w i u db")
  case (Inl e)
  then show ?thesis by (auto simp: publish_draft_def)
next
  case (Inr r)
  then obtain start db1 where start: "start_publish env w i u db = Inr (start, db1)" by (cases r) auto
  show ?thesis
  proof (cases start)
    case (Already_Posted receipt)
    then have "db1 = db" using start by (auto simp: start_publish_def res_bind_eq_Inr split: if_splits option.splits)
    then show ?thesis using start Already_Posted by (auto simp: publish_draft_def)
  next
    case (Send d)
    let ?f = "Flight w (draft_key i) (draft_key i) d"
    have "(publication_step env)\<^sup>*\<^sup>* (db, fs) (db1, ?f # fs)"
      using start Send by (intro r_into_rtranclp step_start) auto
    then obtain fs2 where 2: "?f \<in> set fs2" "(publication_step env)\<^sup>*\<^sup>* (db, fs) (others 0 db1, fs2)"
      using meanwhileE [OF assms, of "?f # fs" db1 0] by (metis list.set_intros(1) rtranclp_trans subsetD)
    show ?thesis
    proof (cases "x_credentials env (others 0 db1) w")
      case (Inl code)
      then show ?thesis using 2(2) start Send by (auto simp: publish_draft_def Let_def)
    next
      case cred: (Inr c)
      obtain out db3 where p: "publish_x env \<lparr>px_content = df_content d, px_credentials = c,
          px_idempotency_key = draft_key i\<rparr> (others 0 db1) = (out, db3)" by fastforce
      note 4 = send_steps(1) [OF 2(2,1) assms p, of 1]
      show ?thesis
      proof (cases out)
        case (Published post url)
        let ?fill = "\<lambda>e. e\<lparr>dfe_candidate_id := df_selected_candidate_id d, dfe_edit_distance := df_edit_distance d\<rparr>"
        show ?thesis
        proof (cases "record_post env now d u (draft_key i) post url ?fill (others 1 db3)")
          case (Inr db5)
          then have "\<exists>fs'. (publication_step env)\<^sup>*\<^sup>* (db, fs) (db5, fs')" using posted_steps [OF 4 Inr] by simp
          then show ?thesis using p Published Inr cred start Send
            by (auto simp: publish_draft_def Let_def split: sum.splits)
        qed (use p Published 4 cred start Send in \<open>auto simp: publish_draft_def Let_def\<close>)
      qed (use p 4 cred start Send in \<open>auto simp: publish_draft_def Let_def intro!: settled_steps\<close>)
    qed
  qed
qed

text \<open>Whatever other processes do meanwhile, running either publication is a sequence
  of the steps, so what holds of all interleavings of steps holds of the code.\<close>

theorem publication_is_interleaved:
  assumes "meanwhile env others"
  shows "(\<exists>fs'. (publication_step env)\<^sup>*\<^sup>* (db, fs) (snd (publish_draft env others now w i u db), fs'))
    \<and> (\<exists>fs'. (publication_step env)\<^sup>*\<^sup>* (db, fs)
         (snd (approve_and_publish_draft_revision env others now w i a n u key db), fs'))"
proof
  let ?k = "py_strip key"
  show "\<exists>fs'. (publication_step env)\<^sup>*\<^sup>* (db, fs)
         (snd (approve_and_publish_draft_revision env others now w i a n u key db), fs')"
  proof (cases "start_publication env now w i a n u ?k db")
    case (Inr r)
    then obtain d db1 where start: "start_publication env now w i a n u ?k db = Inr (d, db1)" by (cases r) auto
    then have "(publication_step env)\<^sup>*\<^sup>* (db, fs) (db1, Flight w ?k (provider_key env w ?k) d # fs)"
      by (intro r_into_rtranclp step_command)
    from send_publication_steps [OF this assms, of now i a n u] show ?thesis
      using start by (auto simp: approve_and_publish_draft_revision_def Let_def split: sum.splits option.splits)
  qed (auto simp: approve_and_publish_draft_revision_def Let_def split: sum.splits option.splits)
qed (rule publish_draft_steps [OF assms])

section \<open>A command posts once\<close>

text \<open>C17. However the transactions and network calls of any number of publications and reviews
  interleave, X receives at most one request for a publication command, also when the outcome stays unknown or
  the result cannot be recorded. The digests of two commands must not collide.\<close>

theorem command_posts_once:
  assumes "(publication_step env)\<^sup>*\<^sup>* (db0, []) (db, fs)" "sent_with (provider_key env w k) db0 = 0"
    and "\<And>w' k'. provider_key env w' k' = provider_key env w k \<Longrightarrow> w' = w \<and> k' = k"
  shows "sent_with (provider_key env w k) db \<le> 1"
proof -
  have "once env w k (db0, [])" using assms(2) by (simp add: once_def flying_with_def)
  with assms(1) have "once env w k (db, fs)"
    by (induction rule: rtranclp_induct) (auto intro: publication_step_once [OF _ _ assms(3)])
  then show ?thesis by (auto simp: once_def split: if_splits)
qed

section \<open>Posted drafts\<close>

lemma keeps_posted_trans: "keeps_posted a b \<Longrightarrow> keeps_posted b c \<Longrightarrow> keeps_posted a c"
  unfolding keeps_posted_def by metis

text \<open>C18. However publications and reviews interleave, a posted draft stays posted, every
  draft satisfies the constraints of its table, and the post that a draft names is in the log with its identifier.\<close>

theorem posted_drafts_are_recorded:
  assumes "(publication_step env)\<^sup>*\<^sup>* (db0, fs0) (db, fs)" "drafts_inv db0"
  shows "keeps_posted db0 db \<and> (\<forall>d \<in> set (dd_drafts db). draft_ok d \<and> (df_status d = ''posted'' \<longrightarrow> recorded db d))"
proof -
  have "drafts_inv (fst s') \<and> keeps_posted db0 (fst s')" if "(publication_step env)\<^sup>*\<^sup>* (db0, fs0) s'" for s'
    using that
  proof (induction rule: rtranclp_induct)
    case base
    show ?case using assms(2) by (auto simp: keeps_posted_def)
  next
    case (step s s')
    then show ?case using publication_step_inv keeps_posted_trans by blast
  qed
  from this [OF assms(1)] show ?thesis by (simp add: drafts_inv_def list_all_iff)
qed

section \<open>Two defects\<close>

lemma publish_x_sends:
  "text_or (map_of c ''accessToken'') [] \<noteq> [] \<Longrightarrow>
     dd_sent (snd (publish_x env \<lparr>px_content = t, px_credentials = c, px_idempotency_key = k\<rparr> db))
       = dd_sent db @ [\<lparr>px_content = t, px_credentials = c, px_idempotency_key = k\<rparr>]"
  by (simp add: publish_x_def)

lemma x_credentials_cong: "dd_connections db' = dd_connections db \<Longrightarrow> x_credentials env db' w = x_credentials env db w"
  by (simp add: x_credentials_def active_x_connection_def)

lemma lock_draft_cong: "dd_drafts db' = dd_drafts db \<Longrightarrow> lock_draft db' w i = lock_draft db w i"
  by (simp add: lock_draft_def)

lemma exact_x_post_cong: "dd_assets db' = dd_assets db \<Longrightarrow> exact_x_post db' w a n = exact_x_post db w a n"
  by (simp add: exact_x_post_def)

lemma role_cong: "dd_memberships db' = dd_memberships db \<Longrightarrow> require_draft_role db' w u rs c = require_draft_role db w u rs c"
  by (simp add: require_draft_role_def)

lemma record_post_sent:
  "record_post env now d u k post url fill db = Inr db' \<Longrightarrow> dd_sent db' = dd_sent db"
  using record_post_result by blast

text \<open>A publication that gets as far as the network call sends the text of its draft.\<close>

lemma send_publication_sends:
  assumes "x_credentials env db1 w = Inr c" "text_or (map_of c ''accessToken'') [] \<noteq> []"
  shows "dd_sent (snd (send_publication env (\<lambda>_ db. db) now w i a n u k d db1))
    = dd_sent db1 @ [\<lparr>px_content = df_content d, px_credentials = c, px_idempotency_key = provider_key env w k\<rparr>]"
proof -
  obtain out db3 where p: "publish_x env \<lparr>px_content = df_content d, px_credentials = c,
      px_idempotency_key = provider_key env w k\<rparr> db1 = (out, db3)" by fastforce
  then have "dd_sent db3 = dd_sent db1 @ [\<lparr>px_content = df_content d, px_credentials = c, px_idempotency_key = provider_key env w k\<rparr>]"
    using publish_x_sends [OF assms(2), of env "df_content d" "provider_key env w k" db1] by simp
  then show ?thesis using p assms(1)
    by (auto simp: send_publication_def Let_def split: publish_outcome.splits sum.splits dest: record_post_sent)
qed

lemma publish_draft_sends:
  assumes "start_publish env w i u db = Inr (Send d, db1)" "x_credentials env db1 w = Inr c"
    "text_or (map_of c ''accessToken'') [] \<noteq> []"
  shows "dd_sent (snd (publish_draft env (\<lambda>_ db. db) now w i u db))
    = dd_sent db1 @ [\<lparr>px_content = df_content d, px_credentials = c, px_idempotency_key = draft_key i\<rparr>]"
proof -
  obtain out db3 where p: "publish_x env \<lparr>px_content = df_content d, px_credentials = c,
      px_idempotency_key = draft_key i\<rparr> db1 = (out, db3)" by fastforce
  then have "dd_sent db3 = dd_sent db1 @ [\<lparr>px_content = df_content d, px_credentials = c, px_idempotency_key = draft_key i\<rparr>]"
    using publish_x_sends [OF assms(3), of env "df_content d" "draft_key i" db1] by simp
  then show ?thesis using p assms(1,2)
    by (auto simp: publish_draft_def Let_def split: publish_outcome.splits sum.splits dest: record_post_sent)
qed

lemma transient_result:
  assumes "publish_draft env (\<lambda>_ db. db) now w i u db = (Inl (AppError ''publisher_transient_failure'' m), db1)"
  obtains d db2 c where "start_publish env w i u db = Inr (Send d, db2)" "x_credentials env db2 w = Inr c"
    "text_or (map_of c ''accessToken'') [] \<noteq> []"
    "db1 = update_attempt w (draft_key i) (\<lambda>a. a\<lparr>pu_status := ''unknown_outcome'', pu_error_category := Some ''transport''\<rparr>)
       (db2\<lparr>dd_sent := dd_sent db2 @ [\<lparr>px_content = df_content d, px_credentials = c, px_idempotency_key = draft_key i\<rparr>]\<rparr>)"
proof -
  have no_record: "record_post env now d u k post url fill db' \<noteq> Inl (AppError x y)" for d k post url fill db' x y
    by (auto simp: record_post_def update_draft_def res_bind_def split: sum.splits if_splits)
  have no_lock: "lock_draft db' w i \<noteq> Inl (AppError x y)" for db' x y by (auto simp: lock_draft_def split: option.splits)
  have no_start: "start_publish env w i u db \<noteq> Inl (AppError ''publisher_transient_failure'' y)" for y
    by (auto simp: start_publish_def res_bind_def require_draft_role_def lock_draft_def ensure_publishable_def add_attempt_def
        split: sum.splits option.splits if_splits)
  have no_cred: "x_credentials env db' w \<noteq> Inl ''publisher_transient_failure''" for db'
    by (auto simp: x_credentials_def split: option.splits if_splits)
  obtain d db2 where s: "start_publish env w i u db = Inr (Send d, db2)"
    using assms no_start by (auto simp: publish_draft_def split: sum.splits publish_start.splits prod.splits)
  then obtain c where c: "x_credentials env db2 w = Inr c"
    using assms no_cred by (auto simp: publish_draft_def Let_def split: sum.splits)
  obtain out db3 where p: "publish_x env \<lparr>px_content = df_content d, px_credentials = c,
      px_idempotency_key = draft_key i\<rparr> db2 = (out, db3)" by fastforce
  have out: "out = Transient_Error" "db1 = update_attempt w (draft_key i) (\<lambda>a. a\<lparr>pu_status := ''unknown_outcome'',
      pu_error_category := Some ''transport''\<rparr>) db3"
    using assms s c p no_record no_lock
    by (auto simp: publish_draft_def Let_def split: publish_outcome.splits sum.splits)
  then have "text_or (map_of c ''accessToken'') [] \<noteq> []"
    "db3 = db2\<lparr>dd_sent := dd_sent db2 @ [\<lparr>px_content = df_content d, px_credentials = c, px_idempotency_key = draft_key i\<rparr>]\<rparr>"
    using p by (auto simp: publish_x_def split: if_splits)
  then show thesis using that s c out(2) by blast
qed

lemma find_map_update:
  "(\<And>x. P (g x) = P x) \<Longrightarrow> find P (map (\<lambda>x. if P x then g x else x) xs) = map_option g (find P xs)"
  by (induction xs) auto

lemma find_attempt_update:
  "settles g \<Longrightarrow> find_attempt (update_attempt w k g db) w k = map_option g (find_attempt db w k)"
  unfolding find_attempt_def update_attempt_def by (simp add: settles_def find_map_update)

lemma start_publish_rest:
  assumes "start_publish env w i u db = Inr (Send d, db')"
  shows "dd_connections db' = dd_connections db \<and> dd_assets db' = dd_assets db \<and> dd_memberships db' = dd_memberships db
    \<and> (w, draft_key i) \<in> set (attempt_keys db') \<and> df_approved_at d \<noteq> None"
proof -
  have "find_attempt db w k \<noteq> None \<Longrightarrow> (w, k) \<in> set (attempt_keys db)" for k by (simp add: find_attempt_None)
  then show ?thesis using assms
    by (auto simp: start_publish_def res_bind_eq_Inr ensure_publishable_def add_attempt_def attempt_keys_def
        split: if_splits option.splits)
qed

text \<open>The database after a post without an answer: the draft is approved as before, and the attempt has an unknown
  outcome.\<close>

lemma after_transient:
  assumes "publish_draft env (\<lambda>_ db. db) now w i u db = (Inl (AppError ''publisher_transient_failure'' m), db1)"
    and "lock_draft db w i = Inr d"
  obtains c attempt where "x_credentials env db1 w = Inr c" "text_or (map_of c ''accessToken'') [] \<noteq> []"
    "dd_sent db1 = dd_sent db @ [\<lparr>px_content = df_content d, px_credentials = c, px_idempotency_key = draft_key i\<rparr>]"
    "lock_draft db1 w i = Inr d" "df_status d = ''approved''" "df_approved_at d \<noteq> None"
    "find_attempt db1 w (draft_key i) = Some attempt" "pu_status attempt = ''unknown_outcome''"
    "\<And>a n. exact_x_post db1 w a n = exact_x_post db w a n" "dd_memberships db1 = dd_memberships db"
    "\<And>k. k \<noteq> draft_key i \<Longrightarrow> find_attempt db w k = None \<Longrightarrow> find_attempt db1 w k = None"
proof -
  obtain d' db2 c where st: "start_publish env w i u db = Inr (Send d', db2)" and c: "x_credentials env db2 w = Inr c"
    and t: "text_or (map_of c ''accessToken'') [] \<noteq> []"
    and db1: "db1 = update_attempt w (draft_key i) (\<lambda>a. a\<lparr>pu_status := ''unknown_outcome'', pu_error_category := Some ''transport''\<rparr>)
       (db2\<lparr>dd_sent := dd_sent db2 @ [\<lparr>px_content = df_content d', px_credentials = c, px_idempotency_key = draft_key i\<rparr>]\<rparr>)"
    by (rule transient_result [OF assms(1)]) (rule that)
  note s = start_publish_result [OF st] and r = start_publish_rest [OF st]
  have d: "d' = d" using s assms(2) by simp
  have same: "dd_drafts db1 = dd_drafts db" "dd_connections db1 = dd_connections db2" "dd_assets db1 = dd_assets db"
    "dd_memberships db1 = dd_memberships db" "attempt_keys db1 = attempt_keys db2"
    using s r by (simp_all add: db1 update_attempt_def attempt_keys_def)
  let ?sent = "db2\<lparr>dd_sent := dd_sent db2 @ [\<lparr>px_content = df_content d', px_credentials = c, px_idempotency_key = draft_key i\<rparr>]\<rparr>"
  have "(w, draft_key i) \<in> set (attempt_keys ?sent)" using r by (simp add: attempt_keys_def)
  then obtain b where b: "find_attempt ?sent w (draft_key i) = Some b" using find_attempt_None by (metis not_None_eq)
  show thesis
  proof (rule that [of c "b\<lparr>pu_status := ''unknown_outcome'', pu_error_category := Some ''transport''\<rparr>"])
    show "find_attempt db1 w (draft_key i) = Some (b\<lparr>pu_status := ''unknown_outcome'', pu_error_category := Some ''transport''\<rparr>)"
      unfolding db1 using b by (subst find_attempt_update) simp_all
    show "x_credentials env db1 w = Inr c" using c x_credentials_cong [OF same(2)] by simp
    show "dd_sent db1 = dd_sent db @ [\<lparr>px_content = df_content d, px_credentials = c, px_idempotency_key = draft_key i\<rparr>]"
      using s d by (simp add: db1)
    show "lock_draft db1 w i = Inr d" using lock_draft_cong [OF same(1)] assms(2) by simp
    show "exact_x_post db1 w a n = exact_x_post db w a n" for a n by (rule exact_x_post_cong [OF same(3)])
    show "find_attempt db1 w k = None" if "k \<noteq> draft_key i" "find_attempt db w k = None" for k
      using that s same(5) by (auto simp: find_attempt_None)
  qed (use t s r d same in simp_all)
qed

text \<open>C39. When X did not answer \<open>publish_draft\<close>, a second \<open>publish_draft\<close> is refused until the
  outcome is reconciled, but \<open>approve_and_publish_draft_revision\<close> with a fresh key is not: it sends the same text again,
  under another idempotency key, so that X cannot recognise the duplicate.\<close>

theorem unknown_outcome_is_bypassed:
  assumes "publish_draft env (\<lambda>_ db. db) now w i u db = (Inl (AppError ''publisher_transient_failure'' m), db1)"
    and "lock_draft db w i = Inr d" "df_prepared_asset_id d = Some a" "df_prepared_asset_revision d = Some n"
    and "exact_x_post db w a n = Some (df_content d)"
    and "find_attempt db w (py_strip key) = None" "py_strip key \<noteq> draft_key i"
    and "require_draft_role db w u' draft_publish_roles ''draft_publish_forbidden'' = Inr ()"
  shows "publish_draft env others now' w i u' db1 = (Inl (AppError ''publisher_unknown_outcome''
        ''The previous X publication outcome is unknown and requires reconciliation.''), db1)
    \<and> (\<exists>r1 r2. dd_sent (snd (approve_and_publish_draft_revision env (\<lambda>_ db. db) now' w i a n u' key db1)) = dd_sent db @ [r1, r2]
        \<and> px_content r1 = df_content d \<and> px_content r2 = df_content d \<and> px_idempotency_key r1 \<noteq> px_idempotency_key r2)"
proof -
  obtain c b where c: "x_credentials env db1 w = Inr c" "text_or (map_of c ''accessToken'') [] \<noteq> []"
    and sent: "dd_sent db1 = dd_sent db @ [\<lparr>px_content = df_content d, px_credentials = c, px_idempotency_key = draft_key i\<rparr>]"
    and d: "lock_draft db1 w i = Inr d" "df_status d = ''approved''" "df_approved_at d \<noteq> None"
    and b: "find_attempt db1 w (draft_key i) = Some b" "pu_status b = ''unknown_outcome''"
    and post: "\<And>a n. exact_x_post db1 w a n = exact_x_post db w a n" and ms: "dd_memberships db1 = dd_memberships db"
    and fresh: "\<And>k. k \<noteq> draft_key i \<Longrightarrow> find_attempt db w k = None \<Longrightarrow> find_attempt db1 w k = None"
    by (rule after_transient [OF assms(1,2)]) (rule that)
  have role: "require_draft_role db1 w u' draft_publish_roles ''draft_publish_forbidden'' = Inr ()"
    using assms(8) role_cong [OF ms] by simp
  have refused: "start_publish env w i u' db1 = Inl (AppError ''publisher_unknown_outcome''
        ''The previous X publication outcome is unknown and requires reconciliation.'')"
    using role d b by (auto simp: start_publish_def ensure_publishable_def)
  have none: "find_attempt db1 w (py_strip key) = None" using fresh assms(6,7) by simp
  obtain db2 where add: "add_attempt env w i (py_strip key) (Some (publication_fingerprint env i a n)) db1 = Inr db2"
    "dd_connections db2 = dd_connections db1" "dd_sent db2 = dd_sent db1" using none by (simp add: add_attempt_def)
  have start: "start_publication env now' w i a n u' (py_strip key) db1 = Inr (d, db2)"
    using d add(1) assms(3-5) post by (simp add: start_publication_def)
  have c2: "x_credentials env db2 w = Inr c" using x_credentials_cong [OF add(2)] c(1) by simp
  have "approve_and_publish_draft_revision env (\<lambda>_ db. db) now' w i a n u' key db1
      = send_publication env (\<lambda>_ db. db) now' w i a n u' (py_strip key) d db2"
    using role none start by (simp add: approve_and_publish_draft_revision_def Let_def)
  then have "dd_sent (snd (approve_and_publish_draft_revision env (\<lambda>_ db. db) now' w i a n u' key db1))
      = dd_sent db2 @ [\<lparr>px_content = df_content d, px_credentials = c, px_idempotency_key = provider_key env w (py_strip key)\<rparr>]"
    using send_publication_sends [OF c2 c(2)] by simp
  then show ?thesis
    using refused sent add(3) provider_key_not_draft_key [of env w "py_strip key" i] by (auto simp: publish_draft_def)
qed

text \<open>C40. An editor can change an approved draft; it stays approved, and an owner publishes
  the new text although nobody approved it: the edit logs no change of status.\<close>

theorem approved_edit_is_published:
  assumes "drafts_inv db" "lock_draft db w i = Inr d" "df_status d = ''approved''" "df_content d \<noteq> c"
    and "require_draft_role db w e draft_edit_roles ''draft_write_forbidden'' = Inr ()"
    and "require_draft_role db w u draft_publish_roles ''draft_publish_forbidden'' = Inr ()"
    and "find_attempt db w (draft_key i) = None" "x_credentials env db w = Inr cr" "text_or (map_of cr ''accessToken'') [] \<noteq> []"
  shows "\<exists>x db1 r. edit_draft_content env now w i e c db = Inr (x, db1) \<and> df_status x = ''approved''
    \<and> dd_status_events db1 = dd_status_events db
    \<and> dd_sent (snd (publish_draft env (\<lambda>_ db. db) now' w i u db1)) = dd_sent db @ [r] \<and> px_content r = c"
proof -
  let ?g = "\<lambda>x. x\<lparr>df_content := c, df_user_edited := True, df_edit_distance := Some (edit_distance (df_content d) c), df_updated_at := now\<rparr>"
  let ?rows = "map (\<lambda>x. if df_workspace_id x = w \<and> df_id x = i then ?g x else x) (dd_drafts db)"
  note l = lock_draft_Inr [OF assms(2)]
  have "list_all (\<lambda>x. df_workspace_id x = w \<and> df_id x = i \<longrightarrow> draft_ok (?g x)) (dd_drafts db)"
    using assms(1) by (auto simp: drafts_inv_def list_all_iff draft_ok_def)
  then have up: "update_draft w i ?g db = Inr (db\<lparr>dd_drafts := ?rows\<rparr>)" by (simp add: update_draft_def)
  have lock: "lock_draft db2 w i = Inr (?g d)" if "dd_drafts db2 = ?rows" for db2
    using assms(2) that by (auto simp: lock_draft_def find_map_update split: option.splits)
  define db1 where "db1 = add_draft_feedback env now d e ''edited'' (\<lambda>e. e
             \<lparr>dfe_candidate_id := df_selected_candidate_id d, dfe_previous_candidate_id := df_selected_candidate_id d,
              dfe_content_before := Some (df_content d), dfe_content_after := Some c,
              dfe_edit_distance := Some (edit_distance (df_content d) c)\<rparr>) (db\<lparr>dd_drafts := ?rows\<rparr>)"
  have rows: "dd_drafts db1 = ?rows" by (simp add: db1_def)
  have edit: "edit_draft_content env now w i e c db = Inr (?g d, db1)"
    using assms(2-5) up lock [OF rows]
    by (simp add: edit_draft_content_def ensure_editable_def Let_def db1_def [symmetric])
  have same: "dd_connections db1 = dd_connections db" "dd_memberships db1 = dd_memberships db" "dd_attempts db1 = dd_attempts db"
    "dd_sent db1 = dd_sent db" "dd_status_events db1 = dd_status_events db"
    by (simp_all add: db1_def add_draft_feedback_def)
  have "df_approved_at d \<noteq> None" using l assms(1,3) by (auto simp: drafts_inv_def list_all_iff draft_ok_def)
  moreover have "find_attempt db1 w (draft_key i) = None" using assms(7) same(3) by (simp add: find_attempt_def)
  moreover obtain db2 where add: "add_attempt env w i (draft_key i) None db1 = Inr db2" "dd_connections db2 = dd_connections db"
    "dd_sent db2 = dd_sent db" using calculation(2) same by (simp add: add_attempt_def)
  ultimately have start: "start_publish env w i u db1 = Inr (Send (?g d), db2)"
    using assms(3,6) role_cong [OF same(2)] lock [OF rows] by (simp add: start_publish_def ensure_publishable_def)
  have "x_credentials env db2 w = Inr cr" using assms(8) x_credentials_cong [OF add(2)] by simp
  from publish_draft_sends [OF start this assms(9)] show ?thesis
    using edit same(5) add(3) assms(3) by (intro exI [of _ "?g d"] exI [of _ db1]) simp
qed

section \<open>A concrete draft\<close>

definition x_env :: draft_env where
  "x_env = \<lparr>dv_uuid = (\<lambda>n. replicate n (CHR ''a'')), dv_sha256 = (\<lambda>k. if k = ''key'' then ''h'' else ''hh''),
     dv_decrypt = (\<lambda>_ _. Some [(''accessToken'', ''t'')]),
     dv_http = (\<lambda>n r. if n = 0 then No_Reply else Reply 201 (Some (PDict [(''data'', PDict [(''id'', PStr ''7'')])])))\<rparr>"

definition x_draft :: review_draft where
  "x_draft = \<lparr>df_id = ''d'', df_workspace_id = ''w'', df_user_id = ''u'', df_repo_id = ''r'', df_content = ''Shipped'',
     df_source_event_type = ''operator_x_asset'', df_source_event_payload = PNone, df_status = ''approved'',
     df_approved_at = Some 1, df_prepared_asset_id = Some ''s'', df_prepared_asset_revision = Some 1, df_posted_at = None,
     df_tweet_id = None, df_user_edited = False, df_edit_distance = None, df_generation_run_id = None,
     df_selected_candidate_id = None, df_normalized_event_id = None, df_rejected_at = None, df_rejection_reason = None,
     df_posting_started_at = None, df_updated_at = 1\<rparr>"

definition x_asset :: prepared_asset where
  "x_asset = \<lparr>pr_id = ''s'', pr_workspace_id = ''w'', pr_product_id = ''p'', pr_recommendation_id = ''r'', pr_action_id = None,
     pr_llm_execution_id = ''l'', pr_revision = 1, pr_kind = ''x_draft'',
     pr_structured_content = PDict [(''kind'', PStr ''x_draft''), (''content'', PDict [(''post'', PStr ''Shipped'')])]\<rparr>"

definition x_db :: draft_db where
  "x_db = \<lparr>dd_drafts = [x_draft], dd_attempts = [], dd_status_events = [], dd_feedback = [], dd_candidates = [],
     dd_connections = [\<lparr>xc_id = ''c'', xc_workspace_id = ''w'', xc_provider = ''x'', xc_status = ''active'', xc_deleted_at = None,
       xc_updated_at = 1, xc_scopes = [''tweet.write''], xc_credentials_ciphertext = Some ''z'', xc_credential_key_version = Some ''1''\<rparr>],
     dd_assets = [x_asset],
     dd_memberships = [\<lparr>ms_workspace_id = ''w'', ms_user_id = ''u'', ms_role = ''owner'', ms_is_active = True\<rparr>,
       \<lparr>ms_workspace_id = ''w'', ms_user_id = ''e'', ms_role = ''editor'', ms_is_active = True\<rparr>],
     dd_sent = [], dd_drawn = 0\<rparr>"

lemma x_db_inv: "drafts_inv x_db"
  by (simp add: drafts_inv_def x_db_def x_draft_def draft_ok_def)

abbreviation x_command :: "publication_result res \<times> draft_db" where
  "x_command \<equiv> approve_and_publish_draft_revision x_env (\<lambda>_ db. db) 5 ''w'' ''d'' ''s'' 1 ''u'' ''key'' x_db"

theorem publication_is_interleaved_witness:
  "\<exists>fs'. (publication_step x_env)\<^sup>*\<^sup>* (x_db, []) (snd x_command, fs')"
  using publication_is_interleaved [OF alone_meanwhile, of x_env x_db "[]"] by blast

lemma x_steps: "\<exists>fs'. (publication_step x_env)\<^sup>*\<^sup>* (x_db, []) (snd x_command, fs')"
proof -
  obtain d db1 where start: "start_publication x_env 5 ''w'' ''d'' ''s'' 1 ''u'' ''key'' x_db = Inr (d, db1)"
  proof -
    have "is_ok (start_publication x_env 5 ''w'' ''d'' ''s'' 1 ''u'' ''key'' x_db)" by code_simp
    then show ?thesis using that by (auto simp: is_ok_iff)
  qed
  have guards: "require_draft_role x_db ''w'' ''u'' draft_publish_roles ''draft_publish_forbidden'' = Inr ()"
    "find_attempt x_db ''w'' ''key'' = None" "py_strip ''key'' = ''key''" by code_simp+
  have "(publication_step x_env)\<^sup>*\<^sup>* (x_db, []) (db1, [Flight ''w'' ''key'' (provider_key x_env ''w'' ''key'') d])"
    by (rule r_into_rtranclp) (rule step_command [OF start])
  from send_publication_steps [OF this alone_meanwhile] show ?thesis
    using guards start by (simp add: approve_and_publish_draft_revision_def Let_def)
qed

theorem command_posts_once_witness:
  "sent_with (provider_key x_env ''w'' ''key'') (snd x_command) \<le> 1"
proof -
  obtain fs' where steps: "(publication_step x_env)\<^sup>*\<^sup>* (x_db, []) (snd x_command, fs')" using x_steps by blast
  have none: "sent_with (provider_key x_env ''w'' ''key'') x_db = 0" by (simp add: sent_with_def x_db_def)
  have key: "provider_key x_env w' k' = provider_key x_env ''w'' ''key'' \<Longrightarrow> w' = ''w'' \<and> k' = ''key''" for w' k'
    by (auto simp: provider_key_def x_env_def Cons_eq_append_conv append_eq_Cons_conv split: if_splits)
  from command_posts_once [OF steps none key] show ?thesis by simp
qed

theorem posted_drafts_are_recorded_witness:
  "keeps_posted x_db (snd x_command) \<and> list_all draft_ok (dd_drafts (snd x_command))"
proof -
  obtain fs' where steps: "(publication_step x_env)\<^sup>*\<^sup>* (x_db, []) (snd x_command, fs')" using x_steps by blast
  from posted_drafts_are_recorded [OF steps x_db_inv] show ?thesis by (simp add: list_all_iff)
qed

theorem unknown_outcome_is_bypassed_witness:
  "\<exists>r1 r2. dd_sent (snd (approve_and_publish_draft_revision x_env (\<lambda>_ db. db) 6 ''w'' ''d'' ''s'' 1 ''u'' ''key''
      (snd (publish_draft x_env (\<lambda>_ db. db) 5 ''w'' ''d'' ''u'' x_db)))) = [r1, r2]
    \<and> px_content r1 = ''Shipped'' \<and> px_content r2 = ''Shipped''"
proof -
  have failed: "publish_draft x_env (\<lambda>_ db. db) 5 ''w'' ''d'' ''u'' x_db
      = (Inl (AppError ''publisher_transient_failure'' ''X publishing outcome is unknown and requires reconciliation.''),
         snd (publish_draft x_env (\<lambda>_ db. db) 5 ''w'' ''d'' ''u'' x_db))"
  proof -
    have "fst (publish_draft x_env (\<lambda>_ db. db) 5 ''w'' ''d'' ''u'' x_db)
        = Inl (AppError ''publisher_transient_failure'' ''X publishing outcome is unknown and requires reconciliation.'')" by code_simp
    then show ?thesis by (metis prod.collapse)
  qed
  have "lock_draft x_db ''w'' ''d'' = Inr x_draft" "df_prepared_asset_id x_draft = Some ''s''"
    "df_prepared_asset_revision x_draft = Some 1" "exact_x_post x_db ''w'' ''s'' 1 = Some (df_content x_draft)"
    "find_attempt x_db ''w'' (py_strip ''key'') = None" "py_strip ''key'' \<noteq> draft_key ''d''"
    "require_draft_role x_db ''w'' ''u'' draft_publish_roles ''draft_publish_forbidden'' = Inr ()" by code_simp+
  from unknown_outcome_is_bypassed [OF failed this, of "\<lambda>_ db. db" 6] show ?thesis
    by (auto simp: x_db_def x_draft_def)
qed

theorem approved_edit_is_published_witness:
  "\<exists>x db1 r. edit_draft_content x_env 2 ''w'' ''d'' ''e'' ''Bought'' x_db = Inr (x, db1)
     \<and> dd_sent (snd (publish_draft x_env (\<lambda>_ db. db) 3 ''w'' ''d'' ''u'' db1)) = [r] \<and> px_content r = ''Bought''"
proof -
  have "lock_draft x_db ''w'' ''d'' = Inr x_draft" "df_status x_draft = ''approved''" "df_content x_draft \<noteq> ''Bought''"
    "require_draft_role x_db ''w'' ''e'' draft_edit_roles ''draft_write_forbidden'' = Inr ()"
    "require_draft_role x_db ''w'' ''u'' draft_publish_roles ''draft_publish_forbidden'' = Inr ()"
    "find_attempt x_db ''w'' (draft_key ''d'') = None" "x_credentials x_env x_db ''w'' = Inr [(''accessToken'', ''t'')]"
    "text_or (map_of [(''accessToken'', ''t'')] ''accessToken'') [] \<noteq> []" by code_simp+
  from approved_edit_is_published [OF x_db_inv this, of 2 3] show ?thesis by (auto simp: x_db_def)
qed

end
