(* ===== verification/Search_Sync.thy ===== *)
theory Search_Sync
  imports Input_Repository
begin

text \<open>
  Synchronisation of search metrics (\<open>search_intelligence/services/search_sync_service.py\<close> with its policy, its
  repository and the paging of \<open>google_search_provider.py\<close>). A run asks for the metrics of a range of days. A worker
  takes the run under a lease, reads one day after the other from the provider and stores each day in a
  transaction of its own that also moves the progress of the run; after a crash another worker goes on from there.

  The rows extend the rows that detection reads (\<open>Input_Repository\<close>). A worker is a state machine: a \<open>phase\<close> says
  which transaction comes next, and \<open>worker_step\<close> performs it. What the worker does between two transactions
  touches no table, so that a step is the network calls of a phase and its transaction. \<open>sync_step\<close> interleaves
  any number of workers with requests, cancellations, crashes and changes that other modules make to sources and
  connections.

  Parameters (\<open>sync_env\<close>): random UUIDs, SHA-256, the canonical form of an URL (its result or its \<open>ValueError\<close>), the
  calendar day of an instant in a time zone, and the vault, which opens and seals the credentials of a connection.
  The provider is a record of its capabilities and of its two network calls; every step may get another one.
\<close>

section \<open>Tables\<close>

record sync_source = search_source +
  so_property_id :: uuid
  so_website_source_id :: uuid
  so_provider :: string
  so_selected_at :: instant
  so_created_by :: "uuid option"

record sync_run = search_sync_run +
  sy_trigger :: string
  sy_idempotency_key :: string
  sy_request_fingerprint :: string
  sy_policy_version :: string
  sy_schema_version :: int
  sy_progress_date :: "date option"
  sy_rows_received :: int
  sy_rows_written :: int
  sy_lease_owner :: "string option"
  sy_lease_expires_at :: "instant option"
  sy_failure_category :: "string option"
  sy_started_at :: "instant option"
  sy_created_at :: instant
  sy_created_by :: "uuid option"

record sync_connection = integration_row +
  ic_revoked_at :: "instant option"
  ic_credentials_ciphertext :: "string option"
  ic_credential_key_version :: "string option"
  ic_scopes :: "string list"
  ic_token_expires_at :: "instant option"
  ic_updated_by :: "uuid option"

record provider_property =
  vp_id :: uuid
  vp_workspace_id :: uuid
  vp_integration_connection_id :: uuid
  vp_provider_property_id :: string

record sync_metric = daily_metric +
  dm_search_type :: string

record sync_page = search_page_row +
  sg_original_url :: string
  sg_website_source_id :: "uuid option"
  sg_match_method :: "string option"
  sg_match_policy_version :: string

record site_page = website_page_row +
  wg_source_id :: uuid

record search_product =
  xp_id :: uuid
  xp_workspace_id :: uuid
  xp_search_mode :: string
  xp_search_mode_decided_at :: "instant option"

record sync_db =
  sd_sources :: "sync_source list"
  sd_runs :: "sync_run list"
  sd_connections :: "sync_connection list"
  sd_properties :: "provider_property list"
  sd_metrics :: "sync_metric list"
  sd_queries :: "search_query_row list"
  sd_pages :: "sync_page list"
  sd_site_pages :: "site_page list"
  sd_crawl_results :: "crawl_result_row list"
  sd_products :: "search_product list"
  sd_outbox :: outbox
  sd_drawn :: nat

section \<open>The provider\<close>

record search_capabilities =
  cp_request_page_limit :: int
  cp_maximum_rows_per_day :: int
  cp_finalization_lag_days :: int
  cp_reporting_timezone :: string

record search_grant =
  ag_access_token :: string
  ag_refresh_token :: "string option"
  ag_expires_at :: "instant option"
  ag_scopes :: "string list"
  ag_token_type :: string

record performance_request =
  rq_property_id :: string
  rq_start_date :: date
  rq_end_date :: date
  rq_dimensions :: "string list"
  rq_start_row :: int
  rq_row_limit :: int

record performance_row =
  pr_date :: date
  pr_query :: "string option"
  pr_page :: "string option"
  pr_clicks :: int
  pr_impressions :: int
  pr_position :: rat

record performance_result =
  ps_rows :: "performance_row list"
  ps_next_start_row :: "int option"

record search_provider =
  pv_capabilities :: search_capabilities
  pv_query_performance :: "search_grant \<Rightarrow> performance_request \<Rightarrow> performance_result res"
  pv_refresh_authorization :: "search_grant \<Rightarrow> search_grant res"

record sync_env =
  se_uuid :: "nat \<Rightarrow> uuid"
  se_sha256 :: "string \<Rightarrow> string"
  se_normalize :: "string \<Rightarrow> string option"
  se_local_date :: "string \<Rightarrow> instant \<Rightarrow> date"
  se_open :: "string \<Rightarrow> string \<Rightarrow> search_grant option"
  se_seal :: "search_grant \<Rightarrow> string \<times> string"
  se_dialect :: string
  se_lease_duration :: timedelta

text \<open>The exception classes of the provider; an error of the API carries its class and its code.\<close>

abbreviation conflict_error :: "string \<Rightarrow> py_error" where
  "conflict_error \<equiv> AppError ''ConflictError''"

abbreviation bad_request_error :: "string \<Rightarrow> py_error" where
  "bad_request_error \<equiv> AppError ''BadRequestError''"

fun is_transient_error :: "py_error \<Rightarrow> bool" where
  "is_transient_error (AppError cls _) \<longleftrightarrow> cls \<in> {''SearchProviderTransientError'', ''SearchProviderRateLimitError''}"
| "is_transient_error _ \<longleftrightarrow> False"

fun is_authorization_error :: "py_error \<Rightarrow> bool" where
  "is_authorization_error (AppError cls _) \<longleftrightarrow> cls = ''SearchProviderAuthorizationError''"
| "is_authorization_error _ \<longleftrightarrow> False"

fun is_provider_error :: "py_error \<Rightarrow> bool" where
  "is_provider_error (AppError cls c) \<longleftrightarrow>
     is_transient_error (AppError cls c) \<or> is_authorization_error (AppError cls c)
     \<or> cls \<in> {''SearchProviderError'', ''SearchProviderInvalidResponseError'', ''SearchProviderConfigurationError''}"
| "is_provider_error _ \<longleftrightarrow> False"

fun error_code :: "py_error \<Rightarrow> string" where
  "error_code (AppError _ c) = c"
| "error_code _ = ''app_error''"

text \<open>\<open>GoogleSearchProvider.query_performance\<close>. The request over HTTP and the parsing of its rows are the argument
  \<open>post\<close>.\<close>

definition google_capabilities :: search_capabilities where
  "google_capabilities =
     \<lparr>cp_request_page_limit = 25000, cp_maximum_rows_per_day = 50000, cp_finalization_lag_days = 3,
      cp_reporting_timezone = ''America/Los_Angeles''\<rparr>"

definition google_query_performance ::
  "search_capabilities \<Rightarrow> (search_grant \<Rightarrow> performance_request \<Rightarrow> performance_row list res)
     \<Rightarrow> search_grant \<Rightarrow> performance_request \<Rightarrow> performance_result res" where
  "google_query_performance caps post grant request =
     (if rq_start_row request < 0 \<or> \<not> (1 \<le> rq_row_limit request \<and> rq_row_limit request \<le> cp_request_page_limit caps)
      then Inl (AppError ''SearchProviderConfigurationError'' ''invalid_performance_pagination'')
      else if rq_dimensions request \<notin> {[''date''], [''date'', ''query'', ''page'']}
      then Inl (AppError ''SearchProviderConfigurationError'' ''unsupported_performance_dimensions'')
      else res_bind (post grant request) (\<lambda>rows.
        Inr \<lparr>ps_rows = rows,
             ps_next_start_row = (if int (length rows) = rq_row_limit request
                                  then Some (rq_start_row request + int (length rows)) else None)\<rparr>))"

definition google_registry ::
  "(search_grant \<Rightarrow> performance_request \<Rightarrow> performance_row list res) \<Rightarrow> (search_grant \<Rightarrow> search_grant res)
     \<Rightarrow> string \<Rightarrow> search_provider option" where
  "google_registry post renew key =
     (if key = ''google_search''
      then Some \<lparr>pv_capabilities = google_capabilities,
                 pv_query_performance = google_query_performance google_capabilities post,
                 pv_refresh_authorization = renew\<rparr>
      else None)"

section \<open>Requesting a synchronisation\<close>

definition initial_days :: int where "initial_days = 56"
definition correction_overlap_days :: int where "correction_overlap_days = 7"
definition max_sync_days :: int where "max_sync_days = 90"
definition sync_policy_version :: string where "sync_policy_version = ''search-sync-v1''"
definition match_policy_version :: string where "match_policy_version = ''exact-url-v1''"

definition refresh_skew :: timedelta where
  "refresh_skew = seconds 300"

definition lease_duration_default :: timedelta where
  "lease_duration_default = seconds 900"

definition search_sync_window ::
  "string \<Rightarrow> date \<Rightarrow> int \<Rightarrow> date \<Rightarrow> date option \<Rightarrow> (date \<times> date) option res" where
  "search_sync_window trigger today lag selected_date latest =
     (if lag < 0 then Inl (ValueError ''finalization lag must not be negative'')
      else let cutoff = today - lag in
        if trigger = ''initial'' then Inr (Some (cutoff - (initial_days - 1), cutoff))
        else if trigger \<notin> {''manual'', ''scheduled''} then Inl (ValueError ''unsupported search sync trigger'')
        else let start = (case latest of None \<Rightarrow> selected_date
                          | Some d \<Rightarrow> max selected_date (d - (correction_overlap_days - 1)))
          in Inr (if cutoff < start then None else Some (start, cutoff)))"

definition sync_fingerprint :: "sync_env \<Rightarrow> string \<Rightarrow> date \<Rightarrow> date \<Rightarrow> uuid \<Rightarrow> string" where
  "sync_fingerprint env trigger start_date end_date source_id =
     se_sha256 env (json_dumps (PDict
       [(''endDate'', PStr (date_isoformat end_date)), (''sourceId'', PStr source_id),
        (''startDate'', PStr (date_isoformat start_date)), (''trigger'', PStr trigger)]))"

definition get_active_search_source :: "sync_db \<Rightarrow> uuid \<Rightarrow> uuid \<Rightarrow> sync_source option" where
  "get_active_search_source db workspace_id product_id =
     find (\<lambda>s. so_workspace_id s = workspace_id \<and> so_product_id s = product_id \<and> so_status s = ''active''
       \<and> so_deleted_at s = None) (sd_sources db)"

definition get_run_by_idempotency :: "sync_db \<Rightarrow> uuid \<Rightarrow> uuid \<Rightarrow> string \<Rightarrow> sync_run option" where
  "get_run_by_idempotency db workspace_id source_id key =
     find (\<lambda>r. sy_workspace_id r = workspace_id \<and> sy_source_id r = source_id \<and> sy_idempotency_key r = key)
       (sd_runs db)"

definition is_active :: "sync_run \<Rightarrow> bool" where
  "is_active r \<longleftrightarrow> sy_status r \<in> {''pending'', ''running''}"

definition get_active_run :: "sync_db \<Rightarrow> uuid \<Rightarrow> uuid \<Rightarrow> sync_run option" where
  "get_active_run db workspace_id source_id =
     find (\<lambda>r. sy_workspace_id r = workspace_id \<and> sy_source_id r = source_id \<and> is_active r) (sd_runs db)"

definition get_sync_run :: "sync_db \<Rightarrow> uuid \<Rightarrow> uuid \<Rightarrow> uuid \<Rightarrow> sync_run option" where
  "get_sync_run db workspace_id product_id rid =
     find (\<lambda>r. sy_workspace_id r = workspace_id \<and> sy_product_id r = product_id \<and> sy_id r = rid
       \<and> sy_deleted_at r = None) (sd_runs db)"

definition find_sync_run :: "sync_db \<Rightarrow> uuid \<Rightarrow> sync_run option" where
  "find_sync_run db rid = find (\<lambda>r. sy_id r = rid) (sd_runs db)"

text \<open>The check constraints of \<open>search_sync_runs\<close>.\<close>

definition run_row_ok :: "sync_run \<Rightarrow> bool" where
  "run_row_ok r \<longleftrightarrow>
     sy_trigger r \<in> {''initial'', ''scheduled'', ''manual''}
     \<and> sy_status r \<in> {''pending'', ''running'', ''succeeded'', ''failed'', ''cancelled''}
     \<and> sy_requested_start_date r \<le> sy_requested_end_date r
     \<and> sy_policy_version r \<noteq> [] \<and> 0 < sy_schema_version r
     \<and> 0 \<le> sy_rows_received r \<and> 0 \<le> sy_rows_written r
     \<and> pred_option (\<lambda>p. sy_requested_start_date r \<le> p \<and> p \<le> sy_requested_end_date r) (sy_progress_date r)
     \<and> (sy_lease_owner r = None \<longleftrightarrow> sy_lease_expires_at r = None)"

fun sync_run_column :: "string \<Rightarrow> sync_run \<Rightarrow> string option" where
  "sync_run_column c r =
     (if c = ''workspace_id'' then Some (sy_workspace_id r)
      else if c = ''source_id'' then Some (sy_source_id r)
      else if c = ''idempotency_key'' then Some (sy_idempotency_key r) else None)"

definition requested_window ::
  "sync_env \<Rightarrow> search_capabilities \<Rightarrow> string \<Rightarrow> sync_source \<Rightarrow> date option \<Rightarrow> date option \<Rightarrow> instant
     \<Rightarrow> (date \<times> date) res" where
  "requested_window env caps trigger source start end now =
     (let today = se_local_date env (cp_reporting_timezone caps) now in
      if (start = None) \<noteq> (end = None) then Inl (bad_request_error ''search_sync_dates_invalid'')
      else case (start, end) of
        (Some s, Some e) \<Rightarrow>
          if e < s \<or> today - cp_finalization_lag_days caps < e
          then Inl (bad_request_error ''search_sync_dates_invalid'') else Inr (s, e)
      | _ \<Rightarrow>
          res_bind (search_sync_window trigger today (cp_finalization_lag_days caps)
              (se_local_date env (cp_reporting_timezone caps) (so_selected_at source))
              (so_latest_successful_data_date source)) (\<lambda>window.
            case window of None \<Rightarrow> Inl (conflict_error ''search_sync_window_empty'') | Some w \<Rightarrow> Inr w))"

definition new_run ::
  "sync_env \<Rightarrow> sync_db \<Rightarrow> sync_source \<Rightarrow> uuid \<Rightarrow> uuid \<Rightarrow> string \<Rightarrow> string \<Rightarrow> uuid option \<Rightarrow> string \<Rightarrow> date \<Rightarrow> date
     \<Rightarrow> instant \<Rightarrow> sync_run" where
  "new_run env db source workspace_id product_id key trigger actor_id fingerprint start_date end_date now =
     \<lparr>sy_id = se_uuid env (sd_drawn db), sy_workspace_id = workspace_id, sy_product_id = product_id,
      sy_source_id = so_id source, sy_status = ''pending'', sy_is_complete = False, sy_is_truncated = False,
      sy_requested_start_date = start_date, sy_requested_end_date = end_date, sy_completed_at = None,
      sy_deleted_at = None, sy_trigger = trigger, sy_idempotency_key = key, sy_request_fingerprint = fingerprint,
      sy_policy_version = sync_policy_version, sy_schema_version = 1, sy_progress_date = None,
      sy_rows_received = 0, sy_rows_written = 0, sy_lease_owner = None, sy_lease_expires_at = None,
      sy_failure_category = None, sy_started_at = None, sy_created_at = now, sy_created_by = actor_id\<rparr>"

definition sync_event :: "sync_env \<Rightarrow> sync_db \<Rightarrow> sync_run \<Rightarrow> instant \<Rightarrow> outbox_event" where
  "sync_event env db run now =
     new_event (se_uuid env (sd_drawn db)) now ''search/metrics.sync.requested'' 1 (sy_id run)
       [(''runId'', MD_scalar (MD_str (sy_id run))), (''workspaceId'', MD_scalar (MD_str (sy_workspace_id run))),
        (''productId'', MD_scalar (MD_str (sy_product_id run))), (''sourceId'', MD_scalar (MD_str (sy_source_id run))),
        (''schemaVersion'', MD_scalar (MD_int 1)), (''correlationId'', MD_scalar (MD_str (sy_id run)))]
       None (Some (sy_id run)) (Some (sy_workspace_id run)) (Some (sy_product_id run)) None"

fun as_active_conflict :: "'a res \<Rightarrow> 'a res" where
  "as_active_conflict (Inl (IntegrityError _)) = Inl (conflict_error ''search_sync_active'')"
| "as_active_conflict m = m"

text \<open>The row lock on the source serialises the requests for it, so that a request is one atomic step. The unique
  index on active runs cannot be violated then: \<open>get_active_run\<close> has found none.\<close>

definition insert_sync_run :: "sync_env \<Rightarrow> sync_run \<Rightarrow> sync_run list \<Rightarrow> ((sync_run \<times> bool) \<times> sync_run list) res" where
  "insert_sync_run env = insert_or_replay (se_dialect env) sync_run_column [''workspace_id'', ''source_id'', ''idempotency_key'']
     run_row_ok sy_id"

definition store_run :: "sync_env \<Rightarrow> sync_run \<Rightarrow> string \<Rightarrow> instant \<Rightarrow> sync_db \<Rightarrow> (sync_run \<times> sync_db) res" where
  "store_run env row fingerprint now db =
     res_bind (as_active_conflict (insert_sync_run env row (sd_runs db))) (\<lambda>((value, inserted), runs).
       let db1 = db\<lparr>sd_runs := runs, sd_drawn := Suc (sd_drawn db)\<rparr> in
       case find_sync_run db1 (sy_id value) of
         None \<Rightarrow> Inl (RuntimeError ''search sync insert succeeded without a readable run'')
       | Some run \<Rightarrow>
           if sy_request_fingerprint run \<noteq> fingerprint then Inl (conflict_error ''idempotency_key_conflict'')
           else if inserted
           then if \<not> is_ok (validate_metadata (ob_metadata_payload (sync_event env db1 run now)))
                then Inl (ValidationError ''metadata'')
                else res_bind (enqueue_outbox_event (se_dialect env) (sync_event env db1 run now) (sd_outbox db1))
                  (\<lambda>(_, outbox). Inr (run, db1\<lparr>sd_outbox := outbox, sd_drawn := Suc (sd_drawn db1)\<rparr>))
           else Inr (run, db1))"

definition request_search_sync ::
  "sync_env \<Rightarrow> search_capabilities \<Rightarrow> uuid \<Rightarrow> uuid \<Rightarrow> string \<Rightarrow> string \<Rightarrow> uuid option \<Rightarrow> date option \<Rightarrow> date option
     \<Rightarrow> instant \<Rightarrow> sync_db \<Rightarrow> (sync_run \<times> sync_db) res" where
  "request_search_sync env caps workspace_id product_id key trigger actor_id start end now db =
     (if key = [] \<or> 255 < length key then Inl (bad_request_error ''idempotency_key_invalid'')
      else case get_active_search_source db workspace_id product_id of
        None \<Rightarrow> Inl (conflict_error ''search_source_inactive'')
      | Some source \<Rightarrow>
          res_bind (requested_window env caps trigger source start end now) (\<lambda>(start_date, end_date).
            if max_sync_days < end_date - start_date + 1 then Inl (bad_request_error ''search_sync_window_too_large'')
            else let fingerprint = sync_fingerprint env trigger start_date end_date (so_id source) in
              case get_run_by_idempotency db workspace_id (so_id source) key of
                Some replay \<Rightarrow>
                  if sy_request_fingerprint replay \<noteq> fingerprint then Inl (conflict_error ''idempotency_key_conflict'')
                  else Inr (replay, db)
              | None \<Rightarrow>
                  if get_active_run db workspace_id (so_id source) \<noteq> None
                  then Inl (conflict_error ''search_sync_active'')
                  else store_run env (new_run env db source workspace_id product_id key trigger actor_id fingerprint
                    start_date end_date now) fingerprint now db))"

definition read_search_sync :: "sync_db \<Rightarrow> uuid \<Rightarrow> uuid \<Rightarrow> uuid \<Rightarrow> sync_run res" where
  "read_search_sync db workspace_id product_id rid =
     (case get_sync_run db workspace_id product_id rid of
        None \<Rightarrow> Inl (NotFoundError ''search_sync_not_found'') | Some r \<Rightarrow> Inr r)"

text \<open>\<open>list_search_syncs\<close>: the twenty newest runs.\<close>

definition list_search_syncs :: "sync_db \<Rightarrow> uuid \<Rightarrow> uuid \<Rightarrow> sync_run list" where
  "list_search_syncs db workspace_id product_id =
     take 20 (rev (sort_key (\<lambda>r. (sy_created_at r, sy_id r))
       (filter (\<lambda>r. sy_workspace_id r = workspace_id \<and> sy_product_id r = product_id \<and> sy_deleted_at r = None)
         (sd_runs db))))"

definition create_initial_sync ::
  "sync_env \<Rightarrow> search_capabilities \<Rightarrow> sync_source \<Rightarrow> instant \<Rightarrow> sync_db \<Rightarrow> (sync_run \<times> sync_db) res" where
  "create_initial_sync env caps source now db =
     request_search_sync env caps (so_workspace_id source) (so_product_id source) (''initial:'' @ so_id source)
       ''initial'' (so_created_by source) None None now db"

text \<open>\<open>cancel_active_runs\<close> and \<open>disconnect_connection_sources\<close> of the connection repository.\<close>

definition cancel_active_runs :: "uuid \<Rightarrow> uuid list \<Rightarrow> instant \<Rightarrow> sync_db \<Rightarrow> sync_db" where
  "cancel_active_runs workspace_id source_ids now db =
     db\<lparr>sd_runs := map (\<lambda>r.
       if sy_workspace_id r = workspace_id \<and> sy_source_id r \<in> set source_ids \<and> is_active r
       then r\<lparr>sy_status := ''cancelled'', sy_completed_at := Some now, sy_lease_owner := None,
              sy_lease_expires_at := None, sy_failure_category := None\<rparr>
       else r) (sd_runs db)\<rparr>"

section \<open>The scheduler\<close>

definition schedulable :: "sync_db \<Rightarrow> sync_source list" where
  "schedulable db =
     filter (\<lambda>s. so_status s = ''active'' \<and> so_deleted_at s = None
       \<and> (\<exists>c\<in>set (sd_connections db). ic_workspace_id c = so_workspace_id s
             \<and> ic_id c = so_integration_connection_id s \<and> ic_status c = ''active''
             \<and> ic_revoked_at c = None \<and> ic_deleted_at c = None)) (sd_sources db)"

text \<open>The registry of providers gives the provider of a key or raises.\<close>

definition registered :: "(string \<Rightarrow> search_provider option) \<Rightarrow> string \<Rightarrow> search_provider res" where
  "registered providers key =
     (case providers key of
        None \<Rightarrow> Inl (AppError ''SearchProviderConfigurationError'' ''provider_not_registered'')
      | Some p \<Rightarrow> Inr p)"

definition schedule_key :: "sync_env \<Rightarrow> search_capabilities \<Rightarrow> sync_source \<Rightarrow> instant \<Rightarrow> string" where
  "schedule_key env caps source now =
     ''scheduled:'' @ so_id source @ '':'' @
       date_isoformat (se_local_date env (cp_reporting_timezone caps) now - cp_finalization_lag_days caps)"

text \<open>Every request is a transaction of its own: what was scheduled stays when a later source raises.\<close>

fun schedule_loop ::
  "sync_env \<Rightarrow> (string \<Rightarrow> search_provider option) \<Rightarrow> instant \<Rightarrow> sync_source list \<Rightarrow> nat \<times> nat \<Rightarrow> sync_db
     \<Rightarrow> (nat \<times> nat) res \<times> sync_db" where
  "schedule_loop env providers now [] counts db = (Inr counts, db)"
| "schedule_loop env providers now (ref # refs) (scheduled, skipped) db =
     (case registered providers (so_provider ref) of
        Inl e \<Rightarrow> (Inl e, db)
      | Inr p \<Rightarrow>
          (case find (\<lambda>s. so_id s = so_id ref) (sd_sources db) of
             None \<Rightarrow> schedule_loop env providers now refs (scheduled, Suc skipped) db
           | Some source \<Rightarrow>
               (case request_search_sync env (pv_capabilities p) (so_workspace_id source) (so_product_id source)
                   (schedule_key env (pv_capabilities p) source now) ''scheduled'' None None None now db of
                  Inr (_, db') \<Rightarrow> schedule_loop env providers now refs (Suc scheduled, skipped) db'
                | Inl e \<Rightarrow>
                    if e \<in> {conflict_error ''search_sync_active'', conflict_error ''search_sync_window_empty''}
                    then schedule_loop env providers now refs (scheduled, Suc skipped) db
                    else (Inl e, db))))"

definition schedule ::
  "sync_env \<Rightarrow> (string \<Rightarrow> search_provider option) \<Rightarrow> instant \<Rightarrow> sync_db \<Rightarrow> (nat \<times> nat) res \<times> sync_db" where
  "schedule env providers now db = schedule_loop env providers now (schedulable db) (0, 0) db"

end
