(* ===== verification/Search_Worker.thy ===== *)
theory Search_Worker
  imports Search_Sync
begin

text \<open>
  Processing of a search synchronisation: the methods of \<open>SearchSyncService\<close> and the queries of
  \<open>repositories/search_sync_repository.py\<close> they use. Each method with a transaction of its own is a function on the
  database; \<open>worker_step\<close> composes them as \<open>process\<close> does and \<open>sync_step\<close> lets workers and the rest of the program
  interleave.
\<close>

section \<open>Reading from the provider\<close>

definition performance_of_day :: "search_provider \<Rightarrow> search_grant \<Rightarrow> string \<Rightarrow> date \<Rightarrow> string list \<Rightarrow> int \<Rightarrow> int
    \<Rightarrow> performance_result res" where
  "performance_of_day p grant property_id d dimensions start limit =
     pv_query_performance p grant
       \<lparr>rq_property_id = property_id, rq_start_date = d, rq_end_date = d, rq_dimensions = dimensions,
        rq_start_row = start, rq_row_limit = limit\<rparr>"

text \<open>\<open>_fetch\<close>, which \<open>process\<close> calls for the totals of a day.\<close>

definition fetch_totals :: "search_provider \<Rightarrow> search_grant \<Rightarrow> string \<Rightarrow> date \<Rightarrow> performance_row list res" where
  "fetch_totals p grant property_id d =
     res_bind (performance_of_day p grant property_id d [''date''] 0 (cp_request_page_limit (pv_capabilities p)))
       (\<lambda>result. if list_ex (\<lambda>row. pr_date row \<noteq> d) (ps_rows result)
          then Inl (ValueError ''provider returned a row outside the requested date'') else Inr (ps_rows result))"

text \<open>The loop of \<open>_fetch_query_pages\<close>; \<open>None\<close> when it does not end.\<close>

partial_function (option) query_pages ::
  "(int \<Rightarrow> int \<Rightarrow> performance_result res) \<Rightarrow> int \<Rightarrow> int \<Rightarrow> date \<Rightarrow> performance_row list \<Rightarrow> int
     \<Rightarrow> (performance_row list \<times> bool) res option" where
  "query_pages fetch page_limit cap d rows start =
     (if int (length rows) < cap
      then case fetch start (min page_limit (cap - int (length rows))) of
        Inl e \<Rightarrow> Some (Inl e)
      | Inr result \<Rightarrow>
          if list_ex (\<lambda>row. pr_date row \<noteq> d \<or> pr_query row = None \<or> pr_page row = None) (ps_rows result)
          then Some (Inl (ValueError ''provider returned invalid query-page dimensions''))
          else case ps_next_start_row result of
            None \<Rightarrow> Some (Inr (rows @ ps_rows result, False))
          | Some next \<Rightarrow>
              if next \<le> start then Some (Inl (ValueError ''provider pagination did not advance''))
              else query_pages fetch page_limit cap d (rows @ ps_rows result) next
      else Some (Inr (rows, True)))"

declare query_pages.simps [code]

definition fetch_query_pages ::
  "search_provider \<Rightarrow> search_grant \<Rightarrow> string \<Rightarrow> date \<Rightarrow> (performance_row list \<times> bool) res option" where
  "fetch_query_pages p grant property_id d =
     query_pages (performance_of_day p grant property_id d [''date'', ''query'', ''page''])
       (cp_request_page_limit (pv_capabilities p)) (cp_maximum_rows_per_day (pv_capabilities p)) d [] 0"

section \<open>Credentials\<close>

definition usable_grant ::
  "sync_env \<Rightarrow> instant \<Rightarrow> sync_connection \<Rightarrow> search_provider \<Rightarrow> uuid option \<Rightarrow> sync_db \<Rightarrow> (search_grant \<times> sync_db) res" where
  "usable_grant env now connection p actor_id db =
     (if \<not> text_truthy (ic_credentials_ciphertext connection) \<or> \<not> text_truthy (ic_credential_key_version connection)
      then Inl (AppError ''SearchProviderError'' ''credentials_unavailable'')
      else case se_open env (the (ic_credentials_ciphertext connection)) (the (ic_credential_key_version connection)) of
        None \<Rightarrow> Inl (RuntimeError ''search credential processing failed'')
      | Some grant \<Rightarrow>
          if (case ag_expires_at grant of None \<Rightarrow> True | Some t \<Rightarrow> now + refresh_skew < t) then Inr (grant, db)
          else res_bind (pv_refresh_authorization p grant) (\<lambda>refreshed.
            let fresh = refreshed\<lparr>ag_refresh_token :=
                  (if text_truthy (ag_refresh_token refreshed) then ag_refresh_token refreshed
                   else ag_refresh_token grant)\<rparr>;
                sealed = se_seal env fresh
            in case find (\<lambda>c. ic_workspace_id c = ic_workspace_id connection \<and> ic_id c = ic_id connection)
                   (sd_connections db) of
                 None \<Rightarrow> Inl (AppError ''SearchProviderError'' ''authorization_inactive'')
               | Some locked \<Rightarrow>
                   if ic_status locked \<noteq> ''active'' \<or> ic_revoked_at locked \<noteq> None
                   then Inl (AppError ''SearchProviderError'' ''authorization_inactive'')
                   else Inr (fresh, db\<lparr>sd_connections := map (\<lambda>c.
                     if ic_workspace_id c = ic_workspace_id connection \<and> ic_id c = ic_id connection
                     then c\<lparr>ic_credentials_ciphertext := Some (fst sealed),
                            ic_credential_key_version := Some (snd sealed), ic_scopes := ag_scopes refreshed,
                            ic_token_expires_at := ag_expires_at refreshed, ic_updated_by := actor_id\<rparr>
                     else c) (sd_connections db)\<rparr>)))"

section \<open>Storing a day\<close>

text \<open>The check constraints of \<open>search_daily_metrics\<close> and \<open>search_pages\<close>.\<close>

definition metric_ok :: "sync_metric \<Rightarrow> bool" where
  "metric_ok m \<longleftrightarrow>
     ((dm_grain m = ''site_total'' \<and> dm_query_id m = None \<and> dm_page_id m = None)
      \<or> (dm_grain m = ''query_page'' \<and> dm_query_id m \<noteq> None \<and> dm_page_id m \<noteq> None))
     \<and> 0 \<le> dm_clicks m \<and> 0 \<le> dm_impressions m
     \<and> (case dm_average_position m of None \<Rightarrow> True | Some p \<Rightarrow> 0 \<le> p)"

definition page_ok :: "sync_page \<Rightarrow> bool" where
  "page_ok g \<longleftrightarrow> (sg_website_source_id g = None \<longleftrightarrow> sg_website_page_id g = None)
     \<and> (sg_match_status g = MS_matched \<longleftrightarrow> sg_website_page_id g \<noteq> None)"

definition metric_at :: "sync_source \<Rightarrow> date \<Rightarrow> uuid option \<Rightarrow> uuid option \<Rightarrow> sync_metric \<Rightarrow> bool" where
  "metric_at source d query_id page_id m \<longleftrightarrow>
     dm_workspace_id m = so_workspace_id source \<and> dm_source_id m = so_id source \<and> dm_metric_date m = d
     \<and> dm_search_type m = ''web'' \<and> dm_query_id m = query_id \<and> dm_page_id m = page_id"

definition find_metric :: "sync_db \<Rightarrow> sync_source \<Rightarrow> date \<Rightarrow> uuid option \<Rightarrow> uuid option \<Rightarrow> sync_metric option" where
  "find_metric db source d query_id page_id = find (metric_at source d query_id page_id) (sd_metrics db)"

text \<open>A column of type \<open>Numeric(12, 6)\<close> keeps six decimal places.\<close>

definition six_places :: "rat \<Rightarrow> rat" where
  "six_places x = of_int (quantize_half_up (1000000 * x)) / 1000000"

definition new_metric :: "sync_source \<Rightarrow> date \<Rightarrow> string \<Rightarrow> uuid option \<Rightarrow> uuid option \<Rightarrow> sync_metric" where
  "new_metric source d grain query_id page_id =
     \<lparr>dm_workspace_id = so_workspace_id source, dm_product_id = so_product_id source, dm_source_id = so_id source,
      dm_grain = grain, dm_query_id = query_id, dm_page_id = page_id, dm_metric_date = d, dm_clicks = 0,
      dm_impressions = 0, dm_average_position = None, dm_deleted_at = None, dm_search_type = ''web''\<rparr>"

text \<open>A metric is looked up, added when it is missing, and given the values of the row. The unique indexes of the
  table leave at most one row for the key; the check constraints are evaluated when the row is written.\<close>

definition put_metric ::
  "sync_source \<Rightarrow> date \<Rightarrow> string \<Rightarrow> uuid option \<Rightarrow> uuid option \<Rightarrow> int \<Rightarrow> int \<Rightarrow> rat option \<Rightarrow> sync_db \<Rightarrow> sync_db res" where
  "put_metric source d grain query_id page_id clicks impressions position db =
     (let set_values = (\<lambda>m. m\<lparr>dm_clicks := clicks, dm_impressions := impressions, 
            dm_average_position := map_option six_places position\<rparr>);
          metrics = (if find_metric db source d query_id page_id = None
                     then sd_metrics db @ [set_values (new_metric source d grain query_id page_id)]
                     else map (\<lambda>m. if metric_at source d query_id page_id m then set_values m else m) (sd_metrics db))
      in if list_all metric_ok metrics then Inr (db\<lparr>sd_metrics := metrics\<rparr>)
         else Inl (IntegrityError ''search_daily_metrics''))"

definition clear_day :: "sync_source \<Rightarrow> date \<Rightarrow> sync_db \<Rightarrow> sync_db" where
  "clear_day source d db =
     db\<lparr>sd_metrics := filter (\<lambda>m. \<not> (dm_workspace_id m = so_workspace_id source \<and> dm_source_id m = so_id source
       \<and> dm_metric_date m = d \<and> dm_search_type m = ''web'' \<and> dm_grain m = ''query_page'')) (sd_metrics db)\<rparr>"

fun query_column :: "string \<Rightarrow> search_query_row \<Rightarrow> string option" where
  "query_column c q =
     (if c = ''workspace_id'' then Some (sq_workspace_id q)
      else if c = ''source_id'' then Some (sq_source_id q)
      else if c = ''query_fingerprint'' then Some (sq_query_fingerprint q) else None)"

fun page_column :: "string \<Rightarrow> sync_page \<Rightarrow> string option" where
  "page_column c g =
     (if c = ''workspace_id'' then Some (sg_workspace_id g)
      else if c = ''source_id'' then Some (sg_source_id g)
      else if c = ''url_fingerprint'' then Some (sg_url_fingerprint g) else None)"

definition query_identity :: "sync_db \<Rightarrow> uuid \<Rightarrow> uuid \<Rightarrow> string \<Rightarrow> search_query_row option" where
  "query_identity db workspace_id source_id key =
     find (\<lambda>q. sq_workspace_id q = workspace_id \<and> sq_source_id q = source_id \<and> sq_query_fingerprint q = key)
       (sd_queries db)"

definition page_identity :: "sync_db \<Rightarrow> uuid \<Rightarrow> uuid \<Rightarrow> string \<Rightarrow> sync_page option" where
  "page_identity db workspace_id source_id key =
     find (\<lambda>g. sg_workspace_id g = workspace_id \<and> sg_source_id g = source_id \<and> sg_url_fingerprint g = key)
       (sd_pages db)"

definition query_for :: "sync_env \<Rightarrow> sync_source \<Rightarrow> string \<Rightarrow> sync_db \<Rightarrow> (search_query_row \<times> sync_db) res" where
  "query_for env source text db =
     (let key = se_sha256 env text in
      case query_identity db (so_workspace_id source) (so_id source) key of
        Some q \<Rightarrow> Inr (q, db)
      | None \<Rightarrow>
          res_bind (insert_or_replay (se_dialect env) query_column
              [''workspace_id'', ''source_id'', ''query_fingerprint''] (\<lambda>_. True) sq_id
              \<lparr>sq_id = se_uuid env (sd_drawn db), sq_workspace_id = so_workspace_id source,
               sq_product_id = so_product_id source, sq_source_id = so_id source, sq_deleted_at = None,
               sq_query_text = text, sq_query_fingerprint = key\<rparr> (sd_queries db)) (\<lambda>((value, _), queries).
            case find (\<lambda>q. sq_id q = sq_id value) queries of
              None \<Rightarrow> Inl (RuntimeError ''query identity was not readable after insert'')
            | Some q \<Rightarrow> Inr (q, db\<lparr>sd_queries := queries, sd_drawn := Suc (sd_drawn db)\<rparr>)))"

text \<open>The pages of a website come with distinct ids, so that the dictionary by id of the source is \<open>remdups\<close>.\<close>

definition website_page_matches :: "sync_db \<Rightarrow> uuid \<Rightarrow> uuid \<Rightarrow> uuid \<Rightarrow> string \<Rightarrow> string \<times> site_page option" where
  "website_page_matches db workspace_id product_id website_source_id url =
     (let pages = filter (\<lambda>g. wg_workspace_id g = workspace_id \<and> wg_product_id g = product_id
            \<and> wg_source_id g = website_source_id \<and> wg_deleted_at g = None) (sd_site_pages db);
          canonical = filter (\<lambda>g. wg_canonical_url g = url) pages;
          observed = filter (\<lambda>g. wg_url g = url) pages;
          unique = remdups (concat (map (\<lambda>g. map (\<lambda>_. g) (filter (\<lambda>x.
            wx_workspace_id x = wg_workspace_id g \<and> wx_product_id x = wg_product_id g
            \<and> wx_source_id x = wg_source_id g \<and> wx_page_id x = wg_id g \<and> wx_status x = ''succeeded''
            \<and> wx_final_url x = Some url \<and> wx_deleted_at x = None) (sd_crawl_results db))) pages))
      in if length canonical = 1 then (''canonical_url'', Some (hd canonical))
         else if 1 < length canonical then (''ambiguous'', None)
         else if length observed = 1 then (''observed_url'', Some (hd observed))
         else if 1 < length observed then (''ambiguous'', None)
         else if length unique = 1 then (''crawl_final_url'', Some (hd unique))
         else if unique \<noteq> [] then (''ambiguous'', None) else (''unmatched'', None))"

definition new_page :: "sync_env \<Rightarrow> sync_db \<Rightarrow> sync_source \<Rightarrow> string \<Rightarrow> string \<Rightarrow> string \<Rightarrow> sync_page" where
  "new_page env db source original normalized key =
     (case website_page_matches db (so_workspace_id source) (so_product_id source) (so_website_source_id source)
          normalized of
        (matched_by, website_page) \<Rightarrow>
          \<lparr>sg_id = se_uuid env (sd_drawn db), sg_workspace_id = so_workspace_id source,
           sg_product_id = so_product_id source, sg_source_id = so_id source, sg_deleted_at = None,
           sg_url_fingerprint = key, sg_normalized_url = normalized,
           sg_website_page_id = map_option wg_id website_page,
           sg_match_status = (if website_page \<noteq> None then MS_matched
                              else if matched_by = ''ambiguous'' then MS_ambiguous else MS_unmatched),
           sg_original_url = original,
           sg_website_source_id = (if website_page \<noteq> None then Some (so_website_source_id source) else None),
           sg_match_method = (if matched_by \<noteq> ''unmatched'' then Some matched_by else None),
           sg_match_policy_version = match_policy_version\<rparr>)"

definition page_for :: "sync_env \<Rightarrow> sync_source \<Rightarrow> string \<Rightarrow> sync_db \<Rightarrow> (sync_page \<times> sync_db) res" where
  "page_for env source original db =
     (case se_normalize env original of
        None \<Rightarrow> Inl (ValueError ''website URL must be a public HTTP(S) URL'')
      | Some normalized \<Rightarrow>
          let key = se_sha256 env normalized in
          case page_identity db (so_workspace_id source) (so_id source) key of
            Some g \<Rightarrow> Inr (g, db)
          | None \<Rightarrow>
              res_bind (insert_or_replay (se_dialect env) page_column
                  [''workspace_id'', ''source_id'', ''url_fingerprint''] page_ok sg_id
                  (new_page env db source original normalized key) (sd_pages db)) (\<lambda>((value, _), pages).
                case find (\<lambda>g. sg_id g = sg_id value) pages of
                  None \<Rightarrow> Inl (RuntimeError ''page identity was not readable after insert'')
                | Some g \<Rightarrow> Inr (g, db\<lparr>sd_pages := pages, sd_drawn := Suc (sd_drawn db)\<rparr>)))"

text \<open>The loop over the rows of a day; the list is the set \<open>written_dimensions\<close>.\<close>

fun write_rows ::
  "sync_env \<Rightarrow> sync_source \<Rightarrow> date \<Rightarrow> performance_row list \<Rightarrow> (uuid \<times> uuid) list \<Rightarrow> sync_db
     \<Rightarrow> ((uuid \<times> uuid) list \<times> sync_db) res" where
  "write_rows env source d [] written db = Inr (written, db)"
| "write_rows env source d (row # rows) written db =
     (case (pr_query row, pr_page row) of
        (Some query, Some page) \<Rightarrow>
          res_bind (query_for env source query db) (\<lambda>(q, db1).
          res_bind (page_for env source page db1) (\<lambda>(g, db2).
          res_bind (put_metric source d ''query_page'' (Some (sq_id q)) (Some (sg_id g)) (pr_clicks row)
              (pr_impressions row) (Some (pr_position row)) db2) (\<lambda>db3.
            write_rows env source d rows
              (if (sq_id q, sg_id g) \<in> set written then written else (sq_id q, sg_id g) # written) db3)))
      | _ \<Rightarrow> Inl (AppError ''AssertionError'' ''''))"

definition update_sync_run :: "uuid \<Rightarrow> (sync_run \<Rightarrow> sync_run) \<Rightarrow> sync_db \<Rightarrow> sync_db" where
  "update_sync_run rid f db = db\<lparr>sd_runs := map (\<lambda>r. if sy_id r = rid then f r else r) (sd_runs db)\<rparr>"

definition set_latest :: "(sync_source \<Rightarrow> bool) \<Rightarrow> date \<Rightarrow> sync_db \<Rightarrow> sync_db" where
  "set_latest P d db =
     db\<lparr>sd_sources := map (\<lambda>s. if P s then s\<lparr>so_latest_successful_data_date := Some d\<rparr> else s) (sd_sources db)\<rparr>"

definition advance_run :: "sync_env \<Rightarrow> instant \<Rightarrow> date \<Rightarrow> int \<Rightarrow> int \<Rightarrow> bool \<Rightarrow> sync_run \<Rightarrow> sync_run" where
  "advance_run env now d received written truncated run =
     run\<lparr>sy_rows_received := sy_rows_received run + received, sy_rows_written := sy_rows_written run + written,
         sy_is_truncated := (sy_is_truncated run \<or> truncated), sy_progress_date := Some d,
         sy_lease_expires_at := Some (now + se_lease_duration env)\<rparr>"

definition persist_day ::
  "sync_env \<Rightarrow> instant \<Rightarrow> uuid \<Rightarrow> string \<Rightarrow> sync_source \<Rightarrow> date \<Rightarrow> performance_row list \<Rightarrow> performance_row list \<Rightarrow> bool
     \<Rightarrow> sync_db \<Rightarrow> sync_db res" where
  "persist_day env now rid owner source d totals rows truncated db =
     (if 1 < length totals \<or> list_ex (\<lambda>row. pr_query row \<noteq> None \<or> pr_page row \<noteq> None) totals
      then Inl (ValueError ''invalid site total result'')
      else case find_sync_run db rid of
        None \<Rightarrow> Inl (ValueError ''search sync lease is no longer active'')
      | Some run \<Rightarrow>
          if sy_status run \<noteq> ''running'' \<or> sy_lease_owner run \<noteq> Some owner
          then Inl (ValueError ''search sync lease is no longer active'')
          else
            res_bind (case totals of
                [] \<Rightarrow> put_metric source d ''site_total'' None None 0 0 None db
              | site # _ \<Rightarrow> put_metric source d ''site_total'' None None (pr_clicks site) (pr_impressions site)
                  (Some (pr_position site)) db) (\<lambda>db1.
            res_bind (write_rows env source d rows [] (clear_day source d db1)) (\<lambda>(written, db2).
              let run' = advance_run env now d (int (length totals + length rows)) (1 + int (length written)) truncated run
              in if run_row_ok run'
                 then Inr (set_latest (\<lambda>s. so_id s = so_id source) d (update_sync_run rid (\<lambda>_. run') db2))
                 else Inl (IntegrityError ''search_sync_runs''))))"

section \<open>Taking, finishing and leaving a run\<close>

definition claim_sync_run :: "sync_env \<Rightarrow> instant \<Rightarrow> uuid \<Rightarrow> string \<Rightarrow> sync_db \<Rightarrow> (bool \<times> sync_db) res" where
  "claim_sync_run env now rid owner db =
     (case find_sync_run db rid of
        None \<Rightarrow> Inl (ValueError ''Search sync run was not found.'')
      | Some run \<Rightarrow>
          if sy_status run \<in> {''succeeded'', ''cancelled'', ''failed''} then Inr (False, db)
          else if (case sy_lease_expires_at run of None \<Rightarrow> False | Some t \<Rightarrow> now < t) then Inr (False, db)
          else Inr (True, update_sync_run rid (\<lambda>r. r\<lparr>sy_status := ''running'',
            sy_started_at := (case sy_started_at r of None \<Rightarrow> Some now | t \<Rightarrow> t), sy_lease_owner := Some owner,
            sy_lease_expires_at := Some (now + se_lease_duration env), sy_failure_category := None\<rparr>) db))"

definition connect_product :: "uuid \<Rightarrow> uuid \<Rightarrow> instant \<Rightarrow> sync_db \<Rightarrow> sync_db" where
  "connect_product workspace_id product_id now db =
     db\<lparr>sd_products := map (\<lambda>p. if xp_workspace_id p = workspace_id \<and> xp_id p = product_id
          then p\<lparr>xp_search_mode := ''connected'', xp_search_mode_decided_at := Some now\<rparr> else p) (sd_products db)\<rparr>"

definition source_of_run :: "sync_run \<Rightarrow> sync_source \<Rightarrow> bool" where
  "source_of_run run s \<longleftrightarrow> so_workspace_id s = sy_workspace_id run \<and> so_product_id s = sy_product_id run
     \<and> so_id s = sy_source_id run"

definition succeed_run :: "instant \<Rightarrow> uuid \<Rightarrow> string \<Rightarrow> sync_db \<Rightarrow> sync_db" where
  "succeed_run now rid owner db =
     (case find_sync_run db rid of
        None \<Rightarrow> db
      | Some run \<Rightarrow>
          if sy_lease_owner run \<noteq> Some owner then db
          else let db1 = update_sync_run rid (\<lambda>r. r\<lparr>sy_status := ''succeeded'', sy_is_complete := (\<not> sy_is_truncated r),
                     sy_completed_at := Some now, sy_lease_owner := None, sy_lease_expires_at := None\<rparr>) db
            in if list_ex (source_of_run run) (sd_sources db1)
               then connect_product (sy_workspace_id run) (sy_product_id run) now
                 (set_latest (source_of_run run) (sy_requested_end_date run) db1)
               else db1)"

text \<open>The sanitised category: letters and digits in lower case, every other character an underscore. The
  codes of the exceptions are ASCII text, on which \<open>isalnum\<close> is \<open>category_char\<close>.\<close>

definition safe_category :: "string \<Rightarrow> string" where
  "safe_category category =
     (let s = take 64 (strip_underscore (map (\<lambda>c. if category_char c then c else CHR ''_'') (py_lower category)))
      in if s = [] then ''unknown'' else s)"

definition expire_connection :: "uuid \<Rightarrow> sync_db \<Rightarrow> sync_db" where
  "expire_connection source_id db =
     (case find (\<lambda>s. so_id s = source_id) (sd_sources db) of
        None \<Rightarrow> db
      | Some source \<Rightarrow> db\<lparr>sd_connections := map (\<lambda>c. if ic_id c = so_integration_connection_id source
          then c\<lparr>ic_status := ''expired''\<rparr> else c) (sd_connections db)\<rparr>)"

definition finish_failure ::
  "instant \<Rightarrow> uuid \<Rightarrow> string \<Rightarrow> string \<Rightarrow> bool \<Rightarrow> bool \<Rightarrow> sync_db \<Rightarrow> sync_db" where
  "finish_failure now rid owner category terminal expire db =
     (case find_sync_run db rid of
        None \<Rightarrow> db
      | Some run \<Rightarrow>
          if sy_status run \<in> {''succeeded'', ''cancelled''} \<or> sy_lease_owner run \<noteq> Some owner then db
          else let db1 = update_sync_run rid (\<lambda>r. r\<lparr>sy_failure_category := Some (safe_category category),
                     sy_lease_owner := None, sy_lease_expires_at := None,
                     sy_status := (if terminal then ''failed'' else ''pending''),
                     sy_completed_at := (if terminal then Some now else sy_completed_at r)\<rparr>) db
            in if expire then expire_connection (sy_source_id run) db1 else db1)"

section \<open>A worker\<close>

record sync_context =
  cx_run :: sync_run
  cx_source :: sync_source
  cx_property :: provider_property
  cx_connection :: sync_connection

definition load_processing_context :: "sync_db \<Rightarrow> uuid \<Rightarrow> sync_context option" where
  "load_processing_context db rid =
     (case find_sync_run db rid of
        None \<Rightarrow> None
      | Some run \<Rightarrow>
          (case find (source_of_run run) (sd_sources db) of
             None \<Rightarrow> None
           | Some s \<Rightarrow>
               (case (find (\<lambda>p. vp_workspace_id p = so_workspace_id s
                        \<and> vp_integration_connection_id p = so_integration_connection_id s
                        \<and> vp_id p = so_property_id s) (sd_properties db),
                      find (\<lambda>c. ic_workspace_id c = so_workspace_id s \<and> ic_id c = so_integration_connection_id s)
                        (sd_connections db)) of
                  (Some p, Some c) \<Rightarrow> Some \<lparr>cx_run = run, cx_source = s, cx_property = p, cx_connection = c\<rparr>
                | _ \<Rightarrow> None)))"

definition inactive_context :: "sync_context \<Rightarrow> bool" where
  "inactive_context c \<longleftrightarrow> so_status (cx_source c) \<noteq> ''active'' \<or> ic_status (cx_connection c) \<noteq> ''active''
     \<or> ic_revoked_at (cx_connection c) \<noteq> None \<or> ic_deleted_at (cx_connection c) \<noteq> None"

definition first_date :: "sync_run \<Rightarrow> date" where
  "first_date run = (case sy_progress_date run of None \<Rightarrow> sy_requested_start_date run | Some p \<Rightarrow> p + 1)"

text \<open>Where a call of \<open>process\<close> is: before \<open>_claim\<close>; after a refused claim; after a claim; with its context; about to
  synchronise a day; about to run the handler of an exception; returned with a status; raised; or dead. The
  branch for an inactive source or connection calls \<open>_fail\<close> with \<open>authorization_inactive\<close> and returns, which is what the
  handler of a \<open>SearchProviderError\<close> does with that code.\<close>

datatype phase =
    Starting
  | Refused
  | Claimed_By string
  | Loaded string sync_context
  | Syncing string sync_context search_grant date
  | Failing string py_error
  | Finished string
  | Raised py_error
  | Crashed

text \<open>The provider was taken from the registry before the first day.\<close>

definition sync_day ::
  "sync_env \<Rightarrow> (string \<Rightarrow> search_provider option) \<Rightarrow> instant \<Rightarrow> uuid \<Rightarrow> string \<Rightarrow> sync_context \<Rightarrow> search_grant \<Rightarrow> date
     \<Rightarrow> sync_db \<Rightarrow> sync_db res option" where
  "sync_day env providers now rid owner c grant d db =
     (case providers (so_provider (cx_source c)) of
        None \<Rightarrow> None
      | Some p \<Rightarrow>
          (let property_id = vp_provider_property_id (cx_property c) in
           case fetch_totals p grant property_id d of
             Inl e \<Rightarrow> Some (Inl e)
           | Inr totals \<Rightarrow>
               (case fetch_query_pages p grant property_id d of
                  None \<Rightarrow> None
                | Some (Inl e) \<Rightarrow> Some (Inl e)
                | Some (Inr (rows, truncated)) \<Rightarrow>
                    Some (persist_day env now rid owner (cx_source c) d totals rows truncated db))))"

definition handle_error :: "instant \<Rightarrow> uuid \<Rightarrow> string \<Rightarrow> py_error \<Rightarrow> sync_db \<Rightarrow> phase \<times> sync_db" where
  "handle_error now rid owner e db =
     (if is_transient_error e then (Raised e, finish_failure now rid owner (error_code e) False False db)
      else if is_authorization_error e
      then (Finished ''failed'', finish_failure now rid owner (error_code e) True True db)
      else if is_provider_error e
      then (Finished ''failed'', finish_failure now rid owner (error_code e) True False db)
      else case e of
        ValueError _ \<Rightarrow> (Finished ''failed'', finish_failure now rid owner ''invalid_provider_output'' True False db)
      | _ \<Rightarrow> (Raised e, finish_failure now rid owner ''unexpected'' False False db))"

fun worker_step ::
  "sync_env \<Rightarrow> (string \<Rightarrow> search_provider option) \<Rightarrow> instant \<Rightarrow> uuid \<Rightarrow> phase \<Rightarrow> sync_db \<Rightarrow> (phase \<times> sync_db) option" where
  "worker_step env providers now rid Starting db =
     (let owner = se_uuid env (sd_drawn db); db1 = db\<lparr>sd_drawn := Suc (sd_drawn db)\<rparr> in
      case claim_sync_run env now rid owner db1 of
        Inl e \<Rightarrow> Some (Raised e, db1)
      | Inr (claimed, db2) \<Rightarrow> Some (if claimed then Claimed_By owner else Refused, db2))"
| "worker_step env providers now rid Refused db =
     Some (case find_sync_run db rid of
         None \<Rightarrow> Finished ''noop''
       | Some r \<Rightarrow> if is_active r then Raised (AppError ''SearchProviderTransientError'' ''search_sync_concurrent'')
                   else Finished (sy_status r), db)"
| "worker_step env providers now rid (Claimed_By owner) db =
     Some (case load_processing_context db rid of
         None \<Rightarrow> Failing owner (ValueError ''Search sync run was not found.'')
       | Some c \<Rightarrow> if inactive_context c
                   then Failing owner (AppError ''SearchProviderError'' ''authorization_inactive'')
                   else Loaded owner c, db)"
| "worker_step env providers now rid (Loaded owner c) db =
     (case registered providers (so_provider (cx_source c)) of
        Inl e \<Rightarrow> Some (Failing owner e, db)
      | Inr p \<Rightarrow>
          (case usable_grant env now (cx_connection c) p (so_created_by (cx_source c)) db of
             Inl e \<Rightarrow> Some (Failing owner e, db)
           | Inr (grant, db') \<Rightarrow> Some (Syncing owner c grant (first_date (cx_run c)), db')))"
| "worker_step env providers now rid (Syncing owner c grant d) db =
     (if d \<le> sy_requested_end_date (cx_run c)
      then case sync_day env providers now rid owner c grant d db of
        None \<Rightarrow> None
      | Some (Inl e) \<Rightarrow> Some (Failing owner e, db)
      | Some (Inr db') \<Rightarrow> Some (Syncing owner c grant (d + 1), db')
      else Some (Finished ''succeeded'', succeed_run now rid owner db))"
| "worker_step env providers now rid (Failing owner e) db = Some (handle_error now rid owner e db)"
| "worker_step env providers now rid _ db = None"

text \<open>A call of \<open>process\<close> from one phase to the next. Each step gets its own registry of providers and its own clock,
  after whatever other processes have done to the database since the last step.\<close>

fun run_worker ::
  "sync_env \<Rightarrow> uuid \<Rightarrow> ((string \<Rightarrow> search_provider option) \<times> instant \<times> (sync_db \<Rightarrow> sync_db)) list \<Rightarrow> phase \<Rightarrow> sync_db
     \<Rightarrow> phase \<times> sync_db" where
  "run_worker env rid [] ph db = (ph, db)"
| "run_worker env rid ((providers, now, others) # es) ph db =
     (case worker_step env providers now rid ph (others db) of
        None \<Rightarrow> (ph, others db)
      | Some (ph', db') \<Rightarrow> run_worker env rid es ph' db')"

section \<open>Interleaving\<close>

type_synonym sync_pool = "nat \<rightharpoonup> uuid \<times> phase"

inductive sync_step :: "sync_env \<Rightarrow> sync_pool \<times> sync_db \<Rightarrow> sync_pool \<times> sync_db \<Rightarrow> bool" for env where
  spawn: "pool i = None \<Longrightarrow> sync_step env (pool, db) (pool(i \<mapsto> (rid, Starting)), db)"
| work: "pool i = Some (rid, ph) \<Longrightarrow> worker_step env providers now rid ph db = Some (ph', db') \<Longrightarrow>
    sync_step env (pool, db) (pool(i \<mapsto> (rid, ph')), db')"
| crash: "pool i = Some (rid, ph) \<Longrightarrow> sync_step env (pool, db) (pool(i \<mapsto> (rid, Crashed)), db)"
| request_sync: "request_search_sync env caps workspace_id product_id key trigger actor_id start end now db = Inr (r, db') \<Longrightarrow>
    sync_step env (pool, db) (pool, db')"
| cancel: "sync_step env (pool, db) (pool, cancel_active_runs workspace_id source_ids now db)"
| configure: "sync_step env (pool, db)
    (pool, db\<lparr>sd_sources := sources, sd_connections := connections, sd_properties := properties,
              sd_site_pages := site_pages, sd_crawl_results := crawl_results, sd_products := products\<rparr>)"

end
