(* ===== verification/Search_Facts.thy ===== *)
theory Search_Facts
  imports Search_Worker
begin

text \<open>
  Facts on the synchronisation of search metrics: paging ends, every transaction keeps the invariant of the run
  table, and a worker is not disturbed in what it knows of a run as long as it holds the lease.
\<close>

section \<open>Paging\<close>

text \<open>What \<open>_fetch_query_pages\<close> relies on to end: a page that announces another page is not empty.\<close>

locale paging_provider =
  fixes fetch :: "int \<Rightarrow> int \<Rightarrow> performance_result res"
  assumes next_page_after_rows:
    "1 \<le> limit \<Longrightarrow> fetch start limit = Inr result \<Longrightarrow> ps_next_start_row result = Some n \<Longrightarrow> ps_rows result \<noteq> []"
begin

lemma pages_end:
  assumes "1 \<le> page_limit"
  shows "\<exists>r. query_pages fetch page_limit cap d rows start = Some r"
proof (induction "nat (cap - int (length rows))" arbitrary: rows start rule: less_induct)
  case less
  show ?case
  proof (cases "int (length rows) < cap")
    case True
    let ?limit = "min page_limit (cap - int (length rows))"
    have "1 \<le> ?limit" using True assms by simp
    have again: "\<exists>r. query_pages fetch page_limit cap d (rows @ ps_rows result) n = Some r"
      if "fetch start ?limit = Inr result" "ps_next_start_row result = Some n" for result n
    proof -
      have "ps_rows result \<noteq> []" using next_page_after_rows \<open>1 \<le> ?limit\<close> that by blast
      then have "nat (cap - int (length (rows @ ps_rows result))) < nat (cap - int (length rows))"
        using True by (cases "ps_rows result") auto
      then show ?thesis by (rule less)
    qed
    show ?thesis
      by (subst query_pages.simps) (auto simp: True again split: sum.splits option.splits)
  next
    case False
    then show ?thesis by (subst query_pages.simps) simp
  qed
qed

end

text \<open>The rows of a day have the date and both dimensions; a truncated day has as many rows as allowed.\<close>

definition page_rows_ok :: "date \<Rightarrow> performance_row list \<Rightarrow> bool" where
  "page_rows_ok d rows \<longleftrightarrow> (\<forall>row\<in>set rows. pr_date row = d \<and> pr_query row \<noteq> None \<and> pr_page row \<noteq> None)"

lemma query_pages_rows:
  assumes "query_pages fetch page_limit cap d rows start = Some res"
  shows "page_rows_ok d rows \<longrightarrow> (\<forall>rows' truncated. res = Inr (rows', truncated) \<longrightarrow>
    page_rows_ok d rows' \<and> (truncated \<longrightarrow> cap \<le> int (length rows')))"
proof (rule query_pages.raw_induct [OF _ assms])
  fix qp f pl c dd rs st r
  assume step: "\<And>f pl c dd rs st r. qp f pl c dd rs st = Some r \<Longrightarrow>
      page_rows_ok dd rs \<longrightarrow> (\<forall>rs' t. r = Inr (rs', t) \<longrightarrow> page_rows_ok dd rs' \<and> (t \<longrightarrow> c \<le> int (length rs')))"
    and body: "(if int (length rs) < c then case f st (min pl (c - int (length rs))) of
        Inl e \<Rightarrow> Some (Inl e)
      | Inr result \<Rightarrow>
          if list_ex (\<lambda>row. pr_date row \<noteq> dd \<or> pr_query row = None \<or> pr_page row = None) (ps_rows result)
          then Some (Inl (ValueError ''provider returned invalid query-page dimensions''))
          else case ps_next_start_row result of
            None \<Rightarrow> Some (Inr (rs @ ps_rows result, False))
          | Some next \<Rightarrow>
              if next \<le> st then Some (Inl (ValueError ''provider pagination did not advance''))
              else qp f pl c dd (rs @ ps_rows result) next
      else Some (Inr (rs, True))) = Some r"
  show "page_rows_ok dd rs \<longrightarrow> (\<forall>rs' t. r = Inr (rs', t) \<longrightarrow> page_rows_ok dd rs' \<and> (t \<longrightarrow> c \<le> int (length rs')))"
  proof (intro impI allI)
    fix rs' t
    assume ok: "page_rows_ok dd rs" and r: "r = Inr (rs', t)"
    show "page_rows_ok dd rs' \<and> (t \<longrightarrow> c \<le> int (length rs'))"
    proof (cases "int (length rs) < c")
      case True
      then obtain result where result: "f st (min pl (c - int (length rs))) = Inr result"
        and valid: "\<not> list_ex (\<lambda>row. pr_date row \<noteq> dd \<or> pr_query row = None \<or> pr_page row = None) (ps_rows result)"
        using body r by (cases "f st (min pl (c - int (length rs)))") (auto split: if_splits)
      then have more: "page_rows_ok dd (rs @ ps_rows result)" using ok by (auto simp: page_rows_ok_def list_ex_iff)
      show ?thesis
      proof (cases "ps_next_start_row result")
        case None
        then show ?thesis using body r True result valid more by auto
      next
        case (Some n)
        then have "qp f pl c dd (rs @ ps_rows result) n = Some r"
          using body r True result valid by (auto split: if_splits)
        then show ?thesis using step more r by blast
      qed
    qed (use body r ok in auto)
  qed
qed

text \<open>A page of Google announces another one when it is full.\<close>

interpretation google: paging_provider
  "\<lambda>start limit. google_query_performance caps post grant
     \<lparr>rq_property_id = property_id, rq_start_date = d, rq_end_date = d, rq_dimensions = dimensions,
      rq_start_row = start, rq_row_limit = limit\<rparr>" for caps post grant property_id d dimensions
  by unfold_locales (auto simp: google_query_performance_def res_bind_eq_Inr split: if_splits)

section \<open>The invariant of the tables\<close>

text \<open>The total of a day is stored.\<close>

definition has_total :: "sync_db \<Rightarrow> uuid \<Rightarrow> uuid \<Rightarrow> date \<Rightarrow> bool" where
  "has_total db workspace_id source_id d \<longleftrightarrow> list_ex (\<lambda>m. dm_workspace_id m = workspace_id
     \<and> dm_source_id m = source_id \<and> dm_metric_date m = d \<and> dm_grain m = ''site_total'') (sd_metrics db)"

definition covered :: "sync_db \<Rightarrow> sync_run \<Rightarrow> bool" where
  "covered db r \<longleftrightarrow> (\<forall>p d. sy_progress_date r = Some p \<longrightarrow> sy_requested_start_date r \<le> d \<longrightarrow> d \<le> p \<longrightarrow>
     has_total db (sy_workspace_id r) (sy_source_id r) d)"

lemma covered_cong:
  "sy_progress_date r' = sy_progress_date r \<Longrightarrow> sy_requested_start_date r' = sy_requested_start_date r \<Longrightarrow>
     sy_workspace_id r' = sy_workspace_id r \<Longrightarrow> sy_source_id r' = sy_source_id r \<Longrightarrow> covered db r' = covered db r"
  by (simp add: covered_def)

text \<open>A run satisfies the constraints of its table and is leased exactly while it runs; the total of every day up to
  its progress is stored; a succeeded run has reached its last day and is complete unless a day was truncated.\<close>

definition sync_run_inv :: "sync_db \<Rightarrow> sync_run \<Rightarrow> bool" where
  "sync_run_inv db r \<longleftrightarrow> run_row_ok r \<and> (sy_status r = ''running'' \<longleftrightarrow> sy_lease_owner r \<noteq> None)
     \<and> (sy_status r = ''succeeded'' \<longrightarrow>
          sy_progress_date r = Some (sy_requested_end_date r) \<and> sy_is_complete r = (\<not> sy_is_truncated r))
     \<and> covered db r"

definition issued :: "sync_env \<Rightarrow> sync_db \<Rightarrow> string \<Rightarrow> bool" where
  "issued env db o' \<longleftrightarrow> (\<exists>n < sd_drawn db. o' = se_uuid env n)"

definition source_key :: "sync_run \<Rightarrow> uuid \<times> uuid" where
  "source_key r = (sy_workspace_id r, sy_source_id r)"

definition sync_inv :: "sync_env \<Rightarrow> sync_db \<Rightarrow> bool" where
  "sync_inv env db \<longleftrightarrow> distinct (map sy_id (sd_runs db)) \<and> list_all metric_ok (sd_metrics db)
     \<and> (\<forall>r\<in>set (sd_runs db). sync_run_inv db r \<and> (\<forall>o'. sy_lease_owner r = Some o' \<longrightarrow> issued env db o'))
     \<and> distinct (map source_key (filter is_active (sd_runs db)))"

text \<open>What a transaction may do to the tables beside the runs.\<close>

definition extends :: "sync_db \<Rightarrow> sync_db \<Rightarrow> bool" where
  "extends db db' \<longleftrightarrow> sd_drawn db \<le> sd_drawn db' \<and> (list_all metric_ok (sd_metrics db) \<longrightarrow> list_all metric_ok (sd_metrics db')
     \<and> (\<forall>w s d. has_total db w s d \<longrightarrow> has_total db' w s d))"

lemma extends_refl [simp]: "extends db db"
  by (simp add: extends_def)

lemma extends_trans: "extends db db' \<Longrightarrow> extends db' db'' \<Longrightarrow> extends db db''"
  by (auto simp: extends_def)

lemma issued_mono: "sd_drawn db \<le> sd_drawn db' \<Longrightarrow> issued env db o' \<Longrightarrow> issued env db' o'"
  unfolding issued_def using order_less_le_trans by blast

lemma extends_issued: "extends db db' \<Longrightarrow> issued env db o' \<Longrightarrow> issued env db' o'"
  using issued_mono by (auto simp: extends_def)

lemma extends_same:
  "sd_metrics db' = sd_metrics db \<Longrightarrow> sd_drawn db \<le> sd_drawn db' \<Longrightarrow> extends db db'"
  by (simp add: extends_def has_total_def)

lemma run_inv_extends: "sync_run_inv db r \<Longrightarrow> extends db db' \<Longrightarrow> list_all metric_ok (sd_metrics db) \<Longrightarrow> sync_run_inv db' r"
  unfolding sync_run_inv_def extends_def covered_def by blast

lemma find_run_mem: "find_sync_run db rid = Some r \<Longrightarrow> r \<in> set (sd_runs db) \<and> sy_id r = rid"
  by (auto simp: find_sync_run_def find_Some_iff)

lemma find_sync_run_iff:
  "distinct (map sy_id (sd_runs db)) \<Longrightarrow> find_sync_run db rid = Some r \<longleftrightarrow> r \<in> set (sd_runs db) \<and> sy_id r = rid"
  by (auto dest: find_run_mem simp: find_sync_run_def find_Some_iff in_set_conv_nth distinct_conv_nth)

lemma find_map_run:
  "(\<And>r. r \<in> set rs \<Longrightarrow> sy_id (g r) = sy_id r) \<Longrightarrow>
     find (\<lambda>r. sy_id r = rid) (map g rs) = map_option g (find (\<lambda>r. sy_id r = rid) rs)"
  by (induction rs) auto

lemma find_run_update:
  "(\<And>r. sy_id r = rid \<Longrightarrow> sy_id (f r) = rid) \<Longrightarrow>
     find_sync_run (update_sync_run rid f db) x = (if x = rid then map_option f (find_sync_run db rid) else find_sync_run db x)"
proof -
  assume f: "\<And>r. sy_id r = rid \<Longrightarrow> sy_id (f r) = rid"
  have "find (\<lambda>r. sy_id r = x) (map (\<lambda>r. if sy_id r = rid then f r else r) rs)
      = (if x = rid then map_option f (find (\<lambda>r. sy_id r = rid) rs) else find (\<lambda>r. sy_id r = x) rs)" for rs
    by (induction rs) (auto simp: f)
  then show ?thesis by (simp add: find_sync_run_def update_sync_run_def)
qed

lemma active_keys_map:
  "(\<And>r. r \<in> set rs \<Longrightarrow> source_key (g r) = source_key r \<and> (is_active (g r) \<longrightarrow> is_active r)) \<Longrightarrow>
     set (map source_key (filter is_active (map g rs))) \<subseteq> set (map source_key (filter is_active rs))"
  by auto

lemma distinct_active_map:
  "(\<And>r. r \<in> set rs \<Longrightarrow> source_key (g r) = source_key r \<and> (is_active (g r) \<longrightarrow> is_active r)) \<Longrightarrow>
     distinct (map source_key (filter is_active rs)) \<Longrightarrow> distinct (map source_key (filter is_active (map g rs)))"
proof (induction rs)
  case (Cons r rs)
  have "set (map source_key (filter is_active (map g rs))) \<subseteq> set (map source_key (filter is_active rs))"
    using Cons.prems(1) by (intro active_keys_map) simp
  moreover have "distinct (map source_key (filter is_active (map g rs)))" using Cons by (auto split: if_splits)
  moreover have "source_key (g r) = source_key r" "is_active (g r) \<Longrightarrow> is_active r" using Cons.prems(1) by auto
  ultimately show ?case using Cons.prems(2) by (auto split: if_splits)
qed simp

text \<open>A transaction that changes runs one by one and extends the other tables keeps the invariant.\<close>

lemma sync_inv_map:
  assumes inv: "sync_inv env db" and runs: "sd_runs db' = map g (sd_runs db)" and ext: "extends db db'"
    and g: "\<And>r. r \<in> set (sd_runs db) \<Longrightarrow> sy_id (g r) = sy_id r \<and> source_key (g r) = source_key r
      \<and> (is_active (g r) \<longrightarrow> is_active r) \<and> sync_run_inv db' (g r) \<and> (\<forall>o'. sy_lease_owner (g r) = Some o' \<longrightarrow> issued env db' o')"
  shows "sync_inv env db'"
  unfolding sync_inv_def
proof (intro conjI)
  have "map sy_id (sd_runs db') = map sy_id (sd_runs db)" using g by (simp add: runs)
  then show "distinct (map sy_id (sd_runs db'))" using inv by (simp add: sync_inv_def)
  show "list_all metric_ok (sd_metrics db')" using inv ext by (simp add: sync_inv_def extends_def)
  show "\<forall>r\<in>set (sd_runs db'). sync_run_inv db' r \<and> (\<forall>o'. sy_lease_owner r = Some o' \<longrightarrow> issued env db' o')"
    using g by (auto simp: runs)
  show "distinct (map source_key (filter is_active (sd_runs db')))"
    unfolding runs using inv g by (intro distinct_active_map) (auto simp: sync_inv_def)
qed

lemma sync_inv_update:
  assumes inv: "sync_inv env db" and runs: "sd_runs db' = sd_runs (update_sync_run rid f db)" and ext: "extends db db'"
    and f: "\<And>r. find_sync_run db rid = Some r \<Longrightarrow> sync_run_inv db r \<Longrightarrow> sy_id (f r) = sy_id r \<and> source_key (f r) = source_key r
      \<and> (is_active (f r) \<longrightarrow> is_active r) \<and> sync_run_inv db' (f r) \<and> (\<forall>o'. sy_lease_owner (f r) = Some o' \<longrightarrow> issued env db' o')"
  shows "sync_inv env db'"
proof (rule sync_inv_map [OF inv _ ext])
  show "sd_runs db' = map (\<lambda>r. if sy_id r = rid then f r else r) (sd_runs db)" by (simp add: runs update_sync_run_def)
  fix r assume "r \<in> set (sd_runs db)"
  moreover from this have "sync_run_inv db r" "\<And>o'. sy_lease_owner r = Some o' \<Longrightarrow> issued env db o'"
    using inv by (auto simp: sync_inv_def)
  moreover have "sync_run_inv db' r" using run_inv_extends ext inv calculation(2) by (auto simp: sync_inv_def)
  ultimately show "sy_id (if sy_id r = rid then f r else r) = sy_id r
      \<and> source_key (if sy_id r = rid then f r else r) = source_key r
      \<and> (is_active (if sy_id r = rid then f r else r) \<longrightarrow> is_active r)
      \<and> sync_run_inv db' (if sy_id r = rid then f r else r)
      \<and> (\<forall>o'. sy_lease_owner (if sy_id r = rid then f r else r) = Some o' \<longrightarrow> issued env db' o')"
    using f [of r] inv extends_issued [OF ext] by (auto simp: sync_inv_def find_sync_run_iff)
qed

lemma sync_inv_tables:
  "sync_inv env db \<Longrightarrow> sd_runs db' = sd_runs db \<Longrightarrow> extends db db' \<Longrightarrow> sync_inv env db'"
  by (rule sync_inv_map [of env db db' id])
    (auto simp: sync_inv_def intro: run_inv_extends extends_issued)

section \<open>What the transactions do to the tables\<close>

lemma list_ex_map_same: "(\<And>x. P (g x) = P x) \<Longrightarrow> list_ex P (map g xs) = list_ex P xs"
  by (induction xs) auto

lemma put_metric_result:
  assumes "put_metric source d grain q g clicks impressions position db = Inr db'"
  shows "sd_runs db' = sd_runs db" "extends db db'" "sd_drawn db' = sd_drawn db"
    "grain = ''site_total'' \<Longrightarrow> q = None \<Longrightarrow> g = None \<Longrightarrow> list_all metric_ok (sd_metrics db) \<Longrightarrow>
       has_total db' (so_workspace_id source) (so_id source) d"
proof -
  show "sd_runs db' = sd_runs db" "sd_drawn db' = sd_drawn db"
    using assms by (auto simp: put_metric_def Let_def split: if_splits)
  show "extends db db'"
    using assms by (auto simp: put_metric_def Let_def extends_def has_total_def list_ex_map_same split: if_splits)
  show "has_total db' (so_workspace_id source) (so_id source) d"
    if "grain = ''site_total''" "q = None" "g = None" "list_all metric_ok (sd_metrics db)"
  proof (cases "find_metric db source d q g")
    case None
    then show ?thesis
      using assms that by (auto simp: put_metric_def Let_def has_total_def new_metric_def split: if_splits)
  next
    case (Some m)
    then have "m \<in> set (sd_metrics db)" "metric_at source d None None m" "metric_ok m"
      using that by (auto simp: find_metric_def find_Some_iff list_all_length)
    then have "has_total db (so_workspace_id source) (so_id source) d"
      by (auto simp: has_total_def list_ex_iff metric_at_def metric_ok_def)
    then show ?thesis using \<open>extends db db'\<close> that by (simp add: extends_def)
  qed
qed

lemma clear_day_result:
  "sd_runs (clear_day source d db) = sd_runs db" "extends db (clear_day source d db)"
  by (auto simp: clear_day_def extends_def has_total_def list_ex_iff list_all_iff)

lemma query_for_result:
  "query_for env source text db = Inr (q, db') \<Longrightarrow> sd_runs db' = sd_runs db \<and> extends db db'"
  by (auto simp: query_for_def Let_def res_bind_eq_Inr intro!: extends_same split: option.splits)

lemma page_for_result:
  "page_for env source url db = Inr (g, db') \<Longrightarrow> sd_runs db' = sd_runs db \<and> extends db db'"
  by (auto simp: page_for_def Let_def res_bind_eq_Inr intro!: extends_same split: option.splits)

lemma write_rows_result:
  "write_rows env source d rows written db = Inr (written', db') \<Longrightarrow> sd_runs db' = sd_runs db \<and> extends db db'"
proof (induction rows arbitrary: written db)
  case (Cons row rows)
  from Cons.prems obtain query page q db1 g db2 db3 written1 where
    "query_for env source query db = Inr (q, db1)" "page_for env source page db1 = Inr (g, db2)"
    "put_metric source d ''query_page'' (Some (sq_id q)) (Some (sg_id g)) (pr_clicks row) (pr_impressions row)
       (Some (pr_position row)) db2 = Inr db3"
    "write_rows env source d rows written1 db3 = Inr (written', db')"
    by (fastforce simp: res_bind_eq_Inr split: option.splits)
  from query_for_result [OF this(1)] page_for_result [OF this(2)] put_metric_result(1,2) [OF this(3)]
    Cons.IH [OF this(4)]
  show ?case by (metis extends_trans)
qed simp

section \<open>Transactions on a run\<close>

text \<open>What the holder of a lease knows of its run; \<open>None\<close> when the owner holds no lease on it.\<close>

definition lease_view :: "sync_db \<Rightarrow> uuid \<Rightarrow> string \<Rightarrow> (date option \<times> date \<times> date \<times> uuid \<times> uuid) option" where
  "lease_view db rid owner =
     (case find_sync_run db rid of
        None \<Rightarrow> None
      | Some r \<Rightarrow> if sy_lease_owner r = Some owner
          then Some (sy_progress_date r, sy_requested_start_date r, sy_requested_end_date r, sy_workspace_id r,
            sy_source_id r) else None)"

text \<open>A transaction of another owner takes a lease away or leaves the run as it is.\<close>

definition undisturbed :: "string \<Rightarrow> sync_db \<Rightarrow> sync_db \<Rightarrow> bool" where
  "undisturbed owner db db' \<longleftrightarrow>
     (\<forall>rid v. lease_view db' rid owner = Some v \<longrightarrow> lease_view db rid owner = Some v)"

lemma undisturbed_same: "sd_runs db' = sd_runs db \<Longrightarrow> undisturbed owner db db'"
  by (simp add: undisturbed_def lease_view_def find_sync_run_def)

lemma undisturbed_update:
  assumes "sd_runs db' = sd_runs (update_sync_run rid f db)" "\<And>r. sy_id r = rid \<Longrightarrow> sy_id (f r) = rid"
    and "\<And>r. find_sync_run db rid = Some r \<Longrightarrow> sy_lease_owner (f r) \<noteq> Some owner"
  shows "undisturbed owner db db'"
proof -
  have "find_sync_run db' x = (if x = rid then map_option f (find_sync_run db rid) else find_sync_run db x)" for x
    using find_run_update [of rid f, OF assms(2)] assms(1) by (simp add: find_sync_run_def)
  then show ?thesis using assms(3) by (auto simp: undisturbed_def lease_view_def split: option.splits if_splits)
qed

text \<open>The holder of a lease advances the progress by a day that is stored, or ends the run.\<close>

lemma claim_run_result:
  assumes "claim_sync_run env now rid owner db = Inr (claimed, db')" "sync_inv env db" "issued env db owner"
  shows "sync_inv env db'" "sd_drawn db' = sd_drawn db" "o' \<noteq> owner \<Longrightarrow> undisturbed o' db db'"
proof -
  let ?f = "\<lambda>r. r\<lparr>sy_status := ''running'',
      sy_started_at := (case sy_started_at r of None \<Rightarrow> Some now | t \<Rightarrow> t), sy_lease_owner := Some owner,
      sy_lease_expires_at := Some (now + se_lease_duration env), sy_failure_category := None\<rparr>"
  consider "db' = db" | run where "db' = update_sync_run rid ?f db" "find_sync_run db rid = Some run"
      "sy_status run \<notin> {''succeeded'', ''cancelled'', ''failed''}"
    using assms(1) by (auto simp: claim_sync_run_def split: option.splits if_splits)
  then have "sync_inv env db' \<and> sd_drawn db' = sd_drawn db \<and> (o' \<noteq> owner \<longrightarrow> undisturbed o' db db')"
  proof cases
    case 1
    then show ?thesis using assms(2) by (simp add: undisturbed_same)
  next
    case 2
    have ext: "extends db db'" by (rule extends_same) (simp_all add: 2 update_sync_run_def)
    have "issued env db' owner" using assms(3) extends_issued [OF ext] by blast
    moreover have "sync_run_inv db' (?f run)" if "sync_run_inv db run"
    proof -
      have "sync_run_inv db' run" using run_inv_extends [OF that ext] assms(2) by (simp add: sync_inv_def)
      then show ?thesis by (simp add: sync_run_inv_def run_row_ok_def covered_def)
    qed
    ultimately have "sync_inv env db'"
      using assms(2) 2 by (intro sync_inv_update [OF _ _ ext, where f = ?f and rid = rid])
        (auto simp: source_key_def is_active_def sync_run_inv_def run_row_ok_def covered_def)
    moreover have "undisturbed o' db db'" if "o' \<noteq> owner"
      by (rule undisturbed_update [where f = ?f and rid = rid]) (use 2 that in auto)
    ultimately show ?thesis by (simp add: 2 update_sync_run_def)
  qed
  then show "sync_inv env db'" "sd_drawn db' = sd_drawn db" "o' \<noteq> owner \<Longrightarrow> undisturbed o' db db'" by auto
qed

text \<open>A transaction that gives the lease back does nothing unless its owner holds the lease.\<close>

definition gives_back :: "uuid \<Rightarrow> string \<Rightarrow> (sync_run \<Rightarrow> sync_run) \<Rightarrow> sync_db \<Rightarrow> sync_db \<Rightarrow> bool" where
  "gives_back rid owner f db db' \<longleftrightarrow> db' = db \<or>
     (\<exists>run. find_sync_run db rid = Some run \<and> sy_lease_owner run = Some owner \<and> sd_runs db' = sd_runs (update_sync_run rid f db)
        \<and> sd_metrics db' = sd_metrics db \<and> sd_drawn db' = sd_drawn db)"

lemma gives_back_result:
  assumes "gives_back rid owner f db db'" "sync_inv env db"
    and f: "\<And>r. sy_id (f r) = sy_id r \<and> source_key (f r) = source_key r \<and> sy_lease_owner (f r) = None"
    and inv: "\<And>run. find_sync_run db rid = Some run \<Longrightarrow> sy_lease_owner run = Some owner \<Longrightarrow> sync_run_inv db' run \<Longrightarrow> sync_run_inv db' (f run)"
  shows "sync_inv env db' \<and> sd_drawn db' = sd_drawn db \<and> undisturbed o' db db'"
proof (cases "db' = db")
  case False
  then obtain run where run: "find_sync_run db rid = Some run" "sy_lease_owner run = Some owner"
    and db: "sd_runs db' = sd_runs (update_sync_run rid f db)" "sd_metrics db' = sd_metrics db" "sd_drawn db' = sd_drawn db"
    using assms(1) by (auto simp: gives_back_def)
  have ext: "extends db db'" by (rule extends_same) (simp_all add: db)
  have "sync_run_inv db' (f run) \<and> is_active run" if "sync_run_inv db run"
    using run_inv_extends [OF that ext] assms(2) run inv that by (auto simp: sync_run_inv_def sync_inv_def is_active_def)
  then have "sync_inv env db'" using assms(2) run f by (intro sync_inv_update [OF _ db(1) ext]) auto
  moreover have "undisturbed o' db db'" by (rule undisturbed_update [OF db(1)]) (use f in auto)
  ultimately show ?thesis by (simp add: db)
qed (use assms(2) in \<open>simp add: undisturbed_same\<close>)

lemma succeed_run_result:
  assumes "sync_inv env db"
    and last_day: "\<And>p s e w i. lease_view db rid owner = Some (p, s, e, w, i) \<Longrightarrow> p = Some e"
  shows "sync_inv env (succeed_run now rid owner db) \<and> sd_drawn (succeed_run now rid owner db) = sd_drawn db
    \<and> undisturbed o' db (succeed_run now rid owner db)"
proof (rule gives_back_result [OF _ assms(1)])
  let ?f = "\<lambda>r. r\<lparr>sy_status := ''succeeded'', sy_is_complete := (\<not> sy_is_truncated r), sy_completed_at := Some now,
      sy_lease_owner := None, sy_lease_expires_at := None\<rparr>"
  show "gives_back rid owner ?f db (succeed_run now rid owner db)"
    by (auto simp: gives_back_def succeed_run_def Let_def connect_product_def set_latest_def update_sync_run_def
        split: option.splits)
  show "sync_run_inv db' (?f run)" if "find_sync_run db rid = Some run" "sy_lease_owner run = Some owner" "sync_run_inv db' run" for db' run
    using that last_day by (simp add: lease_view_def sync_run_inv_def run_row_ok_def covered_def)
qed (simp add: source_key_def)

lemma finish_failure_result:
  assumes "sync_inv env db"
  shows "sync_inv env (finish_failure now rid owner category terminal expire db)
    \<and> sd_drawn (finish_failure now rid owner category terminal expire db) = sd_drawn db
    \<and> undisturbed o' db (finish_failure now rid owner category terminal expire db)"
proof (rule gives_back_result [OF _ assms])
  let ?f = "\<lambda>r. r\<lparr>sy_failure_category := Some (safe_category category), sy_lease_owner := None,
      sy_lease_expires_at := None, sy_status := (if terminal then ''failed'' else ''pending''),
      sy_completed_at := (if terminal then Some now else sy_completed_at r)\<rparr>"
  show "gives_back rid owner ?f db (finish_failure now rid owner category terminal expire db)"
    by (auto simp: gives_back_def finish_failure_def Let_def expire_connection_def update_sync_run_def split: option.splits)
  show "sync_run_inv db' (?f run)" if "sync_run_inv db' run" for db' run
    using that by (simp add: sync_run_inv_def run_row_ok_def covered_def)
qed (simp add: source_key_def)

lemma persist_day_result:
  assumes "persist_day env now rid owner source d totals rows truncated db = Inr db'" "sync_inv env db"
    and view: "\<And>p s e w i. lease_view db rid owner = Some (p, s, e, w, i) \<Longrightarrow>
      d = (case p of None \<Rightarrow> s | Some p \<Rightarrow> p + 1) \<and> w = so_workspace_id source \<and> i = so_id source"
  shows "sync_inv env db' \<and> sd_drawn db \<le> sd_drawn db' \<and> (o' \<noteq> owner \<longrightarrow> undisturbed o' db db')
    \<and> (\<forall>p s e w i. lease_view db' rid owner = Some (p, s, e, w, i) \<longrightarrow>
         p = Some d \<and> (\<exists>p'. lease_view db rid owner = Some (p', s, e, w, i)))"
proof -
  from assms(1) obtain run db1 db2 c n pos written where
    run: "find_sync_run db rid = Some run" "sy_status run = ''running''" "sy_lease_owner run = Some owner"
    and site: "put_metric source d ''site_total'' None None c n pos db = Inr db1"
    and rows: "write_rows env source d rows [] (clear_day source d db1) = Inr (written, db2)"
    and ok: "run_row_ok (advance_run env now d (int (length totals + length rows)) (1 + int (length written)) truncated run)"
    and db': "db' = set_latest (\<lambda>s. so_id s = so_id source) d (update_sync_run rid
        (\<lambda>_. advance_run env now d (int (length totals + length rows)) (1 + int (length written)) truncated run) db2)"
    by (fastforce simp: persist_day_def res_bind_eq_Inr Let_def split: option.splits if_splits list.splits)
  let ?f = "\<lambda>_. advance_run env now d (int (length totals + length rows)) (1 + int (length written)) truncated run"
  note inv = assms(2) [unfolded sync_inv_def]
  have rid: "sy_id run = rid" using find_run_mem [OF run(1)] by simp
  have runs: "sd_runs db2 = sd_runs db" and ext2: "extends db db2"
    using put_metric_result(1,2) [OF site] clear_day_result [where db = db1 and source = source and d = d] write_rows_result [OF rows]
    by (auto intro: extends_trans)
  have ext: "extends db db'"
    using ext2 by (rule extends_trans) (auto intro!: extends_same simp: db' set_latest_def update_sync_run_def)
  have db_runs: "sd_runs db' = sd_runs (update_sync_run rid ?f db)" by (simp add: db' set_latest_def update_sync_run_def runs)
  have view_run: "d = first_date run" "sy_workspace_id run = so_workspace_id source" "sy_source_id run = so_id source"
    using view run by (auto simp: lease_view_def first_date_def)
  have "has_total db1 (so_workspace_id source) (so_id source) d" using put_metric_result(4) [OF site] inv by simp
  moreover have "extends db1 db'" "list_all metric_ok (sd_metrics db1)"
    using clear_day_result [where db = db1 and source = source and d = d] write_rows_result [OF rows] put_metric_result(2) [OF site] inv
    by (auto simp: db' set_latest_def update_sync_run_def extends_def has_total_def)
  ultimately have today: "has_total db' (so_workspace_id source) (so_id source) d" by (simp add: extends_def)
  have "sync_run_inv db' (?f run)" if "sync_run_inv db run"
  proof -
    have "covered db' run" using run_inv_extends [OF that ext] inv by (simp add: sync_run_inv_def)
    then have "covered db' (?f run)"
      using today view_run by (auto simp: covered_def advance_run_def first_date_def le_less split: option.splits)
    then show ?thesis using ok run by (simp add: sync_run_inv_def advance_run_def)
  qed
  moreover have "issued env db' owner" using inv run find_run_mem extends_issued [OF ext] by blast
  ultimately have "sync_inv env db'"
    using assms(2) run by (intro sync_inv_update [OF _ db_runs ext])
      (simp_all add: source_key_def advance_run_def is_active_def)
  moreover have "undisturbed o' db db'" if "o' \<noteq> owner"
    by (rule undisturbed_update [OF db_runs]) (use that run rid in \<open>simp_all add: advance_run_def\<close>)
  moreover have "find_sync_run db' rid = Some (?f run)"
    using find_run_update [of rid ?f db rid] run rid db_runs by (simp add: advance_run_def find_sync_run_def)
  then have "lease_view db' rid owner = Some (Some d, sy_requested_start_date run, sy_requested_end_date run,
      sy_workspace_id run, sy_source_id run)"
    using run by (simp add: lease_view_def advance_run_def)
  ultimately show ?thesis using ext run by (auto simp: extends_def lease_view_def)
qed

end
