(* ===== verification/Search_Properties.thy ===== *)
theory Search_Properties
  imports Search_Facts
begin

text \<open>
  Properties of the synchronisation of search metrics over every interleaving of workers with requests,
  cancellations, crashes and changes of the configuration, and of its scheduler.
\<close>

section \<open>Requests and cancellations\<close>

lemma as_active_conflict_Inr: "as_active_conflict m = Inr x \<longleftrightarrow> m = Inr x"
  by (cases m rule: as_active_conflict.cases) auto

lemma insert_run_cases:
  "insert_sync_run env row rs = Inr ((v, inserted), rs') \<Longrightarrow>
     rs' = rs \<or> rs' = rs @ [row] \<and> run_row_ok row \<and> sy_id row \<notin> sy_id ` set rs"
  by (auto simp: insert_sync_run_def insert_or_replay_def list_ex_iff split: if_splits option.splits)

lemma store_run_cases:
  assumes "store_run env row fingerprint now db = Inr (r, db')"
  shows "sd_metrics db' = sd_metrics db \<and> sd_drawn db \<le> sd_drawn db' \<and> (sd_runs db' = sd_runs db \<or>
    sd_runs db' = sd_runs db @ [row] \<and> run_row_ok row \<and> sy_id row \<notin> sy_id ` set (sd_runs db))"
proof -
  from assms obtain v inserted rs where insert: "insert_sync_run env row (sd_runs db) = Inr ((v, inserted), rs)"
    by (auto simp: store_run_def res_bind_eq_Inr as_active_conflict_Inr)
  then have "sd_runs db' = rs \<and> sd_metrics db' = sd_metrics db \<and> sd_drawn db \<le> sd_drawn db'"
    using assms by (auto simp: store_run_def Let_def res_bind_eq_Inr split: option.splits if_splits)
  with insert_run_cases [OF insert] show ?thesis by auto
qed

lemma request_search_sync_cases:
  assumes "request_search_sync env caps w p key trigger actor start end now db = Inr (r, db')"
  shows "sd_metrics db' = sd_metrics db \<and> sd_drawn db \<le> sd_drawn db' \<and> (sd_runs db' = sd_runs db \<or>
    (\<exists>row. sd_runs db' = sd_runs db @ [row] \<and> run_row_ok row \<and> sy_id row \<notin> sy_id ` set (sd_runs db)
       \<and> sy_lease_owner row = None \<and> sy_status row = ''pending'' \<and> sy_progress_date row = None
       \<and> (\<forall>x\<in>set (sd_runs db). is_active x \<longrightarrow> source_key x \<noteq> source_key row)))"
proof -
  from assms consider "db' = db"
    | source s e where "get_active_run db w (so_id source) = None"
      "store_run env (new_run env db source w p key trigger actor (sync_fingerprint env trigger s e (so_id source)) s e now)
         (sync_fingerprint env trigger s e (so_id source)) now db = Inr (r, db')"
    by (auto simp: request_search_sync_def res_bind_eq_Inr Let_def split: option.splits if_splits)
  then show ?thesis
  proof cases
    case 2
    then have "source_key x \<noteq> (w, so_id source)" if "x \<in> set (sd_runs db)" "is_active x" for x
      using that by (auto simp: get_active_run_def find_None_iff source_key_def)
    with store_run_cases [OF 2(2)] show ?thesis by (auto simp: new_run_def source_key_def)
  qed simp
qed

lemma request_search_sync_keeps:
  assumes "request_search_sync env caps w p key trigger actor start end now db = Inr (r, db')" "sync_inv env db"
  shows "sync_inv env db'" "undisturbed o' db db'" "sd_drawn db \<le> sd_drawn db'"
proof -
  note cases = request_search_sync_cases [OF assms(1)]
  have ext: "extends db db'" using cases by (auto intro: extends_same)
  show "sd_drawn db \<le> sd_drawn db'" using cases by simp
  have "sync_inv env db' \<and> undisturbed o' db db'"
  proof (cases "sd_runs db' = sd_runs db")
    case True
    then show ?thesis using sync_inv_tables [OF assms(2) _ ext] by (simp add: undisturbed_same)
  next
    case False
    then obtain row where row: "sd_runs db' = sd_runs db @ [row]" "run_row_ok row" "sy_id row \<notin> sy_id ` set (sd_runs db)"
        "sy_lease_owner row = None" "sy_status row = ''pending''" "sy_progress_date row = None"
        "\<forall>x\<in>set (sd_runs db). is_active x \<longrightarrow> source_key x \<noteq> source_key row" using cases by auto
    have "sync_run_inv db' row" using row by (simp add: sync_run_inv_def covered_def)
    moreover have "sync_run_inv db' x \<and> (\<forall>o'. sy_lease_owner x = Some o' \<longrightarrow> issued env db' o')" if "x \<in> set (sd_runs db)" for x
      using that assms(2) run_inv_extends [OF _ ext] extends_issued [OF ext] by (simp add: sync_inv_def)
    ultimately have "sync_inv env db'"
      using assms(2) row ext by (auto simp: sync_inv_def extends_def)
    moreover have "find (\<lambda>r. sy_id r = rid) (xs @ [row]) = (case find (\<lambda>r. sy_id r = rid) xs of
        None \<Rightarrow> if sy_id row = rid then Some row else None | x \<Rightarrow> x)" for rid xs
      by (induction xs) auto
    then have "undisturbed o' db db'"
      using row by (auto simp: undisturbed_def lease_view_def find_sync_run_def split: option.splits if_splits)
    ultimately show ?thesis ..
  qed
  then show "sync_inv env db'" "undisturbed o' db db'" by auto
qed

lemma cancel_active_runs_keeps:
  assumes "sync_inv env db"
  shows "sync_inv env (cancel_active_runs w ids now db)" "undisturbed o' db (cancel_active_runs w ids now db)"
    "sd_drawn (cancel_active_runs w ids now db) = sd_drawn db"
proof -
  let ?db = "cancel_active_runs w ids now db"
  let ?g = "\<lambda>r. if sy_workspace_id r = w \<and> sy_source_id r \<in> set ids \<and> is_active r
       then r\<lparr>sy_status := ''cancelled'', sy_completed_at := Some now, sy_lease_owner := None,
              sy_lease_expires_at := None, sy_failure_category := None\<rparr> else r"
  have runs: "sd_runs ?db = map ?g (sd_runs db)" by (simp add: cancel_active_runs_def)
  have ext: "extends db ?db" by (rule extends_same) (simp_all add: cancel_active_runs_def)
  show "sd_drawn ?db = sd_drawn db" by (simp add: cancel_active_runs_def)
  show "sync_inv env ?db"
  proof (rule sync_inv_map [OF assms runs ext])
    fix r assume r: "r \<in> set (sd_runs db)"
    then have "sync_run_inv ?db r" using assms run_inv_extends [OF _ ext] by (simp add: sync_inv_def)
    then have "sync_run_inv ?db (?g r)"
    proof (cases "sy_workspace_id r = w \<and> sy_source_id r \<in> set ids \<and> is_active r")
      case True
      then show ?thesis using \<open>sync_run_inv ?db r\<close> by (simp add: sync_run_inv_def run_row_ok_def covered_def)
    qed presburger
    moreover have "sy_lease_owner r = Some o' \<Longrightarrow> issued env ?db o'" for o'
      using r assms extends_issued [OF ext] by (simp add: sync_inv_def)
    ultimately show "sy_id (?g r) = sy_id r \<and> source_key (?g r) = source_key r \<and> (is_active (?g r) \<longrightarrow> is_active r)
        \<and> sync_run_inv ?db (?g r) \<and> (\<forall>o'. sy_lease_owner (?g r) = Some o' \<longrightarrow> issued env ?db o')"
      by (simp add: source_key_def)
  qed
  have "find_sync_run ?db rid = map_option ?g (find_sync_run db rid)" for rid
    unfolding find_sync_run_def runs by (rule find_map_run) simp
  then show "undisturbed o' db ?db" by (auto simp: undisturbed_def lease_view_def split: option.splits if_splits)
qed

section \<open>Workers\<close>

fun phase_owner :: "phase \<Rightarrow> string option" where
  "phase_owner (Claimed_By owner) = Some owner"
| "phase_owner (Loaded owner _) = Some owner"
| "phase_owner (Syncing owner _ _ _) = Some owner"
| "phase_owner (Failing owner _) = Some owner"
| "phase_owner _ = None"

text \<open>While a worker holds the lease, the context it has read is up to date and the next day follows the progress.\<close>

definition context_ok :: "sync_context \<Rightarrow> bool" where
  "context_ok c \<longleftrightarrow> so_workspace_id (cx_source c) = sy_workspace_id (cx_run c) \<and> so_id (cx_source c) = sy_source_id (cx_run c)"

fun phase_ok :: "sync_db \<Rightarrow> uuid \<Rightarrow> phase \<Rightarrow> bool" where
  "phase_ok db rid (Loaded owner c) \<longleftrightarrow> context_ok c \<and>
     (\<forall>p s e w i. lease_view db rid owner = Some (p, s, e, w, i) \<longrightarrow> p = sy_progress_date (cx_run c)
        \<and> s = sy_requested_start_date (cx_run c) \<and> e = sy_requested_end_date (cx_run c)
        \<and> w = sy_workspace_id (cx_run c) \<and> i = sy_source_id (cx_run c))"
| "phase_ok db rid (Syncing owner c grant d) \<longleftrightarrow>
     (\<forall>p s e w i. lease_view db rid owner = Some (p, s, e, w, i) \<longrightarrow> d = (case p of None \<Rightarrow> s | Some p \<Rightarrow> p + 1)
        \<and> e = sy_requested_end_date (cx_run c) \<and> w = so_workspace_id (cx_source c) \<and> i = so_id (cx_source c))"
| "phase_ok db rid _ \<longleftrightarrow> True"

lemma phase_ok_undisturbed:
  "phase_ok db rid ph \<Longrightarrow> (\<And>o'. phase_owner ph = Some o' \<Longrightarrow> undisturbed o' db db') \<Longrightarrow> phase_ok db' rid ph"
  by (cases ph) (auto simp: undisturbed_def)

definition step_result :: "sync_env \<Rightarrow> phase \<Rightarrow> sync_db \<Rightarrow> uuid \<Rightarrow> phase \<Rightarrow> sync_db \<Rightarrow> bool" where
  "step_result env ph db rid ph' db' \<longleftrightarrow> sync_inv env db' \<and> phase_ok db' rid ph' \<and> sd_drawn db \<le> sd_drawn db'
     \<and> (\<forall>o'. phase_owner ph' = Some o' \<longrightarrow> phase_owner ph = Some o' \<or> o' = se_uuid env (sd_drawn db) \<and> issued env db' o')
     \<and> (\<forall>o'. phase_owner ph \<noteq> Some o' \<longrightarrow> o' \<noteq> se_uuid env (sd_drawn db) \<longrightarrow> undisturbed o' db db')"

lemma loaded_context_ok:
  assumes "load_processing_context db rid = Some c"
  shows "phase_ok db rid (Loaded owner c)"
  using assms by (auto simp: load_processing_context_def lease_view_def context_ok_def source_of_run_def find_Some_iff
      split: option.splits if_splits)

lemma usable_grant_tables:
  "usable_grant env now c p actor db = Inr (grant, db') \<Longrightarrow>
     sd_runs db' = sd_runs db \<and> sd_metrics db' = sd_metrics db \<and> sd_drawn db' = sd_drawn db"
  unfolding usable_grant_def by (auto simp: res_bind_eq_Inr Let_def split: if_splits option.splits)

lemma sync_day_persists:
  "sync_day env providers now rid owner c grant d db = Some (Inr db') \<Longrightarrow>
     \<exists>totals rows truncated. persist_day env now rid owner (cx_source c) d totals rows truncated db = Inr db'"
  unfolding sync_day_def by (auto simp: Let_def split: option.splits sum.splits)

lemma last_day_reached:
  assumes "sync_inv env db" "phase_ok db rid (Syncing owner c grant d)" "\<not> d \<le> sy_requested_end_date (cx_run c)"
    and view: "lease_view db rid owner = Some (p, s, e, w, i)"
  shows "p = Some e"
proof -
  from view obtain r where r: "find_sync_run db rid = Some r" "p = sy_progress_date r" "s = sy_requested_start_date r"
      "e = sy_requested_end_date r" by (auto simp: lease_view_def split: option.splits if_splits)
  then have "run_row_ok r" using assms(1) find_run_mem by (auto simp: sync_inv_def sync_run_inv_def)
  then have "s \<le> e" "pred_option (\<lambda>p. p \<le> e) p" unfolding run_row_ok_def r by (auto simp: pred_option_def)
  moreover have "d = (case p of None \<Rightarrow> s | Some p \<Rightarrow> p + 1)" "e < d" using assms(2,3) view by auto
  ultimately show ?thesis by (cases p) auto
qed

lemma worker_step_result:
  assumes step: "worker_step env providers now rid ph db = Some (ph', db')" and inv: "sync_inv env db"
    and ok: "phase_ok db rid ph"
  shows "step_result env ph db rid ph' db'"
proof (cases ph)
  case Starting
  let ?owner = "se_uuid env (sd_drawn db)" and ?db = "db\<lparr>sd_drawn := Suc (sd_drawn db)\<rparr>"
  have ext: "extends db ?db" by (rule extends_same) simp_all
  have inv1: "sync_inv env ?db" by (rule sync_inv_tables [OF inv _ ext]) simp
  have issued: "issued env ?db ?owner" by (auto simp: issued_def)
  have same: "undisturbed o' db ?db" for o' by (rule undisturbed_same) simp
  from step Starting consider e where "ph' = Raised e" "db' = ?db"
    | claimed where "claim_sync_run env now rid ?owner ?db = Inr (claimed, db')" "ph' = (if claimed then Claimed_By ?owner else Refused)"
    by (auto simp: Let_def split: sum.splits)
  then show ?thesis
  proof cases
    case 1
    then show ?thesis using inv1 same by (simp add: step_result_def)
  next
    case 2
    note result = claim_run_result [OF 2(1) inv1 issued]
    have "undisturbed o' db db'" if "o' \<noteq> ?owner" for o'
      using result(3) [OF that] same by (auto simp: undisturbed_def)
    moreover have "issued env db' ?owner" using issued result(2) by (simp add: issued_def)
    ultimately show ?thesis using result(1,2) 2(2) by (simp add: step_result_def)
  qed
next
  case (Claimed_By owner)
  then show ?thesis using step inv loaded_context_ok [of db rid _ owner]
    by (auto simp: step_result_def undisturbed_same split: option.splits if_splits simp del: phase_ok.simps)
      simp_all
next
  case (Loaded owner c)
  show ?thesis
  proof (cases "\<exists>e. ph' = Failing owner e \<and> db' = db")
    case True
    then show ?thesis using Loaded inv by (auto simp: step_result_def undisturbed_same)
  next
    case False
    then obtain p grant where "usable_grant env now (cx_connection c) p (so_created_by (cx_source c)) db = Inr (grant, db')"
      and ph': "ph' = Syncing owner c grant (first_date (cx_run c))"
      using step Loaded by (auto split: sum.splits)
    note tables = usable_grant_tables [OF this(1)]
    have "sync_inv env db'" using inv by (rule sync_inv_tables) (use tables in \<open>auto intro: extends_same\<close>)
    moreover have "phase_ok db' rid ph'"
      using ok tables unfolding ph' Loaded by (auto simp: lease_view_def find_sync_run_def first_date_def context_ok_def)
    ultimately show ?thesis using tables ph' Loaded by (simp add: step_result_def undisturbed_same)
  qed
next
  case (Syncing owner c grant d)
  consider (failed) e where "ph' = Failing owner e" "db' = db"
    | (day) "sync_day env providers now rid owner c grant d db = Some (Inr db')" "ph' = Syncing owner c grant (d + 1)"
    | (ended) "\<not> d \<le> sy_requested_end_date (cx_run c)" "ph' = Finished ''succeeded''" "db' = succeed_run now rid owner db"
    using step Syncing by (auto split: if_splits option.splits sum.splits)
  then show ?thesis
  proof cases
    case failed
    then show ?thesis using Syncing inv by (simp add: step_result_def undisturbed_same)
  next
    case day
    obtain totals rows truncated where
      "persist_day env now rid owner (cx_source c) d totals rows truncated db = Inr db'"
      using sync_day_persists [OF day(1)] by blast
    note result = persist_day_result [OF this inv]
    have view: "d = (case p of None \<Rightarrow> s | Some p \<Rightarrow> p + 1) \<and> w = so_workspace_id (cx_source c) \<and> i = so_id (cx_source c)
        \<and> e = sy_requested_end_date (cx_run c)" if "lease_view db rid owner = Some (p, s, e, w, i)" for p s e w i
      using ok that unfolding Syncing by simp
    have result: "sync_inv env db'" "sd_drawn db \<le> sd_drawn db'" "\<And>o'. o' \<noteq> owner \<Longrightarrow> undisturbed o' db db'"
      and after: "\<And>p s e w i. lease_view db' rid owner = Some (p, s, e, w, i) \<Longrightarrow>
         p = Some d \<and> (\<exists>p'. lease_view db rid owner = Some (p', s, e, w, i))"
      using result view by blast+
    have "phase_ok db' rid ph'" unfolding day(2) using after view by fastforce
    with result show ?thesis by (simp add: step_result_def Syncing day(2))
  next
    case ended
    have "p = Some e" if "lease_view db rid owner = Some (p, s, e, w, i)" for p s e w i
      using last_day_reached [OF inv _ ended(1) that] ok Syncing by blast
    from succeed_run_result [OF inv this] show ?thesis by (simp add: ended step_result_def)
  qed
next
  case (Failing owner e)
  obtain category terminal expire where db': "db' = finish_failure now rid owner category terminal expire db"
    and ph': "phase_owner ph' = None" "phase_ok db' rid ph'"
    using step Failing by (auto simp: handle_error_def split: if_splits py_error.splits)
  show ?thesis using finish_failure_result [OF inv] ph' by (simp add: step_result_def db')
qed (use step inv in \<open>auto simp: step_result_def undisturbed_same split: option.splits if_splits\<close>)

section \<open>Every interleaving\<close>

definition pool_inv :: "sync_env \<Rightarrow> sync_pool \<Rightarrow> sync_db \<Rightarrow> bool" where
  "pool_inv env pool db \<longleftrightarrow> (\<forall>i rid ph. pool i = Some (rid, ph) \<longrightarrow> phase_ok db rid ph
     \<and> (\<forall>o'. phase_owner ph = Some o' \<longrightarrow> issued env db o'
          \<and> (\<forall>j rid' ph'. pool j = Some (rid', ph') \<longrightarrow> phase_owner ph' = Some o' \<longrightarrow> j = i)))"

lemma pool_inv_tables:
  assumes "pool_inv env pool db" "\<And>o'. undisturbed o' db db'" "sd_drawn db \<le> sd_drawn db'"
  shows "pool_inv env pool db'"
proof -
  have "phase_ok db' rid ph" if "phase_ok db rid ph" for rid ph using phase_ok_undisturbed that assms(2) by blast
  then show ?thesis using assms(1) issued_mono [OF assms(3), of env] unfolding pool_inv_def by meson
qed

lemma pool_inv_quiet:
  assumes "pool_inv env pool db" "phase_owner ph = None" "phase_ok db rid ph"
  shows "pool_inv env (pool(i \<mapsto> (rid, ph))) db"
  using assms unfolding pool_inv_def by (auto split: if_splits)

lemma pool_inv_work:
  assumes pool: "pool_inv env pool db" and i: "pool i = Some (rid, ph)" and result: "step_result env ph db rid ph' db'"
    and inj: "inj (se_uuid env)"
  shows "pool_inv env (pool(i \<mapsto> (rid, ph'))) db'"
proof -
  have fresh: "o' \<noteq> se_uuid env (sd_drawn db)" if "issued env db o'" for o'
    using that inj by (auto simp: issued_def inj_eq)
  have grown: "issued env db' o'" if "issued env db o'" for o'
    using issued_mono that result unfolding step_result_def by blast
  have others: "phase_ok db' rid' x \<and> (\<forall>o'. phase_owner x = Some o' \<longrightarrow> issued env db' o' \<and> phase_owner ph \<noteq> Some o'
      \<and> o' \<noteq> se_uuid env (sd_drawn db))" if j: "pool j = Some (rid', x)" "j \<noteq> i" for j rid' x
  proof -
    have x: "phase_ok db rid' x" "\<And>o'. phase_owner x = Some o' \<Longrightarrow> issued env db o' \<and> phase_owner ph \<noteq> Some o'"
      using pool i j unfolding pool_inv_def by blast+
    have "undisturbed o' db db'" if "phase_owner x = Some o'" for o'
      using x(2) [OF that] fresh result by (simp add: step_result_def)
    then show ?thesis using x fresh grown phase_ok_undisturbed by blast
  qed
  have own: "issued env db' o' \<and> (phase_owner ph = Some o' \<or> o' = se_uuid env (sd_drawn db))" if "phase_owner ph' = Some o'" for o'
    using that result pool i grown unfolding step_result_def pool_inv_def by blast
  have "phase_ok db' rid ph'" using result by (simp add: step_result_def)
  then show ?thesis
    unfolding pool_inv_def using others own pool by (auto split: if_splits simp: pool_inv_def)
qed

lemma sync_step_inv:
  assumes "sync_step env s s'" "inj (se_uuid env)" "sync_inv env (snd s) \<and> pool_inv env (fst s) (snd s)"
  shows "sync_inv env (snd s') \<and> pool_inv env (fst s') (snd s')"
  using assms
proof cases
  case (work pool i rid ph providers now db ph' db')
  then have "phase_ok db rid ph" using assms(3) by (auto simp: pool_inv_def)
  then have "step_result env ph db rid ph' db'" using worker_step_result work assms(3) by simp
  with pool_inv_work [of env pool db i rid ph ph' db'] show ?thesis using work assms by (simp add: step_result_def)
next
  case (request_sync caps workspace_id product_id key trigger actor_id start_date end_date now db r db' pool)
  then show ?thesis
    using request_search_sync_keeps [OF request_sync(3)] pool_inv_tables [of env pool db db'] assms(3) by simp
next
  case (cancel pool db workspace_id source_ids now)
  then show ?thesis
    using cancel_active_runs_keeps [of env db] pool_inv_tables [of env pool db] assms(3) by simp
next
  case (configure pool db sources connections properties site_pages crawl_results products)
  then show ?thesis
    using assms(3) by (auto intro!: sync_inv_tables [of env db] extends_same pool_inv_tables [of env pool db] undisturbed_same)
qed (auto intro: pool_inv_quiet)

lemma sync_reachable_inv:
  assumes "(sync_step env)\<^sup>*\<^sup>* (Map.empty, db0) s" "inj (se_uuid env)" "sync_inv env db0"
  shows "sync_inv env (snd s) \<and> pool_inv env (fst s) (snd s)"
  using assms(1)
proof (induction rule: rtranclp_induct)
  case base
  then show ?case using assms(3) by (simp add: pool_inv_def)
next
  case (step s s')
  then show ?case using sync_step_inv assms(2) by blast
qed


section \<open>A worker ends\<close>

fun is_final :: "phase \<Rightarrow> bool" where
  "is_final (Finished _) \<longleftrightarrow> True"
| "is_final (Raised _) \<longleftrightarrow> True"
| "is_final Crashed \<longleftrightarrow> True"
| "is_final _ \<longleftrightarrow> False"

fun stage :: "phase \<Rightarrow> nat" where
  "stage Starting = 5"
| "stage (Claimed_By _) = 4"
| "stage (Loaded _ _) = 3"
| "stage (Syncing _ _ _ _) = 2"
| "stage (Failing _ _) = 1"
| "stage Refused = 1"
| "stage _ = 0"

fun days_left :: "phase \<Rightarrow> nat" where
  "days_left (Syncing _ c _ d) = nat (sy_requested_end_date (cx_run c) - d + 1)"
| "days_left _ = 0"

definition phase_order :: "(phase \<times> phase) set" where
  "phase_order = measures [stage, days_left]"

lemma wf_phase_order [simp]: "wf phase_order"
  by (simp add: phase_order_def)

lemma worker_step_descends:
  "worker_step env providers now rid ph db = Some (ph', db') \<Longrightarrow> (ph', ph) \<in> phase_order"
  by (cases ph) (auto simp: phase_order_def Let_def handle_error_def
      split: sum.splits option.splits if_splits py_error.splits)

text \<open>With Google as its provider a worker that is not finished can always go on.\<close>

fun of_google :: "phase \<Rightarrow> bool" where
  "of_google (Syncing _ c _ _) \<longleftrightarrow> so_provider (cx_source c) = ''google_search''"
| "of_google _ \<longleftrightarrow> True"

lemma google_pages_end:
  assumes "google_registry post renew key = Some p"
  shows "\<exists>r. fetch_query_pages p grant property_id d = Some r"
proof -
  have "performance_of_day p grant property_id d [''date'', ''query'', ''page''] =
      (\<lambda>start limit. google_query_performance google_capabilities post grant
         \<lparr>rq_property_id = property_id, rq_start_date = d, rq_end_date = d, rq_dimensions = [''date'', ''query'', ''page''],
          rq_start_row = start, rq_row_limit = limit\<rparr>)"
    using assms by (auto simp: google_registry_def performance_of_day_def fun_eq_iff split: if_splits)
  moreover have "1 \<le> cp_request_page_limit (pv_capabilities p)"
    using assms by (auto simp: google_registry_def google_capabilities_def split: if_splits)
  ultimately show ?thesis using google.pages_end by (simp add: fetch_query_pages_def)
qed

lemma google_worker_step:
  assumes "\<not> is_final ph" "of_google ph"
  shows "\<exists>ph' db'. worker_step env (google_registry post renew) now rid ph db = Some (ph', db') \<and> of_google ph'"
proof (cases ph)
  case Starting
  then show ?thesis by (auto simp: Let_def split: sum.splits)
next
  case (Syncing owner c grant d)
  then obtain p where p: "google_registry post renew (so_provider (cx_source c)) = Some p"
    using assms by (simp add: google_registry_def)
  then have "\<exists>r. sync_day env (google_registry post renew) now rid owner c grant d db = Some r"
    using google_pages_end [OF p, of grant "vp_provider_property_id (cx_property c)" d]
    by (auto simp: sync_day_def Let_def split: sum.splits)
  then show ?thesis using Syncing assms by (auto split: sum.splits)
qed (use assms in \<open>auto simp: handle_error_def google_registry_def registered_def split: option.splits sum.splits py_error.splits\<close>)

text \<open>C24. Processing a run with Google as the provider ends, whatever Google answers, whatever
  other processes do to the database between its transactions and however the clock moves: after finitely many
  transactions the call has returned or raised.\<close>

theorem search_worker_ends:
  "\<exists>n. is_final (fst (run_worker env rid
     (map (\<lambda>i. (google_registry (post i) (renew i), now i, others i)) [0..<n]) Starting db))"
proof -
  have "\<exists>n. is_final (fst (run_worker env rid
     (map (\<lambda>i. (google_registry (post i) (renew i), now i, others i)) [0..<n]) ph db))" if "of_google ph" for ph
    using wf_phase_order that
  proof (induction ph arbitrary: post renew now others db rule: wf_induct_rule)
    case (less ph)
    show ?case
    proof (cases "is_final ph")
      case True
      then show ?thesis by (intro exI [of _ 0]) simp
    next
      case False
      obtain ph' db' where step: "worker_step env (google_registry (post 0) (renew 0)) (now 0) rid ph (others 0 db)
          = Some (ph', db')" and "of_google ph'" using google_worker_step [OF False less.prems] by blast
      from less.IH [OF worker_step_descends [OF step] this(2), of "\<lambda>i. post (Suc i)" "\<lambda>i. renew (Suc i)" "\<lambda>i. now (Suc i)"
          "\<lambda>i. others (Suc i)" db']
      obtain n where "is_final (fst (run_worker env rid (map (\<lambda>i. (google_registry (post (Suc i)) (renew (Suc i)),
          now (Suc i), others (Suc i))) [0..<n]) ph' db'))" by blast
      then show ?thesis using step by (intro exI [of _ "Suc n"]) (simp add: map_upt_Suc del: upt_Suc)
    qed
  qed
  then show ?thesis by simp
qed

section \<open>The scheduler\<close>

text \<open>A request of the scheduler for a source that is too far behind is refused.\<close>

lemma stale_request_refused:
  assumes "get_active_search_source db (so_workspace_id s) (so_product_id s) = Some s"
    and "so_latest_successful_data_date s = Some latest" "0 \<le> cp_finalization_lag_days caps"
    and "key \<noteq> []" "length key \<le> 255"
    and "max (se_local_date env (cp_reporting_timezone caps) (so_selected_at s)) (latest - 6) + max_sync_days
      \<le> se_local_date env (cp_reporting_timezone caps) now - cp_finalization_lag_days caps"
  shows "request_search_sync env caps (so_workspace_id s) (so_product_id s) key ''scheduled'' actor None None now db
    = Inl (bad_request_error ''search_sync_window_too_large'')"
proof -
  let ?today = "se_local_date env (cp_reporting_timezone caps) now"
  let ?start = "max (se_local_date env (cp_reporting_timezone caps) (so_selected_at s)) (latest - 6)"
  have "requested_window env caps ''scheduled'' s None None now = Inr (?start, ?today - cp_finalization_lag_days caps)"
    using assms(2,3,6)
    by (auto simp: requested_window_def search_sync_window_def correction_overlap_days_def max_sync_days_def Let_def)
  then show ?thesis using assms(1,4,5,6) by (simp add: request_search_sync_def max_sync_days_def)
qed

text \<open>Let the first source of the daily schedule have been selected at least 90 days
  before the last final day and its latest data lie at least 84 days before that day. Then the schedule raises: the
  window exceeds the 90 days that a request accepts, the refusal is not one of those that are skipped, and none of the
  other sources is scheduled.\<close>

theorem stale_source_blocks_schedule:
  assumes "schedulable db = s # rest" "providers (so_provider s) = Some p"
    and "find (\<lambda>x. so_id x = so_id s) (sd_sources db) = Some s"
    and "get_active_search_source db (so_workspace_id s) (so_product_id s) = Some s"
    and "so_latest_successful_data_date s = Some latest" "0 \<le> cp_finalization_lag_days (pv_capabilities p)"
    and "length (schedule_key env (pv_capabilities p) s now) \<le> 255"
    and "max (se_local_date env (cp_reporting_timezone (pv_capabilities p)) (so_selected_at s)) (latest - 6) + max_sync_days
      \<le> se_local_date env (cp_reporting_timezone (pv_capabilities p)) now - cp_finalization_lag_days (pv_capabilities p)"
  shows "schedule env providers now db = (Inl (bad_request_error ''search_sync_window_too_large''), db)"
proof -
  have "schedule_key env (pv_capabilities p) s now \<noteq> []" by (simp add: schedule_key_def)
  from stale_request_refused [OF assms(4-6) this assms(7,8), of None] show ?thesis
    using assms(1-3) by (simp add: schedule_def registered_def)
qed

section \<open>A concrete synchronisation\<close>

text \<open>A call of \<open>process\<close> that nobody interrupts is a sequence of steps.\<close>

lemma run_worker_steps:
  assumes "pool i = Some (rid, ph)" "run_worker env rid (map (\<lambda>now. (providers, now, \<lambda>db. db)) nows) ph db = (ph', db')"
  shows "(sync_step env)\<^sup>*\<^sup>* (pool, db) (pool(i \<mapsto> (rid, ph')), db')"
  using assms
proof (induction nows arbitrary: pool ph db)
  case Nil
  then have "pool(i \<mapsto> (rid, ph')) = pool" by auto
  with Nil show ?case by simp
next
  case (Cons now nows)
  show ?case
  proof (cases "worker_step env providers now rid ph db")
    case None
    with Cons.prems have "pool(i \<mapsto> (rid, ph')) = pool" "db' = db" by auto
    then show ?thesis by simp
  next
    case (Some r)
    obtain ph1 db1 where r: "r = (ph1, db1)" by (cases r)
    then have "sync_step env (pool, db) (pool(i \<mapsto> (rid, ph1)), db1)" using Cons.prems(1) Some by (intro work) auto
    moreover have "(sync_step env)\<^sup>*\<^sup>* (pool(i \<mapsto> (rid, ph1)), db1) ((pool(i \<mapsto> (rid, ph1)))(i \<mapsto> (rid, ph')), db')"
      by (rule Cons.IH) (use Cons.prems(2) Some r in simp_all)
    ultimately show ?thesis unfolding fun_upd_upd by (rule converse_rtranclp_into_rtranclp)
  qed
qed

definition demo_env :: sync_env where
  "demo_env = \<lparr>se_uuid = (\<lambda>n. ''id'' @ replicate n CHR ''x''), se_sha256 = (\<lambda>s. s), se_normalize = Some,
     se_local_date = (\<lambda>_ t. t div day_us),
     se_open = (\<lambda>_ _. Some \<lparr>ag_access_token = ''a'', ag_refresh_token = None, ag_expires_at = None, ag_scopes = [],
       ag_token_type = ''Bearer''\<rparr>), se_seal = (\<lambda>_. (''c'', ''v'')), se_dialect = ''postgresql'',
     se_lease_duration = lease_duration_default\<rparr>"

definition demo_source :: "uuid \<Rightarrow> uuid \<Rightarrow> date option \<Rightarrow> sync_source" where
  "demo_source s p latest = \<lparr>so_id = s, so_workspace_id = ''w'', so_product_id = p, so_integration_connection_id = ''c'',
     so_status = ''active'', so_deleted_at = None, so_latest_successful_data_date = latest, so_property_id = ''y'',
     so_website_source_id = ''o'', so_provider = ''google_search'', so_selected_at = 10 * day_us, so_created_by = None\<rparr>"

definition demo_db :: "sync_source list \<Rightarrow> sync_db" where
  "demo_db sources = \<lparr>sd_sources = sources, sd_runs = [],
     sd_connections = [\<lparr>ic_id = ''c'', ic_workspace_id = ''w'', ic_status = ''active'', ic_deleted_at = None,
       ic_revoked_at = None, ic_credentials_ciphertext = Some ''c'', ic_credential_key_version = Some ''v'',
       ic_scopes = [], ic_token_expires_at = None, ic_updated_by = None\<rparr>],
     sd_properties = [\<lparr>vp_id = ''y'', vp_workspace_id = ''w'', vp_integration_connection_id = ''c'',
       vp_provider_property_id = ''site''\<rparr>],
     sd_metrics = [], sd_queries = [], sd_pages = [], sd_site_pages = [], sd_crawl_results = [], sd_products = [],
     sd_outbox = [], sd_drawn = 0\<rparr>"

text \<open>Google answers with one row for the site and one for a query on a page.\<close>

definition demo_post :: "search_grant \<Rightarrow> performance_request \<Rightarrow> performance_row list res" where
  "demo_post grant request = Inr [\<lparr>pr_date = rq_start_date request,
     pr_query = (if rq_dimensions request = [''date''] then None else Some ''acme''),
     pr_page = (if rq_dimensions request = [''date''] then None else Some ''https://acme/''),
     pr_clicks = 2, pr_impressions = 30, pr_position = 7 / 3\<rparr>]"

definition demo_providers :: "string \<Rightarrow> search_provider option" where
  "demo_providers = google_registry demo_post (\<lambda>grant. Inr grant)"

definition requested_db :: sync_db where
  "requested_db = snd (projr (request_search_sync demo_env google_capabilities ''w'' ''p'' ''key'' ''manual'' None
     (Some 20) (Some 21) (30 * day_us) (demo_db [demo_source ''s'' ''p'' None])))"

definition synced_db :: sync_db where
  "synced_db = snd (run_worker demo_env ''id'' (map (\<lambda>now. (demo_providers, now, \<lambda>db. db)) [40, 41, 42, 43, 44, 45])
     Starting requested_db)"

lemma inj_demo_uuid: "inj (se_uuid demo_env)"
  by (rule injI) (auto simp: demo_env_def dest: arg_cong [of _ _ length])

lemma demo_inv: "sync_inv demo_env (demo_db sources)"
  by (simp add: sync_inv_def demo_db_def)

lemma demo_reached: "\<exists>pool. (sync_step demo_env)\<^sup>*\<^sup>* (Map.empty, demo_db [demo_source ''s'' ''p'' None]) (pool, synced_db)"
proof -
  let ?db = "demo_db [demo_source ''s'' ''p'' None]"
  let ?req = "request_search_sync demo_env google_capabilities ''w'' ''p'' ''key'' ''manual'' None (Some 20) (Some 21)
     (30 * day_us) ?db"
  let ?w = "run_worker demo_env ''id'' (map (\<lambda>now. (demo_providers, now, \<lambda>db. db)) [40, 41, 42, 43, 44, 45])
     Starting requested_db"
  have "is_ok ?req" by code_simp
  then have "?req = Inr (fst (projr ?req), requested_db)" by (auto simp: is_ok_iff requested_db_def)
  then have 1: "sync_step demo_env (Map.empty, ?db) (Map.empty, requested_db)" by (rule request_sync)
  have 2: "sync_step demo_env (Map.empty, requested_db) (Map.empty(0 \<mapsto> (''id'', Starting)), requested_db)" by (rule spawn) simp
  have "?w = (fst ?w, synced_db)" by (simp add: synced_db_def)
  from run_worker_steps [OF _ this, of "Map.empty(0 \<mapsto> (''id'', Starting))" 0]
  have "(sync_step demo_env)\<^sup>*\<^sup>* (Map.empty(0 \<mapsto> (''id'', Starting)), requested_db)
    ((Map.empty(0 \<mapsto> (''id'', Starting)))(0 \<mapsto> (''id'', fst ?w)), synced_db)" by simp
  with 1 2 show ?thesis by (meson converse_rtranclp_into_rtranclp)
qed


text \<open>A source with data up to day 100 blocks its neighbour on day 200.\<close>

theorem stale_source_blocks_schedule_witness:
  "schedule demo_env demo_providers (200 * day_us) (demo_db [demo_source ''s'' ''p'' (Some 100), demo_source ''t'' ''q'' None])
    = (Inl (bad_request_error ''search_sync_window_too_large''),
       demo_db [demo_source ''s'' ''p'' (Some 100), demo_source ''t'' ''q'' None])"
proof -
  let ?s = "demo_source ''s'' ''p'' (Some 100)" and ?t = "demo_source ''t'' ''q'' None"
  let ?p = "the (demo_providers ''google_search'')"
  have list: "schedulable (demo_db [?s, ?t]) = ?s # [?t]" by (simp add: schedulable_def demo_db_def demo_source_def)
  have p: "demo_providers (so_provider ?s) = Some ?p"
    by (simp add: demo_providers_def google_registry_def demo_source_def)
  have found: "find (\<lambda>x. so_id x = so_id ?s) (sd_sources (demo_db [?s, ?t])) = Some ?s"
    "get_active_search_source (demo_db [?s, ?t]) (so_workspace_id ?s) (so_product_id ?s) = Some ?s"
    "so_latest_successful_data_date ?s = Some 100"
    by (simp_all add: demo_db_def demo_source_def get_active_search_source_def)
  have "0 \<le> cp_finalization_lag_days (pv_capabilities ?p)"
    "length (schedule_key demo_env (pv_capabilities ?p) ?s (200 * day_us)) \<le> 255"
    "max (se_local_date demo_env (cp_reporting_timezone (pv_capabilities ?p)) (so_selected_at ?s)) (100 - 6) + max_sync_days
      \<le> se_local_date demo_env (cp_reporting_timezone (pv_capabilities ?p)) (200 * day_us)
          - cp_finalization_lag_days (pv_capabilities ?p)" by code_simp+
  then show ?thesis by (rule stale_source_blocks_schedule [where providers = demo_providers and s = ?s and p = ?p, OF list p found])
qed

end
