(* ===== verification/Spec2Isabelle.thy ===== *)
theory Spec2Isabelle
  imports Operator_Store_Facts Outbox_Facts Session_Facts Growth_Properties Feedback_Properties Profile_Facts
    Edit_Distance Draft_Properties Search_Properties
begin

text \<open>
  A verification of the ShipTawk backend, the Python program under \<open>src/app\<close>. The program watches a product
  (search data, a crawl of its website, shipped work), detects marketing opportunities, lets users decide on
  them, prepares assets with a language model, and publishes approved posts. It is a FastAPI application over
  a relational database; all its state is in tables.

  \<^bold>\<open>Parts of the program and how they interact.\<close>

  \<^enum> Search metrics (\<open>modules/search_intelligence\<close>) are read from Google day by day into the tables that detection
    reads, by workers that hold a lease on a synchronisation run.
  \<^enum> Product profiles (\<open>modules/products\<close>) are drafted, approved and versioned by users. The approved version
    is part of every detection input.
  \<^enum> A detection run (\<open>workflows/opportunity_detection.py\<close>) is requested by a user or started by the weekly
    workflow, claimed by a worker under a lease, and carried out in several transactions: the detection input
    is assembled from the tables, hashed and stored as the snapshot of the run; the detectors, the collapsing
    policies and the history decide which findings are accepted; evaluations, opportunities and evidence are
    stored together and the run is completed.
  \<^enum> Users comment on opportunities or dismiss them. A dismissal starts a cooldown that later detections
    read as history.
  \<^enum> The weekly growth loop (\<open>services/weekly_growth_service.py\<close>) selects opportunities into a plan of actions,
    records decisions, has assets prepared and approved revision by revision, turns an approved X asset into
    a draft, moves actions through their states and measures their effect.
  \<^enum> Drafts (\<open>modules/drafts\<close>) are edited, approved or rejected by users and posted on X; an attempt is committed before
    the network call and settled after it.
  \<^enum> Commands write product events and outbox events in their own transaction; a delivery workflow claims
    outbox events under a lease and hands them to the job runner.
  \<^enum> Browser sessions (\<open>modules/identity\<close>) are families of rotating refresh tokens with CSRF tokens.

  \<^bold>\<open>Conventions.\<close> A Python exception is an \<open>Inl\<close> value of the result type \<open>res\<close>; every raise and early return is
  a branch. A table is a list of rows in insertion order, a row a record with the columns that the code reads
  or writes; constraints of a table that can fail are checked where rows are added, foreign keys are not
  modelled. A function that stands for one transaction returns the database after its commit, and an error
  leaves the database as it was. Where the code commits several times, the definition takes the steps of the
  other processes between two transactions as an argument (\<open>others\<close>), and the readings of the clock as well.
  Enumerations are datatypes with their texts, UUIDs and digests are strings, \<open>Decimal\<close> is a rational with the
  rounding of the context where it matters, instants are microseconds as integers, \<open>int\<close> is unbounded as in
  Python. All definitions are executable and total; recursion is structural or by a measure, apart from one paging
  loop that is shown to end, so there is no fuel and no bound on the size of the data.

  \<^bold>\<open>Parameters.\<close> Code outside \<open>src\<close> and sources of chance are arguments: SHA-256 and the digests of payloads
  that Python's \<open>json\<close> renders, \<open>str.casefold\<close>, the JSON dump and validation of a detection input (pydantic),
  the sequence of drawn UUIDs, the SQL dialect, calendar days in a time zone, the answers of Google, the transport
  of the outbox, the order in which Python iterates over a set (\<open>wf_pick\<close>),
  the answers of X, the decryption of credentials.
  Hypotheses on them are stated where they are used, such as injectivity of the drawn UUIDs; each theorem that has one comes with a concrete instance.

  \<^bold>\<open>Theories.\<close>

  \<^item> \<open>Prelude\<close>, \<open>Decimals\<close>, \<open>Times\<close>: results, list and text functions of Python, decimal arithmetic (locale
    \<open>rounding_context\<close>), dates and aware or naive datetimes.
  \<^item> \<open>Opportunity_Types\<close> (\<open>enums/operator_enum.py\<close>, \<open>schemas/opportunity_detection_schema.py\<close>), \<open>Scoring\<close>
    (\<open>policies/scoring_policy.py\<close>, \<open>detector_score_policy.py\<close>), \<open>Eligibility\<close> (\<open>data_quality_policy.py\<close>,
    \<open>cooldown_policy.py\<close>), \<open>Identity\<close> (\<open>identity_policy.py\<close>): data contracts and policies of the engine.
  \<^item> \<open>Detectors\<close>, \<open>Detector_Facts\<close>: the six functions of \<open>operator/detectors\<close> and the contract of a detector (locale
    \<open>opportunity_detector\<close>, interpreted for each of them).
  \<^item> \<open>Ranking\<close>, \<open>Ranking_Facts\<close>, \<open>Lexical_Match\<close>: \<open>ranking_policy.py\<close>, \<open>near_duplicate_policy.py\<close>,
    \<open>lexical_match_policy.py\<close>; the locale \<open>collapse_stage\<close> is what the three collapsing stages have in common.
  \<^item> \<open>Detection\<close>: \<open>evaluate_detection_input\<close>. The engine is total on valid inputs whose texts fit, accepts no duplicates,
    accepts only findings that pass the gates and that the history does not block, and does not lose all findings.
  \<^item> \<open>Input_Repository\<close>, \<open>Snapshots\<close>, \<open>Snapshot_Facts\<close>: \<open>opportunity_input_repository.py\<close> and
    \<open>opportunity_snapshot_service.py\<close>. An assembled input is valid, its hash does not depend on the order of
    unordered collections, and a run keeps its first snapshot.
  \<^item> \<open>Search_Sync\<close>, \<open>Search_Worker\<close>, \<open>Search_Facts\<close>, \<open>Search_Properties\<close>: \<open>search_sync_service.py\<close>, its policy, repository
    and the paging of Google (locale \<open>paging_provider\<close>). A call of \<open>process\<close> is a state machine (\<open>worker_step\<close>) and
    \<open>sync_step\<close> interleaves workers with the rest of the program; a succeeded run has every day, a source has one active
    run, and a worker ends. The paging loop is a \<open>partial_function\<close>, which is shown to return for Google.
  \<^item> \<open>Idempotency\<close> (\<open>db/idempotency.py\<close>): \<open>insert_or_replay\<close> and the locale \<open>idempotent_insert\<close>, interpreted for outbox
    events, runs and feedback.
  \<^item> \<open>Operator_Store\<close>, \<open>Operator_Store_Facts\<close>: \<open>persist_detection\<close> stores what the engine found, once, under the lease.
  \<^item> \<open>Run_Workflow\<close>, \<open>Run_Workflow_Facts\<close>, \<open>Run_Properties\<close>: detection runs. The invariant holds under any
    interleaving of workers (step relation \<open>run_step\<close>); a lease protects its owner from the steps of others
    (\<open>rely\<close>), so a run is completed, stopped or free again.
  \<^item> \<open>Feedback\<close>, \<open>Feedback_Facts\<close>, \<open>Feedback_Properties\<close>: \<open>opportunity_feedback_service.py\<close> and the endpoints of
    \<open>opportunity_router.py\<close>. The status events are a log that explains every status, commands run once, and
    a dismissed finding stays away, through the history that detection reads, until its cooldown ends.
  \<^item> \<open>Profiles\<close>, \<open>Profile_Facts\<close>: \<open>product_profile_service.py\<close>. Versions are linear and complete, stale edits are
    refused, and an approved version is what detection reads.
  \<^item> \<open>Asset_Schemas\<close>: \<open>ai_output_schema.py\<close> as validators, \<open>risk_policy.py\<close>.
  \<^item> \<open>Growth_Policies\<close>, \<open>Growth_Store\<close>, \<open>Growth_Plans\<close>, \<open>Growth_Actions\<close>, \<open>Growth_Facts\<close>, \<open>Growth_Commands\<close>,
    \<open>Growth_Properties\<close>: \<open>weekly_growth_policy.py\<close>, \<open>weekly_growth_service.py\<close>, its repository and the bridge to
    drafts. Actions that start are approved, commands run once per key (locale \<open>idempotent_command\<close>), an edit
    withdraws the approval.
  \<^item> \<open>Drafts\<close>, \<open>Edit_Distance\<close>, \<open>Draft_Facts\<close>, \<open>Draft_Properties\<close>: \<open>drafts/services/review.py\<close>, \<open>policies/review.py\<close>,
    \<open>providers/x.py\<close>. The transactions and network calls of all processes interleave as \<open>publication_step\<close>, of which both
    ways to publish are sequences; a command posts once, a posted draft stays posted and on record, and the edit
    distance is minimal.
  \<^item> \<open>Product_Events\<close> (\<open>product_event_service.py\<close>), \<open>Outbox\<close>, \<open>Outbox_Facts\<close> (\<open>db/outbox.py\<close>, \<open>workflows/outbox.py\<close>): the
    lease of an event is exclusive, settled events are final, a claim is fair, a round settles its batch.
  \<^item> \<open>Sessions\<close>, \<open>Session_Facts\<close> (\<open>identity/services/sessions.py\<close>, \<open>api/browser_router.py\<close>): one usable session per
    family, a replay ends the family.

  The theorems that carry a number are the properties of the development; a theorem named \<open>x_witness\<close>
  applies the property \<open>x\<close> to a concrete input on which all its hypotheses hold. Some theorems describe
  defects: a long query aborts a run, escaped terms are missed by the risk check, a rejection revives an
  action, planned actions are not measured, the refresh endpoint hides replays from the service, a source
  that is far behind blocks the daily search schedule, a post
  whose outcome is unknown can be repeated, and an edit after the approval is published.

  \<^bold>\<open>Not modelled.\<close> Clients of other systems (language models, Google Search Console, GitHub, X, mail, object
  storage, the crawler's HTTP) and the code that only forwards to them; HTTP routing and response schemas apart
  from the endpoints named above; the preparation of assets with a language model (\<open>operator_ai_service.py\<close>) and the
  older approval, planning and execution services of \<open>operator/services\<close>, which the growth commands do not call;
  settings, logging and start-up; the DDL of the migrations; read-only reports;
  the claim checks of \<open>risk_policy.py\<close> that are regular expressions; digests
  and evidence records. Isolation is that of serialised transactions: two transactions do not overlap, and a
  sequence of reads without a lock sees one state of the database.
\<close>

end
